(* ===== verification/Royak_Prelude.thy ===== *)
theory Royak_Prelude
  imports Main "HOL-Library.Word" "HOL-Library.Multiset"
begin

text \<open>
  Shared vocabulary of the development: machine integer types, the model of Rust's
  \<open>HashMap\<close>, and the interface (a locale) that every exact-key store of the program offers.

  A \<open>HashMap\<close> is an association list with distinct keys. The order of the list is the
  iteration order, which Rust leaves unspecified: a theorem that quantifies over all maps
  quantifies over all iteration orders as well. Lookups go through \<open>map_of\<close>, so statements
  about contents do not see the order.
\<close>

named_theorems hm_simps \<open>rewrite rules for the hash map model\<close>
named_theorems world_frame \<open>fields an operation of the desired world leaves alone\<close>

type_synonym u8 = "8 word"
type_synonym u16 = "16 word"
type_synonym u32 = "32 word"
type_synonym u64 = "64 word"
type_synonym ('k, 'v) hmap = "('k \<times> 'v) list"
type_synonym 'a result = "string + 'a"

text \<open>A computation that may panic: an out-of-range index, a slice off a character boundary.\<close>

datatype 'a rust = Ret 'a | Panic

fun rust_bind :: "'a rust \<Rightarrow> ('a \<Rightarrow> 'b rust) \<Rightarrow> 'b rust" where
  "rust_bind (Ret x) f = f x"
| "rust_bind Panic f = Panic"

lemma rust_bind_eq_Ret: "rust_bind m f = Ret y \<longleftrightarrow> (\<exists>x. m = Ret x \<and> f x = Ret y)"
  by (cases m) auto

subsection \<open>Hash maps\<close>

definition hm_get :: "('k, 'v) hmap \<Rightarrow> 'k \<Rightarrow> 'v option" where
  "hm_get m k = map_of m k"

fun hm_insert :: "'k \<Rightarrow> 'v \<Rightarrow> ('k, 'v) hmap \<Rightarrow> ('k, 'v) hmap" where
  "hm_insert k v [] = [(k, v)]"
| "hm_insert k v ((k', v') # m) = (if k' = k then (k, v) # m else (k', v') # hm_insert k v m)"

definition hm_remove :: "'k \<Rightarrow> ('k, 'v) hmap \<Rightarrow> ('k, 'v) hmap" where
  "hm_remove k m = filter (\<lambda>p. fst p \<noteq> k) m"

definition hm_contains :: "('k, 'v) hmap \<Rightarrow> 'k \<Rightarrow> bool" where
  "hm_contains m k = (hm_get m k \<noteq> None)"

definition hm_keys :: "('k, 'v) hmap \<Rightarrow> 'k list" where
  "hm_keys m = map fst m"

definition hm_values :: "('k, 'v) hmap \<Rightarrow> 'v list" where
  "hm_values m = map snd m"

text \<open>\<open>get_mut\<close> followed by a mutation: nothing happens when the key is absent.\<close>

definition hm_modify :: "'k \<Rightarrow> ('v \<Rightarrow> 'v) \<Rightarrow> ('k, 'v) hmap \<Rightarrow> ('k, 'v) hmap" where
  "hm_modify k f m = map (\<lambda>(k', v). (k', if k' = k then f v else v)) m"

text \<open>\<open>entry(k).or_insert(v)\<close>: an existing entry wins.\<close>

definition hm_or_insert :: "'k \<Rightarrow> 'v \<Rightarrow> ('k, 'v) hmap \<Rightarrow> ('k, 'v) hmap" where
  "hm_or_insert k v m = (if hm_contains m k then m else hm_insert k v m)"

text \<open>\<open>collect\<close> of key/value pairs into a map: a later pair replaces an earlier one.\<close>

definition hm_extend :: "('k, 'v) hmap \<Rightarrow> ('k \<times> 'v) list \<Rightarrow> ('k, 'v) hmap" where
  "hm_extend m kvs = fold (\<lambda>(k, v) a. hm_insert k v a) kvs m"

abbreviation hm_collect :: "('k \<times> 'v) list \<Rightarrow> ('k, 'v) hmap" where
  "hm_collect kvs \<equiv> hm_extend [] kvs"

definition hm_ok :: "('k, 'v) hmap \<Rightarrow> bool" where
  "hm_ok m = distinct (map fst m)"

lemma hm_get_Nil [simp, hm_simps]: "hm_get [] k = None"
  by (simp add: hm_get_def)

lemma hm_get_Cons [hm_simps]: "hm_get ((k', v) # m) k = (if k' = k then Some v else hm_get m k)"
  by (simp add: hm_get_def)

lemma hm_get_insert [simp, hm_simps]:
  "hm_get (hm_insert k v m) k' = (if k' = k then Some v else hm_get m k')"
  by (induction m) (auto simp: hm_get_def)

lemma hm_get_remove [simp, hm_simps]:
  "hm_get (hm_remove k m) k' = (if k' = k then None else hm_get m k')"
  by (induction m) (auto simp: hm_get_def hm_remove_def)

lemma hm_get_modify [simp, hm_simps]:
  "hm_get (hm_modify k f m) k' = (if k' = k then map_option f (hm_get m k) else hm_get m k')"
  by (induction m) (auto simp: hm_get_def hm_modify_def)

lemma hm_contains_insert [simp, hm_simps]:
  "hm_contains (hm_insert k v m) k' = (k' = k \<or> hm_contains m k')"
  by (simp add: hm_contains_def)

lemma hm_get_or_insert [simp, hm_simps]:
  "hm_get (hm_or_insert k v m) k' =
     (if k' = k \<and> hm_get m k = None then Some v else hm_get m k')"
  by (auto simp: hm_or_insert_def hm_contains_def)

lemma set_fst_hm_insert: "fst ` set (hm_insert k v m) = insert k (fst ` set m)"
  by (induction k v m rule: hm_insert.induct) (auto simp: insert_commute)

lemma hm_ok_Nil [simp, intro]: "hm_ok []"
  by (simp add: hm_ok_def)

lemma hm_ok_insert [simp, intro]: "hm_ok m \<Longrightarrow> hm_ok (hm_insert k v m)"
  by (induction m) (auto simp: hm_ok_def set_fst_hm_insert)

lemma hm_ok_remove [simp, intro]: "hm_ok m \<Longrightarrow> hm_ok (hm_remove k m)"
  by (auto simp: hm_ok_def hm_remove_def intro: distinct_map_filter)

lemma hm_ok_modify [simp, intro]: "hm_ok m \<Longrightarrow> hm_ok (hm_modify k f m)"
  by (simp add: hm_ok_def hm_modify_def split_def comp_def)

lemma hm_ok_or_insert [simp, intro]: "hm_ok m \<Longrightarrow> hm_ok (hm_or_insert k v m)"
  by (simp add: hm_or_insert_def)

lemma hm_ok_extend [simp, intro]: "hm_ok m \<Longrightarrow> hm_ok (hm_extend m kvs)"
  by (induction kvs arbitrary: m) (auto simp: hm_extend_def)

lemma hm_get_Some_in: "hm_get m k = Some v \<Longrightarrow> (k, v) \<in> set m"
  by (simp add: hm_get_def map_of_SomeD)

lemma hm_get_in: "hm_ok m \<Longrightarrow> (k, v) \<in> set m \<Longrightarrow> hm_get m k = Some v"
  by (simp add: hm_get_def hm_ok_def)

lemma hm_get_iff: "hm_ok m \<Longrightarrow> hm_get m k = Some v \<longleftrightarrow> (k, v) \<in> set m"
  using hm_get_Some_in hm_get_in by metis

lemma hm_values_get: "hm_ok m \<Longrightarrow> v \<in> set (hm_values m) \<longleftrightarrow> (\<exists>k. hm_get m k = Some v)"
  by (force simp: hm_values_def hm_get_iff)

lemma hm_remove_all:
  "hm_get (fold hm_remove ks m) k = (if k \<in> set ks then None else hm_get m k)"
  by (induction ks arbitrary: m) auto

lemma hm_extend_Cons [simp]:
  "hm_extend m ((k, v) # kvs) = hm_extend (hm_insert k v m) kvs"
  by (simp add: hm_extend_def)

lemma hm_extend_Nil [simp]: "hm_extend m [] = m"
  by (simp add: hm_extend_def)

subsection \<open>The interface of an exact-key store\<close>

text \<open>
  What the clients of a key-value store rely on: a read after a write of the same key, frames
  for the other keys, and an invariant kept by every operation. \<open>HashMap\<close> provides it below;
  the binary state file's store provides it in its own theory.
\<close>

locale kv_store =
  fixes emp :: "'s" and kget :: "'s \<Rightarrow> 'k \<Rightarrow> 'v option"
    and kput :: "'k \<Rightarrow> 'v \<Rightarrow> 's \<Rightarrow> 's" and kdel :: "'k \<Rightarrow> 's \<Rightarrow> 's"
    and kinv :: "'s \<Rightarrow> bool"
  assumes inv_emp: "kinv emp"
    and inv_put: "kinv s \<Longrightarrow> kinv (kput k v s)"
    and inv_del: "kinv s \<Longrightarrow> kinv (kdel k s)"
    and get_emp: "kget emp k = None"
    and get_put: "kinv s \<Longrightarrow> kget (kput k v s) k' = (if k' = k then Some v else kget s k')"
    and get_del: "kinv s \<Longrightarrow> kget (kdel k s) k' = (if k' = k then None else kget s k')"
begin

definition run_puts :: "('k \<times> 'v) list \<Rightarrow> 's" where
  "run_puts kvs = fold (\<lambda>(k, v) s. kput k v s) kvs emp"

lemma inv_fold_put: "kinv s \<Longrightarrow> kinv (fold (\<lambda>(k, v) s. kput k v s) kvs s)"
  by (induction kvs arbitrary: s) (auto simp: inv_put)

lemma get_fold_put:
  "kinv s \<Longrightarrow> kget (fold (\<lambda>(k, v) s. kput k v s) kvs s) k =
     (case map_of (rev kvs) k of Some v \<Rightarrow> Some v | None \<Rightarrow> kget s k)"
  by (induction kvs arbitrary: s)
    (auto simp: inv_put get_put map_add_def split: option.splits)

theorem run_puts_last_wins: "kinv (run_puts kvs) \<and> kget (run_puts kvs) k = map_of (rev kvs) k"
  by (auto simp: run_puts_def inv_fold_put inv_emp get_fold_put get_emp split: option.splits)

lemma put_del_get: "kinv s \<Longrightarrow> kget (kdel k (kput k v s)) k' = (if k' = k then None else kget s k')"
  by (simp add: get_del get_put inv_put)

lemma put_put_get: "kinv s \<Longrightarrow> kget (kput k v (kput k w s)) k' = kget (kput k v s) k'"
  by (simp add: get_put inv_put)

end

interpretation hm: kv_store "[]" hm_get hm_insert hm_remove hm_ok
  by unfold_locales auto

lemma hm_collect_get: "hm_get (hm_collect kvs) k = map_of (rev kvs) k"
  using hm.run_puts_last_wins[of kvs k] by (simp add: hm.run_puts_def hm_extend_def)

subsection \<open>Ordered maps\<close>

text \<open>
  A \<open>BTreeMap\<close> (and the object of a JSON value) is an association list in ascending key order.
\<close>

fun bt_insert :: "'k::linorder \<Rightarrow> 'v \<Rightarrow> ('k \<times> 'v) list \<Rightarrow> ('k \<times> 'v) list" where
  "bt_insert k v [] = [(k, v)]"
| "bt_insert k v ((k', v') # m) =
     (if k < k' then (k, v) # (k', v') # m else if k = k' then (k, v) # m else (k', v') # bt_insert k v m)"

definition bt_ok :: "('k::linorder \<times> 'v) list \<Rightarrow> bool" where
  "bt_ok m = sorted_wrt (<) (map fst m)"

definition bt_collect :: "('k::linorder \<times> 'v) list \<Rightarrow> ('k \<times> 'v) list" where
  "bt_collect kvs = fold (\<lambda>(k, v) m. bt_insert k v m) kvs []"

lemma bt_ok_Nil [simp]: "bt_ok []"
  by (simp add: bt_ok_def)

lemma bt_ok_hm_ok: "bt_ok m \<Longrightarrow> hm_ok m"
  by (simp add: bt_ok_def hm_ok_def strict_sorted_iff)

lemma bt_insert_keys: "fst ` set (bt_insert k v m) = insert k (fst ` set m)"
  by (induction k v m rule: bt_insert.induct) auto

lemma bt_ok_insert [simp]: "bt_ok m \<Longrightarrow> bt_ok (bt_insert k v m)"
proof (induction k v m rule: bt_insert.induct)
  case (2 k v k' v' m)
  then show ?case
    using bt_insert_keys[of k v m] by (auto simp: bt_ok_def dest: less_trans)
qed (simp add: bt_ok_def)

lemma bt_get_insert [simp]: "hm_get (bt_insert k v m) i = (if i = k then Some v else hm_get m i)"
  by (induction k v m rule: bt_insert.induct) (auto simp: hm_get_Cons)

lemma set_bt_insert: "set (bt_insert k v m) \<subseteq> insert (k, v) (set m)"
  by (induction k v m rule: bt_insert.induct) auto

lemma bt_ok_filter: "bt_ok m \<Longrightarrow> bt_ok (filter P m)"
  by (induction m) (auto simp: bt_ok_def)

lemma bt_ok_remove [simp]: "bt_ok m \<Longrightarrow> bt_ok (hm_remove k m)"
  by (simp add: hm_remove_def bt_ok_filter)

interpretation bt: kv_store "[]" hm_get bt_insert hm_remove bt_ok
  by unfold_locales auto

lemma bt_collect_get: "hm_get (bt_collect kvs) k = map_of (rev kvs) k"
  using bt.run_puts_last_wins[of kvs k] by (simp add: bt.run_puts_def bt_collect_def)

lemma bt_collect_ok [simp]: "bt_ok (bt_collect kvs)"
  using bt.run_puts_last_wins[of kvs] by (simp add: bt.run_puts_def bt_collect_def)

subsection \<open>The interface of an operation that keeps an invariant\<close>

text \<open>
  An operation with an argument on a state, and an invariant of that state it keeps: then every run of the
  operation keeps it. The components interpret it on their own operations.
\<close>

locale state_op =
  fixes inv :: "'s \<Rightarrow> bool" and act :: "'i \<Rightarrow> 's \<Rightarrow> 's"
  assumes keeps: "inv s \<Longrightarrow> inv (act i s)"
begin

lemma run_keeps: "inv s \<Longrightarrow> inv (fold act is s)"
  by (induction "is" arbitrary: s) (auto simp: keeps)

lemma run_prefix: "inv s \<Longrightarrow> inv (fold act (take n is) s)"
  by (rule run_keeps)

end

subsection \<open>Lists and options\<close>

lemma find_Some_iff_mem:
  "find P xs = Some x \<Longrightarrow> x \<in> set xs \<and> P x"
  by (induction xs) (auto split: if_splits)

lemma find_None_iff_all: "find P xs = None \<longleftrightarrow> (\<forall>x \<in> set xs. \<not> P x)"
  by (induction xs) auto

definition filter_map :: "('a \<Rightarrow> 'b option) \<Rightarrow> 'a list \<Rightarrow> 'b list" where
  "filter_map f xs = List.map_filter f xs"

lemma filter_map_simps [simp]:
  "filter_map f [] = []"
  "filter_map f (x # xs) = (case f x of None \<Rightarrow> filter_map f xs | Some y \<Rightarrow> y # filter_map f xs)"
  by (auto simp: filter_map_def map_filter_simps split: option.splits)

lemma set_filter_map: "set (filter_map f xs) = {y. \<exists>x \<in> set xs. f x = Some y}"
  by (induction xs) (auto split: option.splits)

lemma filter_map_Nil_iff: "filter_map f xs = [] \<longleftrightarrow> (\<forall>x \<in> set xs. f x = None)"
  by (induction xs) (auto split: option.splits)

definition opt_or :: "'a option \<Rightarrow> 'a option \<Rightarrow> 'a option" where
  "opt_or a b = (case a of Some x \<Rightarrow> Some x | None \<Rightarrow> b)"

definition unwrap_or :: "'a option \<Rightarrow> 'a \<Rightarrow> 'a" where
  "unwrap_or a d = (case a of Some x \<Rightarrow> x | None \<Rightarrow> d)"

lemma unwrap_or_simps [simp]: "unwrap_or (Some x) d = x" "unwrap_or None d = d"
  by (simp_all add: unwrap_or_def)

lemma opt_or_simps [simp]: "opt_or (Some x) b = Some x" "opt_or None b = b"
  by (simp_all add: opt_or_def)

definition head_opt :: "'a list \<Rightarrow> 'a option" where
  "head_opt xs = (case xs of [] \<Rightarrow> None | x # _ \<Rightarrow> Some x)"

lemma head_opt_simps [simp]: "head_opt [] = None" "head_opt (x # xs) = Some x"
  by (simp_all add: head_opt_def)

end
