(* ===== verification/Rust_Str.thy ===== *)
theory Rust_Str
  imports Royak_Prelude
begin

text \<open>
  The \<open>str\<close> operations of the Rust standard library that the program uses. A Rust string is its
  UTF-8 byte sequence, and an Isabelle \<open>string\<close> is a list of 8-bit characters, so a \<open>string\<close>
  here is exactly the byte sequence. Decimal printing and parsing of unsigned integers, hexadecimal,
  splitting, trimming, prefixes and suffixes; the lemmas are the round trips and the shape facts
  that the parsers of the components rest on.
\<close>

named_theorems str_simps \<open>evaluation rules for the string operations\<close>

subsection \<open>Prefixes, suffixes, searching\<close>

definition starts_with :: "string \<Rightarrow> string \<Rightarrow> bool" where
  "starts_with s p = (take (length p) s = p)"

definition ends_with :: "string \<Rightarrow> string \<Rightarrow> bool" where
  "ends_with s p = starts_with (rev s) (rev p)"

definition strip_prefix :: "string \<Rightarrow> string \<Rightarrow> string option" where
  "strip_prefix s p = (if starts_with s p then Some (drop (length p) s) else None)"

definition strip_suffix :: "string \<Rightarrow> string \<Rightarrow> string option" where
  "strip_suffix s p = map_option rev (strip_prefix (rev s) (rev p))"

text \<open>\<open>s.contains(p)\<close>: some suffix of \<open>s\<close> starts with \<open>p\<close>.\<close>

fun str_contains :: "string \<Rightarrow> string \<Rightarrow> bool" where
  "str_contains [] p = (p = [])"
| "str_contains (c # s) p = (starts_with (c # s) p \<or> str_contains s p)"

text \<open>\<open>trim_start_matches\<close> / \<open>trim_end_matches\<close> with a non-empty pattern, as many times as it fits.\<close>

function trim_start_matches :: "string \<Rightarrow> string \<Rightarrow> string" where
  "trim_start_matches p s =
     (if p \<noteq> [] \<and> starts_with s p \<and> s \<noteq> [] then trim_start_matches p (drop (length p) s) else s)"
  by pat_completeness auto
termination
  by (relation "measure (\<lambda>(p, s). length s)") auto

declare trim_start_matches.simps [simp del]

definition trim_end_matches :: "string \<Rightarrow> string \<Rightarrow> string" where
  "trim_end_matches p s = rev (trim_start_matches (rev p) (rev s))"

text \<open>The UTF-8 encodings of the code points with the Unicode \<open>White_Space\<close> property.\<close>

definition white_spaces :: "string list" where
  "white_spaces =
     [[CHR 0x09], [CHR 0x0A], [CHR 0x0B], [CHR 0x0C], [CHR 0x0D], [CHR 0x20],
      [CHR 0xC2, CHR 0x85], [CHR 0xC2, CHR 0xA0], [CHR 0xE1, CHR 0x9A, CHR 0x80]]
     @ map (\<lambda>n. [CHR 0xE2, CHR 0x80, char_of n]) [0x80..<0x8B]
     @ [[CHR 0xE2, CHR 0x80, CHR 0xA8], [CHR 0xE2, CHR 0x80, CHR 0xA9],
        [CHR 0xE2, CHR 0x80, CHR 0xAF], [CHR 0xE2, CHR 0x81, CHR 0x9F],
        [CHR 0xE3, CHR 0x80, CHR 0x80]]"

definition strip_any :: "string list \<Rightarrow> string \<Rightarrow> string option" where
  "strip_any ps s = map_option (\<lambda>p. drop (length p) s) (find (\<lambda>p. p \<noteq> [] \<and> starts_with s p) ps)"

lemma strip_any_shorter: "strip_any ps s = Some t \<Longrightarrow> length t < length s"
  by (auto simp: strip_any_def starts_with_def find_Some_iff dest!: find_Some_iff_mem)
    (metis diff_less length_0_conv length_greater_0_conv length_take min_0L take_eq_Nil)

function trim_any :: "string list \<Rightarrow> string \<Rightarrow> string" where
  "trim_any ps s = (case strip_any ps s of None \<Rightarrow> s | Some t \<Rightarrow> trim_any ps t)"
  by pat_completeness auto
termination
  by (relation "measure (\<lambda>(ps, s). length s)") (auto dest: strip_any_shorter)

declare trim_any.simps [simp del]

definition trim_start :: "string \<Rightarrow> string" where
  "trim_start s = trim_any white_spaces s"

definition trim_end :: "string \<Rightarrow> string" where
  "trim_end s = rev (trim_any (map rev white_spaces) (rev s))"

definition trim :: "string \<Rightarrow> string" where
  "trim s = trim_end (trim_start s)"

subsection \<open>Splitting and joining\<close>

text \<open>\<open>s.split(c)\<close>: always at least one piece.\<close>

fun str_split :: "char \<Rightarrow> string \<Rightarrow> string list" where
  "str_split c [] = [[]]"
| "str_split c (x # xs) =
     (if x = c then [] # str_split c xs
      else (case str_split c xs of [] \<Rightarrow> [[x]] | p # ps \<Rightarrow> (x # p) # ps))"

fun join :: "string \<Rightarrow> string list \<Rightarrow> string" where
  "join sep [] = []"
| "join sep [s] = s"
| "join sep (s # t # ss) = s @ sep @ join sep (t # ss)"

text \<open>\<open>split_once\<close> at the first, \<open>rsplit_once\<close> at the last occurrence of a byte.\<close>

fun split_once :: "char \<Rightarrow> string \<Rightarrow> (string \<times> string) option" where
  "split_once c [] = None"
| "split_once c (x # xs) =
     (if x = c then Some ([], xs) else map_option (\<lambda>(a, b). (x # a, b)) (split_once c xs))"

definition rsplit_once :: "char \<Rightarrow> string \<Rightarrow> (string \<times> string) option" where
  "rsplit_once c s = map_option (\<lambda>(a, b). (rev b, rev a)) (split_once c (rev s))"

abbreviation CRLF :: string where
  "CRLF \<equiv> [CHR 0x0D, CHR 0x0A]"

text \<open>\<open>s.lines()\<close>: pieces ended by a newline, a trailing carriage return removed from each piece that
  is followed by a newline, and no final empty piece.\<close>

definition strip_cr :: "string \<Rightarrow> string" where
  "strip_cr l = unwrap_or (strip_suffix l [CHR 0x0D]) l"

definition lines :: "string \<Rightarrow> string list" where
  "lines s =
     (let ps = str_split (CHR 0x0A) s
      in map strip_cr (butlast ps) @ (if last ps = [] then [] else [last ps]))"

text \<open>\<open>s.split(p)\<close> for a non-empty string pattern: leftmost, non-overlapping occurrences.\<close>

function split_at :: "string \<Rightarrow> string \<Rightarrow> string \<Rightarrow> string list" where
  "split_at p acc [] = [rev acc]"
| "split_at p acc (c # s) =
     (if p \<noteq> [] \<and> starts_with (c # s) p then rev acc # split_at p [] (drop (length p) (c # s))
      else split_at p (c # acc) s)"
  by pat_completeness auto
termination
  by (relation "measure (\<lambda>(p, acc, s). length s)") auto

definition str_split_on :: "string \<Rightarrow> string \<Rightarrow> string list" where
  "str_split_on p s = split_at p [] s"

subsection \<open>ASCII case\<close>

definition ascii_lower :: "char \<Rightarrow> char" where
  "ascii_lower c =
     (let n = of_char c :: nat in if 65 \<le> n \<and> n \<le> 90 then char_of (n + 32) else c)"

definition eq_ignore_ascii_case :: "string \<Rightarrow> string \<Rightarrow> bool" where
  "eq_ignore_ascii_case a b = (map ascii_lower a = map ascii_lower b)"

subsection \<open>Decimal numbers\<close>

definition digit_char :: "nat \<Rightarrow> char" where
  "digit_char d = char_of (48 + d)"

definition digit_val :: "char \<Rightarrow> nat option" where
  "digit_val c =
     (let n = of_char c :: nat in if 48 \<le> n \<and> n \<le> 57 then Some (n - 48) else None)"

fun show_nat :: "nat \<Rightarrow> string" where
  "show_nat n = (if n < 10 then [digit_char n] else show_nat (n div 10) @ [digit_char (n mod 10)])"

declare show_nat.simps [simp del]

abbreviation show_word :: "'a::len word \<Rightarrow> string" where
  "show_word w \<equiv> show_nat (unat w)"

fun parse_digits :: "nat \<Rightarrow> string \<Rightarrow> nat option" where
  "parse_digits acc [] = Some acc"
| "parse_digits acc (c # cs) =
     (case digit_val c of None \<Rightarrow> None | Some d \<Rightarrow> parse_digits (10 * acc + d) cs)"

text \<open>\<open>str::parse\<close> for an unsigned type of the given width: an optional plus sign, at least one digit,
  nothing else, and no overflow.\<close>

definition parse_unsigned :: "nat \<Rightarrow> string \<Rightarrow> nat option" where
  "parse_unsigned w s =
     (let t = (case s of c # cs \<Rightarrow> if c = CHR ''+'' then cs else s | [] \<Rightarrow> [])
      in if t = [] then None
         else (case parse_digits 0 t of None \<Rightarrow> None
               | Some n \<Rightarrow> if n < 2 ^ w then Some n else None))"

definition parse_u16 :: "string \<Rightarrow> u16 option" where
  "parse_u16 s = map_option of_nat (parse_unsigned 16 s)"

definition parse_u32 :: "string \<Rightarrow> u32 option" where
  "parse_u32 s = map_option of_nat (parse_unsigned 32 s)"

definition parse_u64 :: "string \<Rightarrow> u64 option" where
  "parse_u64 s = map_option of_nat (parse_unsigned 64 s)"

subsection \<open>Hexadecimal\<close>

definition hex_char :: "nat \<Rightarrow> char" where
  "hex_char d = (if d < 10 then char_of (48 + d) else char_of (87 + d))"

definition hex_val :: "char \<Rightarrow> nat option" where
  "hex_val c =
     (let n = of_char c :: nat
      in if 48 \<le> n \<and> n \<le> 57 then Some (n - 48)
         else if 97 \<le> n \<and> n \<le> 102 then Some (n - 87)
         else if 65 \<le> n \<and> n \<le> 70 then Some (n - 55) else None)"

text \<open>\<open>format!("{b:02x}")\<close> of every byte.\<close>

definition hex_of_bytes :: "string \<Rightarrow> string" where
  "hex_of_bytes bs =
     concat (map (\<lambda>b. let n = of_char b :: nat in [hex_char (n div 16), hex_char (n mod 16)]) bs)"

text \<open>\<open>s.replace(c, t)\<close> for a one-byte pattern.\<close>

definition replace_char :: "char \<Rightarrow> string \<Rightarrow> string \<Rightarrow> string" where
  "replace_char c t s = concat (map (\<lambda>x. if x = c then t else [x]) s)"

subsection \<open>UTF-8\<close>

definition cont_byte :: "char \<Rightarrow> bool" where
  "cont_byte c = (let n = of_char c :: nat in 0x80 \<le> n \<and> n \<le> 0xBF)"

definition byte_in :: "nat \<Rightarrow> nat \<Rightarrow> char \<Rightarrow> bool" where
  "byte_in lo hi c = (let n = of_char c :: nat in lo \<le> n \<and> n \<le> hi)"

text \<open>The well-formed byte sequences of the Unicode standard (no overlong forms, no surrogates).\<close>

definition utf8_lead3 :: "char \<Rightarrow> char \<Rightarrow> bool" where
  "utf8_lead3 a b =
     (byte_in 0xE0 0xEF a \<and>
      byte_in (if of_char a = (0xE0::nat) then 0xA0 else 0x80)
              (if of_char a = (0xED::nat) then 0x9F else 0xBF) b)"

definition utf8_lead4 :: "char \<Rightarrow> char \<Rightarrow> bool" where
  "utf8_lead4 a b =
     (byte_in 0xF0 0xF4 a \<and>
      byte_in (if of_char a = (0xF0::nat) then 0x90 else 0x80)
              (if of_char a = (0xF4::nat) then 0x8F else 0xBF) b)"

fun utf8_valid :: "string \<Rightarrow> bool" where
  "utf8_valid [] = True"
| "utf8_valid [a] = byte_in 0 0x7F a"
| "utf8_valid [a, b] =
     (if byte_in 0 0x7F a then utf8_valid [b] else byte_in 0xC2 0xDF a \<and> cont_byte b)"
| "utf8_valid [a, b, c] =
     (if byte_in 0 0x7F a then utf8_valid [b, c]
      else if byte_in 0xC2 0xDF a then cont_byte b \<and> utf8_valid [c]
      else utf8_lead3 a b \<and> cont_byte c)"
| "utf8_valid (a # b # c # d # s) =
     (if byte_in 0 0x7F a then utf8_valid (b # c # d # s)
      else if byte_in 0xC2 0xDF a then cont_byte b \<and> utf8_valid (c # d # s)
      else if byte_in 0xE0 0xEF a then utf8_lead3 a b \<and> cont_byte c \<and> utf8_valid (d # s)
      else utf8_lead4 a b \<and> cont_byte c \<and> cont_byte d \<and> utf8_valid s)"

text \<open>
  \<open>String::from_utf8_lossy\<close>: each maximal ill-formed prefix becomes U+FFFD. \<open>utf8_bad\<close> is the length
  of that prefix: the bytes that could still start a character, at least one.
\<close>

definition utf8_bad :: "string \<Rightarrow> nat" where
  "utf8_bad s =
     (case s of
        a # b # c # _ \<Rightarrow>
          if utf8_lead4 a b then (if cont_byte c then 3 else 2) else if utf8_lead3 a b then 2 else 1
      | [a, b] \<Rightarrow> if utf8_lead4 a b \<or> utf8_lead3 a b then 2 else 1
      | _ \<Rightarrow> 1)"

definition utf8_char_len :: "string \<Rightarrow> nat" where
  "utf8_char_len s =
     (if s \<noteq> [] \<and> utf8_valid (take 1 s) then 1
      else if 2 \<le> length s \<and> utf8_valid (take 2 s) then 2
      else if 3 \<le> length s \<and> utf8_valid (take 3 s) then 3
      else if 4 \<le> length s \<and> utf8_valid (take 4 s) then 4 else 0)"

function utf8_lossy :: "string \<Rightarrow> string" where
  "utf8_lossy s =
     (if s = [] then []
      else if utf8_char_len s \<noteq> 0 then take (utf8_char_len s) s @ utf8_lossy (drop (utf8_char_len s) s)
      else [CHR 0xEF, CHR 0xBF, CHR 0xBD] @ utf8_lossy (drop (utf8_bad s) s))"
  by pat_completeness auto
termination
proof (relation "measure length")
  fix s :: string assume "s \<noteq> []" "\<not> utf8_char_len s \<noteq> 0"
  moreover have "utf8_bad s \<noteq> 0" by (auto simp: utf8_bad_def split: list.splits)
  ultimately show "(drop (utf8_bad s) s, s) \<in> measure length" by simp
qed auto

declare utf8_lossy.simps [simp del]

text \<open>\<open>&s[i..j]\<close>: panics out of range and off a character boundary.\<close>

definition is_char_boundary :: "string \<Rightarrow> nat \<Rightarrow> bool" where
  "is_char_boundary s i = (i = length s \<or> i < length s \<and> \<not> cont_byte (s ! i))"

definition str_slice :: "string \<Rightarrow> nat \<Rightarrow> nat \<Rightarrow> string rust" where
  "str_slice s i j =
     (if i \<le> j \<and> j \<le> length s \<and> is_char_boundary s i \<and> is_char_boundary s j
      then Ret (take (j - i) (drop i s)) else Panic)"

lemma utf8_char_len_valid:
  assumes "utf8_valid s" and "s \<noteq> []"
  shows "utf8_char_len s \<noteq> 0 \<and> utf8_valid (drop (utf8_char_len s) s)"
  using assms
  by (cases s rule: utf8_valid.cases)
    (auto simp: utf8_char_len_def utf8_lead3_def utf8_lead4_def byte_in_def Let_def split: if_splits)

lemma utf8_lossy_valid: "utf8_valid s \<Longrightarrow> utf8_lossy s = s"
proof (induction "length s" arbitrary: s rule: less_induct)
  case less
  show ?case
  proof (cases "s = []")
    case False
    with less.prems have n: "utf8_char_len s \<noteq> 0" "utf8_valid (drop (utf8_char_len s) s)"
      using utf8_char_len_valid by blast+
    with False less.hyps[of "drop (utf8_char_len s) s"] show ?thesis by (simp add: utf8_lossy.simps[of s])
  qed (simp add: utf8_lossy.simps)
qed

lemma utf8_valid_ascii: "(\<And>c. c \<in> set s \<Longrightarrow> byte_in 0 0x7F c) \<Longrightarrow> utf8_valid s"
  by (induction s rule: utf8_valid.induct) auto

subsection \<open>Lemmas\<close>

lemma starts_with_append [simp, str_simps]: "starts_with (p @ s) p"
  by (simp add: starts_with_def)

lemma strip_prefix_append [simp, str_simps]: "strip_prefix (p @ s) p = Some s"
  by (simp add: strip_prefix_def)

lemma strip_prefix_Some: "strip_prefix s p = Some t \<longleftrightarrow> s = p @ t"
  by (auto simp: strip_prefix_def starts_with_def) (metis append_take_drop_id)

lemma starts_with_iff: "starts_with s p \<longleftrightarrow> (\<exists>t. s = p @ t)"
  by (auto simp: starts_with_def) (metis append_take_drop_id)

lemma strip_suffix_append [simp, str_simps]: "strip_suffix (s @ p) p = Some s"
  by (simp add: strip_suffix_def)

lemma ends_with_append [simp, str_simps]: "ends_with (s @ p) p"
  by (simp add: ends_with_def)

lemma str_split_not_Nil [simp]: "str_split c s \<noteq> []"
  by (induction s) (auto split: list.splits)

lemma str_split_no_sep: "c \<notin> set s \<Longrightarrow> str_split c s = [s]"
  by (induction s) auto

lemma str_split_append: "c \<notin> set a \<Longrightarrow> str_split c (a @ c # b) = a # str_split c b"
  by (induction a) auto

lemma join_str_split: "join [c] (str_split c s) = s"
proof (induction s)
  case (Cons x xs)
  then show ?case
    by (cases "str_split c xs" rule: list.exhaust; cases "tl (str_split c xs)")
      (auto split: list.splits)
qed simp

lemma split_at_join: "p \<noteq> [] \<Longrightarrow> join p (split_at p acc s) = rev acc @ s"
proof (induction p acc s rule: split_at.induct)
  case (2 p acc c s)
  show ?case
  proof (cases "starts_with (c # s) p")
    case True
    then have "c # s = p @ drop (length p) (c # s)"
      by (metis append_take_drop_id starts_with_def)
    with True "2.IH"(1) "2.prems" show ?thesis
      by (cases "split_at p [] (drop (length p) (c # s))") (auto elim: split_at.elims)
  next
    case False
    with "2.IH"(2) "2.prems" show ?thesis by simp
  qed
qed simp

lemma str_split_on_join: "p \<noteq> [] \<Longrightarrow> join p (str_split_on p s) = s"
  by (simp add: str_split_on_def split_at_join)

lemma split_once_append: "c \<notin> set a \<Longrightarrow> split_once c (a @ c # b) = Some (a, b)"
  by (induction a) auto

lemma split_once_Some: "split_once c s = Some (a, b) \<Longrightarrow> s = a @ c # b \<and> c \<notin> set a"
  by (induction s arbitrary: a) (auto split: if_splits)

lemma rsplit_once_append: "c \<notin> set b \<Longrightarrow> rsplit_once c (a @ c # b) = Some (a, b)"
  using split_once_append[of c "rev b" "rev a"] by (simp add: rsplit_once_def)

lemma digit_val_digit_char [simp]: "d < 10 \<Longrightarrow> digit_val (digit_char d) = Some d"
  by (simp add: digit_val_def digit_char_def Let_def)

lemma parse_digits_append:
  "parse_digits acc (a @ b) =
     (case parse_digits acc a of None \<Rightarrow> None | Some n \<Rightarrow> parse_digits n b)"
  by (induction a arbitrary: acc) (auto split: option.splits)

lemma parse_digits_show_nat: "parse_digits 0 (show_nat n) = Some n"
proof (induction n rule: show_nat.induct)
  case (1 n)
  show ?case
  proof (cases "n < 10")
    case True
    then show ?thesis by (simp add: show_nat.simps[of n])
  next
    case False
    with "1.IH" have "parse_digits 0 (show_nat (n div 10)) = Some (n div 10)" by simp
    with False show ?thesis
      by (simp add: show_nat.simps[of n] parse_digits_append)
  qed
qed

lemma show_nat_digits: "c \<in> set (show_nat n) \<Longrightarrow> digit_val c \<noteq> None"
proof (induction n rule: show_nat.induct)
  case (1 n)
  then show ?case
    by (cases "n < 10") (auto simp: show_nat.simps[of n])
qed

lemma show_nat_not_Nil [simp]: "show_nat n \<noteq> []"
  by (simp add: show_nat.simps[of n])

lemma show_nat_no_char: "digit_val c = None \<Longrightarrow> c \<notin> set (show_nat n)"
  using show_nat_digits by blast

lemma show_nat_hd_not_plus: "show_nat n = c # cs \<Longrightarrow> c \<noteq> CHR ''+''"
  using show_nat_digits[of c n] by (auto simp: digit_val_def)

lemma parse_unsigned_show: "n < 2 ^ w \<Longrightarrow> parse_unsigned w (show_nat n) = Some n"
  using show_nat_hd_not_plus[of n] parse_digits_show_nat[of n]
  by (cases "show_nat n") (auto simp: parse_unsigned_def)

lemma show_nat_inject: "show_nat a = show_nat b \<longleftrightarrow> a = b"
  by (metis option.inject parse_digits_show_nat)

lemma unat_bound: "unat (w :: 'a::len word) < 2 ^ LENGTH('a)"
  by (rule unsigned_less)

lemma parse_u16_show [simp, str_simps]: "parse_u16 (show_word w) = Some w"
  using unat_bound[of w] by (simp add: parse_u16_def parse_unsigned_show)

lemma parse_u32_show [simp, str_simps]: "parse_u32 (show_word w) = Some w"
  using unat_bound[of w] by (simp add: parse_u32_def parse_unsigned_show)

lemma parse_u64_show [simp, str_simps]: "parse_u64 (show_word w) = Some w"
  using unat_bound[of w] by (simp add: parse_u64_def parse_unsigned_show)

lemma hex_val_hex_char [simp]: "d < 16 \<Longrightarrow> hex_val (hex_char d) = Some d"
  by (auto simp: hex_val_def hex_char_def Let_def)

lemma hex_of_bytes_simps [simp]:
  "hex_of_bytes [] = []"
  "hex_of_bytes (b # bs) = hex_char (of_char b div 16) # hex_char (of_char b mod 16) # hex_of_bytes bs"
  by (simp_all add: hex_of_bytes_def Let_def)

lemma length_hex_of_bytes [simp]: "length (hex_of_bytes bs) = 2 * length bs"
  by (induction bs) auto

lemma of_char_less_256: "(of_char c :: nat) < 256"
  using of_char_mod_256[of c] by (metis mod_less_divisor zero_less_numeral)

lemma unat_of_char_u8 [simp]: "unat (of_char c :: u8) = of_char c"
proof -
  have "(of_char c :: u8) = of_nat (of_char c)" by (simp add: of_nat_of_char)
  then show ?thesis using of_char_less_256[of c] by (simp add: unat_of_nat)
qed

lemma of_char_byte [simp]: "(of_char (char_of (unat w)) :: u8) = w"
proof -
  have "(of_char (char_of (unat w)) :: u8) = of_nat (of_char (char_of (unat w)))" by (simp only: of_nat_of_char)
  also have "\<dots> = of_nat (unat w mod 256)" by (simp only: of_char_of)
  also have "unat w mod 256 = unat w" using unat_bound[of w] by simp
  finally show ?thesis by simp
qed

lemma of_char_of_small [simp]: "n < 256 \<Longrightarrow> (of_char (char_of n) :: u8) = of_nat n"
  using of_char_byte[of "of_nat n"] by (simp add: unat_of_nat)

lemma starts_with_length: "starts_with s p \<Longrightarrow> length p \<le> length s"
proof -
  assume "starts_with s p"
  then have "length (take (length p) s) = length p" by (simp add: starts_with_def)
  then show ?thesis by simp
qed

lemma starts_with_append_left: "length p \<le> length s \<Longrightarrow> starts_with (s @ t) p = starts_with s p"
  by (simp add: starts_with_def)

lemma str_contains_prefix: "starts_with s p \<Longrightarrow> str_contains s p"
  by (cases s) (auto simp: starts_with_def)

lemma str_contains_append: "str_contains (p @ q @ x) q"
  by (induction p) (simp_all add: str_contains_prefix)

lemma lines_append: "CHR 0x0A \<notin> set a \<Longrightarrow> lines (a @ CHR 0x0A # b) = strip_cr a # lines b"
  by (simp add: lines_def str_split_append Let_def)

lemma strip_cr_crlf: "strip_cr (a @ [CHR 0x0D]) = a"
  by (simp add: strip_cr_def)

lemma lines_crlf: "CHR 0x0A \<notin> set a \<Longrightarrow> lines (a @ CRLF @ b) = a # lines b"
  using lines_append[of "a @ [CHR 0x0D]" b] by (simp add: strip_cr_crlf)

lemma strip_any_space: "strip_any white_spaces (CHR '' '' # s) = Some s"
  by (simp add: strip_any_def white_spaces_def starts_with_def)

lemma trim_space: "trim (CHR '' '' # s) = trim s"
  by (simp add: trim_def trim_start_def trim_any.simps[of white_spaces "CHR '' '' # s"] strip_any_space)

lemma white_space_ends: "p \<in> set white_spaces \<Longrightarrow> hex_val (hd p) = None \<and> hex_val (last p) = None \<and> p \<noteq> []"
proof -
  have "list_all (\<lambda>p. hex_val (hd p) = None \<and> hex_val (last p) = None \<and> p \<noteq> []) white_spaces"
    by (simp add: white_spaces_def upt_rec[of "numeral _" "numeral _"] hex_val_def)
  then show "p \<in> set white_spaces \<Longrightarrow> ?thesis" by (simp add: list_all_iff)
qed

lemma strip_any_None:
  assumes "\<And>p. p \<in> set ps \<Longrightarrow> p \<noteq> [] \<and> hex_val (hd p) = None" and "\<And>c. c \<in> set s \<Longrightarrow> hex_val c \<noteq> None"
  shows "strip_any ps s = None"
proof -
  have "\<not> (p \<noteq> [] \<and> starts_with s p)" if "p \<in> set ps" for p
  proof
    assume "p \<noteq> [] \<and> starts_with s p"
    then have "hd p \<in> set s" by (auto simp: starts_with_iff)
    with assms that show False by blast
  qed
  then show ?thesis by (simp add: strip_any_def find_None_iff_all)
qed

lemma trim_hex: "(\<And>c. c \<in> set s \<Longrightarrow> hex_val c \<noteq> None) \<Longrightarrow> trim s = s"
proof -
  assume d: "\<And>c. c \<in> set s \<Longrightarrow> hex_val c \<noteq> None"
  have "strip_any white_spaces s = None" using d white_space_ends by (intro strip_any_None) auto
  moreover have "strip_any (map rev white_spaces) (rev s) = None"
    using d white_space_ends by (intro strip_any_None) (auto simp: hd_rev)
  ultimately show ?thesis by (simp add: trim_def trim_start_def trim_end_def trim_any.simps)
qed

lemma hex_val_digit: "digit_val c \<noteq> None \<Longrightarrow> hex_val c \<noteq> None"
  by (auto simp: digit_val_def hex_val_def Let_def split: if_splits)

lemma trim_show_nat: "trim (show_nat n) = show_nat n"
  using show_nat_digits hex_val_digit by (intro trim_hex) blast

end
