(* ===== verification/Float32.thy ===== *)
theory Float32
  imports Rust_Str Complex_Main
begin

text \<open>
  IEEE-754 arithmetic as the program uses it. A float is NaN, a signed infinity, a signed zero or a
  non-zero rational; every arithmetic operation computes the exact rational result and rounds it to
  the nearest binary32 value, ties to even, with overflow to infinity and gradual underflow. A
  binary64 value that the program only receives (from a parsed document) and narrows with
  \<open>as f32\<close> has the same type. Everything is executable on rationals. The lemmas show that rounding
  is monotone and exact on integers up to \<open>2 ^ 24\<close>, which is what the scaling decisions rest on.
\<close>

datatype flt = NaN | Inf bool | Zero bool | Num rat
  \<comment> \<open>the boolean is the sign bit, \<open>True\<close> for negative\<close>

type_synonym f32 = flt

subsection \<open>Rounding\<close>

definition round_ne :: "rat \<Rightarrow> int" where
  "round_ne x =
     (let f = \<lfloor>x\<rfloor>; r = x - of_int f
      in if r < 1 / 2 then f else if 1 / 2 < r then f + 1 else if even f then f else f + 1)"

function log2_int :: "int \<Rightarrow> int" where
  "log2_int n = (if n < 2 then 0 else 1 + log2_int (n div 2))"
  by pat_completeness auto
termination
  by (relation "measure nat") auto

declare log2_int.simps [simp del]

definition ilog2 :: "rat \<Rightarrow> int" where
  "ilog2 q =
     (let (a, b) = quotient_of q; e = log2_int a - log2_int b
      in if q < 2 powi e then e - 1 else e)"

definition ulp32 :: "rat \<Rightarrow> rat" where
  "ulp32 a = 2 powi (max (ilog2 a) (-126) - 23)"

definition rnd32 :: "rat \<Rightarrow> rat" where
  "rnd32 a = of_int (round_ne (a / ulp32 a)) * ulp32 a"

definition mk_f32 :: "bool \<Rightarrow> rat \<Rightarrow> f32" where
  "mk_f32 s a =
     (let v = rnd32 a
      in if 2 ^ 128 \<le> v then Inf s else if v = 0 then Zero s else Num (if s then - v else v))"

text \<open>Round an exact result; an exact zero keeps the sign the operation prescribes.\<close>

definition f32_of_rat :: "bool \<Rightarrow> rat \<Rightarrow> f32" where
  "f32_of_rat zs q = (if q = 0 then Zero zs else if q < 0 then mk_f32 True (- q) else mk_f32 False q)"

definition f32_of_nat :: "nat \<Rightarrow> f32" where
  "f32_of_nat n = f32_of_rat False (of_nat n)"

text \<open>\<open>as f32\<close> of a binary64 value.\<close>

fun f64_to_f32 :: "flt \<Rightarrow> f32" where
  "f64_to_f32 (Num q) = f32_of_rat False q"
| "f64_to_f32 x = x"

subsection \<open>Arithmetic and comparison\<close>

fun fsign :: "flt \<Rightarrow> bool" where
  "fsign NaN = False"
| "fsign (Inf s) = s"
| "fsign (Zero s) = s"
| "fsign (Num q) = (q < 0)"

fun fval :: "flt \<Rightarrow> rat" where
  "fval (Num q) = q"
| "fval _ = 0"

fun f_lt :: "flt \<Rightarrow> flt \<Rightarrow> bool" where
  "f_lt NaN _ = False"
| "f_lt _ NaN = False"
| "f_lt (Inf True) b = (b \<noteq> Inf True)"
| "f_lt (Inf False) b = False"
| "f_lt a (Inf s) = (\<not> s)"
| "f_lt a b = (fval a < fval b)"

abbreviation f_gt :: "flt \<Rightarrow> flt \<Rightarrow> bool" where
  "f_gt a b \<equiv> f_lt b a"

fun f_mul :: "f32 \<Rightarrow> f32 \<Rightarrow> f32" where
  "f_mul NaN _ = NaN"
| "f_mul _ NaN = NaN"
| "f_mul (Inf s) (Zero t) = NaN"
| "f_mul (Zero s) (Inf t) = NaN"
| "f_mul (Inf s) b = Inf (s \<noteq> fsign b)"
| "f_mul a (Inf t) = Inf (fsign a \<noteq> t)"
| "f_mul a b = f32_of_rat (fsign a \<noteq> fsign b) (fval a * fval b)"

fun f_div :: "f32 \<Rightarrow> f32 \<Rightarrow> f32" where
  "f_div NaN _ = NaN"
| "f_div _ NaN = NaN"
| "f_div (Inf s) (Inf t) = NaN"
| "f_div (Inf s) b = Inf (s \<noteq> fsign b)"
| "f_div a (Inf t) = Zero (fsign a \<noteq> t)"
| "f_div (Zero s) (Zero t) = NaN"
| "f_div a (Zero t) = Inf (fsign a \<noteq> t)"
| "f_div a b = f32_of_rat (fsign a \<noteq> fsign b) (fval a / fval b)"

fun f_add :: "f32 \<Rightarrow> f32 \<Rightarrow> f32" where
  "f_add NaN _ = NaN"
| "f_add _ NaN = NaN"
| "f_add (Inf s) (Inf t) = (if s = t then Inf s else NaN)"
| "f_add (Inf s) b = Inf s"
| "f_add a (Inf t) = Inf t"
| "f_add a b = f32_of_rat (fsign a \<and> fsign b \<and> fval a = 0 \<and> fval b = 0) (fval a + fval b)"

fun f_neg :: "f32 \<Rightarrow> f32" where
  "f_neg NaN = NaN"
| "f_neg (Inf s) = Inf (\<not> s)"
| "f_neg (Zero s) = Zero (\<not> s)"
| "f_neg (Num q) = Num (- q)"

definition f_sub :: "f32 \<Rightarrow> f32 \<Rightarrow> f32" where
  "f_sub a b = f_add a (f_neg b)"

fun f_ceil :: "flt \<Rightarrow> flt" where
  "f_ceil (Num q) = (if \<lceil>q\<rceil> = 0 then Zero (q < 0) else Num (of_int \<lceil>q\<rceil>))"
| "f_ceil x = x"

text \<open>\<open>as u32\<close>: towards zero, saturating, NaN to zero.\<close>

fun f_to_u32 :: "flt \<Rightarrow> u32" where
  "f_to_u32 NaN = 0"
| "f_to_u32 (Inf s) = (if s then 0 else - 1)"
| "f_to_u32 (Zero s) = 0"
| "f_to_u32 (Num q) = (if q \<le> 0 then 0 else if 2 ^ 32 \<le> q then - 1 else of_int \<lfloor>q\<rfloor>)"

text \<open>A decimal literal of the source, such as \<open>0.5\<close>.\<close>

definition f32_lit :: "rat \<Rightarrow> f32" where
  "f32_lit q = f32_of_rat False q"

subsection \<open>Reading and printing\<close>

fun span_digits :: "string \<Rightarrow> string \<times> string" where
  "span_digits [] = ([], [])"
| "span_digits (c # cs) =
     (if digit_val c = None then ([], c # cs) else (let (a, b) = span_digits cs in (c # a, b)))"

definition split_sign :: "string \<Rightarrow> bool \<times> string" where
  "split_sign s =
     (case s of c # cs \<Rightarrow> if c = CHR ''-'' then (True, cs) else if c = CHR ''+'' then (False, cs) else (False, s)
      | [] \<Rightarrow> (False, []))"

definition parse_exponent :: "string \<Rightarrow> int option" where
  "parse_exponent s =
     (case s of [] \<Rightarrow> Some 0
      | c # cs \<Rightarrow>
          if c \<noteq> CHR ''e'' \<and> c \<noteq> CHR ''E'' then None
          else (let (neg, ds) = split_sign cs
                in if ds = [] then None
                   else map_option (\<lambda>n. if neg then - int n else int n) (parse_digits 0 ds)))"

text \<open>\<open>str::parse::<f32>\<close>.\<close>

definition parse_f32 :: "string \<Rightarrow> f32 option" where
  "parse_f32 s =
     (let (neg, r) = split_sign s
      in if eq_ignore_ascii_case r ''inf'' \<or> eq_ignore_ascii_case r ''infinity'' then Some (Inf neg)
         else if eq_ignore_ascii_case r ''nan'' then Some NaN
         else (let (ip, r1) = span_digits r;
                   (fp, r2) = (case r1 of c # cs \<Rightarrow> if c = CHR ''.'' then span_digits cs else ([], r1)
                               | [] \<Rightarrow> ([], []))
               in if ip = [] \<and> fp = [] then None
                  else (case parse_exponent r2 of None \<Rightarrow> None
                        | Some e \<Rightarrow>
                            (let n = unwrap_or (parse_digits 0 (ip @ fp)) 0;
                                 q = of_nat n * 10 powi (e - int (length fp))
                             in Some (f32_of_rat neg (if neg then - q else q))))))"

definition pad_left :: "nat \<Rightarrow> string \<Rightarrow> string" where
  "pad_left k s = replicate (k - length s) (CHR ''0'') @ s"

definition show_scaled :: "nat \<Rightarrow> nat \<Rightarrow> string" where
  "show_scaled k n =
     (if k = 0 then show_nat n
      else show_nat (n div 10 ^ k) @ ''.'' @ pad_left k (show_nat (n mod 10 ^ k)))"

text \<open>\<open>{:.k}\<close>: the exact decimal value, rounded half to even at \<open>k\<close> places.\<close>

fun fmt_fixed :: "nat \<Rightarrow> flt \<Rightarrow> string" where
  "fmt_fixed k NaN = ''NaN''"
| "fmt_fixed k (Inf s) = (if s then ''-inf'' else ''inf'')"
| "fmt_fixed k x =
     (if fsign x then ''-'' else []) @ show_scaled k (nat (round_ne (\<bar>fval x\<bar> * 10 ^ k)))"

fun neg_exp10 :: "nat \<Rightarrow> rat \<Rightarrow> nat" where
  "neg_exp10 0 q = 0"
| "neg_exp10 (Suc fuel) q = (if 1 \<le> q then 0 else Suc (neg_exp10 fuel (10 * q)))"

definition exp10_of :: "rat \<Rightarrow> int" where
  "exp10_of q = (if 1 \<le> q then int (length (show_nat (nat \<lfloor>q\<rfloor>))) - 1 else - int (neg_exp10 64 q))"

text \<open>The shortest decimal that reads back as the same value, the closest one among those.\<close>

definition shortest_with :: "rat \<Rightarrow> nat \<Rightarrow> (nat \<times> int) option" where
  "shortest_with q n =
     (let x = exp10_of q - int n + 1; sc = 10 powi x; d = \<lfloor>q / sc\<rfloor>;
          ok = (\<lambda>c. f32_of_rat False (of_int c * sc) = Num q);
          nearer = (if q / sc - of_int d \<le> 1 / 2 then [d, d + 1] else [d + 1, d])
      in map_option (\<lambda>c. (nat c, x)) (find ok nearer))"

fun shortest_from :: "nat \<Rightarrow> nat \<Rightarrow> rat \<Rightarrow> nat \<times> int" where
  "shortest_from 0 n q = (0, 0)"
| "shortest_from (Suc fuel) n q =
     (case shortest_with q n of Some r \<Rightarrow> r | None \<Rightarrow> shortest_from fuel (Suc n) q)"

text \<open>Nine significant digits always suffice for a binary32 value.\<close>

definition shortest :: "rat \<Rightarrow> nat \<times> int" where
  "shortest q = shortest_from 9 1 q"

definition show_decimal :: "nat \<times> int \<Rightarrow> string" where
  "show_decimal p =
     (let (d, x) = p
      in if 0 \<le> x then show_nat d @ replicate (nat x) (CHR ''0'') else show_scaled (nat (- x)) d)"

fun fmt_f32 :: "f32 \<Rightarrow> string" where
  "fmt_f32 NaN = ''NaN''"
| "fmt_f32 (Inf s) = (if s then ''-inf'' else ''inf'')"
| "fmt_f32 (Zero s) = (if s then ''-0'' else ''0'')"
| "fmt_f32 (Num q) = (if q < 0 then ''-'' else []) @ show_decimal (shortest \<bar>q\<bar>)"

subsection \<open>Rounding is monotone\<close>

lemma round_ne_of_int [simp]: "round_ne (of_int n) = n"
  by (simp add: round_ne_def)

lemma round_ne_cases: "round_ne x = \<lfloor>x\<rfloor> \<or> round_ne x = \<lfloor>x\<rfloor> + 1"
  by (auto simp: round_ne_def Let_def)

lemma round_ne_mono: "x \<le> y \<Longrightarrow> round_ne x \<le> round_ne y"
proof -
  assume le: "x \<le> y"
  then have fl: "\<lfloor>x\<rfloor> \<le> \<lfloor>y\<rfloor>" by (rule floor_mono)
  show ?thesis
  proof (cases "\<lfloor>x\<rfloor> = \<lfloor>y\<rfloor>")
    case True
    with le show ?thesis by (auto simp: round_ne_def Let_def)
  next
    case False
    with fl have "\<lfloor>x\<rfloor> + 1 \<le> \<lfloor>y\<rfloor>" by linarith
    with round_ne_cases[of x] round_ne_cases[of y] show ?thesis by linarith
  qed
qed

lemma powi_2_less: "(2::rat) powi a < 2 powi b \<longleftrightarrow> a < b"
  using power_int_strict_increasing[of a b "2::rat"] power_int_increasing[of b a "2::rat"]
  by (meson linorder_not_less one_less_numeral_iff less_imp_le order_less_le_trans semiring_norm(76))

lemma powi_2_le: "(2::rat) powi a \<le> 2 powi b \<longleftrightarrow> a \<le> b"
  using powi_2_less[of b a] by (simp flip: linorder_not_less)

lemma log2_int_nonneg: "0 \<le> log2_int n"
proof (induction n rule: log2_int.induct)
  case (1 n)
  then show ?case by (cases "n < 2") (auto simp: log2_int.simps[of n])
qed

lemma log2_int_bounds:
  "0 < n \<Longrightarrow> 2 powi log2_int n \<le> (of_int n :: rat) \<and> (of_int n :: rat) < 2 powi (log2_int n + 1)"
proof (induction n rule: log2_int.induct)
  case (1 n)
  show ?case
  proof (cases "n < 2")
    case True
    with "1.prems" have "n = 1" by simp
    then show ?thesis by (simp add: log2_int.simps[of 1])
  next
    case False
    define k where "k = log2_int (n div 2)"
    have IH: "2 powi k \<le> (of_int (n div 2) :: rat)" "(of_int (n div 2) :: rat) < 2 powi (k + 1)"
      using "1.IH" False by (simp_all add: k_def)
    have k0: "0 \<le> k" by (simp add: k_def log2_int_nonneg)
    have "(2::rat) powi (k + 1) = of_int (2 ^ nat (k + 1))" using k0 by (simp add: power_int_def)
    with IH(2) have "n div 2 + 1 \<le> 2 ^ nat (k + 1)"
      by (metis of_int_less_iff zless_imp_add1_zle)
    then have "n < 2 * 2 ^ nat (k + 1)" by linarith
    then have "(of_int n :: rat) < of_int (2 * 2 ^ nat (k + 1))" by (simp only: of_int_less_iff)
    also have "\<dots> = 2 powi (1 + k + 1)" using k0 by (simp add: power_int_def nat_add_distrib)
    finally have up: "(of_int n :: rat) < 2 powi (1 + k + 1)" .
    have "2 * (n div 2) \<le> n" by linarith
    then have "2 * (of_int (n div 2) :: rat) \<le> of_int n" by (metis of_int_le_iff of_int_mult of_int_numeral)
    with IH(1) have "2 * 2 powi k \<le> (of_int n :: rat)" by linarith
    then have lo: "2 powi (1 + k) \<le> (of_int n :: rat)" by (simp add: power_int_add)
    have "log2_int n = 1 + k" using False by (simp add: log2_int.simps[of n] k_def)
    with up lo show ?thesis by simp
  qed
qed

lemma ilog2_bounds:
  assumes "0 < q"
  shows "2 powi ilog2 q \<le> q \<and> q < 2 powi (ilog2 q + 1)"
proof -
  obtain a b where ab: "quotient_of q = (a, b)" by fastforce
  have q: "q = of_int a / of_int b" using quotient_of_div[OF ab] .
  have b: "0 < b" using quotient_of_denom_pos[OF ab] .
  have a: "0 < a" using assms q b by (simp add: zero_less_divide_iff)
  define la where "la = log2_int a"
  define lb where "lb = log2_int b"
  have A: "2 powi la \<le> (of_int a :: rat)" "(of_int a :: rat) < 2 powi (la + 1)"
    using log2_int_bounds[OF a] by (simp_all add: la_def)
  have B: "2 powi lb \<le> (of_int b :: rat)" "(of_int b :: rat) < 2 powi (lb + 1)"
    using log2_int_bounds[OF b] by (simp_all add: lb_def)
  have bp: "(0::rat) < of_int b" using b by simp
  have up: "q < 2 powi (la - lb + 1)"
  proof -
    have "q < 2 powi (la + 1) / of_int b" using A(2) bp by (simp add: q divide_strict_right_mono)
    also have "\<dots> \<le> 2 powi (la + 1) / 2 powi lb"
      using B(1) bp by (intro divide_left_mono mult_pos_pos) auto
    also have "\<dots> = 2 powi (la - lb + 1)" by (simp add: algebra_simps flip: power_int_diff)
    finally show ?thesis .
  qed
  have lo: "2 powi (la - lb - 1) \<le> q"
  proof -
    have "2 powi (la - lb - 1) = (2::rat) powi la / 2 powi (lb + 1)"
      by (simp add: algebra_simps flip: power_int_diff)
    also have "\<dots> \<le> 2 powi la / (of_int b :: rat)"
      using B(2) bp by (intro divide_left_mono mult_pos_pos) auto
    also have "\<dots> \<le> q" using A(1) bp by (simp add: q divide_right_mono)
    finally show ?thesis .
  qed
  show ?thesis
    using up lo by (auto simp: ilog2_def ab Let_def la_def[symmetric] lb_def[symmetric])
qed

lemma ilog2_mono:
  assumes "0 < a" and "a \<le> b"
  shows "ilog2 a \<le> ilog2 b"
proof -
  have "2 powi ilog2 a \<le> a" using ilog2_bounds[of a] assms by simp
  also have "a \<le> b" by fact
  also have "b < 2 powi (ilog2 b + 1)" using ilog2_bounds[of b] assms by simp
  finally show ?thesis by (simp add: powi_2_less)
qed

definition exp32 :: "rat \<Rightarrow> int" where
  "exp32 a = max (ilog2 a) (-126)"

lemma ulp32_exp: "ulp32 a = 2 powi (exp32 a - 23)"
  by (simp add: ulp32_def exp32_def)

lemma ulp32_pos [simp]: "0 < ulp32 a"
  by (simp add: ulp32_def)

lemma rnd32_upper:
  assumes "0 < a"
  shows "rnd32 a \<le> 2 powi (exp32 a + 1)"
proof -
  have "a < 2 powi (ilog2 a + 1)" using ilog2_bounds[OF assms] by simp
  also have "\<dots> \<le> 2 powi (exp32 a + 1)" by (simp add: powi_2_le exp32_def)
  finally have "a / ulp32 a \<le> 2 powi (exp32 a + 1) / ulp32 a"
    by (intro divide_right_mono) (auto intro: less_imp_le)
  also have "\<dots> = of_int (2 ^ 24)" by (simp add: ulp32_exp flip: power_int_diff)
  finally have "round_ne (a / ulp32 a) \<le> 2 ^ 24" using round_ne_mono round_ne_of_int by metis
  then have "of_int (round_ne (a / ulp32 a)) \<le> (of_int (2 ^ 24) :: rat)" by (simp only: of_int_le_iff)
  then have "rnd32 a \<le> 2 ^ 24 * ulp32 a" by (simp add: rnd32_def mult_right_mono less_imp_le)
  also have "2 ^ 24 * ulp32 a = 2 powi (exp32 a + 1)"
    using power_int_add[of "2::rat" 24 "exp32 a - 23"] by (simp add: ulp32_exp add.commute)
  finally show ?thesis .
qed

lemma rnd32_lower:
  assumes "0 < b" and "- 126 \<le> ilog2 b"
  shows "2 powi exp32 b \<le> rnd32 b"
proof -
  have eb: "exp32 b = ilog2 b" using assms by (simp add: exp32_def)
  have "of_int (2 ^ 23) = 2 powi exp32 b / ulp32 b" by (simp add: ulp32_exp flip: power_int_diff)
  also have "\<dots> \<le> b / ulp32 b"
    using ilog2_bounds[OF assms(1)] by (intro divide_right_mono) (auto simp: eb intro: less_imp_le)
  finally have "2 ^ 23 \<le> round_ne (b / ulp32 b)" using round_ne_mono round_ne_of_int by metis
  then have "(of_int (2 ^ 23) :: rat) \<le> of_int (round_ne (b / ulp32 b))" by (simp only: of_int_le_iff)
  then have "2 ^ 23 * ulp32 b \<le> rnd32 b" by (simp add: rnd32_def mult_right_mono less_imp_le)
  moreover have "2 ^ 23 * ulp32 b = 2 powi exp32 b"
    using power_int_add[of "2::rat" 23 "exp32 b - 23"] by (simp add: ulp32_exp)
  ultimately show ?thesis by simp
qed

theorem rnd32_mono:
  assumes "0 < a" and "a \<le> b"
  shows "rnd32 a \<le> rnd32 b"
proof (cases "exp32 a = exp32 b")
  case True
  then have "ulp32 a = ulp32 b" by (simp add: ulp32_exp)
  moreover have "a / ulp32 b \<le> b / ulp32 b"
    using assms by (intro divide_right_mono) (auto intro: less_imp_le)
  ultimately show ?thesis
    by (simp add: rnd32_def mult_right_mono round_ne_mono less_imp_le)
next
  case False
  with ilog2_mono[OF assms] have lt: "exp32 a < exp32 b" and hb: "-126 \<le> ilog2 b"
    by (auto simp: exp32_def max_def split: if_splits)
  have "rnd32 a \<le> 2 powi (exp32 a + 1)" using assms(1) by (rule rnd32_upper)
  also have "\<dots> \<le> 2 powi exp32 b" using lt by (simp add: powi_2_le)
  also have "\<dots> \<le> rnd32 b" using assms hb by (intro rnd32_lower) auto
  finally show ?thesis .
qed

lemma rnd32_exact:
  assumes "0 < a" and "a = of_int m * ulp32 a"
  shows "rnd32 a = a"
proof -
  have "a / ulp32 a = of_int m" using assms(2) ulp32_pos[of a] by (metis less_irrefl nonzero_mult_div_cancel_right)
  then show ?thesis using assms(2) by (simp add: rnd32_def)
qed

lemma rnd32_of_nat:
  assumes "0 < n" and "n < 2 ^ 24"
  shows "rnd32 (of_nat n) = of_nat n"
proof -
  let ?a = "of_nat n :: rat"
  have pos: "0 < ?a" using assms by simp
  have "2 powi ilog2 ?a \<le> ?a" using ilog2_bounds[OF pos] by simp
  also have "?a < of_nat (2 ^ 24)" using assms(2) by (simp only: of_nat_less_iff)
  also have "\<dots> = 2 powi 24" by simp
  finally have hi: "ilog2 ?a < 24" by (simp only: powi_2_less)
  have "(2::rat) powi 0 \<le> ?a" using assms by simp
  also have "?a < 2 powi (ilog2 ?a + 1)" using ilog2_bounds[OF pos] by simp
  finally have "0 < ilog2 ?a + 1" by (simp only: powi_2_less)
  then have lo: "0 \<le> ilog2 ?a" by simp
  define k where "k = nat (23 - ilog2 ?a)"
  have u: "ulp32 ?a = 2 powi (- int k)" using hi lo by (simp add: ulp32_def k_def max_def)
  have "?a = of_int (int n * 2 ^ k) * ulp32 ?a"
    by (simp add: u power_int_minus)
  with pos show ?thesis by (rule rnd32_exact)
qed

lemma rnd32_ge_1: "1 \<le> a \<Longrightarrow> 1 \<le> rnd32 a"
  using rnd32_mono[of 1 a] rnd32_of_nat[of 1] by simp

lemma f32_of_nat_small:
  assumes "0 < n" and "n < 2 ^ 24"
  shows "f32_of_nat n = Num (of_nat n)"
proof -
  have "n < 2 ^ 128" using assms(2) by simp
  then have "(of_nat n :: rat) < of_nat (2 ^ 128)" by (simp only: of_nat_less_iff)
  with assms show ?thesis by (simp add: f32_of_nat_def f32_of_rat_def mk_f32_def rnd32_of_nat)
qed

lemma f32_of_nat_0 [simp]: "f32_of_nat 0 = Zero False"
  by (simp add: f32_of_nat_def f32_of_rat_def)

subsection \<open>Comparison\<close>

lemma f_lt_Inf [simp]: "f_lt (Inf s) b \<longleftrightarrow> s \<and> b \<noteq> NaN \<and> b \<noteq> Inf True"
  by (cases s; cases b) auto

lemma f_lt_neg_trans: "f_lt a c \<Longrightarrow> b \<noteq> NaN \<Longrightarrow> f_lt a b \<or> f_lt b c"
  by (cases a; cases b; cases c) (auto split: if_splits)

lemma f_lt_asym: "f_lt a b \<Longrightarrow> \<not> f_lt b a"
  by (cases a; cases b) (auto split: if_splits)

end
