(* ===== verification/Spec_Types.thy ===== *)
theory Spec_Types
  imports Float32
begin

text \<open>
  The manifest types of \<^verbatim>\<open>src/src/spec.rs\<close> and its parser front end. A \<open>serde_yaml::Value\<close> is the
  opaque type \<open>'y\<close>, a \<open>serde_json::Value\<close> the opaque type \<open>'j\<close>: the third-party accessors and decoders
  are the fields of \<open>yaml_ops\<close> and \<open>json_ops\<close>, arguments of every definition that uses them.
  Field names carry the initials of their struct.
\<close>

record metadata =
  md_name :: string
  md_namespace :: "string option"
  md_labels :: "(string, string) hmap option"

record 'y resource =
  r_api_version :: "string option"
  r_kind :: string
  r_metadata :: metadata
  r_spec :: "'y option"
  r_data :: "'y option"
  r_string_data :: "'y option"
  r_rules :: "'y option"
  r_subjects :: "'y option"
  r_role_ref :: "'y option"

subsection \<open>Pod templates\<close>

record env_var =
  ev_name :: string
  ev_value :: "string option"

record name_ref =
  nr_name :: string

record env_from_spec =
  ef_config_map_ref :: "name_ref option"
  ef_secret_ref :: "name_ref option"

record http_get_probe =
  hg_path :: string
  hg_port :: u16

record exec_probe =
  xp_command :: "string list"

record probe_spec =
  ps_http_get :: "http_get_probe option"
  ps_exec :: "exec_probe option"
  ps_initial_delay_seconds :: u64
  ps_period_seconds :: u64
  ps_failure_threshold :: u32

definition default_period :: u64 where
  "default_period = 10"

definition default_failure_threshold :: u32 where
  "default_failure_threshold = 3"

record port_spec =
  po_container_port :: u16
  po_protocol :: "string option"

record resource_spec =
  rs_limits :: "(string, string) hmap option"
  rs_requests :: "(string, string) hmap option"

record volume_mount =
  vm_name :: string
  vm_mount_path :: string
  vm_read_only :: "bool option"

record container_spec =
  c_name :: string
  c_image :: string
  c_ports :: "port_spec list option"
  c_env :: "env_var list option"
  c_env_from :: "env_from_spec list option"
  c_command :: "string list option"
  c_resources :: "resource_spec option"
  c_volume_mounts :: "volume_mount list option"
  c_liveness_probe :: "probe_spec option"
  c_readiness_probe :: "probe_spec option"
  c_startup_probe :: "probe_spec option"

record host_path =
  hp_path :: string

record pvc_ref =
  pr_claim_name :: string

record secret_vol_ref =
  sv_secret_name :: string

record 'y volume_spec =
  v_name :: string
  v_host_path :: "host_path option"
  v_pvc :: "pvc_ref option"
  v_empty_dir :: "'y option"
  v_config_map :: "name_ref option"
  v_secret :: "secret_vol_ref option"

record 'y pod_spec =
  p_init_containers :: "container_spec list option"
  p_containers :: "container_spec list"
  p_volumes :: "'y volume_spec list option"
  p_restart_policy :: "string option"

record 'y pod_template =
  pt_metadata :: "metadata option"
  pt_spec :: "'y pod_spec"

subsection \<open>Workloads and services\<close>

record 'y volume_claim_template =
  vct_metadata :: metadata
  vct_spec :: "'y option"

record strategy_spec =
  st_strategy_type :: string
  st_weight :: "u32 option"
  st_max_surge :: "u32 option"
  st_max_unavailable :: "u32 option"
  st_active :: "string option"

record 'y deployment_spec =
  ds_replicas :: "u32 option"
  ds_selector :: "'y option"
  ds_template :: "'y pod_template"
  ds_strategy :: "strategy_spec option"
  ds_schedule :: "string option"
  ds_completions :: "u32 option"
  ds_service_name :: "string option"
  ds_volume_claim_templates :: "'y volume_claim_template list option"

record service_port_spec =
  sps_port :: u16
  sps_target_port :: "u16 option"
  sps_protocol :: "string option"
  sps_name :: "string option"
  sps_node_port :: "u16 option"

record service_spec =
  ss_selector :: "(string, string) hmap option"
  ss_ports :: "service_port_spec list"
  ss_service_type :: "string option"

subsection \<open>Cluster configuration, functions, repositories, pipelines\<close>

record llm_config =
  llm_provider :: "string option"
  llm_cfg_host :: "string option"
  llm_cfg_model :: "string option"
  llm_cfg_temperature :: "f32 option"

record alert_config =
  al_webhook :: "string option"
  al_channels :: "string list option"
  al_on_anomaly :: "bool option"
  al_on_restart :: "bool option"
  al_on_rollout :: "bool option"

record pause_config =
  pc_default_idle_seconds :: "u64 option"
  pc_enabled :: "bool option"

record api_config =
  ac_port :: "u16 option"
  ac_cors :: "bool option"

record cluster_config_spec =
  cc_llm :: "llm_config option"
  cc_alerts :: "alert_config option"
  cc_runtime :: "string option"
  cc_pause :: "pause_config option"
  cc_api :: "api_config option"

record function_trigger =
  ft_http :: "string option"
  ft_webhook :: "string option"
  ft_schedule :: "string option"

record function_spec =
  fs_runtime :: "string option"
  fs_handler :: "string option"
  fs_image :: "string option"
  fs_command :: "string list option"
  fs_trigger :: "function_trigger list option"
  fs_timeout :: "string option"
  fs_memory :: "string option"
  fs_env :: "env_var list option"
  fs_code :: "string option"

record repository_spec =
  rp_url :: "string option"
  rp_path :: "string option"
  rp_branch :: "string option"
  rp_secret_ref :: "string option"
  rp_pipeline :: "string option"

record pipeline_trigger =
  ptr_trigger_type :: string
  ptr_path :: "string option"

record matrix_spec =
  mx_image :: "string list option"
  mx_env :: "string list option"

record pipeline_stage =
  pst_name :: string
  pst_image :: "string option"
  pst_command :: "string list option"
  pst_action :: "string option"
  pst_file :: "string option"
  pst_context :: "string option"
  pst_dockerfile :: "string option"
  pst_tag :: "string option"
  pst_args :: "env_var list option"
  pst_artifacts :: "string list option"
  pst_depends_on :: "string option"
  pst_env :: "env_var list option"
  pst_if_condition :: "string option"
  pst_matrix :: "matrix_spec option"

record pipeline_spec =
  pls_trigger :: "pipeline_trigger list option"
  pls_stages :: "pipeline_stage list"

subsection \<open>The third-party document values\<close>

text \<open>
  What the program calls on a \<open>serde_yaml::Value\<close>: the accessors, the decoders derived by serde for the
  structs above (\<open>Inl\<close> carries the rendered error), rendering, and conversion to JSON.
  \<open>yv_from_str\<close> parses one document text.
\<close>

record ('y, 'j) yaml_ops =
  yv_get :: "'y \<Rightarrow> string \<Rightarrow> 'y option"
  yv_as_str :: "'y \<Rightarrow> string option"
  yv_as_u64 :: "'y \<Rightarrow> u64 option"
  yv_as_f64 :: "'y \<Rightarrow> flt option"
  yv_as_bool :: "'y \<Rightarrow> bool option"
  yv_as_sequence :: "'y \<Rightarrow> 'y list option"
  yv_as_mapping :: "'y \<Rightarrow> ('y \<times> 'y) list option"
  yv_to_string :: "'y \<Rightarrow> string option"
  yv_to_json :: "'y \<Rightarrow> 'j option"
  yv_from_str :: "string \<Rightarrow> 'y resource option"
  yv_deployment :: "'y \<Rightarrow> 'y deployment_spec result"
  yv_deployment_err :: "'y \<Rightarrow> string"
  yv_pod :: "'y \<Rightarrow> 'y pod_spec result"
  yv_service :: "'y \<Rightarrow> service_spec result"
  yv_config :: "'y \<Rightarrow> cluster_config_spec result"
  yv_function :: "'y \<Rightarrow> function_spec result"
  yv_repository :: "'y \<Rightarrow> repository_spec result"
  yv_pipeline :: "'y \<Rightarrow> pipeline_spec result"

record 'j json_ops =
  jv_get :: "'j \<Rightarrow> string \<Rightarrow> 'j option"
  jv_as_str :: "'j \<Rightarrow> string option"
  jv_as_u64 :: "'j \<Rightarrow> u64 option"
  jv_as_f64 :: "'j \<Rightarrow> flt option"
  jv_as_array :: "'j \<Rightarrow> 'j list option"
  jv_as_object :: "'j \<Rightarrow> (string \<times> 'j) list option"
  jv_empty_object :: "'j"

definition ok :: "'a result \<Rightarrow> 'a option" where
  "ok r = (case r of Inl _ \<Rightarrow> None | Inr x \<Rightarrow> Some x)"

lemma ok_simps [simp]: "ok (Inl e) = None" "ok (Inr x) = Some x"
  by (simp_all add: ok_def)

text \<open>Chains such as \<open>v.get("a").and_then(|x| x.get("b"))\<close>, and the string lists under a key.\<close>

fun yv_path :: "('y, 'j) yaml_ops \<Rightarrow> 'y \<Rightarrow> string list \<Rightarrow> 'y option" where
  "yv_path Y v [] = Some v"
| "yv_path Y v (k # ks) = (case yv_get Y v k of None \<Rightarrow> None | Some w \<Rightarrow> yv_path Y w ks)"

definition yv_str_at :: "('y, 'j) yaml_ops \<Rightarrow> 'y \<Rightarrow> string list \<Rightarrow> string option" where
  "yv_str_at Y v ks = Option.bind (yv_path Y v ks) (yv_as_str Y)"

definition yv_u64_at :: "('y, 'j) yaml_ops \<Rightarrow> 'y \<Rightarrow> string list \<Rightarrow> u64 option" where
  "yv_u64_at Y v ks = Option.bind (yv_path Y v ks) (yv_as_u64 Y)"

definition yv_bool_at :: "('y, 'j) yaml_ops \<Rightarrow> 'y \<Rightarrow> string list \<Rightarrow> bool option" where
  "yv_bool_at Y v ks = Option.bind (yv_path Y v ks) (yv_as_bool Y)"

definition yv_seq_at :: "('y, 'j) yaml_ops \<Rightarrow> 'y \<Rightarrow> string list \<Rightarrow> 'y list option" where
  "yv_seq_at Y v ks = Option.bind (yv_path Y v ks) (yv_as_sequence Y)"

definition yv_strings :: "('y, 'j) yaml_ops \<Rightarrow> 'y list \<Rightarrow> string list" where
  "yv_strings Y vs = filter_map (yv_as_str Y) vs"

text \<open>String-to-string entries of a mapping; other entries are skipped.\<close>

definition yv_str_pairs :: "('y, 'j) yaml_ops \<Rightarrow> ('y \<times> 'y) list \<Rightarrow> (string \<times> string) list" where
  "yv_str_pairs Y kvs =
     filter_map (\<lambda>(k, v). case (yv_as_str Y k, yv_as_str Y v) of
       (Some a, Some b) \<Rightarrow> Some (a, b) | _ \<Rightarrow> None) kvs"

subsection \<open>Multi-document parsing and typed views\<close>

definition has_content :: "string \<Rightarrow> bool" where
  "has_content doc = (\<exists>l \<in> set (lines doc). let t = trim l in t \<noteq> [] \<and> \<not> starts_with t ''#'')"

definition parse_yaml_doc :: "('y, 'j) yaml_ops \<Rightarrow> string \<Rightarrow> 'y resource option" where
  "parse_yaml_doc Y doc =
     (let trimmed = trim doc
      in if trimmed = [] then None
         else if \<not> has_content trimmed then None
         else yv_from_str Y trimmed)"

definition parse_yaml :: "('y, 'j) yaml_ops \<Rightarrow> string \<Rightarrow> 'y resource list result" where
  "parse_yaml Y yaml =
     (let resources = filter_map (parse_yaml_doc Y) (str_split_on (CHR 0x0A # ''---'') yaml)
      in if resources = [] then Inl ''No valid resources found in YAML'' else Inr resources)"

definition pod_as_deployment :: "'y pod_spec \<Rightarrow> 'y deployment_spec" where
  "pod_as_deployment ps =
     \<lparr>ds_replicas = Some 1, ds_selector = None,
      ds_template = \<lparr>pt_metadata = None, pt_spec = ps\<rparr>,
      ds_strategy = None, ds_schedule = None, ds_completions = None,
      ds_service_name = None, ds_volume_claim_templates = None\<rparr>"

definition workload_kinds :: "string list" where
  "workload_kinds =
     [''Deployment'', ''ReplicaSet'', ''StatefulSet'', ''DaemonSet'', ''Job'', ''CronJob'']"

definition as_deployment :: "('y, 'j) yaml_ops \<Rightarrow> 'y resource \<Rightarrow> 'y deployment_spec option" where
  "as_deployment Y r =
     (if r_kind r = ''Pod'' then
        Option.bind (r_spec r) (\<lambda>spec. map_option pod_as_deployment (ok (yv_pod Y spec)))
      else if r_kind r \<notin> set workload_kinds then None
      else Option.bind (r_spec r) (\<lambda>spec. ok (yv_deployment Y spec)))"

definition as_service :: "('y, 'j) yaml_ops \<Rightarrow> 'y resource \<Rightarrow> service_spec option" where
  "as_service Y r =
     (if r_kind r \<noteq> ''Service'' then None
      else Option.bind (r_spec r) (\<lambda>spec. ok (yv_service Y spec)))"

subsection \<open>Lemmas\<close>

lemma parse_yaml_ok_iff:
  "(\<exists>rs. parse_yaml Y yaml = Inr rs) \<longleftrightarrow>
     (\<exists>doc \<in> set (str_split_on (CHR 0x0A # ''---'') yaml). parse_yaml_doc Y doc \<noteq> None)"
  by (simp add: parse_yaml_def Let_def filter_map_Nil_iff)

lemma parse_yaml_members:
  "parse_yaml Y yaml = Inr rs \<Longrightarrow>
     rs \<noteq> [] \<and> (\<forall>r \<in> set rs. \<exists>doc. yv_from_str Y (trim doc) = Some r \<and> has_content (trim doc))"
  by (auto simp: parse_yaml_def Let_def set_filter_map parse_yaml_doc_def split: if_splits)

lemma as_deployment_kind:
  "as_deployment Y r = Some d \<Longrightarrow> r_kind r \<in> set (''Pod'' # workload_kinds)"
  by (auto simp: as_deployment_def split: if_splits)

lemma as_deployment_pod: "r_kind r = ''Pod'' \<Longrightarrow> as_deployment Y r = Some d \<Longrightarrow> ds_replicas d = Some 1"
  by (auto simp: as_deployment_def pod_as_deployment_def bind_eq_Some_conv)

end
