(* ===== verification/Net_Security.thy ===== *)
theory Net_Security
  imports Spec_Types
begin

unbundle bit_operations_syntax

text \<open>
  \<^verbatim>\<open>src/src/net_security.rs\<close>: pod identity tokens, the cluster certificate authority's bookkeeping, the
  network audit records and the connection-pattern tracker. HMAC-SHA256 is the argument \<open>hmac\<close>
  (key, then message), the certificate library the fields of \<open>rcgen_ops\<close>, and the clock an
  argument in seconds.
\<close>

subsection \<open>State\<close>

record cluster_ca =
  ca_cert_pem :: string
  ca_key_pem :: string
  ca_fingerprint :: string
  ca_issued_count :: u64

record pod_identity =
  pi_pod_name :: string
  pi_namespace :: string
  pi_cert_pem :: string
  pi_key_pem :: string
  pi_token :: string
  pi_ca_cert_pem :: string

record network_audit_entry =
  na_timestamp :: u64
  na_action :: string
  na_source :: string
  na_target :: string
  na_policy :: string
  na_result :: string

record network_pattern_tracker =
  nt_patterns :: "(string, (string \<times> u32) list) hmap"
  nt_baseline_ticks :: u64

subsection \<open>Hexadecimal fields\<close>

text \<open>\<open>u8::from_str_radix(s, 16)\<close> on a two-byte slice: a leading plus sign is accepted.\<close>

definition u8_from_hex2 :: "string \<Rightarrow> char option" where
  "u8_from_hex2 s =
     (case s of
        [a, b] \<Rightarrow>
          (if a = CHR ''+'' then map_option char_of (hex_val b)
           else (case (hex_val a, hex_val b) of
                   (Some x, Some y) \<Rightarrow> Some (char_of (16 * x + y)) | _ \<Rightarrow> None))
      | _ \<Rightarrow> None)"

text \<open>The loop \<open>for i in (0..s.len()).step_by(2)\<close>, from index \<open>i\<close> with \<open>n\<close> rounds left.\<close>

fun hex_decode_loop :: "string \<Rightarrow> nat \<Rightarrow> nat \<Rightarrow> string option rust" where
  "hex_decode_loop s i 0 = Ret (Some [])"
| "hex_decode_loop s i (Suc n) =
     rust_bind (str_slice s i (i + 2)) (\<lambda>h.
       case u8_from_hex2 h of None \<Rightarrow> Ret None
       | Some b \<Rightarrow> rust_bind (hex_decode_loop s (i + 2) n) (\<lambda>r. Ret (map_option ((#) b) r)))"

definition hex_decode_bytes :: "string \<Rightarrow> string option rust" where
  "hex_decode_bytes s =
     (if length s mod 2 \<noteq> 0 then Ret None else hex_decode_loop s 0 (length s div 2))"

definition hex_decode_to_string :: "string \<Rightarrow> string option rust" where
  "hex_decode_to_string s =
     rust_bind (hex_decode_bytes s) (\<lambda>r.
       Ret (Option.bind r (\<lambda>bs. if utf8_valid bs then Some bs else None)))"

subsection \<open>Tokens\<close>

definition token_payload :: "string \<Rightarrow> string \<Rightarrow> u64 \<Rightarrow> string" where
  "token_payload pod ns t = pod @ '':'' @ ns @ '':'' @ show_word t"

definition generate_pod_token ::
  "(string \<Rightarrow> string \<Rightarrow> string) \<Rightarrow> u64 \<Rightarrow> string \<Rightarrow> string \<Rightarrow> string \<Rightarrow> string" where
  "generate_pod_token hmac now pod_name namespace secret =
     (let sig = hmac secret (token_payload pod_name namespace now)
      in ''nrns-v2.'' @ hex_of_bytes pod_name @ ''.'' @ hex_of_bytes namespace @ ''.''
         @ show_word now @ ''.'' @ hex_of_bytes sig)"

text \<open>The constant-time comparison: the OR of all byte differences.\<close>

definition ct_diff :: "string \<Rightarrow> string \<Rightarrow> u8" where
  "ct_diff a b = fold (\<lambda>(x, y) d. d OR (of_char x XOR of_char y)) (zip a b) 0"

definition verify_pod_token :: "(string \<Rightarrow> string \<Rightarrow> string) \<Rightarrow> string \<Rightarrow> string \<Rightarrow> bool rust" where
  "verify_pod_token hmac token secret =
     (case strip_prefix token ''nrns-v2.'' of
        None \<Rightarrow> Ret False
      | Some rest \<Rightarrow>
          (case str_split (CHR ''.'') rest of
             [pn_hex, ns_hex, ts_str, sig_hex] \<Rightarrow>
               rust_bind (hex_decode_to_string pn_hex) (\<lambda>pn. case pn of None \<Rightarrow> Ret False
               | Some pod_name \<Rightarrow>
               rust_bind (hex_decode_to_string ns_hex) (\<lambda>nsp. case nsp of None \<Rightarrow> Ret False
               | Some namespace \<Rightarrow>
               (case parse_u64 ts_str of None \<Rightarrow> Ret False
               | Some issued_at \<Rightarrow>
                   (let expected = hmac secret (token_payload pod_name namespace issued_at)
                    in rust_bind (hex_decode_bytes sig_hex) (\<lambda>pr. case pr of None \<Rightarrow> Ret False
                       | Some presented \<Rightarrow>
                           Ret (length presented = length expected \<and> ct_diff expected presented = 0))))))
           | _ \<Rightarrow> Ret False))"

text \<open>FNV-1a over the bytes, printed as sixteen hexadecimal digits.\<close>

definition fnv1a :: "string \<Rightarrow> u64" where
  "fnv1a s = fold (\<lambda>b h. (h XOR of_char b) * 0x100000001b3) s 0xcbf29ce484222325"

definition hex16 :: "u64 \<Rightarrow> string" where
  "hex16 w = map (\<lambda>i. hex_char (unat (drop_bit (4 * i) w AND 15))) (rev [0..<16])"

definition fingerprint_pem :: "string \<Rightarrow> string" where
  "fingerprint_pem pem = hex16 (fnv1a pem)"

subsection \<open>Certificates\<close>

text \<open>
  The certificate library: each call may fail with a message. A parameter set is \<open>'p\<close>, a key pair \<open>'k\<close>,
  a certificate \<open>'c\<close>. \<open>rc_pod_config\<close> sets the common name, the organisational unit and the 90-day
  window of a pod certificate, \<open>rc_ca_config\<close> the CA flag and its names.
\<close>

record ('p, 'k, 'c) rcgen_ops =
  rc_params_new :: "string list \<Rightarrow> 'p result"
  rc_pod_config :: "string \<Rightarrow> string \<Rightarrow> 'p \<Rightarrow> 'p"
  rc_ca_config :: "'p \<Rightarrow> 'p"
  rc_key_generate :: "'k result"
  rc_key_from_pem :: "string \<Rightarrow> 'k result"
  rc_key_pem :: "'k \<Rightarrow> string"
  rc_self_signed :: "'p \<Rightarrow> 'k \<Rightarrow> 'c result"
  rc_signed_by :: "'p \<Rightarrow> 'k \<Rightarrow> 'c \<Rightarrow> 'k \<Rightarrow> 'c result"
  rc_cert_pem :: "'c \<Rightarrow> string"

definition map_err :: "string \<Rightarrow> 'a result \<Rightarrow> 'a result" where
  "map_err pre r = (case r of Inl e \<Rightarrow> Inl (pre @ e) | Inr x \<Rightarrow> Inr x)"

fun and_then :: "'a result \<Rightarrow> ('a \<Rightarrow> 'b result) \<Rightarrow> 'b result" where
  "and_then (Inl e) f = Inl e"
| "and_then (Inr x) f = f x"

definition pod_san :: "string \<Rightarrow> string \<Rightarrow> string" where
  "pod_san pod_name namespace = pod_name @ ''.'' @ namespace @ ''.svc.royak.local''"

definition issue_pod_cert ::
  "('p, 'k, 'c) rcgen_ops \<Rightarrow> (string \<Rightarrow> string \<Rightarrow> string) \<Rightarrow> u64 \<Rightarrow> string \<Rightarrow> string \<Rightarrow> cluster_ca
     \<Rightarrow> pod_identity result \<times> cluster_ca" where
  "issue_pod_cert R hmac now pod_name namespace ca =
     (let san = pod_san pod_name namespace;
          signed =
            and_then (map_err ''pod cert params: ''
              (rc_params_new R [pod_name, san, namespace @ ''.svc.royak.local''])) (\<lambda>params0.
            let params = rc_pod_config R pod_name namespace params0
            in and_then (map_err ''pod keygen: '' (rc_key_generate R)) (\<lambda>pod_key.
            and_then (map_err ''CA key parse: '' (rc_key_from_pem R (ca_key_pem ca))) (\<lambda>ca_key.
            and_then (map_err ''CA re-params: '' (rc_params_new R [''Royak Cluster CA''])) (\<lambda>ca_params.
            and_then (map_err ''CA re-sign: '' (rc_self_signed R (rc_ca_config R ca_params) ca_key)) (\<lambda>ca_cert.
            and_then (map_err ''pod cert sign: '' (rc_signed_by R params pod_key ca_cert ca_key)) (\<lambda>pod_cert.
            Inr (pod_cert, pod_key)))))))
      in (case signed of
            Inl e \<Rightarrow> (Inl e, ca)
          | Inr (pod_cert, pod_key) \<Rightarrow>
              (Inr \<lparr>pi_pod_name = pod_name, pi_namespace = namespace,
                    pi_cert_pem = rc_cert_pem R pod_cert, pi_key_pem = rc_key_pem R pod_key,
                    pi_token = generate_pod_token hmac now pod_name namespace (ca_fingerprint ca),
                    pi_ca_cert_pem = ca_cert_pem ca\<rparr>,
               ca\<lparr>ca_issued_count := ca_issued_count ca + 1\<rparr>)))"

definition env_vars :: "pod_identity \<Rightarrow> string list" where
  "env_vars p =
     (let esc = replace_char (CHR 0x0A) [CHR 0x5C, CHR ''n'']
      in [''ROYAK_POD_CERT='' @ esc (pi_cert_pem p),
          ''ROYAK_POD_KEY='' @ esc (pi_key_pem p),
          ''ROYAK_CA_CERT='' @ esc (pi_ca_cert_pem p),
          ''ROYAK_POD_TOKEN='' @ pi_token p,
          ''ROYAK_POD_NAME='' @ pi_pod_name p,
          ''ROYAK_POD_NAMESPACE='' @ pi_namespace p,
          ''ROYAK_POD_SAN='' @ pod_san (pi_pod_name p) (pi_namespace p)])"

subsection \<open>Audit records\<close>

definition audit_new :: "u64 \<Rightarrow> string \<Rightarrow> string \<Rightarrow> string \<Rightarrow> string \<Rightarrow> string \<Rightarrow> network_audit_entry" where
  "audit_new now action source target policy res =
     \<lparr>na_timestamp = now, na_action = action, na_source = source, na_target = target,
      na_policy = policy, na_result = res\<rparr>"

definition audit_connect :: "u64 \<Rightarrow> string \<Rightarrow> string \<Rightarrow> network_audit_entry" where
  "audit_connect now source target_net = audit_new now ''connect'' source target_net ''none'' ''ok''"

definition policy_allow :: "u64 \<Rightarrow> string \<Rightarrow> string \<Rightarrow> string \<Rightarrow> network_audit_entry" where
  "policy_allow now source target_net policy = audit_new now ''allow'' source target_net policy ''ok''"

definition policy_deny :: "u64 \<Rightarrow> string \<Rightarrow> string \<Rightarrow> string \<Rightarrow> network_audit_entry" where
  "policy_deny now source target_net policy = audit_new now ''deny'' source target_net policy ''denied''"

definition audit_anomaly :: "u64 \<Rightarrow> string \<Rightarrow> string \<Rightarrow> network_audit_entry" where
  "audit_anomaly now source detail = audit_new now ''anomaly'' source detail ''neural'' ''anomaly_detected''"

subsection \<open>The pattern tracker\<close>

definition tracker_new :: network_pattern_tracker where
  "tracker_new = \<lparr>nt_patterns = [], nt_baseline_ticks = 0\<rparr>"

text \<open>Bump the first matching pair, or append a new one.\<close>

fun bump_conn :: "string \<Rightarrow> (string \<times> u32) list \<Rightarrow> (string \<times> u32) list" where
  "bump_conn net [] = [(net, 1)]"
| "bump_conn net ((n, c) # cs) = (if n = net then (n, c + 1) # cs else (n, c) # bump_conn net cs)"

definition observe_conn :: "string \<Rightarrow> string \<Rightarrow> network_pattern_tracker \<Rightarrow> network_pattern_tracker" where
  "observe_conn pod target t =
     (let cs = unwrap_or (hm_get (nt_patterns t) pod) []
      in t\<lparr>nt_patterns := hm_insert pod (bump_conn target cs) (nt_patterns t),
           nt_baseline_ticks := nt_baseline_ticks t + 1\<rparr>)"

definition conn_anomalies :: "string \<Rightarrow> (string \<times> u32) list \<Rightarrow> (string \<times> string \<times> f32) list" where
  "conn_anomalies pod conns =
     (let total = sum_list (map snd conns);
          avg = f_div (f32_of_nat (unat total)) (f32_of_nat (max (length conns) 1));
          many = (if 5 < length conns
                  then [(pod, ''connected to '' @ show_nat (length conns) @ '' networks (unusual, expected ''
                               @ [CHR 0xE2, CHR 0x89, CHR 0xA4] @ ''3)'', f32_lit (7 / 10))] else []);
          spikes = filter_map (\<lambda>(net, count).
                     if f_gt (f32_of_nat (unat count)) (f_mul avg (f32_lit 3)) \<and> 10 < count
                     then Some (pod, ''excessive connections to '' @ net @ '' ('' @ show_word count @ '' vs avg ''
                                     @ fmt_fixed 0 avg @ '')'', f32_lit (8 / 10)) else None) conns;
          cross = filter_map (\<lambda>(net, count).
                     if starts_with net ''rk-'' \<and> net \<noteq> ''rk-default''
                     then (let ns = unwrap_or (strip_prefix net ''rk-'') net
                           in if \<not> str_contains pod ns
                              then Some (pod, ''cross-namespace connection to '' @ ns, f32_lit (5 / 10)) else None)
                     else None) conns
      in many @ spikes @ cross)"

definition tracker_anomalies :: "network_pattern_tracker \<Rightarrow> (string \<times> string \<times> f32) list" where
  "tracker_anomalies t =
     (if nt_baseline_ticks t < 10 then []
      else concat (map (\<lambda>(pod, conns). conn_anomalies pod conns) (nt_patterns t)))"

definition tracker_stats :: "network_pattern_tracker \<Rightarrow> string" where
  "tracker_stats t =
     show_nat (length (nt_patterns t)) @ '' pods tracked, '' @ show_word (nt_baseline_ticks t)
     @ '' total observations''"

subsection \<open>Lemmas: hexadecimal and comparison\<close>

lemma hex_char_plain:
  assumes "d < 16"
  shows "\<not> cont_byte (hex_char d)" "hex_char d \<noteq> CHR ''+''" "hex_char d \<noteq> CHR ''.''"
  using hex_val_hex_char[OF assms]
  by (auto simp: cont_byte_def hex_val_def Let_def split: if_splits)

lemma u8_from_hex2_hex: "u8_from_hex2 [hex_char (of_char b div 16), hex_char (of_char b mod 16)] = Some b"
proof -
  have "(of_char b :: nat) div 16 < 16" using of_char_less_256[of b] by linarith
  then show ?thesis by (simp add: u8_from_hex2_def hex_char_plain)
qed

lemma hex_of_bytes_chars: "c \<in> set (hex_of_bytes bs) \<Longrightarrow> \<exists>d < 16. c = hex_char d"
proof (induction bs)
  case (Cons b bs)
  have hi: "(of_char b :: nat) div 16 < 16" using of_char_less_256[of b] by linarith
  have lo: "(of_char b :: nat) mod 16 < 16" by simp
  from Cons.prems consider "c = hex_char (of_char b div 16)" | "c = hex_char (of_char b mod 16)"
    | "c \<in> set (hex_of_bytes bs)"
    by auto
  then show ?case using hi lo Cons.IH by cases blast+
qed simp

lemma hex_of_bytes_boundary: "i \<le> length (hex_of_bytes bs) \<Longrightarrow> is_char_boundary (hex_of_bytes bs) i"
  using hex_of_bytes_chars[of "hex_of_bytes bs ! i" bs] hex_char_plain(1) nth_mem[of i "hex_of_bytes bs"]
  by (auto simp: is_char_boundary_def)

lemma hex_of_bytes_append: "hex_of_bytes (a @ b) = hex_of_bytes a @ hex_of_bytes b"
  by (simp add: hex_of_bytes_def)

lemma hex_decode_loop_hex:
  "hex_decode_loop (hex_of_bytes (pre @ bs)) (2 * length pre) (length bs) = Ret (Some bs)"
proof (induction bs arbitrary: pre)
  case (Cons b bs)
  have "str_slice (hex_of_bytes (pre @ b # bs)) (2 * length pre) (2 * length pre + 2) =
        Ret [hex_char (of_char b div 16), hex_char (of_char b mod 16)]"
    using hex_of_bytes_boundary[of _ "pre @ b # bs"]
    by (simp add: str_slice_def) (simp add: hex_of_bytes_append)
  moreover have "hex_decode_loop (hex_of_bytes (pre @ b # bs)) (2 * length pre + 2) (length bs) = Ret (Some bs)"
    using Cons.IH[of "pre @ [b]"] by simp
  ultimately show ?case by (simp add: u8_from_hex2_hex)
qed simp

lemma hex_decode_bytes_hex [simp]: "hex_decode_bytes (hex_of_bytes bs) = Ret (Some bs)"
  using hex_decode_loop_hex[of "[]" bs] by (simp add: hex_decode_bytes_def)

lemma hex_decode_to_string_hex [simp]:
  "utf8_valid s \<Longrightarrow> hex_decode_to_string (hex_of_bytes s) = Ret (Some s)"
  by (simp add: hex_decode_to_string_def)

lemma hex_no_dot: "CHR ''.'' \<notin> set (hex_of_bytes bs)"
  using hex_of_bytes_chars[of "CHR ''.''" bs] hex_char_plain(3) by metis

lemma show_nat_no_dot: "CHR ''.'' \<notin> set (show_nat n)"
  by (rule show_nat_no_char) (simp add: digit_val_def)

lemma or_xor_eq_0_iff: "(d OR (x XOR y) = (0::u8)) \<longleftrightarrow> d = 0 \<and> x = y"
  by (auto simp: or_eq_0_iff) (metis xor.assoc xor.left_neutral xor.right_neutral xor_self_eq)

lemma of_char_u8_inject: "(of_char x :: u8) = of_char y \<longleftrightarrow> x = y"
proof -
  have "unat (of_char c :: u8) = of_char c" for c
  proof -
    have "(of_char c :: u8) = of_nat (of_char c)" by (simp add: of_nat_of_char)
    then show ?thesis using of_char_less_256[of c] by (simp add: unat_of_nat)
  qed
  then show ?thesis by (metis of_char_eq_iff)
qed

lemma ct_fold_0:
  "length a = length b \<Longrightarrow>
     fold (\<lambda>(x, y) d. d OR (of_char x XOR of_char y)) (zip a b) (d::u8) = 0 \<longleftrightarrow> d = 0 \<and> a = b"
proof (induction a b arbitrary: d rule: list_induct2)
  case (Cons x xs y ys)
  have "(of_char x :: u8) = of_char y \<longleftrightarrow> x = y"
    by (rule of_char_u8_inject)
  with Cons show ?case by (auto simp: or_xor_eq_0_iff)
qed simp

lemma ct_diff_0_iff: "length a = length b \<Longrightarrow> ct_diff a b = 0 \<longleftrightarrow> a = b"
  by (simp add: ct_diff_def ct_fold_0)

lemma verify_generate:
  assumes "utf8_valid pod" and "utf8_valid ns"
  shows "verify_pod_token hmac (generate_pod_token hmac now pod ns secret) secret = Ret True"
proof -
  let ?sig = "hmac secret (token_payload pod ns now)"
  have "str_split (CHR ''.'') (hex_of_bytes pod @ CHR ''.'' # hex_of_bytes ns @ CHR ''.'' # show_word now
          @ CHR ''.'' # hex_of_bytes ?sig) = [hex_of_bytes pod, hex_of_bytes ns, show_word now, hex_of_bytes ?sig]"
    by (simp add: str_split_append str_split_no_sep hex_no_dot show_nat_no_dot)
  moreover have "strip_prefix (generate_pod_token hmac now pod ns secret) ''nrns-v2.'' =
      Some (hex_of_bytes pod @ CHR ''.'' # hex_of_bytes ns @ CHR ''.'' # show_word now @ CHR ''.'' # hex_of_bytes ?sig)"
    by (simp add: strip_prefix_Some generate_pod_token_def Let_def)
  ultimately show ?thesis
    using assms by (simp add: verify_pod_token_def Let_def ct_diff_0_iff)
qed

text \<open>The shape of an accepted token, read off the branches of the verifier.\<close>

definition token_decodes ::
  "string \<Rightarrow> string \<Rightarrow> string \<Rightarrow> u64 \<Rightarrow> string \<Rightarrow> bool" where
  "token_decodes token pod ns t sig =
     (\<exists>ph nh ts sh. token = ''nrns-v2.'' @ join ''.'' [ph, nh, ts, sh]
        \<and> hex_decode_to_string ph = Ret (Some pod) \<and> hex_decode_to_string nh = Ret (Some ns)
        \<and> parse_u64 ts = Some t \<and> hex_decode_bytes sh = Ret (Some sig))"

lemma verify_accepts_split:
  assumes "verify_pod_token hmac token secret = Ret True"
  obtains ph nh ts sh where "strip_prefix token ''nrns-v2.'' = Some (join ''.'' [ph, nh, ts, sh])"
    and "str_split (CHR ''.'') (join ''.'' [ph, nh, ts, sh]) = [ph, nh, ts, sh]"
proof -
  obtain rest where rest: "strip_prefix token ''nrns-v2.'' = Some rest"
    using assms by (cases "strip_prefix token ''nrns-v2.''") (auto simp: verify_pod_token_def)
  obtain ph nh ts sh where sp: "str_split (CHR ''.'') rest = [ph, nh, ts, sh]"
    using assms rest by (auto simp: verify_pod_token_def split: list.splits)
  then have "join ''.'' [ph, nh, ts, sh] = rest"
    using join_str_split[of "CHR ''.''" rest] by simp
  with rest sp show ?thesis using that by metis
qed

lemma verify_accepts:
  assumes "verify_pod_token hmac token secret = Ret True"
  shows "\<exists>pod ns t. token_decodes token pod ns t (hmac secret (token_payload pod ns t))"
proof -
  obtain ph nh ts sh where rest: "strip_prefix token ''nrns-v2.'' = Some (join ''.'' [ph, nh, ts, sh])"
    and sp: "str_split (CHR ''.'') (join ''.'' [ph, nh, ts, sh]) = [ph, nh, ts, sh]"
    using verify_accepts_split[OF assms] .
  obtain pod where pod: "hex_decode_to_string ph = Ret (Some pod)"
    using assms rest sp
    by (cases "hex_decode_to_string ph") (auto simp: verify_pod_token_def simp del: join.simps split: option.splits)
  obtain ns where ns: "hex_decode_to_string nh = Ret (Some ns)"
    using assms rest sp pod
    by (cases "hex_decode_to_string nh") (auto simp: verify_pod_token_def simp del: join.simps split: option.splits)
  obtain t where t: "parse_u64 ts = Some t"
    using assms rest sp pod ns
    by (cases "parse_u64 ts") (auto simp: verify_pod_token_def simp del: join.simps)
  let ?e = "hmac secret (token_payload pod ns t)"
  have "hex_decode_bytes sh = Ret (Some ?e)"
  proof (cases "hex_decode_bytes sh")
    case (Ret r)
    with assms rest sp pod ns t show ?thesis
      by (cases r) (auto simp: verify_pod_token_def Let_def ct_diff_0_iff simp del: join.simps)
  next
    case Panic
    with assms rest sp pod ns t show ?thesis
      by (auto simp: verify_pod_token_def Let_def simp del: join.simps)
  qed
  moreover have "token = ''nrns-v2.'' @ join ''.'' [ph, nh, ts, sh]"
    using rest by (simp only: strip_prefix_Some)
  ultimately show ?thesis using pod ns t unfolding token_decodes_def by blast
qed

lemma issue_pod_cert_count:
  "issue_pod_cert R hmac now pod ns ca = (r, ca') \<Longrightarrow>
     ca' = (case r of Inl _ \<Rightarrow> ca | Inr _ \<Rightarrow> ca\<lparr>ca_issued_count := ca_issued_count ca + 1\<rparr>)"
  by (auto simp: issue_pod_cert_def Let_def split: sum.splits prod.splits)

lemma issue_pod_cert_token:
  assumes "issue_pod_cert R hmac now pod ns ca = (Inr p, ca')" and "utf8_valid pod" and "utf8_valid ns"
  shows "verify_pod_token hmac (pi_token p) (ca_fingerprint ca') = Ret True"
  using assms by (auto simp: issue_pod_cert_def Let_def verify_generate split: sum.splits prod.splits)

lemma length_hex16 [simp]: "length (hex16 w) = 16"
  by (simp add: hex16_def)

text \<open>The tracker keeps one pair per network, and its counter is the number of observations.\<close>

definition tracker_ok :: "network_pattern_tracker \<Rightarrow> bool" where
  "tracker_ok t =
     (hm_ok (nt_patterns t) \<and> (\<forall>cs \<in> set (hm_values (nt_patterns t)). distinct (map fst cs)))"

lemma bump_conn_fst: "fst ` set (bump_conn net cs) = insert net (fst ` set cs)"
  by (induction net cs rule: bump_conn.induct) (auto simp: insert_commute)

lemma bump_conn_distinct: "distinct (map fst cs) \<Longrightarrow> distinct (map fst (bump_conn net cs))"
  by (induction net cs rule: bump_conn.induct) (auto simp: bump_conn_fst)

lemma bump_conn_count:
  "map_of (bump_conn net cs) n = (if n = net then Some (unwrap_or (map_of cs net) 0 + 1) else map_of cs n)"
  by (induction net cs rule: bump_conn.induct) auto

lemma tracker_ok_new: "tracker_ok tracker_new"
  by (simp add: tracker_ok_def tracker_new_def hm_values_def)

lemma hm_values_insert: "set (hm_values (hm_insert k v m)) \<subseteq> insert v (set (hm_values m))"
  by (induction k v m rule: hm_insert.induct) (auto simp: hm_values_def)

lemma tracker_ok_observe: "tracker_ok t \<Longrightarrow> tracker_ok (observe_conn pod net t)"
proof -
  assume t: "tracker_ok t"
  let ?cs = "unwrap_or (hm_get (nt_patterns t) pod) []"
  have "distinct (map fst ?cs)"
    using t by (cases "hm_get (nt_patterns t) pod") (auto simp: tracker_ok_def hm_values_get)
  then have "distinct (map fst (bump_conn net ?cs))" by (rule bump_conn_distinct)
  with t hm_values_insert[of pod "bump_conn net ?cs" "nt_patterns t"] show ?thesis
    by (auto simp: tracker_ok_def observe_conn_def Let_def)
qed

interpretation tracker: state_op tracker_ok "\<lambda>(pod, net). observe_conn pod net"
  by unfold_locales (auto simp: tracker_ok_observe)

subsection \<open>Accepted tokens contain no stray separators\<close>

lemma hex_val_no_dot: "hex_val c = Some d \<Longrightarrow> c \<noteq> CHR ''.''"
  by (auto simp: hex_val_def Let_def)

lemma u8_from_hex2_no_dot: "u8_from_hex2 h = Some b \<Longrightarrow> CHR ''.'' \<notin> set h"
  by (auto simp: u8_from_hex2_def dest: hex_val_no_dot split: list.splits if_splits option.splits)

lemma hex_decode_loop_no_dot:
  "hex_decode_loop s i n = Ret (Some bs) \<Longrightarrow> CHR ''.'' \<notin> set (take (2 * n) (drop i s))"
proof (induction n arbitrary: i bs)
  case (Suc n)
  then obtain h b r where h: "str_slice s i (i + 2) = Ret h" "u8_from_hex2 h = Some b"
    and r: "hex_decode_loop s (i + 2) n = Ret (Some r)"
    by (auto simp: rust_bind_eq_Ret split: option.splits)
  have "h = take 2 (drop i s)" using h(1) by (auto simp: str_slice_def split: if_splits)
  moreover have "take (2 * Suc n) (drop i s) = take 2 (drop i s) @ take (2 * n) (drop (i + 2) s)"
    using take_add[of 2 "2 * n" "drop i s"] by (simp add: add.commute)
  ultimately show ?case using Suc.IH[OF r] u8_from_hex2_no_dot[OF h(2)] by auto
qed simp

lemma hex_decode_bytes_no_dot: "hex_decode_bytes s = Ret (Some bs) \<Longrightarrow> CHR ''.'' \<notin> set s"
  using hex_decode_loop_no_dot[of s 0 "length s div 2" bs]
  by (auto simp: hex_decode_bytes_def split: if_splits)

lemma hex_decode_to_string_no_dot: "hex_decode_to_string s = Ret (Some t) \<Longrightarrow> CHR ''.'' \<notin> set s"
  by (auto simp: hex_decode_to_string_def rust_bind_eq_Ret bind_eq_Some_conv dest: hex_decode_bytes_no_dot)

lemma parse_digits_no_dot: "parse_digits a s = Some n \<Longrightarrow> CHR ''.'' \<notin> set s"
  by (induction a s rule: parse_digits.induct) (auto simp: digit_val_def split: option.splits)

lemma parse_u64_no_dot: "parse_u64 s = Some t \<Longrightarrow> CHR ''.'' \<notin> set s"
  by (auto simp: parse_u64_def parse_unsigned_def digit_val_def dest!: parse_digits_no_dot split: list.splits if_splits option.splits)

lemma token_decodes_verifies:
  assumes "token_decodes token pod ns t (hmac secret (token_payload pod ns t))"
  shows "verify_pod_token hmac token secret = Ret True"
proof -
  obtain ph nh ts sh where tok: "token = ''nrns-v2.'' @ join ''.'' [ph, nh, ts, sh]"
    and dec: "hex_decode_to_string ph = Ret (Some pod)" "hex_decode_to_string nh = Ret (Some ns)"
      "parse_u64 ts = Some t" "hex_decode_bytes sh = Ret (Some (hmac secret (token_payload pod ns t)))"
    using assms unfolding token_decodes_def by blast
  have "str_split (CHR ''.'') (join ''.'' [ph, nh, ts, sh]) = [ph, nh, ts, sh]"
    using dec(1,2)[THEN hex_decode_to_string_no_dot] dec(3)[THEN parse_u64_no_dot] dec(4)[THEN hex_decode_bytes_no_dot]
    by (simp add: str_split_append str_split_no_sep)
  moreover have "strip_prefix token ''nrns-v2.'' = Some (join ''.'' [ph, nh, ts, sh])"
    using tok by (simp only: strip_prefix_append)
  ultimately show ?thesis
    using dec by (simp add: verify_pod_token_def Let_def ct_diff_0_iff del: join.simps)
qed

lemma token_payload_inject:
  assumes "CHR '':'' \<notin> set ns" and "CHR '':'' \<notin> set ns'"
    and "token_payload pod ns t = token_payload pod' ns' t'"
  shows "pod = pod' \<and> ns = ns' \<and> t = t'"
proof -
  have nc: "CHR '':'' \<notin> set (show_nat n)" for n
    by (rule show_nat_no_char) (simp add: digit_val_def)
  have "rsplit_once (CHR '':'') (token_payload p n u) = Some (p @ CHR '':'' # n, show_word u)" for p n u
    using rsplit_once_append[of "CHR '':''" "show_word u" "p @ CHR '':'' # n"] nc
    by (simp add: token_payload_def)
  with assms(3) have "pod @ CHR '':'' # ns = pod' @ CHR '':'' # ns'" and t: "show_word t = show_word t'"
    by (metis option.inject prod.inject)+
  then have "Some (pod, ns) = Some (pod', ns')"
    using rsplit_once_append[OF assms(1), of pod] rsplit_once_append[OF assms(2), of pod'] by metis
  with t show ?thesis by (simp add: show_nat_inject word_unat_eq_iff)
qed

subsection \<open>Properties\<close>

text \<open>C21: \<open>verify_pod_token\<close> accepts a token exactly when its four fields decode to a pod name, a
  namespace, a timestamp and the HMAC of those three under the secret. In particular a token whose
  signature, name, namespace or timestamp was altered is accepted only if the altered fields again
  carry their own HMAC, and no accepted token makes the verifier panic.\<close>

theorem pod_token_accepted_iff:
  "verify_pod_token hmac token secret = Ret True \<longleftrightarrow>
     (\<exists>pod ns t. token_decodes token pod ns t (hmac secret (token_payload pod ns t)))"
  using verify_accepts token_decodes_verifies by metis

text \<open>
  A certificate issued by the cluster CA comes with a token that verifies under the CA's
  fingerprint, names the pod and the namespace asked for, and advances the issue counter by one
  (modulo 2 to the 64); a failed issue leaves the CA as it was.\<close>

theorem issued_identity:
  assumes "utf8_valid pod" and "utf8_valid ns"
  shows "case issue_pod_cert R hmac now pod ns ca of
      (Inl e, ca') \<Rightarrow> ca' = ca
    | (Inr p, ca') \<Rightarrow> verify_pod_token hmac (pi_token p) (ca_fingerprint ca) = Ret True
        \<and> pi_pod_name p = pod \<and> pi_namespace p = ns \<and> pi_ca_cert_pem p = ca_cert_pem ca
        \<and> ca' = ca\<lparr>ca_issued_count := ca_issued_count ca + 1\<rparr>"
  using verify_generate[OF assms]
  by (auto simp: issue_pod_cert_def Let_def split: sum.splits)

text \<open>
  The message a token signs identifies the pod, the namespace and the time, provided the
  namespaces have no colon in them: two tokens that sign the same message are for the same pod.\<close>

theorem token_payload_identifies:
  assumes "CHR '':'' \<notin> set ns" and "CHR '':'' \<notin> set ns'"
  shows "token_payload pod ns t = token_payload pod' ns' t' \<longleftrightarrow> pod = pod' \<and> ns = ns' \<and> t = t'"
  using token_payload_inject[OF assms] by blast

end
