(* ===== verification/World.thy ===== *)
theory World
  imports Net_Security
begin

text \<open>
  The desired state of the cluster, \<^verbatim>\<open>src/src/reconcile.rs\<close>: every stored resource type, the
  \<open>DesiredWorld\<close> record with all its fields, and its constructor. A \<open>HashSet\<close> is a list without
  duplicates, \<open>std::time::Instant\<close> a number of nanoseconds, and \<open>'j\<close> a JSON value.
\<close>

subsection \<open>Pipelines\<close>

datatype stage_status = StagePending | StageRunning | StageSucceeded | StageFailed | StageSkipped

record stored_stage =
  sg_name :: string
  sg_image :: "string option"
  sg_command :: "string list option"
  sg_action :: "string option"
  sg_file :: "string option"
  sg_context :: "string option"
  sg_dockerfile :: "string option"
  sg_tag :: "string option"
  sg_build_args :: "(string \<times> string) list"
  sg_artifacts :: "string list"
  sg_depends_on :: "string option"
  sg_env :: "string list"
  sg_if_condition :: "string option"
  sg_matrix_images :: "string list"
  sg_matrix_envs :: "string list"

record stored_trigger =
  tr_trigger_type :: string
  tr_path :: "string option"

record stored_pipeline =
  pl_name :: string
  pl_stages :: "stored_stage list"
  pl_triggers :: "stored_trigger list"

record pipeline_run =
  run_pipeline :: string
  run_id :: u64
  run_stage_status :: "(string \<times> stage_status) list"
  run_started_at :: nat

subsection \<open>Nodes and configuration\<close>

datatype node_status = NodeReady | NodeNotReady | NodeDraining

record cluster_node =
  cn_name :: string
  cn_address :: string
  cn_cpu_capacity :: f32
  cn_mem_capacity :: f32
  cn_cpu_used :: f32
  cn_mem_used :: f32
  cn_pod_count :: u32
  cn_status :: node_status
  cn_last_heartbeat :: u64
  cn_neural_token :: "f32 list"
  cn_joined_at :: u64

record stored_config =
  cfg_llm_host :: string
  cfg_llm_model :: string
  cfg_llm_temperature :: f32
  cfg_alert_webhook :: "string option"
  cfg_alert_on_anomaly :: bool
  cfg_alert_on_restart :: bool
  cfg_alert_on_rollout :: bool
  cfg_runtime :: string
  cfg_pause_default_idle :: u64
  cfg_pause_enabled :: bool
  cfg_api_port :: u16

definition default_config :: stored_config where
  "default_config =
     \<lparr>cfg_llm_host = ''http://localhost:11434'', cfg_llm_model = ''llama3.2:3b'',
      cfg_llm_temperature = f32_lit (3 / 10), cfg_alert_webhook = None,
      cfg_alert_on_anomaly = True, cfg_alert_on_restart = True, cfg_alert_on_rollout = False,
      cfg_runtime = ''docker'', cfg_pause_default_idle = 300, cfg_pause_enabled = True,
      cfg_api_port = 6443\<rparr>"

datatype function_state = FnCold | FnWarming | FnHot | FnPaused

record stored_function =
  fn_name :: string
  fn_image :: string
  fn_command :: "string list option"
  fn_env :: "string list"
  fn_http_triggers :: "string list"
  fn_webhook_triggers :: "string list"
  fn_schedule_triggers :: "string list"
  fn_timeout_secs :: u64
  fn_memory_mb :: u32
  fn_code :: "string option"
  fn_container_id :: "string option"
  fn_invocations :: u64
  fn_last_invoked :: "u64 option"
  fn_state :: function_state

record stored_repository =
  repo_name :: string
  repo_url :: "string option"
  repo_path :: "string option"
  repo_branch :: string
  repo_secret_ref :: "string option"
  repo_pipeline :: "string option"
  repo_last_commit :: "string option"

subsection \<open>Access control and policy\<close>

record admission_webhook =
  aw_name :: string
  aw_url :: string
  aw_kinds :: "string list"
  aw_failure_policy :: string

record stored_limit_range =
  lr_name :: string
  lr_namespace :: string
  lr_default_cpu :: "string option"
  lr_default_mem :: "string option"
  lr_request_cpu :: "string option"
  lr_request_mem :: "string option"

record rbac_rule =
  rule_resources :: "string list"
  rule_verbs :: "string list"
  rule_namespaces :: "string list"

record rbac_role =
  role_name :: string
  role_rules :: "rbac_rule list"

record resource_limits =
  rl_cpu_request :: "f32 option"
  rl_cpu_limit :: "f32 option"
  rl_mem_request :: "u64 option"
  rl_mem_limit :: "u64 option"

record canary_step =
  cst_weight :: u32
  cst_pause_seconds :: u64

datatype deploy_strategy =
    RollingUpdate u32 u32
  | Canary u32 "canary_step list"
  | BlueGreen string

record cluster_event =
  e_kind :: string
  e_object :: string
  e_reason :: string
  e_message :: string
  e_event_type :: string
  e_count :: u32
  e_first_seen :: string
  e_last_seen :: string

record guard_rule =
  gr_when :: string
  gr_action :: string
  gr_params :: "(string, string) hmap"

record guard =
  gd_name :: string
  gd_rules :: "guard_rule list"
  gd_hooks :: "(string, string) hmap"

subsection \<open>Operators and custom resources\<close>

record operator_component =
  oc_role :: string
  oc_image :: string
  oc_replicas :: u32
  oc_env :: "string list"
  oc_volumes :: "string list"
  oc_ports :: "u16 list"

record operator =
  op_name :: string
  op_custom_kind :: string
  op_provision :: "operator_component list"
  op_hooks :: "(string, string) hmap"
  op_rules :: "guard_rule list"

datatype cr_status = CRPending | CRProvisioning | CRRunning | CRFailed

record 'j custom_resource =
  cr_name :: string
  cr_kind :: string
  cr_namespace :: string
  cr_spec :: 'j
  cr_status :: cr_status

subsection \<open>Workloads\<close>

record rollout_state =
  ro_old_image :: string
  ro_new_image :: string
  ro_total_replicas :: u32
  ro_old_pods :: "string list"
  ro_new_pods_created :: u32

record stored_probe =
  pb_http_get :: "(string \<times> u16) option"
  pb_exec :: "string list option"
  pb_initial_delay_seconds :: u64
  pb_period_seconds :: u64
  pb_failure_threshold :: u32

record stored_container =
  sc_name :: string
  sc_image :: string
  sc_command :: "string list option"
  sc_env :: "string list"
  sc_env_from_configmaps :: "string list"
  sc_env_from_secrets :: "string list"
  sc_volumes :: "(string \<times> string) list"
  sc_liveness_probe :: "stored_probe option"
  sc_readiness_probe :: "stored_probe option"
  sc_startup_probe :: "stored_probe option"

record stored_deployment =
  d_name :: string
  d_namespace :: string
  d_replicas :: u32
  d_init_containers :: "stored_container list"
  d_containers :: "stored_container list"
  d_image :: string
  d_previous_image :: "string option"
  d_command :: "string list option"
  d_env :: "string list"
  d_resource_limits :: "resource_limits option"
  d_strategy :: "deploy_strategy option"
  d_pause_after_idle :: "u64 option"
  d_paused :: bool
  d_idle_since :: "u64 option"
  d_stateful :: bool
  d_owner_ref :: "string option"

record stored_daemonset =
  dst_name :: string
  dst_namespace :: string
  dst_container :: stored_container

datatype job_status = JobPending | JobRunning | JobCompleted | JobFailed

record stored_job =
  job_name :: string
  job_namespace :: string
  job_container :: stored_container
  job_completions :: u32
  job_status :: job_status

record stored_cronjob =
  cj_name :: string
  cj_namespace :: string
  cj_schedule :: string
  cj_container :: stored_container
  cj_last_run :: "u64 option"

record stored_hpa =
  hpa_name :: string
  hpa_deployment :: string
  hpa_min_replicas :: u32
  hpa_max_replicas :: u32
  hpa_target_cpu :: f32
  hpa_history :: "f32 list"
  hpa_last_scaled :: "u64 option"

record pod_health =
  ph_created_at :: nat
  ph_liveness_failures :: u32
  ph_readiness_failures :: u32
  ph_ready :: bool

subsection \<open>Networking\<close>

record service_port =
  sp_port :: u16
  sp_target_port :: u16
  sp_protocol :: string
  sp_node_port :: "u16 option"

record stored_service =
  svc_name :: string
  svc_namespace :: string
  svc_selector :: "(string, string) hmap"
  svc_ports :: "service_port list"
  svc_service_type :: string

record ingress_path =
  ip_path :: string
  ip_service :: string
  ip_port :: u16

record ingress_rule =
  ir_host :: string
  ir_paths :: "ingress_path list"

record stored_ingress =
  ig_name :: string
  ig_namespace :: string
  ig_rules :: "ingress_rule list"
  ig_ingress_class :: "string option"

record stored_network_policy =
  np_name :: string
  np_namespace :: string
  np_pod_selector :: string
  np_ingress_allow :: "string list"
  np_egress_allow :: "string list"
  np_ingress_ports :: "u16 list"
  np_egress_ports :: "u16 list"
  np_internal :: bool
  np_mtls_required :: bool
  np_deny_all :: bool

subsection \<open>Quotas, configuration data, storage\<close>

record stored_resource_quota =
  q_name :: string
  q_namespace :: string
  q_hard_cpu :: "f32 option"
  q_hard_memory :: "u64 option"
  q_hard_pods :: "u32 option"
  q_hard_services :: "u32 option"
  q_hard_configmaps :: "u32 option"
  q_hard_secrets :: "u32 option"

record pod_cert_status =
  pcs_pod_name :: string
  pcs_namespace :: string
  pcs_issued_at :: u64
  pcs_expires_at :: u64
  pcs_fingerprint :: string
  pcs_revoked :: bool

record stored_configmap =
  cm_name :: string
  cm_namespace :: string
  cm_data :: "(string, string) hmap"

record stored_secret =
  se_name :: string
  se_namespace :: string
  se_data :: "(string, string) hmap"

datatype pv_status = PVAvailable | PVBound | PVReleased

record stored_pv =
  pv_name :: string
  pv_capacity :: string
  pv_storage_class :: string
  pv_host_path :: string
  pv_access_mode :: string
  pv_status :: pv_status
  pv_bound_to :: "string option"

record stored_pvc =
  pvc_name :: string
  pvc_namespace :: string
  pvc_storage_class :: string
  pvc_requested :: string
  pvc_access_mode :: string
  pvc_bound_pv :: "string option"

record stored_storage_class =
  scl_name :: string
  scl_provisioner :: string
  scl_host_path_prefix :: string
  scl_reclaim_policy :: string
  scl_provisioned_count :: u32

subsection \<open>The desired world\<close>

record 'j desired_world =
  deployments :: "(string, stored_deployment) hmap"
  daemonsets :: "(string, stored_daemonset) hmap"
  jobs :: "(string, stored_job) hmap"
  cronjobs :: "(string, stored_cronjob) hmap"
  hpas :: "(string, stored_hpa) hmap"
  services :: "(string, stored_service) hmap"
  restart_count :: "(string, u32) hmap"
  startup_ok :: "string list"
  netpol_applied :: "string list"
  ingress_classes :: "string list"
  limit_ranges :: "(string, stored_limit_range) hmap"
  manifests :: "(string, 'j) hmap"
  ingresses :: "(string, stored_ingress) hmap"
  network_policies :: "(string, stored_network_policy) hmap"
  configmaps :: "(string, stored_configmap) hmap"
  secrets :: "(string, stored_secret) hmap"
  pvs :: "(string, stored_pv) hmap"
  pvcs :: "(string, stored_pvc) hmap"
  namespaces :: "string list"
  pod_health :: "(string, pod_health) hmap"
  pending_rollouts :: "(string, rollout_state) hmap"
  pipelines :: "(string, stored_pipeline) hmap"
  pipeline_runs :: "pipeline_run list"
  repositories :: "(string, stored_repository) hmap"
  w_functions :: "(string, stored_function) hmap"
  config :: stored_config
  nodes :: "(string, cluster_node) hmap"
  guards :: "(string, guard) hmap"
  operators :: "(string, operator) hmap"
  rbac_roles :: "(string, rbac_role) hmap"
  custom_resources :: "(string, 'j custom_resource) hmap"
  admission_webhooks :: "(string, admission_webhook) hmap"
  events :: "cluster_event list"
  cluster_ca :: "cluster_ca option"
  network_audit :: "network_audit_entry list"
  net_tracker :: network_pattern_tracker
  resource_quotas :: "(string, stored_resource_quota) hmap"
  pod_certs :: "(string, pod_cert_status) hmap"
  storage_classes :: "(string, stored_storage_class) hmap"

definition world_new :: "'j desired_world" where
  "world_new =
     \<lparr>deployments = [], daemonsets = [], jobs = [], cronjobs = [], hpas = [], services = [],
      restart_count = [], startup_ok = [], netpol_applied = [], ingress_classes = [],
      limit_ranges = [], manifests = [], ingresses = [], network_policies = [], configmaps = [],
      secrets = [], pvs = [], pvcs = [], namespaces = [''default''], pod_health = [],
      pending_rollouts = [], pipelines = [], pipeline_runs = [], repositories = [], w_functions = [],
      config = default_config, nodes = [], guards = [], operators = [], rbac_roles = [],
      custom_resources = [], admission_webhooks = [], events = [], cluster_ca = None,
      network_audit = [], net_tracker = tracker_new, resource_quotas = [], pod_certs = [],
      storage_classes = []\<rparr>"

end
