(* ===== verification/World_Ops.thy ===== *)
theory World_Ops
  imports World
begin

text \<open>
  The queries and mutations of \<open>DesiredWorld\<close> outside \<open>apply\<close>, \<^verbatim>\<open>src/src/reconcile.rs\<close>: role checks,
  events, the ports to publish, ownership, deletion with its cascades, quotas and pipeline runs.
  Calls that touch the machine (directories, containers) are recorded in order as \<open>effect\<close> values.
\<close>

datatype effect =
    CreateDirAll string
  | RemoveDirAll string
  | StopContainer string
  | RemoveContainer string bool
  | RunCommand string "string list"

subsection \<open>Role-based access control\<close>

definition rule_allows :: "rbac_rule \<Rightarrow> string \<Rightarrow> string \<Rightarrow> string \<Rightarrow> bool" where
  "rule_allows rule res verb ns =
     ((\<exists>r \<in> set (rule_resources rule). r = ''*'' \<or> r = res)
      \<and> (\<exists>v \<in> set (rule_verbs rule). v = ''*'' \<or> v = verb)
      \<and> (\<exists>n \<in> set (rule_namespaces rule). n = ''*'' \<or> n = ns))"

definition check_rbac :: "'j desired_world \<Rightarrow> string \<Rightarrow> string \<Rightarrow> string \<Rightarrow> string \<Rightarrow> bool" where
  "check_rbac w role res verb ns =
     (if rbac_roles w = [] then True
      else if role = ''admin'' \<and> \<not> hm_contains (rbac_roles w) ''admin'' then True
      else (case hm_get (rbac_roles w) role of
              Some r \<Rightarrow> (\<exists>rule \<in> set (role_rules r). rule_allows rule res verb ns)
            | None \<Rightarrow> False))"

subsection \<open>Events\<close>

fun bump_event :: "u64 \<Rightarrow> string \<Rightarrow> string \<Rightarrow> string \<Rightarrow> cluster_event list \<Rightarrow> cluster_event list option" where
  "bump_event now object reason message [] = None"
| "bump_event now object reason message (e # es) =
     (if e_object e = object \<and> e_reason e = reason
      then Some (e\<lparr>e_count := e_count e + 1, e_last_seen := show_word now, e_message := message\<rparr> # es)
      else map_option ((#) e) (bump_event now object reason message es))"

definition record_event ::
  "u64 \<Rightarrow> string \<Rightarrow> string \<Rightarrow> string \<Rightarrow> string \<Rightarrow> string \<Rightarrow> 'j desired_world \<Rightarrow> 'j desired_world" where
  "record_event now kind object reason message event_type w =
     (case bump_event now object reason message (events w) of
        Some es \<Rightarrow> w\<lparr>events := es\<rparr>
      | None \<Rightarrow>
          (let es = events w @ [\<lparr>e_kind = kind, e_object = object, e_reason = reason,
                                 e_message = message, e_event_type = event_type, e_count = 1,
                                 e_first_seen = show_word now, e_last_seen = show_word now\<rparr>]
           in w\<lparr>events := (if 200 < length es then drop 100 es else es)\<rparr>))"

subsection \<open>Published ports, ownership\<close>

definition nodeport_publish_ports :: "'j desired_world \<Rightarrow> string \<Rightarrow> u16 list" where
  "nodeport_publish_ports w deployment =
     remdups_adj (sort (concat (map (\<lambda>s. map sp_target_port (svc_ports s))
       (filter (\<lambda>s. (svc_service_type s = ''NodePort'' \<or> svc_service_type s = ''LoadBalancer'')
                  \<and> hm_get (svc_selector s) ''app'' = Some deployment) (hm_values (services w))))))"

definition deployments_owned_by :: "'j desired_world \<Rightarrow> string \<Rightarrow> string list" where
  "deployments_owned_by w cr = map d_name (filter (\<lambda>d. d_owner_ref d = Some cr) (hm_values (deployments w)))"

subsection \<open>Deletion\<close>

definition delete_pvc :: "string \<Rightarrow> 'j desired_world \<Rightarrow> bool \<times> 'j desired_world \<times> effect list" where
  "delete_pvc name w =
     (case hm_get (pvcs w) name of
        None \<Rightarrow> (False, w, [])
      | Some pvc \<Rightarrow>
          (let w1 = w\<lparr>pvcs := hm_remove name (pvcs w)\<rparr>
           in (case pvc_bound_pv pvc of
                 None \<Rightarrow> (True, w1, [])
               | Some pvn \<Rightarrow>
                   (case hm_get (pvs w1) pvn of
                      None \<Rightarrow> (True, w1, [])
                    | Some pv \<Rightarrow>
                        (let w2 = w1\<lparr>pvs := hm_insert pvn (pv\<lparr>pv_status := PVReleased, pv_bound_to := None\<rparr>) (pvs w1)\<rparr>
                         in (case hm_get (storage_classes w2) (pv_storage_class pv) of
                               Some sc \<Rightarrow>
                                 if scl_reclaim_policy sc = ''Delete''
                                 then (True, w2\<lparr>pvs := hm_remove pvn (pvs w2)\<rparr>, [RemoveDirAll (pv_host_path pv)])
                                 else (True, w2, [])
                             | None \<Rightarrow> (True, w2, [])))))))"

definition delete_custom_resource :: "string \<Rightarrow> 'j desired_world \<Rightarrow> bool \<times> 'j desired_world \<times> effect list" where
  "delete_custom_resource name w =
     (let existed = hm_contains (custom_resources w) name;
          w1 = w\<lparr>custom_resources := hm_remove name (custom_resources w)\<rparr>
      in if existed
         then (True, w1\<lparr>deployments := fold hm_remove (deployments_owned_by w1 name) (deployments w1)\<rparr>, [])
         else (False, w1, []))"

definition delete :: "string \<Rightarrow> 'j desired_world \<Rightarrow> bool \<times> 'j desired_world" where
  "delete name w = (hm_contains (deployments w) name, w\<lparr>deployments := hm_remove name (deployments w)\<rparr>)"

text \<open>The arms of the \<open>match\<close> on the resource type, in the order of the source.\<close>

definition delete_arms :: "(string \<times> (string \<Rightarrow> 'j desired_world \<Rightarrow> bool \<times> 'j desired_world \<times> effect list)) list" where
  "delete_arms =
     [(''deployments'', \<lambda>n w. (hm_contains (deployments w) n, w\<lparr>deployments := hm_remove n (deployments w)\<rparr>, [])),
      (''daemonsets'', \<lambda>n w. (hm_contains (daemonsets w) n, w\<lparr>daemonsets := hm_remove n (daemonsets w)\<rparr>, [])),
      (''jobs'', \<lambda>n w. (hm_contains (jobs w) n, w\<lparr>jobs := hm_remove n (jobs w)\<rparr>, [])),
      (''cronjobs'', \<lambda>n w. (hm_contains (cronjobs w) n, w\<lparr>cronjobs := hm_remove n (cronjobs w)\<rparr>, [])),
      (''hpa'', \<lambda>n w. (hm_contains (hpas w) n, w\<lparr>hpas := hm_remove n (hpas w)\<rparr>, [])),
      (''horizontalpodautoscalers'', \<lambda>n w. (hm_contains (hpas w) n, w\<lparr>hpas := hm_remove n (hpas w)\<rparr>, [])),
      (''ingresses'', \<lambda>n w. (hm_contains (ingresses w) n, w\<lparr>ingresses := hm_remove n (ingresses w)\<rparr>, [])),
      (''persistentvolumes'', \<lambda>n w. (hm_contains (pvs w) n, w\<lparr>pvs := hm_remove n (pvs w)\<rparr>, [])),
      (''pvs'', \<lambda>n w. (hm_contains (pvs w) n, w\<lparr>pvs := hm_remove n (pvs w)\<rparr>, [])),
      (''persistentvolumeclaims'', delete_pvc),
      (''pvcs'', delete_pvc),
      (''functions'', \<lambda>n w. (hm_contains (w_functions w) n, w\<lparr>w_functions := hm_remove n (w_functions w)\<rparr>, [])),
      (''pipelines'', \<lambda>n w. (hm_contains (pipelines w) n, w\<lparr>pipelines := hm_remove n (pipelines w)\<rparr>, [])),
      (''repositories'', \<lambda>n w. (hm_contains (repositories w) n, w\<lparr>repositories := hm_remove n (repositories w)\<rparr>, [])),
      (''guards'', \<lambda>n w. (hm_contains (guards w) n, w\<lparr>guards := hm_remove n (guards w)\<rparr>, [])),
      (''operators'', \<lambda>n w. (hm_contains (operators w) n, w\<lparr>operators := hm_remove n (operators w)\<rparr>, [])),
      (''customresources'', delete_custom_resource),
      (''rbacroles'', \<lambda>n w. (hm_contains (rbac_roles w) n, w\<lparr>rbac_roles := hm_remove n (rbac_roles w)\<rparr>, []))]"

definition delete_resource ::
  "string \<Rightarrow> string \<Rightarrow> 'j desired_world \<Rightarrow> bool \<times> 'j desired_world \<times> effect list" where
  "delete_resource ty name w =
     (case map_of delete_arms ty of Some arm \<Rightarrow> arm name w | None \<Rightarrow> (False, w, []))"

subsection \<open>Quotas\<close>

text \<open>The sums wrap, as release-mode arithmetic does.\<close>

definition ns_deployments :: "'j desired_world \<Rightarrow> string \<Rightarrow> stored_deployment list" where
  "ns_deployments w ns = filter (\<lambda>d. d_namespace d = ns) (hm_values (deployments w))"

definition desired_pods :: "'j desired_world \<Rightarrow> string \<Rightarrow> u32" where
  "desired_pods w ns = sum_list (map d_replicas (ns_deployments w ns))"

definition desired_cpu :: "'j desired_world \<Rightarrow> string \<Rightarrow> f32" where
  "desired_cpu w ns =
     foldl f_add (Zero False) (map (\<lambda>d.
       f_mul (unwrap_or (Option.bind (d_resource_limits d) rl_cpu_limit) (Zero False))
             (f32_of_nat (unat (d_replicas d)))) (ns_deployments w ns))"

definition desired_mem :: "'j desired_world \<Rightarrow> string \<Rightarrow> u64" where
  "desired_mem w ns =
     sum_list (map (\<lambda>d. unwrap_or (Option.bind (d_resource_limits d) rl_mem_limit) 0 * ucast (d_replicas d))
       (ns_deployments w ns))"

definition count_in :: "('v \<Rightarrow> string) \<Rightarrow> (string, 'v) hmap \<Rightarrow> string \<Rightarrow> u32" where
  "count_in f m ns = of_nat (length (filter (\<lambda>x. f x = ns) (hm_values m)))"

definition over :: "u32 \<Rightarrow> u32 option \<Rightarrow> string \<Rightarrow> string \<Rightarrow> string option" where
  "over cur hard q what =
     (case hard of None \<Rightarrow> None
      | Some mx \<Rightarrow> if mx < cur
          then Some (''quota/'' @ q @ '': '' @ what @ '' '' @ show_word cur @ ''/'' @ show_word mx @ '' exceeded'')
          else None)"

definition quota_violation :: "'j desired_world \<Rightarrow> string \<Rightarrow> stored_resource_quota \<Rightarrow> string option" where
  "quota_violation w ns q =
     opt_or (over (desired_pods w ns) (q_hard_pods q) (q_name q) ''pods'')
    (opt_or (case q_hard_cpu q of None \<Rightarrow> None
             | Some mx \<Rightarrow> (let cur = desired_cpu w ns in
                 if f_gt cur mx
                 then Some (''quota/'' @ q_name q @ '': cpu '' @ fmt_fixed 1 cur @ ''/'' @ fmt_fixed 1 mx @ '' cores exceeded'')
                 else None))
    (opt_or (case q_hard_memory q of None \<Rightarrow> None
             | Some mx \<Rightarrow> (let cur = desired_mem w ns in
                 if mx < cur
                 then Some (''quota/'' @ q_name q @ '': memory '' @ show_word cur @ ''/'' @ show_word mx @ '' Mi exceeded'')
                 else None))
    (opt_or (over (count_in svc_namespace (services w) ns) (q_hard_services q) (q_name q) ''services'')
    (opt_or (over (count_in cm_namespace (configmaps w) ns) (q_hard_configmaps q) (q_name q) ''configmaps'')
            (over (count_in se_namespace (secrets w) ns) (q_hard_secrets q) (q_name q) ''secrets'')))))"

definition check_quota :: "'j desired_world \<Rightarrow> string \<Rightarrow> u32 \<Rightarrow> unit result" where
  "check_quota w ns additional =
     (case filter_map (quota_violation w ns)
             (filter (\<lambda>q. q_namespace q = ns) (hm_values (resource_quotas w))) of
        [] \<Rightarrow> Inr () | e # _ \<Rightarrow> Inl e)"

subsection \<open>Pipeline runs\<close>

definition is_complete :: "pipeline_run \<Rightarrow> bool" where
  "is_complete r =
     (\<forall>(n, s) \<in> set (run_stage_status r). s = StageSucceeded \<or> s = StageFailed \<or> s = StageSkipped)"

fun next_runnable_from :: "(string \<times> stage_status) list \<Rightarrow> string option" where
  "next_runnable_from [] = None"
| "next_runnable_from ((n, s) # xs) = (if s \<noteq> StagePending then next_runnable_from xs else Some n)"

definition next_runnable :: "pipeline_run \<Rightarrow> string option" where
  "next_runnable r = next_runnable_from (run_stage_status r)"

definition start_pipeline ::
  "u64 \<Rightarrow> nat \<Rightarrow> string \<Rightarrow> 'j desired_world \<Rightarrow> u64 result \<times> 'j desired_world" where
  "start_pipeline now instant name w =
     (case hm_get (pipelines w) name of
        None \<Rightarrow> (Inl (''Pipeline '' @ [CHR 0x27] @ name @ [CHR 0x27] @ '' not found''), w)
      | Some p \<Rightarrow>
          (let rid = now mod 100000;
               w1 = w\<lparr>pipeline_runs := pipeline_runs w @
                      [\<lparr>run_pipeline = name, run_id = rid,
                        run_stage_status = map (\<lambda>s. (sg_name s, StagePending)) (pl_stages p),
                        run_started_at = instant\<rparr>]\<rparr>
           in (Inr rid, record_event now ''Pipeline'' name ''Triggered''
                 (''Pipeline run #'' @ show_word rid @ '' started'') ''Normal'' w1)))"

subsection \<open>The well-formedness invariant\<close>

text \<open>Every stored resource sits under its own name, and no map has a key twice.\<close>

definition keyed :: "('v \<Rightarrow> 'k) \<Rightarrow> ('k, 'v) hmap \<Rightarrow> bool" where
  "keyed f m = (hm_ok m \<and> (\<forall>(k, v) \<in> set m. f v = k))"

definition quota_key :: "stored_resource_quota \<Rightarrow> string" where
  "quota_key q = q_namespace q @ ''/'' @ q_name q"

definition world_ok :: "'j desired_world \<Rightarrow> bool" where
  "world_ok w =
     (keyed d_name (deployments w) \<and> keyed dst_name (daemonsets w) \<and> keyed job_name (jobs w)
      \<and> keyed cj_name (cronjobs w) \<and> keyed hpa_name (hpas w) \<and> keyed svc_name (services w)
      \<and> keyed lr_namespace (limit_ranges w) \<and> keyed ig_name (ingresses w)
      \<and> keyed np_name (network_policies w) \<and> keyed cm_name (configmaps w) \<and> keyed se_name (secrets w)
      \<and> keyed pv_name (pvs w) \<and> keyed pvc_name (pvcs w) \<and> keyed pl_name (pipelines w)
      \<and> keyed repo_name (repositories w) \<and> keyed fn_name (w_functions w) \<and> keyed cn_name (nodes w)
      \<and> keyed gd_name (guards w) \<and> keyed op_name (operators w) \<and> keyed role_name (rbac_roles w)
      \<and> keyed cr_name (custom_resources w) \<and> keyed aw_name (admission_webhooks w)
      \<and> keyed quota_key (resource_quotas w)
      \<and> keyed scl_name (storage_classes w) \<and> hm_ok (pending_rollouts w) \<and> hm_ok (manifests w)
      \<and> distinct (namespaces w) \<and> distinct (ingress_classes w)
      \<and> length (events w) \<le> 200 \<and> distinct (map (\<lambda>e. (e_object e, e_reason e)) (events w)))"

lemma keyed_Nil [simp]: "keyed f []"
  by (simp add: keyed_def)

lemma keyed_ok [dest]: "keyed f m \<Longrightarrow> hm_ok m"
  by (simp add: keyed_def)

lemma keyed_get: "keyed f m \<Longrightarrow> hm_get m k = Some v \<Longrightarrow> f v = k"
  using hm_get_Some_in by (fastforce simp: keyed_def)

lemma keyedI: "hm_ok m \<Longrightarrow> (\<And>k v. hm_get m k = Some v \<Longrightarrow> f v = k) \<Longrightarrow> keyed f m"
  using hm_get_in by (fastforce simp: keyed_def)

lemma keyed_insert [simp, intro]: "keyed f m \<Longrightarrow> f v = k \<Longrightarrow> keyed f (hm_insert k v m)"
  by (rule keyedI) (auto dest: keyed_get split: if_splits)

lemma keyed_remove [simp, intro]: "keyed f m \<Longrightarrow> keyed f (hm_remove k m)"
  by (rule keyedI) (auto dest: keyed_get split: if_splits)

lemma keyed_fold_remove [simp, intro]: "keyed f m \<Longrightarrow> keyed f (fold hm_remove ks m)"
  by (induction ks arbitrary: m) auto

lemma keyed_modify: "keyed f m \<Longrightarrow> (\<And>v. f (g v) = f v) \<Longrightarrow> keyed f (hm_modify k g m)"
  by (rule keyedI) (auto dest: keyed_get split: if_splits)

lemma world_ok_new: "world_ok world_new"
  by (simp add: world_ok_def world_new_def)

text \<open>Each map of the world can be updated on its own.\<close>

lemma world_ok_upd_deployments [simp]:
  "world_ok w \<Longrightarrow> world_ok (w\<lparr>deployments := m\<rparr>) = keyed d_name m"
  by (simp add: world_ok_def)

lemma world_ok_upd_daemonsets [simp]:
  "world_ok w \<Longrightarrow> world_ok (w\<lparr>daemonsets := m\<rparr>) = keyed dst_name m"
  by (simp add: world_ok_def)

lemma world_ok_upd_jobs [simp]:
  "world_ok w \<Longrightarrow> world_ok (w\<lparr>jobs := m\<rparr>) = keyed job_name m"
  by (simp add: world_ok_def)

lemma world_ok_upd_cronjobs [simp]:
  "world_ok w \<Longrightarrow> world_ok (w\<lparr>cronjobs := m\<rparr>) = keyed cj_name m"
  by (simp add: world_ok_def)

lemma world_ok_upd_hpas [simp]:
  "world_ok w \<Longrightarrow> world_ok (w\<lparr>hpas := m\<rparr>) = keyed hpa_name m"
  by (simp add: world_ok_def)

lemma world_ok_upd_services [simp]:
  "world_ok w \<Longrightarrow> world_ok (w\<lparr>services := m\<rparr>) = keyed svc_name m"
  by (simp add: world_ok_def)

lemma world_ok_upd_limit_ranges [simp]:
  "world_ok w \<Longrightarrow> world_ok (w\<lparr>limit_ranges := m\<rparr>) = keyed lr_namespace m"
  by (simp add: world_ok_def)

lemma world_ok_upd_ingresses [simp]:
  "world_ok w \<Longrightarrow> world_ok (w\<lparr>ingresses := m\<rparr>) = keyed ig_name m"
  by (simp add: world_ok_def)

lemma world_ok_upd_network_policies [simp]:
  "world_ok w \<Longrightarrow> world_ok (w\<lparr>network_policies := m\<rparr>) = keyed np_name m"
  by (simp add: world_ok_def)

lemma world_ok_upd_configmaps [simp]:
  "world_ok w \<Longrightarrow> world_ok (w\<lparr>configmaps := m\<rparr>) = keyed cm_name m"
  by (simp add: world_ok_def)

lemma world_ok_upd_secrets [simp]:
  "world_ok w \<Longrightarrow> world_ok (w\<lparr>secrets := m\<rparr>) = keyed se_name m"
  by (simp add: world_ok_def)

lemma world_ok_upd_pvs [simp]:
  "world_ok w \<Longrightarrow> world_ok (w\<lparr>pvs := m\<rparr>) = keyed pv_name m"
  by (simp add: world_ok_def)

lemma world_ok_upd_pvcs [simp]:
  "world_ok w \<Longrightarrow> world_ok (w\<lparr>pvcs := m\<rparr>) = keyed pvc_name m"
  by (simp add: world_ok_def)

lemma world_ok_upd_pipelines [simp]:
  "world_ok w \<Longrightarrow> world_ok (w\<lparr>pipelines := m\<rparr>) = keyed pl_name m"
  by (simp add: world_ok_def)

lemma world_ok_upd_repositories [simp]:
  "world_ok w \<Longrightarrow> world_ok (w\<lparr>repositories := m\<rparr>) = keyed repo_name m"
  by (simp add: world_ok_def)

lemma world_ok_upd_w_functions [simp]:
  "world_ok w \<Longrightarrow> world_ok (w\<lparr>w_functions := m\<rparr>) = keyed fn_name m"
  by (simp add: world_ok_def)

lemma world_ok_upd_nodes [simp]:
  "world_ok w \<Longrightarrow> world_ok (w\<lparr>nodes := m\<rparr>) = keyed cn_name m"
  by (simp add: world_ok_def)

lemma world_ok_upd_guards [simp]:
  "world_ok w \<Longrightarrow> world_ok (w\<lparr>guards := m\<rparr>) = keyed gd_name m"
  by (simp add: world_ok_def)

lemma world_ok_upd_operators [simp]:
  "world_ok w \<Longrightarrow> world_ok (w\<lparr>operators := m\<rparr>) = keyed op_name m"
  by (simp add: world_ok_def)

lemma world_ok_upd_rbac_roles [simp]:
  "world_ok w \<Longrightarrow> world_ok (w\<lparr>rbac_roles := m\<rparr>) = keyed role_name m"
  by (simp add: world_ok_def)

lemma world_ok_upd_custom_resources [simp]:
  "world_ok w \<Longrightarrow> world_ok (w\<lparr>custom_resources := m\<rparr>) = keyed cr_name m"
  by (simp add: world_ok_def)

lemma world_ok_upd_admission_webhooks [simp]:
  "world_ok w \<Longrightarrow> world_ok (w\<lparr>admission_webhooks := m\<rparr>) = keyed aw_name m"
  by (simp add: world_ok_def)

lemma world_ok_upd_storage_classes [simp]:
  "world_ok w \<Longrightarrow> world_ok (w\<lparr>storage_classes := m\<rparr>) = keyed scl_name m"
  by (simp add: world_ok_def)

lemma world_ok_upd_resource_quotas [simp]:
  "world_ok w \<Longrightarrow> world_ok (w\<lparr>resource_quotas := m\<rparr>) = keyed quota_key m"
  by (simp add: world_ok_def)

lemma world_ok_upd_pending_rollouts [simp]:
  "world_ok w \<Longrightarrow> world_ok (w\<lparr>pending_rollouts := m\<rparr>) = hm_ok m"
  by (simp add: world_ok_def)

lemma world_ok_upd_namespaces [simp]:
  "world_ok w \<Longrightarrow> world_ok (w\<lparr>namespaces := ns\<rparr>) = distinct ns"
  by (simp add: world_ok_def)

lemma world_ok_upd_ingress_classes [simp]:
  "world_ok w \<Longrightarrow> world_ok (w\<lparr>ingress_classes := cs\<rparr>) = distinct cs"
  by (simp add: world_ok_def)

lemma world_ok_upd_free [simp]:
  "world_ok (w\<lparr>config := c\<rparr>) = world_ok w"
  "world_ok (w\<lparr>pipeline_runs := rs\<rparr>) = world_ok w"
  by (simp_all add: world_ok_def)

lemma world_ok_keyed:
  assumes "world_ok w"
  shows "keyed d_name (deployments w)"
    "keyed dst_name (daemonsets w)"
    "keyed job_name (jobs w)"
    "keyed cj_name (cronjobs w)"
    "keyed hpa_name (hpas w)"
    "keyed svc_name (services w)"
    "keyed lr_namespace (limit_ranges w)"
    "keyed ig_name (ingresses w)"
    "keyed np_name (network_policies w)"
    "keyed cm_name (configmaps w)"
    "keyed se_name (secrets w)"
    "keyed pv_name (pvs w)"
    "keyed pvc_name (pvcs w)"
    "keyed pl_name (pipelines w)"
    "keyed repo_name (repositories w)"
    "keyed fn_name (w_functions w)"
    "keyed cn_name (nodes w)"
    "keyed gd_name (guards w)"
    "keyed op_name (operators w)"
    "keyed role_name (rbac_roles w)"
    "keyed cr_name (custom_resources w)"
    "keyed aw_name (admission_webhooks w)"
    "keyed scl_name (storage_classes w)"
    "keyed quota_key (resource_quotas w)"
    "hm_ok (pending_rollouts w)" "distinct (namespaces w)" "distinct (ingress_classes w)"
  using assms by (simp_all add: world_ok_def)

subsection \<open>Lemmas: events\<close>

lemma bump_event_None_iff:
  "bump_event now ob re msg es = None \<longleftrightarrow> (ob, re) \<notin> (\<lambda>e. (e_object e, e_reason e)) ` set es"
  by (induction es) auto

lemma bump_event_keys:
  "bump_event now ob re msg es = Some es' \<Longrightarrow>
     map (\<lambda>e. (e_object e, e_reason e)) es' = map (\<lambda>e. (e_object e, e_reason e)) es"
  by (induction es arbitrary: es') (auto split: if_splits)

lemma bump_event_length: "bump_event now ob re msg es = Some es' \<Longrightarrow> length es' = length es"
  by (induction es arbitrary: es') (auto split: if_splits)

lemma record_event_bounds:
  assumes "length (events w) \<le> 200"
    and "distinct (map (\<lambda>e. (e_object e, e_reason e)) (events w))"
  shows "length (events (record_event now k ob re msg ty w)) \<le> 200
    \<and> distinct (map (\<lambda>e. (e_object e, e_reason e)) (events (record_event now k ob re msg ty w)))"
proof (cases "bump_event now ob re msg (events w)")
  case None
  then have "(ob, re) \<notin> set (map (\<lambda>e. (e_object e, e_reason e)) (events w))"
    by (simp add: bump_event_None_iff)
  with None assms show ?thesis
    by (auto simp: record_event_def Let_def drop_map[symmetric] dest: in_set_dropD)
next
  case (Some es)
  with assms show ?thesis
    by (simp add: record_event_def bump_event_length bump_event_keys)
qed

lemma record_event_frame [simp, world_frame]:
  "deployments (record_event now k ob re msg ty w) = deployments w"
  "pipeline_runs (record_event now k ob re msg ty w) = pipeline_runs w"
  by (simp_all add: record_event_def Let_def split: option.splits)

lemma world_ok_record_event: "world_ok w \<Longrightarrow> world_ok (record_event now k ob re msg ty w)"
  using record_event_bounds[of w now k ob re msg ty]
  by (auto simp: world_ok_def record_event_def Let_def split: option.splits if_splits)

lemma world_ok_start_pipeline: "world_ok w \<Longrightarrow> world_ok (snd (start_pipeline now i name w))"
  by (auto simp: start_pipeline_def Let_def split: option.splits intro!: world_ok_record_event)

subsection \<open>Lemmas: deletion\<close>

lemma deployments_owned_by_iff:
  assumes "keyed d_name (deployments w)"
  shows "n \<in> set (deployments_owned_by w cr) \<longleftrightarrow>
           (\<exists>d. hm_get (deployments w) n = Some d \<and> d_owner_ref d = Some cr)"
proof
  assume "n \<in> set (deployments_owned_by w cr)"
  then obtain k d where "(k, d) \<in> set (deployments w)" "d_name d = n" "d_owner_ref d = Some cr"
    by (auto simp: deployments_owned_by_def hm_values_def)
  with assms show "\<exists>d. hm_get (deployments w) n = Some d \<and> d_owner_ref d = Some cr"
    by (metis hm_get_in keyed_get keyed_ok)
next
  assume "\<exists>d. hm_get (deployments w) n = Some d \<and> d_owner_ref d = Some cr"
  then obtain d where d: "hm_get (deployments w) n = Some d" "d_owner_ref d = Some cr" by blast
  then have "d \<in> set (hm_values (deployments w))" using assms hm_values_get keyed_ok by metis
  with d keyed_get[OF assms d(1)] show "n \<in> set (deployments_owned_by w cr)"
    by (auto simp: deployments_owned_by_def)
qed

lemma delete_custom_resource_deployments:
  assumes "keyed d_name (deployments w)" and "hm_contains (custom_resources w) cr"
    and "delete_custom_resource cr w = (b, w', es)"
  shows "hm_get (deployments w') n =
    (case hm_get (deployments w) n of
       None \<Rightarrow> None
     | Some d \<Rightarrow> if d_owner_ref d = Some cr then None else Some d)"
proof -
  have "deployments w' = fold hm_remove (deployments_owned_by w cr) (deployments w)"
    using assms(2,3) by (auto simp: delete_custom_resource_def Let_def deployments_owned_by_def)
  then show ?thesis
    using deployments_owned_by_iff[OF assms(1), of n cr]
    by (auto simp: hm_remove_all split: option.splits)
qed

lemma delete_pvc_ok: "world_ok w \<Longrightarrow> delete_pvc n w = (b, w', es) \<Longrightarrow> world_ok w'"
  using keyed_get[of pv_name "pvs w"]
  by (auto simp: delete_pvc_def Let_def world_ok_keyed split: option.splits if_splits)

lemma delete_custom_resource_ok: "world_ok w \<Longrightarrow> delete_custom_resource n w = (b, w', es) \<Longrightarrow> world_ok w'"
  by (auto simp: delete_custom_resource_def Let_def world_ok_keyed split: if_splits)

lemma delete_arms_ok: "\<forall>p \<in> set delete_arms. \<forall>n w. world_ok w \<longrightarrow> world_ok (fst (snd (snd p n w)))"
proof -
  have "world_ok (fst (snd (delete_pvc n w)))" if "world_ok w" for n and w :: "'a desired_world"
    using delete_pvc_ok[OF that] by (metis prod.collapse)
  moreover have "world_ok (fst (snd (delete_custom_resource n w)))" if "world_ok w" for n and w :: "'a desired_world"
    using delete_custom_resource_ok[OF that] by (metis prod.collapse)
  ultimately show ?thesis
    by (simp add: delete_arms_def world_ok_keyed)
qed

lemma delete_resource_ok: "world_ok w \<Longrightarrow> world_ok (fst (snd (delete_resource ty n w)))"
  unfolding delete_resource_def
  using delete_arms_ok by (auto split: option.split dest!: map_of_SomeD)

interpretation deletion: state_op world_ok "\<lambda>(ty, n) w. fst (snd (delete_resource ty n w))"
  by unfold_locales (auto simp: delete_resource_ok)

interpretation event_log: state_op world_ok "\<lambda>(now, k, ob, re, msg, ty). record_event now k ob re msg ty"
  by unfold_locales (auto simp: world_ok_record_event)

subsection \<open>Lemmas: quotas and ports\<close>

lemma unat_sum_list_le: "unat (sum_list ws) \<le> sum_list (map unat ws)" for ws :: "'a::len word list"
  by (induction ws) (auto simp: unat_word_ariths intro: order_trans[OF mod_less_eq_dividend])

lemma unat_sum_list_exact:
  "sum_list (map unat ws) < 2 ^ LENGTH('a) \<Longrightarrow> unat (sum_list ws) = sum_list (map unat ws)"
  for ws :: "'a::len word list"
  by (induction ws) (auto simp: unat_word_ariths)

lemma check_quota_ok_iff:
  "check_quota w ns n = Inr () \<longleftrightarrow>
     (\<forall>q \<in> set (hm_values (resource_quotas w)). q_namespace q = ns \<longrightarrow> quota_violation w ns q = None)"
  using filter_map_Nil_iff[of "quota_violation w ns"
      "filter (\<lambda>q. q_namespace q = ns) (hm_values (resource_quotas w))"]
  by (auto simp: check_quota_def split: list.splits)

lemma quota_violation_None:
  assumes "quota_violation w ns q = None"
  shows "q_hard_pods q = Some p \<Longrightarrow> desired_pods w ns \<le> p"
    and "q_hard_memory q = Some m \<Longrightarrow> desired_mem w ns \<le> m"
    and "q_hard_cpu q = Some c \<Longrightarrow> \<not> f_gt (desired_cpu w ns) c"
    and "q_hard_services q = Some s \<Longrightarrow> count_in svc_namespace (services w) ns \<le> s"
    and "q_hard_configmaps q = Some k \<Longrightarrow> count_in cm_namespace (configmaps w) ns \<le> k"
    and "q_hard_secrets q = Some k \<Longrightarrow> count_in se_namespace (secrets w) ns \<le> k"
  using assms
  by (auto simp: quota_violation_def over_def opt_or_def Let_def split: option.splits if_splits)

lemma nodeport_publish_ports_set:
  "p \<in> set (nodeport_publish_ports w dep) \<longleftrightarrow>
     (\<exists>s \<in> set (hm_values (services w)). svc_service_type s \<in> {''NodePort'', ''LoadBalancer''}
        \<and> hm_get (svc_selector s) ''app'' = Some dep \<and> p \<in> sp_target_port ` set (svc_ports s))"
  by (auto simp: nodeport_publish_ports_def)

lemma distinct_remdups_adj_sorted: "sorted xs \<Longrightarrow> distinct (remdups_adj xs)"
  by (induction xs rule: remdups_adj.induct) (auto simp: less_le)

lemma nodeport_publish_ports_sorted:
  "sorted (nodeport_publish_ports w dep) \<and> distinct (nodeport_publish_ports w dep)"
  by (simp add: nodeport_publish_ports_def distinct_remdups_adj_sorted sorted_remdups_adj)

subsection \<open>Lemmas: pipelines\<close>

lemma next_runnable_from_Some:
  assumes "next_runnable_from xs = Some n"
  shows "\<exists>ys zs. xs = ys @ (n, StagePending) # zs \<and> (\<forall>p \<in> set ys. snd p \<noteq> StagePending)"
  using assms
proof (induction xs rule: next_runnable_from.induct)
  case (2 m s xs)
  show ?case
  proof (cases "s = StagePending")
    case True
    with "2.prems" show ?thesis by (intro exI[of _ "[]"] exI[of _ xs]) simp
  next
    case False
    with "2" obtain ys zs where "xs = ys @ (n, StagePending) # zs" "\<forall>p \<in> set ys. snd p \<noteq> StagePending"
      by auto
    with False show ?thesis by (intro exI[of _ "(m, s) # ys"] exI[of _ zs]) simp
  qed
qed simp

lemma next_runnable_from_None: "next_runnable_from xs = None \<longleftrightarrow> (\<forall>p \<in> set xs. snd p \<noteq> StagePending)"
  by (induction xs rule: next_runnable_from.induct) auto

lemma complete_not_runnable: "is_complete r \<Longrightarrow> next_runnable r = None"
  by (fastforce simp: is_complete_def next_runnable_def next_runnable_from_None)

end
