(* ===== verification/Apply_Workload.thy ===== *)
theory Apply_Workload
  imports World_Ops
begin

text \<open>
  \<open>DesiredWorld::apply\<close> for the workload kinds, \<^verbatim>\<open>src/src/reconcile.rs\<close>: Deployment, ReplicaSet, Pod and
  StatefulSet share one arm; DaemonSet, Job and CronJob take only the first container and panic when
  there is none. A step is the returned result, the new world and the calls made on the machine.
\<close>

type_synonym 'j step = "(string result \<times> 'j desired_world \<times> effect list) rust"

definition fail :: "string \<Rightarrow> 'j desired_world \<Rightarrow> 'j step" where
  "fail e w = Ret (Inl e, w, [])"

definition done_ok :: "string \<Rightarrow> 'j desired_world \<Rightarrow> 'j step" where
  "done_ok msg w = Ret (Inr msg, w, [])"

definition res_name :: "'y resource \<Rightarrow> string" where
  "res_name r = md_name (r_metadata r)"

definition res_ns :: "'y resource \<Rightarrow> string" where
  "res_ns r = unwrap_or (md_namespace (r_metadata r)) ''default''"

definition arrow :: string where
  "arrow = [CHR 0xE2, CHR 0x86, CHR 0x92]"

subsection \<open>Volumes\<close>

definition validate_path :: "string \<Rightarrow> bool" where
  "validate_path path =
     (\<not> str_contains path ''..'' \<and> \<not> str_contains path ''~'' \<and> starts_with path ''/''
      \<and> \<not> str_contains path ''//'')"

definition tmp_dir :: "string \<Rightarrow> 'y volume_spec \<Rightarrow> string" where
  "tmp_dir name v = ''/tmp/royak-'' @ name @ ''-'' @ v_name v"

definition pvc_path :: "'j desired_world \<Rightarrow> string \<Rightarrow> string option" where
  "pvc_path w claim =
     Option.bind (hm_get (pvcs w) claim) (\<lambda>pvc.
     Option.bind (pvc_bound_pv pvc) (\<lambda>pvn.
     map_option pv_host_path (hm_get (pvs w) pvn)))"

definition volume_source :: "'j desired_world \<Rightarrow> string \<Rightarrow> 'y volume_spec \<Rightarrow> string option" where
  "volume_source w name v =
     (case v_host_path v of
        Some hp \<Rightarrow> if \<not> validate_path (hp_path hp) then None else Some (hp_path hp)
      | None \<Rightarrow>
          if v_empty_dir v \<noteq> None then Some (tmp_dir name v)
          else (case v_config_map v of
                  Some cm \<Rightarrow> Some (''cmv:'' @ nr_name cm)
                | None \<Rightarrow> (case v_secret v of
                    Some sv \<Rightarrow> Some (''sev:'' @ sv_secret_name sv)
                  | None \<Rightarrow> (case v_pvc v of
                      Some p \<Rightarrow> pvc_path w (pr_claim_name p)
                    | None \<Rightarrow> None))))"

definition volume_effects :: "string \<Rightarrow> 'y volume_spec list \<Rightarrow> effect list" where
  "volume_effects name vols =
     map (\<lambda>v. CreateDirAll (tmp_dir name v)) (filter (\<lambda>v. v_host_path v = None \<and> v_empty_dir v \<noteq> None) vols)"

definition vct_entries :: "string \<Rightarrow> 'y deployment_spec \<Rightarrow> (string \<times> string) list" where
  "vct_entries kind dep =
     (if kind = ''StatefulSet''
      then map (\<lambda>v. (md_name (vct_metadata v), ''vct:'' @ md_name (vct_metadata v)))
             (unwrap_or (ds_volume_claim_templates dep) [])
      else [])"

definition volume_map :: "'j desired_world \<Rightarrow> string \<Rightarrow> string \<Rightarrow> 'y deployment_spec \<Rightarrow> (string, string) hmap" where
  "volume_map w kind name dep =
     hm_extend
       (hm_collect (filter_map (\<lambda>v. map_option (Pair (v_name v)) (volume_source w name v))
          (unwrap_or (p_volumes (pt_spec (ds_template dep))) [])))
       (hm_collect (vct_entries kind dep))"

subsection \<open>Containers\<close>

definition env_strings :: "env_var list option \<Rightarrow> string list" where
  "env_strings vars =
     filter_map (\<lambda>e. map_option (\<lambda>v. ev_name e @ ''='' @ v) (ev_value e)) (unwrap_or vars [])"

definition stored_probe_of :: "probe_spec \<Rightarrow> stored_probe" where
  "stored_probe_of p =
     \<lparr>pb_http_get = map_option (\<lambda>h. (hg_path h, hg_port h)) (ps_http_get p),
      pb_exec = map_option xp_command (ps_exec p),
      pb_initial_delay_seconds = ps_initial_delay_seconds p,
      pb_period_seconds = ps_period_seconds p,
      pb_failure_threshold = ps_failure_threshold p\<rparr>"

definition mount_pairs :: "(string, string) hmap \<Rightarrow> volume_mount list option \<Rightarrow> (string \<times> string) list" where
  "mount_pairs vmap mounts =
     filter_map (\<lambda>m. map_option (\<lambda>host. (host, vm_mount_path m)) (hm_get vmap (vm_name m))) (unwrap_or mounts [])"

definition stored_container_of :: "(string, string) hmap \<Rightarrow> container_spec \<Rightarrow> stored_container" where
  "stored_container_of vmap c =
     \<lparr>sc_name = c_name c, sc_image = c_image c, sc_command = c_command c, sc_env = env_strings (c_env c),
      sc_env_from_configmaps = filter_map (\<lambda>r. map_option nr_name (ef_config_map_ref r)) (unwrap_or (c_env_from c) []),
      sc_env_from_secrets = filter_map (\<lambda>r. map_option nr_name (ef_secret_ref r)) (unwrap_or (c_env_from c) []),
      sc_volumes = mount_pairs vmap (c_volume_mounts c),
      sc_liveness_probe = map_option stored_probe_of (c_liveness_probe c),
      sc_readiness_probe = map_option stored_probe_of (c_readiness_probe c),
      sc_startup_probe = map_option stored_probe_of (c_startup_probe c)\<rparr>"

definition plain_container_of :: "container_spec \<Rightarrow> stored_container" where
  "plain_container_of c =
     \<lparr>sc_name = c_name c, sc_image = c_image c, sc_command = c_command c, sc_env = env_strings (c_env c),
      sc_env_from_configmaps = [], sc_env_from_secrets = [], sc_volumes = [],
      sc_liveness_probe = None, sc_readiness_probe = None, sc_startup_probe = None\<rparr>"

subsection \<open>Resource limits and strategy\<close>

definition parse_cpu :: "string \<Rightarrow> f32" where
  "parse_cpu s =
     (if ends_with s ''m''
      then f_div (unwrap_or (parse_f32 (trim_end_matches ''m'' s)) (Zero False)) (f32_of_nat 1000)
      else unwrap_or (parse_f32 s) (Zero False))"

definition parse_mem :: "string \<Rightarrow> u64" where
  "parse_mem s =
     (if ends_with s ''Gi'' then unwrap_or (parse_u64 (trim_end_matches ''Gi'' s)) 0 * 1024
      else if ends_with s ''Mi'' then unwrap_or (parse_u64 (trim_end_matches ''Mi'' s)) 0
      else if ends_with s ''G'' then unwrap_or (parse_u64 (trim_end_matches ''G'' s)) 0 * 1024
      else if ends_with s ''M'' then unwrap_or (parse_u64 (trim_end_matches ''M'' s)) 0
      else unwrap_or (parse_u64 s) 0)"

definition parse_mem_range :: "string \<Rightarrow> u64" where
  "parse_mem_range s =
     (if ends_with s ''Gi'' then unwrap_or (parse_u64 (trim_end_matches ''Gi'' s)) 0 * 1024
      else if ends_with s ''Mi'' then unwrap_or (parse_u64 (trim_end_matches ''Mi'' s)) 0
      else unwrap_or (parse_u64 s) 0)"

definition container_limits :: "resource_spec \<Rightarrow> resource_limits" where
  "container_limits r =
     \<lparr>rl_cpu_request = map_option parse_cpu (Option.bind (rs_requests r) (\<lambda>m. hm_get m ''cpu'')),
      rl_cpu_limit = map_option parse_cpu (Option.bind (rs_limits r) (\<lambda>m. hm_get m ''cpu'')),
      rl_mem_request = map_option parse_mem (Option.bind (rs_requests r) (\<lambda>m. hm_get m ''memory'')),
      rl_mem_limit = map_option parse_mem (Option.bind (rs_limits r) (\<lambda>m. hm_get m ''memory''))\<rparr>"

definition range_limits :: "stored_limit_range \<Rightarrow> resource_limits" where
  "range_limits lr =
     \<lparr>rl_cpu_request = map_option parse_cpu (lr_request_cpu lr),
      rl_cpu_limit = map_option parse_cpu (lr_default_cpu lr),
      rl_mem_request = map_option parse_mem_range (lr_request_mem lr),
      rl_mem_limit = map_option parse_mem_range (lr_default_mem lr)\<rparr>"

definition limits_for :: "'j desired_world \<Rightarrow> string \<Rightarrow> 'y deployment_spec \<Rightarrow> resource_limits option" where
  "limits_for w ns dep =
     opt_or (map_option container_limits (Option.bind (head_opt (p_containers (pt_spec (ds_template dep)))) c_resources))
            (map_option range_limits (hm_get (limit_ranges w) ns))"

definition strategy_of :: "strategy_spec \<Rightarrow> deploy_strategy" where
  "strategy_of s =
     (if st_strategy_type s = ''Canary'' then
        Canary (unwrap_or (st_weight s) 10)
          [\<lparr>cst_weight = unwrap_or (st_weight s) 10, cst_pause_seconds = 30\<rparr>,
           \<lparr>cst_weight = 50, cst_pause_seconds = 60\<rparr>,
           \<lparr>cst_weight = 100, cst_pause_seconds = 0\<rparr>]
      else if st_strategy_type s = ''BlueGreen'' then BlueGreen (unwrap_or (st_active s) ''green'')
      else RollingUpdate (unwrap_or (st_max_surge s) 1) (unwrap_or (st_max_unavailable s) 0))"

subsection \<open>Deployment, ReplicaSet, Pod, StatefulSet\<close>

definition rolling_from :: "'j desired_world \<Rightarrow> string \<Rightarrow> string \<Rightarrow> string option" where
  "rolling_from w name new_image =
     (case hm_get (deployments w) name of
        Some ex \<Rightarrow> if d_image ex \<noteq> new_image \<and> d_image ex \<noteq> [] then Some (d_image ex) else None
      | None \<Rightarrow> None)"

definition count_suffix :: "nat \<Rightarrow> nat \<Rightarrow> string" where
  "count_suffix containers inits =
     (if 1 < containers then '' ('' @ show_nat containers @ '' containers)'' else []) @
     (if 0 < inits then '', '' @ show_nat inits @ '' init'' else [])"

definition kind_label :: "string \<Rightarrow> string" where
  "kind_label kind =
     (if kind = ''Pod'' then ''pod (as 1-replica deployment)''
      else if kind = ''ReplicaSet'' then ''replicaset (as deployment)''
      else if kind = ''StatefulSet'' then ''statefulset (ordered, per-ordinal volumes)''
      else ''deployment'')"

definition new_deployment ::
  "'j desired_world \<Rightarrow> 'y resource \<Rightarrow> 'y deployment_spec \<Rightarrow> stored_container \<Rightarrow> stored_container list \<Rightarrow> stored_deployment" where
  "new_deployment w r dep first containers =
     \<lparr>d_name = res_name r, d_namespace = res_ns r, d_replicas = unwrap_or (ds_replicas dep) 1,
      d_init_containers = map plain_container_of (unwrap_or (p_init_containers (pt_spec (ds_template dep))) []),
      d_containers = containers, d_image = sc_image first,
      d_previous_image = map_option d_image (hm_get (deployments w) (res_name r)),
      d_command = sc_command first, d_env = sc_env first,
      d_resource_limits = limits_for w (res_ns r) dep,
      d_strategy = map_option strategy_of (ds_strategy dep),
      d_pause_after_idle = None, d_paused = False, d_idle_since = None,
      d_stateful = (r_kind r = ''StatefulSet''), d_owner_ref = None\<rparr>"

definition rollout_of :: "stored_deployment \<Rightarrow> string \<Rightarrow> rollout_state" where
  "rollout_of d old =
     \<lparr>ro_old_image = old, ro_new_image = d_image d, ro_total_replicas = d_replicas d,
      ro_old_pods = [], ro_new_pods_created = 0\<rparr>"

definition store_deployment ::
  "'y resource \<Rightarrow> stored_deployment \<Rightarrow> effect list \<Rightarrow> 'j desired_world \<Rightarrow> 'j step" where
  "store_deployment r d es w =
     (let name = res_name r;
          suffix = count_suffix (length (d_containers d)) (length (d_init_containers d));
          w1 = w\<lparr>deployments := hm_insert name d (deployments w)\<rparr>
      in (case rolling_from w name (d_image d) of
            Some old \<Rightarrow>
              Ret (Inr (''deployment/'' @ name @ '' rolling update'' @ suffix @ '': '' @ old @ '' '' @ arrow @ '' '' @ d_image d),
                   w1\<lparr>pending_rollouts := hm_insert name (rollout_of d old) (pending_rollouts w1)\<rparr>, es)
          | None \<Rightarrow> Ret (Inr (kind_label (r_kind r) @ ''/'' @ name @ '' applied'' @ suffix), w1, es)))"

definition apply_deployment :: "('y, 'j) yaml_ops \<Rightarrow> 'y resource \<Rightarrow> 'j desired_world \<Rightarrow> 'j step" where
  "apply_deployment Y r w =
     (case as_deployment Y r of
        None \<Rightarrow> (case r_spec r of
                   Some sv \<Rightarrow> fail (''Deployment parse: '' @ yv_deployment_err Y sv) w
                 | None \<Rightarrow> fail ''No spec'' w)
      | Some dep \<Rightarrow>
          (let vols = unwrap_or (p_volumes (pt_spec (ds_template dep))) [];
               es = volume_effects (res_name r) vols;
               containers = map (stored_container_of (volume_map w (r_kind r) (res_name r) dep))
                              (p_containers (pt_spec (ds_template dep)))
           in (case containers of
                 [] \<Rightarrow> Ret (Inl ''Deployment has no containers'', w, es)
               | first # _ \<Rightarrow> store_deployment r (new_deployment w r dep first containers) es w)))"

subsection \<open>DaemonSet, Job, CronJob\<close>

text \<open>\<open>containers[0]\<close> panics on an empty list.\<close>

definition first_container :: "'y deployment_spec \<Rightarrow> container_spec rust" where
  "first_container dep =
     (case p_containers (pt_spec (ds_template dep)) of [] \<Rightarrow> Panic | c # _ \<Rightarrow> Ret c)"

definition apply_daemonset :: "('y, 'j) yaml_ops \<Rightarrow> 'y resource \<Rightarrow> 'j desired_world \<Rightarrow> 'j step" where
  "apply_daemonset Y r w =
     (case as_deployment Y r of
        None \<Rightarrow> fail ''Invalid DaemonSet spec'' w
      | Some dep \<Rightarrow> rust_bind (first_container dep) (\<lambda>c.
          done_ok (''daemonset/'' @ res_name r @ '' applied (runs on every node)'')
            (w\<lparr>daemonsets := hm_insert (res_name r)
                 \<lparr>dst_name = res_name r, dst_namespace = res_ns r, dst_container = plain_container_of c\<rparr>
                 (daemonsets w)\<rparr>)))"

definition apply_job :: "('y, 'j) yaml_ops \<Rightarrow> 'y resource \<Rightarrow> 'j desired_world \<Rightarrow> 'j step" where
  "apply_job Y r w =
     (case as_deployment Y r of
        None \<Rightarrow> fail ''Invalid Job spec'' w
      | Some dep \<Rightarrow> rust_bind (first_container dep) (\<lambda>c.
          let completions = unwrap_or (ds_replicas dep) 1
          in done_ok (''job/'' @ res_name r @ '' created (completions: '' @ show_word completions @ '')'')
               (w\<lparr>jobs := hm_insert (res_name r)
                    \<lparr>job_name = res_name r, job_namespace = res_ns r, job_container = plain_container_of c,
                     job_completions = completions, job_status = JobPending\<rparr> (jobs w)\<rparr>)))"

definition apply_cronjob :: "('y, 'j) yaml_ops \<Rightarrow> 'y resource \<Rightarrow> 'j desired_world \<Rightarrow> 'j step" where
  "apply_cronjob Y r w =
     (case as_deployment Y r of
        None \<Rightarrow> fail ''Invalid CronJob spec'' w
      | Some dep \<Rightarrow> rust_bind (first_container dep) (\<lambda>c.
          let schedule = unwrap_or (Option.bind (r_spec r) (\<lambda>s. yv_str_at Y s [''schedule''])) ''*/5 * * * *''
          in done_ok (''cronjob/'' @ res_name r @ '' scheduled ('' @ schedule @ '')'')
               (w\<lparr>cronjobs := hm_insert (res_name r)
                    \<lparr>cj_name = res_name r, cj_namespace = res_ns r, cj_schedule = schedule,
                     cj_container = plain_container_of c, cj_last_run = None\<rparr> (cronjobs w)\<rparr>)))"

subsection \<open>Lemmas\<close>

lemma fail_ok [simp]: "fail e w = Ret (r, w', es) \<longleftrightarrow> r = Inl e \<and> w' = w \<and> es = []"
  by (auto simp: fail_def)

lemma done_ok_ok [simp]: "done_ok m w = Ret (r, w', es) \<longleftrightarrow> r = Inr m \<and> w' = w \<and> es = []"
  by (auto simp: done_ok_def)

text \<open>What every arm of \<open>apply\<close> promises: it keeps the world well formed, and an error changes nothing.\<close>

definition arm_ok :: "('y resource \<Rightarrow> 'j desired_world \<Rightarrow> 'j step) \<Rightarrow> bool" where
  "arm_ok f = (\<forall>r w res w' es. world_ok w \<longrightarrow> f r w = Ret (res, w', es) \<longrightarrow>
     world_ok w' \<and> (\<forall>e. res = Inl e \<longrightarrow> w' = w))"

lemma arm_okI:
  "(\<And>r w res w' es. world_ok w \<Longrightarrow> f r w = Ret (res, w', es) \<Longrightarrow>
     world_ok w' \<and> (\<forall>e. res = Inl e \<longrightarrow> w' = w)) \<Longrightarrow> arm_ok f"
  by (simp add: arm_ok_def)

lemma arm_okD:
  "arm_ok f \<Longrightarrow> world_ok w \<Longrightarrow> f r w = Ret (res, w', es) \<Longrightarrow> world_ok w' \<and> (\<forall>e. res = Inl e \<longrightarrow> w' = w)"
  unfolding arm_ok_def by blast

lemma new_deployment_name [simp]: "d_name (new_deployment w r dep first cs) = res_name r"
  by (simp add: new_deployment_def)

lemma store_deployment_Ret:
  assumes "store_deployment r d es w = Ret (res, w', es')"
  shows "deployments w' = hm_insert (res_name r) d (deployments w) \<and> es' = es \<and> (\<exists>m. res = Inr m)
    \<and> hm_get (pending_rollouts w') (res_name r) =
        (case rolling_from w (res_name r) (d_image d) of
           Some old \<Rightarrow> Some (rollout_of d old)
         | None \<Rightarrow> hm_get (pending_rollouts w) (res_name r))"
  using assms by (auto simp: store_deployment_def Let_def split: option.splits)

lemma store_deployment_world_ok:
  "world_ok w \<Longrightarrow> d_name d = res_name r \<Longrightarrow> store_deployment r d es w = Ret (res, w', es') \<Longrightarrow> world_ok w'"
  by (auto simp: store_deployment_def Let_def world_ok_keyed split: option.splits)

lemma apply_deployment_arm: "arm_ok (apply_deployment Y)"
proof (rule arm_okI)
  fix r w res w' es assume w: "world_ok w" and a: "apply_deployment Y r w = Ret (res, w', es)"
  show "world_ok w' \<and> (\<forall>e. res = Inl e \<longrightarrow> w' = w)"
  proof (cases "as_deployment Y r")
    case None
    with w a show ?thesis by (auto simp: apply_deployment_def split: option.splits)
  next
    case (Some dep)
    with w a show ?thesis
      by (auto simp: apply_deployment_def Let_def split: list.splits
          dest: store_deployment_Ret store_deployment_world_ok[OF w new_deployment_name])
  qed
qed

lemma apply_daemonset_arm: "arm_ok (apply_daemonset Y)"
  by (rule arm_okI)
    (auto simp: apply_daemonset_def rust_bind_eq_Ret world_ok_keyed split: option.splits)

lemma apply_job_arm: "arm_ok (apply_job Y)"
  by (rule arm_okI)
    (auto simp: apply_job_def rust_bind_eq_Ret world_ok_keyed Let_def split: option.splits)

lemma apply_cronjob_arm: "arm_ok (apply_cronjob Y)"
  by (rule arm_okI)
    (auto simp: apply_cronjob_def rust_bind_eq_Ret world_ok_keyed Let_def split: option.splits)

text \<open>A host path that is mounted has passed the traversal check.\<close>

lemma volume_source_hostpath:
  "v_host_path v = Some hp \<Longrightarrow> volume_source w name v = Some p \<Longrightarrow> p = hp_path hp \<and> validate_path p"
  by (auto simp: volume_source_def split: if_splits)

lemma mount_pairs_from_map:
  "(host, mp) \<in> set (mount_pairs vmap ms) \<Longrightarrow> \<exists>n. hm_get vmap n = Some host"
  by (auto simp: mount_pairs_def set_filter_map)

end
