(* ===== verification/Base64.thy ===== *)
theory Base64
  imports Rust_Str
begin

text \<open>
  The three base64 routines of the program: the decoder of Secret data
  (\<^verbatim>\<open>base64_decode\<close>, \<^verbatim>\<open>src/src/reconcile.rs\<close>), the encoder of WebSocket handshakes (\<^verbatim>\<open>b64_bytes\<close>,
  \<^verbatim>\<open>src/src/api.rs\<close>) and the codec of identity tokens (\<^verbatim>\<open>identity_base64\<close>, \<^verbatim>\<open>verify_identity_base64\<close>,
  \<^verbatim>\<open>src/src/brain.rs\<close>). Bytes are characters, the arithmetic is at 32 bits as in the source. An
  \<open>f32\<close> of a token is its bit pattern: the codec only moves its bytes.
\<close>

unbundle bit_operations_syntax

abbreviation b32 :: "char \<Rightarrow> u32" where
  "b32 c \<equiv> of_nat (of_char c)"

abbreviation as_u8 :: "u32 \<Rightarrow> char" where
  "as_u8 w \<equiv> char_of (unat (ucast w :: u8))"

subsection \<open>The decoder of Secret data\<close>

definition sixbit :: "char \<Rightarrow> u32 option" where
  "sixbit c =
     (let n = of_char c :: nat
      in if 65 \<le> n \<and> n \<le> 90 then Some (of_nat (n - 65))
         else if 97 \<le> n \<and> n \<le> 122 then Some (of_nat (n - 97 + 26))
         else if 48 \<le> n \<and> n \<le> 57 then Some (of_nat (n - 48 + 52))
         else if n = 43 then Some 62
         else if n = 47 then Some 63
         else None)"

definition is_ascii_whitespace :: "char \<Rightarrow> bool" where
  "is_ascii_whitespace c = ((of_char c :: nat) \<in> {32, 9, 10, 12, 13})"

text \<open>The inner \<open>while nbits >= 8\<close>, which pushes the top byte of the accumulator.\<close>

fun b64_drain :: "u32 \<Rightarrow> nat \<Rightarrow> nat \<times> string" where
  "b64_drain acc nbits =
     (if 8 \<le> nbits
      then let (n, bs) = b64_drain acc (nbits - 8)
           in (n, as_u8 (drop_bit (nbits - 8) acc) # bs)
      else (nbits, []))"

declare b64_drain.simps [simp del]

fun base64_bytes :: "u32 \<Rightarrow> nat \<Rightarrow> string \<Rightarrow> string option" where
  "base64_bytes acc nbits [] = Some []"
| "base64_bytes acc nbits (c # cs) =
     (if is_ascii_whitespace c \<or> c = CHR ''='' then base64_bytes acc nbits cs
      else (case sixbit c of
              None \<Rightarrow> None
            | Some v \<Rightarrow>
                (let acc1 = push_bit 6 acc OR v;
                     (n, bs) = b64_drain acc1 (nbits + 6);
                     acc2 = acc1 AND (push_bit n 1 - 1)
                 in map_option (\<lambda>t. bs @ t) (base64_bytes acc2 n cs))))"

definition base64_decode :: "string \<Rightarrow> string option" where
  "base64_decode s =
     (case base64_bytes 0 0 s of
        None \<Rightarrow> None
      | Some bs \<Rightarrow> if utf8_valid bs then Some bs else None)"

subsection \<open>The encoder\<close>

definition B64 :: string where
  "B64 = ''ABCDEFGHIJKLMNOPQRSTUVWXYZabcdefghijklmnopqrstuvwxyz0123456789+/''"

definition b64_sym :: "u32 \<Rightarrow> nat \<Rightarrow> char" where
  "b64_sym triple sh = B64 ! unat (drop_bit sh triple AND 0x3F)"

definition triple_of :: "char \<Rightarrow> char \<Rightarrow> char \<Rightarrow> u32" where
  "triple_of x y z = push_bit 16 (b32 x) OR push_bit 8 (b32 y) OR b32 z"

fun b64_bytes :: "string \<Rightarrow> string" where
  "b64_bytes [] = []"
| "b64_bytes [x] =
     (let t = triple_of x (CHR 0x00) (CHR 0x00) in [b64_sym t 18, b64_sym t 12, CHR ''='', CHR ''=''])"
| "b64_bytes [x, y] =
     (let t = triple_of x y (CHR 0x00) in [b64_sym t 18, b64_sym t 12, b64_sym t 6, CHR ''=''])"
| "b64_bytes (x # y # z # rest) =
     (let t = triple_of x y z in [b64_sym t 18, b64_sym t 12, b64_sym t 6, b64_sym t 0] @ b64_bytes rest)"

subsection \<open>Identity tokens\<close>

definition to_le_bytes32 :: "u32 \<Rightarrow> string" where
  "to_le_bytes32 w = map (\<lambda>i. as_u8 (drop_bit (8 * i) w)) [0, 1, 2, 3]"

definition identity_base64 :: "u32 list \<Rightarrow> string" where
  "identity_base64 token = b64_bytes (concat (map to_le_bytes32 token))"

text \<open>The table \<open>DECODE\<close>: 255 outside the alphabet, and 0 for a byte above 127.\<close>

definition DECODE :: "char \<Rightarrow> u32" where
  "DECODE c = (if (of_char c :: nat) < 128 then (case sixbit c of Some v \<Rightarrow> v | None \<Rightarrow> 255) else 0)"

fun ident_chunks :: "string \<Rightarrow> string" where
  "ident_chunks [] = []"
| "ident_chunks [p] = []"
| "ident_chunks [p, q] =
     (let t = push_bit 18 (DECODE p) OR push_bit 12 (DECODE q) in [as_u8 (drop_bit 16 t AND 0xFF)])"
| "ident_chunks [p, q, r] =
     (let t = push_bit 18 (DECODE p) OR push_bit 12 (DECODE q) OR push_bit 6 (DECODE r)
      in [as_u8 (drop_bit 16 t AND 0xFF), as_u8 (drop_bit 8 t AND 0xFF)])"
| "ident_chunks (p # q # r # s # rest) =
     (let t = push_bit 18 (DECODE p) OR push_bit 12 (DECODE q) OR push_bit 6 (DECODE r) OR DECODE s
      in [as_u8 (drop_bit 16 t AND 0xFF), as_u8 (drop_bit 8 t AND 0xFF), as_u8 (t AND 0xFF)]
         @ ident_chunks rest)"

fun from_le_chunks :: "string \<Rightarrow> u32 list" where
  "from_le_chunks (p # q # r # s # rest) =
     (b32 p OR push_bit 8 (b32 q) OR push_bit 16 (b32 r) OR push_bit 24 (b32 s)) # from_le_chunks rest"
| "from_le_chunks _ = []"

definition identity_decode :: "string \<Rightarrow> u32 list" where
  "identity_decode b64 = from_le_chunks (ident_chunks (filter (\<lambda>c. c \<noteq> CHR ''='') b64))"

subsection \<open>Lemmas: the alphabet\<close>

lemma B64_codes: "map of_char B64 = [65..<91] @ [97..<123] @ [48..<58] @ [43, 47 :: nat]"
  by (simp add: B64_def upt_rec[of "numeral _" "numeral _"] of_char_def)

lemma b64_code:
  "i < 64 \<Longrightarrow> of_char (B64 ! i) =
     (if i < 26 then 65 + i else if i < 52 then 71 + i else if i < 62 then i - 4
      else if i = 62 then 43 else (47 :: nat))"
proof -
  assume i: "i < 64"
  have "length B64 = 64" by (simp add: B64_def)
  with i have "of_char (B64 ! i) = ([65..<91] @ [97..<123] @ [48..<58] @ [43, 47 :: nat]) ! i"
    by (metis B64_codes nth_map)
  with i show ?thesis by (auto simp: nth_append nth_Cons split: nat.splits)
qed

lemma b64_alphabet:
  assumes "i < 64"
  shows "sixbit (B64 ! i) = Some (of_nat i) \<and> \<not> is_ascii_whitespace (B64 ! i) \<and> B64 ! i \<noteq> CHR ''=''
     \<and> (of_char (B64 ! i) :: nat) < 128"
proof -
  note c = b64_code[OF assms]
  have "(of_char (B64 ! i) :: nat) \<noteq> of_char CHR ''=''" using assms by (auto simp: c)
  then have "B64 ! i \<noteq> CHR ''=''" by metis
  moreover have "\<not> is_ascii_whitespace (B64 ! i) \<and> (of_char (B64 ! i) :: nat) < 128"
    using assms by (auto simp: is_ascii_whitespace_def c)
  moreover have "sixbit (B64 ! i) = Some (of_nat i)"
  proof -
    consider "i < 62" | "i = 62" | "i = 63" using assms by linarith
    then show ?thesis
      using c by cases (auto simp: sixbit_def Let_def)
  qed
  ultimately show ?thesis by blast
qed

lemma and_3F_less: "unat (w AND 0x3F) < 64" for w :: u32
proof -
  have "w AND 0x3F \<le> 0x3F" by (rule word_and_le1)
  then show ?thesis by (simp add: word_le_nat_alt)
qed

lemma b64_sym_props:
  "sixbit (b64_sym t n) = Some (drop_bit n t AND 0x3F)"
  "\<not> is_ascii_whitespace (b64_sym t n)" "b64_sym t n \<noteq> CHR ''=''"
  "DECODE (b64_sym t n) = drop_bit n t AND 0x3F"
  using b64_alphabet[OF and_3F_less[of "drop_bit n t"]]
  by (auto simp: b64_sym_def DECODE_def)

subsection \<open>Lemmas: regrouping bits\<close>

lemma b32_ucast: "b32 c = ucast (of_nat (of_char c) :: u8)"
  by (simp add: unsigned_of_nat take_bit_nat_eq_self of_char_less_256)

lemma as_u8_ucast: "(\<And>n. n < 8 \<Longrightarrow> bit w n = bit (of_nat (of_char c) :: u8) n) \<Longrightarrow> as_u8 w = c"
proof -
  assume a: "\<And>n. n < 8 \<Longrightarrow> bit w n = bit (of_nat (of_char c) :: u8) n"
  have "(ucast w :: u8) = of_nat (of_char c)"
    by (rule bit_word_eqI) (use a in \<open>simp add: bit_simps\<close>)
  then show "as_u8 w = c" by (simp add: unsigned_of_nat take_bit_nat_eq_self of_char_less_256)
qed

lemma less_8_cases: "n < 8 \<Longrightarrow> n = 0 \<or> n = 1 \<or> n = 2 \<or> n = 3 \<or> n = 4 \<or> n = 5 \<or> n = 6 \<or> n = (7::nat)"
  by linarith

lemma bit_3F: "bit (0x3F :: u32) n \<longleftrightarrow> n < 6"
proof -
  have "(0x3F :: u32) = mask 6" by (simp add: mask_eq_exp_minus_1)
  then show ?thesis by (simp only: bit_mask_iff) auto
qed

lemma bit_FF: "bit (0xFF :: u32) n \<longleftrightarrow> n < 8"
proof -
  have "(0xFF :: u32) = mask 8" by (simp add: mask_eq_exp_minus_1)
  then show ?thesis by (simp only: bit_mask_iff) auto
qed

lemma bit_b32: "bit (b32 c) n \<longleftrightarrow> n < 8 \<and> bit (of_nat (of_char c) :: u8) n"
  by (simp only: b32_ucast) (auto simp: bit_simps dest: bit_imp_le_length)

lemma b32_0 [simp]: "b32 (CHR 0x00) = 0"
  by simp

lemma bit_triple:
  "bit (triple_of x y z) n \<longleftrightarrow>
     (16 \<le> n \<and> n < 24 \<and> bit (of_nat (of_char x) :: u8) (n - 16))
     \<or> (8 \<le> n \<and> n < 16 \<and> bit (of_nat (of_char y) :: u8) (n - 8))
     \<or> (n < 8 \<and> bit (of_nat (of_char z) :: u8) n)"
  by (auto simp: triple_of_def bit_or_iff bit_push_bit_iff bit_b32 simp del: of_nat_of_char)

lemmas six_bits = bit_or_iff bit_and_iff bit_push_bit_iff bit_drop_bit_eq bit_3F bit_FF bit_triple

text \<open>One encoded group goes back through either decoder.\<close>

lemma drain_less: "nbits < 8 \<Longrightarrow> b64_drain acc nbits = (nbits, [])"
  by (simp add: b64_drain.simps)

lemma drain_ge:
  "8 \<le> nbits \<Longrightarrow> nbits < 16 \<Longrightarrow> b64_drain acc nbits = (nbits - 8, [as_u8 (drop_bit (nbits - 8) acc)])"
  by (simp add: b64_drain.simps)

text \<open>The accumulator after each of the four symbols of a group.\<close>

definition acc1 :: "u32 \<Rightarrow> u32" where
  "acc1 t = push_bit 6 (drop_bit 18 t AND 0x3F) OR (drop_bit 12 t AND 0x3F)"

definition acc2 :: "u32 \<Rightarrow> u32" where
  "acc2 t = push_bit 6 (acc1 t AND 0xF) OR (drop_bit 6 t AND 0x3F)"

definition acc3 :: "u32 \<Rightarrow> u32" where
  "acc3 t = push_bit 6 (acc2 t AND 0x3) OR (t AND 0x3F)"

lemma bit_F: "bit (0xF :: u32) n \<longleftrightarrow> n < 4"
proof -
  have "(0xF :: u32) = mask 4" by (simp add: mask_eq_exp_minus_1)
  then show ?thesis by (simp only: bit_mask_iff) auto
qed

lemma bit_3: "bit (0x3 :: u32) n \<longleftrightarrow> n < 2"
proof -
  have "(0x3 :: u32) = mask 2" by (simp add: mask_eq_exp_minus_1)
  then show ?thesis by (simp only: bit_mask_iff) auto
qed

lemmas acc_defs = acc1_def acc2_def acc3_def bit_F bit_3

lemma group_bytes:
  "as_u8 (drop_bit 4 (acc1 (triple_of x y z))) = x"
  "as_u8 (drop_bit 2 (acc2 (triple_of x y z))) = y"
  "as_u8 (acc3 (triple_of x y z)) = z"
  by (rule as_u8_ucast; drule less_8_cases; elim disjE; simp add: six_bits acc_defs)+

declare base64_bytes.simps(2) [simp del]

lemma append_funs: "(@) [] = id" "(@) [x] = (#) x"
  by auto

lemma sym_step_low:
  "nbits + 6 < 8 \<Longrightarrow> base64_bytes acc nbits (b64_sym t sh # cs) =
     base64_bytes ((push_bit 6 acc OR (drop_bit sh t AND 0x3F)) AND (push_bit (nbits + 6) 1 - 1)) (nbits + 6) cs"
  by (simp add: base64_bytes.simps(2) b64_sym_props drain_less append_funs option.map_id)

lemma sym_step_high:
  "2 \<le> nbits \<Longrightarrow> nbits < 8 \<Longrightarrow> base64_bytes acc nbits (b64_sym t sh # cs) =
     (let a = push_bit 6 acc OR (drop_bit sh t AND 0x3F)
      in map_option ((#) (as_u8 (drop_bit (nbits - 2) a))) (base64_bytes (a AND (push_bit (nbits - 2) 1 - 1)) (nbits - 2) cs))"
  by (simp add: base64_bytes.simps(2) b64_sym_props drain_ge append_funs Let_def)

lemma sym_step_0: "base64_bytes 0 0 (b64_sym t 18 # cs) = base64_bytes (drop_bit 18 t AND 0x3F) 6 cs"
  by (simp add: sym_step_low and.assoc)

lemma sym_step_1:
  "base64_bytes (drop_bit 18 t AND 0x3F) 6 (b64_sym t 12 # cs) =
     map_option ((#) (as_u8 (drop_bit 4 (acc1 t)))) (base64_bytes (acc1 t AND 0xF) 4 cs)"
  by (simp add: sym_step_high acc1_def)

lemma sym_step_2:
  "base64_bytes (acc1 t AND 0xF) 4 (b64_sym t 6 # cs) =
     map_option ((#) (as_u8 (drop_bit 2 (acc2 t)))) (base64_bytes (acc2 t AND 0x3) 2 cs)"
  by (simp add: sym_step_high acc2_def)

lemma sym_step_3:
  "base64_bytes (acc2 t AND 0x3) 2 (b64_sym t 0 # cs) =
     map_option ((#) (as_u8 (acc3 t))) (base64_bytes 0 0 cs)"
  by (simp add: sym_step_high acc3_def)

lemma padding_skipped: "base64_bytes acc n (CHR ''='' # cs) = base64_bytes acc n cs"
  by (simp add: base64_bytes.simps(2))

lemmas sym_steps = sym_step_0 sym_step_1 sym_step_2 sym_step_3 padding_skipped group_bytes

lemma base64_bytes_b64_bytes: "base64_bytes 0 0 (b64_bytes bs) = Some bs"
  by (induction bs rule: b64_bytes.induct)
    (simp_all add: Let_def sym_steps)

lemma base64_decode_encode: "utf8_valid bs \<Longrightarrow> base64_decode (b64_bytes bs) = Some bs"
  by (simp add: base64_decode_def base64_bytes_b64_bytes)

text \<open>The identity decoder works on whole groups; a short last group ends the token.\<close>

definition regroup :: "u32 \<Rightarrow> u32" where
  "regroup t = push_bit 18 (drop_bit 18 t AND 0x3F) OR push_bit 12 (drop_bit 12 t AND 0x3F)
     OR push_bit 6 (drop_bit 6 t AND 0x3F) OR (t AND 0x3F)"

lemma regroup_bytes:
  "as_u8 (drop_bit 16 (regroup (triple_of x y z)) AND 0xFF) = x"
  "as_u8 (drop_bit 8 (regroup (triple_of x y z)) AND 0xFF) = y"
  "as_u8 (regroup (triple_of x y z) AND 0xFF) = z"
  by (rule as_u8_ucast; drule less_8_cases; elim disjE; simp add: six_bits regroup_def)+

lemma regroup_bytes_1:
  "as_u8 (drop_bit 16 (push_bit 18 (drop_bit 18 (triple_of x y z) AND 0x3F)
     OR push_bit 12 (drop_bit 12 (triple_of x y z) AND 0x3F)) AND 0xFF) = x"
  by (rule as_u8_ucast; drule less_8_cases; elim disjE; simp add: six_bits)

lemma regroup_bytes_2:
  "as_u8 (drop_bit 16 (push_bit 18 (drop_bit 18 (triple_of x y z) AND 0x3F)
     OR push_bit 12 (drop_bit 12 (triple_of x y z) AND 0x3F)
     OR push_bit 6 (drop_bit 6 (triple_of x y z) AND 0x3F)) AND 0xFF) = x"
  "as_u8 (drop_bit 8 (push_bit 18 (drop_bit 18 (triple_of x y z) AND 0x3F)
     OR push_bit 12 (drop_bit 12 (triple_of x y z) AND 0x3F)
     OR push_bit 6 (drop_bit 6 (triple_of x y z) AND 0x3F)) AND 0xFF) = y"
  by (rule as_u8_ucast; drule less_8_cases; elim disjE; simp add: six_bits)+

lemma ident_chunks_group:
  "ident_chunks (b64_sym (triple_of x y z) 18 # b64_sym (triple_of x y z) 12 # b64_sym (triple_of x y z) 6
     # b64_sym (triple_of x y z) 0 # cs) = x # y # z # ident_chunks cs"
  using regroup_bytes[of x y z] by (simp only: ident_chunks.simps b64_sym_props regroup_def Let_def append.simps drop_bit_0 id_apply)

lemma ident_chunks_b64_bytes: "ident_chunks (filter (\<lambda>c. c \<noteq> CHR ''='') (b64_bytes bs)) = bs"
proof (induction bs rule: b64_bytes.induct)
  case (2 x)
  then show ?case
    using regroup_bytes_1[of x "CHR 0x00" "CHR 0x00"]
    by (simp only: b64_bytes.simps Let_def filter.simps b64_sym_props ident_chunks.simps simp_thms if_True if_False)
next
  case (3 x y)
  then show ?case
    using regroup_bytes_2[of x y "CHR 0x00"]
    by (simp only: b64_bytes.simps Let_def filter.simps b64_sym_props ident_chunks.simps simp_thms if_True if_False)
next
  case (4 x y z rest)
  then show ?case
    by (simp only: b64_bytes.simps Let_def filter.simps b64_sym_props ident_chunks_group simp_thms if_True
        append.simps)
qed simp

lemma b32_as_u8: "b32 (as_u8 w) = w AND 0xFF"
proof -
  have "unat (ucast w :: u8) < 256" by (rule order_less_le_trans[OF unsigned_less]) simp
  then have "b32 (as_u8 w) = ucast (ucast w :: u8)" by simp
  also have "\<dots> = w AND 0xFF" by (rule bit_word_eqI) (use bit_FF in \<open>auto simp: bit_simps\<close>)
  finally show ?thesis .
qed

lemma le_bytes_word:
  "b32 (as_u8 w) OR push_bit 8 (b32 (as_u8 (drop_bit 8 w))) OR push_bit 16 (b32 (as_u8 (drop_bit 16 w)))
     OR push_bit 24 (b32 (as_u8 (drop_bit 24 w))) = w"
proof (rule bit_word_eqI)
  fix n assume "n < LENGTH(32)"
  then have "n < 32" by simp
  then consider "n < 8" | "8 \<le> n" "n < 16" | "16 \<le> n" "n < 24" | "24 \<le> n" "n < 32" by linarith
  then show "bit (b32 (as_u8 w) OR push_bit 8 (b32 (as_u8 (drop_bit 8 w))) OR push_bit 16 (b32 (as_u8 (drop_bit 16 w)))
     OR push_bit 24 (b32 (as_u8 (drop_bit 24 w)))) n = bit w n"
    unfolding b32_as_u8 bit_or_iff bit_and_iff bit_push_bit_iff bit_drop_bit_eq bit_FF o_def by cases auto
qed

lemma from_le_chunks_to: "from_le_chunks (concat (map to_le_bytes32 token)) = token"
proof (induction token)
  case (Cons w token)
  have "to_le_bytes32 w = [as_u8 w, as_u8 (drop_bit 8 w), as_u8 (drop_bit 16 w), as_u8 (drop_bit 24 w)]"
    by (simp add: to_le_bytes32_def)
  with Cons show ?case by (simp only: list.map concat.simps append.simps from_le_chunks.simps le_bytes_word)
qed simp

lemma identity_decode_encode: "identity_decode (identity_base64 token) = token"
  by (simp add: identity_decode_def identity_base64_def ident_chunks_b64_bytes from_le_chunks_to)

subsection \<open>Properties\<close>

text \<open>
  A neural identity token survives its printed form: decoding the base64 text of a token
  of single-precision bit patterns gives the token back, for every length.\<close>

theorem identity_token_roundtrip: "identity_decode (identity_base64 token) = token"
  by (rule identity_decode_encode)

end
