(* ===== verification/Apply_Config.thy ===== *)
theory Apply_Config
  imports Apply_Workload Base64
begin

text \<open>
  \<open>DesiredWorld::apply\<close> for ConfigMap, Secret, Service, Namespace, Config, Function, Repository and
  Pipeline, \<^verbatim>\<open>src/src/reconcile.rs\<close>, with the container restart a
  changed ConfigMap triggers. The container engine's answers to \<open>list_containers\<close>
  are a parameter: the answer to the \<open>n\<close>-th call, \<open>None\<close> when the call fails.
\<close>

record docker_container =
  dc_id :: string
  dc_names :: "string list"
  dc_image :: string
  dc_state :: string
  dc_status :: string
  dc_labels :: "(string, string) hmap"

subsection \<open>ConfigMap\<close>

text \<open>Equality of two \<open>HashMap\<close>s: the same entries, in whatever order.\<close>

definition hm_eq :: "('k, 'v) hmap \<Rightarrow> ('k, 'v) hmap \<Rightarrow> bool" where
  "hm_eq a b = (length a = length b \<and> (\<forall>(k, v) \<in> set a. hm_get b k = Some v))"

definition mapping_pairs :: "('y, 'j) yaml_ops \<Rightarrow> 'y option \<Rightarrow> (string \<times> string) list" where
  "mapping_pairs Y src = yv_str_pairs Y (unwrap_or (Option.bind src (yv_as_mapping Y)) [])"

definition or_insert_all :: "(string \<times> string) list \<Rightarrow> (string, string) hmap \<Rightarrow> (string, string) hmap" where
  "or_insert_all kvs m = fold (\<lambda>(k, v) a. hm_or_insert k v a) kvs m"

definition configmap_data :: "('y, 'j) yaml_ops \<Rightarrow> 'y resource \<Rightarrow> (string, string) hmap" where
  "configmap_data Y r =
     or_insert_all (mapping_pairs Y (r_spec r)) (or_insert_all (mapping_pairs Y (r_data r)) [])"

definition configmap_users :: "'j desired_world \<Rightarrow> string \<Rightarrow> string \<Rightarrow> string list" where
  "configmap_users w ns name =
     map fst (filter (\<lambda>(n, d). d_namespace d = ns
        \<and> (\<exists>c \<in> set (d_containers d). name \<in> set (sc_env_from_configmaps c))) (deployments w))"

definition restart_one :: "docker_container list option \<Rightarrow> string \<Rightarrow> effect list" where
  "restart_one ans dep =
     (case ans of
        None \<Rightarrow> []
      | Some cs \<Rightarrow>
          concat (map (\<lambda>c. [StopContainer (dc_id c), RemoveContainer (dc_id c) True])
            (filter (\<lambda>c. \<exists>n \<in> set (dc_names c). str_contains n (''rk-'' @ dep @ ''-'')) cs)))"

fun restart_all :: "(nat \<Rightarrow> docker_container list option) \<Rightarrow> nat \<Rightarrow> string list \<Rightarrow> effect list" where
  "restart_all ask i [] = []"
| "restart_all ask i (dep # deps) = restart_one (ask i) dep @ restart_all ask (Suc i) deps"

definition apply_configmap ::
  "('y, 'j) yaml_ops \<Rightarrow> (nat \<Rightarrow> docker_container list option) \<Rightarrow> 'y resource \<Rightarrow> 'j desired_world \<Rightarrow> 'j step" where
  "apply_configmap Y ask r w =
     (let name = res_name r; ns = res_ns r; dat = configmap_data Y r;
          changed = (case hm_get (configmaps w) name of Some old \<Rightarrow> \<not> hm_eq (cm_data old) dat | None \<Rightarrow> False);
          w1 = w\<lparr>configmaps := hm_insert name \<lparr>cm_name = name, cm_namespace = ns, cm_data = dat\<rparr> (configmaps w)\<rparr>;
          restarted = configmap_users w1 ns name;
          keys = show_nat (length dat)
      in if changed
         then Ret (Inr (if restarted = []
                        then ''configmap/'' @ name @ '' updated ('' @ keys @ '' keys)''
                        else ''configmap/'' @ name @ '' updated '' @ arrow @ '' rolling restart: '' @ join '', '' restarted),
                   w1, restart_all ask 0 restarted)
         else done_ok (''configmap/'' @ name @ '' applied ('' @ keys @ '' keys)'') w1)"

subsection \<open>Secret, Service, Namespace\<close>

definition secret_data :: "('y, 'j) yaml_ops \<Rightarrow> 'y resource \<Rightarrow> (string, string) hmap" where
  "secret_data Y r =
     or_insert_all (mapping_pairs Y (r_spec r))
       (or_insert_all (map (\<lambda>(k, v). (k, unwrap_or (base64_decode v) v)) (mapping_pairs Y (r_data r)))
         (or_insert_all (mapping_pairs Y (r_string_data r)) []))"

definition apply_secret :: "('y, 'j) yaml_ops \<Rightarrow> 'y resource \<Rightarrow> 'j desired_world \<Rightarrow> 'j step" where
  "apply_secret Y r w =
     (let name = res_name r; dat = secret_data Y r
      in done_ok (''secret/'' @ name @ '' applied ('' @ show_nat (length dat) @ '' keys)'')
           (w\<lparr>secrets := hm_insert name \<lparr>se_name = name, se_namespace = res_ns r, se_data = dat\<rparr> (secrets w)\<rparr>))"

definition service_port_of :: "service_port_spec \<Rightarrow> service_port" where
  "service_port_of p =
     \<lparr>sp_port = sps_port p, sp_target_port = unwrap_or (sps_target_port p) (sps_port p),
      sp_protocol = unwrap_or (sps_protocol p) ''TCP'', sp_node_port = sps_node_port p\<rparr>"

definition apply_service :: "('y, 'j) yaml_ops \<Rightarrow> 'y resource \<Rightarrow> 'j desired_world \<Rightarrow> 'j step" where
  "apply_service Y r w =
     (case as_service Y r of
        None \<Rightarrow> fail ''Cannot parse Service spec'' w
      | Some svc \<Rightarrow>
          (let name = res_name r; ports = map service_port_of (ss_ports svc);
               ty = unwrap_or (ss_service_type svc) ''ClusterIP'';
               desc = map (\<lambda>p. show_word (sp_port p) @ arrow @ show_word (sp_target_port p)) ports
           in done_ok (''service/'' @ name @ '' ('' @ ty @ '', ports: '' @ join '', '' desc @ '')'')
                (w\<lparr>services := hm_insert name
                     \<lparr>svc_name = name, svc_namespace = res_ns r, svc_selector = unwrap_or (ss_selector svc) [],
                      svc_ports = ports, svc_service_type = ty\<rparr> (services w)\<rparr>)))"

definition apply_namespace :: "'y resource \<Rightarrow> 'j desired_world \<Rightarrow> 'j step" where
  "apply_namespace r w =
     done_ok (''namespace/'' @ res_name r @ '' created'')
       (if res_name r \<notin> set (namespaces w) then w\<lparr>namespaces := namespaces w @ [res_name r]\<rparr> else w)"

subsection \<open>Config\<close>

text \<open>Each \<open>if let Some(x) = field\<close> updates the configuration and may note the change.\<close>

definition on_some ::
  "'a option \<Rightarrow> ('a \<Rightarrow> stored_config \<Rightarrow> stored_config) \<Rightarrow> ('a \<Rightarrow> string list)
   \<Rightarrow> stored_config \<times> string list \<Rightarrow> stored_config \<times> string list" where
  "on_some v upd note s = (case v of None \<Rightarrow> s | Some x \<Rightarrow> (upd x (fst s), snd s @ note x))"

definition config_llm :: "llm_config \<Rightarrow> stored_config \<times> string list \<Rightarrow> stored_config \<times> string list" where
  "config_llm l s =
     on_some (llm_cfg_temperature l) (\<lambda>t c. c\<lparr>cfg_llm_temperature := t\<rparr>) (\<lambda>t. [''llm.temp='' @ fmt_f32 t])
    (on_some (llm_cfg_model l) (\<lambda>m c. c\<lparr>cfg_llm_model := m\<rparr>) (\<lambda>m. [''llm.model='' @ m])
    (on_some (llm_cfg_host l) (\<lambda>h c. c\<lparr>cfg_llm_host := h\<rparr>) (\<lambda>h. [''llm.host='' @ h]) s))"

definition config_alerts :: "alert_config \<Rightarrow> stored_config \<times> string list \<Rightarrow> stored_config \<times> string list" where
  "config_alerts a s =
     on_some (al_on_rollout a) (\<lambda>r c. c\<lparr>cfg_alert_on_rollout := r\<rparr>) (\<lambda>_. [])
    (on_some (al_on_restart a) (\<lambda>r c. c\<lparr>cfg_alert_on_restart := r\<rparr>) (\<lambda>_. [])
    (on_some (al_on_anomaly a) (\<lambda>x c. c\<lparr>cfg_alert_on_anomaly := x\<rparr>) (\<lambda>_. [])
    (on_some (al_webhook a) (\<lambda>h c. c\<lparr>cfg_alert_webhook := Some h\<rparr>) (\<lambda>h. [''alerts.webhook='' @ h]) s)))"

definition config_pause :: "pause_config \<Rightarrow> stored_config \<times> string list \<Rightarrow> stored_config \<times> string list" where
  "config_pause p s =
     on_some (pc_enabled p) (\<lambda>e c. c\<lparr>cfg_pause_enabled := e\<rparr>) (\<lambda>_. [])
    (on_some (pc_default_idle_seconds p) (\<lambda>d c. c\<lparr>cfg_pause_default_idle := d\<rparr>)
       (\<lambda>d. [''pause.idle='' @ show_word d @ ''s'']) s)"

definition config_apply :: "cluster_config_spec \<Rightarrow> stored_config \<Rightarrow> stored_config \<times> string list" where
  "config_apply cc c =
     (let s1 = (case cc_llm cc of None \<Rightarrow> (c, []) | Some l \<Rightarrow> config_llm l (c, []));
          s2 = (case cc_alerts cc of None \<Rightarrow> s1 | Some a \<Rightarrow> config_alerts a s1);
          s3 = on_some (cc_runtime cc) (\<lambda>r c. c\<lparr>cfg_runtime := r\<rparr>) (\<lambda>r. [''runtime='' @ r]) s2;
          s4 = (case cc_pause cc of None \<Rightarrow> s3 | Some p \<Rightarrow> config_pause p s3)
      in (case cc_api cc of
            None \<Rightarrow> s4
          | Some a \<Rightarrow> on_some (ac_port a) (\<lambda>p c. c\<lparr>cfg_api_port := p\<rparr>) (\<lambda>p. [''api.port='' @ show_word p]) s4))"

text \<open>The arms that first demand \<open>spec\<close>, then decode it.\<close>

definition with_spec :: "'y resource \<Rightarrow> 'j desired_world \<Rightarrow> ('y \<Rightarrow> 'j step) \<Rightarrow> 'j step" where
  "with_spec r w k = (case r_spec r of None \<Rightarrow> fail ''No spec'' w | Some sv \<Rightarrow> k sv)"

definition decoded :: "string \<Rightarrow> 'a result \<Rightarrow> 'j desired_world \<Rightarrow> ('a \<Rightarrow> 'j step) \<Rightarrow> 'j step" where
  "decoded what v w k = (case v of Inl e \<Rightarrow> fail (what @ '' parse error: '' @ e) w | Inr x \<Rightarrow> k x)"

definition apply_config :: "('y, 'j) yaml_ops \<Rightarrow> 'y resource \<Rightarrow> 'j desired_world \<Rightarrow> 'j step" where
  "apply_config Y r w =
     with_spec r w (\<lambda>sv. decoded ''Config'' (yv_config Y sv) w (\<lambda>cc.
       let (c, changes) = config_apply cc (config w)
       in done_ok (''config applied ('' @ join '', '' changes @ '')'') (w\<lparr>config := c\<rparr>)))"

subsection \<open>Function\<close>

definition runtime_image :: "string option \<Rightarrow> string" where
  "runtime_image rt =
     (case rt of
        None \<Rightarrow> ''alpine:latest''
      | Some x \<Rightarrow>
          if x = ''python3.12'' \<or> x = ''python'' then ''python:3.12-alpine''
          else if x = ''python3.11'' then ''python:3.11-alpine''
          else if x = ''node20'' \<or> x = ''node'' then ''node:20-alpine''
          else if x = ''rust'' then ''rust:alpine''
          else if x = ''go'' then ''golang:alpine''
          else x)"

definition fn_timeout :: "string option \<Rightarrow> u64" where
  "fn_timeout t =
     unwrap_or (Option.bind t (\<lambda>s.
       map_option (\<lambda>v. if ends_with s ''m'' then v * 60 else v)
         (parse_u64 (trim_end_matches ''m'' (trim_end_matches ''s'' s))))) 30"

definition fn_memory :: "string option \<Rightarrow> u32" where
  "fn_memory m =
     unwrap_or (Option.bind m (\<lambda>s.
       map_option (\<lambda>v. if ends_with s ''Gi'' then v * 1024 else v)
         (parse_u32 (trim_end_matches ''Gi'' (trim_end_matches ''Mi'' s))))) 128"

definition apply_function :: "('y, 'j) yaml_ops \<Rightarrow> 'y resource \<Rightarrow> 'j desired_world \<Rightarrow> 'j step" where
  "apply_function Y r w =
     with_spec r w (\<lambda>sv. decoded ''Function'' (yv_function Y sv) w (\<lambda>fs.
       let name = res_name r;
           image = unwrap_or (fs_image fs) (runtime_image (fs_runtime fs));
           ts = unwrap_or (fs_trigger fs) [];
           https = filter_map ft_http ts; hooks = filter_map ft_webhook ts; scheds = filter_map ft_schedule ts;
           timeout = fn_timeout (fs_timeout fs)
       in done_ok (''function/'' @ name @ '' deployed ('' @ image @ '', ''
                   @ show_nat (length https + length hooks + length scheds) @ '' triggers, '' @ show_word timeout @ ''s timeout)'')
            (w\<lparr>w_functions := hm_insert name
                 \<lparr>fn_name = name, fn_image = image,
                  fn_command = opt_or (fs_command fs) (map_option (\<lambda>h. [''sh'', ''-c'', h]) (fs_handler fs)),
                  fn_env = env_strings (fs_env fs), fn_http_triggers = https, fn_webhook_triggers = hooks,
                  fn_schedule_triggers = scheds, fn_timeout_secs = timeout, fn_memory_mb = fn_memory (fs_memory fs),
                  fn_code = fs_code fs, fn_container_id = None, fn_invocations = 0, fn_last_invoked = None,
                  fn_state = FnCold\<rparr> (w_functions w)\<rparr>)))"

subsection \<open>Repository and Pipeline\<close>

definition apply_repository :: "('y, 'j) yaml_ops \<Rightarrow> 'y resource \<Rightarrow> 'j desired_world \<Rightarrow> 'j step" where
  "apply_repository Y r w =
     with_spec r w (\<lambda>sv. decoded ''Repository'' (yv_repository Y sv) w (\<lambda>rs.
       let name = res_name r; branch = unwrap_or (rp_branch rs) ''main'';
           source = unwrap_or (opt_or (rp_url rs) (rp_path rs)) ''?'';
           trigger = (if rp_pipeline rs \<noteq> None then '' (auto-trigger)'' else [])
       in done_ok (''repository/'' @ name @ '' registered ('' @ source @ '':'' @ branch @ '')'' @ trigger)
            (w\<lparr>repositories := hm_insert name
                 \<lparr>repo_name = name, repo_url = rp_url rs, repo_path = rp_path rs, repo_branch = branch,
                  repo_secret_ref = rp_secret_ref rs, repo_pipeline = rp_pipeline rs, repo_last_commit = None\<rparr>
                 (repositories w)\<rparr>)))"

definition stored_stage_of :: "pipeline_stage \<Rightarrow> stored_stage" where
  "stored_stage_of s =
     \<lparr>sg_name = pst_name s, sg_image = pst_image s, sg_command = pst_command s, sg_action = pst_action s,
      sg_file = pst_file s, sg_context = pst_context s, sg_dockerfile = pst_dockerfile s, sg_tag = pst_tag s,
      sg_build_args = filter_map (\<lambda>e. map_option (Pair (ev_name e)) (ev_value e)) (unwrap_or (pst_args s) []),
      sg_artifacts = unwrap_or (pst_artifacts s) [], sg_depends_on = pst_depends_on s,
      sg_env = env_strings (pst_env s), sg_if_condition = pst_if_condition s,
      sg_matrix_images = unwrap_or (Option.bind (pst_matrix s) mx_image) [],
      sg_matrix_envs = unwrap_or (Option.bind (pst_matrix s) mx_env) []\<rparr>"

definition apply_pipeline :: "('y, 'j) yaml_ops \<Rightarrow> 'y resource \<Rightarrow> 'j desired_world \<Rightarrow> 'j step" where
  "apply_pipeline Y r w =
     with_spec r w (\<lambda>sv. decoded ''Pipeline'' (yv_pipeline Y sv) w (\<lambda>ps.
       let name = res_name r;
           triggers = map (\<lambda>t. \<lparr>tr_trigger_type = ptr_trigger_type t, tr_path = ptr_path t\<rparr>) (unwrap_or (pls_trigger ps) []);
           stages = map stored_stage_of (pls_stages ps)
       in done_ok (''pipeline/'' @ name @ '' defined ('' @ show_nat (length stages) @ '' stages, ''
                   @ show_nat (length triggers) @ '' triggers)'')
            (w\<lparr>pipelines := hm_insert name \<lparr>pl_name = name, pl_stages = stages, pl_triggers = triggers\<rparr> (pipelines w)\<rparr>)))"

subsection \<open>Lemmas: the arms keep the world well formed\<close>

lemma with_spec_Ret:
  "with_spec r w k = Ret (res, w', es) \<longleftrightarrow>
     (r_spec r = None \<and> res = Inl ''No spec'' \<and> w' = w \<and> es = [])
     \<or> (\<exists>sv. r_spec r = Some sv \<and> k sv = Ret (res, w', es))"
  by (auto simp: with_spec_def split: option.splits)

lemma decoded_Ret:
  "decoded what v w k = Ret (res, w', es) \<longleftrightarrow>
     (\<exists>e. v = Inl e \<and> res = Inl (what @ '' parse error: '' @ e) \<and> w' = w \<and> es = [])
     \<or> (\<exists>x. v = Inr x \<and> k x = Ret (res, w', es))"
  by (auto simp: decoded_def split: sum.splits)

lemma apply_configmap_arm: "arm_ok (apply_configmap Y ask)"
  by (rule arm_okI) (auto simp: apply_configmap_def Let_def world_ok_keyed split: if_splits)

lemma apply_secret_arm: "arm_ok (apply_secret Y)"
  by (rule arm_okI) (auto simp: apply_secret_def Let_def world_ok_keyed)

lemma apply_service_arm: "arm_ok (apply_service Y)"
  by (rule arm_okI) (auto simp: apply_service_def Let_def world_ok_keyed split: option.splits)

lemma apply_namespace_arm: "arm_ok apply_namespace"
  by (rule arm_okI) (auto simp: apply_namespace_def world_ok_keyed split: if_splits)

lemma apply_config_arm: "arm_ok (apply_config Y)"
  by (rule arm_okI) (auto simp: apply_config_def with_spec_Ret decoded_Ret split_def Let_def)

lemma apply_function_arm: "arm_ok (apply_function Y)"
  by (rule arm_okI) (auto simp: apply_function_def with_spec_Ret decoded_Ret Let_def world_ok_keyed)

lemma apply_repository_arm: "arm_ok (apply_repository Y)"
  by (rule arm_okI) (auto simp: apply_repository_def with_spec_Ret decoded_Ret Let_def world_ok_keyed)

lemma apply_pipeline_arm: "arm_ok (apply_pipeline Y)"
  by (rule arm_okI) (auto simp: apply_pipeline_def with_spec_Ret decoded_Ret Let_def world_ok_keyed)

end
