(* ===== verification/Apply_Storage.thy ===== *)
theory Apply_Storage
  imports Apply_Config
begin

text \<open>
  \<open>DesiredWorld::apply\<close> for StorageClass, PersistentVolume and PersistentVolumeClaim,
  \<^verbatim>\<open>src/src/reconcile.rs\<close>: a claim takes the first available volume of its class and access mode in
  iteration order, and otherwise a volume provisioned from its storage class.
\<close>

definition apply_storageclass :: "('y, 'j) yaml_ops \<Rightarrow> 'y resource \<Rightarrow> 'j desired_world \<Rightarrow> 'j step" where
  "apply_storageclass Y r w =
     with_spec r w (\<lambda>spec.
       let name = res_name r;
           prov = unwrap_or (yv_str_at Y spec [''provisioner'']) ''royak/host-path'';
           prefix = unwrap_or (yv_str_at Y spec [''hostPathPrefix'']) ''/data/royak/volumes'';
           reclaim = unwrap_or (yv_str_at Y spec [''reclaimPolicy'']) ''Delete''
       in done_ok (''storageclass/'' @ name @ '' created (provisioner: '' @ prov @ '', path: '' @ prefix
                   @ '', reclaim: '' @ reclaim @ '')'')
            (w\<lparr>storage_classes := hm_insert name
                 \<lparr>scl_name = name, scl_provisioner = prov, scl_host_path_prefix = prefix,
                  scl_reclaim_policy = reclaim, scl_provisioned_count = 0\<rparr> (storage_classes w)\<rparr>))"

definition access_mode_of :: "('y, 'j) yaml_ops \<Rightarrow> 'y \<Rightarrow> string" where
  "access_mode_of Y spec =
     unwrap_or (Option.bind (Option.bind (yv_seq_at Y spec [''accessModes'']) head_opt) (yv_as_str Y)) ''ReadWriteOnce''"

definition apply_pv :: "('y, 'j) yaml_ops \<Rightarrow> 'y resource \<Rightarrow> 'j desired_world \<Rightarrow> 'j step" where
  "apply_pv Y r w =
     with_spec r w (\<lambda>spec.
       let name = res_name r;
           cap = unwrap_or (yv_str_at Y spec [''capacity'', ''storage'']) ''1Gi'';
           cls = unwrap_or (yv_str_at Y spec [''storageClassName'']) ''local'';
           path = unwrap_or (yv_str_at Y spec [''hostPath'', ''path'']) ''/data''
       in Ret (Inr (''pv/'' @ name @ '' created ('' @ cap @ '', class='' @ cls @ '')''),
               w\<lparr>pvs := hm_insert name
                    \<lparr>pv_name = name, pv_capacity = cap, pv_storage_class = cls, pv_host_path = path,
                     pv_access_mode = access_mode_of Y spec, pv_status = PVAvailable, pv_bound_to = None\<rparr> (pvs w)\<rparr>,
               [CreateDirAll path]))"

subsection \<open>Claims\<close>

fun bind_first :: "string \<Rightarrow> string \<Rightarrow> string \<Rightarrow> (string, stored_pv) hmap \<Rightarrow> string option \<times> (string, stored_pv) hmap" where
  "bind_first claim cls mode [] = (None, [])"
| "bind_first claim cls mode ((k, pv) # m) =
     (if pv_status pv = PVAvailable \<and> pv_storage_class pv = cls \<and> pv_access_mode pv = mode
      then (Some k, (k, pv\<lparr>pv_status := PVBound, pv_bound_to := Some claim\<rparr>) # m)
      else let (b, m') = bind_first claim cls mode m in (b, (k, pv) # m'))"

definition auto_pv_name :: "stored_storage_class \<Rightarrow> string" where
  "auto_pv_name sc = ''pv-auto-'' @ scl_name sc @ ''-'' @ show_word (scl_provisioned_count sc)"

definition auto_pv_path :: "stored_storage_class \<Rightarrow> string \<Rightarrow> string \<Rightarrow> string" where
  "auto_pv_path sc ns claim = scl_host_path_prefix sc @ ''/'' @ ns @ ''/'' @ claim"

definition provision ::
  "string \<Rightarrow> stored_storage_class \<Rightarrow> string \<Rightarrow> string \<Rightarrow> string \<Rightarrow> string \<Rightarrow> 'j desired_world \<Rightarrow> 'j desired_world \<times> effect list" where
  "provision cls sc ns claim requested mode w =
     (w\<lparr>pvs := hm_insert (auto_pv_name sc)
          \<lparr>pv_name = auto_pv_name sc, pv_capacity = requested, pv_storage_class = scl_name sc,
           pv_host_path = auto_pv_path sc ns claim, pv_access_mode = mode, pv_status = PVBound,
           pv_bound_to = Some claim\<rparr> (pvs w),
        storage_classes := hm_modify cls
          (\<lambda>s. s\<lparr>scl_provisioned_count := scl_provisioned_count s + 1\<rparr>) (storage_classes w)\<rparr>,
      if scl_provisioner sc = ''royak/host-path'' then [CreateDirAll (auto_pv_path sc ns claim)] else [])"

definition bind_claim ::
  "string \<Rightarrow> string \<Rightarrow> string \<Rightarrow> string \<Rightarrow> string \<Rightarrow> 'j desired_world \<Rightarrow> string option \<times> 'j desired_world \<times> effect list" where
  "bind_claim ns claim cls requested mode w =
     (case bind_first claim cls mode (pvs w) of
        (Some p, m) \<Rightarrow> (Some p, w\<lparr>pvs := m\<rparr>, [])
      | (None, _) \<Rightarrow>
          (case hm_get (storage_classes w) cls of
             None \<Rightarrow> (None, w, [])
           | Some sc \<Rightarrow> (let (w', es) = provision cls sc ns claim requested mode w in (Some (auto_pv_name sc), w', es))))"

definition apply_pvc :: "('y, 'j) yaml_ops \<Rightarrow> 'y resource \<Rightarrow> 'j desired_world \<Rightarrow> 'j step" where
  "apply_pvc Y r w =
     with_spec r w (\<lambda>spec.
       let name = res_name r; ns = res_ns r;
           cls = unwrap_or (yv_str_at Y spec [''storageClassName'']) ''local'';
           requested = unwrap_or (yv_str_at Y spec [''resources'', ''requests'', ''storage'']) ''1Gi'';
           mode = access_mode_of Y spec;
           (bound, w1, es) = bind_claim ns name cls requested mode w
       in Ret (Inr (''pvc/'' @ name @ '' '' @ (if bound \<noteq> None then ''Bound'' else ''Pending'') @ '' ('' @ requested @ '')''
                    @ (case bound of Some p \<Rightarrow> '' '' @ arrow @ '' pv/'' @ p | None \<Rightarrow> [])),
               w1\<lparr>pvcs := hm_insert name
                    \<lparr>pvc_name = name, pvc_namespace = ns, pvc_storage_class = cls, pvc_requested = requested,
                     pvc_access_mode = mode, pvc_bound_pv = bound\<rparr> (pvcs w1)\<rparr>, es))"

subsection \<open>Lemmas\<close>

lemma bind_first_None:
  "fst (bind_first claim cls mode m) = None \<longleftrightarrow>
     (\<forall>x \<in> set m. \<not> (pv_status (snd x) = PVAvailable \<and> pv_storage_class (snd x) = cls \<and> pv_access_mode (snd x) = mode))"
  by (induction m rule: bind_first.induct) (simp_all add: split_def Let_def)

lemma bind_first_keys: "map fst (snd (bind_first claim cls mode m)) = map fst m"
  by (induction m) (auto simp: split_def Let_def)

lemma bind_first_keyed: "keyed pv_name m \<Longrightarrow> keyed pv_name (snd (bind_first claim cls mode m))"
proof (induction m)
  case (Cons a m)
  obtain k pv where a: "a = (k, pv)" by (cases a)
  from Cons.prems have "keyed pv_name m" "k \<notin> fst ` set m" "pv_name pv = k"
    by (auto simp: a keyed_def hm_ok_def)
  with Cons.IH show ?case
    using bind_first_keys[of claim cls mode m]
    by (auto simp: a keyed_def hm_ok_def split_def Let_def dest: arg_cong[of _ _ set])
qed simp

text \<open>Only the chosen volume changes; it was available and now belongs to the claim.\<close>

lemma bind_first_get:
  assumes "bind_first claim cls mode m = (Some p, m')" and "hm_ok m"
  shows "\<exists>pv. hm_get m p = Some pv \<and> pv_status pv = PVAvailable \<and> pv_storage_class pv = cls
    \<and> pv_access_mode pv = mode
    \<and> hm_get m' = (hm_get m)(p \<mapsto> pv\<lparr>pv_status := PVBound, pv_bound_to := Some claim\<rparr>)"
  using assms
proof (induction m arbitrary: m')
  case (Cons a m)
  obtain k pv where a: "a = (k, pv)" by (cases a)
  show ?case
  proof (cases "pv_status pv = PVAvailable \<and> pv_storage_class pv = cls \<and> pv_access_mode pv = mode")
    case True
    with Cons.prems(1) have "p = k" "m' = (k, pv\<lparr>pv_status := PVBound, pv_bound_to := Some claim\<rparr>) # m"
      by (auto simp: a)
    with True show ?thesis by (auto simp: a hm_get_Cons fun_eq_iff)
  next
    case False
    with Cons.prems a obtain m1 where m1: "bind_first claim cls mode m = (Some p, m1)" "m' = (k, pv) # m1"
      by (cases "bind_first claim cls mode m") (auto split: if_splits)
    have ok: "hm_ok m" "k \<notin> fst ` set m" using Cons.prems(2) by (auto simp: a hm_ok_def)
    from Cons.IH[OF m1(1) ok(1)] obtain v where v: "hm_get m p = Some v" "pv_status v = PVAvailable"
      "pv_storage_class v = cls" "pv_access_mode v = mode"
      "hm_get m1 = (hm_get m)(p \<mapsto> v\<lparr>pv_status := PVBound, pv_bound_to := Some claim\<rparr>)" by blast
    have "k \<noteq> p" using ok(2) v(1) by (force dest: hm_get_Some_in)
    with v show ?thesis by (intro exI[of _ v]) (auto simp: a m1 hm_get_Cons fun_eq_iff)
  qed
qed simp

text \<open>Every bound claim is the one its volume is bound to.\<close>

definition claims_exclusive :: "'j desired_world \<Rightarrow> bool" where
  "claims_exclusive w =
     (\<forall>(c, pvc) \<in> set (pvcs w). \<forall>p. pvc_bound_pv pvc = Some p \<longrightarrow>
        (case hm_get (pvs w) p of None \<Rightarrow> True | Some pv \<Rightarrow> pv_status pv = PVBound \<and> pv_bound_to pv = Some c))"

lemma claims_exclusive_alt:
  "hm_ok (pvcs w) \<Longrightarrow> claims_exclusive w \<longleftrightarrow>
     (\<forall>c pvc p pv. hm_get (pvcs w) c = Some pvc \<longrightarrow> pvc_bound_pv pvc = Some p \<longrightarrow> hm_get (pvs w) p = Some pv
        \<longrightarrow> pv_status pv = PVBound \<and> pv_bound_to pv = Some c)"
  by (fastforce simp: claims_exclusive_def hm_get_iff split: option.splits)

lemma bind_claim_frame:
  "bind_claim ns claim cls req mode w = (b, w', es) \<Longrightarrow> pvcs w' = pvcs w"
  by (auto simp: bind_claim_def provision_def split: prod.splits option.splits)

lemma bind_claim_pvs:
  assumes "world_ok w" and "bind_claim ns claim cls req mode w = (b, w', es)"
  shows "(b = None \<and> w' = w) \<or>
    (\<exists>p pv. b = Some p \<and> hm_get (pvs w') = (hm_get (pvs w))(p \<mapsto> pv) \<and> pv_status pv = PVBound
       \<and> pv_bound_to pv = Some claim \<and> pv_storage_class pv = cls \<and> pv_access_mode pv = mode
       \<and> ((\<exists>old. hm_get (pvs w) p = Some old \<and> pv_status old = PVAvailable)
          \<or> (\<exists>sc. hm_get (storage_classes w) cls = Some sc \<and> p = auto_pv_name sc)))"
proof (cases "bind_first claim cls mode (pvs w)")
  case (Pair x m)
  show ?thesis
  proof (cases x)
    case (Some p)
    have ok: "hm_ok (pvs w)" using assms(1) by (auto dest: world_ok_keyed(12))
    from bind_first_get[OF _ ok, of claim cls mode p m] Pair Some obtain pv where
      "hm_get (pvs w) p = Some pv" "pv_status pv = PVAvailable" "pv_storage_class pv = cls" "pv_access_mode pv = mode"
      "hm_get m = (hm_get (pvs w))(p \<mapsto> pv\<lparr>pv_status := PVBound, pv_bound_to := Some claim\<rparr>)" by blast
    with assms(2) Pair Some show ?thesis
      by (intro disjI2 exI[of _ p] exI[of _ "pv\<lparr>pv_status := PVBound, pv_bound_to := Some claim\<rparr>"])
        (auto simp: bind_claim_def)
  next
    case None
    have n: "scl_name sc = cls" if "hm_get (storage_classes w) cls = Some sc" for sc
      using keyed_get[OF world_ok_keyed(23)[OF assms(1)] that] .
    show ?thesis
    proof (cases "hm_get (storage_classes w) cls")
      case (Some sc)
      with assms(2) Pair None n[OF Some] show ?thesis
        by (auto simp: bind_claim_def provision_def fun_eq_iff)
    qed (use assms(2) Pair None in \<open>auto simp: bind_claim_def\<close>)
  qed
qed

lemma bind_claim_world_ok:
  assumes "world_ok w" and "bind_claim ns claim cls req mode w = (b, w', es)"
  shows "world_ok w'"
proof -
  have "keyed pv_name (snd (bind_first claim cls mode (pvs w)))"
    using bind_first_keyed[OF world_ok_keyed(12)[OF assms(1)]] .
  then show ?thesis
    using assms
    by (auto simp: bind_claim_def provision_def world_ok_keyed keyed_modify split: prod.splits option.splits)
qed

lemma apply_pvc_Ret:
  assumes "apply_pvc Y r w = Ret (Inr m, w', es)"
  obtains cls req mode b w1 where "bind_claim (res_ns r) (res_name r) cls req mode w = (b, w1, es)"
    "w' = w1\<lparr>pvcs := hm_insert (res_name r)
       \<lparr>pvc_name = res_name r, pvc_namespace = res_ns r, pvc_storage_class = cls, pvc_requested = req,
        pvc_access_mode = mode, pvc_bound_pv = b\<rparr> (pvcs w1)\<rparr>"
proof -
  from assms obtain spec where "r_spec r = Some spec"
    by (auto simp: apply_pvc_def with_spec_Ret)
  with assms show ?thesis
    by (intro that[of "unwrap_or (yv_str_at Y spec [''storageClassName'']) ''local''"
          "unwrap_or (yv_str_at Y spec [''resources'', ''requests'', ''storage'']) ''1Gi''"
          "access_mode_of Y spec"])
      (auto simp: apply_pvc_def with_spec_Ret Let_def split_def prod_eq_iff)
qed

lemma apply_storageclass_arm: "arm_ok (apply_storageclass Y)"
  by (rule arm_okI) (auto simp: apply_storageclass_def with_spec_Ret Let_def world_ok_keyed)

lemma apply_pv_arm: "arm_ok (apply_pv Y)"
  by (rule arm_okI) (auto simp: apply_pv_def with_spec_Ret Let_def world_ok_keyed)

lemma apply_pvc_arm: "arm_ok (apply_pvc Y)"
proof (rule arm_okI)
  fix r w res w' es assume w: "world_ok w" and a: "apply_pvc Y r w = Ret (res, w', es)"
  show "world_ok w' \<and> (\<forall>e. res = Inl e \<longrightarrow> w' = w)"
  proof (cases res)
    case (Inl e)
    with w a show ?thesis by (auto simp: apply_pvc_def with_spec_Ret Let_def split_def)
  next
    case (Inr m)
    with a obtain cls req mode b w1 where "bind_claim (res_ns r) (res_name r) cls req mode w = (b, w1, es)"
      and w': "w' = w1\<lparr>pvcs := hm_insert (res_name r)
       \<lparr>pvc_name = res_name r, pvc_namespace = res_ns r, pvc_storage_class = cls, pvc_requested = req,
        pvc_access_mode = mode, pvc_bound_pv = b\<rparr> (pvcs w1)\<rparr>"
      by (blast elim: apply_pvc_Ret)
    then have "world_ok w1" using bind_claim_world_ok[OF w] by blast
    then show ?thesis by (simp add: w' Inr world_ok_keyed)
  qed
qed

end
