(* ===== verification/Apply_Policy.thy ===== *)
theory Apply_Policy
  imports Apply_Config
begin

text \<open>
  \<open>DesiredWorld::apply\<close> for the network and policy kinds, \<^verbatim>\<open>src/src/reconcile.rs\<close>: IngressClass,
  Ingress, NetworkPolicy, ResourceQuota, autoscalers, admission webhooks, roles and bindings, LimitRange,
  guards, operators, custom resources and NeuroPod. Creating a NeuroPod is a call on the machine; its
  answer (disk usage and the outcome of the start) is a parameter.
\<close>

subsection \<open>Ingress\<close>

definition apply_ingressclass :: "'y resource \<Rightarrow> 'j desired_world \<Rightarrow> 'j step" where
  "apply_ingressclass r w =
     done_ok (''ingressclass/'' @ res_name r @ '' registered (served by the built-in controller)'')
       (w\<lparr>ingress_classes := List.insert (res_name r) (ingress_classes w)\<rparr>)"

definition ingress_path_of :: "('y, 'j) yaml_ops \<Rightarrow> 'y \<Rightarrow> ingress_path" where
  "ingress_path_of Y p =
     \<lparr>ip_path = unwrap_or (yv_str_at Y p [''path'']) ''/'',
      ip_service = unwrap_or (yv_str_at Y p [''backend'', ''service'', ''name'']) [],
      ip_port = ucast (unwrap_or (yv_u64_at Y p [''backend'', ''service'', ''port'', ''number'']) 80)\<rparr>"

definition ingress_rule_of :: "('y, 'j) yaml_ops \<Rightarrow> 'y \<Rightarrow> ingress_rule" where
  "ingress_rule_of Y rule =
     \<lparr>ir_host = unwrap_or (yv_str_at Y rule [''host'']) ''*'',
      ir_paths = map (ingress_path_of Y) (unwrap_or (yv_seq_at Y rule [''http'', ''paths'']) [])\<rparr>"

definition class_note :: "'j desired_world \<Rightarrow> string option \<Rightarrow> string" where
  "class_note w cls =
     (case cls of
        None \<Rightarrow> []
      | Some c \<Rightarrow> if c \<notin> set (ingress_classes w) \<and> c \<noteq> ''royak''
                  then '', class='' @ c @ '' (served by the built-in controller)''
                  else '', class='' @ c)"

definition apply_ingress :: "('y, 'j) yaml_ops \<Rightarrow> 'y resource \<Rightarrow> 'j desired_world \<Rightarrow> 'j step" where
  "apply_ingress Y r w =
     with_spec r w (\<lambda>spec.
       let name = res_name r;
           rules = map (ingress_rule_of Y) (unwrap_or (yv_seq_at Y spec [''rules'']) []);
           cls = yv_str_at Y spec [''ingressClassName'']
       in done_ok (''ingress/'' @ name @ '' applied ('' @ show_nat (sum_list (map (length \<circ> ir_paths) rules))
                   @ '' routes'' @ class_note w cls @ '')'')
            (w\<lparr>ingresses := hm_insert name
                 \<lparr>ig_name = name, ig_namespace = res_ns r, ig_rules = rules, ig_ingress_class = cls\<rparr> (ingresses w)\<rparr>))"

subsection \<open>NetworkPolicy\<close>

definition peers_of :: "('y, 'j) yaml_ops \<Rightarrow> 'y \<Rightarrow> string \<Rightarrow> string \<Rightarrow> 'y list" where
  "peers_of Y spec dir key =
     concat (map (\<lambda>rule. unwrap_or (yv_seq_at Y rule [key]) []) (unwrap_or (yv_seq_at Y spec [dir]) []))"

definition app_peer :: "('y, 'j) yaml_ops \<Rightarrow> 'y \<Rightarrow> string list" where
  "app_peer Y src =
     (case yv_str_at Y src [''podSelector'', ''matchLabels'', ''app''] of
        Some a \<Rightarrow> [''app:'' @ a] | None \<Rightarrow> [])"

definition ns_peer :: "('y, 'j) yaml_ops \<Rightarrow> 'y \<Rightarrow> string list" where
  "ns_peer Y src =
     (case yv_path Y src [''namespaceSelector'', ''matchLabels''] of
        Some sel \<Rightarrow> [''ns:'' @ trim (unwrap_or (yv_to_string Y sel) [])] | None \<Rightarrow> [])"

definition policy_ports :: "('y, 'j) yaml_ops \<Rightarrow> 'y \<Rightarrow> string \<Rightarrow> u16 list" where
  "policy_ports Y spec dir =
     map ucast (filter_map (\<lambda>p. yv_u64_at Y p [''port'']) (peers_of Y spec dir ''ports''))"

definition policy_of :: "('y, 'j) yaml_ops \<Rightarrow> string \<Rightarrow> string \<Rightarrow> 'y \<Rightarrow> stored_network_policy" where
  "policy_of Y name ns spec =
     \<lparr>np_name = name, np_namespace = ns,
      np_pod_selector = unwrap_or (yv_str_at Y spec [''podSelector'', ''matchLabels'', ''app'']) ''*'',
      np_ingress_allow = concat (map (\<lambda>s. ns_peer Y s @ app_peer Y s) (peers_of Y spec ''ingress'' ''from'')),
      np_egress_allow = concat (map (app_peer Y) (peers_of Y spec ''egress'' ''to'')),
      np_ingress_ports = policy_ports Y spec ''ingress'',
      np_egress_ports = policy_ports Y spec ''egress'',
      np_internal = unwrap_or (yv_bool_at Y spec [''internal'']) False,
      np_mtls_required = unwrap_or (yv_bool_at Y spec [''mtls'']) False,
      np_deny_all = unwrap_or (yv_bool_at Y spec [''denyAll'']) False\<rparr>"

definition policy_features :: "stored_network_policy \<Rightarrow> string" where
  "policy_features p =
     (let fs = (if np_internal p then [''internal''] else []) @ (if np_mtls_required p then [''mTLS''] else [])
               @ (if np_deny_all p then [''deny-all''] else [])
      in if fs = [] then [] else '' ['' @ join '', '' fs @ '']'')"

definition apply_network_policy :: "('y, 'j) yaml_ops \<Rightarrow> 'y resource \<Rightarrow> 'j desired_world \<Rightarrow> 'j step" where
  "apply_network_policy Y r w =
     with_spec r w (\<lambda>spec.
       let name = res_name r; p = policy_of Y name (res_ns r) spec
       in done_ok (''networkpolicy/'' @ name @ '' applied (selector: '' @ np_pod_selector p @ '', ''
                   @ show_nat (length (np_ingress_allow p)) @ '' ingress, ''
                   @ show_nat (length (np_egress_allow p)) @ '' egress rules)'' @ policy_features p)
            (w\<lparr>network_policies := hm_insert name p (network_policies w)\<rparr>))"

subsection \<open>ResourceQuota and autoscaler\<close>

definition quota_cpu :: "('y, 'j) yaml_ops \<Rightarrow> 'y \<Rightarrow> f32 option" where
  "quota_cpu Y v =
     (case yv_as_f64 Y v of
        Some f \<Rightarrow> Some (f64_to_f32 f)
      | None \<Rightarrow> Option.bind (yv_as_str Y v) (\<lambda>s.
          if ends_with s ''m''
          then map_option (\<lambda>m. f_div m (f32_of_nat 1000)) (parse_f32 (trim_end_matches ''m'' s))
          else parse_f32 s))"

definition quota_mem :: "('y, 'j) yaml_ops \<Rightarrow> 'y \<Rightarrow> u64 option" where
  "quota_mem Y v =
     (case yv_as_u64 Y v of
        Some n \<Rightarrow> Some n
      | None \<Rightarrow> Option.bind (yv_as_str Y v) (\<lambda>s.
          case strip_suffix s ''Gi'' of
            Some gi \<Rightarrow> map_option (\<lambda>n. n * 1024) (parse_u64 gi)
          | None \<Rightarrow> (case strip_suffix s ''Mi'' of Some mi \<Rightarrow> parse_u64 mi | None \<Rightarrow> parse_u64 s)))"

definition quota_count :: "('y, 'j) yaml_ops \<Rightarrow> 'y \<Rightarrow> string \<Rightarrow> u32 option" where
  "quota_count Y hard key =
     map_option ucast (Option.bind (yv_get Y hard key) (\<lambda>v.
       opt_or (yv_as_u64 Y v) (Option.bind (yv_as_str Y v) parse_u64)))"

definition apply_quota :: "('y, 'j) yaml_ops \<Rightarrow> 'y resource \<Rightarrow> 'j desired_world \<Rightarrow> 'j step" where
  "apply_quota Y r w =
     with_spec r w (\<lambda>spec.
       let name = res_name r; ns = res_ns r;
           hard = unwrap_or (yv_get Y spec ''hard'') spec;
           q = \<lparr>q_name = name, q_namespace = ns,
                q_hard_cpu = Option.bind (yv_get Y hard ''cpu'') (quota_cpu Y),
                q_hard_memory = Option.bind (yv_get Y hard ''memory'') (quota_mem Y),
                q_hard_pods = quota_count Y hard ''pods'',
                q_hard_services = quota_count Y hard ''services'',
                q_hard_configmaps = quota_count Y hard ''configmaps'',
                q_hard_secrets = quota_count Y hard ''secrets''\<rparr>;
           limits = (case q_hard_cpu q of Some c \<Rightarrow> [''cpu: '' @ fmt_f32 c] | None \<Rightarrow> [])
                  @ (case q_hard_memory q of Some m \<Rightarrow> [''mem: '' @ show_word m @ ''Mi''] | None \<Rightarrow> [])
                  @ (case q_hard_pods q of Some p \<Rightarrow> [''pods: '' @ show_word p] | None \<Rightarrow> [])
                  @ (case q_hard_services q of Some s \<Rightarrow> [''svc: '' @ show_word s] | None \<Rightarrow> [])
       in done_ok (''resourcequota/'' @ name @ '' applied (ns='' @ ns @ '', '' @ join '', '' limits @ '')'')
            (w\<lparr>resource_quotas := hm_insert (ns @ ''/'' @ name) q (resource_quotas w)\<rparr>))"

definition apply_hpa :: "('y, 'j) yaml_ops \<Rightarrow> 'y resource \<Rightarrow> 'j desired_world \<Rightarrow> 'j step" where
  "apply_hpa Y r w =
     with_spec r w (\<lambda>spec.
       let name = res_name r;
           dep = unwrap_or (yv_str_at Y spec [''scaleTargetRef'', ''name'']) [];
           mn = ucast (unwrap_or (yv_u64_at Y spec [''minReplicas'']) 1) :: u32;
           mx = ucast (unwrap_or (yv_u64_at Y spec [''maxReplicas'']) 10) :: u32;
           target = (case Option.bind (yv_get Y spec ''targetCPUUtilizationPercentage'') (yv_as_f64 Y) of
                       Some f \<Rightarrow> f64_to_f32 f | None \<Rightarrow> f32_of_nat 70)
       in done_ok (''hpa/'' @ name @ '' '' @ arrow @ '' '' @ dep @ '' (min='' @ show_word mn @ '', max='' @ show_word mx
                   @ '', cpu='' @ fmt_f32 target @ ''%)'')
            (w\<lparr>hpas := hm_insert name
                 \<lparr>hpa_name = name, hpa_deployment = dep, hpa_min_replicas = mn, hpa_max_replicas = mx,
                  hpa_target_cpu = target, hpa_history = [], hpa_last_scaled = None\<rparr> (hpas w)\<rparr>))"

subsection \<open>Admission webhooks\<close>

definition opt_fail :: "'a option \<Rightarrow> string \<Rightarrow> 'j desired_world \<Rightarrow> ('a \<Rightarrow> 'j step) \<Rightarrow> 'j step" where
  "opt_fail v e w k = (case v of None \<Rightarrow> fail e w | Some x \<Rightarrow> k x)"

definition webhook_kinds :: "('y, 'j) yaml_ops \<Rightarrow> 'y \<Rightarrow> string list" where
  "webhook_kinds Y hook =
     (case yv_seq_at Y hook [''rules''] of
        None \<Rightarrow> [''*'']
      | Some rules \<Rightarrow> concat (map (\<lambda>r. yv_strings Y (unwrap_or (yv_seq_at Y r [''resources'']) [])) rules))"

definition apply_webhook :: "('y, 'j) yaml_ops \<Rightarrow> 'y resource \<Rightarrow> 'j desired_world \<Rightarrow> 'j step" where
  "apply_webhook Y r w =
     with_spec r w (\<lambda>sv.
     opt_fail (yv_seq_at Y sv [''webhooks'']) ''needs spec.webhooks'' w (\<lambda>hooks.
     opt_fail (head_opt hooks) ''needs at least one webhook'' w (\<lambda>first.
     opt_fail (yv_str_at Y first [''clientConfig'', ''url''])
       ''webhook needs clientConfig.url (Royak calls the URL directly)'' w (\<lambda>url.
       let name = res_name r; kinds = webhook_kinds Y first
       in done_ok (''validatingwebhookconfiguration/'' @ name @ '' registered ('' @ show_nat (length kinds) @ '' kinds)'')
            (w\<lparr>admission_webhooks := hm_insert name
                 \<lparr>aw_name = name, aw_url = url, aw_kinds = kinds,
                  aw_failure_policy = unwrap_or (yv_str_at Y first [''failurePolicy'']) ''Fail''\<rparr>
                 (admission_webhooks w)\<rparr>)))))"

subsection \<open>Roles and bindings\<close>

definition get_strings :: "('y, 'j) yaml_ops \<Rightarrow> 'y \<Rightarrow> string \<Rightarrow> string list" where
  "get_strings Y v key = (case yv_seq_at Y v [key] of Some arr \<Rightarrow> yv_strings Y arr | None \<Rightarrow> [''*''])"

definition apply_role :: "('y, 'j) yaml_ops \<Rightarrow> 'y resource \<Rightarrow> 'j desired_world \<Rightarrow> 'j step" where
  "apply_role Y r w =
     (let name = res_name r;
          scope = (if r_kind r = ''ClusterRole'' then ''*'' else res_ns r)
      in opt_fail (Option.bind (r_rules r) (yv_as_sequence Y)) ''Role needs top-level rules'' w (\<lambda>rv.
         let rules = map (\<lambda>x. \<lparr>rule_resources = get_strings Y x ''resources'', rule_verbs = get_strings Y x ''verbs'',
                               rule_namespaces = [scope]\<rparr>) rv
         in done_ok (map ascii_lower (r_kind r) @ ''/'' @ name @ '' configured ('' @ show_nat (length rules)
                     @ '' rules, ns='' @ scope @ '')'')
              (w\<lparr>rbac_roles := hm_insert name \<lparr>role_name = name, role_rules = rules\<rparr> (rbac_roles w)\<rparr>)))"

definition quoted :: "string \<Rightarrow> string" where
  "quoted s = [CHR 0x27] @ s @ [CHR 0x27]"

definition em_dash :: string where
  "em_dash = [CHR 0xE2, CHR 0x80, CHR 0x94]"

definition bind_subjects :: "string list \<Rightarrow> rbac_rule list \<Rightarrow> (string, rbac_role) hmap \<Rightarrow> (string, rbac_role) hmap" where
  "bind_subjects subjects rules m =
     fold (\<lambda>s a. hm_insert s \<lparr>role_name = s, role_rules = rules\<rparr> a) subjects m"

definition apply_rolebinding :: "('y, 'j) yaml_ops \<Rightarrow> 'y resource \<Rightarrow> 'j desired_world \<Rightarrow> 'j step" where
  "apply_rolebinding Y r w =
     opt_fail (Option.bind (r_role_ref r) (\<lambda>v. yv_str_at Y v [''name''])) ''RoleBinding needs roleRef.name'' w (\<lambda>rn.
     opt_fail (hm_get (rbac_roles w) rn)
       (''roleRef '' @ quoted rn @ '' not found '' @ em_dash @ '' apply the Role first'') w (\<lambda>role.
       let subjects = filter_map (\<lambda>s. yv_str_at Y s [''name''])
                        (unwrap_or (Option.bind (r_subjects r) (yv_as_sequence Y)) [])
       in if subjects = [] then fail ''RoleBinding needs at least one subject'' w
          else done_ok (''rolebinding/'' @ res_name r @ '': '' @ show_nat (length subjects)
                        @ '' subject(s) bound to role '' @ quoted rn)
                 (w\<lparr>rbac_roles := bind_subjects subjects (role_rules role) (rbac_roles w)\<rparr>)))"

definition apply_serviceaccount :: "'y resource \<Rightarrow> 'j desired_world \<Rightarrow> 'j step" where
  "apply_serviceaccount r w =
     done_ok (''serviceaccount/'' @ res_name r @ '' registered (use as RBAC subject via RoleBinding)'') w"

definition apply_limitrange :: "('y, 'j) yaml_ops \<Rightarrow> 'y resource \<Rightarrow> 'j desired_world \<Rightarrow> 'j step" where
  "apply_limitrange Y r w =
     with_spec r w (\<lambda>sv.
       let name = res_name r; ns = res_ns r;
           first = Option.bind (yv_seq_at Y sv [''limits'']) head_opt;
           get = (\<lambda>section key. Option.bind first (\<lambda>l. yv_str_at Y l [section, key]))
       in done_ok (''limitrange/'' @ name @ '' set for namespace '' @ ns)
            (w\<lparr>limit_ranges := hm_insert ns
                 \<lparr>lr_name = name, lr_namespace = ns, lr_default_cpu = get ''default'' ''cpu'',
                  lr_default_mem = get ''default'' ''memory'', lr_request_cpu = get ''defaultRequest'' ''cpu'',
                  lr_request_mem = get ''defaultRequest'' ''memory''\<rparr> (limit_ranges w)\<rparr>))"

definition apply_rbacrole :: "('y, 'j) yaml_ops \<Rightarrow> 'y resource \<Rightarrow> 'j desired_world \<Rightarrow> 'j step" where
  "apply_rbacrole Y r w =
     with_spec r w (\<lambda>sv.
     opt_fail (yv_seq_at Y sv [''rules'']) ''RbacRole needs spec.rules'' w (\<lambda>rv.
       let name = res_name r;
           rules = map (\<lambda>x. \<lparr>rule_resources = get_strings Y x ''resources'', rule_verbs = get_strings Y x ''verbs'',
                             rule_namespaces = get_strings Y x ''namespaces''\<rparr>) rv
       in done_ok (''rbac/'' @ name @ '' configured ('' @ show_nat (length rules) @ '' rules)'')
            (w\<lparr>rbac_roles := hm_insert name \<lparr>role_name = name, role_rules = rules\<rparr> (rbac_roles w)\<rparr>)))"

subsection \<open>Guards, operators, custom resources\<close>

definition str_map_at :: "('y, 'j) yaml_ops \<Rightarrow> 'y \<Rightarrow> string \<Rightarrow> (string, string) hmap" where
  "str_map_at Y v key =
     hm_collect (yv_str_pairs Y (unwrap_or (Option.bind (yv_get Y v key) (yv_as_mapping Y)) []))"

definition guard_rule_of :: "('y, 'j) yaml_ops \<Rightarrow> 'y \<Rightarrow> guard_rule" where
  "guard_rule_of Y v =
     \<lparr>gr_when = unwrap_or (yv_str_at Y v [''when'']) ''anomaly'',
      gr_action = unwrap_or (yv_str_at Y v [''action'']) ''restart'',
      gr_params = str_map_at Y v ''params''\<rparr>"

definition apply_guard :: "('y, 'j) yaml_ops \<Rightarrow> 'y resource \<Rightarrow> 'j desired_world \<Rightarrow> 'j step" where
  "apply_guard Y r w =
     with_spec r w (\<lambda>sv.
       let name = res_name r; rules = map (guard_rule_of Y) (unwrap_or (yv_seq_at Y sv [''rules'']) [])
       in done_ok (''guard/'' @ name @ '' configured ('' @ show_nat (length rules) @ '' rules)'')
            (w\<lparr>guards := hm_insert name \<lparr>gd_name = name, gd_rules = rules, gd_hooks = str_map_at Y sv ''hooks''\<rparr>
                 (guards w)\<rparr>))"

definition operator_component_of :: "('y, 'j) yaml_ops \<Rightarrow> 'y \<Rightarrow> operator_component" where
  "operator_component_of Y c =
     \<lparr>oc_role = unwrap_or (yv_str_at Y c [''role'']) ''primary'',
      oc_image = unwrap_or (yv_str_at Y c [''image'']) [],
      oc_replicas = ucast (unwrap_or (yv_u64_at Y c [''replicas'']) 1),
      oc_env = yv_strings Y (unwrap_or (yv_seq_at Y c [''env'']) []), oc_volumes = [], oc_ports = []\<rparr>"

definition apply_operator :: "('y, 'j) yaml_ops \<Rightarrow> 'y resource \<Rightarrow> 'j desired_world \<Rightarrow> 'j step" where
  "apply_operator Y r w =
     with_spec r w (\<lambda>sv.
     opt_fail (yv_str_at Y sv [''customKind'']) ''Operator needs spec.customKind'' w (\<lambda>ck.
       let name = res_name r; comps = map (operator_component_of Y) (unwrap_or (yv_seq_at Y sv [''provision'']) [])
       in done_ok (''operator/'' @ name @ '' for kind '' @ quoted ck @ '' ('' @ show_nat (length comps) @ '' components)'')
            (w\<lparr>operators := hm_insert name
                 \<lparr>op_name = name, op_custom_kind = ck, op_provision = comps, op_hooks = str_map_at Y sv ''hooks'',
                  op_rules = []\<rparr> (operators w)\<rparr>)))"

definition apply_custom_resource ::
  "('y, 'j) yaml_ops \<Rightarrow> 'j json_ops \<Rightarrow> 'y resource \<Rightarrow> 'j desired_world \<Rightarrow> 'j step" where
  "apply_custom_resource Y J r w =
     with_spec r w (\<lambda>sv.
       let name = res_name r;
           cr_kind = unwrap_or (opt_or (md_namespace (r_metadata r)) (yv_str_at Y sv [''kind''])) [];
           actual = unwrap_or (yv_str_at Y sv [''resourceKind'']) cr_kind
       in done_ok (''cr/'' @ actual @ ''/'' @ name @ '' created (pending operator)'')
            (w\<lparr>custom_resources := hm_insert name
                 \<lparr>cr_name = name, cr_kind = actual, cr_namespace = res_ns r,
                  cr_spec = unwrap_or (yv_to_json Y sv) (jv_empty_object J), cr_status = CRPending\<rparr>
                 (custom_resources w)\<rparr>))"

subsection \<open>NeuroPod\<close>

record neuropod_answer =
  na_usage :: "u64 \<times> u64"
  na_start :: "string list \<Rightarrow> u32 result"

definition disk_mb_of :: "string option \<Rightarrow> u64" where
  "disk_mb_of sz =
     unwrap_or (Option.bind sz (\<lambda>s.
       case strip_suffix s ''Gi'' of
         Some gi \<Rightarrow> map_option (\<lambda>n. n * 1024) (parse_u64 gi)
       | None \<Rightarrow> (case strip_suffix s ''Mi'' of Some mi \<Rightarrow> parse_u64 mi | None \<Rightarrow> parse_u64 s))) 1024"

definition neuropod_env :: "('y, 'j) yaml_ops \<Rightarrow> 'y \<Rightarrow> string list" where
  "neuropod_env Y spec =
     filter_map (\<lambda>v. case (yv_str_at Y v [''name''], yv_str_at Y v [''value'']) of
       (Some k, Some x) \<Rightarrow> Some (k @ ''='' @ x) | _ \<Rightarrow> None) (unwrap_or (yv_seq_at Y spec [''env'']) [])"

definition apply_neuropod ::
  "('y, 'j) yaml_ops \<Rightarrow> (string \<Rightarrow> string \<Rightarrow> u64 \<Rightarrow> string \<Rightarrow> neuropod_answer result) \<Rightarrow> 'y resource
   \<Rightarrow> 'j desired_world \<Rightarrow> 'j step" where
  "apply_neuropod Y create r w =
     with_spec r w (\<lambda>spec.
       let name = res_name r;
           image = unwrap_or (yv_str_at Y spec [''image'']) ''alpine:latest'';
           disk_mb = disk_mb_of (yv_str_at Y spec [''disk'', ''size'']);
           mount = unwrap_or (yv_str_at Y spec [''disk'', ''mountPath'']) ''/data''
       in (case create name image disk_mb mount of
             Inl e \<Rightarrow> fail (''neuropod/'' @ name @ '': '' @ e) w
           | Inr pod \<Rightarrow>
               (case na_start pod (neuropod_env Y spec) of
                  Inr pid \<Rightarrow> done_ok (''neuropod/'' @ name @ '' created (image='' @ image @ '', disk='' @ show_word disk_mb
                     @ ''MB sparse, mount='' @ mount @ '', pid='' @ show_word pid @ '', used='' @ show_word (fst (na_usage pod))
                     @ ''B/'' @ show_word (snd (na_usage pod)) @ ''B)'') w
                | Inl e \<Rightarrow> done_ok (''neuropod/'' @ name @ '' created but start failed: '' @ e
                     @ '' (disk ready, retry with watch)'') w)))"

subsection \<open>Lemmas\<close>

lemma opt_fail_Ret:
  "opt_fail v e w k = Ret (res, w', es) \<longleftrightarrow>
     (v = None \<and> res = Inl e \<and> w' = w \<and> es = []) \<or> (\<exists>x. v = Some x \<and> k x = Ret (res, w', es))"
  by (auto simp: opt_fail_def split: option.splits)

lemmas arm_simps = with_spec_Ret opt_fail_Ret Let_def world_ok_keyed

lemma apply_ingressclass_arm: "arm_ok apply_ingressclass"
  by (rule arm_okI) (auto simp: apply_ingressclass_def world_ok_keyed)

lemma apply_ingress_arm: "arm_ok (apply_ingress Y)"
  by (rule arm_okI) (auto simp: apply_ingress_def arm_simps)

lemma apply_network_policy_arm: "arm_ok (apply_network_policy Y)"
  by (rule arm_okI) (auto simp: apply_network_policy_def policy_of_def arm_simps)

lemma apply_quota_arm: "arm_ok (apply_quota Y)"
  by (rule arm_okI) (auto simp: apply_quota_def quota_key_def arm_simps)

lemma apply_hpa_arm: "arm_ok (apply_hpa Y)"
  by (rule arm_okI) (auto simp: apply_hpa_def arm_simps)

lemma apply_webhook_arm: "arm_ok (apply_webhook Y)"
  by (rule arm_okI) (auto simp: apply_webhook_def arm_simps)

lemma apply_role_arm: "arm_ok (apply_role Y)"
  by (rule arm_okI) (auto simp: apply_role_def arm_simps)

lemma bind_subjects_keyed: "keyed role_name m \<Longrightarrow> keyed role_name (bind_subjects ss rules m)"
  by (induction ss arbitrary: m) (auto simp: bind_subjects_def)

lemma bind_subjects_get:
  "hm_get (bind_subjects ss rules m) k =
     (if k \<in> set ss then Some \<lparr>role_name = k, role_rules = rules\<rparr> else hm_get m k)"
  by (induction ss arbitrary: m) (auto simp: bind_subjects_def)

lemma apply_rolebinding_arm: "arm_ok (apply_rolebinding Y)"
  by (rule arm_okI) (auto simp: apply_rolebinding_def arm_simps bind_subjects_keyed split: if_splits)

lemma apply_serviceaccount_arm: "arm_ok apply_serviceaccount"
  by (rule arm_okI) (auto simp: apply_serviceaccount_def)

lemma apply_limitrange_arm: "arm_ok (apply_limitrange Y)"
  by (rule arm_okI) (auto simp: apply_limitrange_def arm_simps)

lemma apply_rbacrole_arm: "arm_ok (apply_rbacrole Y)"
  by (rule arm_okI) (auto simp: apply_rbacrole_def arm_simps)

lemma apply_guard_arm: "arm_ok (apply_guard Y)"
  by (rule arm_okI) (auto simp: apply_guard_def arm_simps)

lemma apply_operator_arm: "arm_ok (apply_operator Y)"
  by (rule arm_okI) (auto simp: apply_operator_def arm_simps)

lemma apply_custom_resource_arm: "arm_ok (apply_custom_resource Y J)"
  by (rule arm_okI) (auto simp: apply_custom_resource_def arm_simps)

lemma apply_neuropod_arm: "arm_ok (apply_neuropod Y create)"
  by (rule arm_okI) (auto simp: apply_neuropod_def with_spec_def Let_def split: option.splits sum.splits)

end
