(* ===== verification/Apply.thy ===== *)
theory Apply
  imports Apply_Storage Apply_Policy
begin

text \<open>
  \<open>DesiredWorld::apply\<close>, \<^verbatim>\<open>src/src/reconcile.rs\<close>: the dispatch on the resource kind over the arms of
  the preceding theories, and the properties of the whole function. What the machine answers during one
  call (container listings, NeuroPod creation) is gathered in \<open>machine\<close>.
\<close>

record machine =
  mc_containers :: "nat \<Rightarrow> docker_container list option"
  mc_neuropod :: "string \<Rightarrow> string \<Rightarrow> u64 \<Rightarrow> string \<Rightarrow> neuropod_answer result"

definition apply_arms ::
  "('y, 'j) yaml_ops \<Rightarrow> 'j json_ops \<Rightarrow> machine \<Rightarrow> (string \<times> ('y resource \<Rightarrow> 'j desired_world \<Rightarrow> 'j step)) list" where
  "apply_arms Y J M =
     [(''Deployment'', apply_deployment Y), (''ReplicaSet'', apply_deployment Y), (''Pod'', apply_deployment Y),
      (''StatefulSet'', apply_deployment Y), (''ConfigMap'', apply_configmap Y (mc_containers M)),
      (''Secret'', apply_secret Y), (''Service'', apply_service Y), (''Namespace'', apply_namespace),
      (''StorageClass'', apply_storageclass Y), (''PersistentVolume'', apply_pv Y),
      (''PersistentVolumeClaim'', apply_pvc Y), (''DaemonSet'', apply_daemonset Y), (''Job'', apply_job Y),
      (''CronJob'', apply_cronjob Y), (''IngressClass'', apply_ingressclass), (''Ingress'', apply_ingress Y),
      (''NetworkPolicy'', apply_network_policy Y), (''ResourceQuota'', apply_quota Y),
      (''HorizontalPodAutoscaler'', apply_hpa Y), (''HPA'', apply_hpa Y), (''Config'', apply_config Y),
      (''Function'', apply_function Y), (''Repository'', apply_repository Y), (''Pipeline'', apply_pipeline Y),
      (''ValidatingWebhookConfiguration'', apply_webhook Y), (''Role'', apply_role Y), (''ClusterRole'', apply_role Y),
      (''RoleBinding'', apply_rolebinding Y), (''ClusterRoleBinding'', apply_rolebinding Y),
      (''ServiceAccount'', apply_serviceaccount), (''LimitRange'', apply_limitrange Y),
      (''RbacRole'', apply_rbacrole Y), (''Guard'', apply_guard Y), (''Operator'', apply_operator Y),
      (''CustomResource'', apply_custom_resource Y J), (''NeuroPod'', apply_neuropod Y (mc_neuropod M))]"

definition apply_resource ::
  "('y, 'j) yaml_ops \<Rightarrow> 'j json_ops \<Rightarrow> machine \<Rightarrow> 'y resource \<Rightarrow> 'j desired_world \<Rightarrow> 'j step" where
  "apply_resource Y J M r w =
     (case map_of (apply_arms Y J M) (r_kind r) of
        Some arm \<Rightarrow> arm r w
      | None \<Rightarrow> fail (''Unsupported resource kind: '' @ r_kind r) w)"

lemmas apply_arms_ok =
  apply_deployment_arm apply_configmap_arm apply_secret_arm apply_service_arm apply_namespace_arm
  apply_storageclass_arm apply_pv_arm apply_pvc_arm apply_daemonset_arm apply_job_arm apply_cronjob_arm
  apply_ingressclass_arm apply_ingress_arm apply_network_policy_arm apply_quota_arm apply_hpa_arm
  apply_config_arm apply_function_arm apply_repository_arm apply_pipeline_arm apply_webhook_arm
  apply_role_arm apply_rolebinding_arm apply_serviceaccount_arm apply_limitrange_arm apply_rbacrole_arm
  apply_guard_arm apply_operator_arm apply_custom_resource_arm apply_neuropod_arm

lemma apply_arms_all_ok: "\<forall>a \<in> set (apply_arms Y J M). arm_ok (snd a)"
  by (simp add: apply_arms_def apply_arms_ok)

lemma apply_resource_arm: "arm_ok (apply_resource Y J M)"
proof (rule arm_okI)
  fix r w res w' es assume w: "world_ok w" and a: "apply_resource Y J M r w = Ret (res, w', es)"
  show "world_ok w' \<and> (\<forall>e. res = Inl e \<longrightarrow> w' = w)"
  proof (cases "map_of (apply_arms Y J M) (r_kind r)")
    case None
    with w a show ?thesis by (simp add: apply_resource_def)
  next
    case (Some arm)
    then have "arm_ok arm" using apply_arms_all_ok[of Y J M] by (fastforce dest: map_of_SomeD)
    moreover have "arm r w = Ret (res, w', es)" using a Some by (simp add: apply_resource_def)
    ultimately show ?thesis using arm_okD w by blast
  qed
qed

end
