(* ===== verification/Sample_Values.thy ===== *)
theory Sample_Values
  imports World_Ops
begin

text \<open>
  Small concrete instances of the parameters and of the stored resources, for evaluating the model: a
  document value type with the accessors of \<open>yaml_ops\<close> and \<open>json_ops\<close>, decoders that read an image and a
  host path, and sample resources.
\<close>

datatype doc = DStr string | DSeq "doc list" | DMap "(string \<times> doc) list"

fun doc_get :: "doc \<Rightarrow> string \<Rightarrow> doc option" where
  "doc_get (DMap kvs) k = map_of kvs k"
| "doc_get v k = None"

fun doc_str :: "doc \<Rightarrow> string option" where
  "doc_str (DStr s) = Some s"
| "doc_str v = None"

fun doc_seq :: "doc \<Rightarrow> doc list option" where
  "doc_seq (DSeq vs) = Some vs"
| "doc_seq v = None"

fun doc_map :: "doc \<Rightarrow> (doc \<times> doc) list option" where
  "doc_map (DMap kvs) = Some (map (\<lambda>(k, v). (DStr k, v)) kvs)"
| "doc_map v = None"

fun doc_obj :: "doc \<Rightarrow> (string \<times> doc) list option" where
  "doc_obj (DMap kvs) = Some kvs"
| "doc_obj v = None"

definition doc_container :: "string \<Rightarrow> container_spec" where
  "doc_container img = \<lparr>c_name = ''c'', c_image = img, c_ports = None, c_env = None, c_env_from = None,
     c_command = None, c_resources = None,
     c_volume_mounts = Some [\<lparr>vm_name = ''data'', vm_mount_path = ''/mnt'', vm_read_only = None\<rparr>],
     c_liveness_probe = None, c_readiness_probe = None, c_startup_probe = None\<rparr>"

definition doc_pod :: "doc \<Rightarrow> doc pod_spec" where
  "doc_pod v = \<lparr>p_init_containers = None,
     p_containers = (case Option.bind (doc_get v ''image'') doc_str of Some i \<Rightarrow> [doc_container i] | None \<Rightarrow> []),
     p_volumes = (case Option.bind (doc_get v ''hostPath'') doc_str of
        Some p \<Rightarrow> Some [\<lparr>v_name = ''data'', v_host_path = Some \<lparr>hp_path = p\<rparr>, v_pvc = None, v_empty_dir = None,
                         v_config_map = None, v_secret = None\<rparr>]
      | None \<Rightarrow> None),
     p_restart_policy = None\<rparr>"

definition doc_deployment :: "doc \<Rightarrow> doc deployment_spec" where
  "doc_deployment v = pod_as_deployment (doc_pod v)"

definition doc_yaml :: "(doc, doc) yaml_ops" where
  "doc_yaml = \<lparr>yv_get = doc_get, yv_as_str = doc_str, yv_as_u64 = \<lambda>v. Option.bind (doc_str v) parse_u64,
     yv_as_f64 = \<lambda>v. None, yv_as_bool = \<lambda>v. None, yv_as_sequence = doc_seq, yv_as_mapping = doc_map,
     yv_to_string = doc_str, yv_to_json = Some, yv_from_str = \<lambda>s. None,
     yv_deployment = \<lambda>v. Inr (doc_deployment v), yv_deployment_err = \<lambda>v. [], yv_pod = \<lambda>v. Inr (doc_pod v),
     yv_service = \<lambda>v. Inl ''no'', yv_config = \<lambda>v. Inl ''no'', yv_function = \<lambda>v. Inl ''no'',
     yv_repository = \<lambda>v. Inl ''no'', yv_pipeline = \<lambda>v. Inl ''no''\<rparr>"

definition doc_json :: "doc json_ops" where
  "doc_json = \<lparr>jv_get = doc_get, jv_as_str = doc_str, jv_as_u64 = \<lambda>v. Option.bind (doc_str v) parse_u64,
     jv_as_f64 = \<lambda>v. None, jv_as_array = doc_seq, jv_as_object = doc_obj, jv_empty_object = DMap []\<rparr>"

definition doc_resource :: "string \<Rightarrow> string \<Rightarrow> doc \<Rightarrow> doc resource" where
  "doc_resource kind name spec =
     \<lparr>r_api_version = None, r_kind = kind, r_metadata = \<lparr>md_name = name, md_namespace = None, md_labels = None\<rparr>,
      r_spec = Some spec, r_data = None, r_string_data = None, r_rules = None, r_subjects = None, r_role_ref = None\<rparr>"

definition sample_container :: stored_container where
  "sample_container = \<lparr>sc_name = ''c'', sc_image = ''nginx'', sc_command = None, sc_env = [],
     sc_env_from_configmaps = [], sc_env_from_secrets = [], sc_volumes = [], sc_liveness_probe = None,
     sc_readiness_probe = None, sc_startup_probe = None\<rparr>"

definition sample_deployment :: "string \<Rightarrow> string option \<Rightarrow> stored_deployment" where
  "sample_deployment n owner = \<lparr>d_name = n, d_namespace = ''default'', d_replicas = 2, d_init_containers = [],
     d_containers = [sample_container], d_image = ''nginx'', d_previous_image = None, d_command = None,
     d_env = [], d_resource_limits = None, d_strategy = None, d_pause_after_idle = None, d_paused = False,
     d_idle_since = None, d_stateful = False, d_owner_ref = owner\<rparr>"

lemmas doc_simps = doc_container_def doc_pod_def doc_deployment_def doc_yaml_def doc_json_def doc_resource_def

end
