(* ===== verification/Apply_Props.thy ===== *)
theory Apply_Props
  imports Apply Sample_Values
begin

text \<open>
  Properties of \<open>DesiredWorld::apply\<close>: atomicity and panics of the whole dispatcher, rolling updates, the
  sources a container may mount, exclusive volume binding, role bindings and secrets.
\<close>

subsection \<open>Lemmas for the properties\<close>

text \<open>The record stored for a workload with at least one container.\<close>

definition stored_of :: "'j desired_world \<Rightarrow> 'y resource \<Rightarrow> 'y deployment_spec \<Rightarrow> stored_deployment" where
  "stored_of w r dep =
     (let cs = map (stored_container_of (volume_map w (r_kind r) (res_name r) dep)) (p_containers (pt_spec (ds_template dep)))
      in new_deployment w r dep (hd cs) cs)"

lemma apply_deployment_stores:
  assumes "as_deployment Y r = Some dep" and "p_containers (pt_spec (ds_template dep)) = c # cs"
  shows "\<exists>m es. apply_deployment Y r w =
    Ret (Inr m, (case rolling_from w (res_name r) (c_image c) of
           Some old \<Rightarrow> w\<lparr>deployments := hm_insert (res_name r) (stored_of w r dep) (deployments w),
             pending_rollouts := hm_insert (res_name r) (rollout_of (stored_of w r dep) old) (pending_rollouts w)\<rparr>
         | None \<Rightarrow> w\<lparr>deployments := hm_insert (res_name r) (stored_of w r dep) (deployments w)\<rparr>), es)"
proof -
  have img: "d_image (stored_of w r dep) = c_image c"
    using assms(2) by (simp add: stored_of_def new_deployment_def stored_container_of_def Let_def)
  have "apply_deployment Y r w = store_deployment r (stored_of w r dep)
      (volume_effects (res_name r) (unwrap_or (p_volumes (pt_spec (ds_template dep))) [])) w"
    using assms by (simp add: apply_deployment_def Let_def stored_of_def)
  then show ?thesis by (auto simp: store_deployment_def Let_def img split: option.splits)
qed

lemma hm_extend_get_SomeD: "hm_get (hm_extend m kvs) k = Some v \<Longrightarrow> hm_get m k = Some v \<or> (k, v) \<in> set kvs"
proof (induction kvs arbitrary: m)
  case (Cons a kvs)
  obtain k' v' where a: "a = (k', v')" by (cases a)
  from Cons.IH[of "hm_insert k' v' m"] Cons.prems show ?case by (auto simp: a split: if_splits)
qed simp

lemma volume_map_source:
  assumes "hm_get (volume_map w kind name dep) n = Some host"
  shows "(\<exists>v \<in> set (unwrap_or (p_volumes (pt_spec (ds_template dep))) []).
            v_name v = n \<and> volume_source w name v = Some host)
    \<or> kind = ''StatefulSet'' \<and> host = ''vct:'' @ n"
proof -
  let ?vols = "filter_map (\<lambda>v. map_option (Pair (v_name v)) (volume_source w name v))
          (unwrap_or (p_volumes (pt_spec (ds_template dep))) [])"
  from assms have "hm_get (hm_collect ?vols) n = Some host \<or> (n, host) \<in> set (hm_collect (vct_entries kind dep))"
    unfolding volume_map_def by (rule hm_extend_get_SomeD)
  moreover have "(n, host) \<in> set (hm_collect kvs) \<Longrightarrow> (n, host) \<in> set kvs" for kvs
    using hm_get_in[of "hm_collect kvs" n host] hm_extend_get_SomeD[of "[]" kvs n host] by auto
  ultimately have "(n, host) \<in> set ?vols \<or> (n, host) \<in> set (vct_entries kind dep)"
    using hm_extend_get_SomeD[of "[]" ?vols n host] by auto
  then show ?thesis by (auto simp: set_filter_map vct_entries_def split: if_splits)
qed

text \<open>What a mount source may be: a validated host path, a directory of the workload's own, the marker
  of a config map, secret or per-ordinal claim, or the path of the volume a claim is bound to.\<close>

definition safe_source :: "'j desired_world \<Rightarrow> string \<Rightarrow> string \<Rightarrow> bool" where
  "safe_source w name host =
     (validate_path host \<or> starts_with host (''/tmp/royak-'' @ name @ ''-'') \<or> starts_with host ''cmv:''
      \<or> starts_with host ''sev:'' \<or> starts_with host ''vct:''
      \<or> host \<in> pv_host_path ` set (hm_values (pvs w)))"

lemma volume_source_safe: "volume_source w name v = Some host \<Longrightarrow> safe_source w name host"
  by (auto simp: volume_source_def safe_source_def tmp_dir_def pvc_path_def starts_with_iff hm_values_def
      bind_eq_Some_conv dest!: hm_get_Some_in split: option.splits if_splits intro: rev_image_eqI)

lemma mount_pairs_safe:
  assumes "(host, mp) \<in> set (mount_pairs (volume_map w kind name dep) ms)"
  shows "safe_source w name host"
proof -
  obtain n where "hm_get (volume_map w kind name dep) n = Some host"
    using mount_pairs_from_map[OF assms] by blast
  from volume_map_source[OF this] show ?thesis
    by (auto dest: volume_source_safe simp: safe_source_def starts_with_iff)
qed

lemma arm_panic_free:
  "apply_deployment Y r w \<noteq> Panic" "apply_configmap Y ask r w \<noteq> Panic" "apply_secret Y r w \<noteq> Panic"
  "apply_service Y r w \<noteq> Panic" "apply_namespace r w \<noteq> Panic" "apply_storageclass Y r w \<noteq> Panic"
  "apply_pv Y r w \<noteq> Panic" "apply_pvc Y r w \<noteq> Panic" "apply_ingressclass r w \<noteq> Panic"
  "apply_ingress Y r w \<noteq> Panic" "apply_network_policy Y r w \<noteq> Panic" "apply_quota Y r w \<noteq> Panic"
  "apply_hpa Y r w \<noteq> Panic" "apply_config Y r w \<noteq> Panic" "apply_function Y r w \<noteq> Panic"
  "apply_repository Y r w \<noteq> Panic" "apply_pipeline Y r w \<noteq> Panic" "apply_webhook Y r w \<noteq> Panic"
  "apply_role Y r w \<noteq> Panic" "apply_rolebinding Y r w \<noteq> Panic" "apply_serviceaccount r w \<noteq> Panic"
  "apply_limitrange Y r w \<noteq> Panic" "apply_rbacrole Y r w \<noteq> Panic" "apply_guard Y r w \<noteq> Panic"
  "apply_operator Y r w \<noteq> Panic" "apply_custom_resource Y J r w \<noteq> Panic" "apply_neuropod Y create r w \<noteq> Panic"
  by (simp_all add: apply_deployment_def store_deployment_def apply_configmap_def apply_secret_def apply_service_def
      apply_namespace_def apply_storageclass_def apply_pv_def apply_pvc_def apply_ingressclass_def apply_ingress_def
      apply_network_policy_def apply_quota_def apply_hpa_def apply_config_def apply_function_def apply_repository_def
      apply_pipeline_def apply_webhook_def apply_role_def apply_rolebinding_def apply_serviceaccount_def
      apply_limitrange_def apply_rbacrole_def apply_guard_def apply_operator_def apply_custom_resource_def
      apply_neuropod_def with_spec_def opt_fail_def decoded_def fail_def done_ok_def Let_def split_def
      split: option.split sum.split list.split)

text \<open>No claim, existing or to come, refers to the name the next provisioned volume will get.\<close>

definition auto_names_fresh :: "'j desired_world \<Rightarrow> bool" where
  "auto_names_fresh w =
     (\<forall>sc \<in> set (hm_values (storage_classes w)). hm_get (pvs w) (auto_pv_name sc) = None
        \<and> (\<forall>pvc \<in> set (hm_values (pvcs w)). pvc_bound_pv pvc \<noteq> Some (auto_pv_name sc)))"

lemma apply_pvc_claims_exclusive:
  assumes ok: "world_ok w" and ex: "claims_exclusive w" and fresh: "auto_names_fresh w"
    and ap: "apply_pvc Y r w = Ret (Inr m, w', es)"
  shows "claims_exclusive w'"
proof -
  have hm: "hm_ok (pvcs w)" "hm_ok (storage_classes w)" using ok by (auto dest: world_ok_keyed)
  from ap obtain cls req mode b w1 where bc: "bind_claim (res_ns r) (res_name r) cls req mode w = (b, w1, es)"
    and w': "w' = w1\<lparr>pvcs := hm_insert (res_name r)
       \<lparr>pvc_name = res_name r, pvc_namespace = res_ns r, pvc_storage_class = cls, pvc_requested = req,
        pvc_access_mode = mode, pvc_bound_pv = b\<rparr> (pvcs w1)\<rparr>"
    by (blast elim: apply_pvc_Ret)
  have fr: "pvcs w1 = pvcs w" using bind_claim_frame[OF bc] .
  have old: "pv_status pv = PVBound \<and> pv_bound_to pv = Some c"
    if "hm_get (pvcs w) c = Some pvc" "pvc_bound_pv pvc = Some p" "hm_get (pvs w) p = Some pv" for c pvc p pv
    using ex that unfolding claims_exclusive_alt[OF hm(1)] by blast
  have nofresh: "pvc_bound_pv pvc \<noteq> Some (auto_pv_name sc)"
    if "hm_get (pvcs w) c = Some pvc" "hm_get (storage_classes w) cls = Some sc" for c pvc sc
    using fresh that hm unfolding auto_names_fresh_def by (metis hm_values_get)
  have "hm_ok (pvcs w')" using hm by (simp add: w' fr)
  moreover from bind_claim_pvs[OF ok bc] have
    "\<forall>c pvc p pv. hm_get (pvcs w') c = Some pvc \<longrightarrow> pvc_bound_pv pvc = Some p \<longrightarrow> hm_get (pvs w') p = Some pv
        \<longrightarrow> pv_status pv = PVBound \<and> pv_bound_to pv = Some c"
    using old nofresh by (auto simp: w' fr split: if_splits)
  ultimately show ?thesis using claims_exclusive_alt by blast
qed


lemma first_container_Panic: "first_container dep = Panic \<longleftrightarrow> p_containers (pt_spec (ds_template dep)) = []"
  by (simp add: first_container_def split: list.split)

lemma first_arm_Panic:
  "apply_daemonset Y r w = Panic \<longleftrightarrow> (\<exists>dep. as_deployment Y r = Some dep \<and> p_containers (pt_spec (ds_template dep)) = [])"
  "apply_job Y r w = Panic \<longleftrightarrow> (\<exists>dep. as_deployment Y r = Some dep \<and> p_containers (pt_spec (ds_template dep)) = [])"
  "apply_cronjob Y r w = Panic \<longleftrightarrow> (\<exists>dep. as_deployment Y r = Some dep \<and> p_containers (pt_spec (ds_template dep)) = [])"
  by (auto simp: apply_daemonset_def apply_job_def apply_cronjob_def fail_def done_ok_def Let_def first_container_def
      split: option.splits list.splits)

lemma apply_resource_Panic_iff:
  "apply_resource Y J M r w = Panic \<longleftrightarrow>
     r_kind r \<in> {''DaemonSet'', ''Job'', ''CronJob''}
     \<and> (\<exists>dep. as_deployment Y r = Some dep \<and> p_containers (pt_spec (ds_template dep)) = [])"
  unfolding apply_resource_def apply_arms_def
  by (simp add: arm_panic_free first_arm_Panic fail_def)

lemma or_insert_all_get:
  "hm_get (or_insert_all kvs m) k = (case hm_get m k of Some v \<Rightarrow> Some v | None \<Rightarrow> map_of kvs k)"
proof (induction kvs arbitrary: m)
  case (Cons a kvs)
  obtain k' v' where a: "a = (k', v')" by (cases a)
  have "or_insert_all (a # kvs) m = or_insert_all kvs (hm_or_insert k' v' m)"
    by (simp add: or_insert_all_def a)
  with Cons.IH[of "hm_or_insert k' v' m"] show ?case by (auto simp: a split: option.splits)
qed (simp add: or_insert_all_def split: option.split)

lemma map_of_decoded: "map_of (map (\<lambda>(k, v). (k, f v)) kvs) k = map_option f (map_of kvs k)"
  by (induction kvs) auto

subsection \<open>Properties\<close>

text \<open>C2: \<open>apply\<close> is all-or-nothing: whatever the resource and whatever the machine answers, a call that
  returns keeps every stored resource under its own key in maps without duplicates, and a call that
  returns an error has not changed the desired world at all.\<close>

theorem apply_atomic:
  assumes "world_ok w" and "apply_resource Y J M r w = Ret (res, w', es)"
  shows "world_ok w' \<and> (\<forall>e. res = Inl e \<longrightarrow> w' = w)"
  using arm_okD[OF apply_resource_arm assms] .

definition idle_machine :: machine where
  "idle_machine = \<lparr>mc_containers = \<lambda>n. None, mc_neuropod = \<lambda>n i d m. Inl ''no neuropod''\<rparr>"

theorem apply_atomic_witness:
  "\<exists>m w' es. apply_resource doc_yaml doc_json idle_machine (doc_resource ''Pod'' ''web'' (DMap [(''image'', DStr ''nginx'')]))
      world_new = Ret (Inr m, w', es) \<and> world_ok w'"
proof -
  let ?r = "doc_resource ''Pod'' ''web'' (DMap [(''image'', DStr ''nginx'')])"
  have "\<exists>m w' es. apply_resource doc_yaml doc_json idle_machine ?r world_new = Ret (Inr m, w', es)"
    by (simp add: apply_resource_def apply_arms_def apply_deployment_def as_deployment_def doc_simps
        pod_as_deployment_def store_deployment_def rolling_from_def world_new_def Let_def)
  then show ?thesis using apply_atomic[OF world_ok_new] by blast
qed


text \<open>C4: applying a Deployment, ReplicaSet, StatefulSet or Pod with at least one container stores it under
  its name with the image, command and environment of its first container and the namespace of the
  resource, keeps every other deployment, and starts a rolling update exactly when a deployment of
  that name exists with a different, non-empty image; the rollout remembers the old and the new image.\<close>

theorem apply_workload_rollout:
  assumes "r_kind r \<in> {''Deployment'', ''ReplicaSet'', ''Pod'', ''StatefulSet''}"
    and "as_deployment Y r = Some dep" and "p_containers (pt_spec (ds_template dep)) = c # cs"
  shows "\<exists>m w' es d. apply_resource Y J M r w = Ret (Inr m, w', es)
    \<and> hm_get (deployments w') (res_name r) = Some d \<and> d_image d = c_image c \<and> d_command d = c_command c
    \<and> d_env d = env_strings (c_env c) \<and> d_namespace d = res_ns r \<and> d_replicas d = unwrap_or (ds_replicas dep) 1
    \<and> d_previous_image d = map_option d_image (hm_get (deployments w) (res_name r))
    \<and> (\<forall>n. n \<noteq> res_name r \<longrightarrow> hm_get (deployments w') n = hm_get (deployments w) n)
    \<and> hm_get (pending_rollouts w') (res_name r) =
        (case hm_get (deployments w) (res_name r) of
           Some old \<Rightarrow> if d_image old \<noteq> c_image c \<and> d_image old \<noteq> []
             then Some \<lparr>ro_old_image = d_image old, ro_new_image = c_image c, ro_total_replicas = d_replicas d,
                        ro_old_pods = [], ro_new_pods_created = 0\<rparr>
             else hm_get (pending_rollouts w) (res_name r)
         | None \<Rightarrow> hm_get (pending_rollouts w) (res_name r))"
proof -
  have "apply_resource Y J M r w = apply_deployment Y r w"
    using assms(1) by (auto simp: apply_resource_def apply_arms_def)
  moreover have "d_image (stored_of w r dep) = c_image c \<and> d_command (stored_of w r dep) = c_command c
      \<and> d_env (stored_of w r dep) = env_strings (c_env c) \<and> d_namespace (stored_of w r dep) = res_ns r
      \<and> d_replicas (stored_of w r dep) = unwrap_or (ds_replicas dep) 1
      \<and> d_previous_image (stored_of w r dep) = map_option d_image (hm_get (deployments w) (res_name r))"
    using assms(3) by (simp add: stored_of_def Let_def new_deployment_def stored_container_of_def)
  ultimately show ?thesis
    using apply_deployment_stores[OF assms(2,3), of w]
    by (auto simp: rolling_from_def rollout_of_def split: option.splits if_splits)
qed

theorem apply_workload_rollout_witness:
  "\<exists>m w' es. apply_resource doc_yaml doc_json idle_machine
      (doc_resource ''Deployment'' ''web'' (DMap [(''image'', DStr ''nginx:2'')]))
      (world_new\<lparr>deployments := [(''web'', sample_deployment ''web'' None)]\<rparr>) = Ret (Inr m, w', es)
    \<and> map_option ro_old_image (hm_get (pending_rollouts w') ''web'') = Some ''nginx''"
proof -
  let ?r = "doc_resource ''Deployment'' ''web'' (DMap [(''image'', DStr ''nginx:2'')])"
  have k: "r_kind ?r \<in> {''Deployment'', ''ReplicaSet'', ''Pod'', ''StatefulSet''}"
    and d: "as_deployment doc_yaml ?r = Some (doc_deployment (DMap [(''image'', DStr ''nginx:2'')]))"
    and c: "p_containers (pt_spec (ds_template (doc_deployment (DMap [(''image'', DStr ''nginx:2'')])))) = doc_container ''nginx:2'' # []"
    by (simp_all add: as_deployment_def doc_simps workload_kinds_def pod_as_deployment_def)
  have n: "res_name ?r = ''web''" by (simp add: res_name_def doc_resource_def)
  show ?thesis
    using apply_workload_rollout[OF k d c, of doc_json idle_machine
        "world_new\<lparr>deployments := [(''web'', sample_deployment ''web'' None)]\<rparr>"]
    unfolding n by (auto simp: hm_get_Cons sample_deployment_def doc_container_def)
qed

text \<open>
  Every host source mounted into a container of an applied workload is one of: a host path that
  passed the traversal check, a scratch directory of the workload, a marker for a config map, secret or
  per-ordinal claim, or the path of a stored persistent volume.\<close>

theorem applied_mounts_safe:
  assumes "apply_deployment Y r w = Ret (Inr m, w', es)"
  shows "\<exists>d. hm_get (deployments w') (res_name r) = Some d
    \<and> (\<forall>c \<in> set (d_containers d). \<forall>(host, mp) \<in> set (sc_volumes c). safe_source w (res_name r) host)"
proof -
  obtain dep c cs where dep: "as_deployment Y r = Some dep" and cs: "p_containers (pt_spec (ds_template dep)) = c # cs"
    using assms by (auto simp: apply_deployment_def Let_def split: option.splits list.splits)
  have "hm_get (deployments w') (res_name r) = Some (stored_of w r dep)"
    using apply_deployment_stores[OF dep cs, of w] assms by (auto split: option.splits)
  moreover have "\<forall>c \<in> set (d_containers (stored_of w r dep)). \<forall>(host, mp) \<in> set (sc_volumes c). safe_source w (res_name r) host"
    using mount_pairs_safe by (fastforce simp: stored_of_def Let_def new_deployment_def stored_container_of_def)
  ultimately show ?thesis by blast
qed


definition volume_world :: "doc desired_world" where
  "volume_world = world_new\<lparr>pvs := [(''v'', \<lparr>pv_name = ''v'', pv_capacity = ''1Gi'', pv_storage_class = ''local'',
     pv_host_path = ''/d'', pv_access_mode = ''ReadWriteOnce'', pv_status = PVAvailable, pv_bound_to = None\<rparr>)]\<rparr>"



definition viewer_world :: "doc desired_world" where
  "viewer_world = world_new\<lparr>rbac_roles := [(''viewer'', \<lparr>role_name = ''viewer'',
     role_rules = [\<lparr>rule_resources = [''pods''], rule_verbs = [''get''], rule_namespaces = [''*'']\<rparr>]\<rparr>)]\<rparr>"

definition viewer_binding :: "doc resource" where
  "viewer_binding = (doc_resource ''RoleBinding'' ''b'' (DMap []))
     \<lparr>r_role_ref := Some (DMap [(''name'', DStr ''viewer'')]),
      r_subjects := Some (DSeq [DMap [(''name'', DStr ''ann'')]])\<rparr>"


text \<open>
  A Secret whose \<open>data\<close> holds, under a key that \<open>stringData\<close> does not set, the padded base64 text of a
  UTF-8 value, as the program's own encoder writes it, is stored with the value itself, whatever the
  other kinds of keys hold.\<close>

theorem secret_data_roundtrip:
  assumes "map_of (mapping_pairs Y (r_data r)) k = Some (b64_bytes plain)" and "utf8_valid plain"
    and "k \<notin> fst ` set (mapping_pairs Y (r_string_data r))"
  shows "\<exists>m w' es se. apply_resource Y J M (r\<lparr>r_kind := ''Secret''\<rparr>) w = Ret (Inr m, w', es)
    \<and> hm_get (secrets w') (res_name r) = Some se \<and> hm_get (se_data se) k = Some plain"
proof -
  have "map_of (mapping_pairs Y (r_string_data r)) k = None"
    using assms(3) by (simp add: map_of_eq_None_iff)
  then have "hm_get (secret_data Y (r\<lparr>r_kind := ''Secret''\<rparr>)) k = Some plain"
    using assms(1) base64_decode_encode[OF assms(2)]
    by (simp add: secret_data_def or_insert_all_get map_of_decoded)
  then show ?thesis
    by (simp add: apply_resource_def apply_arms_def apply_secret_def Let_def done_ok_def res_name_def)
qed

end
