(* ===== verification/World_Props.thy ===== *)
theory World_Props
  imports Sample_Values
begin

text \<open>
  Properties of the desired world's queries and mutations: quotas against unbounded totals, deletion and its
  cascades, the event log and the published ports.
\<close>

subsection \<open>Lemmas for the properties\<close>

text \<open>The quota limits over unbounded arithmetic, and the condition under which the machine sums are exact.\<close>

definition total_pods :: "'j desired_world \<Rightarrow> string \<Rightarrow> nat" where
  "total_pods w ns = sum_list (map (\<lambda>d. unat (d_replicas d)) (ns_deployments w ns))"

definition total_mem :: "'j desired_world \<Rightarrow> string \<Rightarrow> nat" where
  "total_mem w ns = sum_list (map (\<lambda>d. unat (unwrap_or (Option.bind (d_resource_limits d) rl_mem_limit) 0)
      * unat (d_replicas d)) (ns_deployments w ns))"

definition total_in :: "('v \<Rightarrow> string) \<Rightarrow> (string, 'v) hmap \<Rightarrow> string \<Rightarrow> nat" where
  "total_in f m ns = length (filter (\<lambda>x. f x = ns) (hm_values m))"

definition sums_fit :: "'j desired_world \<Rightarrow> string \<Rightarrow> bool" where
  "sums_fit w ns = (total_pods w ns < 2 ^ 32 \<and> total_mem w ns < 2 ^ 64
     \<and> total_in svc_namespace (services w) ns < 2 ^ 32 \<and> total_in cm_namespace (configmaps w) ns < 2 ^ 32
     \<and> total_in se_namespace (secrets w) ns < 2 ^ 32)"

definition below :: "nat \<Rightarrow> 'a::len word option \<Rightarrow> bool" where
  "below n hard = (case hard of None \<Rightarrow> True | Some mx \<Rightarrow> n \<le> unat mx)"

definition within_quota :: "'j desired_world \<Rightarrow> string \<Rightarrow> stored_resource_quota \<Rightarrow> bool" where
  "within_quota w ns q =
     (below (total_pods w ns) (q_hard_pods q) \<and> below (total_mem w ns) (q_hard_memory q)
      \<and> (case q_hard_cpu q of None \<Rightarrow> True | Some mx \<Rightarrow> \<not> f_gt (desired_cpu w ns) mx)
      \<and> below (total_in svc_namespace (services w) ns) (q_hard_services q)
      \<and> below (total_in cm_namespace (configmaps w) ns) (q_hard_configmaps q)
      \<and> below (total_in se_namespace (secrets w) ns) (q_hard_secrets q))"

lemma unat_desired_pods: "total_pods w ns < 2 ^ 32 \<Longrightarrow> unat (desired_pods w ns) = total_pods w ns"
  using unat_sum_list_exact[of "map d_replicas (ns_deployments w ns)"]
  by (simp add: desired_pods_def total_pods_def comp_def)

lemma unat_mult_sum:
  fixes a b :: "'d \<Rightarrow> u64"
  assumes "sum_list (map (\<lambda>d. unat (a d) * unat (b d)) xs) < 2 ^ 64"
  shows "unat (sum_list (map (\<lambda>d. a d * b d) xs)) = sum_list (map (\<lambda>d. unat (a d) * unat (b d)) xs)"
  using assms
proof (induction xs)
  case (Cons x xs)
  then have "unat (a x * b x) = unat (a x) * unat (b x)" by (simp add: unat_word_ariths)
  with Cons show ?case by (simp add: unat_word_ariths)
qed simp

lemma unat_ucast_u64 [simp]: "unat (ucast (x :: u32) :: u64) = unat x"
  using unat_bound[of x] by (simp add: unsigned_ucast_eq take_bit_nat_eq_self)

lemma unat_desired_mem: "total_mem w ns < 2 ^ 64 \<Longrightarrow> unat (desired_mem w ns) = total_mem w ns"
  using unat_mult_sum[of "\<lambda>d. unwrap_or (Option.bind (d_resource_limits d) rl_mem_limit) 0"
      "\<lambda>d. ucast (d_replicas d)" "ns_deployments w ns"]
  by (simp add: desired_mem_def total_mem_def)

lemma unat_count_in: "total_in f m ns < 2 ^ 32 \<Longrightarrow> unat (count_in f m ns) = total_in f m ns"
  by (simp add: count_in_def total_in_def unat_of_nat)

lemma over_None_iff: "over cur hard q what = None \<longleftrightarrow> below (unat cur) hard"
  by (auto simp: over_def below_def word_less_nat_alt split: option.splits)

lemma opt_or_None_iff: "opt_or a b = None \<longleftrightarrow> a = None \<and> b = None"
  by (cases a) auto

lemma quota_violation_None_iff:
  assumes "sums_fit w ns"
  shows "quota_violation w ns q = None \<longleftrightarrow> within_quota w ns q"
proof -
  have mem: "(case q_hard_memory q of None \<Rightarrow> None
       | Some mx \<Rightarrow> if mx < desired_mem w ns then Some (s mx) else None) = None
       \<longleftrightarrow> below (unat (desired_mem w ns)) (q_hard_memory q)" for s :: "u64 \<Rightarrow> string"
    by (auto simp: below_def word_less_nat_alt split: option.splits)
  have cpu: "(case q_hard_cpu q of None \<Rightarrow> None
       | Some mx \<Rightarrow> if f_gt (desired_cpu w ns) mx then Some (s mx) else None) = None
       \<longleftrightarrow> (case q_hard_cpu q of None \<Rightarrow> True | Some mx \<Rightarrow> \<not> f_gt (desired_cpu w ns) mx)" for s :: "f32 \<Rightarrow> string"
    by (auto split: option.splits)
  show ?thesis
    using assms unfolding quota_violation_def within_quota_def Let_def opt_or_None_iff over_None_iff mem cpu
    by (simp add: sums_fit_def unat_desired_pods unat_desired_mem unat_count_in) blast
qed

lemma bump_event_Some_mem:
  "bump_event now ob re msg es = Some es' \<Longrightarrow>
     \<exists>e \<in> set es. e_object e = ob \<and> e_reason e = re
       \<and> e\<lparr>e_count := e_count e + 1, e_last_seen := show_word now, e_message := msg\<rparr> \<in> set es'"
  by (induction now ob re msg es arbitrary: es' rule: bump_event.induct) (fastforce split: if_splits)+

subsection \<open>Properties\<close>

text \<open>
  \<open>check_quota\<close> lets a namespace through exactly when every quota of that namespace is
  respected by the true totals of pods, memory, services, config maps and secrets (and the CPU sum in
  single precision), as long as those totals fit the integer types the sums are kept in.\<close>

theorem check_quota_exact:
  assumes "sums_fit w ns"
  shows "check_quota w ns n = Inr () \<longleftrightarrow>
    (\<forall>q \<in> set (hm_values (resource_quotas w)). q_namespace q = ns \<longrightarrow> within_quota w ns q)"
  using quota_violation_None_iff[OF assms] by (simp add: check_quota_ok_iff)

text \<open>C18: deleting a custom resource removes exactly the deployments it owns: every other deployment is
  kept as it was, and the resource itself is gone. The answer says whether the resource existed.\<close>

theorem delete_cascade_exact:
  assumes "world_ok w" and "hm_contains (custom_resources w) cr"
    and "delete_resource ''customresources'' cr w = (b, w', es)"
  shows "b \<and> hm_get (custom_resources w') cr = None \<and> es = [] \<and> (\<forall>n. hm_get (deployments w') n =
    (case hm_get (deployments w) n of None \<Rightarrow> None
     | Some d \<Rightarrow> if d_owner_ref d = Some cr then None else Some d))"
proof -
  have del: "delete_custom_resource cr w = (b, w', es)"
    using assms(3) by (simp add: delete_resource_def delete_arms_def)
  then have "b \<and> hm_get (custom_resources w') cr = None \<and> es = []"
    using assms(2) by (auto simp: delete_custom_resource_def Let_def)
  then show ?thesis
    using delete_custom_resource_deployments[OF world_ok_keyed(1)[OF assms(1)] assms(2) del] by simp
qed

theorem delete_cascade_exact_witness:
  "(let w = (world_new :: unit desired_world)
        \<lparr>deployments := [(''db-primary'', sample_deployment ''db-primary'' (Some ''db'')),
                         (''web'', sample_deployment ''web'' None)],
         custom_resources := [(''db'', \<lparr>cr_name = ''db'', cr_kind = ''Database'', cr_namespace = ''default'',
           cr_spec = (), cr_status = CRRunning\<rparr>)]\<rparr>;
        w' = fst (snd (delete_resource ''customresources'' ''db'' w))
    in hm_get (deployments w') ''db-primary'' = None \<and> hm_get (deployments w') ''web'' = Some (sample_deployment ''web'' None))"
proof -
  let ?w = "(world_new :: unit desired_world)
        \<lparr>deployments := [(''db-primary'', sample_deployment ''db-primary'' (Some ''db'')),
                         (''web'', sample_deployment ''web'' None)],
         custom_resources := [(''db'', \<lparr>cr_name = ''db'', cr_kind = ''Database'', cr_namespace = ''default'',
           cr_spec = (), cr_status = CRRunning\<rparr>)]\<rparr>"
  obtain b w' es where r: "delete_resource ''customresources'' ''db'' ?w = (b, w', es)"
    by (metis prod.collapse)
  have ok: "world_ok ?w" and c: "hm_contains (custom_resources ?w) ''db''"
    by (simp_all add: world_ok_def world_new_def keyed_def hm_ok_def sample_deployment_def hm_contains_def hm_get_Cons)
  show ?thesis
    using delete_cascade_exact[OF ok c r] unfolding Let_def r fst_conv snd_conv
    by (simp add: hm_get_Cons sample_deployment_def)
qed

text \<open>
  Recording an event keeps the log within two hundred entries and one entry per object and
  reason, and the log then holds the message under its object and reason, with a count one above
  the entry it replaced or one when it is new.\<close>

theorem record_event_log:
  assumes "world_ok w"
  shows "length (events (record_event now k ob re msg ty w)) \<le> 200
    \<and> distinct (map (\<lambda>e. (e_object e, e_reason e)) (events (record_event now k ob re msg ty w)))
    \<and> (\<exists>e \<in> set (events (record_event now k ob re msg ty w)).
         e_object e = ob \<and> e_reason e = re \<and> e_message e = msg \<and> e_last_seen e = show_word now
         \<and> ((\<exists>e0 \<in> set (events w). e_object e0 = ob \<and> e_reason e0 = re \<and> e_count e = e_count e0 + 1)
            \<or> e_count e = 1 \<and> (ob, re) \<notin> (\<lambda>e. (e_object e, e_reason e)) ` set (events w)))"
    (is "?len \<and> ?dist \<and> ?mem")
proof -
  have b: "length (events w) \<le> 200" "distinct (map (\<lambda>e. (e_object e, e_reason e)) (events w))"
    using assms by (simp_all add: world_ok_def)
  have ?mem
  proof (cases "bump_event now ob re msg (events w)")
    case None
    then have new: "(ob, re) \<notin> (\<lambda>e. (e_object e, e_reason e)) ` set (events w)"
      by (simp add: bump_event_None_iff)
    let ?e = "\<lparr>e_kind = k, e_object = ob, e_reason = re, e_message = msg, e_event_type = ty, e_count = 1,
      e_first_seen = show_word now, e_last_seen = show_word now\<rparr>"
    have "?e \<in> set (events (record_event now k ob re msg ty w))"
      using None b(1) by (simp add: record_event_def Let_def)
    with new show ?thesis by (intro bexI[of _ ?e]) auto
  next
    case (Some es)
    from bump_event_Some_mem[OF Some] obtain e where "e \<in> set (events w)" "e_object e = ob" "e_reason e = re"
      and "e\<lparr>e_count := e_count e + 1, e_last_seen := show_word now, e_message := msg\<rparr> \<in> set es"
      by blast
    with Some show ?thesis
      by (intro bexI[of _ "e\<lparr>e_count := e_count e + 1, e_last_seen := show_word now, e_message := msg\<rparr>"])
        (auto simp: record_event_def)
  qed
  then show ?thesis using record_event_bounds[OF b] by blast
qed

text \<open>
  The ports published for a deployment are the target ports of the NodePort and LoadBalancer
  services that select it, sorted and without duplicates.\<close>

theorem nodeport_publish_ports_exact:
  "sorted (nodeport_publish_ports w dep) \<and> distinct (nodeport_publish_ports w dep)
   \<and> set (nodeport_publish_ports w dep) =
       {p. \<exists>s \<in> set (hm_values (services w)). svc_service_type s \<in> {''NodePort'', ''LoadBalancer''}
          \<and> hm_get (svc_selector s) ''app'' = Some dep \<and> p \<in> sp_target_port ` set (svc_ports s)}"
  using nodeport_publish_ports_sorted[of w dep] nodeport_publish_ports_set[of _ w dep] by auto

text \<open>
  Deleting a claim releases its volume. The claim is gone; the volume it was bound to is no longer
  bound to any claim, and it is kept as Released unless its storage class says Delete, in which case
  it is removed and its directory is the one directory removed. No other volume changes.\<close>

theorem delete_pvc_releases:
  assumes "hm_get (pvcs w) n = Some c" and "pvc_bound_pv c = Some v" and "hm_get (pvs w) v = Some pv"
    and "delete_resource ''pvcs'' n w = (b, w', es)"
  defines "reclaim \<equiv> (\<exists>sc. hm_get (storage_classes w) (pv_storage_class pv) = Some sc \<and> scl_reclaim_policy sc = ''Delete'')"
  shows "b \<and> hm_get (pvcs w') n = None
    \<and> hm_get (pvs w') v = (if reclaim then None else Some (pv\<lparr>pv_status := PVReleased, pv_bound_to := None\<rparr>))
    \<and> es = (if reclaim then [RemoveDirAll (pv_host_path pv)] else [])
    \<and> (\<forall>u. u \<noteq> v \<longrightarrow> hm_get (pvs w') u = hm_get (pvs w) u)"
proof -
  have "delete_pvc n w = (b, w', es)" using assms(4) by (simp add: delete_resource_def delete_arms_def)
  with assms(1-3) show ?thesis
    by (auto simp: delete_pvc_def Let_def reclaim_def split: option.splits if_splits)
qed

end
