(* ===== verification/Operators.thy ===== *)
theory Operators
  imports Apply_Policy Sample_Values
begin

text \<open>
  Operators, \<^verbatim>\<open>src/src/reconcile.rs\<close>: \<open>reconcile_operators\<close> walks the custom resources, provisions the
  components of a pending one as owned deployments, promotes a provisioned one and resets one whose
  component disappeared; \<open>safe_exec_hook\<close> runs a hook without a shell. Parameters: \<open>str::to_uppercase\<close>
  (its Unicode tables) and the process the hook starts, whose trimmed output or error text comes back.
\<close>

subsection \<open>Hooks\<close>

text \<open>\<open>split_whitespace\<close>: the non-empty runs between white space.\<close>

function split_ws :: "string \<Rightarrow> string \<Rightarrow> string list" where
  "split_ws acc [] = (if acc = [] then [] else [acc])"
| "split_ws acc (c # cs) =
     (case strip_any white_spaces (c # cs) of
        Some rest \<Rightarrow> (if acc = [] then [] else [acc]) @ split_ws [] rest
      | None \<Rightarrow> split_ws (acc @ [c]) cs)"
  by pat_completeness auto
termination
  by (relation "measure (\<lambda>(acc, s). length s)") (auto dest: strip_any_shorter)

definition unsafe_hook :: "string \<Rightarrow> bool" where
  "unsafe_hook hook =
     (str_contains hook ''..'' \<or> str_contains hook [CHR 0x60] \<or> str_contains hook ''$('' \<or> str_contains hook '';''
      \<or> str_contains hook ''|'' \<or> str_contains hook ''&'')"

definition safe_exec_hook ::
  "(string \<Rightarrow> string list \<Rightarrow> string result) \<Rightarrow> string \<Rightarrow> string \<times> effect list" where
  "safe_exec_hook run hook =
     (case split_ws [] hook of
        [] \<Rightarrow> ([], [])
      | prog # args \<Rightarrow>
          if unsafe_hook hook then (''BLOCKED: unsafe characters in hook: '' @ hook, [])
          else ((case run prog args of Inr out \<Rightarrow> trim out | Inl e \<Rightarrow> ''hook error: '' @ e), [RunCommand prog args]))"

subsection \<open>Provisioning\<close>

definition component_name :: "string \<Rightarrow> operator_component \<Rightarrow> string" where
  "component_name cr c = cr @ ''-'' @ oc_role c"

definition cr_replicas :: "'j json_ops \<Rightarrow> 'j \<Rightarrow> u32" where
  "cr_replicas J spec = ucast (unwrap_or (Option.bind (jv_get J spec ''replicas'') (jv_as_u64 J)) 0)"

definition component_replicas :: "u32 \<Rightarrow> operator_component \<Rightarrow> u32" where
  "component_replicas crr c =
     (let replicas = (if crr > 0 \<and> oc_role c = ''replica'' then (if crr = 0 then 0 else crr - 1) else oc_replicas c)
      in if oc_role c = ''primary'' then 1 else replicas)"

definition component_env :: "'j json_ops \<Rightarrow> (string \<Rightarrow> string) \<Rightarrow> 'j \<Rightarrow> operator_component \<Rightarrow> string list" where
  "component_env J upper spec c =
     oc_env c @ (case jv_as_object J spec of
                   None \<Rightarrow> []
                 | Some obj \<Rightarrow> filter_map (\<lambda>(k, v). map_option (\<lambda>s. ''CR_'' @ upper k @ ''='' @ s) (jv_as_str J v)) obj)"

definition component_deployment ::
  "'j json_ops \<Rightarrow> (string \<Rightarrow> string) \<Rightarrow> string \<Rightarrow> 'j custom_resource \<Rightarrow> operator_component \<Rightarrow> stored_deployment" where
  "component_deployment J upper cr_n cr c =
     (let env = component_env J upper (cr_spec cr) c
      in \<lparr>d_name = component_name cr_n c, d_namespace = cr_namespace cr,
          d_replicas = component_replicas (cr_replicas J (cr_spec cr)) c, d_init_containers = [],
          d_containers = [\<lparr>sc_name = oc_role c, sc_image = oc_image c, sc_command = None, sc_env = env,
             sc_env_from_configmaps = [], sc_env_from_secrets = [], sc_volumes = [], sc_liveness_probe = None,
             sc_readiness_probe = None, sc_startup_probe = None\<rparr>],
          d_image = oc_image c, d_previous_image = None, d_command = None, d_env = env,
          d_resource_limits = None, d_strategy = None, d_pause_after_idle = None, d_paused = False,
          d_idle_since = None, d_stateful = False, d_owner_ref = Some cr_n\<rparr>)"

definition check_mark :: string where
  "check_mark = [CHR 0xE2, CHR 0x9C, CHR 0x93]"

definition component_log :: "u32 \<Rightarrow> operator_component \<Rightarrow> string" where
  "component_log crr c =
     ''    ['' @ oc_role c @ ''] '' @ oc_image c @ '' '' @ [CHR 0xC3, CHR 0x97] @ '' ''
     @ show_word (component_replicas crr c) @ '' '' @ check_mark"

type_synonym 'j op_state = "'j desired_world \<times> string list \<times> effect list"

definition set_cr_status :: "string \<Rightarrow> cr_status \<Rightarrow> 'j desired_world \<Rightarrow> 'j desired_world" where
  "set_cr_status n st w =
     w\<lparr>custom_resources := hm_modify n (\<lambda>cr. cr\<lparr>cr_status := st\<rparr>) (custom_resources w)\<rparr>"

definition provision_cr ::
  "'j json_ops \<Rightarrow> (string \<Rightarrow> string) \<Rightarrow> (string \<Rightarrow> string list \<Rightarrow> string result)
   \<Rightarrow> string \<Rightarrow> 'j custom_resource \<Rightarrow> operator \<Rightarrow> 'j op_state \<Rightarrow> 'j op_state" where
  "provision_cr J upper run n cr op s =
     (let (w, lg, es) = s;
          comps = op_provision op;
          w1 = w\<lparr>deployments := fold (\<lambda>c m. hm_insert (component_name n c) (component_deployment J upper n cr c) m)
                   comps (deployments w)\<rparr>;
          lg1 = lg @ [''  [operator/'' @ op_name op @ ''] provisioning '' @ cr_kind cr @ ''/'' @ n @ ''...'']
                @ map (component_log (cr_replicas J (cr_spec cr))) comps;
          (out, hes) = (case hm_get (op_hooks op) ''on_create'' of Some h \<Rightarrow> safe_exec_hook run h | None \<Rightarrow> ([], []));
          lg2 = (if out = [] then lg1 else lg1 @ [''    [hook/on_create] '' @ out])
      in (set_cr_status n CRProvisioning w1, lg2, es @ hes))"

definition check_cr :: "string \<Rightarrow> 'j custom_resource \<Rightarrow> operator \<Rightarrow> 'j op_state \<Rightarrow> 'j op_state" where
  "check_cr n cr op s =
     (let (w, lg, es) = s
      in (case find (\<lambda>c. \<not> hm_contains (deployments w) (component_name n c)) (op_provision op) of
            Some c \<Rightarrow>
              (set_cr_status n CRPending w,
               lg @ [''  [operator/'' @ op_name op @ ''] '' @ cr_kind cr @ ''/'' @ n @ '': component ''
                     @ component_name n c @ '' MISSING '' @ em_dash @ '' re-provisioning''], es)
          | None \<Rightarrow>
              if cr_status cr = CRProvisioning
              then (set_cr_status n CRRunning w,
                    lg @ [''  [operator/'' @ op_name op @ ''] '' @ cr_kind cr @ ''/'' @ n @ '': promoted to Running '' @ check_mark],
                    es)
              else s))"

definition reconcile_cr ::
  "'j json_ops \<Rightarrow> (string \<Rightarrow> string) \<Rightarrow> (string \<Rightarrow> string list \<Rightarrow> string result)
   \<Rightarrow> string \<Rightarrow> 'j op_state \<Rightarrow> 'j op_state rust" where
  "reconcile_cr J upper run n s =
     (case hm_get (custom_resources (fst s)) n of
        None \<Rightarrow> Panic
      | Some cr \<Rightarrow>
          Ret (case find (\<lambda>p. op_custom_kind p = cr_kind cr) (hm_values (operators (fst s))) of
                 None \<Rightarrow> (fst s, fst (snd s) @ [''  [CR] '' @ cr_kind cr @ ''/'' @ n
                           @ '': no operator registered for kind '' @ quoted (cr_kind cr)], snd (snd s))
               | Some p \<Rightarrow>
                   if cr_status cr = CRRunning \<or> cr_status cr = CRProvisioning then check_cr n cr p s
                   else if cr_status cr \<noteq> CRPending then s
                   else provision_cr J upper run n cr p s))"

fun reconcile_crs ::
  "'j json_ops \<Rightarrow> (string \<Rightarrow> string) \<Rightarrow> (string \<Rightarrow> string list \<Rightarrow> string result)
   \<Rightarrow> string list \<Rightarrow> 'j op_state \<Rightarrow> 'j op_state rust" where
  "reconcile_crs J upper run [] s = Ret s"
| "reconcile_crs J upper run (n # ns) s = rust_bind (reconcile_cr J upper run n s) (reconcile_crs J upper run ns)"

definition reconcile_operators ::
  "'j json_ops \<Rightarrow> (string \<Rightarrow> string) \<Rightarrow> (string \<Rightarrow> string list \<Rightarrow> string result)
   \<Rightarrow> 'j op_state \<Rightarrow> 'j op_state rust" where
  "reconcile_operators J upper run s = reconcile_crs J upper run (hm_keys (custom_resources (fst s))) s"

subsection \<open>Lemmas\<close>

lemma set_cr_status_get [simp]:
  "hm_get (custom_resources (set_cr_status n st w)) k =
     (if k = n then map_option (\<lambda>cr. cr\<lparr>cr_status := st\<rparr>) (hm_get (custom_resources w) n) else hm_get (custom_resources w) k)"
  "deployments (set_cr_status n st w) = deployments w" "operators (set_cr_status n st w) = operators w"
  by (simp_all add: set_cr_status_def)

lemma set_cr_status_ok: "world_ok w \<Longrightarrow> world_ok (set_cr_status n st w)"
  by (simp add: set_cr_status_def world_ok_keyed keyed_modify)

lemma component_deployment_simps [simp]:
  "d_name (component_deployment J upper n cr c) = component_name n c"
  "d_owner_ref (component_deployment J upper n cr c) = Some n"
  by (simp_all add: component_deployment_def Let_def)

lemma component_name_inj: "component_name n c = component_name n c' \<longleftrightarrow> oc_role c = oc_role c'"
  by (simp add: component_name_def)

lemma insert_components_keyed:
  "keyed d_name m \<Longrightarrow>
     keyed d_name (fold (\<lambda>c m. hm_insert (component_name n c) (component_deployment J upper n cr c) m) comps m)"
  by (induction comps arbitrary: m) auto

lemma find_append:
  "find P (xs @ ys) = (case find P xs of Some x \<Rightarrow> Some x | None \<Rightarrow> find P ys)"
  by (induction xs) auto

lemma insert_components_get:
  "hm_get (fold (\<lambda>c m. hm_insert (component_name n c) (component_deployment J upper n cr c) m) comps m) k =
     (case find (\<lambda>c. component_name n c = k) (rev comps) of
        Some c \<Rightarrow> Some (component_deployment J upper n cr c)
      | None \<Rightarrow> hm_get m k)"
proof (induction comps arbitrary: m)
  case (Cons c comps)
  then show ?case by (auto simp: find_append split: option.splits)
qed simp

lemma reconcile_cr_keys:
  "reconcile_cr J upper run n s = Ret s' \<Longrightarrow> hm_keys (custom_resources (fst s')) = hm_keys (custom_resources (fst s))"
  by (cases s)
    (auto simp: reconcile_cr_def check_cr_def provision_cr_def set_cr_status_def hm_keys_def hm_modify_def split_def Let_def
      split: option.splits if_splits)

lemma reconcile_cr_ok:
  assumes "world_ok (fst s)" and "reconcile_cr J upper run n s = Ret s'"
  shows "world_ok (fst s')"
  using assms
  by (cases s)
    (auto simp: reconcile_cr_def check_cr_def provision_cr_def split_def Let_def world_ok_keyed insert_components_keyed
      split: option.splits if_splits intro!: set_cr_status_ok)

lemma reconcile_cr_total:
  "n \<in> set (hm_keys (custom_resources (fst s))) \<Longrightarrow> \<exists>s'. reconcile_cr J upper run n s = Ret s'"
proof -
  assume "n \<in> set (hm_keys (custom_resources (fst s)))"
  then obtain cr where "hm_get (custom_resources (fst s)) n = Some cr"
    by (auto simp: hm_keys_def hm_get_def dest: weak_map_of_SomeI)
  then show ?thesis by (simp add: reconcile_cr_def del: split_paired_Ex)
qed

lemma reconcile_crs_total:
  "set ns \<subseteq> set (hm_keys (custom_resources (fst s))) \<Longrightarrow> \<exists>s'. reconcile_crs J upper run ns s = Ret s'"
proof (induction ns arbitrary: s)
  case (Cons n ns)
  have "n \<in> set (hm_keys (custom_resources (fst s)))" using Cons.prems by simp
  then obtain s1 where s1: "reconcile_cr J upper run n s = Ret s1"
    using reconcile_cr_total by blast
  with Cons.prems have "set ns \<subseteq> set (hm_keys (custom_resources (fst s1)))"
    by (simp add: reconcile_cr_keys[OF s1])
  from Cons.IH[OF this] s1 show ?case by (simp del: split_paired_Ex)
qed (simp del: split_paired_Ex)

lemma reconcile_crs_ok:
  "world_ok (fst s) \<Longrightarrow> reconcile_crs J upper run ns s = Ret s' \<Longrightarrow> world_ok (fst s')"
  by (induction ns arbitrary: s) (auto simp: rust_bind_eq_Ret dest: reconcile_cr_ok)

text \<open>One pass over a pending resource.\<close>

lemma provision_cr_deployments:
  "hm_get (deployments (fst (provision_cr J upper run n cr p s))) k =
     (case find (\<lambda>c. component_name n c = k) (rev (op_provision p)) of
        Some c \<Rightarrow> Some (component_deployment J upper n cr c)
      | None \<Rightarrow> hm_get (deployments (fst s)) k)"
  by (simp add: provision_cr_def Let_def split_def insert_components_get)

lemma provision_cr_status:
  "hm_get (custom_resources (fst (provision_cr J upper run n cr p s))) k =
     (if k = n then map_option (\<lambda>cr. cr\<lparr>cr_status := CRProvisioning\<rparr>) (hm_get (custom_resources (fst s)) n)
      else hm_get (custom_resources (fst s)) k)"
  by (simp add: provision_cr_def Let_def split_def)

lemma provisioned_components:
  assumes "c \<in> set (op_provision p)"
  shows "\<exists>d. hm_get (deployments (fst (provision_cr J upper run n cr p s))) (component_name n c) = Some d
    \<and> d_owner_ref d = Some n \<and> d_name d = component_name n c"
proof -
  obtain c' where "find (\<lambda>x. component_name n x = component_name n c) (rev (op_provision p)) = Some c'"
    using assms find_None_iff_all[of "\<lambda>x. component_name n x = component_name n c" "rev (op_provision p)"]
    by (cases "find (\<lambda>x. component_name n x = component_name n c) (rev (op_provision p))") auto
  moreover from this have "component_name n c' = component_name n c" by (auto dest: find_Some_iff_mem)
  ultimately show ?thesis by (simp add: provision_cr_deployments)
qed

text \<open>The hook guard: a hook that runs names no shell operator and no parent directory.\<close>

lemma safe_exec_hook_runs:
  "RunCommand prog args \<in> set (snd (safe_exec_hook run hook)) \<Longrightarrow>
     \<not> unsafe_hook hook \<and> split_ws [] hook = prog # args"
  by (auto simp: safe_exec_hook_def split: list.splits if_splits)

subsection \<open>Progress of a custom resource\<close>

text \<open>
  How far a custom resource is from Running: 0 when it runs with all components stored, 1 when it is being
  provisioned with all components stored, 2 when pending, 3 when a component is missing. A failed resource,
  or one whose kind no operator handles, has no rank.
\<close>

definition cr_rank :: "'j desired_world \<Rightarrow> string \<Rightarrow> nat option" where
  "cr_rank w n =
     (case hm_get (custom_resources w) n of None \<Rightarrow> None
      | Some cr \<Rightarrow>
          (case find (\<lambda>p. op_custom_kind p = cr_kind cr) (hm_values (operators w)) of None \<Rightarrow> None
           | Some p \<Rightarrow>
               (let all = (\<forall>c \<in> set (op_provision p). hm_contains (deployments w) (component_name n c))
                in (case cr_status cr of
                      CRPending \<Rightarrow> Some 2
                    | CRProvisioning \<Rightarrow> Some (if all then 1 else 3)
                    | CRRunning \<Rightarrow> Some (if all then 0 else 3)
                    | CRFailed \<Rightarrow> None))))"

text \<open>What a pass leaves alone for a resource it does not handle: its record, the operators, and the presence
  of deployments.\<close>

definition grows :: "string \<Rightarrow> 'j desired_world \<Rightarrow> 'j desired_world \<Rightarrow> bool" where
  "grows n w w' = (hm_get (custom_resources w') n = hm_get (custom_resources w) n \<and> operators w' = operators w
     \<and> (\<forall>k. hm_contains (deployments w) k \<longrightarrow> hm_contains (deployments w') k))"

lemma rank_grows:
  assumes "grows n w w'" and "cr_rank w n = Some k"
  shows "\<exists>k'. cr_rank w' n = Some k' \<and> k' \<le> k"
  using assms by (auto simp: grows_def cr_rank_def Let_def split: option.splits cr_status.splits if_splits)

lemma provision_cr_grows:
  "operators (fst (provision_cr J upper run m cr p s)) = operators (fst s)"
  "hm_contains (deployments (fst s)) k \<Longrightarrow> hm_contains (deployments (fst (provision_cr J upper run m cr p s))) k"
  by (simp add: provision_cr_def split_def Let_def)
    (auto simp: hm_contains_def provision_cr_deployments split: option.splits)

lemma check_cr_frame:
  "operators (fst (check_cr m cr p s)) = operators (fst s)"
  "deployments (fst (check_cr m cr p s)) = deployments (fst s)"
  "n \<noteq> m \<Longrightarrow> hm_get (custom_resources (fst (check_cr m cr p s))) n = hm_get (custom_resources (fst s)) n"
  by (auto simp: check_cr_def split_def Let_def split: option.split)

lemma reconcile_other_grows:
  assumes "reconcile_cr J upper run m s = Ret s'" and "n \<noteq> m"
  shows "grows n (fst s) (fst s')"
  using assms
  by (auto simp: reconcile_cr_def grows_def check_cr_frame provision_cr_grows provision_cr_status split: option.splits if_splits)

lemma reconcile_own_rank:
  assumes "reconcile_cr J upper run n s = Ret s'" and "cr_rank (fst s) n = Some k"
  shows "\<exists>k'. cr_rank (fst s') n = Some k' \<and> k' \<le> k - 1"
proof -
  obtain w lg es where s: "s = (w, lg, es)" by (cases s)
  from assms(2) obtain cr p where cr: "hm_get (custom_resources w) n = Some cr"
    and p: "find (\<lambda>p. op_custom_kind p = cr_kind cr) (hm_values (operators w)) = Some p"
    and nf: "cr_status cr \<noteq> CRFailed"
    by (auto simp: cr_rank_def s Let_def split: option.splits cr_status.splits)
  show ?thesis
  proof (cases "cr_status cr = CRPending")
    case True
    then have s': "s' = provision_cr J upper run n cr p s" using assms(1) cr p by (simp add: reconcile_cr_def s)
    have "hm_contains (deployments (fst s')) (component_name n c)" if "c \<in> set (op_provision p)" for c
      using provisioned_components[OF that, of J upper run n cr s] by (auto simp: s' hm_contains_def)
    moreover have "hm_get (custom_resources (fst s')) n = Some (cr\<lparr>cr_status := CRProvisioning\<rparr>)"
      using cr by (simp add: s' provision_cr_status s)
    moreover have "operators (fst s') = operators w" by (simp add: s' provision_cr_grows s)
    ultimately show ?thesis using p True assms(2) cr by (simp add: cr_rank_def s)
  next
    case False
    with nf have st: "cr_status cr = CRRunning \<or> cr_status cr = CRProvisioning" by (cases "cr_status cr") auto
    then have s': "s' = check_cr n cr p s" using assms(1) cr p by (auto simp: reconcile_cr_def s)
    show ?thesis
    proof (cases "find (\<lambda>c. \<not> hm_contains (deployments w) (component_name n c)) (op_provision p)")
      case None
      then have all: "\<forall>c \<in> set (op_provision p). hm_contains (deployments w) (component_name n c)"
        by (simp add: find_None_iff_all)
      then show ?thesis using st cr p None assms(2)
        by (auto simp: s' s check_cr_def cr_rank_def Let_def split: if_splits)
    next
      case (Some c)
      then have "\<not> (\<forall>c \<in> set (op_provision p). hm_contains (deployments w) (component_name n c))"
        using find_Some_iff_mem[OF Some] by blast
      then have "k = 3" using st cr p assms(2) by (auto simp: cr_rank_def s split: if_splits)
      then show ?thesis using Some cr p by (simp add: s' s check_cr_def cr_rank_def)
    qed
  qed
qed

lemma reconcile_crs_rank:
  "reconcile_crs J upper run ns s = Ret s' \<Longrightarrow> cr_rank (fst s) n = Some k \<Longrightarrow>
     \<exists>k'. cr_rank (fst s') n = Some k' \<and> k' \<le> (if n \<in> set ns then k - 1 else k)"
proof (induction ns arbitrary: s k)
  case (Cons m ns)
  then obtain s1 where s1: "reconcile_cr J upper run m s = Ret s1" "reconcile_crs J upper run ns s1 = Ret s'"
    by (auto simp: rust_bind_eq_Ret)
  have "\<exists>k1. cr_rank (fst s1) n = Some k1 \<and> k1 \<le> (if n = m then k - 1 else k)"
    using reconcile_own_rank[of J upper run n s s1 k] rank_grows[OF reconcile_other_grows[OF s1(1)]] s1(1) Cons.prems(2)
    by (cases "n = m") auto
  then obtain k1 where k1: "cr_rank (fst s1) n = Some k1" "k1 \<le> (if n = m then k - 1 else k)" by blast
  obtain k' where k': "cr_rank (fst s') n = Some k'" "k' \<le> (if n \<in> set ns then k1 - 1 else k1)"
    using Cons.IH[OF s1(2) k1(1)] by blast
  have "k' \<le> (if n \<in> set (m # ns) then k - 1 else k)" using k1(2) k'(2) by (auto split: if_splits)
  with k'(1) show ?case by blast
qed simp

fun reconcile_passes ::
  "'j json_ops \<Rightarrow> (string \<Rightarrow> string) \<Rightarrow> (string \<Rightarrow> string list \<Rightarrow> string result) \<Rightarrow> nat \<Rightarrow> 'j op_state \<Rightarrow> 'j op_state rust" where
  "reconcile_passes J upper run 0 s = Ret s"
| "reconcile_passes J upper run (Suc k) s =
     rust_bind (reconcile_operators J upper run s) (reconcile_passes J upper run k)"

lemma reconcile_operators_total: "\<exists>s'. reconcile_operators J upper run s = Ret s'"
  unfolding reconcile_operators_def by (rule reconcile_crs_total) simp

lemma reconcile_passes_rank:
  "cr_rank (fst s) n = Some k \<Longrightarrow>
     \<exists>s' k'. reconcile_passes J upper run j s = Ret s' \<and> cr_rank (fst s') n = Some k' \<and> k' \<le> k - j"
proof (induction j arbitrary: s k)
  case (Suc j)
  obtain s1 where s1: "reconcile_operators J upper run s = Ret s1" using reconcile_operators_total by blast
  have "n \<in> set (hm_keys (custom_resources (fst s)))"
    using Suc.prems by (force simp: cr_rank_def hm_keys_def dest: hm_get_Some_in split: option.splits)
  then obtain k1 where k1: "cr_rank (fst s1) n = Some k1" "k1 \<le> k - 1"
    using reconcile_crs_rank[OF s1[unfolded reconcile_operators_def] Suc.prems] by auto
  obtain s' k' where "reconcile_passes J upper run j s1 = Ret s'" "cr_rank (fst s') n = Some k'" "k' \<le> k1 - j"
    using Suc.IH[OF k1(1)] by blast
  moreover from this k1(2) have "k' \<le> k - Suc j" by simp
  ultimately show ?case using s1 by (intro exI[of _ s'] exI[of _ k']) simp
qed simp

lemma cr_rank_0: "cr_rank w n = Some 0 \<Longrightarrow>
   \<exists>cr p. hm_get (custom_resources w) n = Some cr \<and> cr_status cr = CRRunning
     \<and> find (\<lambda>p. op_custom_kind p = cr_kind cr) (hm_values (operators w)) = Some p
     \<and> (\<forall>c \<in> set (op_provision p). hm_contains (deployments w) (component_name n c))"
  by (auto simp: cr_rank_def Let_def split: option.splits cr_status.splits if_splits)

lemma cr_rank_le_3: "cr_rank w n = Some k \<Longrightarrow> k \<le> 3"
  by (auto simp: cr_rank_def Let_def split: option.splits cr_status.splits if_splits)

text \<open>A pass changes neither the operators nor the kind of a resource.\<close>

definition same_kinds :: "'j desired_world \<Rightarrow> 'j desired_world \<Rightarrow> bool" where
  "same_kinds w w' = (operators w' = operators w
     \<and> (\<lambda>n. map_option cr_kind (hm_get (custom_resources w') n)) = (\<lambda>n. map_option cr_kind (hm_get (custom_resources w) n)))"

lemma reconcile_cr_kinds: "reconcile_cr J upper run m s = Ret s' \<Longrightarrow> same_kinds (fst s) (fst s')"
  by (auto simp: reconcile_cr_def check_cr_def same_kinds_def provision_cr_grows provision_cr_status fun_eq_iff
      option.map_comp comp_def split_def Let_def split: option.splits if_splits)

lemma reconcile_crs_kinds: "reconcile_crs J upper run ns s = Ret s' \<Longrightarrow> same_kinds (fst s) (fst s')"
proof (induction ns arbitrary: s)
  case (Cons m ns)
  then obtain s1 where "reconcile_cr J upper run m s = Ret s1" "reconcile_crs J upper run ns s1 = Ret s'"
    by (auto simp: rust_bind_eq_Ret)
  with Cons.IH[of s1] reconcile_cr_kinds[of J upper run m s s1] show ?case by (simp add: same_kinds_def)
qed (simp add: same_kinds_def)

lemma reconcile_passes_kinds: "reconcile_passes J upper run j s = Ret s' \<Longrightarrow> same_kinds (fst s) (fst s')"
proof (induction j arbitrary: s)
  case (Suc j)
  then obtain s1 where "reconcile_operators J upper run s = Ret s1" "reconcile_passes J upper run j s1 = Ret s'"
    by (auto simp: rust_bind_eq_Ret)
  with Suc.IH[of s1] reconcile_crs_kinds[of J upper run _ s s1] show ?case
    by (simp add: same_kinds_def reconcile_operators_def)
qed (simp add: same_kinds_def)

subsection \<open>Properties\<close>

text \<open>
  \<open>reconcile_operators\<close> always returns (the lookup it unwraps never fails) and keeps the desired world
  well formed, whatever the hooks print or the resources hold.\<close>

theorem reconcile_operators_safe:
  assumes "world_ok (fst s)"
  shows "\<exists>s'. reconcile_operators J upper run s = Ret s' \<and> world_ok (fst s')"
  using reconcile_operators_total[of J upper run s] reconcile_crs_ok[OF assms]
  unfolding reconcile_operators_def by blast

text \<open>C17: operators heal their resources. A custom resource that is not Failed and whose kind has an
  operator is Running after three passes with every component of that operator stored as a deployment,
  from whatever state it was in: fresh, half provisioned, or running with components deleted behind its back, and
  whatever the other resources do in the same passes.\<close>

theorem operators_converge:
  assumes "hm_get (custom_resources (fst s)) n = Some cr" and "cr_status cr \<noteq> CRFailed"
    and "find (\<lambda>p. op_custom_kind p = cr_kind cr) (hm_values (operators (fst s))) = Some p"
  shows "\<exists>s' cr'. reconcile_passes J upper run 3 s = Ret s'
    \<and> hm_get (custom_resources (fst s')) n = Some cr' \<and> cr_status cr' = CRRunning
    \<and> (\<forall>c \<in> set (op_provision p). hm_contains (deployments (fst s')) (component_name n c))"
proof -
  obtain k where k: "cr_rank (fst s) n = Some k"
    using assms by (cases "cr_status cr") (auto simp: cr_rank_def Let_def)
  then obtain s' k' where s': "reconcile_passes J upper run 3 s = Ret s'" "cr_rank (fst s') n = Some k'" "k' \<le> k - 3"
    using reconcile_passes_rank[OF k, of J upper run 3] by blast
  with cr_rank_le_3[OF k] have "cr_rank (fst s') n = Some 0" by simp
  from cr_rank_0[OF this] obtain cr' p' where cr': "hm_get (custom_resources (fst s')) n = Some cr'" "cr_status cr' = CRRunning"
    and p': "find (\<lambda>p. op_custom_kind p = cr_kind cr') (hm_values (operators (fst s'))) = Some p'"
      "\<forall>c \<in> set (op_provision p'). hm_contains (deployments (fst s')) (component_name n c)"
    by blast
  have "operators (fst s') = operators (fst s)" "cr_kind cr' = cr_kind cr"
    using reconcile_passes_kinds[OF s'(1)] cr'(1) assms(1) by (auto simp: same_kinds_def fun_eq_iff dest: spec[of _ n])
  with p' assms(3) have "p' = p" by simp
  with s'(1) cr' p'(2) show ?thesis by blast
qed

definition db_world :: "doc desired_world" where
  "db_world = world_new
     \<lparr>custom_resources := [(''db'', \<lparr>cr_name = ''db'', cr_kind = ''Database'', cr_namespace = ''default'',
        cr_spec = DMap [], cr_status = CRRunning\<rparr>)],
      operators := [(''dbop'', \<lparr>op_name = ''dbop'', op_custom_kind = ''Database'', op_provision =
        [\<lparr>oc_role = ''primary'', oc_image = ''postgres'', oc_replicas = 1, oc_env = [], oc_volumes = [], oc_ports = []\<rparr>],
        op_hooks = [], op_rules = []\<rparr>)]\<rparr>"

theorem operators_converge_witness:
  "\<exists>s' cr'. reconcile_passes doc_json (\<lambda>s. s) (\<lambda>p args. Inr []) 3 (db_world, [], []) = Ret s'
     \<and> hm_get (custom_resources (fst s')) ''db'' = Some cr' \<and> cr_status cr' = CRRunning"
proof -
  obtain cr p where "hm_get (custom_resources (fst (db_world, [] :: string list, [] :: effect list))) ''db'' = Some cr" "cr_status cr \<noteq> CRFailed"
    and "find (\<lambda>p. op_custom_kind p = cr_kind cr) (hm_values (operators (fst (db_world, [] :: string list, [] :: effect list)))) = Some p"
    by (simp add: db_world_def hm_get_Cons hm_values_def)
  from operators_converge[OF this, of doc_json "\<lambda>s. s" "\<lambda>p args. Inr []"] show ?thesis by blast
qed

end
