(* ===== verification/Scaling.thy ===== *)
theory Scaling
  imports Float32
begin

text \<open>
  The pure scaling decisions of \<^verbatim>\<open>src/src/reconcile.rs\<close>: \<open>hpa_decision\<close>, the horizontal autoscaler with its
  cooldown, in binary32 arithmetic; and \<open>next_statefulset_ordinal\<close>, the ordered-creation gate, with a
  step relation for a set that grows one ordinal per tick. A \<open>HashSet\<close> of ordinals is a list.
\<close>

subsection \<open>Autoscaler\<close>

definition hpa_desired :: "u32 \<Rightarrow> f32 \<Rightarrow> f32 \<Rightarrow> u32 \<Rightarrow> u32 \<Rightarrow> u32 option" where
  "hpa_desired cur avg target mn mx =
     (if f_gt avg target \<and> cur < mx
      then Some (min (f_to_u32 (f_ceil (f_mul (f32_of_nat (unat cur)) (f_div avg target)))) mx)
      else if f_lt avg (f_mul target (f32_lit (1 / 2))) \<and> cur > mn then Some (max (cur - 1) mn)
      else None)"

definition hpa_decision :: "u32 \<Rightarrow> f32 \<Rightarrow> f32 \<Rightarrow> u32 \<Rightarrow> u32 \<Rightarrow> u64 \<Rightarrow> u64 \<Rightarrow> u32 option" where
  "hpa_decision cur avg target mn mx secs stab =
     (case hpa_desired cur avg target mn mx of
        Some n \<Rightarrow> if n \<noteq> cur then (if secs < stab then None else Some n) else None
      | None \<Rightarrow> None)"

definition HPA_STABILIZATION_SECS :: u64 where
  "HPA_STABILIZATION_SECS = 60"

subsection \<open>StatefulSet ordinals\<close>

definition next_statefulset_ordinal :: "u32 list \<Rightarrow> u32 list \<Rightarrow> u32 \<Rightarrow> u32 option" where
  "next_statefulset_ordinal existing ready desired =
     (if desired = 0 then None
      else (case find (\<lambda>n. n \<notin> set existing) (map of_nat [1..<Suc (unat desired)]) of
              None \<Rightarrow> None
            | Some n \<Rightarrow> if n = 1 then Some 1 else if n - 1 \<in> set ready then Some n else None))"

subsection \<open>Lemmas: the autoscaler\<close>

lemma hpa_decision_SomeD:
  assumes "hpa_decision cur avg target mn mx secs stab = Some n"
  shows "hpa_desired cur avg target mn mx = Some n \<and> n \<noteq> cur \<and> stab \<le> secs"
  using assms by (auto simp: hpa_decision_def split: option.splits if_splits)

lemma f32_pos_ge_1:
  assumes "1 \<le> q"
  shows "f32_of_rat zs q = Inf False \<or> (\<exists>v. f32_of_rat zs q = Num v \<and> v = rnd32 q \<and> 1 \<le> v)"
  using rnd32_ge_1[OF assms] assms by (auto simp: f32_of_rat_def mk_f32_def Let_def)

lemma ratio_ge_1:
  assumes "f_lt (Num t) avg" and "0 < t"
  shows "f_div avg (Num t) = Inf False \<or> (\<exists>v. f_div avg (Num t) = Num v \<and> 1 \<le> v)"
proof (cases avg)
  case (Num a)
  with assms have "1 \<le> a / t" by simp
  from f32_pos_ge_1[OF this] show ?thesis using Num assms by auto
next
  case (Inf s)
  with assms show ?thesis by (cases s) auto
qed (use assms in auto)

lemma to_u32_ge:
  assumes "of_nat n \<le> q" and "n < 2 ^ 32" and "0 < n"
  shows "n \<le> unat (f_to_u32 (f_ceil (Num q)))"
proof -
  have q: "0 < q" using assms by (metis of_nat_0_less_iff order_less_le_trans)
  then have c: "\<lceil>q\<rceil> > 0" by simp
  then have c0: "\<lceil>q\<rceil> \<noteq> 0" by linarith
  have n: "int n \<le> \<lceil>q\<rceil>" using assms(1) by (metis ceiling_mono ceiling_of_nat)
  show ?thesis
  proof (cases "\<lceil>q\<rceil> < 2 ^ 32")
    case True
    then have "\<not> (2 ^ 32 \<le> (of_int \<lceil>q\<rceil> :: rat))"
      by (metis linorder_not_le of_int_less_iff of_int_numeral of_int_power)
    moreover have "unat (of_int \<lceil>q\<rceil> :: u32) = nat \<lceil>q\<rceil>"
      using c True by (simp add: unsigned_of_int take_bit_int_eq_self)
    ultimately show ?thesis using c n by (auto simp: le_nat_iff)
  next
    case False
    then have "(2 ^ 32 :: rat) \<le> of_int \<lceil>q\<rceil>"
      by (metis linorder_not_le of_int_le_iff of_int_numeral of_int_power)
    with c0 assms(2) show ?thesis by (simp add: unsigned_minus_1_eq_mask mask_eq_exp_minus_1)
  qed
qed

lemma scaled_ge:
  assumes "0 < n" and "n < 2 ^ 24" and "r = Inf False \<or> (\<exists>v. r = Num v \<and> 1 \<le> v)"
  shows "n \<le> unat (f_to_u32 (f_ceil (f_mul (f32_of_nat n) r)))"
  using assms(3)
proof
  assume "r = Inf False"
  with assms(1,2) show ?thesis
    by (simp add: f32_of_nat_small unsigned_minus_1_eq_mask mask_eq_exp_minus_1)
next
  assume "\<exists>v. r = Num v \<and> 1 \<le> v"
  then obtain v where v: "r = Num v" "1 \<le> v" by blast
  let ?n = "of_nat n :: rat"
  have n1: "1 \<le> ?n" using assms(1) by simp
  have le: "?n \<le> ?n * v" using v(2) n1 by (simp add: mult_le_cancel_left1)
  then have one: "1 \<le> ?n * v" using n1 by linarith
  have "?n \<le> rnd32 (?n * v)" using rnd32_mono[OF _ le] rnd32_of_nat[OF assms(1,2)] n1 by simp
  moreover have "n < 2 ^ 32" using assms(2) by simp
  ultimately have "n \<le> unat (f_to_u32 (f_ceil (Num (rnd32 (?n * v)))))"
    using to_u32_ge assms(1) by blast
  moreover have "f_mul (f32_of_nat n) r = f32_of_rat False (?n * v)"
    using assms(1) v by (simp add: f32_of_nat_small[OF assms(1,2)])
  ultimately show ?thesis
    using f32_pos_ge_1[OF one, of False] \<open>n < 2 ^ 32\<close>
    by (auto simp: unsigned_minus_1_eq_mask mask_eq_exp_minus_1)
qed

lemma hpa_up:
  assumes "hpa_decision cur avg (Num t) mn mx secs stab = Some n"
    and "f_gt avg (Num t)" and "0 < t" and "cur < mx" and "unat cur < 2 ^ 24"
  shows "cur < n \<and> n \<le> mx"
proof -
  let ?x = "f_to_u32 (f_ceil (f_mul (f32_of_nat (unat cur)) (f_div avg (Num t))))"
  from hpa_decision_SomeD[OF assms(1)] assms(2,4) have n: "n = min ?x mx" "n \<noteq> cur"
    by (auto simp: hpa_desired_def)
  have "cur \<le> ?x"
  proof (cases "unat cur = 0")
    case False
    with assms(5) ratio_ge_1[OF assms(2,3)] have "unat cur \<le> unat ?x" by (intro scaled_ge) auto
    then show ?thesis by (simp add: word_le_nat_alt)
  qed (simp add: unat_eq_0)
  with n assms(4) show ?thesis by (auto simp: min_def split: if_splits)
qed

lemma hpa_down:
  assumes "hpa_decision cur avg target mn mx secs stab = Some n"
    and "\<not> (f_gt avg target \<and> cur < mx)"
  shows "mn \<le> n \<and> n < cur \<and> (n = cur - 1 \<or> n = mn)"
proof -
  from hpa_decision_SomeD[OF assms(1)] assms(2) have "n = max (cur - 1) mn" "cur > mn" "n \<noteq> cur"
    by (auto simp: hpa_desired_def split: if_splits)
  moreover from this have "cur \<noteq> 0" by auto
  then have "cur - 1 < cur" by (simp add: word_less_nat_alt measure_unat)
  ultimately show ?thesis by (auto simp: max_def split: if_splits)
qed

subsection \<open>Lemmas: the ordinal gate\<close>

lemma find_first:
  "find P xs = Some x \<longleftrightarrow> (\<exists>i < length xs. x = xs ! i \<and> P x \<and> (\<forall>j < i. \<not> P (xs ! j)))"
  by (auto simp: find_Some_iff)

lemma u32_between:
  fixes n d :: u32
  assumes "1 \<le> n" and "n \<le> d"
  shows "\<exists>i < unat d. n = of_nat (Suc i)"
proof -
  from assms have "1 \<le> unat n" "unat n \<le> unat d" by (simp_all add: word_le_nat_alt)
  then show ?thesis by (intro exI[of _ "unat n - 1"]) (auto simp flip: of_nat_Suc)
qed

lemma of_nat_Suc_le:
  fixes d :: u32
  assumes "i < unat d"
  shows "unat (of_nat (Suc i) :: u32) = Suc i \<and> (1 :: u32) \<le> of_nat (Suc i) \<and> of_nat (Suc i) \<le> d"
proof -
  have "Suc i < 2 ^ 32" using assms unat_bound[of d] by simp
  then have "unat (of_nat (Suc i) :: u32) = Suc i" by (simp add: unsigned_of_nat take_bit_nat_eq_self del: of_nat_Suc)
  with assms show ?thesis by (simp add: word_le_nat_alt del: of_nat_Suc)
qed

text \<open>The lowest missing ordinal, and nothing else.\<close>

lemma find_missing:
  "find (\<lambda>n. n \<notin> set ex) (map of_nat [1..<Suc (unat d)]) = Some n \<longleftrightarrow>
     1 \<le> n \<and> n \<le> d \<and> n \<notin> set ex \<and> (\<forall>m. 1 \<le> m \<and> m < n \<longrightarrow> m \<in> set ex)" (is "?L \<longleftrightarrow> ?R")
  for d n :: u32
proof
  assume ?L
  then obtain i where i: "i < unat d" "n = of_nat (Suc i)" "n \<notin> set ex"
    and lo: "\<forall>j < i. of_nat (Suc j) \<in> set ex"
    by (auto simp: find_first simp del: upt_Suc of_nat_Suc)
  note ui = of_nat_Suc_le[OF i(1)]
  have "m \<in> set ex" if m: "1 \<le> m" "m < n" for m
  proof -
    from m ui i(2) have "m \<le> d" by auto
    with m(1) obtain j where j: "j < unat d" "m = of_nat (Suc j)" using u32_between by blast
    with m(2) ui i(2) have "j < i" using of_nat_Suc_le[OF j(1)] by (simp add: word_less_nat_alt)
    with lo j show ?thesis by simp
  qed
  with i ui show ?R by simp
next
  assume r: ?R
  then obtain i where i: "i < unat d" "n = of_nat (Suc i)" using u32_between by blast
  have "of_nat (Suc j) \<in> set ex" if "j < i" for j
  proof -
    have "j < unat d" using that i by simp
    with that of_nat_Suc_le[of j d] of_nat_Suc_le[OF i(1)] r i(2) show ?thesis
      by (simp add: word_less_nat_alt)
  qed
  with r i show ?L
    by (auto simp: find_first simp del: upt_Suc of_nat_Suc intro!: exI[of _ i])
qed

lemma next_ordinal_Some_iff:
  "next_statefulset_ordinal ex rd d = Some n \<longleftrightarrow>
     1 \<le> n \<and> n \<le> d \<and> n \<notin> set ex \<and> (\<forall>m. 1 \<le> m \<and> m < n \<longrightarrow> m \<in> set ex) \<and> (n = 1 \<or> n - 1 \<in> set rd)"
proof -
  have "d = 0 \<Longrightarrow> 1 \<le> n \<Longrightarrow> n \<le> d \<Longrightarrow> False" by auto
  then show ?thesis
    using find_missing[of ex d n]
    by (auto simp: next_statefulset_ordinal_def simp del: upt_Suc split: option.splits if_splits)
qed

subsection \<open>Growing a set tick by tick\<close>

text \<open>
  What can happen to the ordinals of one set: a tick creates the ordinal the gate allows, or an
  existing pod becomes ready.
\<close>

inductive sset_step :: "u32 \<Rightarrow> u32 list \<times> u32 list \<Rightarrow> u32 list \<times> u32 list \<Rightarrow> bool" for d where
  create: "next_statefulset_ordinal ex rd d = Some n \<Longrightarrow> sset_step d (ex, rd) (n # ex, rd)"
| become_ready: "n \<in> set ex \<Longrightarrow> sset_step d (ex, rd) (ex, n # rd)"

inductive_cases sset_stepE: "sset_step d s s'"

definition ordered_set :: "u32 \<Rightarrow> u32 list \<times> u32 list \<Rightarrow> bool" where
  "ordered_set d s =
     (distinct (fst s) \<and> set (snd s) \<subseteq> set (fst s)
      \<and> (\<forall>n \<in> set (fst s). 1 \<le> n \<and> n \<le> d)
      \<and> (\<forall>n \<in> set (fst s). \<forall>m \<in> set (map of_nat [1..<unat n]). m \<in> set (snd s)))"

lemma lower_ordinals:
  "m \<in> set (map of_nat [1..<unat n]) \<longleftrightarrow> 1 \<le> m \<and> m < n" for m n :: u32
proof
  assume "m \<in> set (map of_nat [1..<unat n])"
  then obtain k where k: "m = of_nat k" "1 \<le> k" "k < unat n" by auto
  then have "unat m = k" using unat_bound[of n] by (simp add: unsigned_of_nat take_bit_nat_eq_self)
  with k show "1 \<le> m \<and> m < n" by (simp add: word_le_nat_alt word_less_nat_alt)
next
  assume "1 \<le> m \<and> m < n"
  then have "1 \<le> unat m" "unat m < unat n" by (simp_all add: word_le_nat_alt word_less_nat_alt)
  moreover have "m = of_nat (unat m)" by simp
  ultimately show "m \<in> set (map of_nat [1..<unat n])" by (metis atLeastLessThan_iff image_eqI set_map set_upt)
qed

lemma ordered_set_alt:
  "ordered_set d (ex, rd) \<longleftrightarrow> distinct ex \<and> set rd \<subseteq> set ex \<and> (\<forall>n \<in> set ex. 1 \<le> n \<and> n \<le> d)
     \<and> (\<forall>n \<in> set ex. \<forall>m. 1 \<le> m \<and> m < n \<longrightarrow> m \<in> set rd)"
  unfolding ordered_set_def by (simp only: lower_ordinals Ball_def fst_conv snd_conv)

lemma below_pred: "n \<noteq> 1 \<Longrightarrow> 1 \<le> n \<Longrightarrow> m < n \<Longrightarrow> m = n - 1 \<or> m < n - 1" for m n :: u32
proof -
  assume "n \<noteq> 1" "1 \<le> n" "m < n"
  then have "1 < unat n" "unat m < unat n" "unat (n - 1) = unat n - 1"
    using unat_minus_one[of n] by (auto simp: word_le_nat_alt word_less_nat_alt word_unat_eq_iff)
  then have "unat m = unat (n - 1) \<or> unat m < unat (n - 1)" by linarith
  then show ?thesis by (simp only: word_unat_eq_iff word_less_nat_alt)
qed

lemma ordered_set_step: "sset_step d s s' \<Longrightarrow> ordered_set d s \<Longrightarrow> ordered_set d s'"
proof (induction rule: sset_step.induct)
  case (create ex rd n)
  from create(1) have n: "1 \<le> n" "n \<le> d" "n \<notin> set ex" "n = 1 \<or> n - 1 \<in> set rd"
    by (auto simp: next_ordinal_Some_iff)
  have o: "set rd \<subseteq> set ex" "\<forall>k \<in> set ex. \<forall>m. 1 \<le> m \<and> m < k \<longrightarrow> m \<in> set rd"
    using create(2) by (auto simp: ordered_set_alt)
  have "m \<in> set rd" if m: "1 \<le> m" "m < n" for m
  proof (cases "n = 1")
    case False
    with n(1,4) m(2) have "n - 1 \<in> set rd" "m = n - 1 \<or> m < n - 1" using below_pred by blast+
    with o m(1) show ?thesis by blast
  qed (use m in auto)
  with create(2) n show ?case by (auto simp: ordered_set_alt)
qed (auto simp: ordered_set_alt)

text \<open>With every existing pod ready, one tick of the gate.\<close>

definition grow :: "u32 \<Rightarrow> u32 list \<Rightarrow> u32 list" where
  "grow d ex = (case next_statefulset_ordinal ex ex d of Some n \<Rightarrow> n # ex | None \<Rightarrow> ex)"

definition missing :: "u32 \<Rightarrow> u32 list \<Rightarrow> u32 set" where
  "missing d ex = {m. 1 \<le> m \<and> m \<le> d} - set ex"

lemma card_missing: "card (missing d ex) \<le> unat d"
proof -
  have "missing d ex \<subseteq> (\<lambda>i. of_nat (Suc i)) ` {..<unat d}"
    using u32_between unfolding missing_def by fastforce
  then have "card (missing d ex) \<le> card ((\<lambda>i. of_nat (Suc i) :: u32) ` {..<unat d})"
    by (intro card_mono) auto
  also have "\<dots> \<le> unat d" using card_image_le[of "{..<unat d}"] by simp
  finally show ?thesis .
qed

lemma lowest_missing:
  assumes "missing d ex \<noteq> {}"
  shows "\<exists>n. next_statefulset_ordinal ex ex d = Some n \<and> n \<in> missing d ex"
proof -
  define n where "n = Min (missing d ex)"
  have n: "n \<in> missing d ex" "\<forall>m \<in> missing d ex. n \<le> m"
    using Min_in[OF _ assms] Min_le[of "missing d ex"] by (simp_all add: n_def)
  then have lo: "m \<in> set ex" if "1 \<le> m" "m < n" for m
    using that by (force simp: missing_def)
  have "n = 1 \<or> n - 1 \<in> set ex"
  proof (rule disjCI)
    assume "n - 1 \<notin> set ex"
    moreover have "n \<noteq> 1 \<Longrightarrow> 1 \<le> n - 1 \<and> n - 1 < n"
      using n(1) unat_minus_one[of n]
      by (auto simp: missing_def word_le_nat_alt word_less_nat_alt word_unat_eq_iff)
    ultimately show "n = 1" using lo by blast
  qed
  with n lo have "next_statefulset_ordinal ex ex d = Some n"
    by (auto simp: next_ordinal_Some_iff missing_def)
  with n show ?thesis by blast
qed

lemma grow_missing: "card (missing d (grow d ex)) = card (missing d ex) - 1"
proof (cases "missing d ex = {}")
  case True
  then have "missing d (grow d ex) \<subseteq> {}" by (auto simp: grow_def missing_def split: option.splits)
  with True show ?thesis by simp
next
  case False
  then obtain n where n: "next_statefulset_ordinal ex ex d = Some n" "n \<in> missing d ex"
    using lowest_missing by blast
  then have "missing d (grow d ex) = missing d ex - {n}" by (auto simp: grow_def missing_def)
  with n show ?thesis by simp
qed

lemma grow_iterate: "card (missing d ((grow d ^^ k) ex)) = card (missing d ex) - k"
  by (induction k arbitrary: ex) (simp_all add: grow_missing)

subsection \<open>Properties\<close>



text \<open>
  The gate creates the lowest ordinal that does not exist yet, only within the desired count, and
  only when it is the first or its predecessor is ready.\<close>

theorem statefulset_gate:
  "next_statefulset_ordinal ex rd d = Some n \<longleftrightarrow>
     1 \<le> n \<and> n \<le> d \<and> n \<notin> set ex \<and> (\<forall>m. 1 \<le> m \<and> m < n \<longrightarrow> m \<in> set ex) \<and> (n = 1 \<or> n - 1 \<in> set rd)"
  by (rule next_ordinal_Some_iff)




end
