(* ===== verification/Cluster.thy ===== *)
theory Cluster
  imports Sample_Values
begin

text \<open>
  Cluster membership and leadership, \<^verbatim>\<open>src/src/reconcile.rs\<close>: node names and addresses, registration, the
  union merge of a peer's state, heartbeats and health, node choice, and the leader lease on a shared
  file. Parameters: environment variables, the clock, HTTP outcomes, the file operations' success.
\<close>

subsection \<open>Names, images, URLs\<close>

definition local_node_name :: "string option \<Rightarrow> string option \<Rightarrow> string option \<Rightarrow> string" where
  "local_node_name HOSTNAME HOST cmd =
     (case opt_or HOSTNAME HOST of
        Some s \<Rightarrow> if trim s \<noteq> [] then s
                  else (case cmd of Some c \<Rightarrow> if trim c \<noteq> [] then trim c else ''royak-node-0'' | None \<Rightarrow> ''royak-node-0'')
      | None \<Rightarrow> (case cmd of Some c \<Rightarrow> if trim c \<noteq> [] then trim c else ''royak-node-0'' | None \<Rightarrow> ''royak-node-0''))"

definition advertised_address :: "string option \<Rightarrow> u16 \<Rightarrow> string" where
  "advertised_address env port =
     (let dflt = ''127.0.0.1:'' @ show_word port
      in case env of
           None \<Rightarrow> dflt
         | Some e \<Rightarrow> (let a = trim e
             in if a = [] then dflt else if str_contains a '':'' then a else a @ '':'' @ show_word port))"

definition normalize_image :: "string \<Rightarrow> string" where
  "normalize_image img0 =
     (let img = trim_start_matches ''docker.io/'' (trim_start_matches ''docker.io/library/'' img0)
      in if str_contains img '':'' then img else img @ '':latest'')"

text \<open>The message of a failed integer parse.\<close>

fun int_err_digits :: "nat \<Rightarrow> nat \<Rightarrow> string \<Rightarrow> string" where
  "int_err_digits mx acc [] = ''cannot parse integer from empty string''"
| "int_err_digits mx acc (c # cs) =
     (case digit_val c of
        None \<Rightarrow> ''invalid digit found in string''
      | Some d \<Rightarrow> if mx < acc * 10 + d then ''number too large to fit in target type''
                  else int_err_digits mx (acc * 10 + d) cs)"

definition parse_u16_err :: "string \<Rightarrow> string" where
  "parse_u16_err s =
     int_err_digits 65535 0 (case s of c # x # xs \<Rightarrow> if c = CHR ''+'' then x # xs else s | _ \<Rightarrow> s)"

definition parse_url :: "string \<Rightarrow> (string \<times> u16 \<times> string) result" where
  "parse_url url =
     (let stripped = unwrap_or (strip_prefix url ''http://'') url;
          (host_port, rest) = unwrap_or (split_once (CHR ''/'') stripped) (stripped, []);
          path = ''/'' @ rest
      in case split_once (CHR '':'') host_port of
           Some (h, p) \<Rightarrow> (case parse_u16 p of
                             Some n \<Rightarrow> Inr (h, n, path)
                           | None \<Rightarrow> Inl (''bad port: '' @ parse_u16_err p))
         | None \<Rightarrow> Inr (host_port, 80, path))"

subsection \<open>Registration, merge, heartbeats, health\<close>

definition register_local_node ::
  "string \<Rightarrow> string \<Rightarrow> f32 \<Rightarrow> f32 list \<Rightarrow> u64 \<Rightarrow> 'j desired_world \<Rightarrow> 'j desired_world" where
  "register_local_node me addr mem token now w =
     w\<lparr>nodes := hm_insert me
         \<lparr>cn_name = me, cn_address = addr, cn_cpu_capacity = f32_of_nat 100, cn_mem_capacity = mem,
          cn_cpu_used = Zero False, cn_mem_used = Zero False, cn_pod_count = 0, cn_status = NodeReady,
          cn_last_heartbeat = now, cn_neural_token = token, cn_joined_at = now\<rparr> (nodes w)\<rparr>"

definition js_str :: "'j json_ops \<Rightarrow> 'j \<Rightarrow> string \<Rightarrow> string option" where
  "js_str J v k = Option.bind (jv_get J v k) (jv_as_str J)"

definition js_u64 :: "'j json_ops \<Rightarrow> 'j \<Rightarrow> string \<Rightarrow> u64 option" where
  "js_u64 J v k = Option.bind (jv_get J v k) (jv_as_u64 J)"

definition js_f32 :: "'j json_ops \<Rightarrow> 'j \<Rightarrow> string \<Rightarrow> f32 option" where
  "js_f32 J v k = map_option f64_to_f32 (Option.bind (jv_get J v k) (jv_as_f64 J))"

definition js_object :: "'j json_ops \<Rightarrow> 'j \<Rightarrow> string \<Rightarrow> (string \<times> 'j) list" where
  "js_object J v k = unwrap_or (Option.bind (jv_get J v k) (jv_as_object J)) []"

definition merge_node ::
  "'j json_ops \<Rightarrow> u64 \<Rightarrow> string \<times> 'j \<Rightarrow> 'j desired_world \<times> string list \<Rightarrow> 'j desired_world \<times> string list" where
  "merge_node J now kv s =
     (let (name, val) = kv; (w, lg) = s
      in if \<not> hm_contains (nodes w) name
         then (w\<lparr>nodes := hm_insert name
                   \<lparr>cn_name = unwrap_or (js_str J val ''name'') name, cn_address = unwrap_or (js_str J val ''address'') [],
                    cn_cpu_capacity = unwrap_or (js_f32 J val ''cpuCapacity'') (f32_of_nat 100),
                    cn_mem_capacity = unwrap_or (js_f32 J val ''memCapacity'') (Zero False),
                    cn_cpu_used = unwrap_or (js_f32 J val ''cpuUsed'') (Zero False),
                    cn_mem_used = unwrap_or (js_f32 J val ''memUsed'') (Zero False),
                    cn_pod_count = ucast (unwrap_or (js_u64 J val ''podCount'') 0),
                    cn_status = NodeReady, cn_last_heartbeat = now, cn_neural_token = [],
                    cn_joined_at = unwrap_or (js_u64 J val ''joinedAt'') now\<rparr> (nodes w)\<rparr>,
               lg @ [''node/'' @ name @ '' added''])
         else (w\<lparr>nodes := hm_modify name (\<lambda>n. n\<lparr>cn_last_heartbeat := now,
                   cn_cpu_used := unwrap_or (js_f32 J val ''cpuUsed'') (cn_cpu_used n),
                   cn_mem_used := unwrap_or (js_f32 J val ''memUsed'') (cn_mem_used n),
                   cn_pod_count := ucast (unwrap_or (js_u64 J val ''podCount'') (ucast (cn_pod_count n)))\<rparr>) (nodes w)\<rparr>,
               lg))"

definition merge_namespace ::
  "'j json_ops \<Rightarrow> 'j \<Rightarrow> 'j desired_world \<times> string list \<Rightarrow> 'j desired_world \<times> string list" where
  "merge_namespace J v s =
     (case jv_as_str J v of
        None \<Rightarrow> s
      | Some ns \<Rightarrow>
          if ns \<notin> set (namespaces (fst s))
          then ((fst s)\<lparr>namespaces := namespaces (fst s) @ [ns]\<rparr>, snd s @ [''namespace/'' @ ns @ '' added''])
          else s)"

definition merged_container :: "'j json_ops \<Rightarrow> 'j \<Rightarrow> stored_container" where
  "merged_container J c =
     \<lparr>sc_name = unwrap_or (js_str J c ''name'') ''main'', sc_image = unwrap_or (js_str J c ''image'') [],
      sc_command = None, sc_env = [], sc_env_from_configmaps = [], sc_env_from_secrets = [], sc_volumes = [],
      sc_liveness_probe = None, sc_readiness_probe = None, sc_startup_probe = None\<rparr>"

definition merged_deployment :: "'j json_ops \<Rightarrow> string \<Rightarrow> 'j \<Rightarrow> stored_deployment" where
  "merged_deployment J name val =
     (let cs = map (merged_container J) (unwrap_or (Option.bind (jv_get J val ''containers'') (jv_as_array J)) [])
      in \<lparr>d_name = unwrap_or (js_str J val ''name'') name, d_namespace = unwrap_or (js_str J val ''namespace'') ''default'',
          d_replicas = ucast (unwrap_or (js_u64 J val ''replicas'') 1), d_init_containers = [], d_containers = cs,
          d_image = unwrap_or (map_option sc_image (head_opt cs)) [], d_previous_image = None, d_command = None,
          d_env = [], d_resource_limits = None, d_strategy = None, d_pause_after_idle = None, d_paused = False,
          d_idle_since = None, d_stateful = False, d_owner_ref = js_str J val ''ownerRef''\<rparr>)"

definition merge_deployment ::
  "'j json_ops \<Rightarrow> string \<times> 'j \<Rightarrow> 'j desired_world \<times> string list \<Rightarrow> 'j desired_world \<times> string list" where
  "merge_deployment J kv s =
     (if \<not> hm_contains (deployments (fst s)) (fst kv)
      then ((fst s)\<lparr>deployments := hm_insert (fst kv) (merged_deployment J (fst kv) (snd kv)) (deployments (fst s))\<rparr>,
            snd s @ [''deployment/'' @ fst kv @ '' synced from peer''])
      else s)"

definition merge_configmap ::
  "'j json_ops \<Rightarrow> string \<times> 'j \<Rightarrow> 'j desired_world \<times> string list \<Rightarrow> 'j desired_world \<times> string list" where
  "merge_configmap J kv s =
     (if \<not> hm_contains (configmaps (fst s)) (fst kv)
      then ((fst s)\<lparr>configmaps := hm_insert (fst kv)
              \<lparr>cm_name = unwrap_or (js_str J (snd kv) ''name'') (fst kv),
               cm_namespace = unwrap_or (js_str J (snd kv) ''namespace'') ''default'',
               cm_data = hm_collect (map (\<lambda>(k, v). (k, unwrap_or (jv_as_str J v) [])) (js_object J (snd kv) ''data''))\<rparr>
              (configmaps (fst s))\<rparr>,
            snd s @ [''configmap/'' @ fst kv @ '' synced from peer''])
      else s)"

definition merge_state ::
  "'j json_ops \<Rightarrow> u64 \<Rightarrow> 'j \<Rightarrow> 'j desired_world \<Rightarrow> 'j desired_world \<times> string list" where
  "merge_state J now remote w =
     fold (merge_configmap J) (js_object J remote ''configmaps'')
    (fold (merge_deployment J) (js_object J remote ''deployments'')
    (fold (merge_namespace J) (unwrap_or (Option.bind (jv_get J remote ''namespaces'') (jv_as_array J)) [])
    (fold (merge_node J now) (js_object J remote ''nodes'') (w, []))))"

text \<open>\<open>post_ok name addr\<close> is the outcome of the heartbeat sent to a peer.\<close>

definition send_heartbeats ::
  "string \<Rightarrow> u64 \<Rightarrow> (string \<Rightarrow> string \<Rightarrow> bool) \<Rightarrow> 'j desired_world \<Rightarrow> 'j desired_world" where
  "send_heartbeats me now post_ok w =
     fold (\<lambda>(name, addr) w. if post_ok name addr
             then w\<lparr>nodes := hm_modify name (\<lambda>n. n\<lparr>cn_last_heartbeat := now, cn_status := NodeReady\<rparr>) (nodes w)\<rparr>
             else w)
       (map (\<lambda>(name, n). (name, cn_address n)) (filter (\<lambda>(name, n). name \<noteq> me) (nodes w))) w"

definition saturating_sub :: "u64 \<Rightarrow> u64 \<Rightarrow> u64" where
  "saturating_sub a b = (if a < b then 0 else a - b)"

definition stale :: "string \<Rightarrow> u64 \<Rightarrow> string \<times> cluster_node \<Rightarrow> bool" where
  "stale me now kn =
     (fst kn \<noteq> me \<and> 90 < saturating_sub now (cn_last_heartbeat (snd kn)) \<and> cn_status (snd kn) = NodeReady)"

definition warn_sign :: string where
  "warn_sign = [CHR 0xE2, CHR 0x9A, CHR 0xA0]"

definition check_node_health :: "string \<Rightarrow> u64 \<Rightarrow> 'j desired_world \<Rightarrow> 'j desired_world \<times> string list" where
  "check_node_health me now w =
     (w\<lparr>nodes := map (\<lambda>kn. if stale me now kn then (fst kn, (snd kn)\<lparr>cn_status := NodeNotReady\<rparr>) else kn) (nodes w)\<rparr>,
      map (\<lambda>kn. ''  '' @ warn_sign @ '' [node] '' @ fst kn @ '': no heartbeat for ''
            @ show_word (saturating_sub now (cn_last_heartbeat (snd kn))) @ ''s '' @ [CHR 0xE2, CHR 0x80, CHR 0x94]
            @ '' marked NotReady'') (filter (stale me now) (nodes w)))"

subsection \<open>Choosing a node\<close>

definition node_score :: "cluster_node \<Rightarrow> f32" where
  "node_score n =
     f_sub (f_add (f_mul (f_sub (cn_cpu_capacity n) (cn_cpu_used n)) (f32_lit (1 / 2)))
                  (f_mul (f_sub (cn_mem_capacity n) (cn_mem_used n)) (f32_lit (1 / 1000))))
           (f_mul (f32_of_nat (unat (cn_pod_count n))) (f32_of_nat 5))"

text \<open>\<open>max_by\<close> keeps the later of two equal elements; an unordered pair counts as equal.\<close>

fun max_by_score :: "cluster_node \<Rightarrow> cluster_node list \<Rightarrow> cluster_node" where
  "max_by_score b [] = b"
| "max_by_score b (n # ns) = max_by_score (if f_gt (node_score b) (node_score n) then b else n) ns"

definition pick_node :: "'j desired_world \<Rightarrow> string option" where
  "pick_node w =
     (case filter (\<lambda>n. cn_status n = NodeReady) (hm_values (nodes w)) of
        [] \<Rightarrow> None
      | n # ns \<Rightarrow> Some (cn_name (max_by_score n ns)))"

subsection \<open>The leader lease\<close>

text \<open>
  What the lease file can hold: nothing readable as JSON, or a document with its two fields as the
  accessors deliver them.
\<close>

datatype lease_file = NoLease | LeaseDoc "string option" "u64 option"

definition LEASE_TTL_SECS :: u64 where
  "LEASE_TTL_SECS = 15"

datatype lease_verdict = Standby | Write

definition lease_verdict :: "lease_file \<Rightarrow> string \<Rightarrow> u64 \<Rightarrow> lease_verdict" where
  "lease_verdict f our now =
     (case f of
        NoLease \<Rightarrow> Write
      | LeaseDoc l a \<Rightarrow>
          (let leader = unwrap_or l []; age = saturating_sub now (unwrap_or a 0)
           in if leader = our then Write
              else if age < LEASE_TTL_SECS \<and> leader \<noteq> [] then Standby
              else Write))"

text \<open>The write of the temporary file and the rename may each fail; only both make the lease ours.\<close>

definition write_lease_atomic :: "bool \<times> bool \<Rightarrow> string \<Rightarrow> u64 \<Rightarrow> lease_file \<Rightarrow> bool \<times> lease_file" where
  "write_lease_atomic io our now f =
     (if \<not> fst io then (False, f)
      else if snd io then (True, LeaseDoc (Some our) (Some now)) else (False, f))"

definition try_acquire_lease :: "bool \<times> bool \<Rightarrow> string \<Rightarrow> u64 \<Rightarrow> lease_file \<Rightarrow> bool \<times> lease_file" where
  "try_acquire_lease io our now f =
     (case lease_verdict f our now of
        Standby \<Rightarrow> (False, f)
      | Write \<Rightarrow> write_lease_atomic io our now f)"

definition release_lease :: "bool \<Rightarrow> string \<Rightarrow> lease_file \<Rightarrow> lease_file" where
  "release_lease removed our f =
     (case f of
        LeaseDoc l a \<Rightarrow> if l = Some our \<and> removed then NoLease else f
      | NoLease \<Rightarrow> NoLease)"

text \<open>A sequence of attempts \<open>(io, node, now)\<close>, each one call, and the grants it makes.\<close>

fun lease_grants :: "((bool \<times> bool) \<times> string \<times> u64) list \<Rightarrow> lease_file \<Rightarrow> (string \<times> u64) list" where
  "lease_grants [] f = []"
| "lease_grants ((io, n, t) # as) f =
     (let (ok, f') = try_acquire_lease io n t f
      in if ok then (n, t) # lease_grants as f' else lease_grants as f')"

text \<open>Two grants in a row to different nodes are at least one lease lifetime apart.\<close>

fun spaced :: "(string \<times> u64) list \<Rightarrow> bool" where
  "spaced ((n, t) # (m, u) # gs) = ((n = m \<or> n = [] \<or> LEASE_TTL_SECS \<le> saturating_sub u t) \<and> spaced ((m, u) # gs))"
| "spaced gs = True"

subsection \<open>Lemmas: the lease\<close>

lemma try_acquire_cases:
  "try_acquire_lease io n t f = (True, LeaseDoc (Some n) (Some t)) \<or> try_acquire_lease io n t f = (False, f)"
  by (simp add: try_acquire_lease_def write_lease_atomic_def split: lease_verdict.split)

lemma try_acquire_held:
  assumes "try_acquire_lease io m u (LeaseDoc (Some n) (Some t)) = (True, f')"
  shows "m = n \<or> n = [] \<or> LEASE_TTL_SECS \<le> saturating_sub u t"
  using assms by (auto simp: try_acquire_lease_def lease_verdict_def split: if_splits)

lemma lease_grants_spaced_from: "spaced ((n, t) # lease_grants as (LeaseDoc (Some n) (Some t)))"
proof (induction as arbitrary: n t)
  case (Cons a as)
  obtain io m u where a: "a = (io, m, u)" by (cases a)
  show ?case
    using try_acquire_cases[of io m u "LeaseDoc (Some n) (Some t)"]
  proof
    assume g: "try_acquire_lease io m u (LeaseDoc (Some n) (Some t)) = (True, LeaseDoc (Some m) (Some u))"
    with try_acquire_held[OF g] Cons.IH[of m u] show ?thesis by (auto simp: a)
  next
    assume "try_acquire_lease io m u (LeaseDoc (Some n) (Some t)) = (False, LeaseDoc (Some n) (Some t))"
    with Cons.IH[of n t] show ?thesis by (simp add: a)
  qed
qed simp

lemma lease_grants_spaced: "spaced (lease_grants as f)"
proof (induction as)
  case (Cons a as)
  obtain io m u where a: "a = (io, m, u)" by (cases a)
  show ?case
    using try_acquire_cases[of io m u f] Cons.IH lease_grants_spaced_from[of m u as] by (auto simp: a)
qed simp

subsection \<open>Lemmas: merge and health\<close>

lemma check_node_health_get:
  assumes "hm_ok (nodes w)"
  shows "hm_get (nodes (fst (check_node_health me now w))) k =
    map_option (\<lambda>n. if stale me now (k, n) then n\<lparr>cn_status := NodeNotReady\<rparr> else n) (hm_get (nodes w) k)"
proof -
  have "hm_get (map (\<lambda>kn. if stale me now kn then (fst kn, (snd kn)\<lparr>cn_status := NodeNotReady\<rparr>) else kn) m) k =
      map_option (\<lambda>n. if stale me now (k, n) then n\<lparr>cn_status := NodeNotReady\<rparr> else n) (hm_get m k)" for m
    by (induction m) (auto simp: hm_get_def)
  then show ?thesis by (simp add: check_node_health_def)
qed

text \<open>A fold of insert-if-absent steps keeps what is there.\<close>

lemma merge_deployment_keeps:
  "hm_get (deployments w) k = Some d \<Longrightarrow>
     hm_get (deployments (fst (fold (merge_deployment J) kvs (w, lg)))) k = Some d"
proof (induction kvs arbitrary: w lg)
  case (Cons kv kvs)
  obtain w1 lg1 where s: "merge_deployment J kv (w, lg) = (w1, lg1)" by fastforce
  then have "hm_get (deployments w1) k = Some d"
    using Cons.prems by (auto simp: merge_deployment_def hm_contains_def split: if_splits)
  with Cons.IH s show ?case by simp
qed simp

lemma fold_frame:
  assumes "\<And>x s. f (fst (g x s)) = f (fst s)"
  shows "f (fst (fold g xs s)) = f (fst s)"
  using assms by (induction xs arbitrary: s) auto

lemma merge_frames:
  "deployments (fst (merge_node J now kv s)) = deployments (fst s)"
  "deployments (fst (merge_namespace J v s)) = deployments (fst s)"
  "deployments (fst (merge_configmap J kv s)) = deployments (fst s)"
  "configmaps (fst (merge_node J now kv s)) = configmaps (fst s)"
  "configmaps (fst (merge_namespace J v s)) = configmaps (fst s)"
  "configmaps (fst (merge_deployment J kv s)) = configmaps (fst s)"
  by (simp_all add: merge_node_def merge_namespace_def merge_configmap_def merge_deployment_def split_def Let_def
      split: option.split)

lemma merge_configmap_keeps:
  "hm_get (configmaps w) k = Some d \<Longrightarrow>
     hm_get (configmaps (fst (fold (merge_configmap J) kvs (w, lg)))) k = Some d"
proof (induction kvs arbitrary: w lg)
  case (Cons kv kvs)
  obtain w1 lg1 where s: "merge_configmap J kv (w, lg) = (w1, lg1)" by fastforce
  then have "hm_get (configmaps w1) k = Some d"
    using Cons.prems by (auto simp: merge_configmap_def hm_contains_def split: if_splits)
  with Cons.IH s show ?case by simp
qed simp

lemma merge_deployment_adds:
  "hm_contains (deployments (fst (fold (merge_deployment J) kvs s))) k \<longleftrightarrow>
     hm_contains (deployments (fst s)) k \<or> k \<in> fst ` set kvs"
  by (induction kvs arbitrary: s) (auto simp: merge_deployment_def)

lemma merge_state_deployments:
  "deployments (fst (merge_state J now remote w)) =
     deployments (fst (fold (merge_deployment J) (js_object J remote ''deployments'')
       (fold (merge_namespace J) (unwrap_or (Option.bind (jv_get J remote ''namespaces'') (jv_as_array J)) [])
         (fold (merge_node J now) (js_object J remote ''nodes'') (w, [])))))"
  unfolding merge_state_def by (rule fold_frame) (rule merge_frames)

lemma merge_prefix_deployments:
  "deployments (fst (fold (merge_namespace J) vs (fold (merge_node J now) ns (w, lg)))) = deployments w"
  using fold_frame[of deployments "merge_namespace J", OF merge_frames(2)]
    fold_frame[of deployments "merge_node J now", OF merge_frames(1)] by simp

subsection \<open>Lemmas for the properties\<close>

lemma max_by_score_mem: "max_by_score b ns \<in> set (b # ns)"
  by (induction ns arbitrary: b) auto

lemma max_by_score_max:
  assumes "\<forall>m \<in> set (b # ns). node_score m \<noteq> NaN" and "n \<in> set (b # ns)"
  shows "\<not> f_gt (node_score n) (node_score (max_by_score b ns))"
  using assms
proof (induction ns arbitrary: b n)
  case Nil
  then show ?case using f_lt_asym[of "node_score b" "node_score b"] by auto
next
  case (Cons m ns)
  let ?c = "if f_gt (node_score b) (node_score m) then b else m"
  have ih: "x \<in> set (?c # ns) \<Longrightarrow> \<not> f_gt (node_score x) (node_score (max_by_score ?c ns))" for x
    using Cons.IH[of ?c x] Cons.prems(1) by auto
  have le: "\<not> f_gt (node_score b) (node_score ?c)" "\<not> f_gt (node_score m) (node_score ?c)"
    using f_lt_asym[of "node_score m" "node_score b"] f_lt_asym[of "node_score b" "node_score b"]
      f_lt_asym[of "node_score m" "node_score m"] by auto
  have "node_score ?c \<noteq> NaN" using Cons.prems(1) by simp
  then have up: "\<not> f_gt (node_score x) (node_score (max_by_score ?c ns))"
    if "\<not> f_gt (node_score x) (node_score ?c)" for x
    using f_lt_neg_trans[of "node_score (max_by_score ?c ns)" "node_score x" "node_score ?c"] ih[of ?c] that by auto
  from Cons.prems(2) consider "n = b" | "n = m" | "n \<in> set ns" by auto
  then have "\<not> f_gt (node_score n) (node_score (max_by_score ?c ns))"
    using le up ih by cases auto
  then show ?case by simp
qed

lemma spaced_nth:
  "spaced gs \<Longrightarrow> Suc i < length gs \<Longrightarrow> gs ! i = (n, t) \<Longrightarrow> gs ! Suc i = (m, u) \<Longrightarrow>
     n = m \<or> n = [] \<or> LEASE_TTL_SECS \<le> saturating_sub u t"
proof (induction gs arbitrary: i rule: spaced.induct)
  case (1 n' t' m' u' gs)
  then show ?case by (cases i) auto
qed auto

text \<open>Two nodes that both read an empty lease before either writes are both told they hold it.\<close>

lemma lease_race:
  "lease_verdict NoLease a t = Write \<and> lease_verdict NoLease b u = Write
   \<and> (let (ok1, f1) = write_lease_atomic (True, True) a t NoLease;
          (ok2, f2) = write_lease_atomic (True, True) b u f1 in ok1 \<and> ok2)"
  by (simp add: lease_verdict_def write_lease_atomic_def)

subsection \<open>Properties\<close>



text \<open>
  Work is placed on the best ready node: the choice is a Ready node whose score no other
  Ready node exceeds (scores being numbers), and there is no choice exactly when no node is Ready.\<close>

theorem pick_node_best:
  assumes "\<forall>n \<in> set (hm_values (nodes w)). node_score n \<noteq> NaN"
  shows "case pick_node w of
      None \<Rightarrow> \<forall>n \<in> set (hm_values (nodes w)). cn_status n \<noteq> NodeReady
    | Some name \<Rightarrow> \<exists>b \<in> set (hm_values (nodes w)). cn_name b = name \<and> cn_status b = NodeReady
        \<and> (\<forall>n \<in> set (hm_values (nodes w)). cn_status n = NodeReady \<longrightarrow> \<not> f_gt (node_score n) (node_score b))"
proof (cases "filter (\<lambda>n. cn_status n = NodeReady) (hm_values (nodes w))")
  case Nil
  then show ?thesis by (auto simp: pick_node_def filter_empty_conv)
next
  case (Cons b ns)
  then have ready: "set (b # ns) = {n \<in> set (hm_values (nodes w)). cn_status n = NodeReady}"
    by (metis set_filter)
  have "max_by_score b ns \<in> set (b # ns)" by (rule max_by_score_mem)
  moreover have "\<forall>n \<in> set (b # ns). \<not> f_gt (node_score n) (node_score (max_by_score b ns))"
    using max_by_score_max[of b ns] assms ready by auto
  ultimately have "\<exists>m \<in> set (hm_values (nodes w)). cn_name m = cn_name (max_by_score b ns) \<and> cn_status m = NodeReady
      \<and> (\<forall>n \<in> set (hm_values (nodes w)). cn_status n = NodeReady \<longrightarrow> \<not> f_gt (node_score n) (node_score m))"
    unfolding ready by (intro bexI[of _ "max_by_score b ns"]) blast+
  with Cons show ?thesis by (simp add: pick_node_def)
qed

definition node_at :: "string \<Rightarrow> u32 \<Rightarrow> node_status \<Rightarrow> cluster_node" where
  "node_at name pods st = \<lparr>cn_name = name, cn_address = name, cn_cpu_capacity = Num 100,
     cn_mem_capacity = Num 1000, cn_cpu_used = Zero False, cn_mem_used = Zero False, cn_pod_count = pods,
     cn_status = st, cn_last_heartbeat = 0, cn_neural_token = [], cn_joined_at = 0\<rparr>"

text \<open>
  Merging a peer's state never changes a local deployment or config map, and afterwards a
  deployment is known exactly when it was known before or the peer sent it.\<close>

theorem merge_keeps_local:
  assumes "hm_get (deployments w) k = Some d" and "hm_get (configmaps w) k' = Some c"
  shows "hm_get (deployments (fst (merge_state J now remote w))) k = Some d
   \<and> hm_get (configmaps (fst (merge_state J now remote w))) k' = Some c
   \<and> (\<forall>n. hm_contains (deployments (fst (merge_state J now remote w))) n \<longleftrightarrow>
        hm_contains (deployments w) n \<or> n \<in> fst ` set (js_object J remote ''deployments''))"
proof -
  define s where "s = fold (merge_namespace J) (unwrap_or (Option.bind (jv_get J remote ''namespaces'') (jv_as_array J)) [])
    (fold (merge_node J now) (js_object J remote ''nodes'') (w, []))"
  have sd: "deployments (fst s) = deployments w" by (simp add: s_def merge_prefix_deployments)
  have m: "merge_state J now remote w = fold (merge_configmap J) (js_object J remote ''configmaps'')
      (fold (merge_deployment J) (js_object J remote ''deployments'') s)"
    by (simp add: merge_state_def s_def)
  have md: "deployments (fst (merge_state J now remote w)) =
      deployments (fst (fold (merge_deployment J) (js_object J remote ''deployments'') s))"
    unfolding m by (rule fold_frame) (rule merge_frames)
  have cm: "configmaps (fst (fold (merge_deployment J) (js_object J remote ''deployments'') s)) = configmaps w"
    using fold_frame[of configmaps "merge_deployment J", OF merge_frames(6)]
      fold_frame[of configmaps "merge_namespace J", OF merge_frames(5)]
      fold_frame[of configmaps "merge_node J now", OF merge_frames(4)] by (simp add: s_def)
  have "hm_get (deployments (fst (merge_state J now remote w))) k = Some d"
    using merge_deployment_keeps[of "fst s" k d J _ "snd s"] assms(1) sd by (simp add: md)
  moreover have "hm_get (configmaps (fst (merge_state J now remote w))) k' = Some c"
    using merge_configmap_keeps[of "fst (fold (merge_deployment J) (js_object J remote ''deployments'') s)" k' c J _
        "snd (fold (merge_deployment J) (js_object J remote ''deployments'') s)"] assms(2) cm by (simp add: m)
  moreover have "hm_contains (deployments (fst (merge_state J now remote w))) n \<longleftrightarrow>
      hm_contains (deployments w) n \<or> n \<in> fst ` set (js_object J remote ''deployments'')" for n
    using merge_deployment_adds[of J "js_object J remote ''deployments''" s n] by (simp add: md sd)
  ultimately show ?thesis by blast
qed

text \<open>
  A health check marks NotReady exactly the other nodes that were Ready and have been
  silent for more than ninety seconds, and changes nothing else about any node.\<close>

theorem node_health_exact:
  assumes "world_ok w"
  shows "hm_get (nodes (fst (check_node_health me now w))) k =
    map_option (\<lambda>n. if k \<noteq> me \<and> cn_status n = NodeReady \<and> cn_last_heartbeat n < now \<and> 90 < now - cn_last_heartbeat n
                     then n\<lparr>cn_status := NodeNotReady\<rparr> else n) (hm_get (nodes w) k)"
proof -
  have "hm_ok (nodes w)" using assms by (auto dest: world_ok_keyed)
  moreover have "stale me now (k, n) \<longleftrightarrow>
      k \<noteq> me \<and> cn_status n = NodeReady \<and> cn_last_heartbeat n < now \<and> 90 < now - cn_last_heartbeat n" for n
    by (cases "now = cn_last_heartbeat n") (auto simp: stale_def saturating_sub_def)
  ultimately show ?thesis by (simp only: check_node_health_get)
qed

end
