(* ===== verification/Bytes.thy ===== *)
theory Bytes
  imports Rust_Str
begin

text \<open>
  Fixed-width integers as bytes, the wire form of the binary state file and of the mesh frames:
  \<open>to_le_bytes\<close>, \<open>to_be_bytes\<close> and their inverses. Writing truncates to the width, as the \<open>as\<close> casts of the
  source do before they write. Then the interface of a framed stream: what a receiver that collects bytes and
  takes whole frames off the front relies on. The mesh relays and the exec bridge provide it.
\<close>

fun le_bytes :: "nat \<Rightarrow> nat \<Rightarrow> string" where
  "le_bytes 0 v = []"
| "le_bytes (Suc n) v = char_of (v mod 256) # le_bytes n (v div 256)"

fun le_val :: "string \<Rightarrow> nat" where
  "le_val [] = 0"
| "le_val (c # cs) = of_char c + 256 * le_val cs"

definition be_bytes :: "nat \<Rightarrow> nat \<Rightarrow> string" where
  "be_bytes n v = rev (le_bytes n v)"

definition be_val :: "string \<Rightarrow> nat" where
  "be_val s = le_val (rev s)"

lemma length_le_bytes [simp]: "length (le_bytes n v) = n"
  by (induction n arbitrary: v) auto

lemma length_be_bytes [simp]: "length (be_bytes n v) = n"
  by (simp add: be_bytes_def)

lemma le_val_le_bytes: "le_val (le_bytes n v) = v mod 256 ^ n"
proof (induction n arbitrary: v)
  case (Suc n)
  have "v mod 256 + 256 * (v div 256 mod 256 ^ n) = v mod (256 * 256 ^ n)"
    by (simp add: mod_mult2_eq)
  with Suc show ?case by simp
qed simp

lemma le_val_exact: "v < 256 ^ n \<Longrightarrow> le_val (le_bytes n v) = v"
  by (simp add: le_val_le_bytes)

lemma be_val_exact: "v < 256 ^ n \<Longrightarrow> be_val (be_bytes n v) = v"
  by (simp add: be_val_def be_bytes_def le_val_le_bytes)

lemma le_val_less: "le_val s < 256 ^ length s"
proof (induction s)
  case (Cons c s)
  have "of_char c < (256 :: nat)" by (rule of_char_less_256)
  moreover have "256 * le_val s + 256 \<le> 256 * 256 ^ length s"
    using Cons by (metis Suc_leI mult_Suc_right mult_le_mono2 add.commute)
  ultimately have "le_val (c # s) < 256 * 256 ^ length s" unfolding le_val.simps by linarith
  then show ?case by simp
qed simp

subsection \<open>Framed streams\<close>

text \<open>
  \<open>step\<close> looks at a buffer and, when a whole frame is in front, gives its contents and its length. \<open>drain\<close>
  takes frames off the front while there are any, and \<open>recv\<close> appends what each read returns and drains.
\<close>

locale frame_stream =
  fixes step :: "string \<Rightarrow> ('o list \<times> nat) option"
    and drain :: "string \<Rightarrow> 'o list \<times> string"
    and recv :: "string list \<Rightarrow> string \<Rightarrow> 'o list \<times> string"
  assumes step_bound: "step b = Some (xs, n) \<Longrightarrow> 0 < n \<and> n \<le> length b"
    and step_append: "step b = Some (xs, n) \<Longrightarrow> step (b @ c) = Some (xs, n)"
    and drain_Some: "step b = Some (xs, n) \<Longrightarrow> drain b = (xs @ fst (drain (drop n b)), snd (drain (drop n b)))"
    and drain_None: "step b = None \<Longrightarrow> drain b = ([], b)"
    and recv_Nil: "recv [] b = ([], b)"
    and recv_Cons: "recv (c # cs) b =
      (fst (drain (b @ c)) @ fst (recv cs (snd (drain (b @ c)))), snd (recv cs (snd (drain (b @ c)))))"
begin

lemma drain_append:
  "drain (b @ c) = (fst (drain b) @ fst (drain (snd (drain b) @ c)), snd (drain (snd (drain b) @ c)))"
proof (induction "length b" arbitrary: b rule: less_induct)
  case less
  show ?case
  proof (cases "step b")
    case None
    then show ?thesis by (simp add: drain_None)
  next
    case (Some r)
    then obtain xs n where s: "step b = Some (xs, n)" by (cases r) simp
    then have n: "0 < n" "n \<le> length b" using step_bound by blast+
    then have "length (drop n b) < length b" by simp
    from less[OF this] n show ?thesis by (simp add: drain_Some[OF s] drain_Some[OF step_append[OF s]])
  qed
qed

lemma drain_rest: "step (snd (drain b)) = None"
proof (induction "length b" arbitrary: b rule: less_induct)
  case less
  show ?case
  proof (cases "step b")
    case None
    then show ?thesis by (simp add: drain_None)
  next
    case (Some r)
    then obtain xs n where s: "step b = Some (xs, n)" by (cases r) simp
    then have "length (drop n b) < length b" using step_bound[OF s] by auto
    from less[OF this] show ?thesis by (simp add: drain_Some[OF s])
  qed
qed

text \<open>However the bytes are cut into reads, the receiver delivers the same contents.\<close>

theorem recv_drain: "step b = None \<Longrightarrow> recv cs b = drain (b @ concat cs)"
proof (induction cs arbitrary: b)
  case Nil
  then show ?case by (simp add: recv_Nil drain_None)
next
  case (Cons c cs)
  show ?case
    using Cons.IH[OF drain_rest, of "b @ c"] drain_append[of "b @ c" "concat cs"] by (simp add: recv_Cons)
qed

lemma step_Nil: "step [] = None"
proof (cases "step []")
  case (Some r)
  then show ?thesis using step_bound[of "[]" "fst r" "snd r"] by auto
qed simp

theorem recv_frames:
  assumes "\<forall>f \<in> set fs. step (fst f) = Some (snd f, length (fst f))" and "concat cs = concat (map fst fs)"
  shows "recv cs [] = (concat (map snd fs), [])"
proof -
  have "drain (concat (map fst fs)) = (concat (map snd fs), [])"
    using assms(1)
  proof (induction fs)
    case Nil
    then show ?case by (simp add: drain_None step_Nil)
  next
    case (Cons f fs)
    then have "step (fst f @ concat (map fst fs)) = Some (snd f, length (fst f))" by (auto intro: step_append)
    from drain_Some[OF this] Cons show ?case by simp
  qed
  then show ?thesis using recv_drain[OF step_Nil, of cs] assms(2) by simp
qed

end

end
