(* ===== verification/Neural_State.thy ===== *)
theory Neural_State
  imports Bytes Float32
begin

text \<open>
  The key-value state store, \<^verbatim>\<open>src/src/neural_state.rs\<close>: entries in a vector, an index from key to
  position, a cached key matrix, and the binary file format. The embedding of a key and the dot
  product are array computations of a third-party crate and are parameters; an embedding is the
  list of its bit patterns. \<open>entries[idx]\<close> panics out of range.
\<close>

record state_entry =
  en_key :: string
  en_embedding :: "u32 list"
  en_value :: string

record neural_state =
  ns_dim :: nat
  ns_entries :: "state_entry list"
  ns_index :: "(string, nat) hmap"
  ns_key_matrix :: "u32 list list option"
  ns_version :: u64

definition MAGIC :: string where
  "MAGIC = ''NRNS''"

definition STATE_VERSION :: nat where
  "STATE_VERSION = 1"

definition ns_new :: neural_state where
  "ns_new = \<lparr>ns_dim = 64, ns_entries = [], ns_index = [], ns_key_matrix = None, ns_version = 0\<rparr>"

subsection \<open>Map operations\<close>

definition ns_set :: "(string \<Rightarrow> nat \<Rightarrow> u32 list) \<Rightarrow> string \<Rightarrow> string \<Rightarrow> neural_state \<Rightarrow> neural_state rust" where
  "ns_set emb_key key v s =
     (let s1 = s\<lparr>ns_key_matrix := None, ns_version := ns_version s + 1\<rparr>
      in case hm_get (ns_index s1) key of
           Some i \<Rightarrow>
             if i < length (ns_entries s1)
             then Ret (s1\<lparr>ns_entries := (ns_entries s1)[i := (ns_entries s1 ! i)\<lparr>en_value := v\<rparr>]\<rparr>)
             else Panic
         | None \<Rightarrow>
             Ret (s1\<lparr>ns_entries := ns_entries s1 @ [\<lparr>en_key = key, en_embedding = emb_key key (ns_dim s1), en_value = v\<rparr>],
                     ns_index := hm_insert key (length (ns_entries s1)) (ns_index s1)\<rparr>))"

definition ns_get :: "neural_state \<Rightarrow> string \<Rightarrow> string option rust" where
  "ns_get s key =
     (case hm_get (ns_index s) key of
        None \<Rightarrow> Ret None
      | Some i \<Rightarrow> if i < length (ns_entries s) then Ret (Some (en_value (ns_entries s ! i))) else Panic)"

text \<open>Swap-remove: the last entry moves into the freed slot and its index follows.\<close>

definition ns_delete :: "string \<Rightarrow> neural_state \<Rightarrow> (bool \<times> neural_state) rust" where
  "ns_delete key s =
     (case hm_get (ns_index s) key of
        None \<Rightarrow> Ret (False, s)
      | Some i \<Rightarrow>
          (let s1 = s\<lparr>ns_index := hm_remove key (ns_index s), ns_key_matrix := None, ns_version := ns_version s + 1\<rparr>;
               es = ns_entries s1
           in if es = [] then Panic
              else (let l = length es - 1
                    in if i = l then Ret (True, s1\<lparr>ns_entries := butlast es\<rparr>)
                       else if i < length es
                       then Ret (True, s1\<lparr>ns_entries := butlast (es[i := es ! l, l := es ! i]),
                                          ns_index := hm_insert (en_key (es ! l)) i (ns_index s1)\<rparr>)
                       else Panic)))"

definition ns_list_prefix :: "neural_state \<Rightarrow> string \<Rightarrow> string list" where
  "ns_list_prefix s prefix = filter (\<lambda>k. starts_with k prefix) (hm_keys (ns_index s))"

subsection \<open>Search\<close>

text \<open>The stable sort by descending score; unordered scores compare as equal.\<close>

fun insert_desc :: "'a \<times> f32 \<Rightarrow> ('a \<times> f32) list \<Rightarrow> ('a \<times> f32) list" where
  "insert_desc x [] = [x]"
| "insert_desc x (y # ys) = (if f_lt (snd y) (snd x) then x # y # ys else y # insert_desc x ys)"

definition sort_desc :: "('a \<times> f32) list \<Rightarrow> ('a \<times> f32) list" where
  "sort_desc xs = foldl (\<lambda>acc x. insert_desc x acc) [] xs"

definition ns_search ::
  "(string \<Rightarrow> nat \<Rightarrow> u32 list) \<Rightarrow> (u32 list \<Rightarrow> u32 list \<Rightarrow> f32) \<Rightarrow> string \<Rightarrow> nat \<Rightarrow> neural_state
   \<Rightarrow> (string \<times> f32) list \<times> neural_state" where
  "ns_search emb_key dot query top_k s =
     (if ns_entries s = [] then ([], s)
      else (let mat = (case ns_key_matrix s of Some m \<Rightarrow> m | None \<Rightarrow> map en_embedding (ns_entries s));
                q = emb_key query (ns_dim s);
                scored = zip [0..<length mat] (map (\<lambda>row. dot row q) mat)
            in (map (\<lambda>(i, sc). (en_key (ns_entries s ! i), sc)) (take top_k (sort_desc scored)),
                s\<lparr>ns_key_matrix := Some mat\<rparr>)))"

subsection \<open>The binary file\<close>

definition encode_entry :: "state_entry \<Rightarrow> string" where
  "encode_entry e =
     le_bytes 4 (length (en_key e)) @ en_key e @ concat (map (\<lambda>w. le_bytes 4 (unat w)) (en_embedding e))
     @ le_bytes 4 (length (en_value e)) @ en_value e"

definition ns_save :: "neural_state \<Rightarrow> string" where
  "ns_save s =
     MAGIC @ le_bytes 4 STATE_VERSION @ le_bytes 4 (length (ns_entries s)) @ le_bytes 4 (ns_dim s)
     @ le_bytes 8 (unat (ns_version s)) @ concat (map encode_entry (ns_entries s))"

text \<open>The rest of the file after the current position; a length check that fails returns its error.\<close>

fun read_floats :: "nat \<Rightarrow> string \<Rightarrow> u32 list \<times> string" where
  "read_floats 0 rest = ([], rest)"
| "read_floats (Suc n) rest =
     (let (ws, r) = read_floats n (drop 4 rest) in (of_nat (le_val (take 4 rest)) # ws, r))"

definition load_entry :: "nat \<Rightarrow> nat \<Rightarrow> string \<Rightarrow> (state_entry \<times> string) result" where
  "load_entry i dm r0 =
     (if length r0 < 4 then Inl (''truncated at entry '' @ show_nat i)
      else let key_len = le_val (take 4 r0); r1 = drop 4 r0
      in if length r1 < key_len then Inl (''truncated key at entry '' @ show_nat i)
      else let key = utf8_lossy (take key_len r1); r2 = drop key_len r1
      in if length r2 < dm * 4 then Inl (''truncated embedding at entry '' @ show_nat i)
      else let (emb, r3) = read_floats dm r2
      in if length r3 < 4 then Inl (''truncated at value header '' @ show_nat i)
      else let val_len = le_val (take 4 r3); r4 = drop 4 r3
      in if length r4 < val_len then Inl (''truncated value at entry '' @ show_nat i)
      else Inr (\<lparr>en_key = key, en_embedding = emb, en_value = take val_len r4\<rparr>, drop val_len r4))"

fun load_entries ::
  "nat \<Rightarrow> nat \<Rightarrow> nat \<Rightarrow> string \<Rightarrow> state_entry list \<Rightarrow> (string, nat) hmap \<Rightarrow> (state_entry list \<times> (string, nat) hmap) result" where
  "load_entries i 0 dm rest es ix = Inr (es, ix)"
| "load_entries i (Suc n) dm rest es ix =
     (case load_entry i dm rest of
        Inl e \<Rightarrow> Inl e
      | Inr (en, rest') \<Rightarrow> load_entries (Suc i) n dm rest' (es @ [en]) (hm_insert (en_key en) i ix))"

text \<open>The size check asks for 20 bytes although the header has 24: the slice of the counter panics in between.\<close>

definition ns_load :: "string \<Rightarrow> neural_state result rust" where
  "ns_load d =
     (if length d < 20 then Ret (Inl ''file too small'')
      else if take 4 d \<noteq> MAGIC then Ret (Inl ''bad magic'')
      else let ver = le_val (take 4 (drop 4 d))
      in if ver \<noteq> STATE_VERSION then Ret (Inl (''unsupported version: '' @ show_nat ver))
      else if length d < 24 then Panic
      else let count = le_val (take 4 (drop 8 d)); dm = le_val (take 4 (drop 12 d));
               version = of_nat (le_val (take 8 (drop 16 d)))
      in (case load_entries 0 count dm (drop 24 d) [] [] of
            Inl e \<Rightarrow> Ret (Inl e)
          | Inr (es, ix) \<Rightarrow> Ret (Inr \<lparr>ns_dim = dm, ns_entries = es, ns_index = ix, ns_key_matrix = None,
                                     ns_version = version\<rparr>)))"

subsection \<open>The invariant\<close>

text \<open>The index inverts the keys of the entries, and a cached matrix is the current one.\<close>

definition ns_ok :: "neural_state \<Rightarrow> bool" where
  "ns_ok s =
     (hm_ok (ns_index s) \<and> distinct (map en_key (ns_entries s))
      \<and> set (hm_keys (ns_index s)) = set (map en_key (ns_entries s))
      \<and> (\<forall>i < length (ns_entries s). hm_get (ns_index s) (en_key (ns_entries s ! i)) = Some i)
      \<and> (case ns_key_matrix s of None \<Rightarrow> True | Some m \<Rightarrow> m = map en_embedding (ns_entries s)))"

definition ns_map :: "neural_state \<Rightarrow> string \<Rightarrow> string option" where
  "ns_map s = map_of (map (\<lambda>e. (en_key e, en_value e)) (ns_entries s))"

subsection \<open>Lemmas: the index\<close>

lemma hm_keys_iff: "k \<in> set (hm_keys m) \<longleftrightarrow> (\<exists>v. hm_get m k = Some v)"
  by (induction m) (auto simp: hm_keys_def hm_get_Cons)

lemma key_mem: "k \<in> set (map en_key es) \<longleftrightarrow> (\<exists>i. i < length es \<and> en_key (es ! i) = k)"
  by (metis in_set_conv_nth length_map nth_map)

lemma ns_ok_alt:
  "ns_ok s \<longleftrightarrow> hm_ok (ns_index s) \<and> distinct (map en_key (ns_entries s))
     \<and> (\<forall>k i. hm_get (ns_index s) k = Some i \<longleftrightarrow> i < length (ns_entries s) \<and> en_key (ns_entries s ! i) = k)
     \<and> (case ns_key_matrix s of None \<Rightarrow> True | Some m \<Rightarrow> m = map en_embedding (ns_entries s))" (is "_ \<longleftrightarrow> ?R")
proof
  assume a: "ns_ok s"
  have "hm_get (ns_index s) k = Some i \<longleftrightarrow> i < length (ns_entries s) \<and> en_key (ns_entries s ! i) = k" for k i
  proof
    assume g: "hm_get (ns_index s) k = Some i"
    then have "k \<in> set (hm_keys (ns_index s))" by (force simp: hm_keys_def dest: hm_get_Some_in)
    with a obtain j where "j < length (ns_entries s)" "en_key (ns_entries s ! j) = k"
      by (auto simp: ns_ok_def in_set_conv_nth)
    with a g show "i < length (ns_entries s) \<and> en_key (ns_entries s ! i) = k" by (auto simp: ns_ok_def)
  qed (use a in \<open>auto simp: ns_ok_def\<close>)
  with a show ?R by (simp add: ns_ok_def)
next
  assume r: ?R
  then have ix: "hm_get (ns_index s) k = Some i \<longleftrightarrow> i < length (ns_entries s) \<and> en_key (ns_entries s ! i) = k" for k i
    by blast
  then have "set (hm_keys (ns_index s)) = set (map en_key (ns_entries s))"
    unfolding set_eq_iff key_mem hm_keys_iff ix by blast
  with r ix show "ns_ok s" unfolding ns_ok_def by blast
qed

lemma ns_index_iff:
  "ns_ok s \<Longrightarrow> hm_get (ns_index s) k = Some i \<longleftrightarrow> i < length (ns_entries s) \<and> en_key (ns_entries s ! i) = k"
  by (simp add: ns_ok_alt)

lemma ns_map_nth:
  assumes "ns_ok s" and "i < length (ns_entries s)"
  shows "ns_map s (en_key (ns_entries s ! i)) = Some (en_value (ns_entries s ! i))"
proof -
  have "distinct (map fst (map (\<lambda>e. (en_key e, en_value e)) (ns_entries s)))"
    using assms by (simp add: ns_ok_def comp_def)
  with assms show ?thesis by (auto simp: ns_map_def map_of_eq_Some_iff)
qed

lemma ns_map_None: "ns_map s k = None \<longleftrightarrow> k \<notin> set (map en_key (ns_entries s))"
  by (simp add: ns_map_def map_of_eq_None_iff image_image)

lemma ns_index_None: "ns_ok s \<Longrightarrow> hm_get (ns_index s) k = None \<longleftrightarrow> ns_map s k = None"
proof -
  assume a: "ns_ok s"
  have "hm_get (ns_index s) k = None \<longleftrightarrow> (\<nexists>i. hm_get (ns_index s) k = Some i)" by auto
  then show ?thesis unfolding ns_map_None key_mem ns_index_iff[OF a] .
qed

lemma ns_map_ext:
  assumes "ns_ok s"
    and "\<And>i. i < length (ns_entries s) \<Longrightarrow> f (en_key (ns_entries s ! i)) = Some (en_value (ns_entries s ! i))"
    and "\<And>k. k \<notin> set (map en_key (ns_entries s)) \<Longrightarrow> f k = None"
  shows "ns_map s = f"
proof
  fix k show "ns_map s k = f k"
  proof (cases "k \<in> set (map en_key (ns_entries s))")
    case True
    then obtain i where "i < length (ns_entries s)" "k = en_key (ns_entries s ! i)"
      by (auto simp: in_set_conv_nth)
    with assms(2) ns_map_nth[OF assms(1)] show ?thesis by simp
  next
    case False
    with assms(3) show ?thesis using ns_map_None by metis
  qed
qed

subsection \<open>Lemmas: the operations refine a map\<close>

lemma ns_ok_new: "ns_ok ns_new"
  by (simp add: ns_ok_def ns_new_def hm_keys_def)

lemma ns_get_ok: "ns_ok s \<Longrightarrow> ns_get s k = Ret (ns_map s k)"
  using ns_index_iff[of s k] ns_map_nth[of s] ns_index_None[of s k]
  by (auto simp: ns_get_def split: option.splits)

lemma ns_set_new:
  assumes "ns_ok s" and "hm_get (ns_index s) k = None"
  shows "\<exists>s'. ns_set emb k v s = Ret s' \<and> ns_ok s' \<and> ns_map s' = (ns_map s)(k \<mapsto> v)"
proof -
  let ?e = "\<lparr>en_key = k, en_embedding = emb k (ns_dim s), en_value = v\<rparr>"
  define s' where "s' = s\<lparr>ns_key_matrix := None, ns_version := ns_version s + 1, ns_entries := ns_entries s @ [?e],
    ns_index := hm_insert k (length (ns_entries s)) (ns_index s)\<rparr>"
  have k: "k \<notin> set (map en_key (ns_entries s))" using assms ns_index_None ns_map_None by metis
  have "ns_ok s'"
    using assms(1) k by (auto simp: ns_ok_alt s'_def nth_append less_Suc_eq split: if_splits)
  moreover have "ns_map s' = (ns_map s)(k \<mapsto> v)"
  proof (rule ns_map_ext[OF \<open>ns_ok s'\<close>])
    fix i assume "i < length (ns_entries s')"
    then show "((ns_map s)(k \<mapsto> v)) (en_key (ns_entries s' ! i)) = Some (en_value (ns_entries s' ! i))"
      using k ns_map_nth[OF assms(1), of i] by (auto simp: s'_def nth_append)
  qed (simp add: s'_def, metis ns_map_None list.set_map)
  moreover have "ns_set emb k v s = Ret s'" using assms(2) by (simp add: ns_set_def s'_def)
  ultimately show ?thesis by blast
qed

lemma ns_set_old:
  assumes "ns_ok s" and "hm_get (ns_index s) k = Some i"
  shows "\<exists>s'. ns_set emb k v s = Ret s' \<and> ns_ok s' \<and> ns_map s' = (ns_map s)(k \<mapsto> v)"
proof -
  have i: "i < length (ns_entries s)" "en_key (ns_entries s ! i) = k" using assms ns_index_iff by auto
  define s' where "s' = s\<lparr>ns_key_matrix := None, ns_version := ns_version s + 1,
    ns_entries := (ns_entries s)[i := (ns_entries s ! i)\<lparr>en_value := v\<rparr>]\<rparr>"
  have keys: "map en_key (ns_entries s') = map en_key (ns_entries s)"
    using i by (simp add: s'_def map_update list_update_same_conv)
  then have nth: "en_key (ns_entries s' ! j) = en_key (ns_entries s ! j)" if "j < length (ns_entries s)" for j
    using that by (metis nth_map length_map)
  have len: "length (ns_entries s') = length (ns_entries s)" by (simp add: s'_def)
  have "ns_ok s'"
    unfolding ns_ok_alt keys len using assms(1) nth by (auto simp: ns_ok_alt s'_def)
  moreover have "ns_map s' = (ns_map s)(k \<mapsto> v)"
  proof (rule ns_map_ext[OF \<open>ns_ok s'\<close>])
    fix j assume "j < length (ns_entries s')"
    then have j: "j < length (ns_entries s)" by (simp add: len)
    have "en_key (ns_entries s ! j) = k \<longleftrightarrow> j = i"
      using ns_index_iff[OF assms(1), of k j] assms(2) j by auto
    then show "((ns_map s)(k \<mapsto> v)) (en_key (ns_entries s' ! j)) = Some (en_value (ns_entries s' ! j))"
      using ns_map_nth[OF assms(1) j] nth[OF j] j by (auto simp: s'_def)
  next
    fix k' assume "k' \<notin> set (map en_key (ns_entries s'))"
    then have "k' \<notin> set (map en_key (ns_entries s))" unfolding keys .
    then have "ns_map s k' = None" and "k' \<noteq> k"
      unfolding ns_map_None key_mem using i by blast+
    then show "((ns_map s)(k \<mapsto> v)) k' = None" by simp
  qed
  moreover have "ns_set emb k v s = Ret s'" using assms(2) i by (simp add: ns_set_def s'_def)
  ultimately show ?thesis by blast
qed

lemma ns_set_ok:
  "ns_ok s \<Longrightarrow> \<exists>s'. ns_set emb k v s = Ret s' \<and> ns_ok s' \<and> ns_map s' = (ns_map s)(k \<mapsto> v)"
  using ns_set_new ns_set_old by (cases "hm_get (ns_index s) k") blast+

lemma butlast_swap:
  assumes "i < length es - 1"
  shows "butlast (es[i := es ! (length es - 1), length es - 1 := es ! i]) = (butlast es)[i := es ! (length es - 1)]"
  using assms by (intro nth_equalityI) (auto simp: nth_butlast nth_list_update)

lemma ns_delete_last:
  assumes "ns_ok s" and "hm_get (ns_index s) k = Some i" and "i = length (ns_entries s) - 1"
  shows "\<exists>s'. ns_delete k s = Ret (True, s') \<and> ns_ok s' \<and> ns_map s' = (ns_map s)(k := None)"
proof -
  let ?es = "ns_entries s"
  have i: "i < length ?es" "en_key (?es ! i) = k" using assms ns_index_iff by auto
  define s' where "s' = s\<lparr>ns_index := hm_remove k (ns_index s), ns_key_matrix := None,
    ns_version := ns_version s + 1, ns_entries := butlast ?es\<rparr>"
  have uniq: "en_key (?es ! j) = k \<longleftrightarrow> j = i" if "j < length ?es" for j
    using ns_index_iff[OF assms(1), of k j] assms(2) that by auto
  have ok: "ns_ok s'"
    unfolding ns_ok_alt
  proof (intro conjI allI)
    show "hm_ok (ns_index s')" using assms(1) by (simp add: s'_def ns_ok_def)
    show "distinct (map en_key (ns_entries s'))"
      using assms(1) by (simp add: s'_def ns_ok_def map_butlast distinct_butlast)
    show "hm_get (ns_index s') k' = Some j \<longleftrightarrow> j < length (ns_entries s') \<and> en_key (ns_entries s' ! j) = k'" for k' j
      using ns_index_iff[OF assms(1), of k' j] uniq[of j] i assms(3)
      by (auto simp: s'_def nth_butlast)
  qed (simp add: s'_def)
  moreover have "ns_map s' = (ns_map s)(k := None)"
  proof (rule ns_map_ext[OF ok])
    fix j assume "j < length (ns_entries s')"
    then have "j < length ?es" "j \<noteq> i" using assms(3) by (auto simp: s'_def)
    then show "((ns_map s)(k := None)) (en_key (ns_entries s' ! j)) = Some (en_value (ns_entries s' ! j))"
      using uniq[of j] ns_map_nth[OF assms(1), of j] assms(3) by (simp add: s'_def nth_butlast)
  next
    fix k' assume n: "k' \<notin> set (map en_key (ns_entries s'))"
    have "k' \<notin> set (map en_key ?es)" if "k' \<noteq> k"
    proof
      assume "k' \<in> set (map en_key ?es)"
      then obtain j where "j < length ?es" "en_key (?es ! j) = k'" unfolding key_mem by blast
      moreover from this that i assms(3) have "j < length ?es - 1" by (cases "j = i") auto
      ultimately have "j < length (ns_entries s')" "en_key (ns_entries s' ! j) = k'"
        by (simp_all add: s'_def nth_butlast)
      with n show False unfolding key_mem by blast
    qed
    then show "((ns_map s)(k := None)) k' = None" using ns_map_None by simp
  qed
  moreover have "ns_delete k s = Ret (True, s')"
    using assms(2,3) i by (auto simp: ns_delete_def s'_def Let_def)
  ultimately show ?thesis by blast
qed

lemma ns_delete_inner:
  assumes "ns_ok s" and "hm_get (ns_index s) k = Some i" and "i \<noteq> length (ns_entries s) - 1"
  shows "\<exists>s'. ns_delete k s = Ret (True, s') \<and> ns_ok s' \<and> ns_map s' = (ns_map s)(k := None)"
proof -
  let ?es = "ns_entries s" let ?l = "length (ns_entries s) - 1"
  have i: "i < ?l" "en_key (?es ! i) = k" using assms ns_index_iff by force+
  define kl where "kl = en_key (?es ! ?l)"
  define s' where "s' = s\<lparr>ns_key_matrix := None, ns_version := ns_version s + 1,
    ns_entries := (butlast ?es)[i := ?es ! ?l], ns_index := hm_insert kl i (hm_remove k (ns_index s))\<rparr>"
  have len: "length (ns_entries s') = ?l" by (simp add: s'_def)
  have nth: "ns_entries s' ! j = (if j = i then ?es ! ?l else ?es ! j)" if "j < ?l" for j
    using that by (simp add: s'_def nth_butlast nth_list_update)
  have ix: "hm_get (ns_index s) k' = Some j \<longleftrightarrow> j < length ?es \<and> en_key (?es ! j) = k'" for k' j
    by (rule ns_index_iff[OF assms(1)])
  have kl: "hm_get (ns_index s) kl = Some ?l" using i(1) by (simp add: ix kl_def)
  have get': "hm_get (ns_index s') k' = (if k' = kl then Some i else if k' = k then None else hm_get (ns_index s) k')" for k'
    by (simp add: s'_def)
  have ix': "hm_get (ns_index s') k' = Some j \<longleftrightarrow> j < ?l \<and> en_key (ns_entries s' ! j) = k'" for k' j
  proof (cases "j < ?l")
    case True
    have "kl \<noteq> k" using kl assms(2,3) by auto
    with True show ?thesis
      using ix[of k' j] ix[of kl j] ix[of k j] kl assms(2) i by (auto simp: nth get' kl_def)
  next
    case False
    then have "j < length ?es \<Longrightarrow> j = ?l" by linarith
    with False show ?thesis using ix[of k' j] kl i(1) by (auto simp: get' kl_def)
  qed
  have dist: "distinct (map en_key (ns_entries s'))"
  proof (unfold distinct_conv_nth, intro allI impI)
    fix a b assume "a < length (map en_key (ns_entries s'))" "b < length (map en_key (ns_entries s'))" "a \<noteq> b"
    then show "map en_key (ns_entries s') ! a \<noteq> map en_key (ns_entries s') ! b"
      using ix'[of "en_key (ns_entries s' ! a)" a] ix'[of "en_key (ns_entries s' ! a)" b] by (auto simp: len)
  qed
  have ok: "ns_ok s'"
    unfolding ns_ok_alt len using ix' dist assms(1) by (auto simp: s'_def ns_ok_def)
  moreover have "ns_map s' = (ns_map s)(k := None)"
  proof (rule ns_map_ext[OF ok])
    fix j assume "j < length (ns_entries s')"
    then have j: "j < ?l" by (simp add: len)
    then have "en_key (ns_entries s' ! j) \<noteq> k"
      using ix[of k j] ix[of k ?l] assms(2,3) i(1) by (auto simp: nth)
    with j show "((ns_map s)(k := None)) (en_key (ns_entries s' ! j)) = Some (en_value (ns_entries s' ! j))"
      using ns_map_nth[OF assms(1), of j] ns_map_nth[OF assms(1), of ?l] by (auto simp: nth)
  next
    fix k' assume n: "k' \<notin> set (map en_key (ns_entries s'))"
    have "hm_get (ns_index s) k' = None" if "k' \<noteq> k"
    proof (cases "hm_get (ns_index s) k'")
      case (Some j)
      then have "hm_get (ns_index s') k' \<noteq> None" using that by (simp add: s'_def)
      then obtain j' where "hm_get (ns_index s') k' = Some j'" by blast
      with n show ?thesis unfolding ix' key_mem len by blast
    qed
    then show "((ns_map s)(k := None)) k' = None" using ns_index_None[OF assms(1)] by simp
  qed
  moreover have "ns_delete k s = Ret (True, s')"
    using assms(2,3) i butlast_swap[of i ?es] by (auto simp: ns_delete_def s'_def kl_def Let_def)
  ultimately show ?thesis by blast
qed

lemma ns_delete_ok:
  assumes "ns_ok s"
  shows "\<exists>s'. ns_delete k s = Ret (ns_map s k \<noteq> None, s') \<and> ns_ok s' \<and> ns_map s' = (ns_map s)(k := None)"
proof (cases "hm_get (ns_index s) k")
  case None
  then have "ns_map s k = None" using ns_index_None[OF assms] by blast
  with None assms show ?thesis by (auto simp: ns_delete_def)
next
  case (Some i)
  then have "ns_map s k \<noteq> None" using ns_index_None[OF assms, of k] by simp
  with ns_delete_last[OF assms Some] ns_delete_inner[OF assms Some] show ?thesis by auto
qed

text \<open>The store offers the exact-key interface.\<close>

definition ns_put :: "(string \<Rightarrow> nat \<Rightarrow> u32 list) \<Rightarrow> string \<Rightarrow> string \<Rightarrow> neural_state \<Rightarrow> neural_state" where
  "ns_put emb k v s = (case ns_set emb k v s of Ret s' \<Rightarrow> s' | Panic \<Rightarrow> s)"

definition ns_del :: "string \<Rightarrow> neural_state \<Rightarrow> neural_state" where
  "ns_del k s = (case ns_delete k s of Ret r \<Rightarrow> snd r | Panic \<Rightarrow> s)"

lemma ns_put_ok: "ns_ok s \<Longrightarrow> ns_ok (ns_put emb k v s) \<and> ns_map (ns_put emb k v s) = (ns_map s)(k \<mapsto> v)"
  using ns_set_ok[of s emb k v] by (auto simp: ns_put_def)

lemma ns_del_ok: "ns_ok s \<Longrightarrow> ns_ok (ns_del k s) \<and> ns_map (ns_del k s) = (ns_map s)(k := None)"
  using ns_delete_ok[of s k] by (auto simp: ns_del_def)

lemma ns_map_new: "ns_map ns_new k = None"
  by (simp add: ns_map_def ns_new_def)

interpretation ns: kv_store ns_new ns_map "ns_put emb" ns_del ns_ok for emb
  by unfold_locales (simp_all add: ns_ok_new ns_put_ok ns_del_ok ns_map_new)

subsection \<open>Lemmas: the file round trip\<close>

definition entry_fits :: "nat \<Rightarrow> state_entry \<Rightarrow> bool" where
  "entry_fits dm e =
     (utf8_valid (en_key e) \<and> length (en_key e) < 2 ^ 32 \<and> length (en_embedding e) = dm \<and> length (en_value e) < 2 ^ 32)"

definition ns_fits :: "neural_state \<Rightarrow> bool" where
  "ns_fits s =
     (list_all (entry_fits (ns_dim s)) (ns_entries s) \<and> length (ns_entries s) < 2 ^ 32 \<and> ns_dim s < 2 ^ 32)"

lemma read_floats_encode:
  "read_floats (length ws) (concat (map (\<lambda>w. le_bytes 4 (unat w)) ws) @ rest) = (ws, rest)"
proof (induction ws)
  case (Cons w ws)
  have "unat w < 256 ^ 4" using unat_bound[of w] by simp
  with Cons show ?case by (simp add: le_val_exact)
qed simp

lemma load_entry_encode:
  assumes "entry_fits dm e"
  shows "load_entry i dm (encode_entry e @ rest) = Inr (e, rest)"
proof -
  let ?f = "concat (map (\<lambda>w. le_bytes 4 (unat w)) (en_embedding e))"
  have fits: "utf8_valid (en_key e)" "length (en_key e) < 256 ^ 4" "length (en_embedding e) = dm"
    "length (en_value e) < 256 ^ 4"
    using assms by (simp_all add: entry_fits_def)
  have f: "length ?f = dm * 4" using fits(3) by (simp add: length_concat comp_def sum_list_triv)
  have "read_floats dm (?f @ le_bytes 4 (length (en_value e)) @ en_value e @ rest)
      = (en_embedding e, le_bytes 4 (length (en_value e)) @ en_value e @ rest)"
    using read_floats_encode[of "en_embedding e"] fits(3) by simp
  with fits f show ?thesis
    by (simp add: load_entry_def encode_entry_def le_val_exact utf8_lossy_valid Let_def)
qed

lemma load_entries_encode:
  "list_all (entry_fits dm) es \<Longrightarrow>
     load_entries i (length es) dm (concat (map encode_entry es) @ rest) es0 ix =
       Inr (es0 @ es, hm_extend ix (zip (map en_key es) [i..<i + length es]))"
proof (induction es arbitrary: i es0 ix)
  case (Cons e es)
  have "[i..<i + length (e # es)] = i # [Suc i..<Suc i + length es]" by (simp add: upt_rec)
  with Cons show ?case by (simp add: load_entry_encode)
qed simp

lemma collected_index:
  assumes "distinct ks"
  shows "hm_get (hm_collect (zip ks [0..<length ks])) k = Some i \<longleftrightarrow> i < length ks \<and> ks ! i = k"
proof -
  have "distinct (map fst (rev (zip ks [0..<length ks])))" using assms by (simp flip: rev_map)
  then have "hm_get (hm_collect (zip ks [0..<length ks])) k = Some i \<longleftrightarrow> (k, i) \<in> set (zip ks [0..<length ks])"
    by (simp add: hm_collect_get map_of_eq_Some_iff)
  then show ?thesis by (auto simp: in_set_zip)
qed

lemma ns_load_save:
  assumes "ns_ok s" and "ns_fits s"
  shows "\<exists>s'. ns_load (ns_save s) = Ret (Inr s') \<and> ns_ok s' \<and> ns_entries s' = ns_entries s
    \<and> ns_dim s' = ns_dim s \<and> ns_version s' = ns_version s \<and> ns_map s' = ns_map s"
proof -
  let ?es = "ns_entries s"
  let ?ix = "hm_collect (zip (map en_key ?es) [0..<0 + length ?es])"
  define s' where "s' = \<lparr>ns_dim = ns_dim s, ns_entries = ?es, ns_index = ?ix, ns_key_matrix = None, ns_version = ns_version s\<rparr>"
  have fits: "list_all (entry_fits (ns_dim s)) ?es" "length ?es < 256 ^ 4" "ns_dim s < 256 ^ 4"
    using assms(2) by (simp_all add: ns_fits_def)
  have ver: "unat (ns_version s) < 256 ^ 8" using unat_bound[of "ns_version s"] by simp
  have "load_entries 0 (length ?es) (ns_dim s) (concat (map encode_entry ?es) @ []) [] [] = Inr ([] @ ?es, ?ix)"
    by (rule load_entries_encode[OF fits(1)])
  then have "ns_load (ns_save s) = Ret (Inr s')"
    using fits ver by (simp add: ns_load_def ns_save_def MAGIC_def STATE_VERSION_def le_val_exact s'_def Let_def)
  moreover have "ns_ok s'"
    using assms(1) collected_index[of "map en_key ?es"] by (auto simp: ns_ok_alt s'_def)
  ultimately show ?thesis by (auto simp: s'_def ns_map_def)
qed

subsection \<open>Runs of operations against a finite map\<close>

datatype ns_op = OpSet string string | OpGet string | OpDelete string

datatype ns_out = Stored | Got "string option" | Deleted bool

fun ns_step :: "(string \<Rightarrow> nat \<Rightarrow> u32 list) \<Rightarrow> ns_op \<Rightarrow> neural_state \<Rightarrow> (ns_out \<times> neural_state) rust" where
  "ns_step emb (OpSet k v) s = rust_bind (ns_set emb k v s) (\<lambda>s'. Ret (Stored, s'))"
| "ns_step emb (OpGet k) s = rust_bind (ns_get s k) (\<lambda>v. Ret (Got v, s))"
| "ns_step emb (OpDelete k) s = rust_bind (ns_delete k s) (\<lambda>(b, s'). Ret (Deleted b, s'))"

fun map_step :: "ns_op \<Rightarrow> (string \<Rightarrow> string option) \<Rightarrow> ns_out \<times> (string \<Rightarrow> string option)" where
  "map_step (OpSet k v) m = (Stored, m(k \<mapsto> v))"
| "map_step (OpGet k) m = (Got (m k), m)"
| "map_step (OpDelete k) m = (Deleted (m k \<noteq> None), m(k := None))"

fun ns_run :: "(string \<Rightarrow> nat \<Rightarrow> u32 list) \<Rightarrow> ns_op list \<Rightarrow> neural_state \<Rightarrow> (ns_out list \<times> neural_state) rust" where
  "ns_run emb [] s = Ret ([], s)"
| "ns_run emb (p # ps) s =
     rust_bind (ns_step emb p s) (\<lambda>(out, s1). rust_bind (ns_run emb ps s1) (\<lambda>(outs, s2). Ret (out # outs, s2)))"

fun map_run :: "ns_op list \<Rightarrow> (string \<Rightarrow> string option) \<Rightarrow> ns_out list \<times> (string \<Rightarrow> string option)" where
  "map_run [] m = ([], m)"
| "map_run (p # ps) m = (let (out, m1) = map_step p m; (outs, m2) = map_run ps m1 in (out # outs, m2))"

lemma ns_step_simulates:
  assumes "ns_ok s"
  shows "\<exists>s'. ns_step emb p s = Ret (fst (map_step p (ns_map s)), s') \<and> ns_ok s' \<and> ns_map s' = snd (map_step p (ns_map s))"
proof (cases p)
  case (OpSet k v)
  then show ?thesis using ns_set_ok[OF assms, of emb k v] by auto
next
  case (OpGet k)
  then show ?thesis using ns_get_ok[OF assms, of k] assms by simp
next
  case (OpDelete k)
  then show ?thesis using ns_delete_ok[OF assms, of k] by auto
qed

lemma ns_run_simulates:
  "ns_ok s \<Longrightarrow> \<exists>s'. ns_run emb ps s = Ret (fst (map_run ps (ns_map s)), s') \<and> ns_ok s'
     \<and> ns_map s' = snd (map_run ps (ns_map s))"
proof (induction ps arbitrary: s)
  case (Cons p ps)
  obtain s1 where s1: "ns_step emb p s = Ret (fst (map_step p (ns_map s)), s1)" "ns_ok s1"
    "ns_map s1 = snd (map_step p (ns_map s))"
    using ns_step_simulates[OF Cons.prems] by blast
  then show ?case using Cons.IH[OF s1(2)] by (auto simp: split_def Let_def)
qed simp

lemma ns_search_ok:
  "ns_ok s \<Longrightarrow> ns_ok (snd (ns_search emb dot q k s)) \<and> ns_map (snd (ns_search emb dot q k s)) = ns_map s"
  by (auto simp: ns_search_def ns_ok_def ns_map_def Let_def split: option.splits)

lemma insert_desc_mset: "mset (insert_desc x ys) = add_mset x (mset ys)"
  by (induction x ys rule: insert_desc.induct) auto

lemma sort_desc_mset: "mset (sort_desc xs) = mset xs"
proof -
  have "mset (foldl (\<lambda>acc x. insert_desc x acc) a xs) = mset a + mset xs" for a
    by (induction xs arbitrary: a) (simp_all add: insert_desc_mset)
  then show ?thesis by (simp add: sort_desc_def)
qed

lemma sort_desc_length [simp]: "length (sort_desc xs) = length xs"
  using arg_cong[OF sort_desc_mset[of xs], of size] by simp

lemma insert_desc_sorted:
  assumes "sorted_wrt (\<lambda>a b. \<not> f_lt (snd a) (snd b)) ys" and "\<forall>y \<in> set ys. snd y \<noteq> NaN"
  shows "sorted_wrt (\<lambda>a b. \<not> f_lt (snd a) (snd b)) (insert_desc x ys)"
  using assms
proof (induction x ys rule: insert_desc.induct)
  case (2 x y ys)
  have set: "set (insert_desc x ys) = insert x (set ys)"
    using arg_cong[OF insert_desc_mset[of x ys], of set_mset] by simp
  show ?case
  proof (cases "f_lt (snd y) (snd x)")
    case True
    have "\<not> f_lt (snd x) (snd z)" if "z \<in> set (y # ys)" for z
      using 2(2,3) that True f_lt_neg_trans[OF True, of "snd z"] f_lt_asym by auto
    with True 2(2) show ?thesis by simp
  next
    case False
    with 2 set show ?thesis by auto
  qed
qed simp

lemma sort_desc_sorted:
  assumes "\<forall>x \<in> set xs. snd x \<noteq> NaN"
  shows "sorted_wrt (\<lambda>a b. \<not> f_lt (snd a) (snd b)) (sort_desc xs)"
proof -
  have "sorted_wrt (\<lambda>a b. \<not> f_lt (snd a) (snd b)) (foldl (\<lambda>acc x. insert_desc x acc) a xs)"
    if "sorted_wrt (\<lambda>a b. \<not> f_lt (snd a) (snd b)) a" "\<forall>x \<in> set a \<union> set xs. snd x \<noteq> NaN" for a :: "('a \<times> flt) list"
    using that
  proof (induction xs arbitrary: a)
    case (Cons x xs)
    have "set (insert_desc x a) = insert x (set a)"
      using arg_cong[OF insert_desc_mset[of x a], of set_mset] by simp
    with Cons.prems Cons.IH[of "insert_desc x a"] insert_desc_sorted[of a x] show ?case by auto
  qed simp
  then show ?thesis using assms by (simp add: sort_desc_def)
qed

lemma ns_search_sorted:
  assumes "\<And>a b. dot a b \<noteq> NaN"
  shows "sorted_wrt (\<lambda>a b. \<not> f_lt (snd a) (snd b)) (fst (ns_search emb dot q k s))"
proof -
  have "sorted_wrt (\<lambda>a b. \<not> f_lt (snd a) (snd b)) (take k (sort_desc (zip [0..<length m] (map (\<lambda>row. dot row x) m))))" for m x
  proof (rule sorted_wrt_take, rule sort_desc_sorted)
    show "\<forall>y \<in> set (zip [0..<length m] (map (\<lambda>row. dot row x) m)). snd y \<noteq> NaN"
      using assms by (auto dest!: set_zip_rightD) (metis assms)
  qed
  then show ?thesis by (auto simp: ns_search_def Let_def sorted_wrt_map split_def)
qed

subsection \<open>Properties\<close>

text \<open>C31: the state store refines a finite map. Any sequence of sets, gets and deletes on a fresh store
  runs without a panic, gives the answers a map gives, and leaves a well-formed store that holds
  exactly the map's entries, although a delete moves the last entry into the hole it leaves.\<close>

theorem neural_state_refines_map:
  "\<exists>s. ns_run emb ops ns_new = Ret (fst (map_run ops Map.empty), s) \<and> ns_ok s \<and> ns_map s = snd (map_run ops Map.empty)"
proof -
  have "ns_map ns_new = Map.empty" using ns_map_new by blast
  then show ?thesis using ns_run_simulates[OF ns_ok_new, of emb ops] by simp
qed

text \<open>C32: a store written to a file and read back is the same store: the same entries in the same
  order, the same dimension and version and the same answers, provided the keys are UTF-8 and the
  lengths fit the 32-bit fields of the file.\<close>

theorem neural_state_file_roundtrip:
  assumes "ns_ok s" and "ns_fits s"
  shows "\<exists>s'. ns_load (ns_save s) = Ret (Inr s') \<and> ns_ok s' \<and> ns_entries s' = ns_entries s
    \<and> ns_dim s' = ns_dim s \<and> ns_version s' = ns_version s \<and> (\<forall>k. ns_get s' k = ns_get s k)"
  using ns_load_save[OF assms] ns_get_ok[OF assms(1)] by (metis ns_get_ok)

definition one_entry :: neural_state where
  "one_entry = \<lparr>ns_dim = 1, ns_entries = [\<lparr>en_key = ''k'', en_embedding = [7], en_value = ''v''\<rparr>],
     ns_index = [(''k'', 0)], ns_key_matrix = None, ns_version = 3\<rparr>"

theorem neural_state_file_roundtrip_witness:
  "\<exists>s'. ns_load (ns_save one_entry) = Ret (Inr s') \<and> ns_get s' ''k'' = Ret (Some ''v'') \<and> ns_version s' = 3"
proof -
  have "utf8_valid ''k''" by (rule utf8_valid_ascii) (auto simp: byte_in_def)
  then have "ns_fits one_entry" by (simp add: ns_fits_def one_entry_def entry_fits_def)
  moreover have "ns_ok one_entry" by (simp add: ns_ok_def one_entry_def hm_ok_def hm_keys_def hm_get_Cons)
  moreover have "ns_get one_entry ''k'' = Ret (Some ''v'')" "ns_version one_entry = 3"
    by (simp_all add: one_entry_def ns_get_def hm_get_Cons)
  ultimately show ?thesis using neural_state_file_roundtrip[of one_entry] by auto
qed

text \<open>
  Reading a state file panics exactly on a file of 20 to 23 bytes that starts with the magic and
  the supported version: the size check admits it but the header takes 24 bytes. Every other input
  gives a store or an error.\<close>

theorem neural_state_load_panics_iff:
  "ns_load d = Panic \<longleftrightarrow>
     20 \<le> length d \<and> length d < 24 \<and> take 4 d = MAGIC \<and> le_val (take 4 (drop 4 d)) = STATE_VERSION"
  by (auto simp: ns_load_def Let_def split: sum.splits)

text \<open>
  A search does not depend on the cached matrix. On a well-formed store the ranking is the one
  computed afresh from the entries, it has the requested number of results (or all entries), best score first, and
  the store stays well formed with the same contents.\<close>

theorem neural_search_cache_transparent:
  assumes "ns_ok s" and "\<And>a b. dot a b \<noteq> NaN"
  shows "fst (ns_search emb dot q k s) = fst (ns_search emb dot q k (s\<lparr>ns_key_matrix := None\<rparr>))
    \<and> ns_ok (snd (ns_search emb dot q k s)) \<and> ns_map (snd (ns_search emb dot q k s)) = ns_map s
    \<and> length (fst (ns_search emb dot q k s)) = min k (length (ns_entries s))
    \<and> sorted_wrt (\<lambda>a b. \<not> f_lt (snd a) (snd b)) (fst (ns_search emb dot q k s))"
proof -
  have "fst (ns_search emb dot q k s) = fst (ns_search emb dot q k (s\<lparr>ns_key_matrix := None\<rparr>))"
    using assms by (auto simp: ns_search_def ns_ok_def Let_def split: option.splits)
  moreover have "length (fst (ns_search emb dot q k s)) = min k (length (ns_entries s))"
    using assms by (auto simp: ns_search_def ns_ok_def Let_def split: option.splits)
  ultimately show ?thesis using ns_search_ok[OF assms(1)] ns_search_sorted[of dot emb q k s] assms(2) by blast
qed

end
