(* ===== verification/Mesh.thy ===== *)
theory Mesh
  imports Sample_Values Bytes
begin

text \<open>
  The cross-node mesh: the frame codec of \<^verbatim>\<open>src/src/mesh_crypto.rs\<close> and the router, header handling and
  connection decisions of \<^verbatim>\<open>src/src/cluster_mesh.rs\<close>. The cipher (\<open>enc\<close>, \<open>dec\<close>) and SHA-256 are parameters.
  The asynchronous relays are modelled by what they do with the bytes: a receiver takes the chunks a
  read returns, in order. A connection handler is the decision it takes on the first chunk.
\<close>

subsection \<open>Frames\<close>

definition MESH_MAGIC :: string where
  "MESH_MAGIC = ''RKMESHc1''"

definition MAX_FRAME :: nat where
  "MAX_FRAME = 4 * 1024 * 1024"

definition mesh_key :: "(string \<Rightarrow> string) \<Rightarrow> string \<Rightarrow> string" where
  "mesh_key sha256 secret = sha256 (''royak-mesh-v1'' @ secret)"

definition seal_frame :: "(string \<Rightarrow> string \<Rightarrow> string \<Rightarrow> string) \<Rightarrow> string \<Rightarrow> string \<Rightarrow> string \<Rightarrow> string" where
  "seal_frame enc key plaintext nonce =
     (let ct = enc key nonce plaintext in be_bytes 4 (12 + length ct) @ nonce @ ct)"

definition open_frame ::
  "(string \<Rightarrow> string \<Rightarrow> string \<Rightarrow> string option) \<Rightarrow> string \<Rightarrow> string \<Rightarrow> (string \<times> nat) option result" where
  "open_frame dec key buf =
     (if length buf < 4 then Inr None
      else let payload_len = be_val (take 4 buf)
      in if payload_len < 12 \<or> MAX_FRAME < payload_len then Inl (''bad frame length '' @ show_nat payload_len)
      else let total = 4 + payload_len
      in if length buf < total then Inr None
      else (case dec key (take 12 (drop 4 buf)) (take (total - 16) (drop 16 buf)) of
              None \<Rightarrow> Inl ''mesh frame decrypt failed (tampered or wrong cluster secret)''
            | Some pt \<Rightarrow> Inr (Some (pt, total))))"

lemma open_frame_consumed:
  "open_frame dec key buf = Inr (Some (pt, c)) \<Longrightarrow> 16 \<le> c \<and> c \<le> length buf"
  by (auto simp: open_frame_def Let_def split: if_splits option.splits)

text \<open>\<open>while let Ok(Some(..)) = open_frame(..)\<close>: the plaintext of the whole frames, and what is left.\<close>

function drain_frames ::
  "(string \<Rightarrow> string \<Rightarrow> string \<Rightarrow> string option) \<Rightarrow> string \<Rightarrow> string \<Rightarrow> string \<times> string" where
  "drain_frames dec key acc =
     (case open_frame dec key acc of
        Inr (Some (pt, c)) \<Rightarrow> (let (out, rest) = drain_frames dec key (drop c acc) in (pt @ out, rest))
      | _ \<Rightarrow> ([], acc))"
  by pat_completeness auto
termination
  by (relation "measure (\<lambda>(dec, key, acc). length acc)") (auto dest: open_frame_consumed)

declare drain_frames.simps [simp del]

text \<open>A receiving relay: what it has written after the given reads, and its buffer.\<close>

fun receive ::
  "(string \<Rightarrow> string \<Rightarrow> string \<Rightarrow> string option) \<Rightarrow> string \<Rightarrow> string list \<Rightarrow> string \<Rightarrow> string \<times> string" where
  "receive dec key [] acc = ([], acc)"
| "receive dec key (c # cs) acc =
     (let (out, rest) = drain_frames dec key (acc @ c); (out', rest') = receive dec key cs rest
      in (out @ out', rest'))"

subsection \<open>Routing\<close>

datatype endpoint =
    Local string
  | Remote string string string
  | NoBackend
  | Unknown

record 'j router =
  rt_world :: "'j desired_world"
  rt_local_node :: string
  rt_peer_pods :: "(string \<times> string) list"

definition lookup_pod_node :: "'j router \<Rightarrow> string \<Rightarrow> string option" where
  "lookup_pod_node r pod =
     (let local_addr = map_option cn_address (hm_get (nodes (rt_world r)) (rt_local_node r))
      in map_option fst (find (\<lambda>(addr, p). p = pod \<and> Some addr \<noteq> local_addr) (rt_peer_pods r)))"

definition node_name_for_addr :: "'j router \<Rightarrow> string \<Rightarrow> string option" where
  "node_name_for_addr r addr =
     map_option cn_name (find (\<lambda>n. cn_address n = addr) (hm_values (nodes (rt_world r))))"

definition pod_name :: "string \<Rightarrow> nat \<Rightarrow> string" where
  "pod_name dep i = ''rk-'' @ dep @ ''-'' @ show_nat i"

text \<open>The scan over the replicas: the first local pod wins, the first remote one is remembered.\<close>

fun scan_pods :: "'j router \<Rightarrow> string \<Rightarrow> nat list \<Rightarrow> (string \<times> string) option \<Rightarrow> string + (string \<times> string) option" where
  "scan_pods r dep [] remote = Inr remote"
| "scan_pods r dep (i # is) remote =
     (case lookup_pod_node r (pod_name dep i) of
        Some addr \<Rightarrow> scan_pods r dep is (if remote = None then Some (pod_name dep i, addr) else remote)
      | None \<Rightarrow> Inl (pod_name dep i))"

definition resolve :: "'j router \<Rightarrow> string \<Rightarrow> string \<Rightarrow> endpoint" where
  "resolve r service ns =
     (case find (\<lambda>s. svc_name s = service \<and> svc_namespace s = ns) (hm_values (services (rt_world r))) of
        None \<Rightarrow> Unknown
      | Some svc \<Rightarrow>
     (case hm_get (svc_selector svc) ''app'' of
        None \<Rightarrow> NoBackend
      | Some app \<Rightarrow>
     (case find (\<lambda>d. d_name d = app \<and> d_namespace d = ns) (hm_values (deployments (rt_world r))) of
        None \<Rightarrow> NoBackend
      | Some d \<Rightarrow>
          if d_replicas d = 0 then NoBackend
          else (case scan_pods r (d_name d) [1..<Suc (unat (d_replicas d))] None of
                  Inl pod \<Rightarrow> Local pod
                | Inr (Some (pod, addr)) \<Rightarrow> Remote (unwrap_or (node_name_for_addr r addr) addr) addr pod
                | Inr None \<Rightarrow> Local (''rk-'' @ d_name d @ ''-1'')))))"

subsection \<open>Headers\<close>

definition host_value :: "string \<Rightarrow> string option" where
  "host_value line = opt_or (strip_prefix line ''Host:'') (strip_prefix line ''host:'')"

fun first_host :: "string list \<Rightarrow> string" where
  "first_host [] = []"
| "first_host (l # ls) =
     (case host_value l of Some v \<Rightarrow> hd (str_split (CHR '':'') (trim v)) | None \<Rightarrow> first_host ls)"

definition parse_host_header :: "string \<Rightarrow> string" where
  "parse_host_header head = first_host (lines head)"

fun header_in :: "string \<Rightarrow> string list \<Rightarrow> string option" where
  "header_in name [] = None"
| "header_in name (l # ls) =
     (if l = [] then None
      else (case split_once (CHR '':'') l of
              Some (k, v) \<Rightarrow> if eq_ignore_ascii_case (trim k) name then Some (trim v) else header_in name ls
            | None \<Rightarrow> header_in name ls))"

definition parse_header :: "string \<Rightarrow> string \<Rightarrow> string option" where
  "parse_header head name = header_in name (lines head)"

definition parse_pod_port :: "string \<Rightarrow> u16" where
  "parse_pod_port head =
     (case Option.bind (parse_header head ''x-royak-port'') (\<lambda>v. parse_u16 (trim v)) of
        Some p \<Rightarrow> if p \<noteq> 0 then p else 80
      | None \<Rightarrow> 80)"

definition service_target_port :: "'j desired_world \<Rightarrow> string \<Rightarrow> string \<Rightarrow> u16 option \<Rightarrow> u16" where
  "service_target_port w service ns svc_port =
     (case find (\<lambda>s. svc_name s = service \<and> svc_namespace s = ns) (hm_values (services w)) of
        None \<Rightarrow> 80
      | Some svc \<Rightarrow>
          (case opt_or (Option.bind svc_port (\<lambda>p. find (\<lambda>sp. sp_port sp = p) (svc_ports svc))) (head_opt (svc_ports svc)) of
             Some sp \<Rightarrow> if sp_target_port sp \<noteq> 0 then sp_target_port sp else 80
           | None \<Rightarrow> 80))"

text \<open>The bytes up to and including the first CRLF, and the rest.\<close>

fun split_crlf :: "string \<Rightarrow> (string \<times> string) option" where
  "split_crlf (a # b # s) =
     (if a = CHR 0x0D \<and> b = CHR 0x0A then Some ([a, b], s)
      else map_option (\<lambda>(x, y). (a # x, y)) (split_crlf (b # s)))"
| "split_crlf _ = None"

definition handoff_lines :: "string \<Rightarrow> u16 \<Rightarrow> string" where
  "handoff_lines pod port = ''X-Royak-Pod: '' @ pod @ CRLF @ ''X-Royak-Port: '' @ show_word port @ CRLF"

definition inject_handoff :: "string \<Rightarrow> string \<Rightarrow> u16 \<Rightarrow> string" where
  "inject_handoff raw pod port =
     (case split_crlf raw of
        Some (line, rest) \<Rightarrow> line @ handoff_lines pod port @ rest
      | None \<Rightarrow> handoff_lines pod port @ raw)"

fun host_port_in :: "string list \<Rightarrow> u16 option" where
  "host_port_in [] = None"
| "host_port_in (l # ls) =
     (if l = [] then None
      else (case host_value l of
              Some v \<Rightarrow> Option.bind (rsplit_once (CHR '':'') (trim v)) (\<lambda>(_, p). parse_u16 p)
            | None \<Rightarrow> host_port_in ls))"

definition parse_host_port :: "string \<Rightarrow> u16 option" where
  "parse_host_port head = host_port_in (lines head)"

definition parse_ns :: "string \<Rightarrow> string \<times> string" where
  "parse_ns host =
     (case str_split (CHR ''.'') host of
        [] \<Rightarrow> ([], ''default'')
      | [s] \<Rightarrow> (s, ''default'')
      | s # n # _ \<Rightarrow> (s, n))"

definition DEFAULT_MESH_PORT :: u16 where
  "DEFAULT_MESH_PORT = 6550"

definition remote_mesh_addr :: "string \<Rightarrow> string" where
  "remote_mesh_addr api_addr =
     (case rsplit_once (CHR '':'') api_addr of
        Some (host, _) \<Rightarrow> host @ '':'' @ show_word DEFAULT_MESH_PORT
      | None \<Rightarrow> api_addr @ '':'' @ show_word DEFAULT_MESH_PORT)"

subsection \<open>Connections\<close>

text \<open>
  What the handler does with a connection. \<open>Dial\<close>: connect to the address, send the bytes, splice.
  \<open>Sealed\<close>: the same to a peer with every chunk sealed after the magic. \<open>Peer\<close>: serve an encrypted peer
  with these first bytes.
\<close>

datatype conn_action =
    Dial string string
  | Sealed string string string
  | Peer string
  | Reply u16 string
  | ConnErr string

definition handle_head ::
  "'j router \<Rightarrow> (string \<Rightarrow> string result) \<Rightarrow> bool \<Rightarrow> string option \<Rightarrow> string \<Rightarrow> conn_action" where
  "handle_head r container_ip encrypt secret chunk =
     (let head = utf8_lossy chunk
      in case parse_header head ''x-royak-pod'' of
           Some pod \<Rightarrow>
             (case container_ip pod of
                Inr ip \<Rightarrow> if ip \<noteq> [] then Dial (ip @ '':'' @ show_word (parse_pod_port head)) chunk
                          else Reply 502 ''target pod not on this node''
              | Inl _ \<Rightarrow> Reply 502 ''target pod not on this node'')
         | None \<Rightarrow>
             (let (service, ns) = parse_ns (parse_host_header head)
              in if service = [] then Reply 400 ''missing Host header''
                 else let port = service_target_port (rt_world r) service ns (parse_host_port head)
                 in case resolve r service ns of
                      Local pod \<Rightarrow> (case container_ip pod of
                                      Inr ip \<Rightarrow> Dial (ip @ '':'' @ show_word port) chunk
                                    | Inl _ \<Rightarrow> Reply 502 ''no container ip'')
                    | Remote node addr pod \<Rightarrow>
                        (let peer = remote_mesh_addr addr; framed = inject_handoff chunk pod port
                         in case (if encrypt then secret else None) of
                              Some s \<Rightarrow> Sealed peer s framed
                            | None \<Rightarrow> Dial peer framed)
                    | NoBackend \<Rightarrow> Reply 503 ''no backend''
                    | Unknown \<Rightarrow> Reply 404 ''service not found''))"

definition handle_conn ::
  "'j router \<Rightarrow> (string \<Rightarrow> string result) \<Rightarrow> bool \<Rightarrow> string option \<Rightarrow> string \<Rightarrow> conn_action" where
  "handle_conn r container_ip encrypt secret chunk =
     (if chunk = [] then ConnErr ''empty request''
      else if starts_with chunk MESH_MAGIC then Peer (drop (length MESH_MAGIC) chunk)
      else handle_head r container_ip encrypt secret chunk)"

text \<open>Where an encrypted peer's request goes once its head is decrypted.\<close>

definition peer_target ::
  "'j router \<Rightarrow> (string \<Rightarrow> string result) \<Rightarrow> string \<Rightarrow> string result" where
  "peer_target r container_ip plain =
     (let head = utf8_lossy plain
      in case parse_header head ''x-royak-pod'' of
           Some pod \<Rightarrow>
             (case container_ip pod of
                Inr ip \<Rightarrow> if ip \<noteq> [] then Inr (ip @ '':'' @ show_word (parse_pod_port head))
                          else Inl ''peer: handoff pod not on this node''
              | Inl _ \<Rightarrow> Inl ''peer: handoff pod not on this node'')
         | None \<Rightarrow>
             (let (service, ns) = parse_ns (parse_host_header head);
                  port = service_target_port (rt_world r) service ns (parse_host_port head)
              in case resolve (r\<lparr>rt_peer_pods := []\<rparr>) service ns of
                   Local pod \<Rightarrow> (case container_ip pod of
                                   Inr ip \<Rightarrow> Inr (ip @ '':'' @ show_word port)
                                 | Inl _ \<Rightarrow> Inl ''peer: no container ip'')
                 | _ \<Rightarrow> Inl ''peer: service not local''))"

text \<open>
  The loop that decrypts until the head is complete: it stops with a host and a blank line, or when the
  peer sends no more.
\<close>

fun collect_head ::
  "(string \<Rightarrow> string \<Rightarrow> string \<Rightarrow> string option) \<Rightarrow> string \<Rightarrow> string list \<Rightarrow> string \<Rightarrow> string
   \<Rightarrow> string \<times> string \<times> string list" where
  "collect_head dec key reads early plain =
     (let (out, rest) = drain_frames dec key early; plain' = plain @ out
      in if parse_host_header (utf8_lossy plain') \<noteq> [] \<and> str_contains plain' (CRLF @ CRLF) then (plain', rest, reads)
         else (case reads of [] \<Rightarrow> (plain', rest, []) | c # cs \<Rightarrow> collect_head dec key cs (rest @ c) plain'))"

declare collect_head.simps [simp del]

definition http_reason :: "u16 \<Rightarrow> string" where
  "http_reason code =
     (if code = 200 then ''OK'' else if code = 400 then ''Bad Request'' else if code = 404 then ''Not Found''
      else if code = 502 then ''Bad Gateway'' else if code = 503 then ''Service Unavailable'' else [])"

definition reply_status :: "u16 \<Rightarrow> string \<Rightarrow> string" where
  "reply_status code msg =
     (let q = [CHR 0x22];
          body = ''{'' @ q @ ''status'' @ q @ '':'' @ q @ ''Failure'' @ q @ '','' @ q @ ''code'' @ q @ '':''
                 @ show_word code @ '','' @ q @ ''message'' @ q @ '':'' @ q @ msg @ q @ ''}''
      in ''HTTP/1.1 '' @ show_word code @ '' '' @ http_reason code @ CRLF @ ''Content-Type: application/json'' @ CRLF
         @ ''Content-Length: '' @ show_nat (length body) @ CRLF @ ''Connection: close'' @ CRLF @ CRLF @ body)"

subsection \<open>Lemmas: frames\<close>

text \<open>What the clients of the cipher rely on: decryption inverts encryption.\<close>

definition cipher_inverts ::
  "(string \<Rightarrow> string \<Rightarrow> string \<Rightarrow> string) \<Rightarrow> (string \<Rightarrow> string \<Rightarrow> string \<Rightarrow> string option) \<Rightarrow> bool" where
  "cipher_inverts enc dec = (\<forall>k n p. dec k n (enc k n p) = Some p)"

definition frame_fits :: "(string \<Rightarrow> string \<Rightarrow> string \<Rightarrow> string) \<Rightarrow> string \<Rightarrow> string \<times> string \<Rightarrow> bool" where
  "frame_fits enc key pn = (length (snd pn) = 12 \<and> 12 + length (enc key (snd pn) (fst pn)) \<le> MAX_FRAME)"

lemma MAX_FRAME_bytes: "n \<le> MAX_FRAME \<Longrightarrow> n < 256 ^ 4"
  by (simp add: MAX_FRAME_def)

lemma open_frame_seal:
  assumes "cipher_inverts enc dec" and "frame_fits enc key (p, n)"
  shows "open_frame dec key (seal_frame enc key p n @ rest) = Inr (Some (p, length (seal_frame enc key p n)))"
proof -
  have n: "length n = 12" and m: "12 + length (enc key n p) \<le> MAX_FRAME"
    using assms(2) by (simp_all add: frame_fits_def)
  have "be_val (be_bytes 4 (12 + length (enc key n p))) = 12 + length (enc key n p)"
    by (rule be_val_exact[OF MAX_FRAME_bytes[OF m]])
  with n m assms(1) show ?thesis
    by (simp add: open_frame_def seal_frame_def cipher_inverts_def Let_def)
qed

lemma open_frame_prefix:
  assumes "frame_fits enc key (p, n)" and "seal_frame enc key p n = x @ y" and "y \<noteq> []"
  shows "open_frame dec key x = Inr None"
proof -
  have n: "length n = 12" and m: "12 + length (enc key n p) \<le> MAX_FRAME"
    using assms(1) by (simp_all add: frame_fits_def)
  have v: "be_val (be_bytes 4 (12 + length (enc key n p))) = 12 + length (enc key n p)"
    by (rule be_val_exact[OF MAX_FRAME_bytes[OF m]])
  have len: "length x < 4 + (12 + length (enc key n p))"
    using arg_cong[OF assms(2), of length] assms(3) n by (simp add: seal_frame_def Let_def)
  show ?thesis
  proof (cases "length x < 4")
    case False
    have "take 4 (x @ y) = be_bytes 4 (12 + length (enc key n p))"
      using assms(2)[symmetric] by (simp add: seal_frame_def Let_def)
    with False have "take 4 x = be_bytes 4 (12 + length (enc key n p))" by simp
    with False len m v show ?thesis by (simp add: open_frame_def Let_def)
  qed (simp add: open_frame_def)
qed

lemma open_frame_append:
  "open_frame dec key x = Inr (Some (pt, c)) \<Longrightarrow> open_frame dec key (x @ y) = Inr (Some (pt, c))"
  by (auto simp: open_frame_def Let_def split: if_splits option.splits)

lemma drain_step:
  "open_frame dec key acc = Inr (Some (pt, c)) \<Longrightarrow>
     drain_frames dec key acc = (pt @ fst (drain_frames dec key (drop c acc)), snd (drain_frames dec key (drop c acc)))"
  by (simp add: drain_frames.simps[of dec key acc] split_def Let_def)

lemma drain_stop:
  "(\<And>pt c. open_frame dec key acc \<noteq> Inr (Some (pt, c))) \<Longrightarrow> drain_frames dec key acc = ([], acc)"
  by (simp add: drain_frames.simps[of dec key acc] split: sum.splits option.splits prod.splits)

text \<open>A relay is a receiver of a framed stream: a frame whose bytes are all there opens, anything else waits.\<close>

definition mesh_step :: "(string \<Rightarrow> string \<Rightarrow> string \<Rightarrow> string option) \<Rightarrow> string \<Rightarrow> string \<Rightarrow> (string \<times> nat) option" where
  "mesh_step dec key b = (case open_frame dec key b of Inr r \<Rightarrow> r | Inl _ \<Rightarrow> None)"

lemma mesh_step_Some: "mesh_step dec key b = Some (pt, c) \<longleftrightarrow> open_frame dec key b = Inr (Some (pt, c))"
  by (auto simp: mesh_step_def split: sum.splits)

lemma mesh_step_None: "mesh_step dec key b = None \<Longrightarrow> drain_frames dec key b = ([], b)"
  by (rule drain_stop) (auto simp: mesh_step_def)

interpretation relay: frame_stream "mesh_step dec key" "drain_frames dec key" "receive dec key"
proof
  show "mesh_step dec key b = Some (xs, n) \<Longrightarrow> 0 < n \<and> n \<le> length b" for b xs n
    using open_frame_consumed[of dec key b xs n] by (auto simp: mesh_step_Some)
  show "mesh_step dec key b = Some (xs, n) \<Longrightarrow> mesh_step dec key (b @ c) = Some (xs, n)" for b xs n c
    by (simp add: mesh_step_Some open_frame_append)
  show "mesh_step dec key b = Some (xs, n) \<Longrightarrow>
      drain_frames dec key b = (xs @ fst (drain_frames dec key (drop n b)), snd (drain_frames dec key (drop n b)))" for b xs n
    by (simp add: mesh_step_Some drain_step)
qed (simp_all add: mesh_step_None split_def Let_def)

lemma seal_frame_step:
  assumes "cipher_inverts enc dec" and "frame_fits enc key (p, n)"
  shows "mesh_step dec key (seal_frame enc key p n) = Some (p, length (seal_frame enc key p n))"
  using open_frame_seal[OF assms, of "[]"] by (simp add: mesh_step_Some)

subsection \<open>Lemmas: routing\<close>

lemma scan_pods_Inl:
  "scan_pods r dep is remote = Inl pod \<Longrightarrow> \<exists>i \<in> set is. pod = pod_name dep i \<and> lookup_pod_node r pod = None"
  by (induction r dep "is" remote rule: scan_pods.induct) (auto split: option.splits)

lemma scan_pods_Inr_all:
  "scan_pods r dep is remote = Inr res \<Longrightarrow> \<forall>i \<in> set is. lookup_pod_node r (pod_name dep i) \<noteq> None"
  by (induction "is" arbitrary: remote) (auto split: option.splits)

lemma scan_pods_Inr_kept: "scan_pods r dep is (Some x) = Inr res \<Longrightarrow> res = Some x"
  by (induction "is") (auto split: option.splits)

lemma scan_pods_Inr_first:
  assumes "scan_pods r dep is None = Inr (Some (pod, addr))"
  shows "\<exists>i \<in> set is. pod = pod_name dep i \<and> lookup_pod_node r pod = Some addr"
proof (cases "is")
  case (Cons i rest)
  with assms show ?thesis by (auto split: option.splits dest: scan_pods_Inr_kept)
qed (use assms in simp)

lemma lookup_pod_node_Some:
  "lookup_pod_node r pod = Some addr \<Longrightarrow>
     (addr, pod) \<in> set (rt_peer_pods r)
     \<and> Some addr \<noteq> map_option cn_address (hm_get (nodes (rt_world r)) (rt_local_node r))"
  by (auto simp: lookup_pod_node_def Let_def dest!: find_Some_iff_mem)

lemma lookup_pod_node_None:
  "lookup_pod_node r pod = None \<longleftrightarrow>
     (\<forall>addr. (addr, pod) \<in> set (rt_peer_pods r) \<longrightarrow>
        Some addr = map_option cn_address (hm_get (nodes (rt_world r)) (rt_local_node r)))"
  by (auto simp: lookup_pod_node_def Let_def find_None_iff_all)

lemma resolve_Remote:
  assumes "resolve r service ns = Remote node addr pod"
  shows "(addr, pod) \<in> set (rt_peer_pods r)
    \<and> Some addr \<noteq> map_option cn_address (hm_get (nodes (rt_world r)) (rt_local_node r))
    \<and> (\<exists>d \<in> set (hm_values (deployments (rt_world r))). d_namespace d = ns
        \<and> (\<exists>i. 1 \<le> i \<and> i \<le> unat (d_replicas d) \<and> pod = pod_name (d_name d) i)
        \<and> (\<forall>i. 1 \<le> i \<and> i \<le> unat (d_replicas d) \<longrightarrow> lookup_pod_node r (pod_name (d_name d) i) \<noteq> None))"
proof -
  from assms obtain d where d: "d \<in> set (hm_values (deployments (rt_world r)))" "d_namespace d = ns"
    and sc: "scan_pods r (d_name d) [1..<Suc (unat (d_replicas d))] None = Inr (Some (pod, addr))"
    by (auto simp: resolve_def simp del: upt_Suc split: option.splits if_splits sum.splits dest!: find_Some_iff_mem)
  from scan_pods_Inr_first[OF sc] obtain i where "i \<in> set [1..<Suc (unat (d_replicas d))]"
    "pod = pod_name (d_name d) i" "lookup_pod_node r pod = Some addr" by blast
  moreover have "\<forall>i \<in> set [1..<Suc (unat (d_replicas d))]. lookup_pod_node r (pod_name (d_name d) i) \<noteq> None"
    using scan_pods_Inr_all[OF sc] .
  ultimately show ?thesis
    using d lookup_pod_node_Some by (intro conjI bexI[of _ d]) (auto simp: less_Suc_eq_le simp del: upt_Suc)
qed

text \<open>One or more replicas: the fallback after the scan is dead code.\<close>

lemma scan_pods_not_empty:
  "is \<noteq> [] \<Longrightarrow> scan_pods r dep is remote \<noteq> Inr None"
  by (cases "is"; cases remote) (auto split: option.splits dest: scan_pods_Inr_kept)

subsection \<open>Lemmas: the handoff headers\<close>

lemma split_crlf_Some: "split_crlf raw = Some (line, rest) \<Longrightarrow> raw = line @ rest \<and> (\<exists>l. line = l @ CRLF)"
proof (induction raw arbitrary: line rule: split_crlf.induct)
  case (1 a b s)
  show ?case
  proof (cases "a = CHR 0x0D \<and> b = CHR 0x0A")
    case True
    with "1.prems" show ?thesis by auto
  next
    case False
    with "1.prems" obtain x where "split_crlf (b # s) = Some (x, rest)" "line = a # x" by auto
    with "1.IH"[OF False, of x] show ?thesis by (metis append_Cons)
  qed
qed auto

lemma pod_header: "header_in ''x-royak-pod'' ((''X-Royak-Pod: '' @ pod) # ls) = Some (trim pod)"
proof -
  have "split_once (CHR '':'') (''X-Royak-Pod'' @ CHR '':'' # CHR '' '' # pod) = Some (''X-Royak-Pod'', CHR '' '' # pod)"
    by (rule split_once_append) simp
  moreover have "eq_ignore_ascii_case (trim ''X-Royak-Pod'') ''x-royak-pod''" by code_simp
  ultimately show ?thesis by (simp add: trim_space)
qed

lemma port_header:
  "header_in ''x-royak-port'' ((''X-Royak-Pod: '' @ pod) # (''X-Royak-Port: '' @ v) # ls) = Some (trim v)"
proof -
  have "split_once (CHR '':'') (''X-Royak-Pod'' @ CHR '':'' # CHR '' '' # pod) = Some (''X-Royak-Pod'', CHR '' '' # pod)"
    by (rule split_once_append) simp
  moreover have "split_once (CHR '':'') (''X-Royak-Port'' @ CHR '':'' # CHR '' '' # v) = Some (''X-Royak-Port'', CHR '' '' # v)"
    by (rule split_once_append) simp
  moreover have "\<not> eq_ignore_ascii_case (trim ''X-Royak-Pod'') ''x-royak-port''" by code_simp
  moreover have "eq_ignore_ascii_case (trim ''X-Royak-Port'') ''x-royak-port''" by code_simp
  ultimately show ?thesis by (simp add: trim_space)
qed

text \<open>A first line that is not itself a header of the given name.\<close>

definition not_header :: "string \<Rightarrow> string \<Rightarrow> bool" where
  "not_header name l =
     (l \<noteq> [] \<and> (case split_once (CHR '':'') l of Some (k, v) \<Rightarrow> \<not> eq_ignore_ascii_case (trim k) name | None \<Rightarrow> True))"

lemma header_in_skip: "not_header name l \<Longrightarrow> header_in name (l # ls) = header_in name ls"
  by (auto simp: not_header_def split: option.splits)

lemma inject_handoff_lines:
  assumes "split_crlf raw = Some (l @ CRLF, rest)" and "CHR 0x0A \<notin> set l" and "CHR 0x0A \<notin> set pod"
  shows "lines (inject_handoff raw pod port) =
    l # (''X-Royak-Pod: '' @ pod) # (''X-Royak-Port: '' @ show_word port) # lines rest"
proof -
  have "CHR 0x0A \<notin> set (show_word port)" by (rule show_nat_no_char) (simp add: digit_val_def)
  then have p: "CHR 0x0A \<notin> set (''X-Royak-Port: '' @ show_word port)" by simp
  have q: "CHR 0x0A \<notin> set (''X-Royak-Pod: '' @ pod)" using assms(3) by simp
  have "inject_handoff raw pod port =
      l @ CRLF @ (''X-Royak-Pod: '' @ pod) @ CRLF @ (''X-Royak-Port: '' @ show_word port) @ CRLF @ rest"
    by (simp add: inject_handoff_def assms(1) handoff_lines_def)
  then show ?thesis by (simp only: lines_crlf[OF assms(2)] lines_crlf[OF p] lines_crlf[OF q])
qed

subsection \<open>Lemmas for the properties\<close>

lemma resolve_Local:
  assumes "resolve r service ns = Local pod"
  shows "lookup_pod_node r pod = None"
proof -
  obtain d :: stored_deployment where d0: "d_replicas d \<noteq> 0" and l: "(case scan_pods r (d_name d) [1..<Suc (unat (d_replicas d))] None of
        Inl pod \<Rightarrow> Local pod
      | Inr (Some (pod, addr)) \<Rightarrow> Remote (unwrap_or (node_name_for_addr r addr) addr) addr pod
      | Inr None \<Rightarrow> Local (''rk-'' @ d_name d @ ''-1'')) = Local pod"
    using assms by (auto simp: resolve_def simp del: upt_Suc One_nat_def split: option.splits if_splits)
  have "0 < unat (d_replicas d)" using d0 by (simp add: unat_gt_0)
  then have "[1..<Suc (unat (d_replicas d))] \<noteq> []" by simp
  from scan_pods_not_empty[OF this] l obtain p where
    "scan_pods r (d_name d) [1..<Suc (unat (d_replicas d))] None = Inl p" "p = pod"
    by (auto simp del: upt_Suc split: sum.splits option.splits prod.splits)
  then show ?thesis using scan_pods_Inl by blast
qed

lemma handoff_headers:
  assumes "split_crlf raw = Some (l @ CRLF, rest)" and "CHR 0x0A \<notin> set l" and "CHR 0x0A \<notin> set pod"
    and "not_header ''x-royak-pod'' l" and "not_header ''x-royak-port'' l" and "port \<noteq> 0"
  shows "parse_header (inject_handoff raw pod port) ''x-royak-pod'' = Some (trim pod)
    \<and> parse_pod_port (inject_handoff raw pod port) = port"
proof -
  note ls = inject_handoff_lines[OF assms(1-3), of port]
  have "parse_header (inject_handoff raw pod port) ''x-royak-pod'' = Some (trim pod)"
    unfolding parse_header_def ls header_in_skip[OF assms(4)] by (rule pod_header)
  moreover have "parse_header (inject_handoff raw pod port) ''x-royak-port'' = Some (show_word port)"
    unfolding parse_header_def ls header_in_skip[OF assms(5)] port_header trim_show_nat ..
  ultimately show ?thesis using assms(6) by (simp add: parse_pod_port_def trim_show_nat)
qed

subsection \<open>Properties\<close>

text \<open>C33: the encrypted stream is decoded whatever way TCP cuts it. If the reads \<open>cs\<close> carry, in order, the
  bytes of a sequence of sealed frames, then the receiving loop delivers exactly the concatenated
  plaintexts and keeps nothing over, for every cipher whose decryption inverts its encryption.\<close>

theorem mesh_stream_decodes:
  assumes "cipher_inverts enc dec" and "\<forall>pn \<in> set pns. frame_fits enc key pn"
    and "concat cs = concat (map (\<lambda>(p, n). seal_frame enc key p n) pns)"
  shows "receive dec key cs [] = (concat (map fst pns), [])"
  using relay.recv_frames[of "map (\<lambda>(p, n). (seal_frame enc key p n, p)) pns" dec key cs]
    seal_frame_step[OF assms(1)] assms(2,3) by (simp add: comp_def split_def)

theorem mesh_stream_decodes_witness:
  "receive (\<lambda>k n c. Some c) ''k'' [be_bytes 4 14, ''123456789012'' @ ''h'', ''i''] [] = (''hi'', [])"
proof -
  have "cipher_inverts (\<lambda>k n p. p) (\<lambda>k n c. Some c)" by (simp add: cipher_inverts_def)
  moreover have "\<forall>pn \<in> set [(''hi'', ''123456789012'')]. frame_fits (\<lambda>k n p. p) ''k'' pn"
    by (simp add: frame_fits_def MAX_FRAME_def)
  moreover have "concat [be_bytes 4 14, ''123456789012'' @ ''h'', ''i''] =
      concat (map (\<lambda>(p, n). seal_frame (\<lambda>k n p. p) ''k'' p n) [(''hi'', ''123456789012'')])"
    by (simp add: seal_frame_def)
  ultimately show ?thesis using mesh_stream_decodes[of "\<lambda>k n p. p" "\<lambda>k n c. Some c" "[(''hi'', ''123456789012'')]" "''k''"]
    by (simp del: receive.simps)
qed

text \<open>
  A frame that has not arrived completely is neither delivered nor an error: on every proper prefix of
  a sealed frame the receiver waits for more bytes.\<close>

theorem mesh_partial_frame_waits:
  assumes "frame_fits enc key (p, n)" and "seal_frame enc key p n = x @ y" and "y \<noteq> []"
  shows "open_frame dec key x = Inr None"
  by (rule open_frame_prefix[OF assms])

text \<open>
  Routing never sends a request back to the node it is on, and serves locally whatever is
  local. A remote answer names a pod that a peer with another address reported, when every pod of the
  deployment is on such a peer; a local answer names a pod no other peer reported.\<close>

theorem mesh_route_sound:
  "case resolve r service ns of
     Remote node addr pod \<Rightarrow>
       (addr, pod) \<in> set (rt_peer_pods r)
       \<and> Some addr \<noteq> map_option cn_address (hm_get (nodes (rt_world r)) (rt_local_node r))
       \<and> (\<exists>d \<in> set (hm_values (deployments (rt_world r))). d_namespace d = ns
            \<and> (\<forall>i. 1 \<le> i \<and> i \<le> unat (d_replicas d) \<longrightarrow> lookup_pod_node r (pod_name (d_name d) i) \<noteq> None))
   | Local pod \<Rightarrow> \<forall>addr. (addr, pod) \<in> set (rt_peer_pods r) \<longrightarrow>
       Some addr = map_option cn_address (hm_get (nodes (rt_world r)) (rt_local_node r))
   | NoBackend \<Rightarrow> True
   | Unknown \<Rightarrow> \<forall>s \<in> set (hm_values (services (rt_world r))). \<not> (svc_name s = service \<and> svc_namespace s = ns)"
proof (cases "resolve r service ns")
  case (Local pod)
  then show ?thesis using resolve_Local[OF Local] by (simp add: lookup_pod_node_None)
next
  case (Remote node addr pod)
  then show ?thesis using resolve_Remote[OF Remote] by auto
next
  case Unknown
  then show ?thesis
    by (auto simp: resolve_def Let_def find_None_iff_all simp del: upt_Suc
        split: option.splits if_splits sum.splits prod.splits)
qed simp

definition web_router :: "unit router" where
  "web_router = \<lparr>rt_world = world_new\<lparr>services := [(''web'', \<lparr>svc_name = ''web'', svc_namespace = ''default'',
       svc_selector = [(''app'', ''web'')], svc_ports = [], svc_service_type = ''ClusterIP''\<rparr>)],
       deployments := [(''web'', sample_deployment ''web'' None)]\<rparr>, rt_local_node = ''a'',
     rt_peer_pods = [(''10.0.0.2:6443'', ''rk-web-1''), (''10.0.0.2:6443'', ''rk-web-2'')]\<rparr>"

text \<open>
  A handed-over request reaches the pod it was resolved to. When the peer receives the request with
  the injected headers, and knows an address for the pod, it dials that address at the port the
  first node chose, whatever routing headers the client put further down.\<close>

theorem mesh_handoff_delivers:
  assumes "split_crlf raw = Some (l @ CRLF, rest)" and "CHR 0x0A \<notin> set l" and "CHR 0x0A \<notin> set pod"
    and "not_header ''x-royak-pod'' l" and "not_header ''x-royak-port'' l" and "port \<noteq> 0" and "trim pod = pod"
    and "utf8_valid (inject_handoff raw pod port)" and "container_ip pod = Inr ip" and "ip \<noteq> []"
  shows "handle_head r container_ip enc secret (inject_handoff raw pod port) =
      Dial (ip @ '':'' @ show_word port) (inject_handoff raw pod port)
    \<and> peer_target r container_ip (inject_handoff raw pod port) = Inr (ip @ '':'' @ show_word port)"
  using handoff_headers[OF assms(1-6)] assms(7-10)
  by (simp add: handle_head_def peer_target_def utf8_lossy_valid Let_def)

end
