(* ===== verification/Traffic.thy ===== *)
theory Traffic
  imports Apply_Config "HOL-Library.List_Lexorder" "HOL-Library.Char_ord"
begin

text \<open>
  Traffic in and out of the node: the flow ring buffer of \<^verbatim>\<open>src/src/flows.rs\<close> and the NodePort load
  balancer of \<^verbatim>\<open>src/src/servicelb.rs\<close>. One turn of the balancer's loop is \<open>lb_tick\<close>, on the map from port
  to the specification its listener serves; a backend is picked with the container engine's answers as
  parameters. Strings are ordered bytewise.
\<close>

subsection \<open>Flows\<close>

record flow_record =
  fl_via :: string
  fl_source :: string
  fl_dest :: string
  fl_port :: u16
  fl_bytes_up :: u64
  fl_bytes_down :: u64
  fl_started :: u64
  fl_duration_ms :: u64

definition MAX_FLOWS :: nat where
  "MAX_FLOWS = 2000"

definition flow_push :: "flow_record \<Rightarrow> flow_record list \<Rightarrow> flow_record list" where
  "flow_push f q = (if MAX_FLOWS \<le> length q then tl q else q) @ [f]"

definition flow_snapshot :: "nat \<Rightarrow> flow_record list \<Rightarrow> flow_record list" where
  "flow_snapshot limit q = take limit (rev q)"

definition flow_add :: "flow_record \<Rightarrow> (string, u64 \<times> u64 \<times> u64) hmap \<Rightarrow> (string, u64 \<times> u64 \<times> u64) hmap" where
  "flow_add f agg =
     hm_modify (fl_dest f) (\<lambda>(n, u, d). (n + 1, u + fl_bytes_up f, d + fl_bytes_down f))
       (hm_or_insert (fl_dest f) (0, 0, 0) agg)"

definition flow_totals :: "flow_record list \<Rightarrow> (string \<times> u64 \<times> u64 \<times> u64) list" where
  "flow_totals q = sort_key (\<lambda>(k, n, u, d). - int (unat (u + d))) (fold flow_add q [])"

subsection \<open>The load balancer\<close>

record lb_spec =
  lb_service :: string
  lb_node_port :: u16
  lb_target_port :: u16
  lb_deployment :: string

definition lb_specs_of :: "stored_service \<Rightarrow> lb_spec list" where
  "lb_specs_of s =
     filter_map (\<lambda>p. map_option (\<lambda>lp. \<lparr>lb_service = svc_name s, lb_node_port = lp, lb_target_port = sp_target_port p,
         lb_deployment = unwrap_or (hm_get (svc_selector s) ''app'') []\<rparr>)
       (if svc_service_type s = ''LoadBalancer'' then Some (sp_port p) else sp_node_port p)) (svc_ports s)"

definition lb_specs :: "'j desired_world \<Rightarrow> lb_spec list" where
  "lb_specs w =
     concat (map lb_specs_of (filter (\<lambda>s. svc_service_type s = ''NodePort'' \<or> svc_service_type s = ''LoadBalancer'')
       (hm_values (services w))))"

definition lb_open :: "lb_spec \<Rightarrow> (u16, lb_spec) hmap \<Rightarrow> (u16, lb_spec) hmap" where
  "lb_open spec ls =
     (if lb_deployment spec = [] \<or> hm_contains ls (lb_node_port spec) then ls
      else hm_insert (lb_node_port spec) spec ls)"

text \<open>\<open>finished port\<close>: the listener's task has ended, as when its bind failed.\<close>

definition lb_tick :: "(u16 \<Rightarrow> bool) \<Rightarrow> lb_spec list \<Rightarrow> (u16, lb_spec) hmap \<Rightarrow> (u16, lb_spec) hmap" where
  "lb_tick finished specs ls =
     fold lb_open specs (filter (\<lambda>(port, _). port \<in> lb_node_port ` set specs \<and> \<not> finished port) ls)"

definition backend_pods :: "string \<Rightarrow> docker_container list \<Rightarrow> string list" where
  "backend_pods dep cs =
     sort (filter_map (\<lambda>c. map_option (trim_start_matches ''/'') (head_opt (dc_names c)))
       (filter (\<lambda>c. dc_state c = ''running'' \<and> hm_get (dc_labels c) ''royak.deployment'' = Some dep
                  \<and> hm_get (dc_labels c) ''royak.role'' \<noteq> Some ''sidecar'') cs))"

text \<open>The host port of the first pod from \<open>start\<close> on that publishes the target port.\<close>

fun try_pods :: "(string \<Rightarrow> u16 option) \<Rightarrow> string list \<Rightarrow> u64 \<Rightarrow> nat list \<Rightarrow> u16 option" where
  "try_pods host_port pods start [] = None"
| "try_pods host_port pods start (i # is) =
     (case host_port (pods ! (unat (start + of_nat i) mod length pods)) of
        Some hp \<Rightarrow> Some hp
      | None \<Rightarrow> try_pods host_port pods start is)"

definition pick_backend ::
  "docker_container list option \<Rightarrow> (string \<Rightarrow> u16 \<Rightarrow> u16 option) \<Rightarrow> string \<Rightarrow> u16 \<Rightarrow> u64 \<Rightarrow> u16 option" where
  "pick_backend ans host_port dep target start =
     (case ans of
        None \<Rightarrow> None
      | Some cs \<Rightarrow>
          (let pods = backend_pods dep cs
           in if pods = [] then None
              else try_pods (\<lambda>pod. host_port pod target) pods start [0..<length pods]))"

subsection \<open>Lemmas: flows\<close>

lemma flow_push_length: "length q \<le> MAX_FLOWS \<Longrightarrow> length (flow_push f q) \<le> MAX_FLOWS"
  by (auto simp: flow_push_def MAX_FLOWS_def)

text \<open>The buffer holds the most recent records, oldest first.\<close>

definition last_n :: "nat \<Rightarrow> 'a list \<Rightarrow> 'a list" where
  "last_n n xs = drop (length xs - n) xs"

lemma last_n_snoc: "0 < n \<Longrightarrow> last_n n (xs @ [x]) = last_n (n - 1) xs @ [x]"
  by (auto simp: last_n_def Suc_diff_le)

lemma tl_last_n: "length (last_n n xs) = n \<Longrightarrow> 0 < n \<Longrightarrow> tl (last_n n xs) = last_n (n - 1) xs"
proof -
  assume "length (last_n n xs) = n" "0 < n"
  then have "length xs - (n - 1) = Suc (length xs - n)" by (simp add: last_n_def)
  then show ?thesis by (simp add: last_n_def tl_drop drop_Suc)
qed

lemma flow_history: "fold flow_push fs [] = last_n MAX_FLOWS fs"
proof (induction fs rule: rev_induct)
  case (snoc f fs)
  show ?case
  proof (cases "MAX_FLOWS \<le> length fs")
    case True
    then have "length (last_n MAX_FLOWS fs) = MAX_FLOWS" by (simp add: last_n_def)
    with snoc tl_last_n[of MAX_FLOWS fs] last_n_snoc[of MAX_FLOWS fs f] show ?thesis
      by (simp add: flow_push_def MAX_FLOWS_def)
  next
    case False
    with snoc show ?thesis by (simp add: flow_push_def last_n_def)
  qed
qed (simp add: last_n_def)

subsection \<open>Lemmas: listeners\<close>

lemma lb_open_get:
  "hm_get (lb_open spec ls) p =
     (if p = lb_node_port spec \<and> lb_deployment spec \<noteq> [] \<and> hm_get ls p = None then Some spec else hm_get ls p)"
  by (auto simp: lb_open_def hm_contains_def)

lemma lb_open_fold_keeps: "hm_get ls p = Some x \<Longrightarrow> hm_get (fold lb_open specs ls) p = Some x"
  by (induction specs arbitrary: ls) (auto simp: lb_open_get)

lemma lb_open_fold_contains:
  "hm_contains (fold lb_open specs ls) p \<longleftrightarrow>
     hm_contains ls p \<or> (\<exists>spec \<in> set specs. lb_node_port spec = p \<and> lb_deployment spec \<noteq> [])"
  by (induction specs arbitrary: ls) (auto simp: lb_open_get hm_contains_def)

lemma lb_tick_contains:
  "hm_contains (lb_tick finished specs ls) p \<longleftrightarrow>
     (hm_contains ls p \<and> p \<in> lb_node_port ` set specs \<and> \<not> finished p)
     \<or> (\<exists>spec \<in> set specs. lb_node_port spec = p \<and> lb_deployment spec \<noteq> [])"
proof -
  have "hm_contains (filter (\<lambda>(port, _). P port) m) p \<longleftrightarrow> hm_contains m p \<and> P p" for P and m :: "(u16, lb_spec) hmap"
    by (induction m) (auto simp: hm_contains_def hm_get_def)
  then show ?thesis by (simp add: lb_tick_def lb_open_fold_contains)
qed

subsection \<open>Lemmas: round robin\<close>

lemma try_pods_Some:
  "try_pods hp pods start is = Some p \<Longrightarrow> \<exists>i \<in> set is. hp (pods ! (unat (start + of_nat i) mod length pods)) = Some p"
  by (induction "is") (auto split: option.splits)

lemma try_pods_None:
  "try_pods hp pods start is = None \<longleftrightarrow> (\<forall>i \<in> set is. hp (pods ! (unat (start + of_nat i) mod length pods)) = None)"
  by (induction "is") (auto split: option.splits)

lemma rotation_hits_all:
  assumes "k < n" and "unat start + n \<le> 2 ^ 64"
  shows "\<exists>i < n. unat (start + of_nat i :: u64) mod n = k"
proof -
  define i where "i = (k + (n - unat start mod n)) mod n"
  have n: "0 < n" using assms(1) by simp
  have i: "i < n" using n by (simp add: i_def)
  have "unat start + i < 2 ^ 64" using i assms(2) by linarith
  then have "unat (start + of_nat i) = unat start + i"
    by (simp add: unat_word_ariths unsigned_of_nat take_bit_nat_eq_self)
  moreover have "(unat start + i) mod n = k"
  proof -
    have "(unat start + i) mod n = (unat start mod n + (k + (n - unat start mod n))) mod n"
      by (simp add: i_def mod_add_left_eq mod_add_right_eq)
    also have "unat start mod n + (k + (n - unat start mod n)) = k + n"
      using mod_less_divisor[OF n, of "unat start"] by linarith
    finally show ?thesis using assms(1) by simp
  qed
  ultimately show ?thesis using i by auto
qed

subsection \<open>Lemmas for the properties\<close>

interpretation flow_log: state_op "\<lambda>q. length q \<le> MAX_FLOWS" flow_push
  by unfold_locales (rule flow_push_length)

text \<open>What one destination's aggregate counts, summed straight over the records.\<close>

definition dest_total :: "flow_record list \<Rightarrow> string \<Rightarrow> (u64 \<times> u64 \<times> u64) option" where
  "dest_total q k =
     (let fs = filter (\<lambda>f. fl_dest f = k) q
      in if fs = [] then None
         else Some (of_nat (length fs), sum_list (map fl_bytes_up fs), sum_list (map fl_bytes_down fs)))"

lemma flow_add_get:
  "hm_get (flow_add f agg) k =
     (if k = fl_dest f
      then Some (case hm_get agg k of
             Some (n, u, d) \<Rightarrow> (n + 1, u + fl_bytes_up f, d + fl_bytes_down f)
           | None \<Rightarrow> (1, fl_bytes_up f, fl_bytes_down f))
      else hm_get agg k)"
  by (auto simp: flow_add_def split: option.splits)

lemma flow_fold_get:
  "hm_get (fold flow_add q agg) k =
     (case dest_total q k of
        None \<Rightarrow> hm_get agg k
      | Some (n, u, d) \<Rightarrow> Some (case hm_get agg k of
            Some (n0, u0, d0) \<Rightarrow> (n0 + n, u0 + u, d0 + d)
          | None \<Rightarrow> (n, u, d)))"
proof (induction q arbitrary: agg)
  case (Cons f q)
  show ?case
    using Cons.IH[of "flow_add f agg"]
    by (auto simp: flow_add_get dest_total_def Let_def ac_simps split: option.splits)
qed (simp add: dest_total_def)

lemma flow_fold_ok: "hm_ok agg \<Longrightarrow> hm_ok (fold flow_add q agg)"
  by (induction q arbitrary: agg) (auto simp: flow_add_def)

subsection \<open>Properties\<close>

text \<open>
  The flow log is the recent past: after any sequence of pushes the ring holds exactly the last two
  thousand flows in order of arrival, and a snapshot lists the latest of them first.\<close>

theorem flow_ring_holds_latest:
  "fold flow_push fs [] = drop (length fs - MAX_FLOWS) fs
   \<and> flow_snapshot n (fold flow_push fs []) = take (min n MAX_FLOWS) (rev fs)"
proof
  show ring: "fold flow_push fs [] = drop (length fs - MAX_FLOWS) fs"
    by (simp add: flow_history last_n_def)
  show "flow_snapshot n (fold flow_push fs []) = take (min n MAX_FLOWS) (rev fs)"
    unfolding ring flow_snapshot_def by (cases "length fs \<le> MAX_FLOWS") (auto simp: rev_drop min_def)
qed

text \<open>
  The per-destination totals are exact and ranked. Every destination of the log appears once with
  the number of its flows and the sums of its bytes (modulo 2 to the 64), no other destination appears,
  and destinations with more traffic come first.\<close>

theorem flow_totals_exact:
  "distinct (map fst (flow_totals q)) \<and> map_of (flow_totals q) = dest_total q
   \<and> sorted_wrt (\<lambda>(_, _, u, d) (_, _, u', d'). u' + d' \<le> u + d) (flow_totals q)"
proof (intro conjI)
  let ?k = "\<lambda>(k :: string, n :: u64, u :: u64, d :: u64). - int (unat (u + d))"
  have agg: "hm_ok (fold flow_add q [])" by (rule flow_fold_ok) simp
  have m: "mset (flow_totals q) = mset (fold flow_add q [])" by (simp add: flow_totals_def)
  then show d: "distinct (map fst (flow_totals q))"
    using agg unfolding hm_ok_def by (metis mset_map mset_eq_imp_distinct_iff)
  have "map_of (flow_totals q) = map_of (fold flow_add q [])"
    using m d agg unfolding hm_ok_def by (metis map_of_inject_set mset_eq_setD)
  then show "map_of (flow_totals q) = dest_total q"
    using flow_fold_get[of q "[]"] by (auto simp: fun_eq_iff hm_get_def split: option.splits)
  have "sorted (map ?k (flow_totals q))" by (simp add: flow_totals_def)
  then show "sorted_wrt (\<lambda>(_, _, u, d) (_, _, u', d'). u' + d' \<le> u + d) (flow_totals q)"
    unfolding sorted_map by (rule sorted_wrt_mono_rel[rotated]) (auto simp: word_le_def)
qed

text \<open>
  After a tick a listener is open on a port exactly when some current spec with a deployment asks
  for the port, or an old listener there is still wanted and alive; and a listener that is still wanted and
  alive keeps the spec it was opened with.\<close>

theorem lb_tick_listeners:
  assumes "hm_ok ls"
  shows "(hm_contains (lb_tick finished specs ls) p \<longleftrightarrow>
      (hm_contains ls p \<and> p \<in> lb_node_port ` set specs \<and> \<not> finished p)
      \<or> (\<exists>spec \<in> set specs. lb_node_port spec = p \<and> lb_deployment spec \<noteq> []))
    \<and> (hm_get ls p = Some x \<longrightarrow> p \<in> lb_node_port ` set specs \<longrightarrow> \<not> finished p \<longrightarrow>
         hm_get (lb_tick finished specs ls) p = Some x)"
proof -
  have "hm_get (filter (\<lambda>(port, _). port \<in> lb_node_port ` set specs \<and> \<not> finished port) ls) p = Some x"
    if "hm_get ls p = Some x" "p \<in> lb_node_port ` set specs" "\<not> finished p"
    using that(1)
  proof (induction ls)
    case (Cons kv ls)
    then show ?case using that(2,3) by (cases kv) (simp add: hm_get_Cons split: if_splits)
  qed simp
  then show ?thesis using lb_tick_contains[of finished specs ls p] lb_open_fold_keeps
    unfolding lb_tick_def by blast
qed

text \<open>
  The load balancer finds a backend whenever there is one. Starting from any point of the
  rotation (short of the counter's wrap-around), a connection is refused only if no running pod of
  the deployment has the port published, and otherwise goes to the published port of such a pod.\<close>

theorem pick_backend_complete:
  assumes "unat start + length (backend_pods dep cs) \<le> 2 ^ 64"
  shows "case pick_backend (Some cs) host_port dep target start of
      None \<Rightarrow> \<forall>pod \<in> set (backend_pods dep cs). host_port pod target = None
    | Some hp \<Rightarrow> \<exists>pod \<in> set (backend_pods dep cs). host_port pod target = Some hp"
proof (cases "backend_pods dep cs = []")
  case True
  then show ?thesis by (simp add: pick_backend_def)
next
  case False
  let ?ps = "backend_pods dep cs" and ?hp = "\<lambda>pod. host_port pod target"
  have pb: "pick_backend (Some cs) host_port dep target start = try_pods ?hp ?ps start [0..<length ?ps]"
    using False by (simp add: pick_backend_def Let_def)
  show ?thesis
  proof (cases "try_pods ?hp ?ps start [0..<length ?ps]")
    case None
    have "host_port pod target = None" if "pod \<in> set ?ps" for pod
    proof -
      obtain k where k: "k < length ?ps" "pod = ?ps ! k" using \<open>pod \<in> set ?ps\<close> by (metis in_set_conv_nth)
      obtain i where "i < length ?ps" "unat (start + of_nat i) mod length ?ps = k"
        using rotation_hits_all[OF k(1) assms] by blast
      with None k(2) show ?thesis by (auto simp: try_pods_None)
    qed
    with None pb show ?thesis by simp
  next
    case (Some hp)
    from try_pods_Some[OF Some] obtain i where "?hp (?ps ! (unat (start + of_nat i) mod length ?ps)) = Some hp" by blast
    moreover have "unat (start + of_nat i) mod length ?ps < length ?ps" using False by simp
    ultimately show ?thesis using Some pb by (auto intro: nth_mem)
  qed
qed

end
