(* ===== verification/Raft_Store.thy ===== *)
theory Raft_Store
  imports Apply Sample_Values
begin

text \<open>
  Consensus: the commands of \<^verbatim>\<open>src/src/consensus.rs\<close> and the Raft storage of \<^verbatim>\<open>src/src/raft_node.rs\<close> (log,
  votes, snapshots and the state machine that mutates the desired world), the partitionable in-process
  network and the RPC dispatch. The Raft protocol itself is a third-party library. A \<open>BTreeMap\<close> is an
  association list in ascending key order; votes, membership sets and raft handles are opaque types.
\<close>

subsection \<open>Commands\<close>

datatype command =
    CApply string string string string
  | CScale string string u32
  | CDelete string string string
  | CHeartbeat string f32 f32 u32

record propose_outcome =
  po_committed :: bool
  po_message :: string
  po_index :: "u64 option"

text \<open>The local backend: the debug rendering of a command is a parameter.\<close>

definition local_propose :: "(command \<Rightarrow> string) \<Rightarrow> command \<Rightarrow> propose_outcome" where
  "local_propose debug cmd = \<lparr>po_committed = True, po_message = ''local:'' @ debug cmd, po_index = None\<rparr>"

definition local_is_leader :: bool where
  "local_is_leader = True"

subsection \<open>The store\<close>

record log_id =
  li_term :: u64
  li_node :: u64
  li_index :: u64

datatype 'm payload = Blank | Normal command | Membership 'm

record 'm entry =
  le_log_id :: log_id
  le_payload :: "'m payload"

record 'm snapshot_meta =
  sm_last_log_id :: "log_id option"
  sm_last_membership :: "log_id option \<times> 'm"
  sm_snapshot_id :: string

record ('j, 'v, 'm) neuro_store =
  rs_vote :: "'v option"
  rs_log :: "(u64 \<times> 'm entry) list"
  rs_last_purged :: "log_id option"
  rs_committed :: "log_id option"
  rs_world :: "'j desired_world"
  rs_last_applied :: "log_id option"
  rs_last_membership :: "log_id option \<times> 'm"
  rs_current_snapshot :: "('m snapshot_meta \<times> string) option"

definition store_new :: "'m \<Rightarrow> 'j desired_world \<Rightarrow> ('j, 'v, 'm) neuro_store" where
  "store_new dflt w =
     \<lparr>rs_vote = None, rs_log = [], rs_last_purged = None, rs_committed = None, rs_world = w,
      rs_last_applied = None, rs_last_membership = (None, dflt), rs_current_snapshot = None\<rparr>"

subsection \<open>The log\<close>

definition try_get_log_entries :: "(u64 \<Rightarrow> bool) \<Rightarrow> ('j, 'v, 'm) neuro_store \<Rightarrow> 'm entry list" where
  "try_get_log_entries in_range s = map snd (filter (\<lambda>(k, _). in_range k) (rs_log s))"

definition get_log_state :: "('j, 'v, 'm) neuro_store \<Rightarrow> log_id option \<times> log_id option" where
  "get_log_state s =
     (rs_last_purged s,
      opt_or (case rs_log s of [] \<Rightarrow> None | _ \<Rightarrow> Some (le_log_id (snd (last (rs_log s))))) (rs_last_purged s))"

definition save_vote :: "'v \<Rightarrow> ('j, 'v, 'm) neuro_store \<Rightarrow> ('j, 'v, 'm) neuro_store" where
  "save_vote v s = s\<lparr>rs_vote := Some v\<rparr>"

definition append_to_log :: "'m entry list \<Rightarrow> ('j, 'v, 'm) neuro_store \<Rightarrow> ('j, 'v, 'm) neuro_store" where
  "append_to_log es s = s\<lparr>rs_log := fold (\<lambda>e m. bt_insert (li_index (le_log_id e)) e m) es (rs_log s)\<rparr>"

definition delete_conflict_logs_since :: "log_id \<Rightarrow> ('j, 'v, 'm) neuro_store \<Rightarrow> ('j, 'v, 'm) neuro_store" where
  "delete_conflict_logs_since l s =
     s\<lparr>rs_log := fold (\<lambda>k m. hm_remove k m) (map fst (filter (\<lambda>(k, _). li_index l \<le> k) (rs_log s))) (rs_log s)\<rparr>"

definition purge_logs_upto :: "log_id \<Rightarrow> ('j, 'v, 'm) neuro_store \<Rightarrow> ('j, 'v, 'm) neuro_store" where
  "purge_logs_upto l s =
     s\<lparr>rs_last_purged := Some l,
       rs_log := fold (\<lambda>k m. hm_remove k m) (map fst (filter (\<lambda>(k, _). k \<le> li_index l) (rs_log s))) (rs_log s)\<rparr>"

subsection \<open>The state machine\<close>

text \<open>\<open>as_yaml\<close> turns the JSON text of a command into the YAML text that is parsed.\<close>

definition command_resource :: "('y, 'j) yaml_ops \<Rightarrow> (string \<Rightarrow> string option) \<Rightarrow> string \<Rightarrow> 'y resource option" where
  "command_resource Y as_yaml spec_json =
     Option.bind (as_yaml spec_json) (\<lambda>y. Option.bind (ok (parse_yaml Y y)) head_opt)"

definition run_command ::
  "('y, 'j) yaml_ops \<Rightarrow> 'j json_ops \<Rightarrow> machine \<Rightarrow> (string \<Rightarrow> string option) \<Rightarrow> command \<Rightarrow> 'j desired_world
   \<Rightarrow> (string \<times> 'j desired_world \<times> effect list) rust" where
  "run_command Y J M as_yaml cmd w =
     (case cmd of
        CApply kind name ns spec_json \<Rightarrow>
          (case command_resource Y as_yaml spec_json of
             Some r \<Rightarrow> rust_bind (apply_resource Y J M r w) (\<lambda>(res, w', es).
               Ret (case res of
                      Inr m \<Rightarrow> m
                    | Inl e \<Rightarrow> ''apply '' @ kind @ ''/'' @ name @ '' ns='' @ ns @ '' failed: '' @ e, w', es))
           | None \<Rightarrow> Ret (''apply '' @ kind @ ''/'' @ name @ '': could not parse spec_json'', w, []))
      | CScale name ns replicas \<Rightarrow>
          if hm_contains (deployments w) name
          then Ret (''scale '' @ name @ '' ns='' @ ns @ '' '' @ arrow @ '' '' @ show_word replicas,
                    w\<lparr>deployments := hm_modify name (\<lambda>d. d\<lparr>d_replicas := replicas\<rparr>) (deployments w)\<rparr>, [])
          else Ret (''scale '' @ name @ '': not found'', w, [])
      | CDelete kind name ns \<Rightarrow>
          (let (existed, w', es) = delete_resource kind name w
           in Ret (''delete '' @ kind @ ''/'' @ name @ '' ns='' @ ns @ '' (''
                   @ (if existed then ''removed'' else ''not found'') @ '')'', w', es))
      | CHeartbeat node cpu mem pods \<Rightarrow>
          Ret (''heartbeat '' @ node,
               w\<lparr>nodes := hm_modify node (\<lambda>n. n\<lparr>cn_cpu_used := cpu, cn_mem_used := mem, cn_pod_count := pods\<rparr>) (nodes w)\<rparr>,
               []))"

definition apply_command ::
  "('y, 'j) yaml_ops \<Rightarrow> 'j json_ops \<Rightarrow> machine \<Rightarrow> (string \<Rightarrow> string option) \<Rightarrow> command \<Rightarrow> 'j desired_world
   \<Rightarrow> (string \<times> 'j desired_world \<times> effect list) rust" where
  "apply_command Y J M as_yaml cmd w =
     rust_bind (run_command Y J M as_yaml cmd w) (\<lambda>(msg, w', es).
       Ret (msg, w'\<lparr>config := (config w')\<lparr>cfg_runtime := ''raft:[raft] '' @ msg\<rparr>\<rparr>, es))"

definition apply_entry ::
  "('y, 'j) yaml_ops \<Rightarrow> 'j json_ops \<Rightarrow> machine \<Rightarrow> (string \<Rightarrow> string option) \<Rightarrow> 'm entry
   \<Rightarrow> ('j, 'v, 'm) neuro_store \<Rightarrow> (string \<times> ('j, 'v, 'm) neuro_store) rust" where
  "apply_entry Y J M as_yaml e s =
     (let s1 = s\<lparr>rs_last_applied := Some (le_log_id e)\<rparr>
      in case le_payload e of
           Blank \<Rightarrow> Ret ([], s1)
         | Normal cmd \<Rightarrow> rust_bind (apply_command Y J M as_yaml cmd (rs_world s1)) (\<lambda>(msg, w, _).
             Ret (msg, s1\<lparr>rs_world := w\<rparr>))
         | Membership m \<Rightarrow> Ret ([], s1\<lparr>rs_last_membership := (Some (le_log_id e), m)\<rparr>))"

fun apply_to_state_machine ::
  "('y, 'j) yaml_ops \<Rightarrow> 'j json_ops \<Rightarrow> machine \<Rightarrow> (string \<Rightarrow> string option) \<Rightarrow> 'm entry list
   \<Rightarrow> ('j, 'v, 'm) neuro_store \<Rightarrow> (string list \<times> ('j, 'v, 'm) neuro_store) rust" where
  "apply_to_state_machine Y J M as_yaml [] s = Ret ([], s)"
| "apply_to_state_machine Y J M as_yaml (e # es) s =
     rust_bind (apply_entry Y J M as_yaml e s) (\<lambda>(m, s1).
     rust_bind (apply_to_state_machine Y J M as_yaml es s1) (\<lambda>(ms, s2). Ret (m # ms, s2)))"

subsection \<open>Snapshots\<close>

text \<open>\<open>render\<close> is the JSON of the last applied log id, \<open>leader\<close> the display of its leader.\<close>

definition build_snapshot ::
  "(log_id option \<Rightarrow> string) \<Rightarrow> (log_id \<Rightarrow> string) \<Rightarrow> ('j, 'v, 'm) neuro_store
   \<Rightarrow> ('m snapshot_meta \<times> string) \<times> ('j, 'v, 'm) neuro_store" where
  "build_snapshot render leader s =
     (let meta = \<lparr>sm_last_log_id = rs_last_applied s, sm_last_membership = rs_last_membership s,
                  sm_snapshot_id = (case rs_last_applied s of
                     Some l \<Rightarrow> leader l @ ''-'' @ show_word (li_index l) @ ''-0'' | None \<Rightarrow> ''--0'')\<rparr>;
          snap = (meta, render (rs_last_applied s))
      in (snap, s\<lparr>rs_current_snapshot := Some snap\<rparr>))"

definition install_snapshot :: "'m snapshot_meta \<Rightarrow> string \<Rightarrow> ('j, 'v, 'm) neuro_store \<Rightarrow> ('j, 'v, 'm) neuro_store" where
  "install_snapshot meta d s =
     s\<lparr>rs_last_applied := sm_last_log_id meta, rs_last_membership := sm_last_membership meta,
       rs_current_snapshot := Some (meta, d)\<rparr>"

definition get_current_snapshot :: "('j, 'v, 'm) neuro_store \<Rightarrow> ('m snapshot_meta \<times> string) option" where
  "get_current_snapshot s = rs_current_snapshot s"

definition last_applied_state :: "('j, 'v, 'm) neuro_store \<Rightarrow> log_id option \<times> (log_id option \<times> 'm)" where
  "last_applied_state s = (rs_last_applied s, rs_last_membership s)"

subsection \<open>Network and dispatch\<close>

record 'h in_proc_network =
  ip_target :: u64
  ip_source :: u64
  ip_registry :: "(u64, 'h) hmap"
  ip_isolated :: "u64 list"

definition in_proc_peer :: "'h in_proc_network \<Rightarrow> 'h option" where
  "in_proc_peer n =
     (if ip_source n \<in> set (ip_isolated n) \<or> ip_target n \<in> set (ip_isolated n) then None
      else hm_get (ip_registry n) (ip_target n))"

definition unreachable_msg :: "'h in_proc_network \<Rightarrow> string" where
  "unreachable_msg n = ''peer '' @ show_word (ip_target n) @ '' not registered''"

text \<open>An RPC over the in-process network: \<open>send\<close> is the target's answer.\<close>

definition in_proc_rpc :: "('h \<Rightarrow> 'req \<Rightarrow> 'resp result) \<Rightarrow> 'h in_proc_network \<Rightarrow> 'req \<Rightarrow> 'resp result" where
  "in_proc_rpc send n req =
     (case in_proc_peer n of None \<Rightarrow> Inl (unreachable_msg n) | Some h \<Rightarrow> send h req)"

definition handle_rpc :: "(string \<Rightarrow> string \<Rightarrow> string result) option \<Rightarrow> string \<Rightarrow> string \<Rightarrow> string result" where
  "handle_rpc raft which body =
     (case raft of
        None \<Rightarrow> Inl ''raft not running on this node''
      | Some call \<Rightarrow>
          if which \<in> {''append-entries'', ''vote'', ''install-snapshot''} then call which body
          else Inl (''unknown raft rpc: '' @ which))"

definition propose :: "(command \<Rightarrow> string result) option \<Rightarrow> command \<Rightarrow> string result" where
  "propose client_write cmd =
     (case client_write of
        None \<Rightarrow> Inl ''raft not running''
      | Some wr \<Rightarrow> (case wr cmd of Inr m \<Rightarrow> Inr m | Inl e \<Rightarrow> Inl (''raft write failed: '' @ e)))"

text \<open>A running handle is its current leader and its own id.\<close>

definition is_leader_or_off :: "(u64 option \<times> u64) option \<Rightarrow> bool" where
  "is_leader_or_off h = (case h of None \<Rightarrow> True | Some (leader, me) \<Rightarrow> leader = Some me)"

definition raft_status :: "(u64 option \<times> u64) option \<Rightarrow> u64 option \<times> u64 option" where
  "raft_status h = (case h of None \<Rightarrow> (None, None) | Some (leader, me) \<Rightarrow> (leader, Some me))"

subsection \<open>Lemmas: the log\<close>

text \<open>The log is sorted and every entry sits under its own index.\<close>

definition log_ok :: "('j, 'v, 'm) neuro_store \<Rightarrow> bool" where
  "log_ok s = (bt_ok (rs_log s) \<and> (\<forall>(k, e) \<in> set (rs_log s). li_index (le_log_id e) = k))"

lemma filter_removed:
  "fold (\<lambda>k m. hm_remove k m) (map fst (filter (\<lambda>(k, _). P k) m)) m' =
     filter (\<lambda>(k, _). k \<notin> {k'. k' \<in> fst ` set m \<and> P k'}) m'"
proof -
  have "fold (\<lambda>k m. hm_remove k m) ks m' = filter (\<lambda>p. fst p \<notin> set ks) m'" for ks
    by (induction ks arbitrary: m') (auto simp: hm_remove_def intro: filter_cong)
  then show ?thesis by (force intro!: filter_cong)
qed

lemma remove_range: "fold (\<lambda>k m. hm_remove k m) (map fst (filter (\<lambda>(k, _). P k) m)) m = filter (\<lambda>(k, _). \<not> P k) m"
  by (subst filter_removed) (force intro!: filter_cong)

lemma delete_conflict_log: "rs_log (delete_conflict_logs_since l s) = filter (\<lambda>(k, _). k < li_index l) (rs_log s)"
  by (simp add: delete_conflict_logs_since_def remove_range not_le)

lemma purge_log: "rs_log (purge_logs_upto l s) = filter (\<lambda>(k, _). li_index l < k) (rs_log s)"
  by (simp add: purge_logs_upto_def remove_range not_le)

lemma append_log_ok: "log_ok s \<Longrightarrow> log_ok (append_to_log es s)"
proof (induction es arbitrary: s)
  case (Cons e es)
  have "append_to_log (e # es) s = append_to_log es (s\<lparr>rs_log := bt_insert (li_index (le_log_id e)) e (rs_log s)\<rparr>)"
    by (simp add: append_to_log_def)
  moreover have "log_ok (s\<lparr>rs_log := bt_insert (li_index (le_log_id e)) e (rs_log s)\<rparr>)"
    using Cons.prems set_bt_insert[of "li_index (le_log_id e)" e "rs_log s"]
    by (fastforce simp: log_ok_def intro: bt_ok_insert)
  ultimately show ?case using Cons.IH by simp
qed (simp add: append_to_log_def)

lemma log_ops_ok:
  "log_ok s \<Longrightarrow> log_ok (delete_conflict_logs_since l s)"
  "log_ok s \<Longrightarrow> log_ok (purge_logs_upto l s)"
  by (auto simp: log_ok_def delete_conflict_log purge_log intro: bt_ok_filter)

lemma append_get:
  "bt_ok m \<Longrightarrow> hm_get (fold (\<lambda>e m. bt_insert (li_index (le_log_id e)) e m) es m) i =
     (case find (\<lambda>e. li_index (le_log_id e) = i) (rev es) of Some e \<Rightarrow> Some e | None \<Rightarrow> hm_get m i)"
proof (induction es rule: rev_induct)
  case (snoc e es)
  have "bt_ok (fold (\<lambda>e m. bt_insert (li_index (le_log_id e)) e m) es m)"
    using snoc.prems by (induction es arbitrary: m) (auto intro: bt_ok_insert)
  with snoc show ?case by (simp add: bt_get_insert)
qed simp

subsection \<open>Lemmas: the state machine\<close>

lemma rust_bind_assoc: "rust_bind (rust_bind m f) g = rust_bind m (\<lambda>x. rust_bind (f x) g)"
  by (cases m) auto

lemma rust_bind_Ret: "rust_bind m Ret = m"
  by (cases m) auto

lemma apply_entries_append:
  "apply_to_state_machine Y J M ay (es @ fs) s =
     rust_bind (apply_to_state_machine Y J M ay es s) (\<lambda>(ms, s1).
     rust_bind (apply_to_state_machine Y J M ay fs s1) (\<lambda>(ns, s2). Ret (ms @ ns, s2)))"
  by (induction es arbitrary: s) (simp_all add: split_def rust_bind_assoc rust_bind_Ret)

lemma world_ok_config: "world_ok (w\<lparr>config := c\<rparr>) = world_ok w"
  by simp

lemma run_command_ok:
  assumes "world_ok w" and "run_command Y J M ay cmd w = Ret (msg, w', es)"
  shows "world_ok w'"
proof (cases cmd)
  case (CApply kind name ns spec)
  show ?thesis
  proof (cases "command_resource Y ay spec")
    case (Some r)
    with assms(2) CApply obtain res es' where "apply_resource Y J M r w = Ret (res, w', es')"
      by (auto simp: run_command_def rust_bind_eq_Ret)
    then show ?thesis using arm_okD[OF apply_resource_arm assms(1)] by blast
  qed (use assms CApply in \<open>auto simp: run_command_def\<close>)
next
  case (CScale name ns n)
  with assms show ?thesis
    by (auto simp: run_command_def world_ok_keyed intro!: keyed_modify split: if_splits)
next
  case (CDelete kind name ns)
  with assms(2) have "w' = fst (snd (delete_resource kind name w))"
    by (auto simp: run_command_def split_def Let_def)
  with assms(1) show ?thesis by (simp add: delete_resource_ok)
next
  case (CHeartbeat node cpu mem pods)
  with assms show ?thesis by (auto simp: run_command_def world_ok_keyed intro!: keyed_modify)
qed

lemma apply_entry_ok:
  assumes "world_ok (rs_world s)" and "apply_entry Y J M ay e s = Ret (m, s')"
  shows "world_ok (rs_world s') \<and> rs_last_applied s' = Some (le_log_id e) \<and> rs_log s' = rs_log s"
  using assms
  by (cases "le_payload e")
    (auto simp: apply_entry_def apply_command_def rust_bind_eq_Ret Let_def dest: run_command_ok)

lemma apply_entries_ok:
  assumes "world_ok (rs_world s)" and "apply_to_state_machine Y J M ay es s = Ret (ms, s')"
  shows "world_ok (rs_world s') \<and> length ms = length es \<and> rs_log s' = rs_log s
    \<and> rs_last_applied s' = (if es = [] then rs_last_applied s else Some (le_log_id (last es)))"
  using assms
proof (induction es arbitrary: s ms)
  case (Cons e es)
  then obtain m s1 ns where "apply_entry Y J M ay e s = Ret (m, s1)"
    "apply_to_state_machine Y J M ay es s1 = Ret (ns, s')" "ms = m # ns"
    by (auto simp: rust_bind_eq_Ret)
  with Cons.IH Cons.prems(1) apply_entry_ok show ?case by fastforce
qed simp

subsection \<open>Lemmas for the properties\<close>

interpretation raft_append: state_op log_ok append_to_log
  by unfold_locales (rule append_log_ok)

interpretation raft_truncate: state_op log_ok delete_conflict_logs_since
  by unfold_locales (rule log_ops_ok)

interpretation raft_purge: state_op log_ok purge_logs_upto
  by unfold_locales (rule log_ops_ok)

text \<open>The same committed entries handed over in batches, as the consensus library does.\<close>

fun apply_batches ::
  "('y, 'j) yaml_ops \<Rightarrow> 'j json_ops \<Rightarrow> machine \<Rightarrow> (string \<Rightarrow> string option) \<Rightarrow> 'm entry list list
   \<Rightarrow> ('j, 'v, 'm) neuro_store \<Rightarrow> (string list \<times> ('j, 'v, 'm) neuro_store) rust" where
  "apply_batches Y J M ay [] s = Ret ([], s)"
| "apply_batches Y J M ay (es # ess) s =
     rust_bind (apply_to_state_machine Y J M ay es s) (\<lambda>(ms, s1).
     rust_bind (apply_batches Y J M ay ess s1) (\<lambda>(ns, s2). Ret (ms @ ns, s2)))"

lemma apply_batches_concat: "apply_batches Y J M ay ess s = apply_to_state_machine Y J M ay (concat ess) s"
proof (induction ess arbitrary: s)
  case (Cons es ess)
  then show ?case by (simp add: apply_entries_append)
qed simp

lemma filter_get:
  "hm_get (filter (\<lambda>(k, _). P k) m) i = (if P i then hm_get m i else None)"
  by (induction m) (auto simp: hm_get_Cons)

lemma get_entries_sorted:
  assumes "log_ok s"
  shows "sorted_wrt (<) (map (\<lambda>e. li_index (le_log_id e)) (try_get_log_entries P s))"
proof -
  have "map (\<lambda>e. li_index (le_log_id e)) (try_get_log_entries P s) = map fst (filter (\<lambda>(k, _). P k) (rs_log s))"
    using assms by (auto simp: try_get_log_entries_def log_ok_def)
  then show ?thesis using bt_ok_filter[of "rs_log s"] assms by (simp add: log_ok_def bt_ok_def)
qed

subsection \<open>Properties\<close>

text \<open>
  The replicated log is a map from index to entry. On a well-formed log, appending overwrites
  index by index (the last entry for an index wins), deleting conflicts removes exactly the entries
  from the given index on, purging exactly those up to it, each keeps the log well formed, and a range
  read returns the stored entries in increasing index order.\<close>

theorem raft_log_laws:
  assumes "log_ok s"
  shows "(\<forall>i. hm_get (rs_log (append_to_log es s)) i =
        (case find (\<lambda>e. li_index (le_log_id e) = i) (rev es) of Some e \<Rightarrow> Some e | None \<Rightarrow> hm_get (rs_log s) i))
    \<and> (\<forall>i. hm_get (rs_log (delete_conflict_logs_since l s)) i = (if i < li_index l then hm_get (rs_log s) i else None))
    \<and> (\<forall>i. hm_get (rs_log (purge_logs_upto l s)) i = (if li_index l < i then hm_get (rs_log s) i else None))
    \<and> log_ok (append_to_log es s) \<and> log_ok (delete_conflict_logs_since l s) \<and> log_ok (purge_logs_upto l s)
    \<and> sorted_wrt (<) (map (\<lambda>e. li_index (le_log_id e)) (try_get_log_entries P s))"
proof -
  have "bt_ok (rs_log s)" using assms by (simp add: log_ok_def)
  then have "hm_get (rs_log (append_to_log es s)) i =
        (case find (\<lambda>e. li_index (le_log_id e) = i) (rev es) of Some e \<Rightarrow> Some e | None \<Rightarrow> hm_get (rs_log s) i)" for i
    by (simp add: append_to_log_def append_get)
  then show ?thesis
    using raft_append.keeps[OF assms] raft_truncate.keeps[OF assms] raft_purge.keeps[OF assms] get_entries_sorted[OF assms]
    by (simp add: delete_conflict_log purge_log filter_get)
qed

definition log_entry :: "u64 \<Rightarrow> u64 \<Rightarrow> unit entry" where
  "log_entry t i = \<lparr>le_log_id = \<lparr>li_term = t, li_node = 1, li_index = i\<rparr>, le_payload = Blank\<rparr>"

definition empty_store :: "(doc, unit, unit) neuro_store" where
  "empty_store = store_new () world_new"


definition scale_entry :: "u64 \<Rightarrow> u32 \<Rightarrow> unit entry" where
  "scale_entry i n = \<lparr>le_log_id = \<lparr>li_term = 1, li_node = 1, li_index = i\<rparr>, le_payload = Normal (CScale ''web'' ''default'' n)\<rparr>"

definition idle :: machine where
  "idle = \<lparr>mc_containers = \<lambda>n. None, mc_neuropod = \<lambda>n i d m. Inl ''no neuropod''\<rparr>"


text \<open>
  Applying committed entries keeps the replica's world well formed, answers every entry, leaves the
  log alone, and moves the last applied index to that of the last entry.\<close>

theorem raft_apply_tracks_log:
  assumes "world_ok (rs_world s)" and "apply_to_state_machine Y J M ay es s = Ret (ms, s')"
  shows "world_ok (rs_world s') \<and> length ms = length es \<and> rs_log s' = rs_log s
    \<and> fst (last_applied_state s') = (if es = [] then fst (last_applied_state s) else Some (le_log_id (last es)))"
  using apply_entries_ok[OF assms] by (simp add: last_applied_state_def)

text \<open>
  A replicated delete that names the resource by its kind, the way the other commands and the
  tests of the module do, removes nothing: for a kind that starts with a capital letter the world's resources are as before
  and the answer is \<open>not found\<close>, because deletion expects the lower-case plural.\<close>

theorem raft_delete_by_kind_is_noop:
  fixes w :: "'j desired_world"
  assumes "kind = c # cs" and "c \<in> set ''ABCDEFGHIJKLMNOPQRSTUVWXYZ''"
  shows "run_command Y J M ay (CDelete kind name ns) w =
    Ret (''delete '' @ kind @ ''/'' @ name @ '' ns='' @ ns @ '' (not found)'', w, [])"
proof -
  have "fst p \<noteq> kind" if "p \<in> set (delete_arms :: (string \<times> (string \<Rightarrow> 'j desired_world \<Rightarrow> bool \<times> 'j desired_world \<times> effect list)) list)" for p
    using that assms by (auto simp: delete_arms_def)
  then have "map_of (delete_arms :: (string \<times> (string \<Rightarrow> 'j desired_world \<Rightarrow> bool \<times> 'j desired_world \<times> effect list)) list) kind = None"
    by (force simp: map_of_eq_None_iff)
  then show ?thesis by (simp add: run_command_def delete_resource_def)
qed

text \<open>
  Applying a snapshot moves the last applied index but not the world: a follower that catches up by
  snapshot keeps the desired state it had.\<close>

theorem raft_snapshot_skips_world:
  "rs_world (install_snapshot (fst (fst (build_snapshot render leader src))) d s) = rs_world s
   \<and> rs_last_applied (install_snapshot (fst (fst (build_snapshot render leader src))) d s) = rs_last_applied src"
  by (simp add: install_snapshot_def build_snapshot_def Let_def)

end
