(* ===== verification/Json.thy ===== *)
theory Json
  imports Spec_Types "HOL-Library.List_Lexorder" "HOL-Library.Char_ord"
begin

text \<open>
  JSON documents as the API handles them: the variants of \<open>serde_json::Value\<close> (an object is a map ordered
  by key), the accessors the program calls on it, and the two merges of \<^verbatim>\<open>src/src/api.rs\<close> that a
  partial PATCH goes through: \<open>strategic_merge\<close> and \<open>merge_arrays\<close>. Parsing and printing of JSON text stay
  parameters of the clients.
\<close>

subsection \<open>Values and accessors\<close>

datatype json =
    JNull
  | JBool bool
  | JPos u64
  | JNeg int
  | JFloat flt
  | JStr string
  | JArr "json list"
  | JObj "(string \<times> json) list"

fun jget :: "json \<Rightarrow> string \<Rightarrow> json option" where
  "jget (JObj m) k = hm_get m k"
| "jget v k = None"

text \<open>\<open>v["k"]\<close> as a value: \<open>Null\<close> when there is no such member.\<close>

definition jat :: "json \<Rightarrow> string \<Rightarrow> json" where
  "jat v k = unwrap_or (jget v k) JNull"

text \<open>\<open>v["k"] = x\<close>: \<open>Null\<close> becomes an object, an object gets the member, anything else panics.\<close>

fun jset :: "json \<Rightarrow> string \<Rightarrow> json \<Rightarrow> json rust" where
  "jset (JObj m) k x = Ret (JObj (bt_insert k x m))"
| "jset JNull k x = Ret (JObj [(k, x)])"
| "jset v k x = Panic"

fun jstr :: "json \<Rightarrow> string option" where
  "jstr (JStr s) = Some s"
| "jstr v = None"

fun ju64 :: "json \<Rightarrow> u64 option" where
  "ju64 (JPos n) = Some n"
| "ju64 v = None"

fun jbool :: "json \<Rightarrow> bool option" where
  "jbool (JBool b) = Some b"
| "jbool v = None"

fun jarr :: "json \<Rightarrow> json list option" where
  "jarr (JArr vs) = Some vs"
| "jarr v = None"

fun jobj :: "json \<Rightarrow> (string \<times> json) list option" where
  "jobj (JObj m) = Some m"
| "jobj v = None"

text \<open>\<open>as f64\<close> of an integer: rounded to 53 significant bits, ties to even.\<close>

definition f64_of_int :: "int \<Rightarrow> flt" where
  "f64_of_int n =
     (if n = 0 then Zero False
      else let a = \<bar>of_int n\<bar> :: rat; u = 2 powi (ilog2 a - 52)
           in Num (of_int (sgn n) * (of_int (round_ne (a / u)) * u)))"

fun jf64 :: "json \<Rightarrow> flt option" where
  "jf64 (JPos n) = Some (f64_of_int (uint n))"
| "jf64 (JNeg n) = Some (f64_of_int n)"
| "jf64 (JFloat x) = Some x"
| "jf64 v = None"

text \<open>A single-precision number in a document: a number that is not finite becomes \<open>Null\<close>.\<close>

fun j_f32 :: "f32 \<Rightarrow> json" where
  "j_f32 NaN = JNull"
| "j_f32 (Inf s) = JNull"
| "j_f32 x = JFloat x"

abbreviation j_u16 :: "u16 \<Rightarrow> json" where "j_u16 n \<equiv> JPos (ucast n)"
abbreviation j_u32 :: "u32 \<Rightarrow> json" where "j_u32 n \<equiv> JPos (ucast n)"
abbreviation j_nat :: "nat \<Rightarrow> json" where "j_nat n \<equiv> JPos (of_nat n)"

text \<open>An object literal: \<open>json!({...})\<close>.\<close>

definition j_obj :: "(string \<times> json) list \<Rightarrow> json" where
  "j_obj kvs = JObj (bt_collect kvs)"

definition j_map :: "(string, string) hmap \<Rightarrow> json" where
  "j_map m = JObj (bt_collect (map (\<lambda>(k, v). (k, JStr v)) m))"

definition j_strs :: "string list \<Rightarrow> json" where
  "j_strs ss = JArr (map JStr ss)"

text \<open>\<open>Value::pointer\<close> on the tokens of a path.\<close>

definition ptr_index :: "string \<Rightarrow> nat option" where
  "ptr_index t =
     (if starts_with t ''+'' \<or> (starts_with t ''0'' \<and> length t \<noteq> 1) then None else parse_unsigned 64 t)"

fun jptr :: "json \<Rightarrow> string list \<Rightarrow> json option" where
  "jptr v [] = Some v"
| "jptr (JObj m) (t # ts) = (case hm_get m t of Some w \<Rightarrow> jptr w ts | None \<Rightarrow> None)"
| "jptr (JArr vs) (t # ts) =
     (case ptr_index t of
        Some i \<Rightarrow> if i < length vs then jptr (vs ! i) ts else None
      | None \<Rightarrow> None)"
| "jptr v (t # ts) = None"

text \<open>The accessors as the record the desired world's operations are parameterised by.\<close>

definition serde_value :: "json json_ops" where
  "serde_value = \<lparr>jv_get = jget, jv_as_str = jstr, jv_as_u64 = ju64, jv_as_f64 = jf64, jv_as_array = jarr,
     jv_as_object = jobj, jv_empty_object = JObj []\<rparr>"

lemma serde_value_simps [simp]:
  "jv_get serde_value = jget" "jv_as_str serde_value = jstr" "jv_as_u64 serde_value = ju64"
  "jv_as_f64 serde_value = jf64" "jv_as_array serde_value = jarr" "jv_as_object serde_value = jobj"
  by (simp_all add: serde_value_def)

lemma jget_obj: "jget (j_obj kvs) k = map_of (rev kvs) k"
  by (simp add: j_obj_def bt_collect_get)

subsection \<open>Strategic merge\<close>

definition MERGE_KEYS :: "string list" where
  "MERGE_KEYS = [''name'', ''containerPort'', ''mountPath'']"

definition has_key :: "string \<Rightarrow> json \<Rightarrow> bool" where
  "has_key k e = (jget e k \<noteq> None)"

text \<open>The merge key both sides use: every element of both arrays has it, and the patch is not empty.\<close>

definition merge_key :: "json list \<Rightarrow> json list \<Rightarrow> string option" where
  "merge_key b p = find (\<lambda>k. list_all (has_key k) p \<and> list_all (has_key k) b \<and> p \<noteq> []) MERGE_KEYS"

text \<open>Where the element with the same key value is.\<close>

definition find_elem :: "string \<Rightarrow> json list \<Rightarrow> json \<Rightarrow> nat option" where
  "find_elem k m pe = find (\<lambda>i. jget (m ! i) k = jget pe k) [0..<length m]"

function (sequential)
  strategic_merge :: "json \<Rightarrow> json \<Rightarrow> json"
  and merge_fields :: "(string \<times> json) list \<Rightarrow> (string \<times> json) list \<Rightarrow> (string \<times> json) list"
  and merge_member :: "json \<Rightarrow> json \<Rightarrow> json"
  and merge_arrays :: "json list \<Rightarrow> json list \<Rightarrow> json list"
  and merge_elems :: "string \<Rightarrow> json list \<Rightarrow> json list \<Rightarrow> json list"
where
  "strategic_merge (JObj b) (JObj p) = JObj (merge_fields b p)"
| "strategic_merge b p = p"
| "merge_fields b [] = b"
| "merge_fields b ((k, pv) # p) =
     merge_fields
       (if pv = JNull then hm_remove k b
        else case hm_get b k of
               Some bv \<Rightarrow> bt_insert k (merge_member bv pv) b
             | None \<Rightarrow> bt_insert k pv b) p"
| "merge_member (JArr b) (JArr p) = JArr (merge_arrays b p)"
| "merge_member (JObj b) (JObj p) = strategic_merge (JObj b) (JObj p)"
| "merge_member bv pv = pv"
| "merge_arrays b p = (case merge_key b p of Some k \<Rightarrow> merge_elems k b p | None \<Rightarrow> p)"
| "merge_elems k m [] = m"
| "merge_elems k m (pe # ps) =
     merge_elems k
       (case find_elem k m pe of
          Some i \<Rightarrow> m[i := strategic_merge (m ! i) pe]
        | None \<Rightarrow> m @ [pe]) ps"
  by pat_completeness auto
termination
  by (relation "measure (\<lambda>x. case x of
       Inl (Inl (_, p)) \<Rightarrow> 2 * size p
     | Inl (Inr (_, p)) \<Rightarrow> 2 * size_list (size_prod (\<lambda>_. 0) size) p + 1
     | Inr (Inl (_, p)) \<Rightarrow> 2 * size p + 1
     | Inr (Inr (Inl (_, p))) \<Rightarrow> 2 * size_list size p + 1
     | Inr (Inr (Inr (_, _, p))) \<Rightarrow> 2 * size_list size p)")
    auto

declare merge_arrays.simps [simp del]

subsection \<open>What a merge does to one member\<close>

text \<open>The rule of one member: absent in the patch keeps, null deletes, otherwise merged or put in.\<close>

definition merged_member :: "json option \<Rightarrow> json option \<Rightarrow> json option" where
  "merged_member bv pv =
     (case pv of
        None \<Rightarrow> bv
      | Some v \<Rightarrow> if v = JNull then None else Some (case bv of Some w \<Rightarrow> merge_member w v | None \<Rightarrow> v))"

lemma merge_fields_get:
  "hm_ok p \<Longrightarrow> hm_get (merge_fields b p) k = merged_member (hm_get b k) (hm_get p k)"
proof (induction p arbitrary: b)
  case Nil
  then show ?case by (simp add: merged_member_def)
next
  case (Cons kv p)
  obtain k' v where kv: "kv = (k', v)" by (cases kv)
  then have p: "hm_ok p" and n: "hm_get p k' = None" using Cons.prems by (auto simp: hm_ok_def hm_get_def map_of_eq_None_iff)
  show ?case unfolding kv merge_fields.simps Cons.IH[OF p]
    using n by (auto simp: merged_member_def hm_get_Cons split: option.splits)
qed

lemma merge_fields_ok: "bt_ok b \<Longrightarrow> bt_ok (merge_fields b p)"
  by (induction p arbitrary: b) (auto split: option.splits)

fun scalar :: "json \<Rightarrow> bool" where
  "scalar JNull = False"
| "scalar (JArr _) = False"
| "scalar (JObj _) = False"
| "scalar _ = True"

lemma merge_member_scalar [simp]: "scalar v \<Longrightarrow> merge_member w v = v"
  by (cases v; cases w) auto

subsection \<open>Arrays keyed by a member\<close>

text \<open>An element of a keyed array: an object with distinct members whose key is a plain value.\<close>

fun merge_keyed :: "string \<Rightarrow> json \<Rightarrow> bool" where
  "merge_keyed k (JObj m) = (bt_ok m \<and> (case hm_get m k of Some v \<Rightarrow> scalar v | None \<Rightarrow> False))"
| "merge_keyed k _ = False"

lemma merge_same_key:
  assumes "merge_keyed k e" "merge_keyed k pe" "jget e k = jget pe k"
  shows "jget (strategic_merge e pe) k = jget e k"
  using assms by (cases e; cases pe) (auto simp: merge_fields_get bt_ok_hm_ok merged_member_def split: option.splits)

abbreviation keys_of :: "string \<Rightarrow> json list \<Rightarrow> json option list" where
  "keys_of k es \<equiv> map (\<lambda>e. jget e k) es"

lemma find_elem_None: "find_elem k m pe = None \<longleftrightarrow> jget pe k \<notin> set (keys_of k m)"
proof -
  have "keys_of k m = map (\<lambda>i. jget (m ! i) k) [0..<length m]"
    by (rule nth_equalityI) simp_all
  then have "set (keys_of k m) = (\<lambda>i. jget (m ! i) k) ` set [0..<length m]"
    by (simp only: set_map)
  then show ?thesis unfolding find_elem_def find_None_iff_all by (metis (no_types, lifting) image_iff)
qed

lemma find_elem_Some:
  assumes "find_elem k m pe = Some i"
  shows "i < length m \<and> jget (m ! i) k = jget pe k"
  using find_Some_iff_mem[OF assms[unfolded find_elem_def]] by auto

text \<open>The elements of the base, each with the patch's element of its key merged in.\<close>

definition patch_elem :: "string \<Rightarrow> json list \<Rightarrow> json \<Rightarrow> json" where
  "patch_elem k p e = (case find (\<lambda>pe. jget pe k = jget e k) p of Some pe \<Rightarrow> strategic_merge e pe | None \<Rightarrow> e)"

definition new_elems :: "string \<Rightarrow> json list \<Rightarrow> json list \<Rightarrow> json list" where
  "new_elems k b p = filter (\<lambda>pe. jget pe k \<notin> set (keys_of k b)) p"

lemma patch_elem_other: "jget e k \<noteq> jget pe k \<Longrightarrow> patch_elem k (pe # p) e = patch_elem k p e"
  by (simp add: patch_elem_def)

lemma patch_elem_absent: "jget e k \<notin> (\<lambda>x. jget x k) ` set p \<Longrightarrow> patch_elem k p e = e"
proof -
  assume "jget e k \<notin> (\<lambda>x. jget x k) ` set p"
  then have "find (\<lambda>pe. jget pe k = jget e k) p = None" by (auto simp: find_None_iff image_iff)
  then show ?thesis by (simp add: patch_elem_def)
qed

lemma patch_elem_key:
  assumes "merge_keyed k e" "list_all (merge_keyed k) p"
  shows "jget (patch_elem k p e) k = jget e k"
proof (cases "find (\<lambda>pe. jget pe k = jget e k) p")
  case (Some pe)
  then have "merge_keyed k pe" "jget e k = jget pe k" using find_Some_iff_mem[OF Some] assms(2) by (auto simp: list_all_iff)
  then show ?thesis using Some merge_same_key[OF assms(1)] by (simp add: patch_elem_def)
qed (simp add: patch_elem_def)

lemma merge_elems_by_key:
  assumes "list_all (merge_keyed k) m" "list_all (merge_keyed k) p" "distinct (keys_of k m)" "distinct (keys_of k p)"
  shows "merge_elems k m p = map (patch_elem k p) m @ new_elems k m p"
  using assms
proof (induction p arbitrary: m)
  case Nil
  then show ?case by (simp add: patch_elem_def new_elems_def)
next
  case (Cons pe p)
  have fresh: "jget pe k \<notin> (\<lambda>x. jget x k) ` set p" using Cons.prems(4) by auto
  show ?case
  proof (cases "find_elem k m pe")
    case None
    then have n: "jget pe k \<notin> set (keys_of k m)" by (rule find_elem_None[THEN iffD1])
    have "merge_elems k (m @ [pe]) p = map (patch_elem k p) (m @ [pe]) @ new_elems k (m @ [pe]) p"
      using Cons.prems n by (intro Cons.IH) auto
    moreover have "new_elems k (m @ [pe]) p = new_elems k m p"
      using fresh unfolding new_elems_def by (intro filter_cong) (auto simp: image_iff)
    moreover have "map (patch_elem k p) m = map (patch_elem k (pe # p)) m"
      using n by (auto simp: image_iff intro!: patch_elem_other[symmetric])
    ultimately show ?thesis using None n fresh by (simp add: patch_elem_absent new_elems_def)
  next
    case (Some i)
    then have i: "i < length m" "jget (m ! i) k = jget pe k" using find_elem_Some by blast+
    let ?e = "strategic_merge (m ! i) pe"
    have k: "merge_keyed k (m ! i)" "merge_keyed k pe" using Cons.prems i by (auto simp: list_all_length)
    have same: "jget ?e k = jget (m ! i) k" by (rule merge_same_key[OF k i(2)])
    have keys: "keys_of k (m[i := ?e]) = keys_of k m"
      using i same by (simp add: map_update list_update_same_conv)
    have "merge_keyed k ?e"
    proof -
      obtain a b where "m ! i = JObj a" "pe = JObj b" using k by (cases "m ! i"; cases pe) auto
      then show ?thesis using k same by (auto simp: merge_fields_ok split: option.splits)
    qed
    then have "list_all (merge_keyed k) (m[i := ?e])" using Cons.prems(1) i by (auto simp: list_all_length nth_list_update)
    then have "merge_elems k (m[i := ?e]) p = map (patch_elem k p) (m[i := ?e]) @ new_elems k (m[i := ?e]) p"
      using Cons.prems keys by (intro Cons.IH) auto
    moreover have "new_elems k (m[i := ?e]) p = new_elems k m (pe # p)"
    proof -
      have "jget pe k \<in> set (keys_of k m)" using i by (metis length_map nth_map nth_mem)
      then show ?thesis unfolding new_elems_def keys by simp
    qed
    moreover have "map (patch_elem k p) (m[i := ?e]) = map (patch_elem k (pe # p)) m"
    proof (rule nth_equalityI)
      fix j assume "j < length (map (patch_elem k p) (m[i := ?e]))"
      then have j: "j < length m" by simp
      show "map (patch_elem k p) (m[i := ?e]) ! j = map (patch_elem k (pe # p)) m ! j"
      proof (cases "j = i")
        case True
        have "patch_elem k p ?e = ?e" using fresh same i by (intro patch_elem_absent) simp
        then show ?thesis using True i by (simp add: patch_elem_def)
      next
        case False
        have "jget (m ! j) k \<noteq> jget pe k"
          using Cons.prems(3) i j False by (metis distinct_conv_nth length_map nth_map)
        then show ?thesis using False j i by (simp add: patch_elem_other)
      qed
    qed simp
    ultimately show ?thesis using Some by simp
  qed
qed

subsection \<open>Properties\<close>

text \<open>
  A partial PATCH touches exactly the members it names: a member absent from the patch is kept, a member
  the patch sets to null is removed, an object is merged recursively, and any other value replaces the old
  one; the result is again an object ordered by key.
\<close>
theorem strategic_merge_members:
  assumes "bt_ok b" and "bt_ok p"
  shows "\<exists>m. strategic_merge (JObj b) (JObj p) = JObj m \<and> bt_ok m
     \<and> (\<forall>k. hm_get m k = (case hm_get p k of
           None \<Rightarrow> hm_get b k
         | Some JNull \<Rightarrow> None
         | Some (JObj q) \<Rightarrow>
             Some (case hm_get b k of Some (JObj c) \<Rightarrow> strategic_merge (JObj c) (JObj q) | _ \<Rightarrow> JObj q)
         | Some (JArr q) \<Rightarrow>
             Some (case hm_get b k of Some (JArr c) \<Rightarrow> JArr (merge_arrays c q) | _ \<Rightarrow> JArr q)
         | Some v \<Rightarrow> Some v))"
proof -
  have "hm_get (merge_fields b p) k = (case hm_get p k of
           None \<Rightarrow> hm_get b k
         | Some JNull \<Rightarrow> None
         | Some (JObj q) \<Rightarrow>
             Some (case hm_get b k of Some (JObj c) \<Rightarrow> strategic_merge (JObj c) (JObj q) | _ \<Rightarrow> JObj q)
         | Some (JArr q) \<Rightarrow>
             Some (case hm_get b k of Some (JArr c) \<Rightarrow> JArr (merge_arrays c q) | _ \<Rightarrow> JArr q)
         | Some v \<Rightarrow> Some v)" for k
    using merge_fields_get[OF bt_ok_hm_ok[OF assms(2)], of b k]
    by (auto simp: merged_member_def split: option.splits json.splits)
  then show ?thesis using merge_fields_ok[OF assms(1), of p] by simp
qed

text \<open>
  When both arrays of a patched member are lists of objects with the same merge key (a name, a container
  port or a mount path), the merge is by that key: every element of the base stays, in its place, with the
  patch's element of the same key merged into it, and the patch's other elements follow in their order. A
  patch that changes one container leaves its siblings exactly as they were.
\<close>
theorem merge_arrays_by_key:
  assumes "merge_key b p = Some k" and "list_all (merge_keyed k) b" and "list_all (merge_keyed k) p"
    and "distinct (keys_of k b)" and "distinct (keys_of k p)"
  shows "merge_arrays b p = map (patch_elem k p) b @ new_elems k b p
    \<and> (\<forall>e \<in> set b. jget e k \<notin> set (keys_of k p) \<longrightarrow> e \<in> set (merge_arrays b p))
    \<and> distinct (keys_of k (merge_arrays b p))"
proof -
  have m: "merge_arrays b p = map (patch_elem k p) b @ new_elems k b p"
    using merge_elems_by_key[OF assms(2-)] assms(1) by (simp add: merge_arrays.simps)
  have stay: "e \<in> set (merge_arrays b p)" if "e \<in> set b" "jget e k \<notin> set (keys_of k p)" for e
  proof -
    have "patch_elem k p e = e" using that patch_elem_absent[of e k p] by simp
    then show ?thesis using that(1) unfolding m by (metis Un_iff image_eqI set_append set_map)
  qed
  have "keys_of k (map (patch_elem k p) b) = keys_of k b"
    using assms(2,3) by (simp add: list_all_iff patch_elem_key)
  then have "keys_of k (merge_arrays b p) = keys_of k b @ keys_of k (new_elems k b p)"
    unfolding m by (simp only: map_append)
  moreover have "distinct (keys_of k (new_elems k b p))"
    using assms(5) by (simp add: new_elems_def distinct_map_filter)
  moreover have "set (keys_of k b) \<inter> set (keys_of k (new_elems k b p)) = {}"
    by (auto simp: new_elems_def image_iff)
  ultimately have "distinct (keys_of k (merge_arrays b p))" using assms(4) by (simp only: distinct_append)
  with m stay show ?thesis by blast
qed

end
