(* ===== verification/Calendar.thy ===== *)
theory Calendar
  imports Rust_Str
begin

text \<open>
  Timestamps of the API objects, \<^verbatim>\<open>src/src/api.rs\<close>: \<open>days_to_ymd\<close> (days since 1970-01-01 to a Gregorian
  date, by the era arithmetic of the source) and \<open>now_rfc3339\<close>. The reference is the calendar itself: the
  day after a date. The theorem at the end says that the closed formula counts days as the calendar does.
\<close>

unbundle bit_operations_syntax

subsection \<open>The code\<close>

definition days_to_ymd :: "u64 \<Rightarrow> u64 \<times> u64 \<times> u64" where
  "days_to_ymd days =
     (let z = days + 719468; era = z div 146097; doe = z - era * 146097;
          yoe = (doe - doe div 1460 + doe div 36524 - doe div 146096) div 365;
          y = yoe + era * 400;
          doy = doe - (365 * yoe + yoe div 4 - yoe div 100);
          mp = (5 * doy + 2) div 153;
          d = doy - (153 * mp + 2) div 5 + 1;
          m = (if mp < 10 then mp + 3 else mp - 9);
          y = (if m \<le> 2 then y + 1 else y)
      in (y, m, d))"

text \<open>\<open>{:02}\<close> and \<open>{:04}\<close>: decimal, padded with zeros on the left.\<close>

definition dec_pad :: "nat \<Rightarrow> u64 \<Rightarrow> string" where
  "dec_pad n w = (let s = show_word w in replicate (n - length s) (CHR ''0'') @ s)"

definition now_rfc3339 :: "u64 \<Rightarrow> string" where
  "now_rfc3339 secs =
     (let s = secs mod 60; m = (secs div 60) mod 60; h = (secs div 3600) mod 24;
          (y, mo, d) = days_to_ymd (secs div 86400)
      in dec_pad 4 y @ ''-'' @ dec_pad 2 mo @ ''-'' @ dec_pad 2 d @ ''T'' @ dec_pad 2 h @ '':''
         @ dec_pad 2 m @ '':'' @ dec_pad 2 s @ ''Z'')"

subsection \<open>The calendar\<close>

definition leap :: "nat \<Rightarrow> bool" where
  "leap y = (4 dvd y \<and> (\<not> 100 dvd y \<or> 400 dvd y))"

definition month_len :: "nat \<Rightarrow> nat \<Rightarrow> nat" where
  "month_len y m = (if m = 2 then (if leap y then 29 else 28) else if m \<in> {4, 6, 9, 11} then 30 else 31)"

fun next_day :: "nat \<times> nat \<times> nat \<Rightarrow> nat \<times> nat \<times> nat" where
  "next_day (y, m, d) =
     (if d < month_len y m then (y, m, d + 1) else if m < 12 then (y, m + 1, 1) else (y + 1, 1, 1))"

definition month_day :: "nat \<Rightarrow> nat \<times> nat" where
  "month_day doy =
     (let mp = (5 * doy + 2) div 153; d = doy - (153 * mp + 2) div 5 + 1
      in (if mp < 10 then mp + 3 else mp - 9, d))"

text \<open>The same formula on unbounded numbers, from the shifted day count on.\<close>

definition civil :: "nat \<Rightarrow> nat \<times> nat \<times> nat" where
  "civil z =
     (let era = z div 146097; doe = z - era * 146097;
          yoe = (doe - doe div 1460 + doe div 36524 - doe div 146096) div 365;
          y = yoe + era * 400;
          doy = doe - (365 * yoe + yoe div 4 - yoe div 100);
          mp = (5 * doy + 2) div 153;
          d = doy - (153 * mp + 2) div 5 + 1;
          m = (if mp < 10 then mp + 3 else mp - 9);
          y' = (if m \<le> 2 then y + 1 else y)
      in (y', m, d))"

text \<open>
  The position of a day: era of 400 years, century, four-year cycle, year of the cycle, and day of the year
  that starts on the first of March.
\<close>

definition long_year :: "nat \<Rightarrow> nat \<Rightarrow> nat \<Rightarrow> bool" where
  "long_year c q b = (b = 3 \<and> (q < 24 \<or> c = 3))"

definition pos_ok :: "nat \<Rightarrow> nat \<Rightarrow> nat \<Rightarrow> nat \<Rightarrow> bool" where
  "pos_ok c q b doy = (c < 4 \<and> q < 25 \<and> b < 4 \<and> (doy < 365 \<or> doy = 365 \<and> long_year c q b))"

definition day_no :: "nat \<Rightarrow> nat \<Rightarrow> nat \<Rightarrow> nat \<Rightarrow> nat \<Rightarrow> nat" where
  "day_no e c q b doy = 146097 * e + 36524 * c + 1461 * q + 365 * b + doy"

lemma day_no_ex: "\<exists>e c q b doy. pos_ok c q b doy \<and> z = day_no e c q b doy"
proof -
  define e r where "e = z div 146097" and "r = z mod 146097"
  have z: "z = 146097 * e + r" and r: "r < 146097" by (simp_all add: e_def r_def)
  show ?thesis
  proof (cases "r = 146096")
    case True
    then show ?thesis using z by (intro exI[of _ e] exI[of _ 3] exI[of _ 24] exI[of _ 3] exI[of _ 365])
        (simp add: pos_ok_def long_year_def day_no_def)
  next
    case False
    define c r1 where "c = r div 36524" and "r1 = r mod 36524"
    have c: "r = 36524 * c + r1" "r1 < 36524" "c < 4" using False r by (simp_all add: c_def r1_def)
    define q s where "q = r1 div 1461" and "s = r1 mod 1461"
    have q: "r1 = 1461 * q + s" "s < 1461" "q < 25" using c by (simp_all add: q_def s_def)
    show ?thesis
    proof (cases "s = 1460")
      case True
      then have "q < 24" using c q by simp
      then show ?thesis using True z c q
        by (intro exI[of _ e] exI[of _ c] exI[of _ q] exI[of _ 3] exI[of _ 365])
          (simp add: pos_ok_def long_year_def day_no_def)
    next
      case False
      define b doy where "b = s div 365" and "doy = s mod 365"
      have "s = 365 * b + doy" "doy < 365" "b < 4" using False q by (simp_all add: b_def doy_def)
      then show ?thesis using z c q
        by (intro exI[of _ e] exI[of _ c] exI[of _ q] exI[of _ b] exI[of _ doy]) (simp add: pos_ok_def day_no_def)
    qed
  qed
qed

lemma doe_bound: "pos_ok c q b doy \<Longrightarrow> 36524 * c + 1461 * q + 365 * b + doy < 146097"
  by (auto simp: pos_ok_def long_year_def)

lemma year_of_era:
  assumes "pos_ok c q b doy" and doe: "doe = 36524 * c + 1461 * q + 365 * b + doy"
  shows "(doe - doe div 1460 + doe div 36524 - doe div 146096) div 365 = 100 * c + 4 * q + b"
proof (cases "doe = 146096")
  case True
  then have "c = 3 \<and> q = 24 \<and> b = 3" using assms by (auto simp: pos_ok_def long_year_def)
  with True show ?thesis by simp
next
  case False
  have p: "c < 4" "q < 25" "b < 4" "doy < 365 \<or> doy = 365 \<and> b = 3 \<and> (q < 24 \<or> c = 3)"
    using assms(1) by (auto simp: pos_ok_def long_year_def)
  have lt: "doe < 146096" using doe_bound[OF assms(1)] False doe by simp
  have r: "1461 * q + 365 * b + doy < 36524" using p False doe by auto
  define t :: nat where "t = (if 1460 \<le> q + 365 * b + doy + 24 * c then 1 else 0)"
  have a: "doe div 1460 = 25 * c + q + t"
    by (rule div_nat_eqI) (use p in \<open>auto simp: t_def doe\<close>)
  have b: "doe div 36524 = c"
    by (rule div_nat_eqI) (use r in \<open>auto simp: doe\<close>)
  have e: "doe div 146096 = 0" using lt by simp
  have t: "t \<le> 365 * b + doy" "t = 1 \<Longrightarrow> 1095 < 365 * b + doy" using p by (auto simp: t_def split: if_splits)
  have s: "doe - doe div 1460 + doe div 36524 - doe div 146096 = 365 * (100 * c + 4 * q) + (365 * b + doy - t)"
    unfolding a b e using t by (simp add: doe)
  have "(365 * b + doy - t) div 365 = b"
    by (rule div_nat_eqI) (use p t in \<open>auto simp: t_def split: if_splits\<close>)
  then show ?thesis unfolding s by simp
qed

lemma year_start:
  assumes "pos_ok c q b doy"
  shows "365 * (100 * c + 4 * q + b) + (100 * c + 4 * q + b) div 4 - (100 * c + 4 * q + b) div 100
     = 36524 * c + 1461 * q + 365 * b"
proof -
  have p: "c < 4" "q < 25" "b < 4" using assms by (auto simp: pos_ok_def)
  have 1: "(100 * c + 4 * q + b) div 4 = 25 * c + q" by (rule div_nat_eqI) (use p in auto)
  have 2: "(100 * c + 4 * q + b) div 100 = c" by (rule div_nat_eqI) (use p in auto)
  show ?thesis unfolding 1 2 by simp
qed

definition date_at :: "nat \<Rightarrow> nat \<Rightarrow> nat \<times> nat \<times> nat" where
  "date_at y doy = (let (m, d) = month_day doy in (if m \<le> 2 then y + 1 else y, m, d))"

lemma civil_day_no:
  assumes "pos_ok c q b doy"
  shows "civil (day_no e c q b doy) = date_at (400 * e + 100 * c + 4 * q + b) doy"
proof -
  define doe where "doe = 36524 * c + 1461 * q + 365 * b + doy"
  have z: "day_no e c q b doy = 146097 * e + doe" by (simp add: day_no_def doe_def)
  have lt: "doe < 146097" using doe_bound[OF assms] by (simp add: doe_def)
  have e: "day_no e c q b doy div 146097 = e" using lt by (simp add: z)
  have d: "day_no e c q b doy - e * 146097 = doe" by (simp add: z)
  let ?y = "100 * c + 4 * q + b"
  have doy: "doe - (365 * ?y + ?y div 4 - ?y div 100) = doy"
    using year_start[OF assms] by (simp add: doe_def)
  show ?thesis
    unfolding civil_def Let_def e d year_of_era[OF assms doe_def] doy date_at_def month_day_def
    by (simp add: ac_simps)
qed

lemma month_day_ends: "month_day 0 = (3, 1)" "month_day 365 = (2, 29)" "month_day 364 = (2, 28)"
  by (simp_all add: month_day_def)

lemma month_starts:
  assumes "doy \<le> 365"
  shows "month_day doy =
    (if doy < 31 then (3, doy + 1) else if doy < 61 then (4, doy - 30) else if doy < 92 then (5, doy - 60)
     else if doy < 122 then (6, doy - 91) else if doy < 153 then (7, doy - 121) else if doy < 184 then (8, doy - 152)
     else if doy < 214 then (9, doy - 183) else if doy < 245 then (10, doy - 213) else if doy < 275 then (11, doy - 244)
     else if doy < 306 then (12, doy - 274) else if doy < 337 then (1, doy - 305) else (2, doy - 336))"
proof -
  have "(5 * doy + 2) div 153 =
    (if doy < 31 then 0 else if doy < 61 then 1 else if doy < 92 then 2
     else if doy < 122 then 3 else if doy < 153 then 4 else if doy < 184 then 5
     else if doy < 214 then 6 else if doy < 245 then 7 else if doy < 275 then 8
     else if doy < 306 then 9 else if doy < 337 then 10 else 11)"
    by (rule div_nat_eqI) (use assms in auto)
  then show ?thesis unfolding month_day_def Let_def by (simp only:) auto
qed

lemma leap_year: "pos_ok c q b doy \<Longrightarrow> leap (400 * e + 100 * c + 4 * q + b + 1) = long_year c q b"
proof -
  assume p: "pos_ok c q b doy"
  define y where "y = 100 * c + 4 * q + b + 1"
  have b: "b < 4" "q < 25" "c < 4" using p by (auto simp: pos_ok_def)
  have "leap (400 * e + y) = leap y"
    unfolding leap_def using dvd_add_right_iff[of 400 "400 * e" y] dvd_add_right_iff[of 100 "400 * e" y]
      dvd_add_right_iff[of 4 "400 * e" y] by (simp add: dvd_mult2)
  also have "leap y = long_year c q b"
  proof -
    have 4: "4 dvd y \<longleftrightarrow> b = 3" using b unfolding y_def by presburger
    have "y mod 100 = (4 * q + b + 1) mod 100"
      using mod_mult_self4[of 100 c "4 * q + b + 1"] by (simp add: y_def add.assoc)
    also have "\<dots> = (if b = 3 \<and> q = 24 then 0 else 4 * q + b + 1)" using b by auto
    finally have 100: "100 dvd y \<longleftrightarrow> b = 3 \<and> q = 24" by (auto simp: dvd_eq_mod_eq_0)
    have 400: "400 dvd y \<longleftrightarrow> b = 3 \<and> q = 24 \<and> c = 3"
    proof
      assume "400 dvd y"
      then obtain k where "y = 400 * k" by blast
      moreover have "0 < y" "y \<le> 400" using b by (auto simp: y_def)
      ultimately have "y = 400" by (cases k) auto
      then have s: "100 * c + 4 * q + b = 399" by (simp add: y_def)
      have "\<not> c < 3" using s b by linarith
      then have c: "c = 3" using b by simp
      then have t: "4 * q + b = 99" using s by simp
      have "\<not> q < 24" using t b by linarith
      then have "q = 24" using b by simp
      then show "b = 3 \<and> q = 24 \<and> c = 3" using c t by simp
    qed (simp add: y_def)
    show ?thesis unfolding leap_def 4 100 400 long_year_def using b by auto
  qed
  finally show ?thesis by (simp add: y_def add.assoc)
qed

lemma month_day_Suc:
  assumes "doy < 364"
  shows "\<exists>m d. month_day doy = (m, d) \<and>
     (month_day (Suc doy) = (m, Suc d) \<and> d < month_len y m \<and> (m = 2 \<longrightarrow> d < 28) \<or>
      month_day (Suc doy) = (if m = 12 then 1 else m + 1, 1) \<and> d = month_len y m \<and> m \<noteq> 2)"
proof -
  consider "doy < 31" | "31 \<le> doy \<and> doy < 61" | "61 \<le> doy \<and> doy < 92" | "92 \<le> doy \<and> doy < 122"
    | "122 \<le> doy \<and> doy < 153" | "153 \<le> doy \<and> doy < 184" | "184 \<le> doy \<and> doy < 214" | "214 \<le> doy \<and> doy < 245"
    | "245 \<le> doy \<and> doy < 275" | "275 \<le> doy \<and> doy < 306" | "306 \<le> doy \<and> doy < 337" | "337 \<le> doy"
    by linarith
  then show ?thesis
    by cases (use assms in \<open>simp add: month_starts month_len_def; linarith\<close>)+
qed

lemma date_at_next:
  assumes "pos_ok c q b doy" and "doy < 365" and y: "y = 400 * e + 100 * c + 4 * q + b"
  shows "next_day (date_at y doy) =
     (if doy < 364 \<or> long_year c q b then date_at y (Suc doy) else date_at (Suc y) 0)"
proof (cases "doy < 364")
  case True
  obtain m d where 1: "month_day doy = (m, d)" and
    2: "month_day (Suc doy) = (m, Suc d) \<and> d < month_len (if m \<le> 2 then y + 1 else y) m \<or>
      month_day (Suc doy) = (if m = 12 then 1 else m + 1, 1) \<and> d = month_len (if m \<le> 2 then y + 1 else y) m \<and> m \<noteq> 2"
    using month_day_Suc[OF True, of y] month_day_Suc[OF True, of "y + 1"] by fastforce
  have "m \<le> 12 \<and> 1 \<le> m" using 1 True by (simp add: month_starts split: if_splits)
  with 1 2 True show ?thesis by (auto simp: date_at_def)
next
  case False
  then have d: "doy = 364" using assms(2) by simp
  have l: "leap (Suc y) = long_year c q b" using leap_year[OF assms(1), of e] y by simp
  show ?thesis by (simp add: d date_at_def month_day_ends month_len_def l)
qed

lemma civil_next: "civil (Suc z) = next_day (civil z)"
proof -
  obtain e c q b doy where p: "pos_ok c q b doy" and z: "z = day_no e c q b doy" using day_no_ex by blast
  define y where "y = 400 * e + 100 * c + 4 * q + b"
  have c0: "civil z = date_at y doy" using civil_day_no[OF p] by (simp add: z y_def)
  have r: "c < 4" "q < 25" "b < 4" using p by (auto simp: pos_ok_def)
  show ?thesis
  proof (cases "doy < 364 \<or> doy = 364 \<and> long_year c q b")
    case True
    then have p': "pos_ok c q b (Suc doy)" and lt: "doy < 365" using p by (auto simp: pos_ok_def)
    have "civil (Suc z) = date_at y (Suc doy)"
      using civil_day_no[OF p', of e] by (simp add: z day_no_def y_def)
    then show ?thesis using date_at_next[OF p lt y_def] True c0 by auto
  next
    case False
    have d: "civil (Suc z) = date_at (Suc y) 0"
    proof (cases "b < 3")
      case True
      then have "doy = 364" using False p by (auto simp: pos_ok_def long_year_def)
      then have n: "Suc z = day_no e c q (Suc b) 0" using r True by (simp add: z day_no_def)
      have "pos_ok c q (Suc b) 0" using r True by (simp add: pos_ok_def)
      then show ?thesis unfolding n using civil_day_no[of c q "Suc b" 0 e] r True by (simp add: y_def ac_simps)
    next
      case b3: False
      then have b: "b = 3" using r by simp
      show ?thesis
      proof (cases "q < 24")
        case True
        then have "doy = 365" using False p b by (auto simp: pos_ok_def long_year_def)
        then have n: "Suc z = day_no e c (Suc q) 0 0" using r True b by (simp add: z day_no_def)
        have "pos_ok c (Suc q) 0 0" using r True b by (simp add: pos_ok_def)
        then show ?thesis unfolding n using civil_day_no[of c "Suc q" 0 0 e] r True b by (simp add: y_def ac_simps)
      next
        case q': False
        then have q: "q = 24" using r by simp
        show ?thesis
        proof (cases "c = 3")
          case True
          then have "doy = 365" using False p b by (auto simp: pos_ok_def long_year_def)
          then have n: "Suc z = day_no (Suc e) 0 0 0 0" using r True b q by (simp add: z day_no_def)
          have "pos_ok 0 0 0 0" using r True b q by (simp add: pos_ok_def)
          then show ?thesis unfolding n using civil_day_no[of 0 0 0 0 "Suc e"] r True b q by (simp add: y_def ac_simps)
        next
          case c: False
          then have "doy = 364" using False p b q by (auto simp: pos_ok_def long_year_def)
          then have n: "Suc z = day_no e (Suc c) 0 0 0" using r c b q by (simp add: z day_no_def)
          have "pos_ok (Suc c) 0 0 0" using r c b q by (simp add: pos_ok_def)
          then show ?thesis unfolding n using civil_day_no[of "Suc c" 0 0 0 e] r c b q by (simp add: y_def ac_simps)
        qed
      qed
    qed
    show ?thesis
    proof (cases "doy = 365")
      case True
      have "leap (Suc y)" using leap_year[OF p, of e] p True by (auto simp: y_def pos_ok_def)
      then have "next_day (date_at y doy) = date_at (Suc y) 0"
        by (simp add: True date_at_def month_day_ends month_len_def)
      then show ?thesis using d c0 by simp
    next
      case nl: False
      then have "doy = 364" "\<not> long_year c q b" using False p by (auto simp: pos_ok_def)
      then show ?thesis using date_at_next[OF p _ y_def] d c0 by simp
    qed
  qed
qed

lemma civil_iter: "civil (n + 719468) = (next_day ^^ n) (1970, 1, 1)"
proof (induction n)
  case 0
  have "month_day 306 = (1, 1)" by (simp add: month_day_def)
  then show ?case using civil_day_no[of 3 17 1 306 4] by (simp add: pos_ok_def day_no_def date_at_def)
next
  case (Suc n)
  have "Suc n + 719468 = Suc (n + 719468)" by simp
  then show ?case by (simp only: civil_next Suc.IH funpow.simps comp_apply)
qed

subsection \<open>The formula counts days as the calendar does\<close>

lemma unat_div_u64: "unat (a div b :: u64) = unat a div unat b"
  by (rule unat_div)

lemma unat_plus_small: "unat a + unat b < 2 ^ 64 \<Longrightarrow> unat (a + b :: u64) = unat a + unat b"
  by (simp add: unat_word_ariths)

lemma unat_times_small: "unat a * unat b < 2 ^ 64 \<Longrightarrow> unat (a * b :: u64) = unat a * unat b"
  by (simp add: unat_word_ariths)

lemma unat_minus_le: "unat b \<le> unat a \<Longrightarrow> unat (a - b :: u64) = unat a - unat b"
  by (simp add: unat_sub word_le_nat_alt)

lemmas unat_small = unat_plus_small unat_times_small unat_minus_le unat_div_u64 word_less_nat_alt word_le_nat_alt

lemma month_word:
  fixes doy :: u64
  assumes doy: "unat doy = dy" and dy: "dy \<le> 365" and mp_def: "mp = (5 * doy + 2) div 153"
  shows "month_day dy = (unat (if mp < 10 then mp + 3 else mp - 9), unat (doy - (153 * mp + 2) div 5 + 1))"
proof -
  let ?mp = "(5 * dy + 2) div 153"
  have mp: "unat mp = ?mp" unfolding mp_def using dy by (simp add: unat_small doy)
  have b: "?mp \<le> 11" "(153 * ?mp + 2) div 5 \<le> dy" using dy by linarith+
  have "unat ((153 * mp + 2) div 5) = (153 * ?mp + 2) div 5" using b by (simp add: unat_small mp)
  then have "unat (doy - (153 * mp + 2) div 5) = dy - (153 * ?mp + 2) div 5"
    using b by (subst unat_minus_le) (simp_all add: doy)
  then have d: "unat (doy - (153 * mp + 2) div 5 + 1) = dy - (153 * ?mp + 2) div 5 + 1"
    using dy by (subst unat_plus_small) simp_all
  have m: "unat (if mp < 10 then mp + 3 else mp - 9) = (if ?mp < 10 then ?mp + 3 else ?mp - 9)"
    using b by (simp add: unat_small mp)
  show ?thesis by (simp only: month_day_def Let_def m d)
qed

lemma year_word:
  fixes doe :: u64
  assumes p: "pos_ok c q b dy" and doe: "unat doe = D" and D_def: "D = 36524 * c + 1461 * q + 365 * b + dy"
    and yoe_def: "yoe = (doe - doe div 1460 + doe div 36524 - doe div 146096) div 365"
  shows "unat yoe = 100 * c + 4 * q + b" "unat (doe - (365 * yoe + yoe div 4 - yoe div 100)) = dy"
proof -
  have D: "D < 146097" using doe_bound[OF p] by (simp add: D_def)
  have "D div 1460 \<le> D" "D div 146096 \<le> D - D div 1460 + D div 36524"
    using div_le_mono2[of 36524 146096 D] by simp_all
  then have a: "unat (doe - doe div 1460) = D - D div 1460" "D div 146096 \<le> D - D div 1460 + D div 36524"
    by (simp_all add: unat_small doe)
  then have "unat (doe - doe div 1460 + doe div 36524) = D - D div 1460 + D div 36524"
    using D by (subst unat_plus_small) (simp_all add: unat_small doe)
  with a have "unat (doe - doe div 1460 + doe div 36524 - doe div 146096) = D - D div 1460 + D div 36524 - D div 146096"
    by (subst unat_minus_le) (simp_all add: unat_small doe)
  then show yoe: "unat yoe = 100 * c + 4 * q + b"
    unfolding yoe_def unat_div_u64 using year_of_era[OF p D_def] by simp
  let ?y = "100 * c + 4 * q + b"
  have y: "?y < 400" using p by (auto simp: pos_ok_def)
  have "365 * ?y + ?y div 4 - ?y div 100 \<le> D" "D - (365 * ?y + ?y div 4 - ?y div 100) = dy"
    using year_start[OF p] by (simp_all add: D_def)
  then show "unat (doe - (365 * yoe + yoe div 4 - yoe div 100)) = dy" using y by (simp add: unat_small yoe doe)
qed

lemma days_to_ymd_civil:
  assumes "unat days + 719468 < 2 ^ 64"
  shows "(case days_to_ymd days of (y, m, d) \<Rightarrow> (unat y, unat m, unat d)) = civil (unat days + 719468)"
proof -
  define z where "z = days + (719468 :: u64)"
  define era where "era = z div (146097 :: u64)"
  define doe where "doe = z - era * 146097"
  define yoe where "yoe = (doe - doe div 1460 + doe div 36524 - doe div 146096) div (365 :: u64)"
  define doy where "doy = doe - (365 * yoe + yoe div 4 - yoe div 100)"
  define mp where "mp = (5 * doy + 2) div (153 :: u64)"
  define m where "m = (if mp < 10 then mp + 3 else mp - 9)"
  let ?n = "unat days + 719468" and ?d = "doy - (153 * mp + 2) div 5 + 1"
  obtain e c q b dy where p: "pos_ok c q b dy" and n: "?n = day_no e c q b dy" using day_no_ex by blast
  define D where "D = 36524 * c + 1461 * q + 365 * b + dy"
  let ?y = "100 * c + 4 * q + b"
  have e: "?n div 146097 = e" "?n - e * 146097 = D" "e * 146097 \<le> ?n"
    using doe_bound[OF p] unfolding n by (simp_all add: day_no_def D_def)
  have z: "unat z = ?n" unfolding z_def using assms by (simp add: unat_small)
  have era: "unat era = e" unfolding era_def using e by (simp add: unat_small z)
  then have "unat (era * 146097) = e * 146097" using assms e by (subst unat_times_small) simp_all
  then have doe: "unat doe = D" unfolding doe_def using e by (subst unat_minus_le) (simp_all add: z)
  note yw = year_word[OF p doe D_def yoe_def]
  have doy: "unat doy = dy" "dy \<le> 365" using yw p by (auto simp: doy_def pos_ok_def)
  have md: "month_day dy = (unat m, unat ?d)" using month_word[OF doy mp_def] by (simp add: m_def)
  have b: "400 * e + 401 < 2 ^ 64" "?y < 400" using assms e p by (auto simp: pos_ok_def)
  then have "unat (era * 400) = 400 * e" using era by (subst unat_times_small) simp_all
  then have "unat (yoe + era * 400) = 400 * e + ?y" using b yw by (subst unat_plus_small) simp_all
  then have Y: "unat (if m \<le> 2 then yoe + era * 400 + 1 else yoe + era * 400) = (if unat m \<le> 2 then 400 * e + ?y + 1 else 400 * e + ?y)"
    using b by (simp add: word_le_nat_alt unat_plus_small)
  have "days_to_ymd days = (if m \<le> 2 then yoe + era * 400 + 1 else yoe + era * 400, m, ?d)"
    by (simp add: days_to_ymd_def Let_def z_def era_def doe_def yoe_def doy_def mp_def m_def)
  then show ?thesis unfolding n civil_day_no[OF p] using Y by (simp add: date_at_def md add.assoc)
qed

text \<open>
  The date formula counts days as the Gregorian calendar does: the date of day \<open>n\<close> after the epoch is
  the first of January 1970 advanced \<open>n\<close> times to the next day, with leap years, for every day count that
  does not overflow the shift.\<close>

theorem days_to_ymd_calendar:
  assumes "unat days + 719468 < 2 ^ 64"
  shows "(case days_to_ymd days of (y, m, d) \<Rightarrow> (unat y, unat m, unat d)) = (next_day ^^ unat days) (1970, 1, 1)"
  using days_to_ymd_civil[OF assms] civil_iter[of "unat days"] by simp

end
