(* ===== verification/Api_Text.thy ===== *)
theory Api_Text
  imports Json Calendar Net_Security
begin

text \<open>
  The text helpers of the API server, \<^verbatim>\<open>src/src/api.rs\<close>: resource paths, uids, RBAC names, log masking,
  query strings, percent-decoding (with the encoder of \<^verbatim>\<open>src/src/docker.rs\<close>), and the leader gate's
  classification of requests.
\<close>

subsection \<open>Object metadata\<close>

text \<open>\<open>{:0nx}\<close> of a word: the low \<open>n\<close> hexadecimal digits, which is all of them at the widths used.\<close>

definition hex_digits :: "nat \<Rightarrow> u64 \<Rightarrow> string" where
  "hex_digits n w = map (\<lambda>i. hex_char (unat (drop_bit (4 * i) w AND 15))) (rev [0..<n])"

definition resource_uid :: "string \<Rightarrow> string \<Rightarrow> string \<Rightarrow> string" where
  "resource_uid kind name ns =
     (let hash = fnv1a (kind @ ''/'' @ ns @ ''/'' @ name)
      in hex_digits 8 (drop_bit 32 hash) @ ''-'' @ hex_digits 4 (drop_bit 16 hash AND 0xffff) @ ''-''
         @ hex_digits 4 ((hash AND 0x0fff) OR 0x4000) @ ''-''
         @ hex_digits 4 ((drop_bit 48 hash AND 0x3fff) OR 0x8000) @ ''-''
         @ hex_digits 12 (hash AND 0xffffffffffff))"

subsection \<open>Paths, verbs and queries\<close>

definition parse_resource_path :: "string \<Rightarrow> string option \<times> string \<times> string option" where
  "parse_resource_path path =
     (let p = str_split (CHR ''/'') (trim_start_matches ''/'' path); n = length p;
          core = [''api'', ''v1'']; apps = [''apis'', ''apps'', ''v1'']
      in if n = 6 \<and> take 3 p = core @ [''namespaces''] then (Some (p ! 3), p ! 4, Some (p ! 5))
         else if n = 7 \<and> take 4 p = apps @ [''namespaces''] then (Some (p ! 4), p ! 5, Some (p ! 6))
         else if n = 5 \<and> take 3 p = core @ [''namespaces''] then (Some (p ! 3), p ! 4, None)
         else if n = 6 \<and> take 4 p = apps @ [''namespaces''] then (Some (p ! 4), p ! 5, None)
         else if n = 4 \<and> take 2 p = core then (None, p ! 2, Some (p ! 3))
         else if n = 5 \<and> take 3 p = apps then (None, p ! 3, Some (p ! 4))
         else if n = 3 \<and> take 2 p = core then (None, p ! 2, None)
         else if n = 4 \<and> take 3 p = apps then (None, p ! 3, None)
         else (None, [], None))"

text \<open>The headers the program reads, by lower-case name, when their value is visible ASCII.\<close>

type_synonym headers = "string \<Rightarrow> string option"

definition check_node_auth :: "headers \<Rightarrow> bool" where
  "check_node_auth hs = (case hs ''x-royak-token'' of Some v \<Rightarrow> 10 < length v | None \<Rightarrow> False)"

definition get_rbac_role :: "headers \<Rightarrow> string" where
  "get_rbac_role hs = unwrap_or (hs ''x-royak-role'') ''admin''"

definition rbac_resource_from_path :: "string \<Rightarrow> string" where
  "rbac_resource_from_path path = fst (snd (parse_resource_path path))"

definition rbac_verb_from_method :: "string \<Rightarrow> string" where
  "rbac_verb_from_method m =
     (if m = ''GET'' then ''get'' else if m = ''POST'' then ''create''
      else if m = ''PUT'' \<or> m = ''PATCH'' then ''update'' else if m = ''DELETE'' then ''delete'' else ''get'')"

definition mask_log_path :: "string \<Rightarrow> string" where
  "mask_log_path path =
     (if str_contains path ''/secrets'' then hd (str_split_on ''/secrets'' path) @ ''/secrets/***'' else path)"

definition normalize_image_for_api :: "string \<Rightarrow> string" where
  "normalize_image_for_api im =
     (let img = trim_start_matches ''docker.io/'' (trim_start_matches ''docker.io/library/'' im)
      in if CHR '':'' \<in> set img then img else img @ '':latest'')"

definition MAX_BODY_SIZE :: nat where
  "MAX_BODY_SIZE = 10 * 1024 * 1024"

text \<open>\<open>splitn(2, '=')\<close>: the key, and the value after the first equals sign if there is one.\<close>

definition parse_query :: "string option \<Rightarrow> (string, string) hmap" where
  "parse_query q =
     hm_collect (map (\<lambda>pair. case split_once (CHR ''='') pair of
                                Some (k, v) \<Rightarrow> (k, v)
                              | None \<Rightarrow> (pair, ''true''))
                     (filter (\<lambda>s. s \<noteq> []) (str_split (CHR ''&'') (unwrap_or q []))))"

subsection \<open>Percent encoding\<close>

fun url_bytes :: "string \<Rightarrow> string" where
  "url_bytes [] = []"
| "url_bytes (c # s) =
     (if c = CHR ''%'' then
        (case s of
           a # b # r \<Rightarrow> (case u8_from_hex2 [a, b] of Some x \<Rightarrow> x # url_bytes r | None \<Rightarrow> c # url_bytes s)
         | _ \<Rightarrow> c # url_bytes s)
      else if c = CHR ''+'' then CHR '' '' # url_bytes s else c # url_bytes s)"

definition url_decode :: "string \<Rightarrow> string" where
  "url_decode s = utf8_lossy (url_bytes s)"

definition url_plain :: "char \<Rightarrow> bool" where
  "url_plain c =
     (let n = of_char c :: nat
      in 65 \<le> n \<and> n \<le> 90 \<or> 97 \<le> n \<and> n \<le> 122 \<or> 48 \<le> n \<and> n \<le> 57 \<or> c = CHR ''-'' \<or> c = CHR ''_'' \<or> c = CHR ''.'' \<or> c = CHR ''~'')"

definition HEX_char :: "nat \<Rightarrow> char" where
  "HEX_char n = (if n < 10 then char_of (48 + n) else char_of (55 + n))"

definition urlencode :: "string \<Rightarrow> string" where
  "urlencode s =
     concat (map (\<lambda>c. if url_plain c then [c]
                      else [CHR ''%'', HEX_char (of_char c div 16), HEX_char (of_char c mod 16)]) s)"

subsection \<open>The leader gate\<close>

definition should_accept_write :: "bool \<Rightarrow> bool" where
  "should_accept_write is_leader_or_off = is_leader_or_off"

definition is_gated_write :: "string \<Rightarrow> string \<Rightarrow> bool" where
  "is_gated_write m path =
     (if starts_with path ''/royak/v1/'' \<or> starts_with path ''/demo/'' then False
      else let k8s_resource_target =
                 str_contains path ''/namespaces/'' \<or> ends_with path ''/pods'' \<or> ends_with path ''/deployments''
                 \<or> ends_with path ''/configmaps'' \<or> ends_with path ''/secrets''
           in if m = ''POST'' \<or> m = ''PUT'' then
                k8s_resource_target \<or> (ends_with path ''/scale'' \<and> str_contains path ''/deployments/'')
              else if m = ''PATCH'' then
                k8s_resource_target \<or> str_contains path ''/deployments/'' \<or> starts_with path ''/api/v1/''
                \<or> starts_with path ''/apis/apps/v1/''
              else if m = ''DELETE'' then starts_with path ''/api/v1/'' \<or> starts_with path ''/apis/apps/v1/''
              else False)"

lemma hex_val_HEX_char: "n < 16 \<Longrightarrow> hex_val (HEX_char n) = Some n"
  by (simp add: HEX_char_def hex_val_def Let_def)

lemma HEX_char_plus: "n < 16 \<Longrightarrow> HEX_char n \<noteq> CHR ''+''"
proof
  assume "n < 16" and "HEX_char n = CHR ''+''"
  then have "of_char (HEX_char n) = (43 :: nat)" by simp
  then show False using \<open>n < 16\<close> by (simp add: HEX_char_def split: if_splits)
qed

lemma url_bytes_escape:
  "url_bytes (CHR ''%'' # HEX_char (of_char c div 16) # HEX_char (of_char c mod 16) # s) = c # url_bytes s"
proof -
  have "of_char c < (256 :: nat)" by (rule of_char_less_256)
  then have d: "of_char c div 16 < (16 :: nat)" by (simp add: less_mult_imp_div_less)
  have "u8_from_hex2 [HEX_char (of_char c div 16), HEX_char (of_char c mod 16)] = Some c"
    using hex_val_HEX_char[OF d] HEX_char_plus[OF d] hex_val_HEX_char[of "of_char c mod 16"] by (simp add: u8_from_hex2_def)
  then show ?thesis by simp
qed

lemma url_plain_not: "url_plain c \<Longrightarrow> c \<noteq> CHR ''%'' \<and> c \<noteq> CHR ''+''"
  by (auto simp: url_plain_def)

lemma url_bytes_urlencode: "url_bytes (urlencode s @ t) = s @ url_bytes t"
  by (induction s) (auto simp: urlencode_def url_bytes_escape dest: url_plain_not simp del: url_bytes.simps(2), auto dest: url_plain_not)

lemma url_decode_urlencode: "utf8_valid s \<Longrightarrow> url_decode (urlencode s) = s"
  using url_bytes_urlencode[of s "[]"] by (simp add: url_decode_def utf8_lossy_valid)

text \<open>What precedes the leftmost occurrence of a pattern does not depend on what follows an occurrence.\<close>

lemma split_hd_independent:
  "hd (split_at (c # q) acc (p @ c # q @ x)) = hd (split_at (c # q) acc (p @ c # q @ y))"
proof (induction p arbitrary: acc)
  case Nil
  then show ?case by (simp add: starts_with_def)
next
  case (Cons a p)
  have t: "take n (c # q @ z) = take n (c # q)" if "n \<le> Suc (length q)" for n z
    using that by (cases n) auto
  have "starts_with (a # p @ c # q @ x) (c # q) = starts_with (a # p @ c # q @ y) (c # q)"
    by (simp add: starts_with_def t)
  with Cons show ?case by simp
qed

lemma mask_log_path_hides:
  "mask_log_path (p @ ''/secrets'' @ x) = mask_log_path (p @ ''/secrets'' @ y)"
  using split_hd_independent[of "CHR ''/''" "''secrets''" "[]" p x y] str_contains_append[of p "''/secrets''"]
  by (simp add: mask_log_path_def str_split_on_def)

end
