(* ===== verification/Ws_Channel.thy ===== *)
theory Ws_Channel
  imports Api_Text Base64 Bytes
begin

text \<open>
  \<^verbatim>\<open>kubectl exec\<close> over WebSocket, \<^verbatim>\<open>src/src/api.rs\<close>: SHA-1 and the handshake key, the frame writer and the frame
  reader, the bridge that turns the container engine's multiplexed output into channel frames, and the
  client-to-container direction of the bridge and of port forwarding as the action taken on each frame.
  A byte stream is the list of bytes still to be read.
\<close>

subsection \<open>SHA-1\<close>

text \<open>Padding: a one bit, zeros up to 56 modulo 64 bytes, and the bit length as eight bytes.\<close>

definition sha1_pad :: "string \<Rightarrow> string" where
  "sha1_pad d =
     (let m = d @ [char_of (0x80 :: nat)]
      in m @ replicate ((56 + 64 - length m mod 64) mod 64) (char_of (0 :: nat)) @ be_bytes 8 (length d * 8))"

text \<open>\<open>chunks(n)\<close> with the number of chunks.\<close>

fun chunks :: "nat \<Rightarrow> nat \<Rightarrow> string \<Rightarrow> string list" where
  "chunks n 0 s = []"
| "chunks n (Suc k) s = take n s # chunks n k (drop n s)"

fun sha1_schedule :: "nat \<Rightarrow> u32 list \<Rightarrow> u32 list" where
  "sha1_schedule 0 w = w"
| "sha1_schedule (Suc k) w =
     (let t = length w
      in sha1_schedule k (w @ [word_rotl 1 (w ! (t - 3) XOR w ! (t - 8) XOR w ! (t - 14) XOR w ! (t - 16))]))"

type_synonym sha1_state = "u32 \<times> u32 \<times> u32 \<times> u32 \<times> u32"

definition sha1_round :: "nat \<Rightarrow> u32 \<Rightarrow> sha1_state \<Rightarrow> sha1_state" where
  "sha1_round i wi st =
     (let (a, b, c, d, e) = st;
          (f, k) = (if i \<le> 19 then ((b AND c) OR (NOT b AND d), 0x5A827999)
                    else if i \<le> 39 then (b XOR c XOR d, 0x6ED9EBA1)
                    else if i \<le> 59 then ((b AND c) OR (b AND d) OR (c AND d), 0x8F1BBCDC)
                    else (b XOR c XOR d, 0xCA62C1D6));
          tmp = word_rotl 5 a + f + e + k + wi
      in (tmp, a, word_rotl 30 b, c, d))"

definition sha1_block :: "string \<Rightarrow> sha1_state \<Rightarrow> sha1_state" where
  "sha1_block chunk st =
     (let w = sha1_schedule 64 (map (\<lambda>c. of_nat (be_val c)) (chunks 4 16 chunk));
          (h0, h1, h2, h3, h4) = st;
          (a, b, c, d, e) = fold (\<lambda>(i, wi) s. sha1_round i wi s) (List.enumerate 0 w) st
      in (h0 + a, h1 + b, h2 + c, h3 + d, h4 + e))"

definition sha1 :: "string \<Rightarrow> string" where
  "sha1 d =
     (let m = sha1_pad d;
          (h0, h1, h2, h3, h4) = fold sha1_block (chunks 64 (length m div 64) m)
             (0x67452301, 0xEFCDAB89, 0x98BADCFE, 0x10325476, 0xC3D2E1F0)
      in concat (map (\<lambda>h. be_bytes 4 (unat h)) [h0, h1, h2, h3, h4]))"

definition ws_accept_key :: "string \<Rightarrow> string" where
  "ws_accept_key key = b64_bytes (sha1 (key @ ''258EAFA5-E914-47DA-95CA-C5AB0DC85B11''))"

subsection \<open>Frames\<close>

abbreviation byte :: "u8 \<Rightarrow> char" where
  "byte w \<equiv> char_of (unat w)"

definition ws_frame :: "u8 \<Rightarrow> string \<Rightarrow> string" where
  "ws_frame opcode payload =
     (let n = length payload
      in [byte (0x80 OR opcode)]
         @ (if n < 126 then [char_of n]
            else if n \<le> 0xFFFF then char_of (126 :: nat) # be_bytes 2 n
            else char_of (127 :: nat) # be_bytes 8 n)
         @ payload)"

definition ws_binary_frame :: "u8 \<Rightarrow> string \<Rightarrow> string" where
  "ws_binary_frame channel payload = ws_frame 0x2 (byte channel # payload)"

definition ws_close_frame :: "u16 \<Rightarrow> string" where
  "ws_close_frame code = ws_frame 0x8 (be_bytes 2 (unat code))"

definition read_exact :: "nat \<Rightarrow> string \<Rightarrow> (string \<times> string) option" where
  "read_exact n s = (if n \<le> length s then Some (take n s, drop n s) else None)"

definition unmask :: "string \<Rightarrow> string \<Rightarrow> string" where
  "unmask m p = map (\<lambda>(i, b). byte (of_char b XOR of_char (m ! (i mod 4)))) (List.enumerate 0 p)"

definition ws_read_frame :: "string \<Rightarrow> ((u8 \<times> string) \<times> string) option" where
  "ws_read_frame s =
     Option.bind (read_exact 2 s) (\<lambda>(hdr, s).
       let opcode = of_char (hdr ! 0) AND 0x0F;
           masked = of_char (hdr ! 1) AND (0x80 :: u8) \<noteq> 0;
           len = unat (of_char (hdr ! 1) AND (0x7F :: u8))
       in Option.bind (if len = 126 then map_option (\<lambda>(e, s). (be_val e, s)) (read_exact 2 s)
                       else if len = 127 then map_option (\<lambda>(e, s). (be_val e, s)) (read_exact 8 s)
                       else Some (len, s)) (\<lambda>(len, s).
          if 16 * 1024 * 1024 < len then None
          else Option.bind (if masked then map_option (\<lambda>(m, s). (Some m, s)) (read_exact 4 s) else Some (None, s)) (\<lambda>(mask, s).
               map_option (\<lambda>(payload, s). ((opcode, case mask of Some m \<Rightarrow> unmask m payload | None \<Rightarrow> payload), s))
                 (read_exact len s))))"

subsection \<open>Output of a command\<close>

text \<open>One frame of the engine's multiplexed stream: a type byte, three zeros, the length, the payload.\<close>

definition demux_step :: "string \<Rightarrow> ((u8 \<times> string) list \<times> nat) option" where
  "demux_step carry =
     (if length carry < 8 then None
      else let len = be_val (take 4 (drop 4 carry))
           in if length carry < 8 + len then None
              else Some ([(if of_char (carry ! 0) = (2 :: u8) then 2 else 1, take len (drop 8 carry))], 8 + len))"

function demux :: "string \<Rightarrow> (u8 \<times> string) list \<times> string" where
  "demux carry =
     (case demux_step carry of
        Some (fs, n) \<Rightarrow> (let (gs, rest) = demux (drop n carry) in (fs @ gs, rest))
      | None \<Rightarrow> ([], carry))"
  by pat_completeness auto
termination
  by (relation "measure length") (auto simp: demux_step_def Let_def split: if_splits)

declare demux.simps [simp del]

text \<open>What is left after the HTTP head of the hijacked connection.\<close>

definition HEAD_END :: string where
  "HEAD_END = [CHR 0x0D, CHR 0x0A, CHR 0x0D, CHR 0x0A]"

fun after_head :: "string \<Rightarrow> string option" where
  "after_head [] = None"
| "after_head (c # s) =
     (if starts_with (c # s) HEAD_END then Some (drop 4 (c # s)) else after_head s)"

text \<open>
  The output task: the frames it writes for the chunks the engine sends, with the state of the loop
  (whether the head is gone, and the bytes carried over).
\<close>

fun exec_output :: "bool \<Rightarrow> bool \<Rightarrow> string \<Rightarrow> string list \<Rightarrow> (u8 \<times> string) list" where
  "exec_output tty head_done carry [] = []"
| "exec_output tty head_done carry (c # cs) =
     (let dat = carry @ c
      in case (if head_done then Some dat else after_head dat) of
           None \<Rightarrow> exec_output tty False dat cs
         | Some dat \<Rightarrow>
             if \<not> head_done \<and> dat = [] then exec_output tty True [] cs
             else if tty then (1, dat) # exec_output tty True [] cs
             else (let (fs, rest) = demux dat in fs @ exec_output tty True rest cs))"

text \<open>The metadata frame at the end: the exit code as a status object.\<close>

definition exec_status :: "int \<Rightarrow> json" where
  "exec_status exit_code =
     (if exit_code = 0 then j_obj [(''metadata'', JObj []), (''status'', JStr ''Success'')]
      else let code = (if exit_code < 0 then ''-'' @ show_nat (nat (- exit_code)) else show_nat (nat exit_code))
           in j_obj [(''metadata'', JObj []), (''status'', JStr ''Failure''),
                     (''message'', JStr (''command terminated with non-zero exit code: '' @ code)),
                     (''reason'', JStr ''NonZeroExitCode''),
                     (''details'', j_obj [(''causes'', JArr [j_obj [(''reason'', JStr ''ExitCode''), (''message'', JStr code)]])])])"

definition exec_bridge_output :: "(json \<Rightarrow> string) \<Rightarrow> bool \<Rightarrow> string list \<Rightarrow> int option \<Rightarrow> string list" where
  "exec_bridge_output to_string tty cs exit_code =
     map (\<lambda>(ch, p). ws_binary_frame ch p) (exec_output tty False [] cs)
     @ [ws_binary_frame 3 (to_string (exec_status (unwrap_or exit_code (-1)))), ws_close_frame 1000]"

subsection \<open>Input to a command\<close>

datatype exec_input =
    Stdin string
  | CloseStdin
  | Resize u32 u32
  | Pong string
  | Ignore
  | Stop

definition exec_input_of :: "(string \<Rightarrow> json option) \<Rightarrow> u8 \<Rightarrow> string \<Rightarrow> exec_input" where
  "exec_input_of from_slice opcode payload =
     (if opcode = 0x8 then Stop
      else if opcode = 0x9 then Pong (ws_frame 0xA payload)
      else if (opcode = 0x1 \<or> opcode = 0x2) \<and> payload \<noteq> [] then
        (let ch = of_char (hd payload) :: u8; dat = tl payload
         in if ch = 0 then Stdin dat
            else if ch = 255 then (if head_opt dat = Some (char_of (0 :: nat)) then CloseStdin else Ignore)
            else if ch = 4 then
              (case from_slice dat of
                 Some v \<Rightarrow> Resize (ucast (unwrap_or (ju64 (jat v ''Width'')) 80)) (ucast (unwrap_or (ju64 (jat v ''Height'')) 24))
               | None \<Rightarrow> Ignore)
            else Ignore)
      else Ignore)"

text \<open>The loop over the client's frames: the bytes that reach the command before its input is closed.\<close>

fun stdin_of :: "(string \<Rightarrow> json option) \<Rightarrow> (u8 \<times> string) list \<Rightarrow> string" where
  "stdin_of from_slice [] = []"
| "stdin_of from_slice ((op, p) # fs) =
     (case exec_input_of from_slice op p of
        Stop \<Rightarrow> []
      | CloseStdin \<Rightarrow> []
      | Stdin d \<Rightarrow> d @ stdin_of from_slice fs
      | _ \<Rightarrow> stdin_of from_slice fs)"

subsection \<open>Requests\<close>

definition ws_pod_name :: "string \<Rightarrow> string \<Rightarrow> string" where
  "ws_pod_name suffix path = last (str_split (CHR ''/'') (trim_end_matches suffix path))"

definition exec_command :: "string \<Rightarrow> string list" where
  "exec_command full_url =
     (case split_once (CHR ''?'') full_url of
        Some (_, q) \<Rightarrow> map url_decode (filter_map (\<lambda>kv. strip_prefix kv ''command='') (str_split (CHR ''&'') q))
      | None \<Rightarrow> [])"

definition forward_ports :: "string \<Rightarrow> u16 list" where
  "forward_ports full_url =
     (case split_once (CHR ''?'') full_url of
        Some (_, q) \<Rightarrow>
          concat (map (\<lambda>v. filter_map (\<lambda>p. parse_u16 (trim p)) (str_split (CHR '','') (url_decode v)))
                   (filter_map (\<lambda>kv. strip_prefix kv ''ports='') (str_split (CHR ''&'') q)))
      | None \<Rightarrow> [])"

text \<open>What port forwarding does with a frame of the client: which port the data goes to.\<close>

definition forward_target :: "u16 list \<Rightarrow> u8 \<Rightarrow> string \<Rightarrow> (nat \<times> string) option" where
  "forward_target ports opcode payload =
     (if (opcode = 0x1 \<or> opcode = 0x2) \<and> payload \<noteq> [] then
        (let ch = of_char (hd payload) :: u8; idx = unat (ch div 2)
         in if ch mod 2 \<noteq> 0 then None else if length ports \<le> idx then None else Some (idx, tl payload))
      else None)"

definition forward_prefixes :: "u16 list \<Rightarrow> string list" where
  "forward_prefixes ports =
     concat (map (\<lambda>(i, p). [ws_binary_frame (of_nat (2 * i)) (le_bytes 2 (unat p)),
                             ws_binary_frame (of_nat (2 * i + 1)) (le_bytes 2 (unat p))]) (List.enumerate 0 ports))"

lemma low_nibble: "op < (16 :: u8) \<Longrightarrow> (0x80 OR op) AND 0x0F = op"
proof -
  assume "op < 16"
  moreover have "unat (op AND (0x0F :: u8)) = unat op mod 16"
    using take_bit_eq_mask[of 4 op] unsigned_take_bit_eq[where ?'a = nat, of 4 op]
    by (simp add: mask_eq_exp_minus_1 take_bit_eq_mod)
  ultimately have "op AND 0x0F = op" by (simp add: word_unat_eq_iff word_less_nat_alt)
  moreover have "(0x80 OR op) AND 0x0F = op AND (0x0F :: u8)"
    by (simp add: bit.conj_disj_distrib2)
  ultimately show ?thesis by simp
qed

lemma len_byte:
  assumes "n < 128"
  shows "unat (of_nat n AND (0x7F :: u8)) = n" "(of_nat n :: u8) AND 0x80 = 0"
    "unat (of_nat (128 + n) AND (0x7F :: u8)) = n" "(of_nat (128 + n) :: u8) AND 0x80 \<noteq> 0"
proof -
  have t: "unat (x AND (0x7F :: u8)) = unat x mod 128" for x
    using take_bit_eq_mask[of 7 x] unsigned_take_bit_eq[where ?'a = nat, of 7 x]
    by (simp add: mask_eq_exp_minus_1 take_bit_eq_mod)
  have b: "(of_nat k :: u8) AND 0x80 = 0 \<longleftrightarrow> even (k div 128)" if "k < 256" for k
  proof -
    have "bit (of_nat k :: u8) 7 = bit k 7" by (simp add: bit_of_nat_iff)
    also have "\<dots> = odd (k div 128)" by (simp add: bit_iff_odd)
    finally show ?thesis using and_exp_eq_0_iff_not_bit[of "of_nat k :: u8" 7] by simp
  qed
  show "unat (of_nat n AND (0x7F :: u8)) = n" "(of_nat n :: u8) AND 0x80 = 0"
    using assms by (simp_all add: t b unat_of_nat)
  have "(128 + n) div 128 = 1" using assms by simp
  then show "unat (of_nat (128 + n) AND (0x7F :: u8)) = n" "(of_nat (128 + n) :: u8) AND 0x80 \<noteq> 0"
    using assms unfolding t b[of "128 + n"] by (simp_all add: t b unat_of_nat del: of_nat_add)
qed


text \<open>A client's frame: as the server's, but masked with a four-byte key.\<close>

definition ws_len :: "nat \<Rightarrow> nat \<Rightarrow> string" where
  "ws_len mk n =
     (if n < 126 then [char_of (mk + n)]
      else if n \<le> 0xFFFF then char_of (mk + 126) # be_bytes 2 n else char_of (mk + 127) # be_bytes 8 n)"

definition client_frame :: "u8 \<Rightarrow> string \<Rightarrow> string \<Rightarrow> string" where
  "client_frame opcode key payload =
     [byte (0x80 OR opcode)] @ ws_len 128 (length payload) @ key @ unmask key payload"

lemma length_unmask [simp]: "length (unmask m p) = length p"
  by (simp add: unmask_def)

lemma unmask_unmask: "length m = 4 \<Longrightarrow> unmask m (unmask m p) = p"
  by (rule nth_equalityI) (simp_all add: unmask_def nth_enumerate_eq xor.assoc)

lemma read_exact_all [simp]: "length a = n \<Longrightarrow> read_exact n (a @ b) = Some (a, b)"
  by (simp add: read_exact_def)

lemma read_exact_2: "read_exact 2 (a # b # s) = Some ([a, b], s)"
  by (simp add: read_exact_def)

text \<open>Reading the opcode, the mask bit and the length, in each of the three widths.\<close>

lemma ws_read_header:
  assumes "op < 16" and n: "n \<le> 16 * 1024 * 1024" and mk: "mk = 0 \<or> mk = 128"
  shows "ws_read_frame ([byte (0x80 OR op)] @ ws_len mk n @ s) =
     Option.bind (if mk = 128 then map_option (\<lambda>(m, s). (Some m, s)) (read_exact 4 s) else Some (None, s)) (\<lambda>(m, s).
       map_option (\<lambda>(payload, s). ((op, case m of Some m \<Rightarrow> unmask m payload | None \<Rightarrow> payload), s)) (read_exact n s))"
proof -
  have b: "unat (of_char (char_of (mk + k)) AND (0x7F :: u8)) = k"
    "of_char (char_of (mk + k)) AND (0x80 :: u8) \<noteq> 0 \<longleftrightarrow> mk = 128" if "k < 128" for k
  proof -
    have "(of_char (char_of (mk + k)) :: u8) = of_nat (mk + k)" using that mk by (intro of_char_of_small) auto
    then show "unat (of_char (char_of (mk + k)) AND (0x7F :: u8)) = k"
      "of_char (char_of (mk + k)) AND (0x80 :: u8) \<noteq> 0 \<longleftrightarrow> mk = 128"
      using mk len_byte[OF that] by auto
  qed
  have v: "n \<le> 0xFFFF \<Longrightarrow> be_val (be_bytes 2 n) = n" "be_val (be_bytes 8 n) = n"
    using n by (auto intro!: be_val_exact)
  note simps = ws_read_frame_def Let_def read_exact_2 low_nibble[OF assms(1)] v
  consider "n < 126" | "126 \<le> n" "n \<le> 0xFFFF" | "0xFFFF < n" by linarith
  then show ?thesis
  proof cases
    case 1
    then show ?thesis using n b[of n] by (simp add: ws_len_def simps)
  next
    case 2
    then show ?thesis using n b[of 126] by (simp add: ws_len_def simps)
  next
    case 3
    then show ?thesis using n b[of 127] by (simp add: ws_len_def simps)
  qed
qed

lemma ws_read_client:
  assumes "op < 16" and "length p \<le> 16 * 1024 * 1024" and "length key = 4"
  shows "ws_read_frame (client_frame op key p @ rest) = Some ((op, p), rest)"
  using ws_read_header[OF assms(1,2), of 128 "key @ unmask key p @ rest"] assms(3)
  by (simp add: client_frame_def unmask_unmask)

lemma ws_read_server:
  assumes "op < 16" and "length p \<le> 16 * 1024 * 1024"
  shows "ws_read_frame (ws_frame op p @ rest) = Some ((op, p), rest)"
proof -
  have "ws_frame op p = [byte (0x80 OR op)] @ ws_len 0 (length p) @ p"
    by (simp add: ws_frame_def ws_len_def Let_def)
  then show ?thesis using ws_read_header[OF assms, of 0 "p @ rest"] by simp
qed


subsection \<open>The output stream\<close>

text \<open>The bridge without a terminal is a receiver of a framed stream, once the head is gone.\<close>

fun demux_recv :: "string list \<Rightarrow> string \<Rightarrow> (u8 \<times> string) list \<times> string" where
  "demux_recv [] b = ([], b)"
| "demux_recv (c # cs) b =
     (let (fs, r) = demux (b @ c); (gs, r') = demux_recv cs r in (fs @ gs, r'))"

interpretation engine: frame_stream demux_step demux demux_recv
proof
  show "demux_step b = Some (xs, n) \<Longrightarrow> 0 < n \<and> n \<le> length b" for b xs n
    by (auto simp: demux_step_def Let_def split: if_splits)
  show "demux_step b = Some (xs, n) \<Longrightarrow> demux_step (b @ c) = Some (xs, n)" for b xs n c
    by (auto simp: demux_step_def Let_def nth_append split: if_splits)
  show "demux_step b = Some (xs, n) \<Longrightarrow> demux b = (xs @ fst (demux (drop n b)), snd (demux (drop n b)))" for b xs n
    by (subst demux.simps) (simp add: split_def Let_def)
  show "demux_step b = None \<Longrightarrow> demux b = ([], b)" for b
    by (subst demux.simps) simp
qed (simp_all add: split_def Let_def)

lemma exec_output_recv: "exec_output False True carry cs = fst (demux_recv cs carry)"
  by (induction cs arbitrary: carry) (simp_all add: split_def Let_def)

lemma length_HEAD_END [simp]: "length HEAD_END = 4"
  by (simp add: HEAD_END_def)

lemma after_head_length: "after_head x = Some t \<Longrightarrow> 4 \<le> length x"
proof (induction x)
  case (Cons c x)
  then show ?case using starts_with_length[of "c # x" HEAD_END] by (cases "starts_with (c # x) HEAD_END") auto
qed simp

lemma after_head_append: "after_head x = Some t \<Longrightarrow> after_head (x @ y) = Some (t @ y)"
proof (induction x arbitrary: t)
  case (Cons c x)
  have "4 \<le> length (c # x)" by (rule after_head_length[OF Cons.prems])
  then have "starts_with ((c # x) @ y) HEAD_END = starts_with (c # x) HEAD_END"
    by (intro starts_with_append_left) simp
  with Cons \<open>4 \<le> length (c # x)\<close> show ?case by (auto split: if_splits)
qed simp

text \<open>Until the whole head has arrived nothing is written; then the frames of what follows it.\<close>

lemma exec_output_head:
  assumes H: "after_head H = Some []"
  shows "H = carry @ rest \<Longrightarrow> rest \<noteq> [] \<Longrightarrow> carry @ concat cs = H @ body
     \<Longrightarrow> exec_output False False carry cs = fst (demux body)"
proof (induction cs arbitrary: carry rest)
  case Nil
  then show ?case by simp
next
  case (Cons c cs)
  have s: "after_head x = None" if "H = x @ y" "y \<noteq> []" for x y
    using after_head_append[of x _ y] H that by (cases "after_head x") auto
  show ?case
  proof (cases "length (carry @ c) < length H")
    case True
    have "(carry @ c) @ concat cs = H @ body" using Cons.prems by simp
    then have "take (length (carry @ c)) H = carry @ c"
      using True arg_cong[of _ _ "take (length (carry @ c))"] by (metis append_eq_conv_conj append_eq_append_conv_if less_imp_le)
    then obtain y where y: "H = (carry @ c) @ y" by (metis append_take_drop_id)
    then have "y \<noteq> []" using True by auto
    with Cons.IH[OF y this] Cons.prems s[OF y this] show ?thesis by simp
  next
    case False
    have e: "(carry @ c) @ concat cs = H @ body" using Cons.prems by simp
    define t where "t = drop (length H) (carry @ c)"
    have "take (length H) (carry @ c) = H" using arg_cong[OF e, of "take (length H)"] False by simp
    then have t1: "carry @ c = H @ t" unfolding t_def by (metis append_take_drop_id)
    then have t: "carry @ c = H @ t" "t @ concat cs = body" using e by simp_all
    have a: "after_head (carry @ c) = Some t" unfolding t using after_head_append[OF H, of t] by simp
    show ?thesis
    proof (cases "t = []")
      case True
      then show ?thesis using a t engine.recv_drain[OF engine.step_Nil, of cs] by (simp add: exec_output_recv)
    next
      case f: False
      have "demux_recv (t # cs) [] = demux body" using engine.recv_drain[OF engine.step_Nil, of "t # cs"] t by simp
      then show ?thesis using a f by (simp add: exec_output_recv split_def Let_def prod_eq_iff)
    qed
  qed
qed

definition engine_frame :: "u8 \<Rightarrow> string \<Rightarrow> string" where
  "engine_frame ty p = byte ty # replicate 3 (char_of (0 :: nat)) @ be_bytes 4 (length p) @ p"

lemma demux_engine_frame:
  assumes "length p < 2 ^ 32"
  shows "demux_step (engine_frame ty p) = Some ([(if ty = 2 then 2 else 1, p)], length (engine_frame ty p))"
proof -
  have "be_val (be_bytes 4 (length p)) = length p" using assms by (intro be_val_exact) simp
  then show ?thesis by (simp add: demux_step_def engine_frame_def Let_def numeral_3_eq_3)
qed

subsection \<open>Properties\<close>

text \<open>
  C24: The frame reader inverts both ends of the connection: the server's frame writer and a client's
  masked frame, for every opcode and every payload up to the reader's limit of 16 MiB and in all three
  widths of the length, leaving exactly what follows the frame; and a frame announcing more than the limit
  is refused.
\<close>
theorem ws_frame_roundtrip:
  assumes "op < 16" and "length key = 4"
  shows "if length p \<le> 16 * 1024 * 1024
         then ws_read_frame (client_frame op key p @ rest) = Some ((op, p), rest)
              \<and> ws_read_frame (ws_frame op p @ rest) = Some ((op, p), rest)
         else length p < 2 ^ 64 \<longrightarrow> ws_read_frame (ws_frame op p @ rest) = None"
proof (cases "length p \<le> 16 * 1024 * 1024")
  case True
  then show ?thesis using ws_read_client[OF assms(1) True assms(2)] ws_read_server[OF assms(1) True] by simp
next
  case False
  have b: "(of_nat 127 :: u8) AND 0x7F = 127" "(of_nat 127 :: u8) AND 0x80 = 0" by simp_all
  have "be_val (be_bytes 8 (length p)) = length p" if "length p < 2 ^ 64"
    using that by (intro be_val_exact) simp
  then show ?thesis using False
    by (simp add: ws_frame_def ws_read_frame_def read_exact_2 Let_def of_char_of_small[of 127])
qed

theorem ws_frame_roundtrip_witness:
  "ws_read_frame (client_frame 2 ''abcd'' ''ls -l'' @ ''x'') = Some ((2, ''ls -l''), ''x'')"
  using ws_frame_roundtrip[of 2 "''abcd''" "''ls -l''" "''x''"] by simp

text \<open>
  C25: Without a terminal, whatever way the engine's connection cuts its bytes into reads (in the HTTP head,
  in a frame header, in a payload), the bridge sends the client exactly the engine's frames, in order, each
  payload whole and on the channel of its stream: standard error on channel 2, everything else on channel 1.
\<close>
theorem exec_output_demuxed:
  assumes head: "after_head H = Some []" and "\<forall>(ty, p) \<in> set fs. length p < 2 ^ 32"
    and "concat cs = H @ concat (map (\<lambda>(ty, p). engine_frame ty p) fs)"
  shows "exec_output False False [] cs = map (\<lambda>(ty, p). (if ty = 2 then 2 else 1, p)) fs"
proof -
  define gs where "gs = map (\<lambda>(ty, p). (engine_frame ty p, [(if ty = 2 then 2 else 1 :: u8, p)])) fs"
  let ?body = "concat (map (\<lambda>(ty, p). engine_frame ty p) fs)"
  have "H \<noteq> []" using head by auto
  then have "exec_output False False [] cs = fst (demux ?body)"
    using exec_output_head[OF head, of "[]" H cs ?body] assms(3) by simp
  also have "\<dots> = fst (demux_recv [?body] [])"
    using engine.recv_drain[OF engine.step_Nil, of "[?body]"] by simp
  also have "demux_recv [?body] [] = (concat (map snd gs), [])"
  proof (rule engine.recv_frames)
    show "\<forall>f \<in> set gs. demux_step (fst f) = Some (snd f, length (fst f))"
      using assms(2) demux_engine_frame by (auto simp: gs_def)
    show "concat [?body] = concat (map fst gs)"
      by (simp add: gs_def o_def split_def)
  qed
  also have "fst (concat (map snd gs), []) = map (\<lambda>(ty, p). (if ty = 2 then 2 else 1, p)) fs"
    by (simp add: gs_def o_def split_def)
  finally show ?thesis .
qed

theorem exec_output_demuxed_witness:
  "exec_output False False []
     [''HTTP/1.1 101'' @ take 3 HEAD_END, drop 3 HEAD_END @ take 5 (engine_frame 1 ''hi''),
      drop 5 (engine_frame 1 ''hi'') @ engine_frame 2 ''no''] = [(1, ''hi''), (2, ''no'')]"
  using exec_output_demuxed[of "''HTTP/1.1 101'' @ HEAD_END" "[(1, ''hi''), (2, ''no'')]"
    "[''HTTP/1.1 101'' @ take 3 HEAD_END, drop 3 HEAD_END @ take 5 (engine_frame 1 ''hi''),
      drop 5 (engine_frame 1 ''hi'') @ engine_frame 2 ''no'']"]
  by (simp add: HEAD_END_def starts_with_def)

end
