(* ===== verification/Docker_Client.thy ===== *)
theory Docker_Client
  imports Ws_Channel Apply_Config
begin

text \<open>
  The Docker Engine client, \<^verbatim>\<open>src/src/docker.rs\<close>: requests as HTTP text over the socket, the reply's head and
  chunked body, every call the program makes, log and exec demultiplexing, the image build with its
  background jobs, and the statistics cache. The engine behind the socket is a parameter \<open>exch\<close>: a state
  and what the connection delivers for the bytes sent. Parsing and printing of JSON are parameters too.
\<close>

subsection \<open>The socket and calls that may fail\<close>

text \<open>
  How a connection ended: closed or timed out, reset by the peer, or failed. A write error comes with the
  number of bytes written before it.
\<close>

datatype read_end = End | Reset string | Failed string

datatype sock = Connect_error string | Write_error nat string | Reads "string list" read_end

type_synonym 's exchange = "'s \<Rightarrow> string \<Rightarrow> sock \<times> 's"
type_synonym ('s, 'a) call = "'s \<Rightarrow> 'a result rust \<times> 's"

definition call_ret :: "'a \<Rightarrow> ('s, 'a) call" where
  "call_ret x st = (Ret (Inr x), st)"

definition call_fail :: "string \<Rightarrow> ('s, 'a) call" where
  "call_fail e st = (Ret (Inl e), st)"

text \<open>Going on with the result, and the \<open>?\<close> operator.\<close>

definition on_result :: "('s, 'a) call \<Rightarrow> ('a result \<Rightarrow> ('s, 'b) call) \<Rightarrow> ('s, 'b) call" where
  "on_result m f st =
     (case m st of (Ret r, st') \<Rightarrow> f r st' | (Panic, st') \<Rightarrow> (Panic, st'))"

definition try_call :: "('s, 'a) call \<Rightarrow> ('a \<Rightarrow> ('s, 'b) call) \<Rightarrow> ('s, 'b) call" where
  "try_call m f = on_result m (case_sum call_fail f)"

definition lift_rust :: "'a rust \<Rightarrow> ('s, 'a) call" where
  "lift_rust r st = ((case r of Ret x \<Rightarrow> Ret (Inr x) | Panic \<Rightarrow> Panic), st)"

subsection \<open>Requests and replies\<close>

definition docker_sock :: "string option \<Rightarrow> string" where
  "docker_sock docker_host =
     (case Option.bind docker_host (\<lambda>h. strip_prefix h ''unix://'') of
        Some path \<Rightarrow> path
      | None \<Rightarrow> ''/var/run/docker.sock'')"

text \<open>\<open>s.find(p)\<close>: the position of the first occurrence.\<close>

fun str_find :: "string \<Rightarrow> string \<Rightarrow> nat option" where
  "str_find p [] = (if p = [] then Some 0 else None)"
| "str_find p (c # s) = (if starts_with (c # s) p then Some 0 else map_option Suc (str_find p s))"

text \<open>\<open>usize::from_str_radix(s, 16)\<close>.\<close>

fun hex_digits_val :: "nat \<Rightarrow> string \<Rightarrow> nat option" where
  "hex_digits_val acc [] = Some acc"
| "hex_digits_val acc (c # cs) =
     (case hex_val c of None \<Rightarrow> None | Some d \<Rightarrow> hex_digits_val (16 * acc + d) cs)"

definition usize_from_hex :: "string \<Rightarrow> nat option" where
  "usize_from_hex s =
     (let t = (case s of c # cs \<Rightarrow> if c = CHR ''+'' then cs else s | [] \<Rightarrow> [])
      in if t = [] then None
         else (case hex_digits_val 0 t of None \<Rightarrow> None | Some n \<Rightarrow> if n < 2 ^ 64 then Some n else None))"

lemma str_find_bound: "str_find p s = Some i \<Longrightarrow> i + length p \<le> length s"
proof (induction s arbitrary: i)
  case (Cons c s)
  then show ?case using starts_with_length[of "c # s" p] by (auto split: if_splits)
qed (auto split: if_splits)

text \<open>The decoder on text: a slice that cuts a character panics.\<close>

function parse_chunked :: "string \<Rightarrow> string \<Rightarrow> string rust" where
  "parse_chunked acc remaining =
     (case str_find CRLF remaining of
        None \<Rightarrow> Ret (acc @ remaining)
      | Some pos \<Rightarrow>
          let size = unwrap_or (usize_from_hex (trim (take pos remaining))) 0
          in if size = 0 then Ret acc
             else let rest = drop (pos + 2) remaining
                  in if size \<le> length rest
                     then (if is_char_boundary rest size
                           then parse_chunked (acc @ take size rest)
                                  (unwrap_or (strip_prefix (drop size rest) CRLF) (drop size rest))
                           else Panic)
                     else Ret (acc @ rest))"
  by pat_completeness auto
termination
proof (relation "measure (\<lambda>(acc, s). length s)")
  fix acc remaining :: string and pos :: nat and size rest
  assume f: "str_find CRLF remaining = Some pos" and s: "size = unwrap_or (usize_from_hex (trim (take pos remaining))) 0"
    "size \<noteq> 0" and r: "rest = drop (pos + 2) remaining" "size \<le> length rest"
  have "length (unwrap_or (strip_prefix (drop size rest) CRLF) (drop size rest)) \<le> length (drop size rest)"
    by (auto simp: strip_prefix_def)
  also have "\<dots> < length rest" using s r by simp
  also have "\<dots> \<le> length remaining" using r by simp
  finally show "((acc @ take size rest, unwrap_or (strip_prefix (drop size rest) CRLF) (drop size rest)), acc, remaining)
      \<in> measure (\<lambda>(acc, s). length s)" by simp
qed simp

declare parse_chunked.simps [simp del]

definition http_request :: "string \<Rightarrow> string \<Rightarrow> string option \<Rightarrow> string" where
  "http_request meth path body =
     meth @ '' '' @ path @ '' HTTP/1.1'' @ CRLF @ ''Host: localhost'' @ CRLF
     @ (case body of
          Some b \<Rightarrow> ''Content-Type: application/json'' @ CRLF @ ''Content-Length: '' @ show_nat (length b) @ CRLF @ CRLF @ b
        | None \<Rightarrow> CRLF)"

definition reply_body :: "string \<Rightarrow> string rust" where
  "reply_body response =
     (let resp_str = utf8_lossy response
      in case after_head resp_str of
           Some body \<Rightarrow> if str_contains resp_str ''Transfer-Encoding: chunked'' then parse_chunked [] body else Ret body
         | None \<Rightarrow> Ret resp_str)"

definition docker_request :: "'s exchange \<Rightarrow> string \<Rightarrow> string \<Rightarrow> string option \<Rightarrow> ('s, string) call" where
  "docker_request exch meth path body st =
     (case exch st (http_request meth path body) of
        (Connect_error e, st) \<Rightarrow> call_fail (''Cannot connect to Docker: '' @ e @ ''. Is Docker running?'') st
      | (Write_error _ e, st) \<Rightarrow> call_fail (''Write failed: '' @ e) st
      | (Reads cs (Reset e), st) \<Rightarrow> call_fail (''Read failed: '' @ e) st
      | (Reads cs (Failed e), st) \<Rightarrow> call_fail (''Read failed: '' @ e) st
      | (Reads cs End, st) \<Rightarrow> lift_rust (reply_body (concat cs)) st)"

subsection \<open>Containers\<close>

definition list_containers ::
  "'s exchange \<Rightarrow> (string \<Rightarrow> docker_container list result) \<Rightarrow> bool \<Rightarrow> ('s, docker_container list) call" where
  "list_containers exch from_str all_c =
     try_call (docker_request exch ''GET'' (if all_c then ''/containers/json?all=true'' else ''/containers/json'') None)
       (\<lambda>body. case from_str body of
          Inr cs \<Rightarrow> call_ret cs
        | Inl e \<Rightarrow> try_call (lift_rust (str_slice body 0 (min 200 (length body))))
                     (\<lambda>b. call_fail (''Parse error: '' @ e @ [CHR 0x0A] @ ''Body: '' @ b)))"

text \<open>\<open>as u64\<close> of a number: towards zero, saturating.\<close>

fun f_to_u64 :: "flt \<Rightarrow> u64" where
  "f_to_u64 NaN = 0"
| "f_to_u64 (Inf s) = (if s then 0 else - 1)"
| "f_to_u64 (Zero s) = 0"
| "f_to_u64 (Num q) = (if q \<le> 0 then 0 else if 2 ^ 64 \<le> q then - 1 else of_int \<lfloor>q\<rfloor>)"

definition port_key :: "u16 \<Rightarrow> string" where
  "port_key p = show_word p @ ''/tcp''"

definition host_config :: "(string \<times> string) list \<Rightarrow> f32 option \<Rightarrow> u64 option \<Rightarrow> u16 list \<Rightarrow> (string \<times> json) list" where
  "host_config volumes cpu_limit mem_limit_mb publish_ports =
     (let h = [];
          h = (if volumes = [] then h else bt_insert ''Binds'' (j_strs (map (\<lambda>(a, b). a @ '':'' @ b) volumes)) h);
          h = (case cpu_limit of Some cpu \<Rightarrow> bt_insert ''NanoCpus'' (JPos (f_to_u64 (f_mul cpu (f32_lit 1000000000)))) h | None \<Rightarrow> h);
          h = (case mem_limit_mb of Some mb \<Rightarrow> bt_insert ''Memory'' (JPos (mb * 1024 * 1024)) h | None \<Rightarrow> h)
      in if publish_ports = [] then h
         else bt_insert ''PortBindings''
                (j_obj (map (\<lambda>p. (port_key p, JArr [j_obj [(''HostPort'', JStr ''0'')]])) publish_ports)) h)"

definition container_body ::
  "string \<Rightarrow> string list option \<Rightarrow> string list \<Rightarrow> (string \<times> string) list \<Rightarrow> (string \<times> string) list \<Rightarrow> f32 option
   \<Rightarrow> u64 option \<Rightarrow> u16 list \<Rightarrow> json" where
  "container_body img cmd env labels volumes cpu_limit mem_limit_mb publish_ports =
     j_obj ([(''Image'', JStr img)]
       @ (case cmd of Some c \<Rightarrow> [(''Cmd'', j_strs c)] | None \<Rightarrow> [])
       @ (if env = [] then [] else [(''Env'', j_strs env)])
       @ (if labels = [] then [] else [(''Labels'', j_obj (map (\<lambda>(k, v). (k, JStr v)) labels))])
       @ (if publish_ports = [] then [] else [(''ExposedPorts'', j_obj (map (\<lambda>p. (port_key p, JObj [])) publish_ports))])
       @ [(''HostConfig'', JObj (host_config volumes cpu_limit mem_limit_mb publish_ports))])"

text \<open>The JSON library as the program calls it: parsing, and printing.\<close>

record json_text =
  jt_parse :: "string \<Rightarrow> json result"
  jt_print :: "json \<Rightarrow> string"

definition jt_ok :: "json_text \<Rightarrow> string \<Rightarrow> json option" where
  "jt_ok T s = (case jt_parse T s of Inr v \<Rightarrow> Some v | Inl _ \<Rightarrow> None)"

definition create_container_full ::
  "'s exchange \<Rightarrow> json_text \<Rightarrow> string \<Rightarrow> string \<Rightarrow> string list option \<Rightarrow> string list \<Rightarrow> (string \<times> string) list
   \<Rightarrow> (string \<times> string) list \<Rightarrow> f32 option \<Rightarrow> u64 option \<Rightarrow> u16 list \<Rightarrow> ('s, string) call" where
  "create_container_full exch T name img cmd env labels volumes cpu_limit mem_limit_mb publish_ports =
     try_call (docker_request exch ''POST'' (''/containers/create?name='' @ name)
            (Some (jt_print T (container_body img cmd env labels volumes cpu_limit mem_limit_mb publish_ports))))
       (\<lambda>resp. case Option.bind (jt_ok T resp) (\<lambda>v. Option.bind (jget v ''Id'') jstr) of
          Some i \<Rightarrow> call_ret i
        | None \<Rightarrow> (case Option.bind (jt_ok T resp) (\<lambda>v. Option.bind (jget v ''message'') jstr) of
                   Some msg \<Rightarrow> call_fail msg
                 | None \<Rightarrow> call_fail (''Unexpected response: '' @ resp)))"

definition create_container_with_limits where
  "create_container_with_limits exch T name img cmd env labels volumes cpu_limit mem_limit_mb =
     create_container_full exch T name img cmd env labels volumes cpu_limit mem_limit_mb []"

definition create_container_with_volumes where
  "create_container_with_volumes exch T name img cmd env labels volumes =
     create_container_with_limits exch T name img cmd env labels volumes None None"

definition create_container where
  "create_container exch T name img cmd env labels =
     create_container_with_limits exch T name img cmd env labels [] None None"

definition host_port_of :: "json \<Rightarrow> u16 \<Rightarrow> u16 option" where
  "host_port_of v container_port =
     Option.bind (jarr (jat (jat (jat v ''NetworkSettings'') ''Ports'') (port_key container_port))) (\<lambda>bs.
     Option.bind (head_opt bs) (\<lambda>b.
     Option.bind (jget b ''HostPort'') (\<lambda>h. Option.bind (jstr h) parse_u16)))"

definition container_host_port :: "'s exchange \<Rightarrow> json_text \<Rightarrow> string \<Rightarrow> u16 \<Rightarrow> ('s, u16 option) call" where
  "container_host_port exch T i container_port =
     on_result (docker_request exch ''GET'' (''/containers/'' @ i @ ''/json'') None)
       (\<lambda>r. call_ret (Option.bind (ok r) (\<lambda>body. Option.bind (jt_ok T body) (\<lambda>v. host_port_of v container_port))))"

definition start_container :: "'s exchange \<Rightarrow> string \<Rightarrow> ('s, unit) call" where
  "start_container exch i =
     try_call (docker_request exch ''POST'' (''/containers/'' @ i @ ''/start'') None)
       (\<lambda>resp. if str_contains resp ''304'' \<or> resp = [] \<or> str_contains resp [CHR 0x22, CHR 0x22] then call_ret ()
               else if str_contains resp ([CHR 0x22] @ ''message'' @ [CHR 0x22]) then call_fail resp else call_ret ())"

definition stop_container :: "'s exchange \<Rightarrow> string \<Rightarrow> ('s, unit) call" where
  "stop_container exch i =
     try_call (docker_request exch ''POST'' (''/containers/'' @ i @ ''/stop?t=10'') None) (\<lambda>_. call_ret ())"

definition remove_container :: "'s exchange \<Rightarrow> string \<Rightarrow> bool \<Rightarrow> ('s, unit) call" where
  "remove_container exch i force =
     try_call (docker_request exch ''DELETE'' (''/containers/'' @ i @ (if force then ''?force=true'' else [])) None) (\<lambda>_. call_ret ())"

subsection \<open>Images\<close>

abbreviation quoted :: "string \<Rightarrow> string" where
  "quoted s \<equiv> [CHR 0x22] @ s @ [CHR 0x22]"

definition image_exists_locally :: "'s exchange \<Rightarrow> string \<Rightarrow> ('s, bool) call" where
  "image_exists_locally exch img =
     on_result (docker_request exch ''GET'' (''/images/'' @ img @ ''/json'') None)
       (\<lambda>r. call_ret (case r of Inr body \<Rightarrow> str_contains body (quoted ''Id'') \<or> str_contains body (quoted ''Config'')
                          | Inl _ \<Rightarrow> False))"

definition repo_tag :: "string \<Rightarrow> string \<times> string" where
  "repo_tag img = (case rsplit_once (CHR '':'') img of Some (r, t) \<Rightarrow> (r, t) | None \<Rightarrow> (img, ''latest''))"

text \<open>The pull loop: the text so far decides after each read whether to stop, and how.\<close>

datatype pull_end = Pull_error string | Pull_stop

definition any_contains :: "string \<Rightarrow> string list \<Rightarrow> bool" where
  "any_contains s ps = (\<exists>p \<in> set ps. str_contains s p)"

fun pull_loop :: "string \<Rightarrow> string \<Rightarrow> string list \<Rightarrow> read_end \<Rightarrow> pull_end" where
  "pull_loop what response [] e =
     (case e of End \<Rightarrow> Pull_stop | Reset m \<Rightarrow> Pull_error (''Pull: '' @ m) | Failed m \<Rightarrow> Pull_error (''Pull: '' @ m))"
| "pull_loop what response (c # cs) e =
     (let response = response @ utf8_lossy c
      in if any_contains response [''no space left'', ''No space left''] then Pull_error (what @ '': no disk space left'')
         else if any_contains response [''not found'', ''manifest unknown''] then Pull_error (what @ '': image not found'')
         else if any_contains response [''unauthorized'', ''denied''] then Pull_error (what @ '': access denied'')
         else if any_contains response [''Downloaded'', ''Already exists'', ''up to date'', ''Pulled''] then Pull_stop
         else pull_loop what response cs e)"

definition pull_image :: "'s exchange \<Rightarrow> string \<Rightarrow> ('s, unit) call" where
  "pull_image exch img =
     try_call (image_exists_locally exch img) (\<lambda>present.
       if present then call_ret ()
       else let (repo, tag) = repo_tag img; name = repo @ '':'' @ tag; what = ''Pull '' @ name
            in (\<lambda>st. case exch st (http_request ''POST'' (''/images/create?fromImage='' @ repo @ ''&tag='' @ tag) None) of
                  (Connect_error e, st) \<Rightarrow> call_fail (''Docker connect: '' @ e) st
                | (Write_error _ e, st) \<Rightarrow> call_fail (''Write: '' @ e) st
                | (Reads cs e, st) \<Rightarrow>
                    (case pull_loop what [] cs e of
                       Pull_error m \<Rightarrow> call_fail m st
                     | Pull_stop \<Rightarrow>
                         on_result (docker_request exch ''GET'' (''/images/'' @ name @ ''/json'') None)
                           (\<lambda>r. case r of
                              Inr body \<Rightarrow> if str_contains body ''Id'' then call_ret ()
                                          else call_fail (what @ '': image not available after pull (disk full?)'')
                            | Inl _ \<Rightarrow> call_fail (what @ '': image not available after pull (disk full?)'')) st)))"

subsection \<open>Logs\<close>

text \<open>The loop over the reply's bytes: \<open>log_frame\<close> is a header at the front, with the length it announces.\<close>

definition log_frame :: "string \<Rightarrow> nat option" where
  "log_frame bs =
     (if 8 \<le> length bs \<and> (of_char (bs ! 0) = (1 :: u8) \<or> of_char (bs ! 0) = (2 :: u8))
         \<and> take 3 (drop 1 bs) = replicate 3 (char_of (0 :: nat))
      then Some (be_val (take 4 (drop 4 bs))) else None)"

definition utf8_or_empty :: "string \<Rightarrow> string" where
  "utf8_or_empty s = (if utf8_valid s then s else [])"

function clean_logs :: "string \<Rightarrow> string" where
  "clean_logs bs =
     (if bs = [] then []
      else case log_frame bs of
             Some sz \<Rightarrow> utf8_or_empty (take sz (drop 8 bs)) @ clean_logs (drop (8 + sz) bs)
           | None \<Rightarrow> utf8_or_empty bs)"
  by pat_completeness auto
termination
  by (relation "measure length") auto

declare clean_logs.simps [simp del]

definition get_logs :: "'s exchange \<Rightarrow> string \<Rightarrow> u32 \<Rightarrow> ('s, string) call" where
  "get_logs exch i tail =
     try_call (docker_request exch ''GET'' (''/containers/'' @ i @ ''/logs?stdout=true&stderr=true&tail='' @ show_word tail) None)
       (\<lambda>raw. call_ret (clean_logs raw))"

definition get_stderr_logs :: "'s exchange \<Rightarrow> string \<Rightarrow> u32 \<Rightarrow> ('s, string) call" where
  "get_stderr_logs exch i tail =
     docker_request exch ''GET'' (''/containers/'' @ i @ ''/logs?stdout=false&stderr=true&tail='' @ show_word tail) None"

text \<open>
  Following a log: the head is skipped byte by byte, at most 8192 of them, then frames are read until the
  stream ends or the client is gone. A frame of no bytes, or of more than a million, is not read past.
\<close>

fun skip_head :: "string \<Rightarrow> string \<Rightarrow> string option" where
  "skip_head hdr [] = None"
| "skip_head hdr (c # s) =
     (let hdr = hdr @ [c]
      in if 4 \<le> length hdr \<and> drop (length hdr - 4) hdr = HEAD_END then Some s
         else if 8192 < length hdr then None else skip_head hdr s)"

function log_frames :: "string \<Rightarrow> string list" where
  "log_frames s =
     (if length s < 8 then []
      else let size = be_val (take 4 (drop 4 s)); r = drop 8 s
           in if size = 0 \<or> 1000000 < size then log_frames r
              else if length r < size then [] else take size r # log_frames (drop size r))"
  by pat_completeness auto
termination
  by (relation "measure length") auto

declare log_frames.simps [simp del]

definition stream_logs_to_channel :: "nat \<Rightarrow> string \<Rightarrow> string list" where
  "stream_logs_to_channel accepted s =
     (case skip_head [] s of Some r \<Rightarrow> take accepted (log_frames r) | None \<Rightarrow> [])"

subsection \<open>Networks\<close>

definition network_body :: "string \<Rightarrow> json" where
  "network_body name =
     j_obj [(''Name'', JStr name), (''Driver'', JStr ''bridge''), (''Labels'', j_obj [(''royak.managed'', JStr ''true'')]),
            (''Options'', j_obj [(''com.docker.network.bridge.enable_icc'', JStr ''true''),
                                (''com.docker.network.bridge.enable_ip_masquerade'', JStr ''true'')])]"

definition ensure_named_network :: "'s exchange \<Rightarrow> json_text \<Rightarrow> string \<Rightarrow> ('s, unit) call" where
  "ensure_named_network exch T name =
     on_result (docker_request exch ''GET'' (''/networks/'' @ name) None)
       (\<lambda>resp. if (case resp of Inr r \<Rightarrow> str_contains r name \<and> \<not> str_contains r ''not found'' | Inl _ \<Rightarrow> False) then call_ret ()
               else try_call (docker_request exch ''POST'' ''/networks/create'' (Some (jt_print T (network_body name)))) (\<lambda>_. call_ret ()))"

definition ensure_network where
  "ensure_network exch T = ensure_named_network exch T ''royak''"

definition ensure_namespace_network :: "'s exchange \<Rightarrow> json_text \<Rightarrow> string \<Rightarrow> ('s, string) call" where
  "ensure_namespace_network exch T ns =
     (let net_name = ''rk-'' @ ns in try_call (ensure_named_network exch T net_name) (\<lambda>_. call_ret net_name))"

definition connect_to_network :: "'s exchange \<Rightarrow> json_text \<Rightarrow> string \<Rightarrow> string \<Rightarrow> string list \<Rightarrow> ('s, unit) call" where
  "connect_to_network exch T cid network aliases =
     try_call (docker_request exch ''POST'' (''/networks/'' @ network @ ''/connect'')
            (Some (jt_print T (j_obj [(''Container'', JStr cid), (''EndpointConfig'', j_obj [(''Aliases'', j_strs aliases)])]))))
       (\<lambda>_. call_ret ())"

definition connect_network where
  "connect_network exch T cid aliases = connect_to_network exch T cid ''royak'' aliases"

definition disconnect_from_network :: "'s exchange \<Rightarrow> json_text \<Rightarrow> string \<Rightarrow> string \<Rightarrow> ('s, unit) call" where
  "disconnect_from_network exch T cid network =
     try_call (docker_request exch ''POST'' (''/networks/'' @ network @ ''/disconnect'')
            (Some (jt_print T (j_obj [(''Container'', JStr cid), (''Force'', JBool True)])))) (\<lambda>_. call_ret ())"

definition managed_filter :: string where
  "managed_filter =
     (let f = ''{'' @ quoted ''label'' @ '':['' @ quoted ''royak.managed=true'' @ '']}''
      in fold (\<lambda>(c, t) s. replace_char c t s)
           [(CHR ''{'', ''%7B''), (CHR ''}'', ''%7D''), (CHR 0x22, ''%22''), (CHR ''['', ''%5B''), (CHR '']'', ''%5D''),
            (CHR '':'', ''%3A''), (CHR '','', ''%2C'')] f)"

definition list_managed_networks :: "'s exchange \<Rightarrow> json_text \<Rightarrow> ('s, (string \<times> string) list) call" where
  "list_managed_networks exch T =
     try_call (docker_request exch ''GET'' (''/networks?filters='' @ managed_filter) None)
       (\<lambda>resp. call_ret (filter_map (\<lambda>n. map_option (\<lambda>name. (name, unwrap_or (jstr (jat n ''Id'')) [])) (jstr (jat n ''Name'')))
                     (unwrap_or (Option.bind (jt_ok T resp) jarr) [])))"

definition container_networks :: "'s exchange \<Rightarrow> json_text \<Rightarrow> string \<Rightarrow> ('s, string list) call" where
  "container_networks exch T cid =
     try_call (docker_request exch ''GET'' (''/containers/'' @ cid @ ''/json'') None)
       (\<lambda>resp. case jt_parse T resp of
          Inl e \<Rightarrow> call_fail e
        | Inr v \<Rightarrow> call_ret (case jobj (jat (jat v ''NetworkSettings'') ''Networks'') of Some m \<Rightarrow> map fst m | None \<Rightarrow> []))"

definition ip_of :: "json \<Rightarrow> string option" where
  "ip_of v =
     Option.bind (jobj (jat (jat v ''NetworkSettings'') ''Networks'')) (\<lambda>nets.
       find (\<lambda>ip. ip \<noteq> []) (filter_map (\<lambda>net. jstr (jat net ''IPAddress'')) (map snd nets)))"

definition container_ip :: "'s exchange \<Rightarrow> json_text \<Rightarrow> string \<Rightarrow> ('s, string) call" where
  "container_ip exch T cid =
     try_call (docker_request exch ''GET'' (''/containers/'' @ cid @ ''/json'') None)
       (\<lambda>resp. case jt_parse T resp of
          Inl e \<Rightarrow> call_fail e
        | Inr v \<Rightarrow> (case ip_of v of Some ip \<Rightarrow> call_ret ip | None \<Rightarrow> call_fail ''no IP found''))"

definition ping :: "'s exchange \<Rightarrow> ('s, bool) call" where
  "ping exch = on_result (docker_request exch ''GET'' ''/_ping'' None) (\<lambda>r. call_ret (ok r \<noteq> None))"

subsection \<open>Exec\<close>

fun ji64 :: "json \<Rightarrow> int option" where
  "ji64 (JPos n) = (if uint n < 2 ^ 63 then Some (uint n) else None)"
| "ji64 (JNeg n) = Some n"
| "ji64 v = None"

definition created_id :: "json_text \<Rightarrow> string \<Rightarrow> string option" where
  "created_id T resp = Option.bind (jt_ok T resp) (\<lambda>v. Option.bind (jget v ''Id'') jstr)"

definition create_exec :: "'s exchange \<Rightarrow> json_text \<Rightarrow> string \<Rightarrow> json \<Rightarrow> ('s, string) call" where
  "create_exec exch T cid body =
     try_call (docker_request exch ''POST'' (''/containers/'' @ cid @ ''/exec'') (Some (jt_print T body)))
       (\<lambda>resp. case created_id T resp of
          Some i \<Rightarrow> call_ret i
        | None \<Rightarrow> call_fail (''No exec ID in response: '' @ resp))"

definition start_body :: "bool \<Rightarrow> string" where
  "start_body tty = ''{'' @ quoted ''Detach'' @ '':false,'' @ quoted ''Tty'' @ '':'' @ (if tty then ''true'' else ''false'') @ ''}''"

definition start_exec_request :: "bool \<Rightarrow> string \<Rightarrow> bool \<Rightarrow> string" where
  "start_exec_request hijack exec_id tty =
     ''POST /exec/'' @ exec_id @ ''/start HTTP/1.1'' @ CRLF @ ''Host: localhost'' @ CRLF
     @ ''Content-Type: application/json'' @ CRLF
     @ (if hijack then ''Connection: Upgrade'' @ CRLF @ ''Upgrade: tcp'' @ CRLF else [])
     @ ''Content-Length: '' @ show_nat (length (start_body tty)) @ CRLF @ CRLF @ start_body tty"

definition exec_hijack :: "'s exchange \<Rightarrow> json_text \<Rightarrow> string \<Rightarrow> string list \<Rightarrow> bool \<Rightarrow> ('s, string \<times> string list \<times> read_end) call" where
  "exec_hijack exch T cid cmd tty =
     try_call (create_exec exch T cid (j_obj [(''AttachStdin'', JBool True), (''AttachStdout'', JBool True),
            (''AttachStderr'', JBool (\<not> tty)), (''Tty'', JBool tty), (''Cmd'', j_strs cmd)]))
       (\<lambda>exec_id st. case exch st (start_exec_request True exec_id tty) of
          (Connect_error e, st) \<Rightarrow> call_fail (''Docker connect: '' @ e) st
        | (Write_error _ e, st) \<Rightarrow> call_fail (''Write: '' @ e) st
        | (Reads cs e, st) \<Rightarrow> call_ret (exec_id, cs, e) st)"

definition exec_exit_code :: "'s exchange \<Rightarrow> json_text \<Rightarrow> string \<Rightarrow> ('s, int option) call" where
  "exec_exit_code exch T exec_id =
     on_result (docker_request exch ''GET'' (''/exec/'' @ exec_id @ ''/json'') None)
       (\<lambda>r. call_ret (Option.bind (ok r) (\<lambda>b. Option.bind (jt_ok T b) (\<lambda>v. Option.bind (jget v ''ExitCode'') ji64))))"

definition exec_resize :: "'s exchange \<Rightarrow> string \<Rightarrow> u32 \<Rightarrow> u32 \<Rightarrow> ('s, unit) call" where
  "exec_resize exch exec_id w h =
     try_call (docker_request exch ''POST'' (''/exec/'' @ exec_id @ ''/resize?w='' @ show_word w @ ''&h='' @ show_word h) None)
       (\<lambda>_. call_ret ())"

text \<open>The decoder on bytes: a size that overflows the end position panics.\<close>

function dechunk_bytes :: "string \<Rightarrow> string rust" where
  "dechunk_bytes rest =
     (case str_find CRLF rest of
        None \<Rightarrow> Ret []
      | Some pos \<Rightarrow>
          (case usize_from_hex (trim (utf8_lossy (take pos rest))) of
             None \<Rightarrow> Ret []
           | Some sz \<Rightarrow>
               if sz = 0 then Ret []
               else if 2 ^ 64 \<le> pos + 2 + sz then Panic
               else let e = min (pos + 2 + sz) (length rest); out = take (e - (pos + 2)) (drop (pos + 2) rest)
                    in if e + 2 \<le> length rest
                       then rust_bind (dechunk_bytes (drop (e + 2) rest)) (\<lambda>more. Ret (out @ more))
                       else Ret out))"
  by pat_completeness auto
termination
  by (relation "measure length") auto

declare dechunk_bytes.simps [simp del]

text \<open>Splitting the two streams: a frame that the data ends in gives what there is of it.\<close>

function split_streams :: "string \<Rightarrow> string \<times> string" where
  "split_streams p =
     (if length p < 8 then ([], [])
      else let len = be_val (take 4 (drop 4 p)); d = take len (drop 8 p); (o', e') = split_streams (drop (8 + len) p)
           in if of_char (p ! 0) = (2 :: u8) then (o', d @ e') else (d @ o', e'))"
  by pat_completeness auto
termination
  by (relation "measure length") auto

declare split_streams.simps [simp del]

fun contains_ci :: "string \<Rightarrow> string \<Rightarrow> bool" where
  "contains_ci p [] = False"
| "contains_ci p (c # s) =
     (length p \<le> length (c # s) \<and> eq_ignore_ascii_case (take (length p) (c # s)) p \<or> contains_ci p s)"

definition exec_payload :: "string \<Rightarrow> string rust" where
  "exec_payload raw =
     (case after_head raw of
        Some payload \<Rightarrow>
          if contains_ci ''transfer-encoding: '' (take (length raw - length payload) raw) then dechunk_bytes payload else Ret payload
      | None \<Rightarrow> Ret raw)"

definition exec_capture :: "'s exchange \<Rightarrow> json_text \<Rightarrow> string \<Rightarrow> string list \<Rightarrow> ('s, int \<times> string \<times> string) call" where
  "exec_capture exch T cid cmd =
     try_call (create_exec exch T cid (j_obj [(''AttachStdout'', JBool True), (''AttachStderr'', JBool True),
            (''Tty'', JBool False), (''Cmd'', j_strs cmd)]))
       (\<lambda>exec_id. try_call (\<lambda>st. case exch st (start_exec_request False exec_id False) of
            (Connect_error e, st) \<Rightarrow> call_fail (''Docker connect: '' @ e) st
          | (Write_error _ e, st) \<Rightarrow> call_fail (''Write: '' @ e) st
          | (Reads cs (Reset e), st) \<Rightarrow> call_fail (''Read: '' @ e) st
          | (Reads cs (Failed e), st) \<Rightarrow> call_fail (''Read: '' @ e) st
          | (Reads cs End, st) \<Rightarrow> lift_rust (exec_payload (concat cs)) st)
       (\<lambda>payload. let (out, err) = split_streams payload
          in try_call (docker_request exch ''GET'' (''/exec/'' @ exec_id @ ''/json'') None)
               (\<lambda>inspect. call_ret (unwrap_or (Option.bind (jt_ok T inspect) (\<lambda>v. Option.bind (jget v ''ExitCode'') ji64)) (-1), out, err))))"

definition exec_in_container :: "'s exchange \<Rightarrow> json_text \<Rightarrow> string \<Rightarrow> string list \<Rightarrow> ('s, int \<times> string) call" where
  "exec_in_container exch T cid cmd =
     try_call (create_exec exch T cid (j_obj [(''AttachStdout'', JBool True), (''AttachStderr'', JBool True), (''Cmd'', j_strs cmd)]))
       (\<lambda>exec_id. try_call (docker_request exch ''POST'' (''/exec/'' @ exec_id @ ''/start'') (Some (start_body False)))
       (\<lambda>start_resp. try_call (docker_request exch ''GET'' (''/exec/'' @ exec_id @ ''/json'') None)
       (\<lambda>inspect. call_ret (unwrap_or (Option.bind (jt_ok T inspect) (\<lambda>v. Option.bind (jget v ''ExitCode'') ji64)) (-1), start_resp))))"

definition http_check_container :: "'s exchange \<Rightarrow> json_text \<Rightarrow> string \<Rightarrow> string \<Rightarrow> u16 \<Rightarrow> ('s, bool) call" where
  "http_check_container exch T cid path port =
     (let url = ''http://localhost:'' @ show_word port @ path;
          attempt = (\<lambda>cmd other. on_result (exec_in_container exch T cid cmd)
                      (\<lambda>r. case r of Inr (code, _) \<Rightarrow> call_ret (code = 0) | Inl _ \<Rightarrow> other))
      in attempt [''curl'', ''-sf'', ''-o'', ''/dev/null'', ''-m'', ''2'', url]
           (attempt [''wget'', ''-q'', ''-O'', ''/dev/null'', ''-T'', ''2'', url]
             (attempt [''sh'', ''-c'', ''echo > /dev/tcp/localhost/'' @ show_word port]
               (call_fail ''No http check tool available in container''))))"

subsection \<open>Network policy helper\<close>

definition iptables_script :: "string list list \<Rightarrow> string" where
  "iptables_script rules =
     ''apk add --no-cache iptables >/dev/null 2>&1; ''
     @ concat (map (\<lambda>r. ''iptables '' @ join '' '' r @ '' 2>/dev/null || true; '') rules)"

text \<open>Waiting for the helper: at most 30 inspections, until it has stopped or is gone.\<close>

fun wait_stopped :: "'s exchange \<Rightarrow> json_text \<Rightarrow> string \<Rightarrow> nat \<Rightarrow> ('s, unit) call" where
  "wait_stopped exch T cid 0 = call_ret ()"
| "wait_stopped exch T cid (Suc n) =
     on_result (docker_request exch ''GET'' (''/containers/'' @ cid @ ''/json'') None)
       (\<lambda>r. case r of
          Inl _ \<Rightarrow> call_ret ()
        | Inr j \<Rightarrow> if Option.bind (jt_ok T j) (\<lambda>v. jbool (jat (jat v ''State'') ''Running'')) = Some False then call_ret ()
                   else wait_stopped exch T cid n)"

definition apply_netns_iptables :: "'s exchange \<Rightarrow> json_text \<Rightarrow> string \<Rightarrow> string list list \<Rightarrow> ('s, unit) call" where
  "apply_netns_iptables exch T pod_id rules =
     try_call (docker_request exch ''POST'' ''/containers/create''
            (Some (jt_print T (j_obj [(''Image'', JStr ''alpine:3.21''), (''Cmd'', j_strs [''sh'', ''-c'', iptables_script rules]),
               (''HostConfig'', j_obj [(''NetworkMode'', JStr (''container:'' @ pod_id)), (''CapAdd'', j_strs [''NET_ADMIN'']),
                                      (''AutoRemove'', JBool True)])]))))
       (\<lambda>resp. case created_id T resp of
          None \<Rightarrow> call_fail (''netns helper create failed: '' @ resp)
        | Some i \<Rightarrow> try_call (start_container exch i) (\<lambda>_. wait_stopped exch T i 30))"

subsection \<open>Building an image\<close>

text \<open>The scanner for a string member of a flat JSON line.\<close>

fun unescape :: "string \<Rightarrow> string" where
  "unescape [] = []"
| "unescape (c # s) =
     (if c = CHR 0x22 then []
      else if c = CHR 0x5C then
        (case s of
           [] \<Rightarrow> []
         | d # r \<Rightarrow> (if d = CHR ''n'' then CHR 0x0A else if d = CHR ''t'' then CHR 0x09 else d) # unescape r)
      else c # unescape s)"

definition json_str_field :: "string \<Rightarrow> string \<Rightarrow> string option" where
  "json_str_field line key =
     (let needle = quoted key @ '':'' @ [CHR 0x22]
      in map_option (\<lambda>i. unescape (drop (i + length needle) line)) (str_find needle line))"

text \<open>The build log and the last error of the stream.\<close>

definition build_line :: "string \<Rightarrow> string \<times> string option \<Rightarrow> string \<times> string option" where
  "build_line l acc =
     (let line = trim l
      in if line = [] \<or> \<not> starts_with line ''{'' then acc
         else case json_str_field line ''error'' of
                Some msg \<Rightarrow> (fst acc, Some msg)
              | None \<Rightarrow> (case json_str_field line ''stream'' of
                         Some s \<Rightarrow> (fst acc @ s, snd acc)
                       | None \<Rightarrow> acc))"

definition build_outcome :: "string \<Rightarrow> string \<times> string option" where
  "build_outcome text =
     (let parts = str_split_on HEAD_END text;
          body = (if 1 < length parts then parts ! 1 else text);
          (logbuf, err) = fold build_line (lines body) ([], None)
      in (logbuf,
          if err = None \<and> (starts_with text ''HTTP/1.1 4'' \<or> starts_with text ''HTTP/1.1 5'')
          then Some (unwrap_or (head_opt (lines text)) ''build failed'') else err))"

text \<open>The build request, the files it needs and the output of \<^verbatim>\<open>tar\<close>.\<close>

record build_input =
  bi_context :: string
  bi_dockerfile :: string
  bi_tag :: string
  bi_args :: "(string \<times> string) list"

record build_files =
  bf_context_exists :: "build_input \<Rightarrow> bool"
  bf_dockerfile_exists :: "build_input \<Rightarrow> bool"
  bf_tar :: "build_input \<Rightarrow> (bool \<times> string \<times> string) result"

definition build_path :: "json_text \<Rightarrow> build_input \<Rightarrow> string" where
  "build_path T b =
     ''/build?t='' @ urlencode (bi_tag b) @ ''&dockerfile='' @ urlencode (bi_dockerfile b) @ ''&rm=1&forcerm=1''
     @ (if bi_args b = [] then []
        else ''&buildargs='' @ urlencode (jt_print T (j_obj (map (\<lambda>(k, v). (k, JStr v)) (bi_args b)))))"

definition build_header :: "json_text \<Rightarrow> build_input \<Rightarrow> string \<Rightarrow> string" where
  "build_header T b tar_body =
     ''POST '' @ build_path T b @ '' HTTP/1.1'' @ CRLF @ ''Host: localhost'' @ CRLF @ ''Content-Type: application/x-tar'' @ CRLF
     @ ''Content-Length: '' @ show_nat (length tar_body) @ CRLF @ ''Connection: close'' @ CRLF @ CRLF"

definition build_failure :: "string \<Rightarrow> string \<times> string option \<Rightarrow> string" where
  "build_failure tag oc =
     (case snd oc of
        Some e \<Rightarrow> trim e
      | None \<Rightarrow>
          (let tail = join '' '' (rev (take 3 (rev (lines (fst oc)))))
           in ''build produced no image '' @ [CHR 0x27] @ tag @ [CHR 0x27] @ '' (stream ended without success)''
              @ (if tail = [] then [] else '': '' @ [CHR 0xE2, CHR 0x80, CHR 0xA6] @ tail)))"

definition build_image :: "'s exchange \<Rightarrow> json_text \<Rightarrow> build_files \<Rightarrow> build_input \<Rightarrow> ('s, string) call" where
  "build_image exch T F b =
     (let ctx = [CHR 0x27] @ bi_context b @ [CHR 0x27]
      in if \<not> bf_context_exists F b then call_fail (''build context '' @ ctx @ '' does not exist'')
         else if \<not> bf_dockerfile_exists F b then call_fail (bi_dockerfile b @ '' not found in build context '' @ ctx)
         else case bf_tar F b of
           Inl e \<Rightarrow> call_fail (''tar context failed: '' @ e)
         | Inr (success, stdout, stderr) \<Rightarrow>
             if \<not> success then call_fail (''tar context failed: '' @ utf8_lossy stderr)
             else (\<lambda>st. case exch st (build_header T b stdout @ stdout) of
                (Connect_error e, st) \<Rightarrow> call_fail (''Cannot connect to Docker: '' @ e) st
              | (Write_error n e, st) \<Rightarrow>
                  call_fail ((if n < length (build_header T b stdout) then ''Write header: '' else ''Write context: '') @ e) st
              | (Reads cs (Failed e), st) \<Rightarrow> call_fail (''Read build stream: '' @ e) st
              | (Reads cs _, st) \<Rightarrow>
                  (let oc = build_outcome (utf8_lossy (concat cs))
                   in try_call (image_exists_locally exch (bi_tag b))
                        (\<lambda>present. if present then call_ret (fst oc) else call_fail (build_failure (bi_tag b) oc)) st)))"

subsection \<open>Background builds\<close>

datatype build_poll = Not_started | Running | Done "string result"

text \<open>
  The job table. A job's slot is shared with the thread that builds it: \<open>build_jobs\<close> maps a key to a slot,
  \<open>build_slots\<close> holds the results, and \<open>build_threads\<close> are the builds under way with the slot they will fill.
\<close>

record build_state =
  build_jobs :: "(string, nat) hmap"
  build_slots :: "string result option list"
  build_threads :: "(nat \<times> build_input) list"

definition start_build :: "string \<Rightarrow> build_input \<Rightarrow> build_state \<Rightarrow> build_state" where
  "start_build job b s =
     (if hm_contains (build_jobs s) job then s
      else let slot = length (build_slots s)
           in s\<lparr>build_jobs := hm_insert job slot (build_jobs s), build_slots := build_slots s @ [None], build_threads := (slot, b) # build_threads s\<rparr>)"

text \<open>A thread ends: its result goes into its slot.\<close>

definition finish_build :: "nat \<Rightarrow> string result \<Rightarrow> build_state \<Rightarrow> build_state" where
  "finish_build slot r s =
     (if slot \<in> fst ` set (build_threads s)
      then s\<lparr>build_slots := (build_slots s)[slot := Some r], build_threads := filter (\<lambda>t. fst t \<noteq> slot) (build_threads s)\<rparr> else s)"

definition poll_build :: "string \<Rightarrow> build_state \<Rightarrow> build_poll" where
  "poll_build job s =
     (case hm_get (build_jobs s) job of
        None \<Rightarrow> Not_started
      | Some slot \<Rightarrow> (case build_slots s ! slot of None \<Rightarrow> Running | Some r \<Rightarrow> Done r))"

definition clear_build :: "string \<Rightarrow> build_state \<Rightarrow> build_state" where
  "clear_build job s = s\<lparr>build_jobs := hm_remove job (build_jobs s)\<rparr>"

subsection \<open>Statistics\<close>

type_synonym stats_cache = "(string, (f32 \<times> f32) \<times> nat) hmap"

definition STATS_TTL :: nat where
  "STATS_TTL = 15000"

definition container_stats_peek :: "nat \<Rightarrow> string \<Rightarrow> stats_cache \<Rightarrow> (f32 \<times> f32) result" where
  "container_stats_peek now i c =
     (case hm_get c i of
        Some (val, t0) \<Rightarrow> if now - t0 < STATS_TTL then Inr val else Inl ''stats not sampled yet''
      | None \<Rightarrow> Inl ''stats not sampled yet'')"

definition container_stats ::
  "(string \<Rightarrow> (f32 \<times> f32) result) \<Rightarrow> nat \<Rightarrow> nat \<Rightarrow> string \<Rightarrow> stats_cache \<Rightarrow> (f32 \<times> f32) result \<times> stats_cache" where
  "container_stats sample now after i c =
     (case container_stats_peek now i c of
        Inr val \<Rightarrow> (Inr val, c)
      | Inl _ \<Rightarrow> (sample i, case sample i of Inr v \<Rightarrow> hm_insert i (v, after) c | Inl _ \<Rightarrow> c))"

text \<open>The concurrent refresh: one sample per container, cached in the order the threads finish.\<close>

definition refresh_stats :: "(string \<Rightarrow> (f32 \<times> f32) result) \<Rightarrow> (string \<times> nat) list \<Rightarrow> stats_cache \<Rightarrow> stats_cache" where
  "refresh_stats sample finished c =
     fold (\<lambda>(i, t0) c. case sample i of Inr v \<Rightarrow> hm_insert i (v, t0) c | Inl _ \<Rightarrow> c) finished c"

text \<open>Which containers the sampler refreshes, by the first twelve bytes of their id.\<close>

definition sampled_ids :: "docker_container list \<Rightarrow> string rust list" where
  "sampled_ids cs =
     map (\<lambda>c. str_slice (dc_id c) 0 (min 12 (length (dc_id c))))
       (filter (\<lambda>c. dc_state c = ''running'' \<and> list_ex (\<lambda>n. str_contains n ''rk-'') (dc_names c)) cs)"

end
