(* ===== verification/Docker_Props.thy ===== *)
theory Docker_Props
  imports Docker_Client
begin

text \<open>
  What the Docker client does with what the engine sends: chunked replies are put together, captured streams
  are separated, log lines of 128 bytes and more are lost, and background builds do not mix.
\<close>

subsection \<open>Lemmas: chunked bodies\<close>

fun show_hex :: "nat \<Rightarrow> string" where
  "show_hex n = (if n < 16 then [hex_char n] else show_hex (n div 16) @ [hex_char (n mod 16)])"

declare show_hex.simps [simp del]

text \<open>What the engine sends as a chunked body: each piece with its length, then an empty one.\<close>

definition chunk :: "string \<Rightarrow> string" where
  "chunk c = show_hex (length c) @ CRLF @ c @ CRLF"

definition chunked :: "string list \<Rightarrow> string" where
  "chunked cs = concat (map chunk cs) @ ''0'' @ CRLF @ CRLF"

lemma hex_digits_val_append:
  "hex_digits_val acc (a @ b) = (case hex_digits_val acc a of None \<Rightarrow> None | Some n \<Rightarrow> hex_digits_val n b)"
  by (induction a arbitrary: acc) (auto split: option.splits)

lemma hex_digits_val_show: "hex_digits_val 0 (show_hex n) = Some n"
proof (induction n rule: show_hex.induct)
  case (1 n)
  then show ?case by (cases "n < 16") (simp_all add: show_hex.simps[of n] hex_digits_val_append)
qed

lemma show_hex_digits: "c \<in> set (show_hex n) \<Longrightarrow> hex_val c \<noteq> None"
proof (induction n rule: show_hex.induct)
  case (1 n)
  then show ?case by (cases "n < 16") (auto simp: show_hex.simps[of n])
qed

lemma show_hex_not_Nil [simp]: "show_hex n \<noteq> []"
  by (simp add: show_hex.simps[of n])

lemma hex_val_ascii: "hex_val c \<noteq> None \<Longrightarrow> byte_in 0 0x7F c"
  by (auto simp: hex_val_def byte_in_def Let_def split: if_splits)

lemma usize_from_hex_show: "n < 2 ^ 64 \<Longrightarrow> usize_from_hex (show_hex n) = Some n"
  using hex_digits_val_show[of n] show_hex_digits[of "CHR ''+''" n]
  by (cases "show_hex n") (auto simp: usize_from_hex_def hex_val_def)

lemma trim_show_hex [simp]: "trim (show_hex n) = show_hex n"
  by (rule trim_hex) (rule show_hex_digits)

lemma utf8_lossy_show_hex [simp]: "utf8_lossy (show_hex n) = show_hex n"
  by (intro utf8_lossy_valid utf8_valid_ascii hex_val_ascii) (rule show_hex_digits)

lemma str_find_first: "c \<notin> set a \<Longrightarrow> str_find (c # p) (a @ c # p @ b) = Some (length a)"
  by (induction a) (auto simp: starts_with_def)

lemma str_find_show_hex: "str_find CRLF (show_hex n @ CRLF @ b) = Some (length (show_hex n))"
  using str_find_first[of "CHR 0x0D" "show_hex n" "[CHR 0x0A]" b] show_hex_digits[of "CHR 0x0D" n]
  by (auto simp: hex_val_def)

lemma dechunk_step:
  assumes "c \<noteq> []" and "length (chunk c @ s) < 2 ^ 64"
  shows "dechunk_bytes (chunk c @ s) = rust_bind (dechunk_bytes s) (\<lambda>more. Ret (c @ more))"
proof -
  let ?h = "length (show_hex (length c))"
  have l: "length c < 2 ^ 64" using assms(2) by (simp add: chunk_def)
  have f: "str_find CRLF (chunk c @ s) = Some ?h" using str_find_show_hex[of "length c" "c @ CRLF @ s"] by (simp add: chunk_def)
  have t: "take ?h (chunk c @ s) = show_hex (length c)" by (simp add: chunk_def)
  have p: "take (length c) (drop (?h + 2) (chunk c @ s)) = c" by (simp add: chunk_def)
  have "length (chunk c) = ?h + 2 + length c + 2" by (simp add: chunk_def)
  then have d: "drop (?h + 2 + length c + 2) (chunk c @ s) = s" "?h + 2 + length c + 2 \<le> length (chunk c @ s)"
    by (metis append_eq_conv_conj) (simp add: chunk_def)
  have m: "min (?h + 2 + length c) (length (chunk c @ s)) = ?h + 2 + length c"
    using d(2) by simp
  have o: "\<not> 2 ^ 64 \<le> ?h + 2 + length c" using d(2) assms(2) by linarith
  have k: "?h + 2 + length c - (?h + 2) = length c" by simp
  show ?thesis
    unfolding dechunk_bytes.simps[of "chunk c @ s"] f option.case t utf8_lossy_show_hex trim_show_hex usize_from_hex_show[OF l] Let_def m k p d(1)
    using assms(1) o d(2) by simp
qed

lemma str_find_zero: "str_find CRLF (''0'' @ CRLF @ b) = Some 1"
  by (simp add: starts_with_def)

lemma show_hex_0: "show_hex 0 = ''0''"
  by code_simp

lemma size_zero: "usize_from_hex (trim ''0'') = Some 0"
  using usize_from_hex_show[of 0] trim_show_hex[of 0] unfolding show_hex_0 by simp

lemma lossy_zero: "utf8_lossy ''0'' = ''0''"
  using utf8_lossy_show_hex[of 0] unfolding show_hex_0 .

lemma dechunk_chunked:
  "\<forall>c \<in> set cs. c \<noteq> [] \<Longrightarrow> length (chunked cs) < 2 ^ 64 \<Longrightarrow> dechunk_bytes (chunked cs) = Ret (concat cs)"
proof (induction cs)
  case Nil
  then show ?case
    using str_find_zero[of CRLF] size_zero lossy_zero by (subst dechunk_bytes.simps) (simp add: chunked_def)
next
  case (Cons c cs)
  have e: "chunked (c # cs) = chunk c @ chunked cs" by (simp add: chunked_def)
  then show ?case using Cons dechunk_step[of c "chunked cs"] by simp
qed

lemma is_char_boundary_ascii: "byte_in 0 0x7F x \<Longrightarrow> is_char_boundary (a @ x # b) (length a)"
  by (simp add: is_char_boundary_def cont_byte_def byte_in_def Let_def)

lemma parse_chunked_step:
  assumes "c \<noteq> []" and "length c < 2 ^ 64"
  shows "parse_chunked acc (chunk c @ s) = parse_chunked (acc @ c) s"
proof -
  have "is_char_boundary (c @ CRLF @ s) (length c)"
    using is_char_boundary_ascii[of "CHR 0x0D" c "CHR 0x0A # s"] by (simp add: byte_in_def)
  then show ?thesis
    using assms str_find_show_hex[of "length c" "c @ CRLF @ s"]
    by (subst parse_chunked.simps) (simp add: chunk_def usize_from_hex_show Let_def strip_prefix_def starts_with_def)
qed

lemma parse_chunked_chunked:
  "\<forall>c \<in> set cs. c \<noteq> [] \<and> length c < 2 ^ 64 \<Longrightarrow> parse_chunked acc (chunked cs) = Ret (acc @ concat cs)"
proof (induction cs arbitrary: acc)
  case Nil
  then show ?case using str_find_zero[of CRLF] size_zero by (subst parse_chunked.simps) (simp add: chunked_def)
next
  case (Cons c cs)
  then show ?case using parse_chunked_step[of c acc "chunked cs"] by (simp add: chunked_def)
qed

lemma chunked_small: "length (chunked cs) < n \<Longrightarrow> c \<in> set cs \<Longrightarrow> length c < n"
  by (induction cs) (auto simp: chunked_def chunk_def)

subsection \<open>Lemmas: replies\<close>

lemma str_contains_ext: "str_contains a p \<Longrightarrow> str_contains (a @ b) p"
proof (induction a)
  case (Cons c a)
  have "starts_with ((c # a) @ b) p" if "starts_with (c # a) p"
    using that starts_with_append_left[of p "c # a" b] starts_with_length[OF that] by simp
  with Cons show ?case by auto
qed (cases b; simp add: starts_with_def)

lemma reply_plain:
  assumes "after_head head = Some []" and "utf8_valid (head @ body)"
    and "\<not> str_contains (head @ body) ''Transfer-Encoding: chunked''"
  shows "reply_body (head @ body) = Ret body"
  using assms after_head_append[OF assms(1), of body] by (simp add: reply_body_def utf8_lossy_valid)

lemma reply_chunked:
  assumes "after_head head = Some []" and "utf8_valid (head @ chunked cs)"
    and "str_contains head ''Transfer-Encoding: chunked''"
    and "\<forall>c \<in> set cs. c \<noteq> []" and "length (chunked cs) < 2 ^ 64"
  shows "reply_body (head @ chunked cs) = Ret (concat cs)"
proof -
  have "\<forall>c \<in> set cs. c \<noteq> [] \<and> length c < 2 ^ 64" using assms(4,5) chunked_small by blast
  then show ?thesis
    using assms after_head_append[OF assms(1), of "chunked cs"] str_contains_ext[OF assms(3), of "chunked cs"]
      parse_chunked_chunked[of cs "[]"]
    by (simp add: reply_body_def utf8_lossy_valid)
qed

lemma docker_request_reads:
  "exch st (http_request m p b) = (Reads cs End, st') \<Longrightarrow> reply_body (concat cs) = Ret s
    \<Longrightarrow> docker_request exch m p b st = (Ret (Inr s), st')"
  by (simp add: docker_request_def lift_rust_def)

subsection \<open>Lemmas: multiplexed output\<close>

abbreviation mux :: "(u8 \<times> string) list \<Rightarrow> string" where
  "mux fs \<equiv> concat (map (\<lambda>(ty, p). engine_frame ty p) fs)"

lemma engine_frame_parts:
  assumes "length p < 2 ^ 32"
  shows "be_val (take 4 (drop 4 (engine_frame ty p @ s))) = length p"
    and "drop 8 (engine_frame ty p @ s) = p @ s"
    and "drop (8 + length p) (engine_frame ty p @ s) = s"
    and "take 3 (drop 1 (engine_frame ty p @ s)) = replicate 3 (char_of (0 :: nat))"
proof -
  have "be_val (be_bytes 4 (length p)) = length p" using assms by (intro be_val_exact) simp
  then show "be_val (take 4 (drop 4 (engine_frame ty p @ s))) = length p"
    by (simp add: engine_frame_def numeral_3_eq_3)
  show e: "drop 8 (engine_frame ty p @ s) = p @ s" by (simp add: engine_frame_def numeral_3_eq_3)
  then show "drop (8 + length p) (engine_frame ty p @ s) = s" by (metis add.commute append_eq_conv_conj drop_drop)
qed (simp_all add: engine_frame_def numeral_3_eq_3)

lemma engine_frame_length: "length (engine_frame ty p) = 8 + length p"
  by (simp add: engine_frame_def)

lemma engine_frame_hd: "of_char ((engine_frame ty p @ s) ! 0) = ty"
  by (simp add: engine_frame_def)

lemma split_streams_mux:
  "\<forall>(ty, p) \<in> set fs. length p < 2 ^ 32
    \<Longrightarrow> split_streams (mux fs) = (concat (map snd (filter (\<lambda>f. fst f \<noteq> 2) fs)), concat (map snd (filter (\<lambda>f. fst f = 2) fs)))"
proof (induction fs)
  case (Cons f fs)
  obtain ty p where f: "f = (ty, p)" by (cases f)
  then have l: "length p < 2 ^ 32" using Cons.prems by auto
  note parts = engine_frame_parts[OF l, of ty "mux fs"]
  have "split_streams (engine_frame ty p @ mux fs) =
      (let (o', e') = split_streams (mux fs) in if ty = 2 then (o', p @ e') else (p @ o', e'))"
    unfolding split_streams.simps[of "engine_frame ty p @ mux fs"] Let_def parts engine_frame_hd
    by (simp add: engine_frame_length split_def)
  then show ?case using Cons f by simp
qed (simp add: split_streams.simps)

lemma clean_logs_mux:
  "\<forall>(ty, p) \<in> set fs. length p < 2 ^ 32 \<and> (ty = 1 \<or> ty = 2) \<and> utf8_valid p \<Longrightarrow> clean_logs (mux fs) = concat (map snd fs)"
proof (induction fs)
  case (Cons f fs)
  obtain ty p where f: "f = (ty, p)" by (cases f)
  then have l: "length p < 2 ^ 32" and ty: "ty = 1 \<or> ty = 2" and v: "utf8_valid p" using Cons.prems by auto
  note parts = engine_frame_parts[OF l, of ty "mux fs"]
  have "log_frame (engine_frame ty p @ mux fs) = Some (length p)"
    unfolding log_frame_def parts engine_frame_hd using ty by (simp add: engine_frame_length)
  then have "clean_logs (engine_frame ty p @ mux fs) = p @ clean_logs (mux fs)"
    unfolding clean_logs.simps[of "engine_frame ty p @ mux fs"] using parts(2,3) v engine_frame_length[of ty p]
    by (auto simp: utf8_or_empty_def simp del: drop_append)
  then show ?case using Cons f by simp
qed (simp add: clean_logs.simps)

subsection \<open>Lemmas: bytes that are not text\<close>

lemma utf8_lossy_ascii: "byte_in 0 0x7F c \<Longrightarrow> utf8_lossy (c # s) = c # utf8_lossy s"
  by (subst utf8_lossy.simps) (simp add: utf8_char_len_def)

lemma utf8_lossy_ascii_append: "\<forall>c \<in> set a. byte_in 0 0x7F c \<Longrightarrow> utf8_lossy (a @ b) = a @ utf8_lossy b"
  by (induction a) (simp_all add: utf8_lossy_ascii)

lemma utf8_lossy_bad_byte:
  assumes "\<not> byte_in 0 0x7F c" and "byte_in 0 0x7F x"
  shows "utf8_lossy (c # x # s) = [CHR 0xEF, CHR 0xBF, CHR 0xBD] @ utf8_lossy (x # s)"
proof -
  have x: "\<not> cont_byte x" "\<not> utf8_lead3 c x" "\<not> utf8_lead4 c x"
    using assms(2) by (auto simp: cont_byte_def utf8_lead3_def utf8_lead4_def byte_in_def Let_def split: if_splits)
  have "utf8_char_len (c # x # s) = 0"
    using assms(1) x by (cases s; cases "tl s") (auto simp: utf8_char_len_def)
  moreover have "utf8_bad (c # x # s) = 1" using x by (cases s) (simp_all add: utf8_bad_def)
  ultimately show ?thesis by (subst utf8_lossy.simps) simp
qed

lemma be_bytes_4_small: "n < 256 \<Longrightarrow> be_bytes 4 n = [char_of (0 :: nat), char_of (0 :: nat), char_of (0 :: nat), char_of n]"
proof -
  have "(4 :: nat) = Suc (Suc (Suc (Suc 0)))" by simp
  then have "le_bytes 4 n = [char_of (n mod 256), char_of (n div 256 mod 256), char_of (n div 256 div 256 mod 256),
      char_of (n div 256 div 256 div 256 mod 256)]" by (simp only: le_bytes.simps)
  then show "n < 256 \<Longrightarrow> ?thesis" by (simp add: be_bytes_def)
qed

abbreviation nul :: char where
  "nul \<equiv> char_of (0 :: nat)"

text \<open>A header whose length byte is not ASCII becomes one that announces 239 bytes starting with two stray bytes.\<close>

lemma lossy_frame:
  assumes "ty = 1 \<or> ty = 2" and "\<forall>c \<in> set p. byte_in 0 0x7F c" and "128 \<le> length p" "length p < 256"
  shows "utf8_lossy (engine_frame ty p) =
    [byte ty, nul, nul, nul, nul, nul, nul, CHR 0xEF, CHR 0xBF, CHR 0xBD] @ p"
proof -
  obtain x q where p: "p = x # q" using assms(3) by (cases p) auto
  have n: "\<not> byte_in 0 0x7F (char_of (length p))" using assms(3,4) by (simp add: byte_in_def)
  have h: "\<forall>c \<in> set [byte ty, nul, nul, nul, nul, nul, nul]. byte_in 0 0x7F c"
    using assms(1) by (auto simp: byte_in_def)
  have f: "engine_frame ty p = [byte ty, nul, nul, nul, nul, nul, nul] @ char_of (length p) # p"
    using assms(4) by (simp add: engine_frame_def be_bytes_4_small numeral_3_eq_3)
  have "utf8_lossy p = p" using assms(2) by (simp add: utf8_lossy_valid utf8_valid_ascii)
  then have "utf8_lossy (char_of (length p) # p) = [CHR 0xEF, CHR 0xBF, CHR 0xBD] @ p"
    using utf8_lossy_bad_byte[OF n, of x q] assms(2) p by simp
  then show ?thesis unfolding f utf8_lossy_ascii_append[OF h] by simp
qed

lemma stray_not_utf8: "\<not> utf8_valid (CHR 0xBF # s)"
  by (cases "CHR 0xBF # s" rule: utf8_valid.cases)
    (auto simp: byte_in_def utf8_lead3_def utf8_lead4_def)

lemma clean_logs_lossy_frame:
  assumes "ty = 1 \<or> ty = 2" and "\<forall>c \<in> set p. byte_in 0 0x7F c" and "128 \<le> length p" "length p \<le> 237"
  shows "clean_logs (utf8_lossy (engine_frame ty p)) = []"
proof -
  let ?s = "[byte ty, nul, nul, nul, nul, nul, nul, CHR 0xEF, CHR 0xBF, CHR 0xBD] @ p"
  have f: "log_frame ?s = Some 239"
    using assms(1) by (auto simp: log_frame_def be_val_def numeral_3_eq_3)
  have t: "take 239 (drop 8 ?s) = CHR 0xBF # CHR 0xBD # p" "drop (8 + 239) ?s = []"
    using assms(4) by simp_all
  have "clean_logs ?s = []"
    unfolding clean_logs.simps[of ?s] f option.case t using stray_not_utf8 by (simp add: utf8_or_empty_def clean_logs.simps)
  then show ?thesis using lossy_frame[OF assms(1-3)] assms(4) by simp
qed

subsection \<open>Properties\<close>


definition chunked_head :: string where
  "chunked_head = ''HTTP/1.1 200 OK'' @ CRLF @ ''Transfer-Encoding: chunked'' @ HEAD_END"


text \<open>
  Capturing a command's output separates its two streams exactly: whatever bytes the command writes, and
  whether or not the engine's connection is chunked, everything on the error stream and nothing else is in
  the second part, in order, and everything else in the first.
\<close>
theorem exec_capture_streams:
  assumes "after_head head = Some []" and "\<forall>(ty, p) \<in> set fs. length p < 2 ^ 32"
    and "raw = head @ mux fs \<and> \<not> contains_ci ''transfer-encoding: '' head
       \<or> raw = head @ chunked cs \<and> concat cs = mux fs \<and> contains_ci ''transfer-encoding: '' head
         \<and> [] \<notin> set cs \<and> length (chunked cs) < 2 ^ 64"
  shows "rust_bind (exec_payload raw) (\<lambda>p. Ret (split_streams p))
    = Ret (concat (map snd (filter (\<lambda>f. fst f \<noteq> 2) fs)), concat (map snd (filter (\<lambda>f. fst f = 2) fs)))"
proof -
  have "exec_payload raw = Ret (mux fs)"
    using assms(3)
  proof (elim disjE conjE)
    assume "raw = head @ mux fs" "\<not> contains_ci ''transfer-encoding: '' head"
    then show ?thesis using after_head_append[OF assms(1), of "mux fs"] by (simp add: exec_payload_def)
  next
    assume "raw = head @ chunked cs" "concat cs = mux fs" "contains_ci ''transfer-encoding: '' head"
      "[] \<notin> set cs" "length (chunked cs) < 2 ^ 64"
    moreover from this(4) have "\<forall>c \<in> set cs. c \<noteq> []" by auto
    ultimately show ?thesis
      using after_head_append[OF assms(1), of "chunked cs"] dechunk_chunked[of cs] by (simp add: exec_payload_def)
  qed
  then show ?thesis using split_streams_mux[OF assms(2)] by simp
qed

text \<open>
  The log reader loses lines of ordinary length: the reply is made text before the stream's frames are
  taken apart, a frame length of 128 or more is not valid text, and so a log that is one ASCII line of 128 to
  237 bytes is reported as empty.
\<close>
theorem get_logs_loses_lines:
  assumes "exch st (http_request ''GET'' (''/containers/'' @ i @ ''/logs?stdout=true&stderr=true&tail='' @ show_word tail) None)
      = (Reads [head @ engine_frame ty p] End, st')"
    and "after_head head = Some []" and "\<forall>c \<in> set (head @ p). byte_in 0 0x7F c"
    and "\<not> str_contains (utf8_lossy (head @ engine_frame ty p)) ''Transfer-Encoding: chunked''"
    and "ty = 1 \<or> ty = 2" and "128 \<le> length p" and "length p \<le> 237"
  shows "get_logs exch i tail st = (Ret (Inr []), st')"
proof -
  have "utf8_lossy (head @ engine_frame ty p) = head @ utf8_lossy (engine_frame ty p)"
    using assms(3) by (intro utf8_lossy_ascii_append) simp
  then have "reply_body (concat [head @ engine_frame ty p]) = Ret (utf8_lossy (engine_frame ty p))"
    using assms(4) after_head_append[OF assms(2)] by (simp add: reply_body_def)
  from docker_request_reads[of exch st, OF assms(1) this] show ?thesis
    using clean_logs_lossy_frame[OF assms(5) _ assms(6,7)] assms(3)
    by (simp add: get_logs_def try_call_def on_result_def call_ret_def)
qed

definition plain_head :: string where
  "plain_head = ''HTTP/1.1 200 OK'' @ HEAD_END"

lemma no_header_in_run: "\<not> str_contains (replicate n (CHR ''a'')) ''Transfer-Encoding: chunked''"
  by (induction n) (auto simp: starts_with_def)

subsection \<open>Background builds\<close>

text \<open>
  The table is consistent: keys are distinct, no two keys share a slot, every slot exists, and a slot is
  empty exactly while its thread runs.
\<close>

definition builds_ok :: "build_state \<Rightarrow> bool" where
  "builds_ok s =
     (hm_ok (build_jobs s) \<and> distinct (map snd (build_jobs s)) \<and> distinct (map fst (build_threads s))
      \<and> (\<forall>k \<in> snd ` set (build_jobs s). k < length (build_slots s))
      \<and> fst ` set (build_threads s) = {k. k < length (build_slots s) \<and> build_slots s ! k = None})"

datatype build_event = Start string build_input | Finish nat "string result" | Clear string

fun build_step :: "build_event \<Rightarrow> build_state \<Rightarrow> build_state" where
  "build_step (Start job b) s = start_build job b s"
| "build_step (Finish slot r) s = finish_build slot r s"
| "build_step (Clear job) s = clear_build job s"

definition no_builds :: build_state where
  "no_builds = \<lparr>build_jobs = [], build_slots = [], build_threads = []\<rparr>"

lemma no_builds_ok: "builds_ok no_builds"
  by (simp add: builds_ok_def no_builds_def)

lemma hm_insert_new: "\<not> hm_contains m k \<Longrightarrow> hm_insert k v m = m @ [(k, v)]"
  by (induction m) (auto simp: hm_contains_def hm_get_Cons split: if_splits)

lemma start_build_ok: "builds_ok s \<Longrightarrow> builds_ok (start_build job b s)"
proof (cases "hm_contains (build_jobs s) job")
  case False
  assume ok: "builds_ok s"
  have t: "fst ` set (build_threads s) = {k. k < length (build_slots s) \<and> build_slots s ! k = None}" using ok by (simp add: builds_ok_def)
  have "{k. k < Suc (length (build_slots s)) \<and> (build_slots s @ [None]) ! k = None}
      = insert (length (build_slots s)) {k. k < length (build_slots s) \<and> build_slots s ! k = None}"
    by (auto simp: nth_append less_Suc_eq)
  moreover have "length (build_slots s) \<notin> fst ` set (build_threads s)" unfolding t by simp
  moreover have "length (build_slots s) \<notin> snd ` set (build_jobs s)" using ok by (auto simp: builds_ok_def)
  moreover have "hm_ok (build_jobs s @ [(job, length (build_slots s))])"
    using ok False hm_ok_insert[of "build_jobs s" job "length (build_slots s)"] by (simp add: builds_ok_def hm_insert_new)
  ultimately show ?thesis
    using ok False t by (auto simp: start_build_def builds_ok_def hm_insert_new Let_def less_Suc_eq)
qed (simp add: start_build_def)

lemma finish_build_ok: "builds_ok s \<Longrightarrow> builds_ok (finish_build slot r s)"
proof -
  assume ok: "builds_ok s"
  have "fst ` set (filter (\<lambda>t. fst t \<noteq> slot) (build_threads s)) = fst ` set (build_threads s) - {slot}" by auto
  moreover have "{k. k < length (build_slots s) \<and> (build_slots s)[slot := Some r] ! k = None}
      = {k. k < length (build_slots s) \<and> build_slots s ! k = None} - {slot}"
    by (auto simp: nth_list_update split: if_splits) (metis option.distinct(1) nth_list_update_eq nth_list_update_neq)
  ultimately show ?thesis
    using ok by (auto simp: finish_build_def builds_ok_def distinct_map_filter)
qed

lemma clear_build_ok: "builds_ok s \<Longrightarrow> builds_ok (clear_build job s)"
  by (auto simp: clear_build_def builds_ok_def hm_remove_def intro: distinct_map_filter hm_ok_remove[unfolded hm_remove_def])

interpretation builds: state_op builds_ok build_step
proof
  show "builds_ok s \<Longrightarrow> builds_ok (build_step e s)" for e s
    by (cases e) (simp_all add: start_build_ok finish_build_ok clear_build_ok)
qed

lemma poll_finish:
  assumes "builds_ok s"
  shows "poll_build job (finish_build slot r s) =
    (if hm_get (build_jobs s) job = Some slot \<and> poll_build job s = Running then Done r else poll_build job s)"
proof (cases "hm_get (build_jobs s) job")
  case (Some k)
  then have "k < length (build_slots s)" using assms hm_get_Some_in[OF Some] by (force simp: builds_ok_def)
  moreover have "slot \<in> fst ` set (build_threads s) \<longleftrightarrow> slot < length (build_slots s) \<and> build_slots s ! slot = None"
    using assms by (simp add: builds_ok_def)
  ultimately show ?thesis using Some
    by (auto simp: poll_build_def finish_build_def nth_list_update split: option.splits)
qed (auto simp: poll_build_def finish_build_def)

lemma poll_start:
  assumes "builds_ok s"
  shows "poll_build j (start_build job b s) =
    (if j = job \<and> poll_build job s = Not_started then Running else poll_build j s)"
proof -
  have "k < length (build_slots s)" if "hm_get (build_jobs s) j = Some k" for k
    using assms hm_get_Some_in[OF that] by (force simp: builds_ok_def)
  then show ?thesis
    by (auto simp: poll_build_def start_build_def hm_contains_def Let_def nth_append split: option.splits)
qed

lemma build_job_laws:
  assumes "s = fold build_step es no_builds"
  shows "poll_build job s \<noteq> Not_started \<Longrightarrow> start_build job b s = s"
    and "poll_build j (start_build job b s) = (if j = job \<and> poll_build job s = Not_started then Running else poll_build j s)"
    and "poll_build j (finish_build slot r s) =
      (if hm_get (build_jobs s) j = Some slot \<and> poll_build j s = Running then Done r else poll_build j s)"
    and "hm_get (build_jobs s) job = Some slot
      \<Longrightarrow> poll_build job (finish_build slot r (start_build job b (clear_build job s))) = Running"
proof -
  have ok: "builds_ok s" unfolding assms by (rule builds.run_keeps) (rule no_builds_ok)
  then show "poll_build j (start_build job b s) = (if j = job \<and> poll_build job s = Not_started then Running else poll_build j s)"
    and "poll_build j (finish_build slot r s) =
      (if hm_get (build_jobs s) j = Some slot \<and> poll_build j s = Running then Done r else poll_build j s)"
    by (rule poll_start, rule poll_finish)
  show "poll_build job s \<noteq> Not_started \<Longrightarrow> start_build job b s = s"
    by (auto simp: poll_build_def start_build_def hm_contains_def split: option.splits)
  assume slot: "hm_get (build_jobs s) job = Some slot"
  then have "slot < length (build_slots s)" using ok hm_get_Some_in[OF slot] by (force simp: builds_ok_def)
  then have "hm_get (build_jobs (start_build job b (clear_build job s))) job \<noteq> Some slot"
    by (simp add: start_build_def clear_build_def hm_contains_def Let_def)
  moreover have "poll_build job (start_build job b (clear_build job s)) = Running"
    using poll_start[OF clear_build_ok[OF ok], of job job b] by (simp add: poll_build_def clear_build_def)
  ultimately show "poll_build job (finish_build slot r (start_build job b (clear_build job s))) = Running"
    using poll_finish[OF start_build_ok[OF clear_build_ok[OF ok]]] by simp
qed

definition sample_build :: build_input where
  "sample_build = \<lparr>bi_context = ''/src'', bi_dockerfile = ''Dockerfile'', bi_tag = ''app:1'', bi_args = []\<rparr>"

text \<open>
  Background builds do not mix: after any history of starts, ends and clears, starting a job that exists
  changes nothing, starting one that does not makes it running and leaves every other job as it was, the end
  of a thread is reported for the job that owns it and no other, and a build still under way when its job is
  cleared and started again never supplies the result of the new build.
\<close>
theorem build_jobs_isolated:
  assumes "s = fold build_step es no_builds"
  shows "(poll_build job s \<noteq> Not_started \<longrightarrow> start_build job b s = s)
    \<and> poll_build j (start_build job b s) = (if j = job \<and> poll_build job s = Not_started then Running else poll_build j s)
    \<and> poll_build j (finish_build slot r s) =
      (if hm_get (build_jobs s) j = Some slot \<and> poll_build j s = Running then Done r else poll_build j s)
    \<and> (hm_get (build_jobs s) job = Some slot
      \<longrightarrow> poll_build job (finish_build slot r (start_build job b (clear_build job s))) = Running)"
  using build_job_laws[OF assms] by blast

end
