(* ===== verification/State_Save.thy ===== *)
theory State_Save
  imports Json World_Ops Neural_State
begin

text \<open>
  Writing the cluster state, \<^verbatim>\<open>src/src/main.rs\<close>: the master key and the encryption of secret values at rest,
  the JSON document of \<open>save_state\<close> resource by resource, and the two files it goes into (the neural store
  and the JSON backup). AES-256-GCM, the printing of JSON text and the outcome of each file operation are
  parameters.
\<close>

subsection \<open>Secrets at rest\<close>

text \<open>AES-256-GCM: key, nonce and text to cipher text with its tag, and back.\<close>

record aes_gcm =
  aes_encrypt :: "string \<Rightarrow> string \<Rightarrow> string \<Rightarrow> string option"
  aes_decrypt :: "string \<Rightarrow> string \<Rightarrow> string \<Rightarrow> string option"

text \<open>\<open>for i in (0..s.len()).step_by(2)\<close>: the bytes of the pairs that are hexadecimal; the others are skipped.\<close>

fun hex_pairs :: "string \<Rightarrow> nat \<Rightarrow> nat \<Rightarrow> string rust" where
  "hex_pairs s i 0 = Ret []"
| "hex_pairs s i (Suc n) =
     rust_bind (str_slice s i (i + 2)) (\<lambda>h.
     rust_bind (hex_pairs s (i + 2) n) (\<lambda>bs.
       Ret (case u8_from_hex2 h of Some b \<Rightarrow> b # bs | None \<Rightarrow> bs)))"

definition hex_bytes :: "string \<Rightarrow> string rust" where
  "hex_bytes s = hex_pairs s 0 ((length s + 1) div 2)"

definition key_of_bytes :: "string \<Rightarrow> string" where
  "key_of_bytes bs = take 32 bs @ replicate (32 - length bs) (char_of (0 :: nat))"

text \<open>
  The environment variable, then the key file, then a fresh random key; the result also says what is left in
  the key file. \<open>written\<close> is the outcome of writing it.
\<close>

definition get_secret_key :: "string option \<Rightarrow> string option \<Rightarrow> string \<Rightarrow> bool \<Rightarrow> (string \<times> string option) rust" where
  "get_secret_key var file fresh written =
     (case var of
        Some key_hex \<Rightarrow> rust_bind (hex_bytes key_hex) (\<lambda>bs. Ret (key_of_bytes bs, file))
      | None \<Rightarrow>
          (case file of
             Some key_hex \<Rightarrow> rust_bind (hex_bytes (trim key_hex)) (\<lambda>bs. Ret (key_of_bytes bs, file))
           | None \<Rightarrow> Ret (fresh, if written then Some (hex_of_bytes fresh) else None)))"

definition encrypt_secret_value :: "aes_gcm \<Rightarrow> string \<Rightarrow> string \<Rightarrow> string \<Rightarrow> string" where
  "encrypt_secret_value A key nonce plaintext =
     (case aes_encrypt A key nonce plaintext of
        Some ct \<Rightarrow> ''enc:'' @ hex_of_bytes nonce @ hex_of_bytes ct
      | None \<Rightarrow> plaintext)"

definition decrypt_secret_value :: "aes_gcm \<Rightarrow> string \<Rightarrow> string \<Rightarrow> string rust" where
  "decrypt_secret_value A key stored =
     (if \<not> starts_with stored ''enc:'' then Ret stored
      else let hex = drop 4 stored
           in if length hex < 24 then Ret stored
              else rust_bind (hex_bytes hex) (\<lambda>bytes.
                if length bytes < 12 then Ret stored
                else Ret (case aes_decrypt A key (take 12 bytes) (drop 12 bytes) of
                            Some pt \<Rightarrow> if utf8_valid pt then pt else stored
                          | None \<Rightarrow> stored)))"

subsection \<open>JSON of optional values\<close>

definition j_opt :: "('a \<Rightarrow> json) \<Rightarrow> 'a option \<Rightarrow> json" where
  "j_opt f x = (case x of Some a \<Rightarrow> f a | None \<Rightarrow> JNull)"

abbreviation j_opt_str :: "string option \<Rightarrow> json" where "j_opt_str \<equiv> j_opt JStr"
abbreviation j_opt_u64 :: "u64 option \<Rightarrow> json" where "j_opt_u64 \<equiv> j_opt JPos"
abbreviation j_opt_u32 :: "u32 option \<Rightarrow> json" where "j_opt_u32 \<equiv> j_opt (\<lambda>n. JPos (ucast n))"
abbreviation j_opt_strs :: "string list option \<Rightarrow> json" where "j_opt_strs \<equiv> j_opt j_strs"
abbreviation j_list :: "('a \<Rightarrow> json) \<Rightarrow> 'a list \<Rightarrow> json" where "j_list f xs \<equiv> JArr (map f xs)"

subsection \<open>Workloads\<close>

definition save_probe :: "stored_probe \<Rightarrow> json" where
  "save_probe p =
     j_obj [(''httpGet'', j_opt (\<lambda>(path, port). JArr [JStr path, j_u16 port]) (pb_http_get p)),
            (''exec'', j_opt_strs (pb_exec p)), (''initialDelay'', JPos (pb_initial_delay_seconds p)),
            (''period'', JPos (pb_period_seconds p)), (''failureThreshold'', j_u32 (pb_failure_threshold p))]"

definition save_container :: "stored_container \<Rightarrow> json" where
  "save_container c =
     (let member = (\<lambda>k p. case p of Some p \<Rightarrow> [(k, save_probe p)] | None \<Rightarrow> [])
      in j_obj ([(''name'', JStr (sc_name c)), (''image'', JStr (sc_image c)), (''command'', j_opt_strs (sc_command c)),
                 (''env'', j_strs (sc_env c)),
                 (''volumes'', j_list (\<lambda>(h, p). j_obj [(''host'', JStr h), (''container'', JStr p)]) (sc_volumes c))]
                @ member ''livenessProbe'' (sc_liveness_probe c) @ member ''readinessProbe'' (sc_readiness_probe c)
                @ member ''startupProbe'' (sc_startup_probe c)))"

text \<open>The shorter form, of init containers, daemon sets, jobs and cron jobs.\<close>

definition save_plain_container :: "stored_container \<Rightarrow> json" where
  "save_plain_container c =
     j_obj [(''name'', JStr (sc_name c)), (''image'', JStr (sc_image c)), (''command'', j_opt_strs (sc_command c)),
            (''env'', j_strs (sc_env c))]"

definition save_limits :: "resource_limits \<Rightarrow> json" where
  "save_limits r =
     j_obj [(''cpuRequest'', j_opt j_f32 (rl_cpu_request r)), (''cpuLimit'', j_opt j_f32 (rl_cpu_limit r)),
            (''memRequest'', j_opt_u64 (rl_mem_request r)), (''memLimit'', j_opt_u64 (rl_mem_limit r))]"

fun save_strategy :: "deploy_strategy \<Rightarrow> json" where
  "save_strategy (RollingUpdate surge unavailable) =
     j_obj [(''type'', JStr ''RollingUpdate''), (''maxSurge'', j_u32 surge), (''maxUnavailable'', j_u32 unavailable)]"
| "save_strategy (Canary weight steps) = j_obj [(''type'', JStr ''Canary''), (''weight'', j_u32 weight)]"
| "save_strategy (BlueGreen active) = j_obj [(''type'', JStr ''BlueGreen''), (''active'', JStr active)]"

definition save_deployment :: "stored_deployment \<Rightarrow> json" where
  "save_deployment d =
     j_obj [(''name'', JStr (d_name d)), (''namespace'', JStr (d_namespace d)), (''replicas'', j_u32 (d_replicas d)),
            (''image'', JStr (d_image d)), (''previousImage'', j_opt_str (d_previous_image d)),
            (''command'', j_opt_strs (d_command d)), (''env'', j_strs (d_env d)), (''paused'', JBool (d_paused d)),
            (''pauseAfterIdle'', j_opt_u64 (d_pause_after_idle d)), (''stateful'', JBool (d_stateful d)),
            (''ownerRef'', j_opt_str (d_owner_ref d)), (''containers'', j_list save_container (d_containers d)),
            (''initContainers'', j_list save_plain_container (d_init_containers d)),
            (''resourceLimits'', j_opt save_limits (d_resource_limits d)),
            (''strategy'', j_opt save_strategy (d_strategy d))]"

definition save_daemonset :: "stored_daemonset \<Rightarrow> json" where
  "save_daemonset d =
     j_obj [(''name'', JStr (dst_name d)), (''namespace'', JStr (dst_namespace d)),
            (''container'', save_plain_container (dst_container d))]"

definition save_job :: "stored_job \<Rightarrow> json" where
  "save_job j =
     j_obj [(''name'', JStr (job_name j)), (''namespace'', JStr (job_namespace j)), (''completions'', j_u32 (job_completions j)),
            (''container'', save_plain_container (job_container j))]"

definition save_cronjob :: "stored_cronjob \<Rightarrow> json" where
  "save_cronjob c =
     j_obj [(''name'', JStr (cj_name c)), (''namespace'', JStr (cj_namespace c)), (''schedule'', JStr (cj_schedule c)),
            (''lastRun'', j_opt_u64 (cj_last_run c)), (''container'', save_plain_container (cj_container c))]"

definition save_hpa :: "stored_hpa \<Rightarrow> json" where
  "save_hpa h =
     j_obj [(''name'', JStr (hpa_name h)), (''deployment'', JStr (hpa_deployment h)), (''min'', j_u32 (hpa_min_replicas h)),
            (''max'', j_u32 (hpa_max_replicas h)), (''cpu'', j_f32 (hpa_target_cpu h))]"

subsection \<open>Networking and policy\<close>

definition save_service :: "stored_service \<Rightarrow> json" where
  "save_service s =
     j_obj [(''name'', JStr (svc_name s)), (''namespace'', JStr (svc_namespace s)), (''type'', JStr (svc_service_type s)),
            (''selector'', j_map (svc_selector s)),
            (''ports'', j_list (\<lambda>p. j_obj [(''port'', j_u16 (sp_port p)), (''targetPort'', j_u16 (sp_target_port p)),
                (''protocol'', JStr (sp_protocol p)), (''nodePort'', j_opt (\<lambda>n. j_u16 n) (sp_node_port p))]) (svc_ports s))]"

definition save_ingress :: "stored_ingress \<Rightarrow> json" where
  "save_ingress i =
     j_obj [(''name'', JStr (ig_name i)), (''namespace'', JStr (ig_namespace i)),
            (''ingressClassName'', j_opt_str (ig_ingress_class i)),
            (''rules'', j_list (\<lambda>r. j_obj [(''host'', JStr (ir_host r)),
                (''paths'', j_list (\<lambda>p. j_obj [(''path'', JStr (ip_path p)), (''service'', JStr (ip_service p)),
                    (''port'', j_u16 (ip_port p))]) (ir_paths r))]) (ig_rules i))]"

definition save_network_policy :: "stored_network_policy \<Rightarrow> json" where
  "save_network_policy n =
     j_obj [(''name'', JStr (np_name n)), (''namespace'', JStr (np_namespace n)), (''selector'', JStr (np_pod_selector n)),
            (''ingress_allow'', j_strs (np_ingress_allow n)), (''egress_allow'', j_strs (np_egress_allow n)),
            (''ingress_ports'', j_list (\<lambda>p. j_u16 p) (np_ingress_ports n)),
            (''egress_ports'', j_list (\<lambda>p. j_u16 p) (np_egress_ports n)), (''internal'', JBool (np_internal n)),
            (''mtls'', JBool (np_mtls_required n)), (''denyAll'', JBool (np_deny_all n))]"

definition save_quota :: "stored_resource_quota \<Rightarrow> json" where
  "save_quota q =
     j_obj [(''name'', JStr (q_name q)), (''namespace'', JStr (q_namespace q)), (''cpu'', j_opt j_f32 (q_hard_cpu q)),
            (''memory'', j_opt_u64 (q_hard_memory q)), (''pods'', j_opt_u32 (q_hard_pods q)),
            (''services'', j_opt_u32 (q_hard_services q)), (''configmaps'', j_opt_u32 (q_hard_configmaps q)),
            (''secrets'', j_opt_u32 (q_hard_secrets q))]"

definition save_role :: "rbac_role \<Rightarrow> json" where
  "save_role r =
     j_obj [(''name'', JStr (role_name r)),
            (''rules'', j_list (\<lambda>rule. j_obj [(''resources'', j_strs (rule_resources rule)), (''verbs'', j_strs (rule_verbs rule)),
                (''namespaces'', j_strs (rule_namespaces rule))]) (role_rules r))]"

definition save_guard :: "guard \<Rightarrow> json" where
  "save_guard g =
     j_obj [(''name'', JStr (gd_name g)),
            (''rules'', j_list (\<lambda>r. j_obj [(''when'', JStr (gr_when r)), (''action'', JStr (gr_action r)),
                (''params'', j_map (gr_params r))]) (gd_rules g)),
            (''hooks'', j_map (gd_hooks g))]"

definition save_operator :: "operator \<Rightarrow> json" where
  "save_operator p =
     j_obj [(''name'', JStr (op_name p)), (''customKind'', JStr (op_custom_kind p)),
            (''provision'', j_list (\<lambda>c. j_obj [(''role'', JStr (oc_role c)), (''image'', JStr (oc_image c)),
                (''replicas'', j_u32 (oc_replicas c)), (''env'', j_strs (oc_env c))]) (op_provision p)),
            (''hooks'', j_map (op_hooks p))]"

fun cr_status_name :: "cr_status \<Rightarrow> string" where
  "cr_status_name CRPending = ''Pending''"
| "cr_status_name CRProvisioning = ''Provisioning''"
| "cr_status_name CRRunning = ''Running''"
| "cr_status_name CRFailed = ''Failed''"

definition save_custom_resource :: "json custom_resource \<Rightarrow> json" where
  "save_custom_resource c =
     j_obj [(''name'', JStr (cr_name c)), (''kind'', JStr (cr_kind c)), (''namespace'', JStr (cr_namespace c)),
            (''spec'', cr_spec c), (''status'', JStr (cr_status_name (custom_resource.cr_status c)))]"

definition save_webhook :: "admission_webhook \<Rightarrow> json" where
  "save_webhook h =
     j_obj [(''name'', JStr (aw_name h)), (''url'', JStr (aw_url h)), (''kinds'', j_strs (aw_kinds h)),
            (''failurePolicy'', JStr (aw_failure_policy h))]"

subsection \<open>Data and storage\<close>

definition save_configmap :: "stored_configmap \<Rightarrow> json" where
  "save_configmap c =
     j_obj [(''name'', JStr (cm_name c)), (''namespace'', JStr (cm_namespace c)), (''data'', j_map (cm_data c))]"

text \<open>Every value is encrypted under its own random nonce: \<open>nonce s k\<close> is the one drawn for key \<open>k\<close> of secret \<open>s\<close>.\<close>

definition save_secret :: "aes_gcm \<Rightarrow> string \<Rightarrow> (string \<Rightarrow> string \<Rightarrow> string) \<Rightarrow> stored_secret \<Rightarrow> json" where
  "save_secret A key nonce s =
     j_obj [(''name'', JStr (se_name s)), (''namespace'', JStr (se_namespace s)),
            (''data'', j_map (hm_collect (map (\<lambda>(k, v). (k, encrypt_secret_value A key (nonce (se_name s) k) v)) (se_data s)))),
            (''encrypted'', JBool True)]"

fun pv_status_name :: "pv_status \<Rightarrow> string" where
  "pv_status_name PVAvailable = ''Available''"
| "pv_status_name PVBound = ''Bound''"
| "pv_status_name PVReleased = ''Released''"

definition save_pv :: "stored_pv \<Rightarrow> json" where
  "save_pv p =
     j_obj [(''name'', JStr (pv_name p)), (''capacity'', JStr (pv_capacity p)), (''class'', JStr (pv_storage_class p)),
            (''path'', JStr (pv_host_path p)), (''access'', JStr (pv_access_mode p)),
            (''status'', JStr (pv_status_name (stored_pv.pv_status p))), (''boundTo'', j_opt_str (pv_bound_to p))]"

definition save_pvc :: "stored_pvc \<Rightarrow> json" where
  "save_pvc p =
     j_obj [(''name'', JStr (pvc_name p)), (''namespace'', JStr (pvc_namespace p)), (''class'', JStr (pvc_storage_class p)),
            (''requested'', JStr (pvc_requested p)), (''access'', JStr (pvc_access_mode p)), (''bound'', j_opt_str (pvc_bound_pv p))]"

subsection \<open>Pipelines, functions, repositories\<close>

definition save_stage :: "stored_stage \<Rightarrow> json" where
  "save_stage s =
     j_obj [(''name'', JStr (sg_name s)), (''image'', j_opt_str (sg_image s)), (''command'', j_opt_strs (sg_command s)),
            (''action'', j_opt_str (sg_action s)), (''file'', j_opt_str (sg_file s)), (''artifacts'', j_strs (sg_artifacts s)),
            (''context'', j_opt_str (sg_context s)), (''dockerfile'', j_opt_str (sg_dockerfile s)), (''tag'', j_opt_str (sg_tag s)),
            (''args'', j_list (\<lambda>(k, v). j_obj [(''name'', JStr k), (''value'', JStr v)]) (sg_build_args s)),
            (''dependsOn'', j_opt_str (sg_depends_on s)), (''env'', j_strs (sg_env s)), (''if'', j_opt_str (sg_if_condition s)),
            (''matrixImages'', j_strs (sg_matrix_images s))]"

definition save_pipeline :: "stored_pipeline \<Rightarrow> json" where
  "save_pipeline p =
     j_obj [(''name'', JStr (pl_name p)),
            (''triggers'', j_list (\<lambda>t. j_obj [(''type'', JStr (tr_trigger_type t)), (''path'', j_opt_str (tr_path t))]) (pl_triggers p)),
            (''stages'', j_list save_stage (pl_stages p))]"

definition save_config :: "stored_config \<Rightarrow> json" where
  "save_config c =
     j_obj [(''llm'', j_obj [(''host'', JStr (cfg_llm_host c)), (''model'', JStr (cfg_llm_model c)),
                (''temperature'', j_f32 (cfg_llm_temperature c))]),
            (''alerts'', j_obj [(''webhook'', j_opt_str (cfg_alert_webhook c)), (''onAnomaly'', JBool (cfg_alert_on_anomaly c)),
                (''onRestart'', JBool (cfg_alert_on_restart c))]),
            (''runtime'', JStr (cfg_runtime c)),
            (''pause'', j_obj [(''defaultIdle'', JPos (cfg_pause_default_idle c)), (''enabled'', JBool (cfg_pause_enabled c))]),
            (''api'', j_obj [(''port'', j_u16 (cfg_api_port c))])]"

definition save_function :: "stored_function \<Rightarrow> json" where
  "save_function f =
     j_obj [(''name'', JStr (fn_name f)), (''image'', JStr (fn_image f)), (''command'', j_opt_strs (fn_command f)),
            (''httpTriggers'', j_strs (fn_http_triggers f)), (''webhookTriggers'', j_strs (fn_webhook_triggers f)),
            (''scheduleTriggers'', j_strs (fn_schedule_triggers f)), (''timeout'', JPos (fn_timeout_secs f)),
            (''memory'', j_u32 (fn_memory_mb f)), (''invocations'', JPos (fn_invocations f)), (''code'', j_opt_str (fn_code f))]"

definition save_repository :: "stored_repository \<Rightarrow> json" where
  "save_repository r =
     j_obj [(''name'', JStr (repo_name r)), (''url'', j_opt_str (repo_url r)), (''path'', j_opt_str (repo_path r)),
            (''branch'', JStr (repo_branch r)), (''secretRef'', j_opt_str (repo_secret_ref r)),
            (''pipeline'', j_opt_str (repo_pipeline r)), (''lastCommit'', j_opt_str (repo_last_commit r))]"

fun node_status_name :: "node_status \<Rightarrow> string" where
  "node_status_name NodeReady = ''Ready''"
| "node_status_name NodeNotReady = ''NotReady''"
| "node_status_name NodeDraining = ''Draining''"

definition save_node :: "cluster_node \<Rightarrow> json" where
  "save_node n =
     j_obj [(''name'', JStr (cn_name n)), (''address'', JStr (cn_address n)), (''status'', JStr (node_status_name (cn_status n))),
            (''cpuCapacity'', j_f32 (cn_cpu_capacity n)), (''memCapacity'', j_f32 (cn_mem_capacity n)),
            (''cpuUsed'', j_f32 (cn_cpu_used n)), (''memUsed'', j_f32 (cn_mem_used n)),
            (''podCount'', j_u32 (cn_pod_count n)), (''joinedAt'', JPos (cn_joined_at n))]"

subsection \<open>The document\<close>

definition STATE_SCHEMA_VERSION :: u32 where
  "STATE_SCHEMA_VERSION = 1"

definition save_doc :: "aes_gcm \<Rightarrow> string \<Rightarrow> (string \<Rightarrow> string \<Rightarrow> string) \<Rightarrow> json desired_world \<Rightarrow> json" where
  "save_doc A key nonce w =
     j_obj [(''schemaVersion'', j_u32 STATE_SCHEMA_VERSION), (''manifests'', JObj (bt_collect (manifests w))),
            (''namespaces'', j_strs (namespaces w)), (''deployments'', j_list save_deployment (hm_values (deployments w))),
            (''daemonsets'', j_list save_daemonset (hm_values (daemonsets w))), (''jobs'', j_list save_job (hm_values (jobs w))),
            (''cronjobs'', j_list save_cronjob (hm_values (cronjobs w))), (''hpas'', j_list save_hpa (hm_values (hpas w))),
            (''services'', j_list save_service (hm_values (services w))),
            (''ingresses'', j_list save_ingress (hm_values (ingresses w))),
            (''network_policies'', j_list save_network_policy (hm_values (network_policies w))),
            (''resource_quotas'', j_list save_quota (hm_values (resource_quotas w))),
            (''configmaps'', j_list save_configmap (hm_values (configmaps w))),
            (''secrets'', j_list (save_secret A key nonce) (hm_values (secrets w))),
            (''pvs'', j_list save_pv (hm_values (pvs w))), (''pvcs'', j_list save_pvc (hm_values (pvcs w))),
            (''pipelines'', j_list save_pipeline (hm_values (pipelines w))), (''config'', save_config (config w)),
            (''functions'', j_list save_function (hm_values (w_functions w))),
            (''repositories'', j_list save_repository (hm_values (repositories w))),
            (''nodes'', j_list save_node (hm_values (nodes w))), (''rbac_roles'', j_list save_role (hm_values (rbac_roles w))),
            (''guards'', j_list save_guard (hm_values (guards w))), (''operators'', j_list save_operator (hm_values (operators w))),
            (''custom_resources'', j_list save_custom_resource (hm_values (custom_resources w))),
            (''admission_webhooks'', j_list save_webhook (hm_values (admission_webhooks w)))]"

subsection \<open>The files\<close>

text \<open>JSON text: the compact and the pretty printer, and the parser.\<close>

record serde_text =
  st_print :: "json \<Rightarrow> string"
  st_pretty :: "json \<Rightarrow> string"
  st_parse :: "string \<Rightarrow> json option"

text \<open>The entries of the neural store beside the full text: one for each named item of each section.\<close>

definition neural_items :: "serde_text \<Rightarrow> json \<Rightarrow> (string \<times> string) list" where
  "neural_items T doc =
     concat (map (\<lambda>(section, v). filter_map (\<lambda>item. map_option (\<lambda>name.
          (section @ ''/'' @ unwrap_or (jstr (jat item ''namespace'')) ''default'' @ ''/'' @ name, st_print T item))
          (jstr (jat item ''name''))) (unwrap_or (jarr v) []))
       (unwrap_or (jobj doc) []))"

definition neural_of :: "serde_text \<Rightarrow> (string \<Rightarrow> nat \<Rightarrow> u32 list) \<Rightarrow> json \<Rightarrow> neural_state rust" where
  "neural_of T emb doc =
     fold (\<lambda>(k, v) s. rust_bind s (ns_set emb k v)) ((''_full'', st_pretty T doc) # neural_items T doc) (Ret ns_new)"

text \<open>The files of the state, and the outcomes of the operations on them.\<close>

record state_files =
  sf_neural :: "string option"
  sf_json :: "string option"

record disk =
  dk_neural :: bool
  dk_tmp :: bool
  dk_rename :: bool
  dk_direct :: "string option \<Rightarrow> string \<Rightarrow> string option"

text \<open>
  \<open>save_state\<close>: the neural file is replaced when its own save succeeds; the backup goes through a temporary
  file and a rename, and directly when that fails (\<open>dk_direct\<close> is what a direct write leaves behind).
\<close>

definition write_backup :: "disk \<Rightarrow> string \<Rightarrow> string option \<Rightarrow> string option" where
  "write_backup D text old = (if dk_tmp D \<and> dk_rename D then Some text else dk_direct D old text)"

definition save_state ::
  "serde_text \<Rightarrow> (string \<Rightarrow> nat \<Rightarrow> u32 list) \<Rightarrow> aes_gcm \<Rightarrow> string \<Rightarrow> (string \<Rightarrow> string \<Rightarrow> string) \<Rightarrow> disk
   \<Rightarrow> json desired_world \<Rightarrow> state_files \<Rightarrow> state_files rust" where
  "save_state T emb A key nonce D w f =
     (let doc = save_doc A key nonce w
      in rust_bind (neural_of T emb doc) (\<lambda>ns.
           Ret (f\<lparr>sf_neural := if dk_neural D then Some (ns_save ns) else sf_neural f,
                  sf_json := write_backup D (st_pretty T doc) (sf_json f)\<rparr>)))"

end
