(* ===== verification/State_Load.thy ===== *)
theory State_Load
  imports State_Save
begin

text \<open>
  Reading the cluster state back, \<^verbatim>\<open>src/src/main.rs\<close>: \<open>load_state\<close> section by section over the JSON document,
  with the choice between the neural store and the JSON backup and the check of the schema version. The
  places that index a list without a check, or slice a string, panic as the code does.
\<close>

subsection \<open>Accessors\<close>

definition jstrs :: "json \<Rightarrow> string list option" where
  "jstrs v = map_option (filter_map jstr) (jarr v)"

definition jstrs_or :: "json \<Rightarrow> string list" where
  "jstrs_or v = unwrap_or (jstrs v) []"

abbreviation jstr_or :: "json \<Rightarrow> string \<Rightarrow> string" where "jstr_or v d \<equiv> unwrap_or (jstr v) d"
abbreviation ju64_or :: "json \<Rightarrow> u64 \<Rightarrow> u64" where "ju64_or v d \<equiv> unwrap_or (ju64 v) d"
abbreviation jbool_or :: "json \<Rightarrow> bool \<Rightarrow> bool" where "jbool_or v d \<equiv> unwrap_or (jbool v) d"
abbreviation jarr_or :: "json \<Rightarrow> json list" where "jarr_or v \<equiv> unwrap_or (jarr v) []"

definition jf32 :: "json \<Rightarrow> f32 option" where
  "jf32 v = map_option f64_to_f32 (jf64 v)"

text \<open>String members of an object, as a hash map.\<close>

definition jstr_map :: "json \<Rightarrow> (string, string) hmap" where
  "jstr_map v =
     hm_collect (filter_map (\<lambda>(k, x). map_option (\<lambda>s. (k, s)) (jstr x)) (unwrap_or (jobj v) []))"

text \<open>\<open>v.get(k)\<close> when it is there and not null.\<close>

definition jpresent :: "json \<Rightarrow> string \<Rightarrow> json option" where
  "jpresent v k = (case jget v k of Some x \<Rightarrow> if x = JNull then None else Some x | None \<Rightarrow> None)"

fun rust_all :: "('a \<Rightarrow> 'b rust) \<Rightarrow> 'a list \<Rightarrow> 'b list rust" where
  "rust_all f [] = Ret []"
| "rust_all f (x # xs) = rust_bind (f x) (\<lambda>y. rust_bind (rust_all f xs) (\<lambda>ys. Ret (y # ys)))"

definition rust_opt :: "('a \<Rightarrow> 'b rust) \<Rightarrow> 'a option \<Rightarrow> 'b option rust" where
  "rust_opt f x = (case x of None \<Rightarrow> Ret None | Some a \<Rightarrow> rust_bind (f a) (\<lambda>b. Ret (Some b)))"

subsection \<open>Workloads\<close>

text \<open>\<open>a[0].as_str()?\<close>, then \<open>a[1].as_u64()?\<close>: an index past the end panics.\<close>

definition load_http_get :: "json \<Rightarrow> (string \<times> u16) option rust" where
  "load_http_get v =
     (case jarr v of
        None \<Rightarrow> Ret None
      | Some [] \<Rightarrow> Panic
      | Some (a # as) \<Rightarrow>
          (case jstr a of
             None \<Rightarrow> Ret None
           | Some path \<Rightarrow>
               (case as of
                  [] \<Rightarrow> Panic
                | b # _ \<Rightarrow> Ret (map_option (\<lambda>p. (path, ucast p)) (ju64 b)))))"

definition load_probe :: "json \<Rightarrow> stored_probe rust" where
  "load_probe p =
     rust_bind (load_http_get (jat p ''httpGet'')) (\<lambda>h.
       Ret \<lparr>pb_http_get = h, pb_exec = jstrs (jat p ''exec''), pb_initial_delay_seconds = ju64_or (jat p ''initialDelay'') 5,
            pb_period_seconds = ju64_or (jat p ''period'') 10,
            pb_failure_threshold = ucast (ju64_or (jat p ''failureThreshold'') 3)\<rparr>)"

definition load_container :: "json \<Rightarrow> stored_container rust" where
  "load_container c =
     rust_bind (rust_opt load_probe (jpresent c ''livenessProbe'')) (\<lambda>lp.
     rust_bind (rust_opt load_probe (jpresent c ''readinessProbe'')) (\<lambda>rp.
     rust_bind (rust_opt load_probe (jpresent c ''startupProbe'')) (\<lambda>sp.
       Ret \<lparr>sc_name = jstr_or (jat c ''name'') [], sc_image = jstr_or (jat c ''image'') [], sc_command = jstrs (jat c ''command''),
            sc_env = jstrs_or (jat c ''env''), sc_env_from_configmaps = jstrs_or (jat c ''envFromConfigmaps''),
            sc_env_from_secrets = jstrs_or (jat c ''envFromSecrets''),
            sc_volumes = filter_map (\<lambda>v. Option.bind (jstr (jat v ''host'')) (\<lambda>h. map_option (\<lambda>p. (h, p)) (jstr (jat v ''container''))))
                           (jarr_or (jat c ''volumes'')),
            sc_liveness_probe = lp, sc_readiness_probe = rp, sc_startup_probe = sp\<rparr>)))"

definition load_limits :: "json \<Rightarrow> resource_limits" where
  "load_limits r =
     \<lparr>rl_cpu_request = jf32 (jat r ''cpuRequest''), rl_cpu_limit = jf32 (jat r ''cpuLimit''),
      rl_mem_request = ju64 (jat r ''memRequest''), rl_mem_limit = ju64 (jat r ''memLimit'')\<rparr>"

definition load_strategy :: "json \<Rightarrow> deploy_strategy option" where
  "load_strategy s =
     (let ty = jstr_or (jat s ''type'') []
      in if ty = ''Canary'' then Some (Canary (ucast (ju64_or (jat s ''weight'') 10)) [])
         else if ty = ''BlueGreen'' then Some (BlueGreen (jstr_or (jat s ''active'') ''green''))
         else if ty = ''RollingUpdate''
              then Some (RollingUpdate (ucast (ju64_or (jat s ''maxSurge'') 1)) (ucast (ju64_or (jat s ''maxUnavailable'') 0)))
         else None)"

definition load_deployment :: "json \<Rightarrow> stored_deployment rust" where
  "load_deployment item =
     rust_bind (rust_all load_container (jarr_or (jat item ''initContainers''))) (\<lambda>ics.
     rust_bind (case jarr (jat item ''containers'') of
                  Some cs \<Rightarrow> rust_all load_container cs
                | None \<Rightarrow> rust_all load_container
                    [j_obj [(''name'', JStr ''main''), (''image'', JStr (jstr_or (jat item ''image'') [])),
                            (''command'', jat item ''command''), (''env'', jat item ''env'')]]) (\<lambda>cs.
       Ret \<lparr>d_name = jstr_or (jat item ''name'') [], d_namespace = jstr_or (jat item ''namespace'') ''default'',
            d_replicas = ucast (ju64_or (jat item ''replicas'') 1), d_init_containers = ics, d_containers = cs,
            d_image = jstr_or (jat item ''image'') [], d_previous_image = jstr (jat item ''previousImage''),
            d_command = jstrs (jat item ''command''), d_env = jstrs_or (jat item ''env''),
            d_resource_limits = map_option load_limits (jpresent item ''resourceLimits''),
            d_strategy = Option.bind (jpresent item ''strategy'') load_strategy,
            d_pause_after_idle = ju64 (jat item ''pauseAfterIdle''), d_paused = jbool_or (jat item ''paused'') False,
            d_idle_since = None, d_stateful = jbool_or (jat item ''stateful'') False,
            d_owner_ref = jstr (jat item ''ownerRef'')\<rparr>))"

text \<open>The container of a daemon set, a job or a cron job.\<close>

definition load_plain_container :: "json \<Rightarrow> stored_container" where
  "load_plain_container c =
     \<lparr>sc_name = jstr_or (jat c ''name'') ''main'', sc_image = jstr_or (jat c ''image'') [], sc_command = jstrs (jat c ''command''),
      sc_env = jstrs_or (jat c ''env''), sc_env_from_configmaps = [], sc_env_from_secrets = [], sc_volumes = [],
      sc_liveness_probe = None, sc_readiness_probe = None, sc_startup_probe = None\<rparr>"

definition load_daemonset :: "json \<Rightarrow> stored_daemonset" where
  "load_daemonset item =
     \<lparr>dst_name = jstr_or (jat item ''name'') [], dst_namespace = jstr_or (jat item ''namespace'') ''default'',
      dst_container = load_plain_container (jat item ''container'')\<rparr>"

definition load_job :: "json \<Rightarrow> stored_job" where
  "load_job item =
     \<lparr>job_name = jstr_or (jat item ''name'') [], job_namespace = jstr_or (jat item ''namespace'') ''default'',
      job_container = load_plain_container (jat item ''container''), job_completions = ucast (ju64_or (jat item ''completions'') 1),
      job_status = JobPending\<rparr>"

definition load_cronjob :: "json \<Rightarrow> stored_cronjob" where
  "load_cronjob item =
     \<lparr>cj_name = jstr_or (jat item ''name'') [], cj_namespace = jstr_or (jat item ''namespace'') ''default'',
      cj_schedule = jstr_or (jat item ''schedule'') [], cj_container = load_plain_container (jat item ''container''),
      cj_last_run = ju64 (jat item ''lastRun'')\<rparr>"

definition load_hpa :: "json \<Rightarrow> stored_hpa" where
  "load_hpa item =
     \<lparr>hpa_name = jstr_or (jat item ''name'') [], hpa_deployment = jstr_or (jat item ''deployment'') [],
      hpa_min_replicas = ucast (ju64_or (jat item ''min'') 1), hpa_max_replicas = ucast (ju64_or (jat item ''max'') 10),
      hpa_target_cpu = unwrap_or (jf32 (jat item ''cpu'')) (f32_of_nat 70), hpa_history = [], hpa_last_scaled = None\<rparr>"

subsection \<open>Networking and policy\<close>

definition load_service :: "json \<Rightarrow> stored_service" where
  "load_service item =
     \<lparr>svc_name = jstr_or (jat item ''name'') [], svc_namespace = jstr_or (jat item ''namespace'') ''default'',
      svc_selector = jstr_map (jat item ''selector''),
      svc_ports = map (\<lambda>p. \<lparr>sp_port = ucast (ju64_or (jat p ''port'') 80), sp_target_port = ucast (ju64_or (jat p ''targetPort'') 80),
          sp_protocol = jstr_or (jat p ''protocol'') ''TCP'', sp_node_port = map_option ucast (ju64 (jat p ''nodePort''))\<rparr>)
        (jarr_or (jat item ''ports'')),
      svc_service_type = jstr_or (jat item ''type'') ''ClusterIP''\<rparr>"

definition load_ingress :: "json \<Rightarrow> stored_ingress" where
  "load_ingress item =
     \<lparr>ig_name = jstr_or (jat item ''name'') [], ig_namespace = jstr_or (jat item ''namespace'') ''default'',
      ig_rules = map (\<lambda>r. \<lparr>ir_host = jstr_or (jat r ''host'') ''*'',
          ir_paths = map (\<lambda>p. \<lparr>ip_path = jstr_or (jat p ''path'') ''/'', ip_service = jstr_or (jat p ''service'') [],
              ip_port = ucast (ju64_or (jat p ''port'') 80)\<rparr>) (jarr_or (jat r ''paths''))\<rparr>) (jarr_or (jat item ''rules'')),
      ig_ingress_class = jstr (jat item ''ingressClassName'')\<rparr>"

definition jports :: "json \<Rightarrow> u16 list" where
  "jports v = filter_map (\<lambda>x. map_option ucast (ju64 x)) (jarr_or v)"

definition load_network_policy :: "json \<Rightarrow> stored_network_policy" where
  "load_network_policy item =
     \<lparr>np_name = jstr_or (jat item ''name'') [], np_namespace = jstr_or (jat item ''namespace'') ''default'',
      np_pod_selector = jstr_or (jat item ''selector'') ''*'', np_ingress_allow = jstrs_or (jat item ''ingress_allow''),
      np_egress_allow = jstrs_or (jat item ''egress_allow''), np_ingress_ports = jports (jat item ''ingress_ports''),
      np_egress_ports = jports (jat item ''egress_ports''), np_internal = jbool_or (jat item ''internal'') False,
      np_mtls_required = jbool_or (jat item ''mtls'') False, np_deny_all = jbool_or (jat item ''denyAll'') False\<rparr>"

definition load_quota :: "json \<Rightarrow> stored_resource_quota" where
  "load_quota item =
     \<lparr>q_name = jstr_or (jat item ''name'') [], q_namespace = jstr_or (jat item ''namespace'') ''default'',
      q_hard_cpu = jf32 (jat item ''cpu''), q_hard_memory = ju64 (jat item ''memory''),
      q_hard_pods = map_option ucast (ju64 (jat item ''pods'')), q_hard_services = map_option ucast (ju64 (jat item ''services'')),
      q_hard_configmaps = map_option ucast (ju64 (jat item ''configmaps'')),
      q_hard_secrets = map_option ucast (ju64 (jat item ''secrets''))\<rparr>"

definition load_role :: "json \<Rightarrow> rbac_role" where
  "load_role item =
     \<lparr>role_name = jstr_or (jat item ''name'') [],
      role_rules = map (\<lambda>r. let strs = (\<lambda>k. unwrap_or (jstrs (jat r k)) [''*''])
          in \<lparr>rule_resources = strs ''resources'', rule_verbs = strs ''verbs'', rule_namespaces = strs ''namespaces''\<rparr>)
        (jarr_or (jat item ''rules''))\<rparr>"

definition load_guard :: "json \<Rightarrow> guard" where
  "load_guard item =
     \<lparr>gd_name = jstr_or (jat item ''name'') [],
      gd_rules = map (\<lambda>r. \<lparr>gr_when = jstr_or (jat r ''when'') [], gr_action = jstr_or (jat r ''action'') [],
          gr_params = jstr_map (jat r ''params'')\<rparr>) (jarr_or (jat item ''rules'')),
      gd_hooks = jstr_map (jat item ''hooks'')\<rparr>"

definition load_operator :: "json \<Rightarrow> operator" where
  "load_operator item =
     \<lparr>op_name = jstr_or (jat item ''name'') [], op_custom_kind = jstr_or (jat item ''customKind'') [],
      op_provision = map (\<lambda>c. \<lparr>oc_role = jstr_or (jat c ''role'') [], oc_image = jstr_or (jat c ''image'') [],
          oc_replicas = ucast (ju64_or (jat c ''replicas'') 1), oc_env = jstrs_or (jat c ''env''), oc_volumes = [], oc_ports = []\<rparr>)
        (jarr_or (jat item ''provision'')),
      op_hooks = jstr_map (jat item ''hooks''), op_rules = []\<rparr>"

definition load_custom_resource :: "json \<Rightarrow> json custom_resource" where
  "load_custom_resource item =
     (let s = jstr_or (jat item ''status'') ''Pending''
      in \<lparr>cr_name = jstr_or (jat item ''name'') [], cr_kind = jstr_or (jat item ''kind'') [],
          cr_namespace = jstr_or (jat item ''namespace'') ''default'', cr_spec = jat item ''spec'',
          cr_status = (if s = ''Provisioning'' then CRProvisioning else if s = ''Running'' then CRRunning
                       else if s = ''Failed'' then CRFailed else CRPending)\<rparr>)"

definition load_webhook :: "json \<Rightarrow> admission_webhook" where
  "load_webhook item =
     \<lparr>aw_name = jstr_or (jat item ''name'') [], aw_url = jstr_or (jat item ''url'') [], aw_kinds = jstrs_or (jat item ''kinds''),
      aw_failure_policy = jstr_or (jat item ''failurePolicy'') ''Fail''\<rparr>"

subsection \<open>Data and storage\<close>

definition load_configmap :: "json \<Rightarrow> stored_configmap" where
  "load_configmap item =
     \<lparr>cm_name = jstr_or (jat item ''name'') [], cm_namespace = jstr_or (jat item ''namespace'') ''default'',
      cm_data = jstr_map (jat item ''data'')\<rparr>"

definition load_secret :: "aes_gcm \<Rightarrow> string \<Rightarrow> json \<Rightarrow> stored_secret rust" where
  "load_secret A key item =
     (let enc = jbool_or (jat item ''encrypted'') False
      in rust_bind (rust_all (\<lambda>(k, v). if enc then rust_bind (decrypt_secret_value A key v) (\<lambda>p. Ret (k, p)) else Ret (k, v))
           (filter_map (\<lambda>(k, x). map_option (\<lambda>s. (k, s)) (jstr x)) (unwrap_or (jobj (jat item ''data'')) []))) (\<lambda>kvs.
         Ret \<lparr>se_name = jstr_or (jat item ''name'') [], se_namespace = jstr_or (jat item ''namespace'') ''default'',
              se_data = hm_collect kvs\<rparr>))"

definition load_pv :: "json \<Rightarrow> stored_pv" where
  "load_pv item =
     (let s = jstr_or (jat item ''status'') ''Available''
      in \<lparr>pv_name = jstr_or (jat item ''name'') [], pv_capacity = jstr_or (jat item ''capacity'') ''1Gi'',
          pv_storage_class = jstr_or (jat item ''class'') ''local'', pv_host_path = jstr_or (jat item ''path'') ''/data'',
          pv_access_mode = jstr_or (jat item ''access'') ''ReadWriteOnce'',
          pv_status = (if s = ''Bound'' then PVBound else if s = ''Released'' then PVReleased else PVAvailable),
          pv_bound_to = jstr (jat item ''boundTo'')\<rparr>)"

definition load_pvc :: "json \<Rightarrow> stored_pvc" where
  "load_pvc item =
     \<lparr>pvc_name = jstr_or (jat item ''name'') [], pvc_namespace = jstr_or (jat item ''namespace'') ''default'',
      pvc_storage_class = jstr_or (jat item ''class'') ''local'', pvc_requested = jstr_or (jat item ''requested'') ''1Gi'',
      pvc_access_mode = jstr_or (jat item ''access'') ''ReadWriteOnce'', pvc_bound_pv = jstr (jat item ''bound'')\<rparr>"

subsection \<open>Pipelines, configuration, functions, repositories, nodes\<close>

definition load_stage :: "json \<Rightarrow> stored_stage" where
  "load_stage s =
     \<lparr>sg_name = jstr_or (jat s ''name'') [], sg_image = jstr (jat s ''image''), sg_command = jstrs (jat s ''command''),
      sg_action = jstr (jat s ''action''), sg_file = jstr (jat s ''file''), sg_context = jstr (jat s ''context''),
      sg_dockerfile = jstr (jat s ''dockerfile''), sg_tag = jstr (jat s ''tag''),
      sg_build_args = filter_map (\<lambda>v. map_option (\<lambda>n. (n, jstr_or (jat v ''value'') [])) (jstr (jat v ''name''))) (jarr_or (jat s ''args'')),
      sg_artifacts = jstrs_or (jat s ''artifacts''), sg_depends_on = jstr (jat s ''dependsOn''), sg_env = jstrs_or (jat s ''env''),
      sg_if_condition = jstr (jat s ''if''), sg_matrix_images = jstrs_or (jat (jat s ''matrix'') ''image''),
      sg_matrix_envs = jstrs_or (jat (jat s ''matrix'') ''env'')\<rparr>"

definition load_pipeline :: "json \<Rightarrow> stored_pipeline" where
  "load_pipeline item =
     \<lparr>pl_name = jstr_or (jat item ''name'') [], pl_stages = map load_stage (jarr_or (jat item ''stages'')),
      pl_triggers = map (\<lambda>t. \<lparr>tr_trigger_type = jstr_or (jat t ''type'') ''manual'', tr_path = jstr (jat t ''path'')\<rparr>)
        (jarr_or (jat item ''triggers''))\<rparr>"

definition load_config :: "json option \<Rightarrow> stored_config \<Rightarrow> stored_config" where
  "load_config cfg c =
     (case cfg of
        None \<Rightarrow> c
      | Some v \<Rightarrow>
          (let llm = jget v ''llm''; al = jget v ''alerts''; pa = jget v ''pause''; api = jget v ''api'';
               c = (case llm of None \<Rightarrow> c
                    | Some l \<Rightarrow> c\<lparr>cfg_llm_host := jstr_or (jat l ''host'') (cfg_llm_host c),
                                  cfg_llm_model := jstr_or (jat l ''model'') (cfg_llm_model c),
                                  cfg_llm_temperature := unwrap_or (jf32 (jat l ''temperature'')) (cfg_llm_temperature c)\<rparr>);
               c = (case al of None \<Rightarrow> c
                    | Some a \<Rightarrow> c\<lparr>cfg_alert_webhook := jstr (jat a ''webhook''),
                                  cfg_alert_on_anomaly := jbool_or (jat a ''onAnomaly'') (cfg_alert_on_anomaly c),
                                  cfg_alert_on_restart := jbool_or (jat a ''onRestart'') (cfg_alert_on_restart c)\<rparr>);
               c = c\<lparr>cfg_runtime := jstr_or (jat v ''runtime'') (cfg_runtime c)\<rparr>;
               c = (case pa of None \<Rightarrow> c
                    | Some p \<Rightarrow> c\<lparr>cfg_pause_default_idle := ju64_or (jat p ''defaultIdle'') (cfg_pause_default_idle c),
                                  cfg_pause_enabled := jbool_or (jat p ''enabled'') (cfg_pause_enabled c)\<rparr>)
           in case api of None \<Rightarrow> c
              | Some a \<Rightarrow> c\<lparr>cfg_api_port := (case ju64 (jat a ''port'') of Some p \<Rightarrow> ucast p | None \<Rightarrow> cfg_api_port c)\<rparr>))"

definition load_function :: "json \<Rightarrow> stored_function" where
  "load_function item =
     \<lparr>fn_name = jstr_or (jat item ''name'') [], fn_image = jstr_or (jat item ''image'') ''alpine:latest'',
      fn_command = jstrs (jat item ''command''), fn_env = jstrs_or (jat item ''env''),
      fn_http_triggers = jstrs_or (jat item ''httpTriggers''), fn_webhook_triggers = jstrs_or (jat item ''webhookTriggers''),
      fn_schedule_triggers = jstrs_or (jat item ''scheduleTriggers''), fn_timeout_secs = ju64_or (jat item ''timeout'') 30,
      fn_memory_mb = ucast (ju64_or (jat item ''memory'') 128), fn_code = jstr (jat item ''code''), fn_container_id = None,
      fn_invocations = ju64_or (jat item ''invocations'') 0, fn_last_invoked = None, fn_state = FnCold\<rparr>"

definition load_repository :: "json \<Rightarrow> stored_repository" where
  "load_repository item =
     \<lparr>repo_name = jstr_or (jat item ''name'') [], repo_url = jstr (jat item ''url''), repo_path = jstr (jat item ''path''),
      repo_branch = jstr_or (jat item ''branch'') ''main'', repo_secret_ref = jstr (jat item ''secretRef''),
      repo_pipeline = jstr (jat item ''pipeline''), repo_last_commit = jstr (jat item ''lastCommit'')\<rparr>"

definition load_node :: "u64 \<Rightarrow> json \<Rightarrow> cluster_node" where
  "load_node now item =
     (let s = jstr_or (jat item ''status'') ''Ready''
      in \<lparr>cn_name = jstr_or (jat item ''name'') [], cn_address = jstr_or (jat item ''address'') [],
          cn_cpu_capacity = unwrap_or (jf32 (jat item ''cpuCapacity'')) (f32_of_nat 100),
          cn_mem_capacity = unwrap_or (jf32 (jat item ''memCapacity'')) (f32_of_nat 8192),
          cn_cpu_used = unwrap_or (jf32 (jat item ''cpuUsed'')) (Zero False),
          cn_mem_used = unwrap_or (jf32 (jat item ''memUsed'')) (Zero False),
          cn_pod_count = ucast (ju64_or (jat item ''podCount'') 0),
          cn_status = (if s = ''NotReady'' then NodeNotReady else if s = ''Draining'' then NodeDraining else NodeReady),
          cn_last_heartbeat = now, cn_neural_token = [], cn_joined_at = ju64_or (jat item ''joinedAt'') 0\<rparr>)"

subsection \<open>The document\<close>

definition by_key :: "('v \<Rightarrow> 'k) \<Rightarrow> 'v list \<Rightarrow> ('k, 'v) hmap" where
  "by_key f vs = hm_collect (map (\<lambda>v. (f v, v)) vs)"

abbreviation sect :: "json \<Rightarrow> string \<Rightarrow> json list" where
  "sect doc k \<equiv> jarr_or (jat doc k)"

text \<open>A newer schema is refused: the world stays empty.\<close>

definition schema_supported :: "json \<Rightarrow> bool" where
  "schema_supported doc =
     (case ju64 (jat doc ''schemaVersion'') of
        None \<Rightarrow> True
      | Some v \<Rightarrow> (ucast v :: u32) \<le> STATE_SCHEMA_VERSION)"

definition load_doc :: "aes_gcm \<Rightarrow> string \<Rightarrow> u64 \<Rightarrow> json \<Rightarrow> json desired_world rust" where
  "load_doc A key now doc =
     (if \<not> schema_supported doc then Ret world_new
      else rust_bind (rust_all load_deployment (sect doc ''deployments'')) (\<lambda>ds.
           rust_bind (rust_all (load_secret A key) (sect doc ''secrets'')) (\<lambda>ss.
             Ret (world_new\<lparr>
               manifests := hm_collect (unwrap_or (jobj (jat doc ''manifests'')) []),
               deployments := by_key d_name ds, configmaps := by_key cm_name (map load_configmap (sect doc ''configmaps'')),
               secrets := by_key se_name ss, namespaces := unwrap_or (jstrs (jat doc ''namespaces'')) [''default''],
               daemonsets := by_key dst_name (map load_daemonset (sect doc ''daemonsets'')),
               jobs := by_key job_name (map load_job (sect doc ''jobs'')),
               cronjobs := by_key cj_name (map load_cronjob (sect doc ''cronjobs'')),
               hpas := by_key hpa_name (map load_hpa (sect doc ''hpas'')),
               services := by_key svc_name (map load_service (sect doc ''services'')),
               ingresses := by_key ig_name (map load_ingress (sect doc ''ingresses'')),
               network_policies := by_key np_name (map load_network_policy (sect doc ''network_policies'')),
               resource_quotas := by_key quota_key (map load_quota (sect doc ''resource_quotas'')),
               pvs := by_key pv_name (map load_pv (sect doc ''pvs'')),
               pvcs := by_key pvc_name (map load_pvc (sect doc ''pvcs'')),
               pipelines := by_key pl_name (map load_pipeline (sect doc ''pipelines'')),
               config := load_config (jget doc ''config'') default_config,
               w_functions := by_key fn_name (map load_function (sect doc ''functions'')),
               repositories := by_key repo_name (map load_repository (sect doc ''repositories'')),
               rbac_roles := by_key role_name (map load_role (sect doc ''rbac_roles'')),
               guards := by_key gd_name (map load_guard (sect doc ''guards'')),
               operators := by_key op_name (map load_operator (sect doc ''operators'')),
               custom_resources := by_key cr_name (map load_custom_resource (sect doc ''custom_resources'')),
               admission_webhooks := by_key aw_name (map load_webhook (sect doc ''admission_webhooks'')),
               nodes := by_key cn_name (map (load_node now) (sect doc ''nodes''))\<rparr>))))"

text \<open>The neural store first, the JSON file when it is missing, damaged or without the full text.\<close>

definition neural_content :: "string option \<Rightarrow> string option rust" where
  "neural_content f =
     (case f of
        None \<Rightarrow> Ret None
      | Some d \<Rightarrow> rust_bind (ns_load d) (\<lambda>r. case r of
            Inl _ \<Rightarrow> Ret None
          | Inr ns \<Rightarrow> rust_bind (ns_get ns ''_full'') (\<lambda>v.
              Ret (Option.bind v (\<lambda>b. if utf8_valid b then Some b else None)))))"

definition load_state :: "serde_text \<Rightarrow> aes_gcm \<Rightarrow> string \<Rightarrow> u64 \<Rightarrow> state_files \<Rightarrow> json desired_world rust" where
  "load_state T A key now f =
     rust_bind (neural_content (sf_neural f)) (\<lambda>c.
       case Option.bind (opt_or c (Option.bind (sf_json f) (\<lambda>s. if utf8_valid s then Some s else None))) (st_parse T) of
         None \<Rightarrow> Ret world_new
       | Some doc \<Rightarrow> load_doc A key now doc)"

end
