(* ===== verification/State_Props.thy ===== *)
theory State_Props
  imports State_Load
begin

text \<open>
  What survives a restart: the round trip of every resource through the state document, of the secret values
  through the cipher, and of the document through the two files.
\<close>


subsection \<open>Values\<close>

named_theorems rt_simps \<open>reading back what was written\<close>

lemma jat_obj [rt_simps]: "jat (j_obj kvs) k = unwrap_or (map_of (rev kvs) k) JNull"
  by (simp add: jat_def jget_obj)

lemma ucast_u16 [rt_simps]: "ucast (ucast (n :: u16) :: u64) = n"
  by (rule ucast_up_ucast_id) (simp add: is_up.rep_eq)

lemma ucast_u32 [rt_simps]: "ucast (ucast (n :: u32) :: u64) = n"
  by (rule ucast_up_ucast_id) (simp add: is_up.rep_eq)

lemma jstr_opt [rt_simps]: "jstr (j_opt_str x) = x"
  by (cases x) (simp_all add: j_opt_def)

lemma ju64_opt [rt_simps]: "ju64 (j_opt_u64 x) = x"
  by (cases x) (simp_all add: j_opt_def)

lemma ju64_opt_u32 [rt_simps]: "map_option ucast (ju64 (j_opt_u32 x)) = (x :: u32 option)"
  by (cases x) (simp_all add: j_opt_def rt_simps)

lemma ju64_opt_u16 [rt_simps]: "map_option ucast (ju64 (j_opt (\<lambda>n. j_u16 n) x)) = (x :: u16 option)"
  by (cases x) (simp_all add: j_opt_def rt_simps)

lemma filter_map_map: "(\<And>x. x \<in> set xs \<Longrightarrow> f (g x) = Some (h x)) \<Longrightarrow> filter_map f (map g xs) = map h xs"
  by (induction xs) auto

lemma filter_map_id: "(\<And>x. x \<in> set xs \<Longrightarrow> f (g x) = Some x) \<Longrightarrow> filter_map f (map g xs) = xs"
  using filter_map_map[of xs f g "\<lambda>x. x"] by simp

lemma jstrs_strs [rt_simps]: "jstrs (j_strs ss) = Some ss"
  by (simp add: jstrs_def j_strs_def filter_map_id)

lemma jstrs_or_strs [rt_simps]: "jstrs_or (j_strs ss) = ss"
  by (simp add: jstrs_or_def rt_simps)

lemma jstrs_opt [rt_simps]: "jstrs (j_opt_strs x) = x"
  by (cases x) (simp_all add: j_opt_def jstrs_strs, simp add: jstrs_def)

lemma jports_ports [rt_simps]: "jports (JArr (map (\<lambda>p. j_u16 p) ps)) = ps"
  by (simp add: jports_def filter_map_id rt_simps)

text \<open>A finite single-precision number.\<close>

fun f32_finite :: "f32 \<Rightarrow> bool" where
  "f32_finite NaN = False"
| "f32_finite (Inf s) = False"
| "f32_finite x = (f64_to_f32 x = x)"

lemma jf32_f32 [rt_simps]: "f32_finite x \<Longrightarrow> jf32 (j_f32 x) = Some x"
  by (cases x) (simp_all add: jf32_def)

lemma jf32_opt [rt_simps]: "pred_option f32_finite x \<Longrightarrow> jf32 (j_opt j_f32 x) = x"
  by (cases x) (simp_all add: j_opt_def rt_simps, simp add: jf32_def)

subsection \<open>Maps\<close>

lemma hm_extend_distinct: "distinct (map fst (m @ kvs)) \<Longrightarrow> hm_extend m kvs = m @ kvs"
proof (induction kvs arbitrary: m)
  case (Cons kv kvs)
  obtain k v where kv: "kv = (k, v)" by (cases kv)
  have "hm_insert k v m = m @ [(k, v)]" if "k \<notin> fst ` set m" for m :: "('a \<times> 'b) list"
    using that by (induction m) auto
  moreover have "k \<notin> fst ` set m" using Cons.prems kv by auto
  ultimately have "hm_extend m (kv # kvs) = hm_extend (m @ [(k, v)]) kvs" using kv by simp
  then show ?case using Cons kv by simp
qed simp

lemma hm_collect_id: "hm_ok kvs \<Longrightarrow> hm_collect kvs = kvs"
  using hm_extend_distinct[of "[]" kvs] by (simp add: hm_ok_def)

lemma bt_insert_map: "bt_insert k (f k v) (map (\<lambda>(k, v). (k, f k v)) m) = map (\<lambda>(k, v). (k, f k v)) (bt_insert k v m)"
  by (induction k v m rule: bt_insert.induct) auto

lemma bt_collect_map: "bt_collect (map (\<lambda>(k, v). (k, f k v)) m) = map (\<lambda>(k, v). (k, f k v)) (bt_collect m)"
proof -
  have "fold (\<lambda>(k, v) m. bt_insert k v m) (map (\<lambda>(k, v). (k, f k v)) m) (map (\<lambda>(k, v). (k, f k v)) a)
      = map (\<lambda>(k, v). (k, f k v)) (fold (\<lambda>(k, v) m. bt_insert k v m) m a)" for a
    by (induction m arbitrary: a) (auto simp: bt_insert_map)
  from this[of "[]"] show ?thesis by (simp add: bt_collect_def)
qed

lemma bt_insert_last: "(\<And>x. x \<in> fst ` set m \<Longrightarrow> x < k) \<Longrightarrow> bt_insert k v m = m @ [(k, v)]"
proof (induction m)
  case (Cons kv m)
  obtain k' v' where kv: "kv = (k', v')" by (cases kv)
  then have "k' < k" using Cons.prems[of k'] by simp
  moreover have "bt_insert k v m = m @ [(k, v)]" using Cons by simp
  ultimately show ?case using kv by auto
qed simp

lemma bt_collect_sorted: "bt_ok m \<Longrightarrow> bt_collect m = m"
proof -
  have "bt_ok (a @ m) \<Longrightarrow> fold (\<lambda>(k, v) m. bt_insert k v m) m a = a @ m" for a
  proof (induction m arbitrary: a)
    case (Cons kv m)
    obtain k v where kv: "kv = (k, v)" by (cases kv)
    have "bt_insert k v a = a @ [(k, v)]"
      using Cons.prems kv by (intro bt_insert_last) (auto simp: bt_ok_def sorted_wrt_append)
    then show ?case using Cons.IH[of "a @ [(k, v)]"] Cons.prems kv by simp
  qed simp
  from this[of "[]"] show "bt_ok m \<Longrightarrow> ?thesis" by (simp add: bt_collect_def)
qed

lemma set_bt_collect: "set (bt_collect m) \<subseteq> set m"
proof -
  have "set (fold (\<lambda>(k, v) m. bt_insert k v m) m a) \<subseteq> set m \<union> set a" for a
  proof (induction m arbitrary: a)
    case (Cons kv m)
    then show ?case using set_bt_insert[of "fst kv" "snd kv" a] by (cases kv) fastforce
  qed simp
  from this[of "[]"] show ?thesis by (simp add: bt_collect_def)
qed

lemma jstr_map_map [rt_simps]: "jstr_map (j_map m) = bt_collect m"
proof -
  have "jstr_map (j_map m) = hm_collect (bt_collect m)"
    using filter_map_map[of "bt_collect m" "\<lambda>(k, x). map_option (\<lambda>s. (k, s)) (jstr x)" "\<lambda>(k, v). (k, JStr v)" "\<lambda>x. x"]
    unfolding jstr_map_def j_map_def bt_collect_map by (auto simp: split_def)
  then show ?thesis using hm_collect_id[OF bt_ok_hm_ok[OF bt_collect_ok]] by simp
qed

text \<open>The values of a map that is keyed by name, written in order and read back.\<close>

definition hm_map :: "('v \<Rightarrow> 'w) \<Rightarrow> ('k, 'v) hmap \<Rightarrow> ('k, 'w) hmap" where
  "hm_map g m = map (\<lambda>(k, v). (k, g v)) m"

lemma hm_get_map: "hm_get (hm_map g m) k = map_option g (hm_get m k)"
  by (simp add: hm_get_def hm_map_def map_of_map)

lemma by_key_values:
  assumes "keyed f m" and "\<And>k v. (k, v) \<in> set m \<Longrightarrow> f (g v) = f v"
  shows "by_key f (map g (hm_values m)) = hm_map g m"
proof -
  have e: "map (\<lambda>v. (f v, v)) (map g (hm_values m)) = hm_map g m"
    using assms by (auto simp: hm_values_def hm_map_def keyed_def)
  have "hm_ok (hm_map g m)" using assms(1) by (simp add: keyed_def hm_ok_def hm_map_def split_def comp_def)
  then show ?thesis using e hm_collect_id by (simp add: by_key_def)
qed

lemma rust_all_Ret: "(\<And>x. x \<in> set xs \<Longrightarrow> f x = Ret (g x)) \<Longrightarrow> rust_all f xs = Ret (map g xs)"
  by (induction xs) auto

lemma rust_all_map: "(\<And>x. x \<in> set xs \<Longrightarrow> f (s x) = Ret (g x)) \<Longrightarrow> rust_all f (map s xs) = Ret (map g xs)"
  by (induction xs) auto

subsection \<open>Secret values\<close>

lemma hex_pairs_hex: "hex_pairs (hex_of_bytes (pre @ bs)) (2 * length pre) (length bs) = Ret bs"
proof (induction bs arbitrary: pre)
  case (Cons b bs)
  have "str_slice (hex_of_bytes (pre @ b # bs)) (2 * length pre) (2 * length pre + 2) =
        Ret [hex_char (of_char b div 16), hex_char (of_char b mod 16)]"
    using hex_of_bytes_boundary[of _ "pre @ b # bs"]
    by (simp add: str_slice_def) (simp add: hex_of_bytes_append)
  then show ?case using Cons.IH[of "pre @ [b]"] by (simp add: u8_from_hex2_hex)
qed simp

lemma hex_bytes_hex: "hex_bytes (hex_of_bytes bs) = Ret bs"
  using hex_pairs_hex[of "[]" bs] by (simp add: hex_bytes_def)

text \<open>What the cipher promises: it encrypts under any nonce, and decrypts what it encrypted under the same one.\<close>

definition aes_correct :: "aes_gcm \<Rightarrow> string \<Rightarrow> bool" where
  "aes_correct A key = (\<forall>n p. length n = 12 \<longrightarrow> (\<exists>ct. aes_encrypt A key n p = Some ct \<and> aes_decrypt A key n ct = Some p))"

lemma decrypt_encrypt:
  assumes "aes_correct A key" and "length nonce = 12" and "utf8_valid v"
  shows "decrypt_secret_value A key (encrypt_secret_value A key nonce v) = Ret v"
proof -
  obtain ct where ct: "aes_encrypt A key nonce v = Some ct" "aes_decrypt A key nonce ct = Some v"
    using assms by (auto simp: aes_correct_def)
  have "hex_bytes (hex_of_bytes nonce @ hex_of_bytes ct) = Ret (nonce @ ct)"
    using hex_bytes_hex[of "nonce @ ct"] by (simp add: hex_of_bytes_append)
  then show ?thesis using ct assms
    by (simp add: encrypt_secret_value_def decrypt_secret_value_def starts_with_def Let_def)
qed

subsection \<open>Resources\<close>

text \<open>What each kind of resource is after a restart.\<close>

definition kept_container :: "stored_container \<Rightarrow> stored_container" where
  "kept_container c = c\<lparr>sc_env_from_configmaps := [], sc_env_from_secrets := []\<rparr>"

definition kept_plain_container :: "stored_container \<Rightarrow> stored_container" where
  "kept_plain_container c =
     c\<lparr>sc_env_from_configmaps := [], sc_env_from_secrets := [], sc_volumes := [], sc_liveness_probe := None,
       sc_readiness_probe := None, sc_startup_probe := None\<rparr>"

fun kept_strategy :: "deploy_strategy \<Rightarrow> deploy_strategy" where
  "kept_strategy (Canary weight steps) = Canary weight []"
| "kept_strategy s = s"

definition kept_deployment :: "stored_deployment \<Rightarrow> stored_deployment" where
  "kept_deployment d =
     d\<lparr>d_init_containers := map kept_plain_container (d_init_containers d), d_containers := map kept_container (d_containers d),
       d_strategy := map_option kept_strategy (d_strategy d), d_idle_since := None\<rparr>"

lemma load_save_probe: "load_probe (save_probe p) = Ret p"
proof -
  have "load_http_get (j_opt (\<lambda>(path, port). JArr [JStr path, j_u16 port]) h) = Ret h" for h
    by (cases h) (auto simp: load_http_get_def j_opt_def rt_simps)
  then show ?thesis by (simp add: load_probe_def save_probe_def rt_simps)
qed

lemma jobj_not_null: "j_obj kvs \<noteq> JNull"
  by (simp add: j_obj_def)

lemma load_save_container: "load_container (save_container c) = Ret (kept_container c)"
proof -
  have n: "save_probe p \<noteq> JNull" for p by (simp add: save_probe_def jobj_not_null)
  have v: "filter_map (\<lambda>v. Option.bind (jstr (jat v ''host'')) (\<lambda>h. map_option (Pair h) (jstr (jat v ''container''))))
      (map (\<lambda>(h, p). j_obj [(''host'', JStr h), (''container'', JStr p)]) vs) = vs" for vs
    by (rule filter_map_id) (auto simp: rt_simps)
  show ?thesis
    by (cases "sc_liveness_probe c"; cases "sc_readiness_probe c"; cases "sc_startup_probe c")
      (simp_all add: load_container_def save_container_def kept_container_def jpresent_def jget_obj rust_opt_def n v
        load_save_probe rt_simps jstrs_or_def jstrs_def[of JNull])
qed

lemma load_save_init_container: "load_container (save_plain_container c) = Ret (kept_plain_container c)"
  by (simp add: load_container_def save_plain_container_def kept_plain_container_def jpresent_def jget_obj rust_opt_def rt_simps
    jstrs_or_def jstrs_def[of JNull])

lemma load_save_plain_container: "load_plain_container (save_plain_container c) = kept_plain_container c"
  by (simp add: load_plain_container_def save_plain_container_def kept_plain_container_def rt_simps)

definition limits_finite :: "resource_limits \<Rightarrow> bool" where
  "limits_finite r = (pred_option f32_finite (rl_cpu_request r) \<and> pred_option f32_finite (rl_cpu_limit r))"

lemma load_save_limits: "limits_finite r \<Longrightarrow> load_limits (save_limits r) = r"
  by (simp add: load_limits_def save_limits_def limits_finite_def rt_simps)

lemma load_save_strategy: "load_strategy (save_strategy s) = Some (kept_strategy s)"
  by (cases s) (simp_all add: load_strategy_def rt_simps Let_def)

lemma save_strategy_not_null: "save_strategy s \<noteq> JNull"
  by (cases s) (simp_all add: jobj_not_null)

lemma jpresent_opt:
  "(\<And>a. f a \<noteq> JNull) \<Longrightarrow> jget v k = Some (j_opt f x) \<Longrightarrow> jpresent v k = map_option f x"
  by (cases x) (simp_all add: jpresent_def j_opt_def)

lemma load_save_deployment:
  assumes "pred_option limits_finite (d_resource_limits d)"
  shows "load_deployment (save_deployment d) = Ret (kept_deployment d)"
proof -
  have l: "map_option load_limits (jpresent (save_deployment d) ''resourceLimits'') = d_resource_limits d"
  proof -
    have "jpresent (save_deployment d) ''resourceLimits'' = map_option save_limits (d_resource_limits d)"
      by (rule jpresent_opt) (simp_all add: save_limits_def jobj_not_null save_deployment_def jget_obj)
    then show ?thesis using assms by (cases "d_resource_limits d") (simp_all add: load_save_limits)
  qed
  have s: "Option.bind (jpresent (save_deployment d) ''strategy'') load_strategy = map_option kept_strategy (d_strategy d)"
  proof -
    have "jpresent (save_deployment d) ''strategy'' = map_option save_strategy (d_strategy d)"
      by (rule jpresent_opt) (simp_all add: save_strategy_not_null save_deployment_def jget_obj)
    then show ?thesis by (cases "d_strategy d") (simp_all add: load_save_strategy)
  qed
  have i: "rust_all load_container (map save_plain_container cs) = Ret (map kept_plain_container cs)" for cs
    by (rule rust_all_map) (rule load_save_init_container)
  have c: "rust_all load_container (map save_container cs) = Ret (map kept_container cs)" for cs
    by (rule rust_all_map) (rule load_save_container)
  show ?thesis
    unfolding load_deployment_def l s
    by (simp add: save_deployment_def kept_deployment_def rt_simps i c)
qed

definition kept_daemonset :: "stored_daemonset \<Rightarrow> stored_daemonset" where
  "kept_daemonset d = d\<lparr>dst_container := kept_plain_container (dst_container d)\<rparr>"

definition kept_job :: "stored_job \<Rightarrow> stored_job" where
  "kept_job j = j\<lparr>job_container := kept_plain_container (job_container j), job_status := JobPending\<rparr>"

definition kept_cronjob :: "stored_cronjob \<Rightarrow> stored_cronjob" where
  "kept_cronjob c = c\<lparr>cj_container := kept_plain_container (cj_container c)\<rparr>"

definition kept_hpa :: "stored_hpa \<Rightarrow> stored_hpa" where
  "kept_hpa h = h\<lparr>hpa_history := [], hpa_last_scaled := None\<rparr>"

definition kept_service :: "stored_service \<Rightarrow> stored_service" where
  "kept_service s = s\<lparr>svc_selector := bt_collect (svc_selector s)\<rparr>"

definition kept_guard :: "guard \<Rightarrow> guard" where
  "kept_guard g =
     g\<lparr>gd_rules := map (\<lambda>r. r\<lparr>gr_params := bt_collect (gr_params r)\<rparr>) (gd_rules g), gd_hooks := bt_collect (gd_hooks g)\<rparr>"

definition kept_operator :: "operator \<Rightarrow> operator" where
  "kept_operator p =
     p\<lparr>op_provision := map (\<lambda>c. c\<lparr>oc_volumes := [], oc_ports := []\<rparr>) (op_provision p),
       op_hooks := bt_collect (op_hooks p), op_rules := []\<rparr>"

definition kept_configmap :: "stored_configmap \<Rightarrow> stored_configmap" where
  "kept_configmap c = c\<lparr>cm_data := bt_collect (cm_data c)\<rparr>"

definition kept_secret :: "stored_secret \<Rightarrow> stored_secret" where
  "kept_secret s = s\<lparr>se_data := bt_collect (se_data s)\<rparr>"

definition kept_pipeline :: "stored_pipeline \<Rightarrow> stored_pipeline" where
  "kept_pipeline p = p\<lparr>pl_stages := map (\<lambda>s. s\<lparr>sg_matrix_images := [], sg_matrix_envs := []\<rparr>) (pl_stages p)\<rparr>"

definition kept_config :: "stored_config \<Rightarrow> stored_config" where
  "kept_config c = c\<lparr>cfg_alert_on_rollout := False\<rparr>"

definition kept_function :: "stored_function \<Rightarrow> stored_function" where
  "kept_function f = f\<lparr>fn_env := [], fn_container_id := None, fn_last_invoked := None, fn_state := FnCold\<rparr>"

definition kept_node :: "u64 \<Rightarrow> cluster_node \<Rightarrow> cluster_node" where
  "kept_node now n = n\<lparr>cn_last_heartbeat := now, cn_neural_token := []\<rparr>"

lemma load_save_daemonset: "load_daemonset (save_daemonset d) = kept_daemonset d"
  by (simp add: load_daemonset_def save_daemonset_def kept_daemonset_def rt_simps load_save_plain_container)

lemma load_save_job: "load_job (save_job j) = kept_job j"
  by (simp add: load_job_def save_job_def kept_job_def rt_simps load_save_plain_container)

lemma load_save_cronjob: "load_cronjob (save_cronjob c) = kept_cronjob c"
  by (simp add: load_cronjob_def save_cronjob_def kept_cronjob_def rt_simps load_save_plain_container)

lemma load_save_hpa: "f32_finite (hpa_target_cpu h) \<Longrightarrow> load_hpa (save_hpa h) = kept_hpa h"
  by (simp add: load_hpa_def save_hpa_def kept_hpa_def rt_simps)

lemma map_eta [rt_simps]:
  "map (\<lambda>x. \<lparr>sp_port = sp_port x, sp_target_port = sp_target_port x, sp_protocol = sp_protocol x, sp_node_port = sp_node_port x\<rparr>) ps = ps"
  "map (\<lambda>x. \<lparr>ip_path = ip_path x, ip_service = ip_service x, ip_port = ip_port x\<rparr>) qs = qs"
  "map (\<lambda>x. \<lparr>ir_host = ir_host x, ir_paths = ir_paths x\<rparr>) rs = rs"
  "map (\<lambda>x. \<lparr>rule_resources = rule_resources x, rule_verbs = rule_verbs x, rule_namespaces = rule_namespaces x\<rparr>) us = us"
  "map (\<lambda>x. \<lparr>tr_trigger_type = tr_trigger_type x, tr_path = tr_path x\<rparr>) ts = ts"
  by (simp_all add: map_idI)

lemma load_save_service: "load_service (save_service s) = kept_service s"
  by (simp add: load_service_def save_service_def kept_service_def rt_simps comp_def)

lemma load_save_ingress: "load_ingress (save_ingress i) = i"
  by (simp add: load_ingress_def save_ingress_def rt_simps comp_def)

lemma load_save_network_policy: "load_network_policy (save_network_policy n) = n"
  by (simp add: load_network_policy_def save_network_policy_def rt_simps)

lemma load_save_quota: "pred_option f32_finite (q_hard_cpu q) \<Longrightarrow> load_quota (save_quota q) = q"
  by (simp add: load_quota_def save_quota_def rt_simps)

lemma load_save_role: "load_role (save_role r) = r"
  by (simp add: load_role_def save_role_def rt_simps comp_def Let_def)

lemma load_save_guard: "load_guard (save_guard g) = kept_guard g"
  by (simp add: load_guard_def save_guard_def kept_guard_def rt_simps comp_def)

lemma load_save_operator: "load_operator (save_operator p) = kept_operator p"
  by (simp add: load_operator_def save_operator_def kept_operator_def rt_simps comp_def)

lemma load_save_custom_resource: "load_custom_resource (save_custom_resource c) = c"
  by (cases "custom_resource.cr_status c") (simp_all add: load_custom_resource_def save_custom_resource_def rt_simps Let_def)

lemma load_save_webhook: "load_webhook (save_webhook h) = h"
  by (simp add: load_webhook_def save_webhook_def rt_simps)

lemma load_save_configmap: "load_configmap (save_configmap c) = kept_configmap c"
  by (simp add: load_configmap_def save_configmap_def kept_configmap_def rt_simps)

lemma load_save_pv: "load_pv (save_pv p) = p"
  by (cases "stored_pv.pv_status p") (simp_all add: load_pv_def save_pv_def rt_simps Let_def)

lemma load_save_pvc: "load_pvc (save_pvc p) = p"
  by (simp add: load_pvc_def save_pvc_def rt_simps)

lemma load_save_stage: "load_stage (save_stage s) = s\<lparr>sg_matrix_images := [], sg_matrix_envs := []\<rparr>"
proof -
  have "filter_map (\<lambda>v. map_option (\<lambda>n. (n, jstr_or (jat v ''value'') [])) (jstr (jat v ''name'')))
      (map (\<lambda>(k, v). j_obj [(''name'', JStr k), (''value'', JStr v)]) as) = as" for as
    by (rule filter_map_id) (auto simp: rt_simps)
  moreover have "jat JNull k = JNull" for k by (simp add: jat_def)
  ultimately show ?thesis by (simp add: load_stage_def save_stage_def rt_simps jstrs_or_def jstrs_def[of JNull])
qed

lemma load_save_pipeline: "load_pipeline (save_pipeline p) = kept_pipeline p"
  by (simp add: load_pipeline_def save_pipeline_def kept_pipeline_def rt_simps comp_def load_save_stage)

lemma load_save_config:
  "f32_finite (cfg_llm_temperature c) \<Longrightarrow> load_config (Some (save_config c)) default_config = kept_config c"
  by (simp add: load_config_def save_config_def kept_config_def default_config_def rt_simps jget_obj Let_def)

lemma load_save_function: "load_function (save_function f) = kept_function f"
  by (simp add: load_function_def save_function_def kept_function_def rt_simps jstrs_or_def jstrs_def[of JNull])

lemma load_save_repository: "load_repository (save_repository r) = r"
  by (simp add: load_repository_def save_repository_def rt_simps)

definition node_finite :: "cluster_node \<Rightarrow> bool" where
  "node_finite n =
     (f32_finite (cn_cpu_capacity n) \<and> f32_finite (cn_mem_capacity n) \<and> f32_finite (cn_cpu_used n) \<and> f32_finite (cn_mem_used n))"

lemma load_save_node: "node_finite n \<Longrightarrow> load_node now (save_node n) = kept_node now n"
  by (cases "cn_status n") (simp_all add: load_node_def save_node_def kept_node_def node_finite_def rt_simps Let_def)

definition secret_text :: "stored_secret \<Rightarrow> bool" where
  "secret_text s = (hm_ok (se_data s) \<and> (\<forall>v \<in> set (hm_values (se_data s)). utf8_valid v))"

lemma load_save_secret:
  assumes "aes_correct A key" and "\<And>n k. length (nonce n k) = 12" and "secret_text s"
  shows "load_secret A key (save_secret A key nonce s) = Ret (kept_secret s)"
proof -
  let ?e = "\<lambda>(k, v). (k, encrypt_secret_value A key (nonce (se_name s) k) v)"
  let ?m = "bt_collect (se_data s)"
  have ok: "hm_ok (se_data s)" using assms(3) by (simp add: secret_text_def)
  have "hm_ok (map ?e (se_data s))" using ok by (simp add: hm_ok_def split_def comp_def)
  then have c: "hm_collect (map ?e (se_data s)) = map ?e (se_data s)" by (rule hm_collect_id)
  have d: "jobj (j_map (map ?e (se_data s))) = Some (map (\<lambda>(k, v). (k, JStr (encrypt_secret_value A key (nonce (se_name s) k) v))) ?m)"
    using bt_collect_map[of "\<lambda>k v. JStr (encrypt_secret_value A key (nonce (se_name s) k) v)" "se_data s"]
    by (simp add: j_map_def split_def comp_def)
  have f: "filter_map (\<lambda>(k, x). map_option (Pair k) (jstr x))
      (map (\<lambda>(k, v). (k, JStr (encrypt_secret_value A key (nonce (se_name s) k) v))) ?m) = map ?e ?m"
    by (rule filter_map_map) auto
  have r: "rust_all (\<lambda>(k, v). rust_bind (decrypt_secret_value A key v) (\<lambda>p. Ret (k, p))) (map ?e ?m) = Ret (map (\<lambda>x. x) ?m)"
  proof (rule rust_all_map)
    fix x assume "x \<in> set ?m"
    then have "x \<in> set (se_data s)" using set_bt_collect by blast
    then have "utf8_valid (snd x)" using assms(3) by (auto simp: secret_text_def hm_values_def)
    then show "(\<lambda>(k, v). rust_bind (decrypt_secret_value A key v) (\<lambda>p. Ret (k, p))) (?e x) = Ret x"
      using decrypt_encrypt[OF assms(1,2)] by (cases x) simp
  qed
  have "hm_collect ?m = ?m" by (rule hm_collect_id[OF bt_ok_hm_ok[OF bt_collect_ok]])
  then show ?thesis
    using r by (simp add: load_secret_def save_secret_def kept_secret_def rt_simps c d f Let_def)
qed

subsection \<open>The whole state\<close>

text \<open>The numbers are finite and the secret values are text.\<close>

definition storable :: "json desired_world \<Rightarrow> bool" where
  "storable w =
     (list_all (\<lambda>d. pred_option limits_finite (d_resource_limits d)) (hm_values (deployments w))
      \<and> list_all (\<lambda>h. f32_finite (hpa_target_cpu h)) (hm_values (hpas w))
      \<and> list_all (\<lambda>q. pred_option f32_finite (q_hard_cpu q)) (hm_values (resource_quotas w))
      \<and> list_all secret_text (hm_values (secrets w)) \<and> list_all node_finite (hm_values (nodes w))
      \<and> f32_finite (cfg_llm_temperature (config w)))"

text \<open>What is left of a world after it was written and read back at time \<open>now\<close>.\<close>

definition persisted :: "u64 \<Rightarrow> json desired_world \<Rightarrow> json desired_world" where
  "persisted now w =
     world_new\<lparr>manifests := bt_collect (manifests w), deployments := hm_map kept_deployment (deployments w),
       configmaps := hm_map kept_configmap (configmaps w), secrets := hm_map kept_secret (secrets w),
       namespaces := namespaces w, daemonsets := hm_map kept_daemonset (daemonsets w), jobs := hm_map kept_job (jobs w),
       cronjobs := hm_map kept_cronjob (cronjobs w), hpas := hm_map kept_hpa (hpas w),
       services := hm_map kept_service (services w), ingresses := ingresses w, network_policies := network_policies w,
       resource_quotas := resource_quotas w, pvs := pvs w, pvcs := pvcs w, pipelines := hm_map kept_pipeline (pipelines w),
       config := kept_config (config w), w_functions := hm_map kept_function (w_functions w), repositories := repositories w,
       rbac_roles := rbac_roles w, guards := hm_map kept_guard (guards w), operators := hm_map kept_operator (operators w),
       custom_resources := custom_resources w, admission_webhooks := admission_webhooks w,
       nodes := hm_map (kept_node now) (nodes w)\<rparr>"

lemma sections:
  "sect (save_doc A key nonce w) ''deployments'' = map save_deployment (hm_values (deployments w))"
  "sect (save_doc A key nonce w) ''daemonsets'' = map save_daemonset (hm_values (daemonsets w))"
  "sect (save_doc A key nonce w) ''jobs'' = map save_job (hm_values (jobs w))"
  "sect (save_doc A key nonce w) ''cronjobs'' = map save_cronjob (hm_values (cronjobs w))"
  "sect (save_doc A key nonce w) ''hpas'' = map save_hpa (hm_values (hpas w))"
  "sect (save_doc A key nonce w) ''services'' = map save_service (hm_values (services w))"
  "sect (save_doc A key nonce w) ''ingresses'' = map save_ingress (hm_values (ingresses w))"
  "sect (save_doc A key nonce w) ''network_policies'' = map save_network_policy (hm_values (network_policies w))"
  "sect (save_doc A key nonce w) ''resource_quotas'' = map save_quota (hm_values (resource_quotas w))"
  "sect (save_doc A key nonce w) ''configmaps'' = map save_configmap (hm_values (configmaps w))"
  "sect (save_doc A key nonce w) ''secrets'' = map (save_secret A key nonce) (hm_values (secrets w))"
  "sect (save_doc A key nonce w) ''pvs'' = map save_pv (hm_values (pvs w))"
  "sect (save_doc A key nonce w) ''pvcs'' = map save_pvc (hm_values (pvcs w))"
  "sect (save_doc A key nonce w) ''pipelines'' = map save_pipeline (hm_values (pipelines w))"
  "sect (save_doc A key nonce w) ''functions'' = map save_function (hm_values (w_functions w))"
  "sect (save_doc A key nonce w) ''repositories'' = map save_repository (hm_values (repositories w))"
  "sect (save_doc A key nonce w) ''nodes'' = map save_node (hm_values (nodes w))"
  "sect (save_doc A key nonce w) ''rbac_roles'' = map save_role (hm_values (rbac_roles w))"
  "sect (save_doc A key nonce w) ''guards'' = map save_guard (hm_values (guards w))"
  "sect (save_doc A key nonce w) ''operators'' = map save_operator (hm_values (operators w))"
  "sect (save_doc A key nonce w) ''custom_resources'' = map save_custom_resource (hm_values (custom_resources w))"
  "sect (save_doc A key nonce w) ''admission_webhooks'' = map save_webhook (hm_values (admission_webhooks w))"
  by (simp_all add: save_doc_def rt_simps)

lemma other_members:
  "schema_supported (save_doc A key nonce w)"
  "jobj (jat (save_doc A key nonce w) ''manifests'') = Some (bt_collect (manifests w))"
  "jstrs (jat (save_doc A key nonce w) ''namespaces'') = Some (namespaces w)"
  "jget (save_doc A key nonce w) ''config'' = Some (save_config (config w))"
  by (simp_all add: save_doc_def rt_simps schema_supported_def STATE_SCHEMA_VERSION_def jget_obj)

text \<open>One section: written in order, read back by name.\<close>

lemma section_back:
  assumes "keyed f m" and "\<And>v. v \<in> set (hm_values m) \<Longrightarrow> load (save v) = g v" and "\<And>v. f (g v) = f v"
  shows "by_key f (map load (map save (hm_values m))) = hm_map g m"
proof -
  have "map load (map save (hm_values m)) = map g (hm_values m)" using assms(2) by simp
  then show ?thesis using by_key_values[OF assms(1), of g] assms(3) by (simp only:)
qed

lemma section_same:
  assumes "keyed f m" and "\<And>v. v \<in> set (hm_values m) \<Longrightarrow> load (save v) = v"
  shows "by_key f (map load (map save (hm_values m))) = m"
  using section_back[OF assms(1), of load save "\<lambda>v. v"] assms(2) by (simp add: hm_map_def)

lemma load_doc_save_doc:
  assumes w: "world_ok w" and s: "storable w" and aes: "aes_correct A key" and nonce: "\<And>n k. length (nonce n k) = 12"
  shows "load_doc A key now (save_doc A key nonce w) = Ret (persisted now w)"
proof -
  have st: "list_all (\<lambda>d. pred_option limits_finite (d_resource_limits d)) (hm_values (deployments w))"
    "list_all (\<lambda>h. f32_finite (hpa_target_cpu h)) (hm_values (hpas w))"
    "list_all (\<lambda>q. pred_option f32_finite (q_hard_cpu q)) (hm_values (resource_quotas w))"
    "list_all secret_text (hm_values (secrets w))" "list_all node_finite (hm_values (nodes w))"
    "f32_finite (cfg_llm_temperature (config w))"
    using s by (simp_all add: storable_def)
  have d: "rust_all load_deployment (map save_deployment (hm_values (deployments w))) = Ret (map kept_deployment (hm_values (deployments w)))"
    using st(1) by (intro rust_all_map load_save_deployment) (simp add: list_all_iff)
  have e: "rust_all (load_secret A key) (map (save_secret A key nonce) (hm_values (secrets w))) = Ret (map kept_secret (hm_values (secrets w)))"
    using st(4) by (intro rust_all_map load_save_secret[OF aes nonce]) (simp add: list_all_iff)
  have k: "keyed d_name (deployments w)" "keyed dst_name (daemonsets w)" "keyed job_name (jobs w)" "keyed cj_name (cronjobs w)"
    "keyed hpa_name (hpas w)" "keyed svc_name (services w)" "keyed ig_name (ingresses w)" "keyed np_name (network_policies w)"
    "keyed cm_name (configmaps w)" "keyed se_name (secrets w)" "keyed pv_name (pvs w)" "keyed pvc_name (pvcs w)"
    "keyed pl_name (pipelines w)" "keyed repo_name (repositories w)" "keyed fn_name (w_functions w)" "keyed cn_name (nodes w)"
    "keyed gd_name (guards w)" "keyed op_name (operators w)" "keyed role_name (rbac_roles w)" "keyed cr_name (custom_resources w)"
    "keyed aw_name (admission_webhooks w)" "keyed quota_key (resource_quotas w)" "hm_ok (manifests w)"
    using w by (simp_all add: world_ok_def)
  have dd: "by_key d_name (map kept_deployment (hm_values (deployments w))) = hm_map kept_deployment (deployments w)"
    by (rule by_key_values[OF k(1)]) (simp add: kept_deployment_def)
  have ee: "by_key se_name (map kept_secret (hm_values (secrets w))) = hm_map kept_secret (secrets w)"
    by (rule by_key_values[OF k(10)]) (simp add: kept_secret_def)
  note kept =
    section_back[OF k(9), of load_configmap save_configmap kept_configmap, OF load_save_configmap] section_back[OF k(2), of load_daemonset save_daemonset kept_daemonset, OF load_save_daemonset] section_back[OF k(3), of load_job save_job kept_job, OF load_save_job]
    section_back[OF k(4), of load_cronjob save_cronjob kept_cronjob, OF load_save_cronjob] section_back[OF k(6), of load_service save_service kept_service, OF load_save_service] section_back[OF k(13), of load_pipeline save_pipeline kept_pipeline, OF load_save_pipeline]
    section_back[OF k(15), of load_function save_function kept_function, OF load_save_function] section_back[OF k(17), of load_guard save_guard kept_guard, OF load_save_guard] section_back[OF k(18), of load_operator save_operator kept_operator, OF load_save_operator]
  note same =
    section_same[OF k(7), of load_ingress save_ingress, OF load_save_ingress] section_same[OF k(8), of load_network_policy save_network_policy, OF load_save_network_policy] section_same[OF k(11), of load_pv save_pv, OF load_save_pv]
    section_same[OF k(12), of load_pvc save_pvc, OF load_save_pvc] section_same[OF k(14), of load_repository save_repository, OF load_save_repository] section_same[OF k(19), of load_role save_role, OF load_save_role]
    section_same[OF k(20), of load_custom_resource save_custom_resource, OF load_save_custom_resource] section_same[OF k(21), of load_webhook save_webhook, OF load_save_webhook]
  have h: "by_key hpa_name (map load_hpa (map save_hpa (hm_values (hpas w)))) = hm_map kept_hpa (hpas w)"
    using st(2) by (intro section_back[OF k(5)] load_save_hpa) (simp_all add: list_all_iff kept_hpa_def)
  have q: "by_key quota_key (map load_quota (map save_quota (hm_values (resource_quotas w)))) = resource_quotas w"
    using st(3) by (intro section_same[OF k(22)] load_save_quota) (simp add: list_all_iff)
  have n: "by_key cn_name (map (load_node now) (map save_node (hm_values (nodes w)))) = hm_map (kept_node now) (nodes w)"
    using st(5) by (intro section_back[OF k(16)] load_save_node) (simp_all add: list_all_iff kept_node_def)
  have m: "hm_collect (bt_collect (manifests w)) = bt_collect (manifests w)"
    by (rule hm_collect_id[OF bt_ok_hm_ok[OF bt_collect_ok]])
  have c: "load_config (Some (save_config (config w))) default_config = kept_config (config w)"
    by (rule load_save_config[OF st(6)])
  show ?thesis
    unfolding load_doc_def sections other_members d e persisted_def
    by (simp add: other_members dd ee kept same h q n m c kept_configmap_def kept_daemonset_def kept_job_def kept_cronjob_def kept_service_def
      kept_pipeline_def kept_function_def kept_guard_def kept_operator_def del: map_map)
qed

lemma hm_map_map: "hm_map f (hm_map g m) = hm_map (\<lambda>v. f (g v)) m"
  by (simp add: hm_map_def split_def)

lemma keyed_hm_map: "keyed f m \<Longrightarrow> (\<And>v. f (g v) = f v) \<Longrightarrow> keyed f (hm_map g m)"
  by (auto simp: keyed_def hm_map_def hm_ok_def split_def comp_def)

text \<open>No resource changes its name, and nothing that is left is lost a second time.\<close>

lemmas kept_defs = kept_container_def kept_plain_container_def kept_deployment_def kept_configmap_def kept_secret_def
  kept_daemonset_def kept_job_def kept_cronjob_def kept_hpa_def kept_service_def kept_pipeline_def kept_config_def
  kept_function_def kept_guard_def kept_operator_def kept_node_def

lemma kept_names:
  "d_name (kept_deployment d) = d_name d" "cm_name (kept_configmap c) = cm_name c" "se_name (kept_secret s) = se_name s"
  "dst_name (kept_daemonset e) = dst_name e" "job_name (kept_job j) = job_name j" "cj_name (kept_cronjob cj) = cj_name cj"
  "hpa_name (kept_hpa h) = hpa_name h" "svc_name (kept_service sv) = svc_name sv" "pl_name (kept_pipeline p) = pl_name p"
  "fn_name (kept_function f) = fn_name f" "gd_name (kept_guard g) = gd_name g" "op_name (kept_operator q) = op_name q"
  "cn_name (kept_node now n) = cn_name n"
  by (simp_all add: kept_defs)

lemma kept_strategy_again: "kept_strategy (kept_strategy s) = kept_strategy s"
  by (cases s) simp_all

lemma kept_again:
  "kept_deployment (kept_deployment d) = kept_deployment d" "kept_configmap (kept_configmap c) = kept_configmap c"
  "kept_secret (kept_secret s) = kept_secret s" "kept_daemonset (kept_daemonset e) = kept_daemonset e"
  "kept_job (kept_job j) = kept_job j" "kept_cronjob (kept_cronjob cj) = kept_cronjob cj" "kept_hpa (kept_hpa h) = kept_hpa h"
  "kept_service (kept_service sv) = kept_service sv" "kept_pipeline (kept_pipeline p) = kept_pipeline p"
  "kept_config (kept_config cf) = kept_config cf" "kept_function (kept_function f) = kept_function f"
  "kept_guard (kept_guard g) = kept_guard g" "kept_operator (kept_operator q) = kept_operator q"
  "kept_node later (kept_node now n) = kept_node later n"
  by (simp_all add: kept_defs comp_def bt_collect_sorted option.map_comp kept_strategy_again)

subsection \<open>Files\<close>

lemma neural_of_full:
  "\<exists>ns. neural_of T emb doc = Ret ns \<and> ns_ok ns \<and> ns_map ns ''_full'' = Some (st_pretty T doc)"
proof -
  have keys: "k \<noteq> ''_full''" if "(k, v) \<in> set (neural_items T doc)" for k v
  proof -
    have "CHR ''/'' \<in> set k" using that by (auto simp: neural_items_def set_filter_map)
    then show ?thesis by auto
  qed
  have "\<exists>ns. fold (\<lambda>(k, v) s. rust_bind s (ns_set emb k v)) kvs (Ret s) = Ret ns \<and> ns_ok ns \<and> ns_map ns ''_full'' = ns_map s ''_full''"
    if "ns_ok s" "\<And>k v. (k, v) \<in> set kvs \<Longrightarrow> k \<noteq> ''_full''" for kvs s
    using that
  proof (induction kvs arbitrary: s)
    case (Cons kv kvs)
    obtain k v where kv: "kv = (k, v)" by (cases kv)
    obtain s' where "ns_set emb k v s = Ret s'" "ns_ok s'" "ns_map s' = (ns_map s)(k \<mapsto> v)"
      using ns_set_ok[OF Cons.prems(1)] by blast
    moreover have "k \<noteq> ''_full''" using Cons.prems(2)[of k v] kv by auto
    ultimately show ?case using Cons.IH[of s'] Cons.prems(2) kv by auto
  qed simp
  moreover obtain s' where "ns_set emb ''_full'' (st_pretty T doc) ns_new = Ret s'" "ns_ok s'"
      "ns_map s' = (ns_map ns_new)(''_full'' \<mapsto> st_pretty T doc)"
    using ns_set_ok[OF ns_ok_new] by blast
  ultimately show ?thesis using keys by (fastforce simp: neural_of_def)
qed

lemma neural_content_saved:
  assumes "neural_of T emb doc = Ret ns" and "ns_fits ns" and "utf8_valid (st_pretty T doc)"
  shows "neural_content (Some (ns_save ns)) = Ret (Some (st_pretty T doc))"
proof -
  have ok: "ns_ok ns" "ns_map ns ''_full'' = Some (st_pretty T doc)" using neural_of_full[of T emb doc] assms(1) by auto
  obtain s' where s': "ns_load (ns_save ns) = Ret (Inr s')" "ns_ok s'" "ns_map s' = ns_map ns"
    using ns_load_save[OF ok(1) assms(2)] by blast
  then show ?thesis using ok(2) assms(3) by (simp add: neural_content_def ns_get_ok)
qed

text \<open>A written state can be read: its text parses back, is UTF-8, and fits the neural file's 32-bit lengths.\<close>

definition readable :: "serde_text \<Rightarrow> (string \<Rightarrow> nat \<Rightarrow> u32 list) \<Rightarrow> json \<Rightarrow> bool" where
  "readable T emb doc =
     (st_parse T (st_pretty T doc) = Some doc \<and> utf8_valid (st_pretty T doc)
      \<and> (case neural_of T emb doc of Ret ns \<Rightarrow> ns_fits ns | Panic \<Rightarrow> False))"

lemma load_neural_file:
  assumes "readable T emb doc" and "neural_of T emb doc = Ret ns" and "sf_neural f = Some (ns_save ns)"
  shows "load_state T A key now f = load_doc A key now doc"
  using neural_content_saved[OF assms(2)] assms by (simp add: load_state_def readable_def)

lemma load_json_file:
  assumes "readable T emb doc" and "sf_neural f = None" and "sf_json f = Some (st_pretty T doc)"
  shows "load_state T A key now f = load_doc A key now doc"
  using assms by (simp add: load_state_def neural_content_def readable_def)

lemma save_state_Ret:
  assumes "doc = save_doc A key nonce w"
  obtains ns where "neural_of T emb doc = Ret ns"
    and "save_state T emb A key nonce D w f =
      Ret (f\<lparr>sf_neural := if dk_neural D then Some (ns_save ns) else sf_neural f,
             sf_json := write_backup D (st_pretty T doc) (sf_json f)\<rparr>)"
  using neural_of_full[of T emb doc] assms that by (auto simp: save_state_def Let_def)

lemma save_then_load:
  assumes "world_ok w" and "storable w" and "aes_correct A key" and "\<And>n k. length (nonce n k) = 12"
    and "readable T emb (save_doc A key nonce w)"
    and "dk_neural D \<or> sf_neural f = None \<and> dk_tmp D \<and> dk_rename D"
  shows "\<exists>f'. save_state T emb A key nonce D w f = Ret f' \<and> load_state T A key now f' = Ret (persisted now w)"
proof -
  let ?doc = "save_doc A key nonce w"
  obtain ns where ns: "neural_of T emb ?doc = Ret ns"
    and sv: "save_state T emb A key nonce D w f =
      Ret (f\<lparr>sf_neural := if dk_neural D then Some (ns_save ns) else sf_neural f,
             sf_json := write_backup D (st_pretty T ?doc) (sf_json f)\<rparr>)"
    by (rule save_state_Ret[OF refl])
  have "load_state T A key now (f\<lparr>sf_neural := if dk_neural D then Some (ns_save ns) else sf_neural f,
             sf_json := write_backup D (st_pretty T ?doc) (sf_json f)\<rparr>) = load_doc A key now ?doc"
    using assms(6) load_neural_file[OF assms(5) ns] load_json_file[OF assms(5)] by (auto simp: write_backup_def)
  then show ?thesis using sv load_doc_save_doc[OF assms(1-4)] by simp
qed

subsection \<open>Properties\<close>

text \<open>
  C7: Saving the state and loading it after a restart restores the cluster: every resource that is written
  comes back under its name, and the world that is loaded is exactly \<open>persisted\<close> of the one that was saved, whether
  it is read from the neural file or, when there is none, from the JSON backup. Secret values come back in the clear.
  Needed for it: the world is well formed, its numbers are finite, the cipher decrypts what it encrypted, and
  the text parses back.
\<close>
theorem state_survives_restart:
  assumes "world_ok w" and "storable w" and "aes_correct A key" and "\<And>n k. length (nonce n k) = 12"
    and "readable T emb (save_doc A key nonce w)"
    and "dk_neural D \<or> sf_neural f = None \<and> dk_tmp D \<and> dk_rename D"
  shows "\<exists>f'. save_state T emb A key nonce D w f = Ret f' \<and> load_state T A key now f' = Ret (persisted now w)"
  by (rule save_then_load[OF assms])

text \<open>
  A restart loses what it loses once: what the first restart left is well formed and comes back
  unchanged from every later one.
\<close>
theorem restart_stable:
  assumes "world_ok w"
  shows "world_ok (persisted now w) \<and> persisted later (persisted now w) = persisted later w"
proof
  show "world_ok (persisted now w)"
    using assms by (simp add: world_ok_def persisted_def world_new_def keyed_hm_map bt_ok_hm_ok kept_names)
  show "persisted later (persisted now w) = persisted later w"
    by (simp add: persisted_def hm_map_map kept_again bt_collect_sorted)
qed

text \<open>
  C22: When writing the neural file fails (a full disk, say) and the backup succeeds, a restart restores the
  older state of the neural file and not the newer one of the backup: every change since is gone.
\<close>
theorem stale_neural_file_wins:
  assumes "world_ok w0" and "storable w0" and "aes_correct A key" and "\<And>n k. length (nonce n k) = 12"
    and "readable T emb (save_doc A key nonce w0)" and "dk_neural D0"
    and "save_state T emb A key nonce D0 w0 f0 = Ret f" and "\<not> dk_neural D" and "dk_tmp D" and "dk_rename D"
  shows "\<exists>f'. save_state T emb A key nonce D w f = Ret f'
    \<and> sf_json f' = Some (st_pretty T (save_doc A key nonce w)) \<and> load_state T A key now f' = Ret (persisted now w0)"
proof -
  let ?doc = "save_doc A key nonce w0"
  obtain ns where ns: "neural_of T emb ?doc = Ret ns" and "sf_neural f = Some (ns_save ns)"
  proof (rule save_state_Ret[OF refl, of T emb A key nonce w0 D0 f0])
    fix ns
    assume "neural_of T emb ?doc = Ret ns" and "save_state T emb A key nonce D0 w0 f0 =
      Ret (f0\<lparr>sf_neural := if dk_neural D0 then Some (ns_save ns) else sf_neural f0,
             sf_json := write_backup D0 (st_pretty T ?doc) (sf_json f0)\<rparr>)"
    then show thesis using assms(6,7) that by auto
  qed
  moreover have "save_state T emb A key nonce D w f =
      Ret (f\<lparr>sf_json := Some (st_pretty T (save_doc A key nonce w))\<rparr>)"
    by (rule save_state_Ret[OF refl, of T emb A key nonce w D f]) (simp add: write_backup_def assms(8-10))
  ultimately show ?thesis
    using load_neural_file[OF assms(5) ns] load_doc_save_doc[OF assms(1-4)] by simp
qed

definition sample_aes :: aes_gcm where
  "sample_aes = \<lparr>aes_encrypt = \<lambda>k n p. Some (p @ k), aes_decrypt = \<lambda>k n c. Some (take (length c - length k) c)\<rparr>"

definition saved_world :: "json desired_world" where
  "saved_world = world_new\<lparr>namespaces := [''default'', ''prod''],
     secrets := [(''db'', \<lparr>se_name = ''db'', se_namespace = ''prod'', se_data = [(''user'', ''root'')]\<rparr>)],
     configmaps := [(''app'', \<lparr>cm_name = ''app'', cm_namespace = ''prod'', cm_data = [(''z'', ''1''), (''a'', ''2'')]\<rparr>)]\<rparr>"

definition sample_nonce :: "string \<Rightarrow> string \<Rightarrow> string" where
  "sample_nonce n k = replicate 12 (CHR ''n'')"

definition sample_doc :: json where
  "sample_doc = save_doc sample_aes ''key'' sample_nonce saved_world"

definition sample_text :: serde_text where
  "sample_text = \<lparr>st_print = \<lambda>v. ''{}'', st_pretty = \<lambda>v. ''{}'', st_parse = \<lambda>s. Some sample_doc\<rparr>"

definition sample_emb :: "string \<Rightarrow> nat \<Rightarrow> u32 list" where
  "sample_emb k n = replicate n 0"

lemma sample_items:
  "neural_items sample_text sample_doc = [(''configmaps/prod/app'', ''{}''), (''secrets/prod/db'', ''{}'')]"
  by code_simp

lemma sample_pretty: "st_pretty sample_text v = ''{}''"
  by (simp add: sample_text_def)

lemma sample_readable: "readable sample_text sample_emb sample_doc"
proof -
  define e where "e = (\<lambda>k. \<lparr>en_key = k, en_embedding = replicate 64 (0 :: u32), en_value = ''{}''\<rparr>)"
  obtain ns where ns: "neural_of sample_text sample_emb sample_doc = Ret ns" "ns_dim ns = 64"
    "ns_entries ns = [e ''_full'', e ''configmaps/prod/app'', e ''secrets/prod/db'']"
    by (simp add: neural_of_def sample_items sample_pretty ns_set_def ns_new_def hm_get_Cons e_def sample_emb_def Let_def)
  have "utf8_valid ''_full''" "utf8_valid ''configmaps/prod/app''" "utf8_valid ''secrets/prod/db''" "utf8_valid ''{}''"
    by (auto intro!: utf8_valid_ascii simp: byte_in_def)
  then show ?thesis using ns by (simp add: readable_def ns_fits_def entry_fits_def e_def sample_text_def)
qed

lemma sample_cipher: "aes_correct sample_aes ''key''" "length (sample_nonce n k) = 12"
  by (simp_all add: aes_correct_def sample_aes_def sample_nonce_def)

lemma saved_world_ok: "world_ok saved_world" "storable saved_world"
proof -
  have "utf8_valid ''root''" by (auto intro!: utf8_valid_ascii simp: byte_in_def)
  moreover have "f32_finite (cfg_llm_temperature (default_config))" by code_simp
  ultimately show "storable saved_world"
    by (simp add: storable_def saved_world_def world_new_def secret_text_def hm_values_def hm_ok_def)
  show "world_ok saved_world"
    by (simp add: world_ok_def saved_world_def world_new_def keyed_def hm_ok_def)
qed

definition good_disk :: disk where
  "good_disk = \<lparr>dk_neural = True, dk_tmp = True, dk_rename = True, dk_direct = \<lambda>old new. Some new\<rparr>"

definition full_disk :: disk where
  "full_disk = good_disk\<lparr>dk_neural := False\<rparr>"

definition no_files :: state_files where
  "no_files = \<lparr>sf_neural = None, sf_json = None\<rparr>"

theorem state_survives_restart_witness:
  "\<exists>f. save_state sample_text sample_emb sample_aes ''key'' sample_nonce good_disk saved_world no_files = Ret f
     \<and> load_state sample_text sample_aes ''key'' 100 f = Ret (persisted 100 saved_world)
     \<and> map_option se_data (hm_get (secrets (persisted 100 saved_world)) ''db'') = Some [(''user'', ''root'')]"
proof -
  have "map_option se_data (hm_get (secrets (persisted 100 saved_world)) ''db'') = Some [(''user'', ''root'')]"
    by (simp add: persisted_def saved_world_def hm_get_map kept_secret_def bt_collect_def hm_get_Cons)
  moreover have "readable sample_text sample_emb (save_doc sample_aes ''key'' sample_nonce saved_world)"
    using sample_readable by (simp add: sample_doc_def)
  ultimately show ?thesis
    using state_survives_restart[where D = good_disk, OF saved_world_ok sample_cipher] by (simp add: good_disk_def)
qed

theorem stale_neural_file_wins_witness:
  "\<exists>f f'. save_state sample_text sample_emb sample_aes ''key'' sample_nonce good_disk saved_world no_files = Ret f
     \<and> save_state sample_text sample_emb sample_aes ''key'' sample_nonce full_disk world_new f = Ret f'
     \<and> load_state sample_text sample_aes ''key'' 100 f' = Ret (persisted 100 saved_world)"
proof -
  have r: "readable sample_text sample_emb (save_doc sample_aes ''key'' sample_nonce saved_world)"
    using sample_readable by (simp add: sample_doc_def)
  obtain f where f: "save_state sample_text sample_emb sample_aes ''key'' sample_nonce good_disk saved_world no_files = Ret f"
    using save_state_Ret[OF refl, of sample_text sample_emb sample_aes "''key''" sample_nonce saved_world good_disk no_files] by blast
  have d: "dk_neural good_disk" "\<not> dk_neural full_disk" "dk_tmp full_disk" "dk_rename full_disk"
    by (simp_all add: good_disk_def full_disk_def)
  show ?thesis
    using stale_neural_file_wins[where w = world_new, OF saved_world_ok sample_cipher r d(1) f d(2-)] f by blast
qed

end
