(* ===== verification/State_Sync.thy ===== *)
theory State_Sync
  imports State_Save Cluster
begin

text \<open>
  \<open>export_state\<close>, \<^verbatim>\<open>src/src/reconcile.rs\<close>: the document a node sends to its peers, which they merge with \<open>merge_state\<close>.
\<close>

text \<open>A map under its keys: \<open>collect::<serde_json::Map>()\<close>.\<close>

definition j_entries :: "('v \<Rightarrow> json) \<Rightarrow> (string, 'v) hmap \<Rightarrow> json" where
  "j_entries f m = j_obj (map (\<lambda>(k, v). (k, f v)) m)"

definition export_node :: "cluster_node \<Rightarrow> json" where
  "export_node n =
     j_obj [(''name'', JStr (cn_name n)), (''address'', JStr (cn_address n)),
            (''cpuCapacity'', j_f32 (cn_cpu_capacity n)), (''memCapacity'', j_f32 (cn_mem_capacity n)),
            (''cpuUsed'', j_f32 (cn_cpu_used n)), (''memUsed'', j_f32 (cn_mem_used n)),
            (''podCount'', j_u32 (cn_pod_count n)), (''joinedAt'', JPos (cn_joined_at n)),
            (''status'', JStr (node_status_name (cn_status n)))]"

definition export_deployment :: "stored_deployment \<Rightarrow> json" where
  "export_deployment d =
     j_obj [(''name'', JStr (d_name d)), (''namespace'', JStr (d_namespace d)), (''replicas'', j_u32 (d_replicas d)),
            (''image'', JStr (d_image d)), (''paused'', JBool (d_paused d)), (''ownerRef'', j_opt_str (d_owner_ref d)),
            (''containers'', JArr (map (\<lambda>c. j_obj [(''name'', JStr (sc_name c)), (''image'', JStr (sc_image c)), (''env'', j_strs (sc_env c))])
                                    (d_containers d)))]"

definition export_configmap :: "stored_configmap \<Rightarrow> json" where
  "export_configmap c = j_obj [(''name'', JStr (cm_name c)), (''namespace'', JStr (cm_namespace c)), (''data'', j_map (cm_data c))]"

definition export_secret :: "stored_secret \<Rightarrow> json" where
  "export_secret c = j_obj [(''name'', JStr (se_name c)), (''namespace'', JStr (se_namespace c)), (''data'', j_map (se_data c))]"

definition export_ingress :: "stored_ingress \<Rightarrow> json" where
  "export_ingress i =
     j_obj [(''name'', JStr (ig_name i)), (''namespace'', JStr (ig_namespace i)),
            (''rules'', JArr (map (\<lambda>r. j_obj [(''host'', JStr (ir_host r))]) (ig_rules i)))]"

definition export_state :: "json desired_world \<Rightarrow> json" where
  "export_state w =
     j_obj [(''nodes'', j_entries export_node (nodes w)), (''deployments'', j_entries export_deployment (deployments w)),
            (''configmaps'', j_entries export_configmap (configmaps w)), (''secrets'', j_entries export_secret (secrets w)),
            (''ingresses'', j_entries export_ingress (ingresses w)), (''namespaces'', j_strs (namespaces w)),
            (''pipelines'', j_strs (hm_keys (pipelines w))), (''functions'', j_strs (hm_keys (w_functions w)))]"

end
