(* ===== verification/Sync_Props.thy ===== *)
theory Sync_Props
  imports State_Sync State_Props
begin

text \<open>
  Synchronisation between peers, \<open>export_state\<close> on one node and \<open>merge_state\<close> on another: what arrives of a
  deployment and of a config map, and what never does.
\<close>

subsection \<open>What one document carries\<close>

definition synced_container :: "stored_container \<Rightarrow> stored_container" where
  "synced_container c =
     \<lparr>sc_name = sc_name c, sc_image = sc_image c, sc_command = None, sc_env = [], sc_env_from_configmaps = [],
      sc_env_from_secrets = [], sc_volumes = [], sc_liveness_probe = None, sc_readiness_probe = None, sc_startup_probe = None\<rparr>"

definition synced_deployment :: "stored_deployment \<Rightarrow> stored_deployment" where
  "synced_deployment d =
     \<lparr>d_name = d_name d, d_namespace = d_namespace d, d_replicas = d_replicas d, d_init_containers = [],
      d_containers = map synced_container (d_containers d),
      d_image = (case d_containers d of [] \<Rightarrow> [] | c # _ \<Rightarrow> sc_image c), d_previous_image = None, d_command = None,
      d_env = [], d_resource_limits = None, d_strategy = None, d_pause_after_idle = None, d_paused = False,
      d_idle_since = None, d_stateful = False, d_owner_ref = d_owner_ref d\<rparr>"

lemma merged_export_container:
  "merged_container serde_value (j_obj [(''name'', JStr (sc_name c)), (''image'', JStr (sc_image c)), (''env'', j_strs (sc_env c))])
     = synced_container c"
  by (simp add: merged_container_def js_str_def jget_obj synced_container_def)

lemma merged_export_deployment: "merged_deployment serde_value k (export_deployment d) = synced_deployment d"
  by (simp add: merged_deployment_def export_deployment_def js_str_def js_u64_def jget_obj synced_deployment_def rt_simps
      merged_export_container comp_def head_opt_def synced_container_def Let_def split: list.split)

lemma js_object_export:
  assumes "hm_ok m" and "jget v key = Some (j_entries f m)"
  shows "hm_ok (js_object serde_value v key)" and "hm_get (js_object serde_value v key) k = map_option f (hm_get m k)"
proof -
  have e: "js_object serde_value v key = bt_collect (map (\<lambda>(k, v). (k, f v)) m)"
    using assms(2) by (simp add: js_object_def j_entries_def j_obj_def)
  show "hm_ok (js_object serde_value v key)" by (simp add: e bt_ok_hm_ok)
  have "map_of (rev m) = map_of m"
    using assms(1) by (subst map_of_inject_set) (simp_all add: hm_ok_def rev_map[symmetric])
  then show "hm_get (js_object serde_value v key) k = map_option f (hm_get m k)"
    using bt_collect_map[of "\<lambda>_. f" m] bt_collect_get[of m k] by (simp add: e hm_get_def map_of_map)
qed

subsection \<open>What merging adds\<close>

lemma merge_deployment_new:
  assumes "hm_get (deployments (fst s)) k = None" and "hm_ok kvs" and "hm_get kvs k = Some v"
  shows "hm_get (deployments (fst (fold (merge_deployment J) kvs s))) k = Some (merged_deployment J k v)"
  using assms
proof (induction kvs arbitrary: s)
  case (Cons kv kvs)
  show ?case
  proof (cases "fst kv = k")
    case True
    with Cons.prems have "v = snd kv" by (cases kv) (simp add: hm_get_Cons)
    with True Cons.prems(1) have "hm_get (deployments (fst (merge_deployment J kv s))) k = Some (merged_deployment J k v)"
      by (simp add: merge_deployment_def hm_contains_def)
    from merge_deployment_keeps[OF this, of J kvs "snd (merge_deployment J kv s)"] show ?thesis by simp
  next
    case False
    with Cons.prems have "hm_get (deployments (fst (merge_deployment J kv s))) k = None"
      by (simp add: merge_deployment_def)
    with False Cons show ?thesis by (cases kv) (simp add: hm_get_Cons hm_ok_def)
  qed
qed simp

lemma merge_configmap_new:
  assumes "hm_get (configmaps (fst s)) k = None" and "hm_ok kvs" and "hm_get kvs k = Some v"
  shows "hm_get (configmaps (fst (fold (merge_configmap J) kvs s))) k =
    Some \<lparr>cm_name = unwrap_or (js_str J v ''name'') k, cm_namespace = unwrap_or (js_str J v ''namespace'') ''default'',
          cm_data = hm_collect (map (\<lambda>(k, v). (k, unwrap_or (jv_as_str J v) [])) (js_object J v ''data''))\<rparr>"
  using assms
proof (induction kvs arbitrary: s)
  case (Cons kv kvs)
  show ?case
  proof (cases "fst kv = k")
    case True
    with Cons.prems have "v = snd kv" by (cases kv) (simp add: hm_get_Cons)
    with True Cons.prems(1) have "hm_get (configmaps (fst (merge_configmap J kv s))) k = Some \<lparr>cm_name = unwrap_or (js_str J v ''name'') k, cm_namespace = unwrap_or (js_str J v ''namespace'') ''default'',
          cm_data = hm_collect (map (\<lambda>(k, v). (k, unwrap_or (jv_as_str J v) [])) (js_object J v ''data''))\<rparr>"
      by (simp add: merge_configmap_def hm_contains_def)
    from merge_configmap_keeps[OF this, of J kvs "snd (merge_configmap J kv s)"] show ?thesis by simp
  next
    case False
    with Cons.prems have "hm_get (configmaps (fst (merge_configmap J kv s))) k = None"
      by (simp add: merge_configmap_def)
    with False Cons show ?thesis by (cases kv) (simp add: hm_get_Cons hm_ok_def)
  qed
qed simp

lemma merge_secrets_frame: "secrets (fst (merge_state J now remote w)) = secrets w"
proof -
  have f: "secrets (fst (merge_node J now kv s)) = secrets (fst s)" "secrets (fst (merge_namespace J v s)) = secrets (fst s)"
    "secrets (fst (merge_configmap J kv s)) = secrets (fst s)" "secrets (fst (merge_deployment J kv s)) = secrets (fst s)" for kv v s
    by (simp_all add: merge_node_def merge_namespace_def merge_configmap_def merge_deployment_def split_def Let_def split: option.split)
  show ?thesis
    unfolding merge_state_def
    using fold_frame[of secrets "merge_configmap J", OF f(3)] fold_frame[of secrets "merge_deployment J", OF f(4)]
      fold_frame[of secrets "merge_namespace J", OF f(2)] fold_frame[of secrets "merge_node J now", OF f(1)] by simp
qed

lemma merge_state_configmaps:
  obtains s where "configmaps (fst s) = configmaps w"
    and "merge_state J now remote w = fold (merge_configmap J) (js_object J remote ''configmaps'') s"
proof
  let ?s = "fold (merge_deployment J) (js_object J remote ''deployments'')
    (fold (merge_namespace J) (unwrap_or (Option.bind (jv_get J remote ''namespaces'') (jv_as_array J)) [])
      (fold (merge_node J now) (js_object J remote ''nodes'') (w, [])))"
  show "configmaps (fst ?s) = configmaps w"
    using fold_frame[of configmaps "merge_deployment J", OF merge_frames(6)] fold_frame[of configmaps "merge_namespace J", OF merge_frames(5)]
      fold_frame[of configmaps "merge_node J now", OF merge_frames(4)] by simp
  show "merge_state J now remote w = fold (merge_configmap J) (js_object J remote ''configmaps'') ?s" by (simp add: merge_state_def)
qed

text \<open>
  C29: One synchronisation round brings what the peer has and this node lacks: a deployment arrives with its name, namespace, replica count,
  owner, container names and images (its environment, probes, volumes, limits, strategy and the paused flag stay behind), a config map arrives with all its data,
  and no secret arrives although the document carries them in clear.
\<close>
theorem peer_sync_transfers:
  assumes "world_ok peer"
  shows "(\<forall>k d. hm_get (deployments w) k = None \<longrightarrow> hm_get (deployments peer) k = Some d \<longrightarrow>
           hm_get (deployments (fst (merge_state serde_value now (export_state peer) w))) k = Some (synced_deployment d))
    \<and> (\<forall>k c. hm_get (configmaps w) k = None \<longrightarrow> hm_get (configmaps peer) k = Some c \<longrightarrow>
           (\<exists>c'. hm_get (configmaps (fst (merge_state serde_value now (export_state peer) w))) k = Some c'
              \<and> cm_name c' = cm_name c \<and> cm_namespace c' = cm_namespace c \<and> cm_data c' = bt_collect (cm_data c)))
    \<and> secrets (fst (merge_state serde_value now (export_state peer) w)) = secrets w"
proof (intro conjI allI impI merge_secrets_frame)
  let ?doc = "export_state peer"
  have m: "jget ?doc ''deployments'' = Some (j_entries export_deployment (deployments peer))"
    "jget ?doc ''configmaps'' = Some (j_entries export_configmap (configmaps peer))"
    by (simp_all add: export_state_def jget_obj)
  have ok: "hm_ok (deployments peer)" "hm_ok (configmaps peer)" using assms by (simp_all add: world_ok_def keyed_def)
  note dd = js_object_export[OF ok(1) m(1)] and cc = js_object_export[OF ok(2) m(2)]
  {
    fix k d assume k: "hm_get (deployments w) k = None" "hm_get (deployments peer) k = Some d"
    show "hm_get (deployments (fst (merge_state serde_value now ?doc w))) k = Some (synced_deployment d)"
      unfolding merge_state_deployments
      by (subst merge_deployment_new[OF _ dd(1), of _ k "export_deployment d"]) (simp_all add: merge_prefix_deployments k dd(2) merged_export_deployment)
  next
    fix k c assume k: "hm_get (configmaps w) k = None" "hm_get (configmaps peer) k = Some c"
    obtain s where s: "configmaps (fst s) = configmaps w"
      "merge_state serde_value now ?doc w = fold (merge_configmap serde_value) (js_object serde_value ?doc ''configmaps'') s"
      by (rule merge_state_configmaps)
    have "map (\<lambda>(k, v). (k, unwrap_or (jstr v) [])) (bt_collect (map (\<lambda>(k, v). (k, JStr v)) (cm_data c))) = bt_collect (cm_data c)"
      by (subst bt_collect_map) (simp add: comp_def split_def)
    then have d: "hm_collect (map (\<lambda>(k, v). (k, unwrap_or (jstr v) [])) (js_object serde_value (export_configmap c) ''data'')) = bt_collect (cm_data c)"
      by (simp add: js_object_def export_configmap_def jget_obj j_map_def hm_collect_id bt_ok_hm_ok)
    show "\<exists>c'. hm_get (configmaps (fst (merge_state serde_value now ?doc w))) k = Some c'
        \<and> cm_name c' = cm_name c \<and> cm_namespace c' = cm_namespace c \<and> cm_data c' = bt_collect (cm_data c)"
      unfolding s(2)
      by (subst merge_configmap_new[OF _ cc(1), of _ k "export_configmap c"]) (use d in \<open>simp_all add: s(1) k cc(2) js_str_def export_configmap_def jget_obj\<close>)
  }
qed

subsection \<open>A peer with a paused deployment that has an environment\<close>

definition peer_container :: stored_container where
  "peer_container = \<lparr>sc_name = ''app'', sc_image = ''nginx'', sc_command = None, sc_env = [''MODE=prod''], sc_env_from_configmaps = [],
      sc_env_from_secrets = [], sc_volumes = [], sc_liveness_probe = None, sc_readiness_probe = None, sc_startup_probe = None\<rparr>"

definition peer_deployment :: stored_deployment where
  "peer_deployment =
     \<lparr>d_name = ''web'', d_namespace = ''prod'', d_replicas = 3, d_init_containers = [], d_containers = [peer_container], d_image = ''nginx'',
      d_previous_image = None, d_command = None, d_env = [], d_resource_limits = None, d_strategy = None, d_pause_after_idle = None,
      d_paused = True, d_idle_since = None, d_stateful = False, d_owner_ref = None\<rparr>"

definition peer_world :: "json desired_world" where
  "peer_world = world_new\<lparr>deployments := [(''web'', peer_deployment)],
     configmaps := [(''cfg'', \<lparr>cm_name = ''cfg'', cm_namespace = ''prod'', cm_data = [(''b'', ''2''), (''a'', ''1'')]\<rparr>)]\<rparr>"

theorem peer_sync_transfers_witness:
  "\<exists>d. hm_get (deployments (fst (merge_state serde_value 7 (export_state peer_world) world_new))) ''web'' = Some d
     \<and> d_replicas d = 3 \<and> \<not> d_paused d \<and> map sc_env (d_containers d) = [[]]"
proof -
  have "world_ok peer_world"
    by (simp add: peer_world_def peer_deployment_def world_ok_def world_new_def keyed_def hm_ok_def)
  from peer_sync_transfers[OF this, of world_new 7] show ?thesis
    by (simp add: peer_world_def world_new_def hm_get_Cons) (simp add: peer_deployment_def synced_deployment_def synced_container_def)
qed

end
