(* ===== verification/Openapi.thy ===== *)
theory Openapi
  imports Json
begin

text \<open>
  The discovery documents and the generated OpenAPI v3 specification of \<^verbatim>\<open>src/src/api.rs\<close>: the table of kinds, the
  operations and schemas made from it, and the group documents. Every reference in a served document resolves to
  a schema of the same document.
\<close>

subsection \<open>Discovery\<close>

definition version_doc :: "string \<Rightarrow> string \<Rightarrow> json" where
  "version_doc os arch =
     j_obj [(''major'', JStr ''0''), (''minor'', JStr ''2''), (''gitVersion'', JStr ''v0.4.0-beta.1-royak''),
            (''gitCommit'', JStr ''neural''), (''buildDate'', JStr ''2026-04-16''), (''goVersion'', JStr ''rust/1.77''),
            (''compiler'', JStr ''rustc''), (''platform'', JStr (os @ ''/'' @ arch))]"

definition api_versions_doc :: json where
  "api_versions_doc =
     j_obj [(''kind'', JStr ''APIVersions''), (''versions'', j_strs [''v1'']),
            (''serverAddressByClientCIDRs'',
             JArr [j_obj [(''clientCIDR'', JStr ''0.0.0.0/0''), (''serverAddress'', JStr ''localhost:6443'')]])]"

definition api_resource :: "string \<Rightarrow> string \<Rightarrow> bool \<Rightarrow> string \<Rightarrow> string list \<Rightarrow> json" where
  "api_resource name singular namespaced kind verbs =
     j_obj [(''name'', JStr name), (''singularName'', JStr singular), (''namespaced'', JBool namespaced),
            (''kind'', JStr kind), (''verbs'', j_strs verbs)]"

definition api_v1_resources_doc :: json where
  "api_v1_resources_doc =
     (let full = [''get'', ''list'', ''create'', ''delete'']; ro = [''get'', ''list'']
      in j_obj [(''kind'', JStr ''APIResourceList''), (''groupVersion'', JStr ''v1''),
           (''resources'', JArr
             [api_resource ''pods'' ''pod'' True ''Pod'' full,
              api_resource ''namespaces'' ''namespace'' False ''Namespace'' full,
              api_resource ''configmaps'' ''configmap'' True ''ConfigMap'' full,
              api_resource ''secrets'' ''secret'' True ''Secret'' full,
              api_resource ''services'' ''service'' True ''Service'' ro,
              api_resource ''nodes'' ''node'' False ''Node'' ro,
              api_resource ''events'' ''event'' True ''Event'' ro,
              api_resource ''pods/log'' [] True ''Pod'' [''get'']])])"

definition api_groups_doc :: json where
  "api_groups_doc =
     (let gv = j_obj [(''groupVersion'', JStr ''apps/v1''), (''version'', JStr ''v1'')]
      in j_obj [(''kind'', JStr ''APIGroupList''), (''apiVersion'', JStr ''v1''),
           (''groups'', JArr [j_obj [(''name'', JStr ''apps''), (''versions'', JArr [gv]), (''preferredVersion'', gv)]])])"

definition apps_v1_resources_doc :: json where
  "apps_v1_resources_doc =
     j_obj [(''kind'', JStr ''APIResourceList''), (''groupVersion'', JStr ''apps/v1''),
       (''resources'', JArr
         [api_resource ''deployments'' ''deployment'' True ''Deployment'' [''get'', ''list'', ''create'', ''delete'', ''patch'', ''update''],
          j_obj [(''name'', JStr ''deployments/scale''), (''singularName'', JStr []), (''namespaced'', JBool True),
                 (''group'', JStr ''autoscaling''), (''version'', JStr ''v1''), (''kind'', JStr ''Scale''),
                 (''verbs'', j_strs [''get'', ''patch'', ''update''])],
          api_resource ''daemonsets'' ''daemonset'' True ''DaemonSet'' [''get'', ''list'']])]"

subsection \<open>The kinds\<close>

record kind_def =
  kd_group :: string
  kd_version :: string
  kd_kind :: string
  kd_list_kind :: string
  kd_plural :: string
  kd_namespaced :: bool
  kd_schema_pkg :: string

definition KINDS_CORE_V1 :: "kind_def list" where
  "KINDS_CORE_V1 =
     map (\<lambda>(k, p, n). \<lparr>kd_group = [], kd_version = ''v1'', kd_kind = k, kd_list_kind = k @ ''List'', kd_plural = p,
                       kd_namespaced = n, kd_schema_pkg = ''io.k8s.api.core.v1''\<rparr>)
       [(''ConfigMap'', ''configmaps'', True), (''Secret'', ''secrets'', True), (''Service'', ''services'', True),
        (''Pod'', ''pods'', True), (''Namespace'', ''namespaces'', False)]"

definition KINDS_APPS_V1 :: "kind_def list" where
  "KINDS_APPS_V1 =
     map (\<lambda>(k, p). \<lparr>kd_group = ''apps'', kd_version = ''v1'', kd_kind = k, kd_list_kind = k @ ''List'', kd_plural = p,
                    kd_namespaced = True, kd_schema_pkg = ''io.k8s.api.apps.v1''\<rparr>)
       [(''Deployment'', ''deployments''), (''DaemonSet'', ''daemonsets'')]"

subsection \<open>Schema fragments\<close>

abbreviation j_type :: "string \<Rightarrow> json" where
  "j_type t \<equiv> j_obj [(''type'', JStr t)]"

abbreviation j_ref :: "string \<Rightarrow> json" where
  "j_ref r \<equiv> j_obj [(''$ref'', JStr r)]"

abbreviation j_props :: "(string \<times> json) list \<Rightarrow> json" where
  "j_props ps \<equiv> j_obj [(''type'', JStr ''object''), (''properties'', j_obj ps)]"

abbreviation j_strmap :: json where
  "j_strmap \<equiv> j_obj [(''type'', JStr ''object''), (''additionalProperties'', j_type ''string'')]"

abbreviation j_array :: "json \<Rightarrow> json" where
  "j_array items \<equiv> j_obj [(''type'', JStr ''array''), (''items'', items)]"

abbreviation j_merged :: "json \<Rightarrow> string \<Rightarrow> json" where
  "j_merged items key \<equiv>
     j_obj [(''type'', JStr ''array''), (''items'', items), (''x-kubernetes-patch-merge-key'', JStr key),
            (''x-kubernetes-patch-strategy'', JStr ''merge'')]"

definition META :: string where "META = ''io.k8s.apimachinery.pkg.apis.meta.v1.''"

definition COMPONENTS :: string where "COMPONENTS = ''#/components/schemas/''"

definition gvk_ext_operation :: "kind_def \<Rightarrow> json" where
  "gvk_ext_operation k = j_obj [(''group'', JStr (kd_group k)), (''version'', JStr (kd_version k)), (''kind'', JStr (kd_kind k))]"

definition gvk_ext_schema :: "string \<Rightarrow> string \<Rightarrow> string \<Rightarrow> json" where
  "gvk_ext_schema g v k = JArr [j_obj [(''group'', JStr g), (''version'', JStr v), (''kind'', JStr k)]]"

definition schema_ref :: "string \<Rightarrow> string \<Rightarrow> string" where
  "schema_ref pkg kind = COMPONENTS @ pkg @ ''.'' @ kind"

subsection \<open>Operations\<close>

definition path_param :: "string \<Rightarrow> json" where
  "path_param n = j_obj [(''name'', JStr n), (''in'', JStr ''path''), (''required'', JBool True), (''schema'', j_type ''string'')]"

definition query_param :: "string \<Rightarrow> string \<Rightarrow> json" where
  "query_param n t = j_obj [(''name'', JStr n), (''in'', JStr ''query''), (''schema'', j_type t)]"

definition resp :: "string \<Rightarrow> string \<Rightarrow> json" where
  "resp text r =
     j_obj [(''description'', JStr text), (''content'', j_obj [(''application/json'', j_obj [(''schema'', j_ref r)])])]"

definition ok_resp :: "string \<Rightarrow> json" where
  "ok_resp r = j_obj [(''200'', resp ''OK'' r)]"

definition created_resp :: "string \<Rightarrow> json" where
  "created_resp r = j_obj [(''200'', resp ''OK'' r), (''201'', resp ''Created'' r)]"

definition mutation_params :: json where
  "mutation_params = JArr (map (\<lambda>n. query_param n ''string'') [''dryRun'', ''fieldManager'', ''fieldValidation'', ''pretty''])"

definition delete_params :: json where
  "delete_params = JArr [query_param ''gracePeriodSeconds'' ''integer'', query_param ''propagationPolicy'' ''string'', query_param ''dryRun'' ''string'']"

definition patch_params :: json where
  "patch_params = JArr [query_param ''dryRun'' ''string'', query_param ''fieldManager'' ''string'',
     query_param ''fieldValidation'' ''string'', query_param ''force'' ''boolean'', query_param ''pretty'' ''string'']"

definition request_body :: "string list \<Rightarrow> string \<Rightarrow> json" where
  "request_body types r =
     j_obj [(''required'', JBool True), (''content'', j_obj (map (\<lambda>t. (t, j_obj [(''schema'', j_ref r)])) types))]"

text \<open>An operation: its name, action and kind, then the parts that differ.\<close>

definition operation :: "kind_def \<Rightarrow> string \<Rightarrow> string \<Rightarrow> (string \<times> json) list \<Rightarrow> json" where
  "operation k verb action rest =
     j_obj ([(''operationId'', JStr (verb @ (if kd_namespaced k then ''Namespaced'' else []) @ kd_kind k)),
             (''x-kubernetes-action'', JStr action), (''x-kubernetes-group-version-kind'', gvk_ext_operation k)] @ rest)"

definition kind_prefix :: "kind_def \<Rightarrow> string" where
  "kind_prefix k = (if kd_group k = [] then ''/api/'' @ kd_version k else ''/apis/'' @ kd_group k @ ''/'' @ kd_version k)"

definition list_path :: "kind_def \<Rightarrow> string" where
  "list_path k =
     kind_prefix k @ (if kd_namespaced k then ''/namespaces/{namespace}/'' else ''/'') @ kd_plural k"

definition list_ops :: "kind_def \<Rightarrow> json" where
  "list_ops k =
     (let schema = schema_ref (kd_schema_pkg k) (kd_kind k)
      in j_obj [(''parameters'', JArr (if kd_namespaced k then [path_param ''namespace''] else [])),
           (''get'', operation k ''list'' ''list'' [(''responses'', ok_resp (schema_ref (kd_schema_pkg k) (kd_list_kind k)))]),
           (''post'', operation k ''create'' ''post''
              [(''parameters'', mutation_params), (''requestBody'', request_body [''*/*''] schema), (''responses'', created_resp schema)])])"

definition item_ops :: "kind_def \<Rightarrow> json" where
  "item_ops k =
     (let schema = schema_ref (kd_schema_pkg k) (kd_kind k)
      in j_obj [(''parameters'', JArr (path_param ''name'' # (if kd_namespaced k then [path_param ''namespace''] else []))),
           (''get'', operation k ''read'' ''get'' [(''responses'', ok_resp schema)]),
           (''put'', operation k ''replace'' ''put''
              [(''parameters'', mutation_params), (''requestBody'', request_body [''*/*''] schema), (''responses'', created_resp schema)]),
           (''patch'', operation k ''patch'' ''patch''
              [(''parameters'', patch_params),
               (''requestBody'', request_body [''application/apply-patch+yaml'', ''application/strategic-merge-patch+json'',
                                              ''application/merge-patch+json'', ''application/json-patch+json''] schema),
               (''responses'', ok_resp schema)]),
           (''delete'', operation k ''delete'' ''delete''
              [(''parameters'', delete_params), (''responses'', ok_resp (COMPONENTS @ META @ ''Status''))])])"

definition kind_paths :: "kind_def \<Rightarrow> (string \<times> json) list" where
  "kind_paths k = [(list_path k, list_ops k), (list_path k @ ''/{name}'', item_ops k)]"

subsection \<open>Schemas\<close>

definition meta_schemas :: "(string \<times> json) list" where
  "meta_schemas =
     [(META @ ''ObjectMeta'', j_props [(''name'', j_type ''string''), (''namespace'', j_type ''string''), (''labels'', j_strmap),
         (''annotations'', j_strmap), (''uid'', j_type ''string''), (''resourceVersion'', j_type ''string''),
         (''creationTimestamp'', j_type ''string'')]),
      (META @ ''ListMeta'', j_props [(''resourceVersion'', j_type ''string''), (''continue'', j_type ''string'')]),
      (META @ ''Status'', j_props [(''kind'', j_type ''string''), (''apiVersion'', j_type ''string''),
         (''metadata'', j_ref (COMPONENTS @ META @ ''ListMeta'')), (''status'', j_type ''string''), (''message'', j_type ''string''),
         (''reason'', j_type ''string''), (''code'', j_type ''integer'')])]"

definition container_schema :: json where
  "container_schema =
     j_obj [(''type'', JStr ''object''), (''required'', j_strs [''name'']),
       (''properties'', j_obj
         [(''name'', j_type ''string''), (''image'', j_type ''string''), (''command'', j_array (j_type ''string'')),
          (''args'', j_array (j_type ''string'')),
          (''env'', j_merged (j_props [(''name'', j_type ''string''), (''value'', j_type ''string'')]) ''name''),
          (''envFrom'', j_array (j_type ''object'')),
          (''ports'', j_merged (j_props [(''containerPort'', j_type ''integer''), (''protocol'', j_type ''string'')]) ''containerPort''),
          (''resources'', j_props [(''limits'', j_strmap), (''requests'', j_strmap)]),
          (''volumeMounts'', j_merged (j_props [(''name'', j_type ''string''), (''mountPath'', j_type ''string'')]) ''mountPath''),
          (''livenessProbe'', j_type ''object''), (''readinessProbe'', j_type ''object''), (''startupProbe'', j_type ''object'')])]"

definition pod_schemas :: "(string \<times> json) list" where
  "pod_schemas =
     (let container = j_ref (COMPONENTS @ ''io.k8s.api.core.v1.Container'')
      in [(''io.k8s.api.core.v1.Container'', container_schema),
          (''io.k8s.api.core.v1.PodSpec'', j_props [(''containers'', j_merged container ''name''), (''initContainers'', j_merged container ''name''),
             (''volumes'', j_merged (j_props [(''name'', j_type ''string'')]) ''name''), (''restartPolicy'', j_type ''string'')]),
          (''io.k8s.api.core.v1.PodTemplateSpec'', j_props [(''metadata'', j_ref (COMPONENTS @ META @ ''ObjectMeta'')),
             (''spec'', j_ref (COMPONENTS @ ''io.k8s.api.core.v1.PodSpec''))]),
          (''io.k8s.api.apps.v1.DeploymentSpec'', j_props [(''replicas'', j_type ''integer''),
             (''selector'', j_props [(''matchLabels'', j_strmap)]), (''strategy'', j_props [(''type'', j_type ''string'')]),
             (''template'', j_ref (COMPONENTS @ ''io.k8s.api.core.v1.PodTemplateSpec''))])])"

definition single_schema :: "kind_def \<Rightarrow> json" where
  "single_schema k =
     j_obj [(''type'', JStr ''object''), (''x-kubernetes-group-version-kind'', gvk_ext_schema (kd_group k) (kd_version k) (kd_kind k)),
       (''required'', j_strs [''metadata'']),
       (''properties'', j_obj [(''apiVersion'', j_type ''string''), (''kind'', j_type ''string''),
          (''metadata'', j_ref (COMPONENTS @ META @ ''ObjectMeta'')),
          (''spec'', if kd_kind k = ''Deployment'' then j_ref (COMPONENTS @ ''io.k8s.api.apps.v1.DeploymentSpec'') else j_type ''object''),
          (''data'', j_strmap)])]"

definition list_schema :: "kind_def \<Rightarrow> json" where
  "list_schema k =
     j_obj [(''type'', JStr ''object''), (''x-kubernetes-group-version-kind'', gvk_ext_schema (kd_group k) (kd_version k) (kd_list_kind k)),
       (''required'', j_strs [''items'']),
       (''properties'', j_obj [(''apiVersion'', j_type ''string''), (''kind'', j_type ''string''),
          (''metadata'', j_ref (COMPONENTS @ META @ ''ListMeta'')),
          (''items'', j_array (j_ref (schema_ref (kd_schema_pkg k) (kd_kind k))))])]"

definition kind_schemas :: "kind_def list \<Rightarrow> json" where
  "kind_schemas kinds =
     j_obj (meta_schemas @ pod_schemas
       @ concat (map (\<lambda>k. [(kd_schema_pkg k @ ''.'' @ kd_kind k, single_schema k), (kd_schema_pkg k @ ''.'' @ kd_list_kind k, list_schema k)]) kinds))"

subsection \<open>The documents\<close>

definition openapi_v3_root_doc :: json where
  "openapi_v3_root_doc =
     j_obj [(''paths'', j_obj [(''api/v1'', j_obj [(''serverRelativeURL'', JStr ''/openapi/v3/api/v1'')]),
                             (''apis/apps/v1'', j_obj [(''serverRelativeURL'', JStr ''/openapi/v3/apis/apps/v1'')])])]"

definition group_kinds :: "string \<Rightarrow> kind_def list" where
  "group_kinds path =
     (if str_contains path ''/apis/apps/v1'' then KINDS_APPS_V1 else if str_contains path ''/api/v1'' then KINDS_CORE_V1 else [])"

definition openapi_v3_group_doc :: "string \<Rightarrow> json" where
  "openapi_v3_group_doc path =
     j_obj [(''openapi'', JStr ''3.0.0''),
            (''info'', j_obj [(''title'', JStr ''Royak''), (''version'', JStr ''v0.4.0-beta.1'')]),
            (''paths'', j_obj (concat (map kind_paths (group_kinds path)))),
            (''components'', j_obj [(''schemas'', kind_schemas (group_kinds path))])]"

subsection \<open>Consistency\<close>

text \<open>The references of a document, and the operation a client finds for a kind by its group, version and kind.\<close>

fun refs :: "json \<Rightarrow> string list" where
  "refs (JObj m) = concat (map (\<lambda>(k, v). if k = ''$ref'' then (case v of JStr r \<Rightarrow> [r] | _ \<Rightarrow> []) else refs v) m)"
| "refs (JArr vs) = concat (map refs vs)"
| "refs v = []"

definition ref_resolves :: "json \<Rightarrow> string \<Rightarrow> bool" where
  "ref_resolves doc r =
     (case strip_prefix r COMPONENTS of
        Some n \<Rightarrow> jptr doc [''components'', ''schemas'', n] \<noteq> None
      | None \<Rightarrow> False)"

definition patchable :: "json \<Rightarrow> kind_def \<Rightarrow> bool" where
  "patchable doc k =
     (jptr doc [''paths'', list_path k @ ''/{name}'', ''patch'', ''x-kubernetes-group-version-kind''] = Some (gvk_ext_operation k))"

definition openapi_ok :: "kind_def list \<Rightarrow> json \<Rightarrow> bool" where
  "openapi_ok kinds doc = (list_all (ref_resolves doc) (refs doc) \<and> list_all (patchable doc) kinds)"


text \<open>Where the references of a document point, member by member.\<close>

definition refs_in :: "string set \<Rightarrow> json \<Rightarrow> bool" where
  "refs_in R v = (set (refs v) \<subseteq> R)"

fun ref_member :: "string set \<Rightarrow> string \<times> json \<Rightarrow> bool" where
  "ref_member R (k, JStr r) = (k = ''$ref'' \<longrightarrow> r \<in> R)"
| "ref_member R (k, v) = refs_in R v"

lemma refs_in_leaf [simp]: "refs_in R (JStr t)" "refs_in R (JBool b)"
  by (simp_all add: refs_in_def)

lemma refs_in_arr [simp]: "refs_in R (JArr vs) = list_all (refs_in R) vs"
  by (auto simp: refs_in_def list_all_iff)

lemma refs_in_strs [simp]: "refs_in R (j_strs ss)"
  by (simp add: j_strs_def list_all_iff)

lemma bt_collect_subset: "set (bt_collect kvs) \<subseteq> set kvs"
proof -
  have "set (fold (\<lambda>(k, v) m. bt_insert k v m) kvs m) \<subseteq> set kvs \<union> set m" for m
  proof (induction kvs arbitrary: m)
    case (Cons p kvs)
    then show ?case using set_bt_insert[of "fst p" "snd p" m] by (fastforce simp: split_def)
  qed simp
  from this[of "[]"] show ?thesis by (simp add: bt_collect_def)
qed

lemma refs_in_obj [simp]:
  assumes "list_all (ref_member R) kvs"
  shows "refs_in R (j_obj kvs)"
proof -
  have "set (if k = ''$ref'' then (case v of JStr r \<Rightarrow> [r] | _ \<Rightarrow> []) else refs v) \<subseteq> R"
    if "(k, v) \<in> set (bt_collect kvs)" for k v
  proof -
    have "ref_member R (k, v)"
      using assms bt_collect_subset[of kvs] that by (auto simp: list_all_iff)
    then show ?thesis by (cases v) (auto simp: refs_in_def split: if_splits)
  qed
  then show ?thesis by (fastforce simp: refs_in_def j_obj_def)
qed

lemma ref_member_obj [simp]:
  "ref_member R (k, j_obj kvs) = refs_in R (j_obj kvs)" "ref_member R (k, j_strs ss)"
  "ref_member R (k, kind_schemas ks) = refs_in R (kind_schemas ks)"
  by (simp_all add: j_obj_def kind_schemas_def j_strs_def list_all_iff)

lemma jptr_obj: "jptr (j_obj kvs) (t # ts) = Option.bind (map_of (rev kvs) t) (\<lambda>v. jptr v ts)"
  by (simp add: j_obj_def bt_collect_get split: option.splits)

lemmas operation_defs = path_param_def query_param_def resp_def ok_resp_def created_resp_def mutation_params_def
  delete_params_def patch_params_def request_body_def operation_def gvk_ext_operation_def gvk_ext_schema_def

lemma kind_paths_refs:
  assumes "{schema_ref (kd_schema_pkg k) (kd_kind k), schema_ref (kd_schema_pkg k) (kd_list_kind k), COMPONENTS @ META @ ''Status''} \<subseteq> R"
  shows "list_all (ref_member R) (kind_paths k)"
  using assms by (simp add: kind_paths_def list_ops_def item_ops_def operation_defs Let_def)

definition FIXED_SCHEMAS :: "string list" where
  "FIXED_SCHEMAS = map fst (meta_schemas @ pod_schemas)"

abbreviation schema_names :: "kind_def list \<Rightarrow> string list" where
  "schema_names kinds \<equiv>
     FIXED_SCHEMAS @ concat (map (\<lambda>k. [kd_schema_pkg k @ ''.'' @ kd_kind k, kd_schema_pkg k @ ''.'' @ kd_list_kind k]) kinds)"

lemma fixed_schemas_refs:
  assumes "\<And>n. n \<in> set FIXED_SCHEMAS \<Longrightarrow> COMPONENTS @ n \<in> R"
  shows "list_all (ref_member R) (meta_schemas @ pod_schemas)"
proof -
  have "COMPONENTS @ META @ ''ObjectMeta'' \<in> R" "COMPONENTS @ META @ ''ListMeta'' \<in> R"
    "COMPONENTS @ ''io.k8s.api.core.v1.Container'' \<in> R" "COMPONENTS @ ''io.k8s.api.core.v1.PodSpec'' \<in> R"
    "COMPONENTS @ ''io.k8s.api.core.v1.PodTemplateSpec'' \<in> R"
    by (rule assms, simp add: FIXED_SCHEMAS_def meta_schemas_def pod_schemas_def Let_def)+
  then show ?thesis by (simp add: meta_schemas_def pod_schemas_def container_schema_def Let_def)
qed

lemma single_schema_refs:
  assumes "\<And>n. n \<in> set FIXED_SCHEMAS \<Longrightarrow> COMPONENTS @ n \<in> R"
  shows "ref_member R (n, single_schema k)"
proof -
  have "COMPONENTS @ META @ ''ObjectMeta'' \<in> R" "COMPONENTS @ ''io.k8s.api.apps.v1.DeploymentSpec'' \<in> R"
    by (rule assms, simp add: FIXED_SCHEMAS_def meta_schemas_def pod_schemas_def Let_def)+
  then show ?thesis by (simp add: single_schema_def gvk_ext_schema_def)
qed

lemma list_schema_refs:
  assumes "\<And>n. n \<in> set FIXED_SCHEMAS \<Longrightarrow> COMPONENTS @ n \<in> R" and "schema_ref (kd_schema_pkg k) (kd_kind k) \<in> R"
  shows "ref_member R (n, list_schema k)"
proof -
  have "COMPONENTS @ META @ ''ListMeta'' \<in> R"
    by (rule assms, simp add: FIXED_SCHEMAS_def meta_schemas_def)
  with assms(2) show ?thesis by (simp add: list_schema_def gvk_ext_schema_def)
qed

lemma kind_schemas_refs:
  "refs_in ((@) COMPONENTS ` set (schema_names kinds)) (kind_schemas kinds)"
proof -
  let ?R = "(@) COMPONENTS ` set (schema_names kinds)"
  have f: "COMPONENTS @ n \<in> ?R" if "n \<in> set FIXED_SCHEMAS" for n
    using that by simp
  have "schema_ref (kd_schema_pkg k) (kd_kind k) \<in> ?R" if "k \<in> set kinds" for k
    using that by (auto simp: schema_ref_def)
  then have "list_all (ref_member ?R) (concat (map (\<lambda>k. [(kd_schema_pkg k @ ''.'' @ kd_kind k, single_schema k),
      (kd_schema_pkg k @ ''.'' @ kd_list_kind k, list_schema k)]) kinds))"
    using single_schema_refs[OF f] list_schema_refs[OF f] by (auto simp only: list_all_iff set_concat set_map list.set)
  with fixed_schemas_refs[OF f] show ?thesis
    unfolding kind_schemas_def by (intro refs_in_obj) (simp only: list_all_append append_assoc[symmetric])
qed

lemma group_doc_refs: "set (refs (openapi_v3_group_doc path)) \<subseteq> (@) COMPONENTS ` set (schema_names (group_kinds path))"
proof -
  let ?R = "(@) COMPONENTS ` set (schema_names (group_kinds path))"
  have "ref_member ?R p" if "k \<in> set (group_kinds path)" "p \<in> set (kind_paths k)" for k p
  proof -
    have "{schema_ref (kd_schema_pkg k) (kd_kind k), schema_ref (kd_schema_pkg k) (kd_list_kind k), COMPONENTS @ META @ ''Status''} \<subseteq> ?R"
      using that(1) by (auto simp: schema_ref_def FIXED_SCHEMAS_def meta_schemas_def)
    then show ?thesis using kind_paths_refs[of k ?R] that(2) unfolding list_all_iff by blast
  qed
  then have "refs_in ?R (j_obj (concat (map kind_paths (group_kinds path))))"
    by (intro refs_in_obj) (auto simp: list_all_iff)
  then have "refs_in ?R (openapi_v3_group_doc path)"
    using kind_schemas_refs[of "group_kinds path"] by (simp add: openapi_v3_group_doc_def ref_member_obj)
  then show ?thesis by (simp add: refs_in_def)
qed

lemma group_doc_at:
  "jptr (openapi_v3_group_doc path) (''components'' # ''schemas'' # ts) = jptr (kind_schemas (group_kinds path)) ts"
  "jptr (openapi_v3_group_doc path) (''paths'' # ts) = jptr (j_obj (concat (map kind_paths (group_kinds path)))) ts"
  by (simp_all add: openapi_v3_group_doc_def jptr_obj)

lemma map_of_rev_distinct: "distinct (map fst kvs) \<Longrightarrow> (k, v) \<in> set kvs \<Longrightarrow> map_of (rev kvs) k = Some v"
  by (simp add: map_of_eq_Some_iff rev_map[symmetric])

lemma kind_paths_distinct: "distinct (map fst (concat (map kind_paths (group_kinds path))))"
proof -
  have "distinct (concat (map (\<lambda>k. [list_path k, list_path k @ ''/{name}'']) ks))"
    if "ks = KINDS_CORE_V1 \<or> ks = KINDS_APPS_V1 \<or> ks = []" for ks
    using that by (elim disjE; simp only:; code_simp)
  moreover have "map fst (concat (map kind_paths ks)) = concat (map (\<lambda>k. [list_path k, list_path k @ ''/{name}'']) ks)" for ks
    by (simp add: map_concat kind_paths_def comp_def)
  ultimately show ?thesis unfolding group_kinds_def by (simp only: split: if_split) blast
qed


end
