(* ===== verification/Api_State.thy ===== *)
theory Api_State
  imports Docker_Client State_Load Apply Traffic Cluster
begin

text \<open>
  What the request handlers of \<^verbatim>\<open>src/src/api.rs\<close> work on: the shared state of the process (the world behind its
  lock, the resource version, the saved files, the flow log, the engine) and the surroundings of one
  request (clock, environment, libraries). Handlers are functions on that state that return or panic.
  Requests run one after the other: a handler sees no change of the world between two of its own steps.
\<close>

subsection \<open>State and surroundings\<close>

text \<open>
  \<open>api_poisoned\<close> is the flag of \<open>RwLock\<close>: set when a thread panics while it holds the write guard, it makes
  every later \<open>read().unwrap()\<close> and \<open>write().unwrap()\<close> panic.
\<close>

record 's api_state =
  api_world :: "json desired_world"
  api_poisoned :: bool
  api_rv :: u64
  api_files :: state_files
  api_demo_last :: "nat option"
  api_demo_snap :: string
  api_flows :: "flow_record list"
  api_stats :: stats_cache
  api_effects :: "effect list"
  api_engine :: 's

record ('y, 's) api_env =
  ae_exch :: "'s exchange"
  ae_containers :: "string \<Rightarrow> docker_container list result"
  ae_json :: json_text
  ae_pretty :: "json \<Rightarrow> string"
  ae_yaml :: "('y, json) yaml_ops"
  ae_yaml_value :: "string \<Rightarrow> json option"
  ae_yaml_text :: "json \<Rightarrow> string result"
  ae_lower :: "string \<Rightarrow> string"
  ae_machine :: "nat \<Rightarrow> machine"
  ae_emb :: "string \<Rightarrow> nat \<Rightarrow> u32 list"
  ae_aes :: aes_gcm
  ae_key :: string
  ae_nonce :: "string \<Rightarrow> string \<Rightarrow> string"
  ae_disk :: disk
  ae_clock :: u64
  ae_millis :: nat
  ae_var :: "string \<Rightarrow> string option"
  ae_os :: string
  ae_arch :: string
  ae_neuropods :: "(string \<times> string) list"
  ae_pod_meta :: "string \<Rightarrow> bool"
  ae_sample :: "string \<Rightarrow> (f32 \<times> f32) result"
  ae_lag :: "nat \<Rightarrow> nat"
  ae_took :: flt
  ae_leader_or_off :: bool
  ae_raft_leader :: "u64 option"
  ae_net :: "string \<Rightarrow> string \<Rightarrow> string result"

abbreviation ae_text :: "('y, 's) api_env \<Rightarrow> serde_text" where
  "ae_text E \<equiv> \<lparr>st_print = jt_print (ae_json E), st_pretty = ae_pretty E, st_parse = jt_ok (ae_json E)\<rparr>"

subsection \<open>Handlers\<close>

type_synonym ('s, 'a) handler = "'s api_state \<Rightarrow> 'a rust \<times> 's api_state"
type_synonym reply = "u16 \<times> string"

definition h_ret :: "'a \<Rightarrow> ('s, 'a) handler" where
  "h_ret x s = (Ret x, s)"

definition h_bind :: "('s, 'a) handler \<Rightarrow> ('a \<Rightarrow> ('s, 'b) handler) \<Rightarrow> ('s, 'b) handler" where
  "h_bind m f s = (case m s of (Ret x, s') \<Rightarrow> f x s' | (Panic, s') \<Rightarrow> (Panic, s'))"

definition h_panic :: "('s, 'a) handler" where
  "h_panic s = (Panic, s)"

definition h_get :: "('s api_state \<Rightarrow> 'a) \<Rightarrow> ('s, 'a) handler" where
  "h_get f s = (Ret (f s), s)"

definition h_put :: "('s api_state \<Rightarrow> 's api_state) \<Rightarrow> ('s, unit) handler" where
  "h_put f s = (Ret (), f s)"

definition h_rust :: "'a rust \<Rightarrow> ('s, 'a) handler" where
  "h_rust r s = (r, s)"

fun h_map :: "('a \<Rightarrow> ('s, 'b) handler) \<Rightarrow> 'a list \<Rightarrow> ('s, 'b list) handler" where
  "h_map f [] = h_ret []"
| "h_map f (x # xs) = h_bind (f x) (\<lambda>y. h_bind (h_map f xs) (\<lambda>ys. h_ret (y # ys)))"

text \<open>A call of the Docker client.\<close>

definition h_engine :: "('s, 'a) call \<Rightarrow> ('s, 'a result) handler" where
  "h_engine m s = (case m (api_engine s) of (r, e) \<Rightarrow> (r, s\<lparr>api_engine := e\<rparr>))"

text \<open>The lock: \<open>world.read().unwrap()\<close> and \<open>world.write().unwrap()\<close> with the code that runs under the guard.\<close>

definition with_read :: "(json desired_world \<Rightarrow> ('s, 'a) handler) \<Rightarrow> ('s, 'a) handler" where
  "with_read f s = (if api_poisoned s then (Panic, s) else f (api_world s) s)"

definition with_write :: "(json desired_world \<Rightarrow> ('s, 'a) handler) \<Rightarrow> ('s, 'a) handler" where
  "with_write f s =
     (if api_poisoned s then (Panic, s)
      else case f (api_world s) s of
             (Ret x, s') \<Rightarrow> (Ret x, s')
           | (Panic, s') \<Rightarrow> (Panic, s'\<lparr>api_poisoned := True\<rparr>))"

definition set_world :: "json desired_world \<Rightarrow> ('s, unit) handler" where
  "set_world w = h_put (\<lambda>s. s\<lparr>api_world := w\<rparr>)"

definition do_effects :: "effect list \<Rightarrow> ('s, unit) handler" where
  "do_effects es = h_put (\<lambda>s. s\<lparr>api_effects := api_effects s @ es\<rparr>)"

subsection \<open>Resource versions and saving\<close>

definition next_rv :: "('s, string) handler" where
  "next_rv s = (Ret (show_word (api_rv s)), s\<lparr>api_rv := api_rv s + 1\<rparr>)"

definition current_rv :: "('s, string) handler" where
  "current_rv = h_get (\<lambda>s. show_word (api_rv s))"

text \<open>\<open>crate::save_state(crate::state_path(), &w)\<close>.\<close>

definition save_world :: "('y, 's) api_env \<Rightarrow> json desired_world \<Rightarrow> ('s, unit) handler" where
  "save_world E w =
     h_bind (h_get api_files) (\<lambda>f.
     h_bind (h_rust (save_state (ae_text E) (ae_emb E) (ae_aes E) (ae_key E) (ae_nonce E) (ae_disk E) w f)) (\<lambda>f'.
       h_put (\<lambda>s. s\<lparr>api_files := f'\<rparr>)))"

subsection \<open>Laws\<close>

lemmas handler_defs = h_ret_def h_bind_def h_panic_def h_get_def h_put_def h_rust_def h_engine_def
  set_world_def do_effects_def next_rv_def current_rv_def save_world_def

lemma save_world_eq:
  "save_world E w s =
     (case save_state (ae_text E) (ae_emb E) (ae_aes E) (ae_key E) (ae_nonce E) (ae_disk E) w (api_files s) of
        Ret f' \<Rightarrow> (Ret (), s\<lparr>api_files := f'\<rparr>) | Panic \<Rightarrow> (Panic, s))"
  by (simp add: save_world_def handler_defs split: rust.splits)

end
