(* ===== verification/Api_Views.thy ===== *)
theory Api_Views
  imports Api_State Openapi
begin

text \<open>
  The read side of the API, \<^verbatim>\<open>src/src/api.rs\<close>: the objects and lists the server prints for pods, deployments,
  namespaces, config maps, secrets, nodes, services, events and pipelines, and the watch stream.
\<close>

subsection \<open>Status objects\<close>

text \<open>\<open>Value::to_string\<close>.\<close>

abbreviation to_text :: "('y, 's) api_env \<Rightarrow> json \<Rightarrow> string" where
  "to_text E \<equiv> jt_print (ae_json E)"

definition failure :: "string \<Rightarrow> nat \<Rightarrow> json" where
  "failure msg code = j_obj [(''kind'', JStr ''Status''), (''status'', JStr ''Failure''), (''message'', JStr msg), (''code'', j_nat code)]"

definition failure_v1 :: "string \<Rightarrow> nat \<Rightarrow> json" where
  "failure_v1 msg code =
     j_obj [(''kind'', JStr ''Status''), (''apiVersion'', JStr ''v1''), (''status'', JStr ''Failure''), (''message'', JStr msg), (''code'', j_nat code)]"

definition not_found_status :: "('y, 's) api_env \<Rightarrow> string \<Rightarrow> string" where
  "not_found_status E path = to_text E (failure_v1 (''resource not found: '' @ path) 404)"

text \<open>\<open>"name" not found\<close> for a kind.\<close>

definition missing :: "string \<Rightarrow> string \<Rightarrow> json" where
  "missing kind name = failure_v1 (kind @ '' '' @ quoted name @ '' not found'') 404"

definition scale_object :: "('y, 's) api_env \<Rightarrow> string \<Rightarrow> string \<Rightarrow> u32 \<Rightarrow> ('s, string) handler" where
  "scale_object E name ns replicas =
     h_bind current_rv (\<lambda>rv. h_ret (to_text E (j_obj
       [(''kind'', JStr ''Scale''), (''apiVersion'', JStr ''autoscaling/v1''),
        (''metadata'', j_obj [(''name'', JStr name), (''namespace'', JStr ns), (''uid'', JStr (resource_uid ''Scale'' name ns)),
                            (''resourceVersion'', JStr rv)]),
        (''spec'', j_obj [(''replicas'', j_u32 replicas)]),
        (''status'', j_obj [(''replicas'', j_u32 replicas), (''selector'', JStr (''app='' @ name))])])))"

subsection \<open>Pods\<close>

text \<open>The containers as the engine lists them; \<open>.ok()\<close> of that.\<close>

definition containers :: "('y, 's) api_env \<Rightarrow> bool \<Rightarrow> ('s, docker_container list result) handler" where
  "containers E all_c = h_engine (list_containers (ae_exch E) (ae_containers E) all_c)"

fun ok_or_nil :: "'a list result \<Rightarrow> 'a list" where
  "ok_or_nil (Inr xs) = xs"
| "ok_or_nil (Inl e) = []"

definition named :: "string \<Rightarrow> docker_container \<Rightarrow> bool" where
  "named part c = list_ex (\<lambda>n. str_contains n part) (dc_names c)"

definition shown_name :: "docker_container \<Rightarrow> string" where
  "shown_name c = unwrap_or (map_option (trim_start_matches ''/'') (head_opt (dc_names c))) ''?''"

text \<open>\<open>&c.id[..12.min(c.id.len())]\<close>.\<close>

definition short_id :: "docker_container \<Rightarrow> string rust" where
  "short_id c = str_slice (dc_id c) 0 (min 12 (length (dc_id c)))"

definition pod_json :: "('y, 's) api_env \<Rightarrow> string \<Rightarrow> string \<Rightarrow> string \<Rightarrow> string \<Rightarrow> bool \<Rightarrow> ('s, json) handler" where
  "pod_json E name ns img phase running =
     h_bind current_rv (\<lambda>rv. h_ret (j_obj
       [(''apiVersion'', JStr ''v1''), (''kind'', JStr ''Pod''),
        (''metadata'', j_obj
           [(''name'', JStr name), (''namespace'', JStr ns), (''uid'', JStr (resource_uid ''Pod'' name ns)), (''resourceVersion'', JStr rv),
            (''labels'', j_obj [(''app'', JStr (let parts = str_split (CHR ''-'') name in if 1 < length parts then parts ! 1 else name))]),
            (''creationTimestamp'', JStr (now_rfc3339 (ae_clock E)))]),
        (''spec'', j_obj [(''containers'', JArr [j_obj [(''name'', JStr ''main''), (''image'', JStr img)]])]),
        (''status'', j_obj
           [(''phase'', JStr phase),
            (''containerStatuses'', JArr [j_obj [(''name'', JStr ''main''), (''ready'', JBool running), (''restartCount'', j_nat 0),
                                               (''image'', JStr img)]])])]))"

definition pod_phase :: "string \<Rightarrow> string" where
  "pod_phase st =
     (if st = ''running'' then ''Running'' else if st = ''exited'' then ''Succeeded'' else if st = ''dead'' then ''Failed'' else ''Pending'')"

definition pod_namespace :: "docker_container \<Rightarrow> string" where
  "pod_namespace c = unwrap_or (hm_get (dc_labels c) ''royak.namespace'') ''default''"

definition in_ns :: "string option \<Rightarrow> string \<Rightarrow> bool" where
  "in_ns f ns = (f = None \<or> f = Some ns)"

definition get_docker_pods :: "('y, 's) api_env \<Rightarrow> string option \<Rightarrow> ('s, json list) handler" where
  "get_docker_pods E f =
     h_bind (containers E True) (\<lambda>r.
     h_bind (h_map (\<lambda>c. pod_json E (shown_name c) (pod_namespace c) (dc_image c) (pod_phase (dc_state c)) (dc_state c = ''running''))
               (filter (\<lambda>c. named ''rk-'' c \<and> in_ns f (pod_namespace c)) (ok_or_nil r))) (\<lambda>docker_pods.
     h_bind (h_map (\<lambda>(name, img). pod_json E name ''default'' img (if ae_pod_meta E name then ''Running'' else ''Pending'') (ae_pod_meta E name))
               (filter (\<lambda>(name, img). starts_with name ''rk-'' \<and> in_ns f ''default'') (ae_neuropods E))) (\<lambda>neuropods.
       h_ret (docker_pods @ neuropods))))"

text \<open>A list object with the current resource version.\<close>

definition list_object :: "('y, 's) api_env \<Rightarrow> string \<Rightarrow> string \<Rightarrow> json list \<Rightarrow> ('s, string) handler" where
  "list_object E kind version items =
     h_bind current_rv (\<lambda>rv. h_ret (to_text E (j_obj
       [(''kind'', JStr kind), (''apiVersion'', JStr version), (''metadata'', j_obj [(''resourceVersion'', JStr rv)]), (''items'', JArr items)])))"

definition list_pods :: "('y, 's) api_env \<Rightarrow> string option \<Rightarrow> ('s, string) handler" where
  "list_pods E ns = h_bind (get_docker_pods E ns) (list_object E ''PodList'' ''v1'')"

definition get_pod :: "('y, 's) api_env \<Rightarrow> string \<Rightarrow> string \<Rightarrow> ('s, reply) handler" where
  "get_pod E name ns =
     h_bind (get_docker_pods E (Some ns)) (\<lambda>pods.
       h_ret (case find (\<lambda>p. jstr (jat (jat p ''metadata'') ''name'') = Some name) pods of
                Some pod \<Rightarrow> (200, to_text E pod)
              | None \<Rightarrow> (404, to_text E (missing ''pods'' name))))"

subsection \<open>Namespaces\<close>

definition namespace_json :: "('y, 's) api_env \<Rightarrow> string \<Rightarrow> ('s, json) handler" where
  "namespace_json E ns =
     h_bind current_rv (\<lambda>rv. h_ret (j_obj
       [(''apiVersion'', JStr ''v1''), (''kind'', JStr ''Namespace''),
        (''metadata'', j_obj [(''name'', JStr ns), (''uid'', JStr (resource_uid ''Namespace'' ns [])), (''resourceVersion'', JStr rv),
                            (''creationTimestamp'', JStr (now_rfc3339 (ae_clock E)))]),
        (''status'', j_obj [(''phase'', JStr ''Active'')])]))"

definition list_namespaces :: "('y, 's) api_env \<Rightarrow> json desired_world \<Rightarrow> ('s, string) handler" where
  "list_namespaces E w = h_bind (h_map (namespace_json E) (namespaces w)) (list_object E ''NamespaceList'' ''v1'')"

definition get_namespace :: "('y, 's) api_env \<Rightarrow> json desired_world \<Rightarrow> string \<Rightarrow> ('s, reply) handler" where
  "get_namespace E w name =
     (if name \<in> set (namespaces w) then h_bind (namespace_json E name) (\<lambda>v. h_ret (200, to_text E v))
      else h_ret (404, to_text E (missing ''namespaces'' name)))"

subsection \<open>Deployments\<close>

definition deployment_json :: "('y, 's) api_env \<Rightarrow> stored_deployment \<Rightarrow> ('s, json) handler" where
  "deployment_json E d =
     (let prefix = ''rk-'' @ d_name d @ ''-''
      in h_bind (containers E True) (\<lambda>r.
         h_bind current_rv (\<lambda>rv.
           let docker_ready = of_nat (length (filter (\<lambda>c. named prefix c \<and> dc_state c = ''running'') (ok_or_nil r)));
               neuropod_ready = of_nat (length (filter (\<lambda>(name, img). starts_with name prefix) (ae_neuropods E)));
               ready = docker_ready + neuropod_ready :: u32
           in h_ret (j_obj
               [(''apiVersion'', JStr ''apps/v1''), (''kind'', JStr ''Deployment''),
                (''metadata'', j_obj
                   [(''name'', JStr (d_name d)), (''namespace'', JStr (d_namespace d)),
                    (''uid'', JStr (resource_uid ''Deployment'' (d_name d) (d_namespace d))), (''resourceVersion'', JStr rv),
                    (''creationTimestamp'', JStr (now_rfc3339 (ae_clock E)))]),
                (''spec'', j_obj
                   [(''replicas'', j_u32 (d_replicas d)),
                    (''selector'', j_obj [(''matchLabels'', j_obj [(''app'', JStr (d_name d))])]),
                    (''template'', j_obj [(''spec'', j_obj [(''containers'',
                        JArr (map (\<lambda>c. j_obj [(''name'', JStr (sc_name c)), (''image'', JStr (sc_image c))]) (d_containers d)))])])]),
                (''status'', j_obj [(''replicas'', j_u32 (d_replicas d)), (''readyReplicas'', j_u32 ready), (''availableReplicas'', j_u32 ready)])]))))"

definition list_deployments :: "('y, 's) api_env \<Rightarrow> json desired_world \<Rightarrow> string option \<Rightarrow> ('s, string) handler" where
  "list_deployments E w ns =
     h_bind (h_map (deployment_json E) (filter (\<lambda>d. in_ns ns (d_namespace d)) (hm_values (deployments w))))
       (list_object E ''DeploymentList'' ''apps/v1'')"

definition manifest_key :: "string \<Rightarrow> string \<Rightarrow> string" where
  "manifest_key ns name = ''Deployment/'' @ ns @ ''/'' @ name"

text \<open>\<open>j["metadata"]["annotations"] = ann\<close>.\<close>

definition set_in :: "json \<Rightarrow> string \<Rightarrow> string \<Rightarrow> json \<Rightarrow> json rust" where
  "set_in v k1 k2 x = rust_bind (jset (jat v k1) k2 x) (jset v k1)"

definition get_deployment :: "('y, 's) api_env \<Rightarrow> json desired_world \<Rightarrow> string \<Rightarrow> string \<Rightarrow> ('s, reply) handler" where
  "get_deployment E w name ns =
     (case hm_get (deployments w) name of
        Some d \<Rightarrow>
          if d_namespace d = ns then
            h_bind (deployment_json E d) (\<lambda>j.
              case Option.bind (hm_get (manifests w) (manifest_key ns name)) (\<lambda>m.
                   Option.bind (jget m ''metadata'') (\<lambda>md. jget md ''annotations'')) of
                Some ann \<Rightarrow> h_bind (h_rust (set_in j ''metadata'' ''annotations'' ann)) (\<lambda>j'. h_ret (200, to_text E j'))
              | None \<Rightarrow> h_ret (200, to_text E j))
          else h_ret (404, to_text E (missing ''deployments.apps'' name))
      | None \<Rightarrow> h_ret (404, to_text E (missing ''deployments.apps'' name)))"

subsection \<open>Config maps and secrets\<close>

definition configmap_json :: "stored_configmap \<Rightarrow> ('s, json) handler" where
  "configmap_json c =
     h_bind current_rv (\<lambda>rv. h_ret (j_obj
       [(''apiVersion'', JStr ''v1''), (''kind'', JStr ''ConfigMap''),
        (''metadata'', j_obj [(''name'', JStr (cm_name c)), (''namespace'', JStr (cm_namespace c)),
                            (''uid'', JStr (resource_uid ''ConfigMap'' (cm_name c) (cm_namespace c))), (''resourceVersion'', JStr rv)]),
        (''data'', j_map (cm_data c))]))"

definition list_configmaps :: "('y, 's) api_env \<Rightarrow> json desired_world \<Rightarrow> string option \<Rightarrow> ('s, string) handler" where
  "list_configmaps E w ns =
     h_bind (h_map configmap_json (filter (\<lambda>c. in_ns ns (cm_namespace c)) (hm_values (configmaps w)))) (list_object E ''ConfigMapList'' ''v1'')"

definition get_configmap :: "('y, 's) api_env \<Rightarrow> json desired_world \<Rightarrow> string \<Rightarrow> string \<Rightarrow> ('s, reply) handler" where
  "get_configmap E w name ns =
     (case hm_get (configmaps w) name of
        Some c \<Rightarrow> if cm_namespace c = ns then h_bind (configmap_json c) (\<lambda>v. h_ret (200, to_text E v))
                  else h_ret (404, to_text E (missing ''configmaps'' name))
      | None \<Rightarrow> h_ret (404, to_text E (missing ''configmaps'' name)))"

definition secret_json :: "stored_secret \<Rightarrow> ('s, json) handler" where
  "secret_json c =
     h_bind current_rv (\<lambda>rv. h_ret (j_obj
       [(''apiVersion'', JStr ''v1''), (''kind'', JStr ''Secret''),
        (''metadata'', j_obj [(''name'', JStr (se_name c)), (''namespace'', JStr (se_namespace c)),
                            (''uid'', JStr (resource_uid ''Secret'' (se_name c) (se_namespace c))), (''resourceVersion'', JStr rv)]),
        (''type'', JStr ''Opaque''), (''data'', j_map (se_data c))]))"

definition list_secrets :: "('y, 's) api_env \<Rightarrow> json desired_world \<Rightarrow> string option \<Rightarrow> ('s, string) handler" where
  "list_secrets E w ns =
     h_bind (h_map secret_json (filter (\<lambda>c. in_ns ns (se_namespace c)) (hm_values (secrets w)))) (list_object E ''SecretList'' ''v1'')"

definition get_secret :: "('y, 's) api_env \<Rightarrow> json desired_world \<Rightarrow> string \<Rightarrow> string \<Rightarrow> ('s, reply) handler" where
  "get_secret E w name ns =
     (case hm_get (secrets w) name of
        Some c \<Rightarrow> if se_namespace c = ns then h_bind (secret_json c) (\<lambda>v. h_ret (200, to_text E v))
                  else h_ret (404, to_text E (missing ''secrets'' name))
      | None \<Rightarrow> h_ret (404, to_text E (missing ''secrets'' name)))"

subsection \<open>Nodes, services, events, pipelines\<close>

definition node_json ::
  "('y, 's) api_env \<Rightarrow> string \<Rightarrow> string \<Rightarrow> f32 \<Rightarrow> f32 \<Rightarrow> u32 \<Rightarrow> f32 \<Rightarrow> f32 \<Rightarrow> ('s, json) handler" where
  "node_json E name status cpu mem pods cpu_capacity mem_capacity =
     h_bind current_rv (\<lambda>rv. h_ret (j_obj
       [(''apiVersion'', JStr ''v1''), (''kind'', JStr ''Node''),
        (''metadata'', j_obj [(''name'', JStr name), (''uid'', JStr (resource_uid ''Node'' name [])), (''resourceVersion'', JStr rv),
                            (''labels'', j_obj [(''node-role.royak.io/brain'', JStr ''true'')])]),
        (''status'', j_obj
           [(''conditions'', JArr [j_obj [(''type'', JStr ''Ready''), (''status'', JStr (if status = ''Ready'' then ''True'' else ''False'')),
                                        (''reason'', JStr status)]]),
            (''allocatable'', j_obj [(''cpu'', JStr (fmt_fixed 0 cpu_capacity)), (''memory'', JStr (fmt_fixed 0 mem_capacity @ ''Mi'')),
                                   (''pods'', JStr ''110'')]),
            (''nodeInfo'', j_obj [(''kubeletVersion'', JStr ''v0.4.0-beta.1-royak''), (''containerRuntimeVersion'', JStr ''docker://24.0''),
                                (''operatingSystem'', JStr (ae_os E)), (''architecture'', JStr (ae_arch E))])]),
        (''royak'', j_obj [(''cpu_used'', j_f32 cpu), (''mem_used'', j_f32 mem), (''pod_count'', j_u32 pods)])]))"

definition stored_node_json :: "('y, 's) api_env \<Rightarrow> cluster_node \<Rightarrow> ('s, json) handler" where
  "stored_node_json E n =
     node_json E (cn_name n) (node_status_name (cn_status n)) (cn_cpu_used n) (cn_mem_used n) (cn_pod_count n) (cn_cpu_capacity n) (cn_mem_capacity n)"

definition this_host :: "('y, 's) api_env \<Rightarrow> string" where
  "this_host E = unwrap_or (ae_var E ''HOSTNAME'') ''royak-node''"

definition list_nodes :: "('y, 's) api_env \<Rightarrow> json desired_world \<Rightarrow> ('s, string) handler" where
  "list_nodes E w =
     h_bind (if nodes w = []
             then h_map (\<lambda>h. node_json E h ''Ready'' (Zero False) (Zero False) 0 (f32_of_nat 100) (f32_of_nat 8192)) [this_host E]
             else h_map (stored_node_json E) (hm_values (nodes w))) (list_object E ''NodeList'' ''v1'')"

definition get_node :: "('y, 's) api_env \<Rightarrow> json desired_world \<Rightarrow> string \<Rightarrow> ('s, reply) handler" where
  "get_node E w name =
     (case hm_get (nodes w) name of
        Some n \<Rightarrow> h_bind (stored_node_json E n) (\<lambda>v. h_ret (200, to_text E v))
      | None \<Rightarrow> h_ret (404, to_text E (missing ''nodes'' name)))"

definition service_json :: "stored_service \<Rightarrow> json" where
  "service_json sv =
     j_obj [(''apiVersion'', JStr ''v1''), (''kind'', JStr ''Service''),
       (''metadata'', j_obj [(''name'', JStr (svc_name sv)), (''namespace'', JStr (svc_namespace sv)),
                           (''uid'', JStr (resource_uid ''Service'' (svc_name sv) (svc_namespace sv)))]),
       (''spec'', j_obj
          [(''type'', JStr (svc_service_type sv)), (''selector'', j_map (svc_selector sv)),
           (''ports'', JArr (map (\<lambda>p. j_obj [(''port'', j_u16 (sp_port p)), (''targetPort'', j_u16 (sp_target_port p)),
                                         (''protocol'', JStr (sp_protocol p))]) (svc_ports sv)))])]"

definition list_services :: "('y, 's) api_env \<Rightarrow> json desired_world \<Rightarrow> ('s, string) handler" where
  "list_services E w = list_object E ''ServiceList'' ''v1'' (map service_json (hm_values (services w)))"

definition event_json :: "cluster_event \<Rightarrow> json" where
  "event_json e =
     j_obj [(''apiVersion'', JStr ''v1''), (''kind'', JStr ''Event''),
       (''metadata'', j_obj [(''name'', JStr (e_object e @ ''.'' @ show_word (e_count e))), (''namespace'', JStr ''default''),
                           (''uid'', JStr (resource_uid ''Event'' (e_object e) (e_reason e)))]),
       (''involvedObject'', j_obj [(''kind'', JStr (e_kind e)), (''name'', JStr (e_object e))]),
       (''reason'', JStr (e_reason e)), (''message'', JStr (e_message e)), (''type'', JStr (e_event_type e)), (''count'', j_u32 (e_count e)),
       (''firstTimestamp'', JStr (e_first_seen e)), (''lastTimestamp'', JStr (e_last_seen e))]"

definition list_events :: "('y, 's) api_env \<Rightarrow> json desired_world \<Rightarrow> ('s, string) handler" where
  "list_events E w = list_object E ''EventList'' ''v1'' (map event_json (take 50 (rev (events w))))"

definition list_pipelines :: "('y, 's) api_env \<Rightarrow> json desired_world \<Rightarrow> string" where
  "list_pipelines E w =
     to_text E (j_obj
       [(''kind'', JStr ''PipelineList''), (''apiVersion'', JStr ''royak/v1''),
        (''items'', JArr (map (\<lambda>p. j_obj
           [(''kind'', JStr ''Pipeline''), (''metadata'', j_obj [(''name'', JStr (pl_name p))]),
            (''spec'', j_obj [(''stages'', j_strs (map sg_name (pl_stages p))), (''triggers'', j_strs (map tr_trigger_type (pl_triggers p)))])])
          (hm_values (pipelines w))))])"

subsection \<open>Watching\<close>

definition watch_event :: "string \<Rightarrow> json \<Rightarrow> json" where
  "watch_event ty v = j_obj [(''type'', JStr ty), (''object'', v)]"

definition watched_service :: "stored_service \<Rightarrow> json" where
  "watched_service sv =
     j_obj [(''apiVersion'', JStr ''v1''), (''kind'', JStr ''Service''),
       (''metadata'', j_obj [(''name'', JStr (svc_name sv)), (''namespace'', JStr (svc_namespace sv))]),
       (''spec'', j_obj [(''type'', JStr (svc_service_type sv)), (''selector'', j_map (svc_selector sv))])]"

definition watched_event :: "cluster_event \<Rightarrow> json" where
  "watched_event e =
     j_obj [(''kind'', JStr ''Event''), (''reason'', JStr (e_reason e)), (''message'', JStr (e_message e)),
       (''involvedObject'', j_obj [(''kind'', JStr (e_kind e)), (''name'', JStr (e_object e))]),
       (''type'', JStr (e_event_type e)), (''count'', j_u32 (e_count e))]"

definition watched_namespace :: "string \<Rightarrow> json" where
  "watched_namespace ns =
     j_obj [(''apiVersion'', JStr ''v1''), (''kind'', JStr ''Namespace''), (''metadata'', j_obj [(''name'', JStr ns)]),
       (''status'', j_obj [(''phase'', JStr ''Active'')])]"

definition watched_objects :: "('y, 's) api_env \<Rightarrow> string \<Rightarrow> ('s, json list) handler" where
  "watched_objects E kind =
     (if kind = ''pods'' then get_docker_pods E None
      else if kind = ''deployments'' then with_read (\<lambda>w. h_map (deployment_json E) (hm_values (deployments w)))
      else if kind = ''services'' then with_read (\<lambda>w. h_ret (map watched_service (hm_values (services w))))
      else if kind = ''events'' then with_read (\<lambda>w. h_ret (map watched_event (take 20 (rev (events w)))))
      else if kind = ''namespaces'' then with_read (\<lambda>w. h_ret (map watched_namespace (namespaces w)))
      else h_ret [])"

definition build_watch_events :: "('y, 's) api_env \<Rightarrow> string \<Rightarrow> string \<Rightarrow> ('s, string list) handler" where
  "build_watch_events E kind ty = h_bind (watched_objects E kind) (\<lambda>vs. h_ret (map (\<lambda>v. to_text E (watch_event ty v)) vs))"

text \<open>
  The watch task: what it sends first, and what it sends on a tick for the version and the snapshot it has kept.
  Both return the lines and the version and snapshot to keep.
\<close>

type_synonym watcher = "u64 \<times> string list"

abbreviation line_of :: "string \<Rightarrow> string" where
  "line_of s \<equiv> s @ [CHR 0x0A]"

definition watch_start :: "('y, 's) api_env \<Rightarrow> string \<Rightarrow> ('s, string list \<times> watcher) handler" where
  "watch_start E kind =
     h_bind (build_watch_events E kind ''ADDED'') (\<lambda>es.
     h_bind (h_get api_rv) (\<lambda>rv. h_ret (map line_of es, (rv, es))))"

definition deleted_lines :: "('y, 's) api_env \<Rightarrow> string list \<Rightarrow> string list \<Rightarrow> ('s, string list) handler" where
  "deleted_lines E snapshot current =
     h_bind (h_map (\<lambda>old. case jt_ok (ae_json E) old of
                 Some v \<Rightarrow> h_bind (h_rust (jset v ''type'' (JStr ''DELETED''))) (\<lambda>v'. h_ret [line_of (to_text E v')])
               | None \<Rightarrow> h_ret []) (filter (\<lambda>old. old \<notin> set current) snapshot)) (\<lambda>lss. h_ret (concat lss))"

definition watch_tick :: "('y, 's) api_env \<Rightarrow> string \<Rightarrow> watcher \<Rightarrow> ('s, string list \<times> watcher) handler" where
  "watch_tick E kind k =
     h_bind (h_get api_rv) (\<lambda>rv.
       if rv \<le> fst k then h_ret ([], k)
       else h_bind (build_watch_events E kind ''MODIFIED'') (\<lambda>current.
         if current = snd k then h_ret ([], (rv, snd k))
         else h_bind (deleted_lines E (snd k) current) (\<lambda>dels.
           h_ret (map line_of (filter (\<lambda>e. e \<notin> set (snd k)) current) @ dels, (rv, current)))))"

end
