(* ===== verification/Functions.thy ===== *)
theory Functions
  imports Api_State
begin

text \<open>
  \<open>invoke_function\<close>, \<^verbatim>\<open>src/src/reconcile.rs\<close>: a hot function is executed in its container, a cold one in a container
  made for the call, which is polled until it exits or the time is up. The loop looks at the clock before every
  poll and sleeps 200 ms between two polls, so at its \<open>i\<close>-th look at least \<open>200 i\<close> ms have passed; \<open>lag i\<close> is how
  much more. The answer and the world come back in the style of the Docker client's calls.
\<close>

definition tick_mark :: string where
  "tick_mark = [CHR 0xE2, CHR 0x9C, CHR 0x93]"

definition cross_mark :: string where
  "cross_mark = [CHR 0xE2, CHR 0x9C, CHR 0x97]"

definition arrow_mark :: string where
  "arrow_mark = [CHR 0xE2, CHR 0x86, CHR 0x92]"

text \<open>\<open>.ok()\<close> on a call: only a panic stops the caller.\<close>

definition ignore_call :: "('s, 'a) call \<Rightarrow> ('s, unit) call" where
  "ignore_call m = on_result m (\<lambda>_. call_ret ())"

definition head12 :: "string \<Rightarrow> string rust" where
  "head12 i = str_slice i 0 (min 12 (length i))"

definition exited :: "string \<Rightarrow> docker_container list result \<Rightarrow> bool rust" where
  "exited cid r =
     (case r of
        Inr (c # cs) \<Rightarrow> rust_bind (head12 cid) (\<lambda>short.
          Ret (case find (\<lambda>c. starts_with (dc_id c) short) (c # cs) of Some c \<Rightarrow> dc_state c = ''exited'' | None \<Rightarrow> False))
      | _ \<Rightarrow> Ret False)"

text \<open>Waiting for the container to exit: whether it did before the timeout.\<close>

function wait_exit ::
  "('s, docker_container list) call \<Rightarrow> (nat \<Rightarrow> nat) \<Rightarrow> nat \<Rightarrow> string \<Rightarrow> nat \<Rightarrow> ('s, bool) call" where
  "wait_exit listing lag timeout_ms cid i =
     (if timeout_ms < 200 * i + lag i then call_ret False
      else on_result listing (\<lambda>r. try_call (lift_rust (exited cid r)) (\<lambda>done.
        if done then call_ret True else wait_exit listing lag timeout_ms cid (Suc i))))"
  by auto
termination
  by (relation "measure (\<lambda>(_, _, timeout_ms, _, i). Suc timeout_ms - 200 * i)") auto

declare wait_exit.simps [simp del]

text \<open>The output is read again while it is blank, ten times at most.\<close>

definition printable :: "string \<Rightarrow> string" where
  "printable s =
     filter (\<lambda>c. let n = of_char c :: nat in 33 \<le> n \<and> n \<le> 126 \<or> n = 32 \<or> n = 9 \<or> n = 10 \<or> n = 12 \<or> n = 13) s"

fun read_output :: "('s, string) call \<Rightarrow> nat \<Rightarrow> ('s, string) call" where
  "read_output logs 0 = call_ret []"
| "read_output logs (Suc left) =
     on_result logs (\<lambda>r. let clean = printable (case r of Inr s \<Rightarrow> s | Inl _ \<Rightarrow> [])
       in if trim clean \<noteq> [] \<or> left = 0 then call_ret clean else read_output logs left)"

text \<open>\<open>{}\<close> of an exit code.\<close>

definition show_int :: "int \<Rightarrow> string" where
  "show_int n = (if n < 0 then ''-'' @ show_nat (nat (- n)) else show_nat (nat n))"

definition count_call :: "u64 \<Rightarrow> string \<Rightarrow> json desired_world \<Rightarrow> json desired_world" where
  "count_call now name w =
     w\<lparr>w_functions := hm_modify name (\<lambda>f. f\<lparr>fn_invocations := fn_invocations f + 1, fn_last_invoked := Some now\<rparr>) (w_functions w)\<rparr>"

text \<open>A call on a hot function, by the container's short id.\<close>

definition invoke_hot ::
  "('y, 's) api_env \<Rightarrow> string \<Rightarrow> stored_function \<Rightarrow> json desired_world \<Rightarrow> ('s, string result \<times> json desired_world) call" where
  "invoke_hot E name f w =
     (case fn_container_id f of
        None \<Rightarrow> call_ret (Inl ''Container ID missing'', w)
      | Some cid \<Rightarrow>
          try_call (lift_rust (head12 cid)) (\<lambda>short.
          on_result (exec_in_container (ae_exch E) (ae_json E) short (unwrap_or (fn_command f) [''echo'', ''OK''])) (\<lambda>r.
            case r of
              Inl e \<Rightarrow> call_ret (Inl e, w)
            | Inr (code, output) \<Rightarrow>
                let w' = count_call (ae_clock E) name w;
                    tail = '' '' @ arrow_mark @ '' exit '' @ show_int code @ [CHR 0x0A] @ output
                in call_ret (if code = 0 then Inr (tick_mark @ '' '' @ name @ '' (hot)'' @ tail)
                             else Inl (cross_mark @ '' '' @ name @ tail), w'))))"

text \<open>A call on a cold function.\<close>

definition run_cold ::
  "('y, 's) api_env \<Rightarrow> string \<Rightarrow> stored_function \<Rightarrow> string \<Rightarrow> json desired_world \<Rightarrow> ('s, string result \<times> json desired_world) call" where
  "run_cold E name f cid w =
     (let exch = ae_exch E; T = ae_json E; aliases = [''rk-fn-'' @ name, name]
      in on_result (start_container exch cid) (\<lambda>started.
           case started of
             Inl e \<Rightarrow> call_ret (Inl e, w)
           | Inr _ \<Rightarrow>
               try_call (on_result (connect_to_network exch T cid ''rk-default'' aliases) (\<lambda>r.
                   case r of Inr _ \<Rightarrow> call_ret () | Inl _ \<Rightarrow> ignore_call (connect_network exch T cid aliases))) (\<lambda>_.
               try_call (wait_exit (list_containers exch (ae_containers E) True) (ae_lag E) (unat (fn_timeout_secs f) * 1000) cid 0) (\<lambda>done.
                 if \<not> done then
                   try_call (ignore_call (stop_container exch cid)) (\<lambda>_.
                   try_call (ignore_call (remove_container exch cid True)) (\<lambda>_.
                     call_ret (Inl (cross_mark @ '' '' @ name @ '' timed out after '' @ show_word (fn_timeout_secs f) @ ''s''), w)))
                 else
                   try_call (lift_rust (head12 cid)) (\<lambda>short.
                   try_call (read_output (get_logs exch short 100) 10) (\<lambda>clean.
                   try_call (ignore_call (remove_container exch cid True)) (\<lambda>_.
                     call_ret (Inr (tick_mark @ '' '' @ name @ '' ('' @ fmt_fixed 0 (ae_took E) @ ''ms) '' @ arrow_mark @ '' '' @ clean),
                               count_call (ae_clock E) name w))))))))"

definition invoke_cold ::
  "('y, 's) api_env \<Rightarrow> string \<Rightarrow> stored_function \<Rightarrow> json desired_world \<Rightarrow> ('s, string result \<times> json desired_world) call" where
  "invoke_cold E name f w =
     (let exch = ae_exch E;
          cmd = (case fn_command f of None \<Rightarrow> None | Some [] \<Rightarrow> None | Some c \<Rightarrow> Some c);
          env = fn_env f @ [''ROYAK_FUNCTION='' @ name, ''ROYAK_TIMEOUT='' @ show_word (fn_timeout_secs f)]
      in try_call (ignore_call (pull_image exch (fn_image f))) (\<lambda>_.
         try_call (ignore_call (remove_container exch (''rk-fn-'' @ name) True)) (\<lambda>_.
         on_result (create_container exch (ae_json E) (''rk-fn-'' @ name) (fn_image f) cmd env
                      [(''royak.managed'', ''true''), (''royak.function'', name)]) (\<lambda>r.
           case r of
             Inl e \<Rightarrow> call_ret (Inl (cross_mark @ '' '' @ name @ '': '' @ e), w)
           | Inr cid \<Rightarrow> run_cold E name f cid w))))"

definition invoke_function ::
  "('y, 's) api_env \<Rightarrow> string \<Rightarrow> json desired_world \<Rightarrow> ('s, string result \<times> json desired_world) call" where
  "invoke_function E name w =
     (case hm_get (w_functions w) name of
        None \<Rightarrow> call_ret (Inl (''Function '' @ [CHR 0x27] @ name @ [CHR 0x27] @ '' not found''), w)
      | Some f \<Rightarrow>
          (case fn_state f of
             FnHot \<Rightarrow> invoke_hot E name f w
           | FnCold \<Rightarrow> invoke_cold E name f w
           | FnPaused \<Rightarrow> invoke_cold E name f w
           | FnWarming \<Rightarrow> call_ret (Inl (name @ '' is still warming up''), w)))"

subsection \<open>What a call changes\<close>

text \<open>
  The frame of calls that carry a world along: on every way out the world is the old one or the old one
  with the call counted.
\<close>

definition counted :: "('y, 's) api_env \<Rightarrow> string \<Rightarrow> json desired_world \<Rightarrow> string result \<times> json desired_world \<Rightarrow> bool" where
  "counted E name w p = (snd p = w \<or> snd p = count_call (ae_clock E) name w)"

definition yields :: "('a \<Rightarrow> bool) \<Rightarrow> ('s, 'a) call \<Rightarrow> bool" where
  "yields P m = (\<forall>st st' x. m st = (Ret (Inr x), st') \<longrightarrow> P x)"

lemma yields_ret [simp]: "yields P (call_ret x) = P x"
  by (auto simp: yields_def call_ret_def)

lemma yields_fail [simp]: "yields P (call_fail e)"
  by (simp add: yields_def call_fail_def)

lemma yields_on_result: "(\<And>r. yields P (f r)) \<Longrightarrow> yields P (on_result m f)"
  by (auto simp: yields_def on_result_def split: prod.splits rust.splits)

lemma yields_try: "(\<And>x. yields P (f x)) \<Longrightarrow> yields P (try_call m f)"
  unfolding try_call_def by (rule yields_on_result) (simp split: sum.splits)

lemma invoke_function_counted: "yields (counted E name w) (invoke_function E name w)"
proof -
  have "yields (counted E name w) (run_cold E name f cid w)" for f cid
    by (auto simp: run_cold_def counted_def Let_def intro!: yields_on_result yields_try split: sum.splits)
  then have "yields (counted E name w) (invoke_cold E name f w)" for f
    by (auto simp: invoke_cold_def counted_def Let_def intro!: yields_on_result yields_try split: sum.splits)
  moreover have "yields (counted E name w) (invoke_hot E name f w)" for f
    by (auto simp: invoke_hot_def counted_def Let_def intro!: yields_on_result yields_try split: sum.splits option.splits)
  ultimately show ?thesis
    by (auto simp: invoke_function_def counted_def split: option.splits function_state.splits)
qed

lemma count_call_ok: "world_ok w \<Longrightarrow> world_ok (count_call now name w)"
  by (simp add: count_call_def world_ok_keyed keyed_modify)

end
