(* ===== verification/Api_Routes.thy ===== *)
theory Api_Routes
  imports Api_Views Functions State_Sync
begin

text \<open>
  \<open>route_request\<close>, \<^verbatim>\<open>src/src/api.rs\<close>: one definition for each arm of the match over method and path, and the match itself,
  in the order of the source. A reply is a status and a body.
\<close>

record request =
  rq_method :: string
  rq_path :: string
  rq_url :: string
  rq_query :: "string option"
  rq_headers :: headers
  rq_body :: string

text \<open>Raw string literals; a backquote stands for the double quote.\<close>

definition dq :: "string \<Rightarrow> string" where
  "dq s = map (\<lambda>c. if c = CHR 0x60 then CHR 0x22 else c) s"

text \<open>\<open>rsplit('/').next().unwrap_or("")\<close> and \<open>rev().nth(1)\<close> of the parts of a path.\<close>

definition last_part :: "string \<Rightarrow> string" where
  "last_part path = last (str_split (CHR ''/'') path)"

definition part_before_last :: "string \<Rightarrow> string" where
  "part_before_last path = (let ps = rev (str_split (CHR ''/'') path) in if 1 < length ps then ps ! 1 else [])"

abbreviation reply_json :: "('y, 's) api_env \<Rightarrow> u16 \<Rightarrow> json \<Rightarrow> ('s, reply) handler" where
  "reply_json E code v \<equiv> h_ret (code, to_text E v)"

abbreviation reply_fail :: "('y, 's) api_env \<Rightarrow> nat \<Rightarrow> string \<Rightarrow> ('s, reply) handler" where
  "reply_fail E code msg \<equiv> h_ret (of_nat code, to_text E (failure msg code))"

abbreviation status_error :: "string \<Rightarrow> json" where
  "status_error msg \<equiv> j_obj [(''status'', JStr ''error''), (''message'', JStr msg)]"

text \<open>\<open>.ok()\<close> on a call of the engine.\<close>

definition h_ignore :: "('s, 'a) call \<Rightarrow> ('s, unit) handler" where
  "h_ignore m = h_bind (h_engine m) (\<lambda>_. h_ret ())"

subsection \<open>Scale\<close>

definition scale_target :: "string \<Rightarrow> string \<times> string" where
  "scale_target path =
     (let p = trim_end_matches ''/scale'' path in (last_part p, unwrap_or (fst (parse_resource_path p)) ''default''))"

definition route_get_scale :: "('y, 's) api_env \<Rightarrow> request \<Rightarrow> ('s, reply) handler" where
  "route_get_scale E r =
     (let (name, ns) = scale_target (rq_path r)
      in with_read (\<lambda>w. case hm_get (deployments w) name of
           Some d \<Rightarrow> h_bind (scale_object E name ns (d_replicas d)) (\<lambda>t. h_ret (200, t))
         | None \<Rightarrow> h_ret (404, not_found_status E (rq_path r))))"

text \<open>The replica count of a deployment, in the world.\<close>

definition set_replicas :: "string \<Rightarrow> u32 \<Rightarrow> json desired_world \<Rightarrow> json desired_world" where
  "set_replicas name n w = w\<lparr>deployments := hm_modify name (\<lambda>d. d\<lparr>d_replicas := n\<rparr>) (deployments w)\<rparr>"

definition body_value :: "('y, 's) api_env \<Rightarrow> string \<Rightarrow> json option" where
  "body_value E body =
     (let s = utf8_lossy body in opt_or (jt_ok (ae_json E) s) (ae_yaml_value E s))"

definition route_set_scale :: "('y, 's) api_env \<Rightarrow> request \<Rightarrow> ('s, reply) handler" where
  "route_set_scale E r =
     (let (name, ns) = scale_target (rq_path r)
      in case Option.bind (body_value E (rq_body r)) (\<lambda>v. ju64 (jat (jat v ''spec'') ''replicas'')) of
           None \<Rightarrow> h_ret (400, dq ''{`kind`:`Status`,`status`:`Failure`,`message`:`no spec.replicas in patch`,`code`:400}'')
         | Some n \<Rightarrow> with_write (\<lambda>w.
             if hm_contains (deployments w) name then
               h_bind (set_world (set_replicas name (ucast n) w)) (\<lambda>_.
               h_bind (save_world E (set_replicas name (ucast n) w)) (\<lambda>_.
               h_bind next_rv (\<lambda>_. h_bind (scale_object E name ns (ucast n)) (\<lambda>t. h_ret (200, t)))))
             else h_ret (404, not_found_status E (rq_path r))))"

subsection \<open>Demo controls\<close>

definition demo_enabled :: "('y, 's) api_env \<Rightarrow> bool" where
  "demo_enabled E = (case ae_var E ''ROYAK_DEMO'' of Some v \<Rightarrow> v = ''1'' \<or> v = ''true'' | None \<Rightarrow> False)"

definition demo_app :: "('y, 's) api_env \<Rightarrow> string" where
  "demo_app E = unwrap_or (ae_var E ''ROYAK_DEMO_APP'') ''demo''"

definition demo_rate_ok :: "('y, 's) api_env \<Rightarrow> ('s, bool) handler" where
  "demo_rate_ok E =
     h_bind (h_get api_demo_last) (\<lambda>l.
       if (case l of None \<Rightarrow> True | Some t \<Rightarrow> 600 \<le> ae_millis E - t)
       then h_bind (h_put (\<lambda>s. s\<lparr>api_demo_last := Some (ae_millis E)\<rparr>)) (\<lambda>_. h_ret True)
       else h_ret False)"

definition route_demo_state :: "('s, reply) handler" where
  "route_demo_state = h_bind (h_get api_demo_snap) (\<lambda>t. h_ret (200, t))"

definition route_demo_info :: "('y, 's) api_env \<Rightarrow> request \<Rightarrow> ('s, reply) handler" where
  "route_demo_info E r =
     (if \<not> demo_enabled E then h_ret (404, not_found_status E (rq_path r))
      else with_read (\<lambda>w. reply_json E 200 (j_obj
        [(''demo'', JBool True), (''app'', JStr (demo_app E)),
         (''replicas'', j_u32 (unwrap_or (map_option d_replicas (hm_get (deployments w) (demo_app E))) 0)), (''min'', j_nat 1), (''max'', j_nat 5)])))"

definition query_of :: "string \<Rightarrow> (string, string) hmap" where
  "query_of url = (case split_once (CHR ''?'') url of Some (_, q) \<Rightarrow> parse_query (Some q) | None \<Rightarrow> [])"

definition demo_replicas :: "string \<Rightarrow> u32" where
  "demo_replicas url = max 1 (min 5 (unwrap_or (Option.bind (hm_get (query_of url) ''n'') parse_u32) 1))"

definition demo_guard :: "('y, 's) api_env \<Rightarrow> request \<Rightarrow> ('s, reply) handler \<Rightarrow> ('s, reply) handler" where
  "demo_guard E r m =
     (if \<not> demo_enabled E then h_ret (404, not_found_status E (rq_path r))
      else h_bind (demo_rate_ok E) (\<lambda>ok. if ok then m else h_ret (429, dq ''{`status`:`error`,`message`:`slow down`}'')))"

definition route_demo_scale :: "('y, 's) api_env \<Rightarrow> request \<Rightarrow> ('s, reply) handler" where
  "route_demo_scale E r = demo_guard E r (
     let n = demo_replicas (rq_url r); app = demo_app E
     in with_write (\<lambda>w.
          if hm_contains (deployments w) app then
            h_bind (set_world (set_replicas app n w)) (\<lambda>_.
            h_bind (save_world E (set_replicas app n w)) (\<lambda>_.
            h_bind next_rv (\<lambda>_. reply_json E 200 (j_obj [(''status'', JStr ''ok''), (''app'', JStr app), (''replicas'', j_u32 n)]))))
          else reply_json E 404 (status_error (''demo app '' @ [CHR 0x27] @ app @ [CHR 0x27] @ '' not found''))))"

definition own_name :: "string \<Rightarrow> docker_container \<Rightarrow> bool" where
  "own_name prefix c = list_ex (\<lambda>n. starts_with (trim_start_matches ''/'' n) prefix) (dc_names c)"

definition route_demo_kill :: "('y, 's) api_env \<Rightarrow> request \<Rightarrow> ('s, reply) handler" where
  "route_demo_kill E r = demo_guard E r (
     h_bind (containers E False) (\<lambda>cs.
       case find (\<lambda>c. dc_state c = ''running'' \<and> own_name (''rk-'' @ demo_app E @ ''-'') c) (ok_or_nil cs) of
         Some c \<Rightarrow> h_bind (h_ignore (remove_container (ae_exch E) (dc_id c) True)) (\<lambda>_.
                   reply_json E 200 (j_obj [(''status'', JStr ''ok''),
                     (''killed'', JStr (unwrap_or (map_option (trim_start_matches ''/'') (head_opt (dc_names c))) []))]))
       | None \<Rightarrow> reply_json E 200 (j_obj [(''status'', JStr ''ok''), (''killed'', JNull), (''message'', JStr ''no running demo pod'')])))"

subsection \<open>Reading resources\<close>

definition route_get :: "('y, 's) api_env \<Rightarrow> request \<Rightarrow> ('s, reply) handler" where
  "route_get E r = with_read (\<lambda>w.
     let (ns, resource, name) = parse_resource_path (rq_path r); nsd = unwrap_or ns ''default'';
         ok = (\<lambda>m. h_bind m (\<lambda>t. h_ret (200, t)));
         none = reply_json E 404 (failure_v1 (''resource not found: '' @ rq_path r) 404)
     in case name of
          Some n \<Rightarrow>
            if resource = ''pods'' then get_pod E n nsd
            else if resource = ''deployments'' then get_deployment E w n nsd
            else if resource = ''namespaces'' then get_namespace E w n
            else if resource = ''configmaps'' then get_configmap E w n nsd
            else if resource = ''secrets'' then get_secret E w n nsd
            else if resource = ''nodes'' then get_node E w n else none
        | None \<Rightarrow>
            if resource = ''pods'' then ok (list_pods E ns)
            else if resource = ''namespaces'' then ok (list_namespaces E w)
            else if resource = ''deployments'' then ok (list_deployments E w ns)
            else if resource = ''configmaps'' then ok (list_configmaps E w ns)
            else if resource = ''secrets'' then ok (list_secrets E w ns)
            else if resource = ''services'' then ok (list_services E w)
            else if resource = ''nodes'' then ok (list_nodes E w) else none)"

definition route_events :: "('y, 's) api_env \<Rightarrow> ('s, reply) handler" where
  "route_events E = with_read (\<lambda>w. h_bind (list_events E w) (\<lambda>t. h_ret (200, t)))"

definition route_pod_log :: "('y, 's) api_env \<Rightarrow> request \<Rightarrow> ('s, reply) handler" where
  "route_pod_log E r =
     (let pod_name = part_before_last (rq_path r)
      in h_bind (containers E True) (\<lambda>cs. case cs of
           Inl e \<Rightarrow> h_ret (500, ''docker error: '' @ e)
         | Inr cs \<Rightarrow>
             (case find (named pod_name) cs of
                None \<Rightarrow> reply_fail E 404 (''pod '' @ pod_name @ '' not found'')
              | Some c \<Rightarrow> h_bind (h_rust (short_id c)) (\<lambda>i.
                  h_bind (h_engine (get_logs (ae_exch E) i 100)) (\<lambda>l.
                    h_ret (case l of Inr logs \<Rightarrow> (200, logs) | Inl e \<Rightarrow> (500, ''log error: '' @ e)))))))"

definition flow_json :: "flow_record \<Rightarrow> json" where
  "flow_json f =
     j_obj [(''via'', JStr (fl_via f)), (''source'', JStr (fl_source f)), (''dest'', JStr (fl_dest f)), (''port'', j_u16 (fl_port f)),
            (''bytes_up'', JPos (fl_bytes_up f)), (''bytes_down'', JPos (fl_bytes_down f)), (''started'', JPos (fl_started f)),
            (''duration_ms'', JPos (fl_duration_ms f))]"

definition route_flows :: "('y, 's) api_env \<Rightarrow> ('s, reply) handler" where
  "route_flows E =
     h_bind (h_get api_flows) (\<lambda>q. reply_json E 200 (j_obj
       [(''flows'', JArr (map flow_json (flow_snapshot 500 q))),
        (''topTalkers'', JArr (map (\<lambda>(dest, conns, up, down). j_obj
            [(''dest'', JStr dest), (''connections'', JPos conns), (''bytesUp'', JPos up), (''bytesDown'', JPos down)])
          (take 50 (flow_totals q))))]))"

definition route_pipelines :: "('y, 's) api_env \<Rightarrow> ('s, reply) handler" where
  "route_pipelines E = with_read (\<lambda>w. h_ret (200, list_pipelines E w))"

text \<open>The sum of the replica counts wraps, as release-mode arithmetic does.\<close>

definition total_replicas :: "json desired_world \<Rightarrow> u32" where
  "total_replicas w = sum_list (map d_replicas (hm_values (deployments w)))"

definition route_brain :: "('y, 's) api_env \<Rightarrow> ('s, reply) handler" where
  "route_brain E = with_read (\<lambda>w. reply_json E 200 (j_obj
     [(''kind'', JStr ''Brain''), (''status'', JStr ''active''),
      (''features'', j_strs [''backprop-training'', ''anomaly-detection'', ''load-prediction'', ''neural-scheduling'', ''FP-TLS'']),
      (''cluster'', j_obj
         [(''nodes'', j_nat (length (nodes w))), (''deployments'', j_nat (length (deployments w))), (''events'', j_nat (length (events w))),
          (''pods'', j_u32 (total_replicas w)), (''services'', j_nat (length (services w))), (''namespaces'', j_nat (length (namespaces w))),
          (''quotas'', j_nat (length (resource_quotas w))), (''policies'', j_nat (length (network_policies w)))]),
      (''training'', j_obj [(''steps'', j_nat 0), (''loss'', JFloat (Zero False)), (''status'', JStr ''learning'')]),
      (''security'', j_obj
         [(''ca_fingerprint'', JStr (unwrap_or (map_option ca_fingerprint (cluster_ca w)) [])),
          (''certs_issued'', JPos (unwrap_or (map_option ca_issued_count (cluster_ca w)) 0)),
          (''networks'', j_nat (length (namespaces w) + 1)), (''audit_events'', j_nat (length (network_audit w))),
          (''pod_certs'', j_nat (length (pod_certs w)))])]))"

subsection \<open>Between nodes\<close>

definition route_get_state :: "('y, 's) api_env \<Rightarrow> request \<Rightarrow> ('s, reply) handler" where
  "route_get_state E r =
     (if \<not> check_node_auth (rq_headers r) then reply_json E 403 (status_error ''X-Royak-Token required for state sync'')
      else with_read (\<lambda>w. reply_json E 200 (export_state w)))"

definition route_post_state :: "('y, 's) api_env \<Rightarrow> request \<Rightarrow> ('s, reply) handler" where
  "route_post_state E r =
     (if \<not> check_node_auth (rq_headers r) then reply_json E 403 (status_error ''X-Royak-Token required'')
      else case jt_parse (ae_json E) (rq_body r) of
             Inl e \<Rightarrow> reply_json E 400 (status_error e)
           | Inr remote \<Rightarrow> with_write (\<lambda>w.
               let (w', log) = merge_state serde_value (ae_clock E) remote w
               in h_bind (set_world w') (\<lambda>_. h_bind next_rv (\<lambda>_.
                    reply_json E 200 (j_obj [(''status'', JStr ''ok''), (''merged'', j_strs log)])))))"

text \<open>What a heartbeat says about its node. A conversion to double precision and back does not change a number.\<close>

definition beat_node :: "u64 \<Rightarrow> json \<Rightarrow> cluster_node \<Rightarrow> cluster_node" where
  "beat_node now hb n =
     n\<lparr>cn_last_heartbeat := now,
       cn_cpu_used := unwrap_or (map_option f64_to_f32 (jf64 (jat hb ''cpu_used''))) (cn_cpu_used n),
       cn_mem_used := unwrap_or (map_option f64_to_f32 (jf64 (jat hb ''mem_used''))) (cn_mem_used n),
       cn_pod_count := ucast (unwrap_or (ju64 (jat hb ''pod_count'')) (ucast (cn_pod_count n))),
       cn_status := if cn_status n = NodeNotReady then NodeReady else cn_status n\<rparr>"

definition route_heartbeat :: "('y, 's) api_env \<Rightarrow> request \<Rightarrow> ('s, reply) handler" where
  "route_heartbeat E r =
     (if \<not> check_node_auth (rq_headers r) then h_ret (403, dq ''{`status`:`error`,`message`:`auth required`}'')
      else h_bind (case Option.bind (jt_ok (ae_json E) (rq_body r)) (\<lambda>hb. map_option (Pair hb) (jstr (jat hb ''node''))) of
             None \<Rightarrow> h_ret ()
           | Some (hb, name) \<Rightarrow> with_write (\<lambda>w. set_world (w\<lparr>nodes := hm_modify name (beat_node (ae_clock E) hb) (nodes w)\<rparr>)))
           (\<lambda>_. reply_json E 200 (j_obj [(''status'', JStr ''ok'')])))"

definition pod_error :: "string \<Rightarrow> string \<Rightarrow> json" where
  "pod_error pod msg = j_obj [(''status'', JStr ''error''), (''pod'', JStr pod), (''message'', JStr msg)]"

definition start_pod_here :: "('y, 's) api_env \<Rightarrow> string \<Rightarrow> string \<Rightarrow> string \<Rightarrow> ('s, reply) handler" where
  "start_pod_here E pod deployment img =
     h_bind (h_engine (create_container (ae_exch E) (ae_json E) pod img None []
              [(''royak.managed'', ''true''), (''royak.deployment'', deployment), (''app'', deployment)])) (\<lambda>c.
       case c of
         Inl e \<Rightarrow> reply_json E 500 (pod_error pod e)
       | Inr i \<Rightarrow> h_bind (h_engine (start_container (ae_exch E) i)) (\<lambda>st.
           case st of
             Inl e \<Rightarrow> reply_json E 500 (pod_error pod (''created but start failed: '' @ e))
           | Inr _ \<Rightarrow> h_bind (h_rust (head12 i)) (\<lambda>_.
               reply_json E 200 (j_obj [(''status'', JStr ''ok''), (''pod'', JStr pod), (''id'', JStr i)]))))"

definition route_create_pod :: "('y, 's) api_env \<Rightarrow> request \<Rightarrow> ('s, reply) handler" where
  "route_create_pod E r =
     (let v = unwrap_or (jt_ok (ae_json E) (rq_body r)) JNull;
          str = (\<lambda>k. unwrap_or (jstr (jat v k)) []);
          pod = str ''pod''; deployment = str ''deployment''; img = str ''image''
      in if pod = [] \<or> img = []
         then h_ret (400, dq ''{`kind`:`Status`,`status`:`Failure`,`message`:`pod and image required`,`code`:400}'')
         else h_bind (h_engine (image_exists_locally (ae_exch E) img)) (\<lambda>here.
                if here = Inr True then start_pod_here E pod deployment img
                else h_bind (h_engine (pull_image (ae_exch E) img)) (\<lambda>p.
                  case p of
                    Inl e \<Rightarrow> reply_json E 503 (pod_error pod (''image '' @ [CHR 0x27] @ img @ [CHR 0x27]
                                 @ '' unavailable on this node (needs distribution): '' @ e))
                  | Inr _ \<Rightarrow> start_pod_here E pod deployment img)))"

definition route_pods :: "('y, 's) api_env \<Rightarrow> ('s, reply) handler" where
  "route_pods E =
     h_bind (containers E False) (\<lambda>cs. reply_json E 200 (j_obj [(''pods'', j_strs
       (filter_map (\<lambda>c. map_option (trim_start_matches ''/'') (head_opt (dc_names c)))
         (filter (\<lambda>c. dc_state c = ''running'' \<and> own_name ''rk-'' c) (ok_or_nil cs))))]))"

subsection \<open>Applying manifests\<close>

text \<open>Applies resources one after the other under the write guard, until one fails.\<close>

fun apply_all :: "('y, 's) api_env \<Rightarrow> nat \<Rightarrow> 'y resource list \<Rightarrow> ('s, string option) handler" where
  "apply_all E i [] = h_ret None"
| "apply_all E i (x # xs) =
     h_bind (h_get api_world) (\<lambda>w.
     h_bind (h_rust (apply_resource (ae_yaml E) serde_value (ae_machine E i) x w)) (\<lambda>(res, w', es).
     h_bind (set_world w') (\<lambda>_.
     h_bind (do_effects es) (\<lambda>_.
       case res of Inl e \<Rightarrow> h_ret (Some e) | Inr _ \<Rightarrow> apply_all E (Suc i) xs))))"

definition body_docs_as_json :: "('y, 's) api_env \<Rightarrow> string \<Rightarrow> json list" where
  "body_docs_as_json E body =
     (if starts_with (trim_start body) ''{'' then (case jt_ok (ae_json E) body of Some v \<Rightarrow> [v] | None \<Rightarrow> [])
      else filter (\<lambda>v. jobj v \<noteq> None) (filter_map (\<lambda>d. ae_yaml_value E (trim d)) (str_split_on (CHR 0x0A # ''---'') body)))"

definition parse_body :: "('y, 's) api_env \<Rightarrow> string \<Rightarrow> 'y resource list result" where
  "parse_body E body =
     (if starts_with (trim_start body) ''{'' then
        (case jt_parse (ae_json E) body of
           Inl e \<Rightarrow> Inl (''JSON parse: '' @ e)
         | Inr v \<Rightarrow> (case ae_yaml_text E v of
                      Inl e \<Rightarrow> Inl (''YAML convert: '' @ e)
                    | Inr yaml \<Rightarrow> parse_yaml (ae_yaml E) yaml))
      else parse_yaml (ae_yaml E) body)"

definition remember_manifest :: "json \<Rightarrow> json desired_world \<Rightarrow> json desired_world" where
  "remember_manifest d w =
     (if Option.bind (jget d ''kind'') jstr = Some ''Deployment'' then
        (case jstr (jat (jat d ''metadata'') ''name'') of
           Some n \<Rightarrow> w\<lparr>manifests := hm_insert (manifest_key (unwrap_or (jstr (jat (jat d ''metadata'') ''namespace'')) ''default'') n) d (manifests w)\<rparr>
         | None \<Rightarrow> w)
      else w)"

definition applied_object :: "('y, 's) api_env \<Rightarrow> 'y resource option \<Rightarrow> string \<Rightarrow> json" where
  "applied_object E r rv =
     (let (api_version, kind, name, ns) = (case r of
            Some r \<Rightarrow> (unwrap_or (r_api_version r) ''v1'', r_kind r, md_name (r_metadata r), unwrap_or (md_namespace (r_metadata r)) ''default'')
          | None \<Rightarrow> (''v1'', ''Status'', [], ''default''))
      in j_obj [(''apiVersion'', JStr api_version), (''kind'', JStr kind),
           (''metadata'', j_obj [(''name'', JStr name), (''namespace'', JStr ns), (''resourceVersion'', JStr rv),
                               (''uid'', JStr (resource_uid kind name ns)), (''creationTimestamp'', JStr ''1970-01-01T00:00:00Z'')]),
           (''spec'', unwrap_or (Option.bind r (\<lambda>r. Option.bind (r_spec r) (yv_to_json (ae_yaml E)))) JNull)])"

definition rbac_denied :: "string \<Rightarrow> string \<Rightarrow> string \<Rightarrow> string \<Rightarrow> json" where
  "rbac_denied role verb resource ns =
     failure_v1 (''RBAC: role '' @ [CHR 0x27] @ role @ [CHR 0x27] @ '' cannot '' @ verb @ '' '' @ resource @ '' in namespace ''
                 @ [CHR 0x27] @ ns @ [CHR 0x27]) 403"

definition apply_under_lock :: "('y, 's) api_env \<Rightarrow> string \<Rightarrow> 'y resource list \<Rightarrow> ('s, reply) handler" where
  "apply_under_lock E body rs = with_write (\<lambda>_.
     h_bind (apply_all E 0 rs) (\<lambda>err.
     h_bind next_rv (\<lambda>_.
       case err of
         Some e \<Rightarrow> reply_json E 400 (failure_v1 e 400)
       | None \<Rightarrow>
           h_bind (h_get api_world) (\<lambda>w.
           let w' = fold remember_manifest (body_docs_as_json E body) w
           in h_bind (set_world w') (\<lambda>_.
              h_bind (save_world E w') (\<lambda>_.
              h_bind current_rv (\<lambda>rv. reply_json E 201 (applied_object E (head_opt rs) rv))))))))"

definition route_apply :: "('y, 's) api_env \<Rightarrow> request \<Rightarrow> ('s, reply) handler" where
  "route_apply E r =
     (let role = get_rbac_role (rq_headers r); resource = rbac_resource_from_path (rq_path r);
          verb = rbac_verb_from_method (rq_method r); ns = unwrap_or (fst (parse_resource_path (rq_path r))) ''default''
      in h_bind (with_read (\<lambda>w. h_ret (check_rbac w role resource verb ns))) (\<lambda>allowed.
           if \<not> allowed then reply_json E 403 (rbac_denied role verb resource ns)
           else if MAX_BODY_SIZE < length (rq_body r)
           then h_ret (413, dq ''{`kind`:`Status`,`status`:`Failure`,`message`:`body too large`,`code`:413}'')
           else case parse_body E (utf8_lossy (rq_body r)) of
                  Inl e \<Rightarrow> reply_json E 400 (failure_v1 e 400)
                | Inr rs \<Rightarrow> apply_under_lock E (utf8_lossy (rq_body r)) rs))"

subsection \<open>Patching a stored manifest\<close>

definition partial_patch :: "('y, 's) api_env \<Rightarrow> string \<Rightarrow> bool" where
  "partial_patch E body = (case jt_ok (ae_json E) (utf8_lossy body) of Some v \<Rightarrow> jget v ''kind'' = None | None \<Rightarrow> False)"

definition route_patch_manifest :: "('y, 's) api_env \<Rightarrow> request \<Rightarrow> ('s, reply) handler" where
  "route_patch_manifest E r =
     (let name = last_part (rq_path r); ns = unwrap_or (fst (parse_resource_path (rq_path r))) ''default'';
          key = manifest_key ns name; patch = unwrap_or (jt_ok (ae_json E) (utf8_lossy (rq_body r))) JNull
      in with_write (\<lambda>w.
           case hm_get (manifests w) key of
             None \<Rightarrow> h_ret (404, not_found_status E (rq_path r))
           | Some m \<Rightarrow>
               let m' = strategic_merge m patch; yaml = (case ae_yaml_text E m' of Inr t \<Rightarrow> t | Inl _ \<Rightarrow> [])
               in case parse_yaml (ae_yaml E) yaml of
                    Inl e \<Rightarrow> reply_fail E 400 (''merged manifest invalid: '' @ e)
                  | Inr rs \<Rightarrow>
                      h_bind (apply_all E 0 rs) (\<lambda>err.
                        case err of
                          Some e \<Rightarrow> reply_fail E 400 e
                        | None \<Rightarrow>
                            h_bind (h_get api_world) (\<lambda>w1.
                            let w2 = w1\<lparr>manifests := hm_insert key m' (manifests w1)\<rparr>
                            in h_bind (set_world w2) (\<lambda>_.
                               h_bind (save_world E w2) (\<lambda>_.
                               h_bind next_rv (\<lambda>_.
                               h_bind current_rv (\<lambda>rv.
                               h_bind (h_rust (rust_bind (set_in m' ''metadata'' ''resourceVersion'' (JStr rv))
                                         (\<lambda>v. set_in v ''metadata'' ''uid'' (JStr (resource_uid ''Deployment'' name ns))))) (\<lambda>out.
                                 reply_json E 200 out)))))))))"

subsection \<open>Deleting\<close>

fun h_each :: "('a \<Rightarrow> ('s, unit) handler) \<Rightarrow> 'a list \<Rightarrow> ('s, unit) handler" where
  "h_each f [] = h_ret ()"
| "h_each f (x # xs) = h_bind (f x) (\<lambda>_. h_each f xs)"

definition stop_and_remove :: "('y, 's) api_env \<Rightarrow> docker_container \<Rightarrow> ('s, unit) handler" where
  "stop_and_remove E c =
     h_bind (h_ignore (stop_container (ae_exch E) (dc_id c))) (\<lambda>_. h_ignore (remove_container (ae_exch E) (dc_id c) True))"

definition delete_stored :: "string \<Rightarrow> string \<Rightarrow> json desired_world \<Rightarrow> ('s, bool) handler" where
  "delete_stored ty name w =
     (let (ok, w', es) = delete_resource ty name w
      in h_bind (set_world w') (\<lambda>_. h_bind (do_effects es) (\<lambda>_. h_ret ok)))"

definition delete_under_lock :: "('y, 's) api_env \<Rightarrow> string \<Rightarrow> string \<Rightarrow> json desired_world \<Rightarrow> ('s, bool) handler" where
  "delete_under_lock E resource name w =
     (if resource = ''pods'' then
        h_bind (containers E True) (\<lambda>cs.
          case find (named name) (ok_or_nil cs) of
            Some c \<Rightarrow> h_bind (stop_and_remove E c) (\<lambda>_. h_ret True)
          | None \<Rightarrow> h_ret False)
      else if resource = ''deployments'' then
        h_bind (containers E True) (\<lambda>cs.
        h_bind (h_each (stop_and_remove E) (filter (named (''rk-'' @ name @ ''-'')) (ok_or_nil cs))) (\<lambda>_.
          delete_stored ''deployments'' name w))
      else if resource = ''configmaps'' then
        h_bind (set_world (w\<lparr>configmaps := hm_remove name (configmaps w)\<rparr>)) (\<lambda>_. h_ret (hm_contains (configmaps w) name))
      else if resource = ''secrets'' then
        h_bind (set_world (w\<lparr>secrets := hm_remove name (secrets w)\<rparr>)) (\<lambda>_. h_ret (hm_contains (secrets w) name))
      else if resource = ''namespaces'' then
        h_bind (set_world (w\<lparr>namespaces := filter (\<lambda>n. n \<noteq> name) (namespaces w)\<rparr>)) (\<lambda>_. h_ret True)
      else delete_stored resource name w)"

definition route_delete :: "('y, 's) api_env \<Rightarrow> request \<Rightarrow> ('s, reply) handler" where
  "route_delete E r =
     (let role = get_rbac_role (rq_headers r); (ns, resource, name) = parse_resource_path (rq_path r); nsd = unwrap_or ns ''default''
      in h_bind (with_read (\<lambda>w. h_ret (check_rbac w role resource ''delete'' nsd))) (\<lambda>allowed.
           if \<not> allowed then reply_json E 403 (rbac_denied role ''delete'' resource nsd)
           else case name of
                  None \<Rightarrow> reply_fail E 400 ''resource name required''
                | Some n \<Rightarrow> with_write (\<lambda>w.
                    h_bind (delete_under_lock E resource n w) (\<lambda>ok.
                      if ok then h_bind next_rv (\<lambda>_. reply_json E 200 (j_obj
                        [(''kind'', JStr ''Status''), (''apiVersion'', JStr ''v1''), (''status'', JStr ''Success''),
                         (''message'', JStr (resource @ ''/'' @ n @ '' deleted''))]))
                      else reply_json E 404 (failure_v1 (resource @ ''/'' @ n @ '' not found'') 404)))))"

subsection \<open>Functions and hooks\<close>

definition triggered :: "(stored_function \<Rightarrow> string list) \<Rightarrow> string \<Rightarrow> json desired_world \<Rightarrow> string option" where
  "triggered triggers path w = map_option fn_name (find (\<lambda>f. path \<in> set (triggers f)) (hm_values (w_functions w)))"

text \<open>Calls a function under the write guard; \<open>answer\<close> makes the body of the reply.\<close>

definition call_function :: "('y, 's) api_env \<Rightarrow> string \<Rightarrow> (string \<Rightarrow> json) \<Rightarrow> ('s, reply) handler" where
  "call_function E name answer = with_write (\<lambda>w.
     h_bind (h_engine (invoke_function E name w)) (\<lambda>r.
       case r of
         Inl e \<Rightarrow> reply_json E 500 (j_obj [(''status'', JStr ''error''), (''function'', JStr name), (''error'', JStr e)])
       | Inr (res, w') \<Rightarrow> h_bind (set_world w') (\<lambda>_.
           case res of
             Inr result \<Rightarrow> reply_json E 200 (answer result)
           | Inl e \<Rightarrow> reply_json E 500 (j_obj [(''status'', JStr ''error''), (''function'', JStr name), (''error'', JStr e)]))))"

definition route_function :: "('y, 's) api_env \<Rightarrow> request \<Rightarrow> ('s, reply) handler" where
  "route_function E r = h_bind (with_read (\<lambda>w. h_ret (triggered fn_http_triggers (rq_path r) w))) (\<lambda>f.
     case f of
       Some name \<Rightarrow> call_function E name (\<lambda>result. j_obj [(''status'', JStr ''ok''), (''function'', JStr name), (''result'', JStr result)])
     | None \<Rightarrow> reply_json E 404 (j_obj [(''error'', JStr ''function not found'')]))"

definition route_repo_hook :: "('y, 's) api_env \<Rightarrow> request \<Rightarrow> ('s, reply) handler" where
  "route_repo_hook E r =
     (let repo_name = unwrap_or (strip_prefix (rq_path r) ''/hooks/repo/'') []; q = (\<lambda>s. [CHR 0x27] @ s @ [CHR 0x27])
      in with_write (\<lambda>w.
           case hm_get (repositories w) repo_name of
             None \<Rightarrow> reply_json E 404 (status_error (''repo '' @ q repo_name @ '' not found''))
           | Some repo \<Rightarrow> (case repo_pipeline repo of
               None \<Rightarrow> reply_json E 400 (status_error ''repo has no pipeline configured'')
             | Some p \<Rightarrow>
                 if \<not> hm_contains (pipelines w) p then reply_json E 404 (status_error (''pipeline '' @ q p @ '' not found''))
                 else let (res, w') = start_pipeline (ae_clock E) (ae_millis E) p w
                      in h_bind (set_world w') (\<lambda>_.
                         case res of
                           Inr rid \<Rightarrow> h_bind next_rv (\<lambda>_. reply_json E 200 (j_obj [(''status'', JStr ''ok''), (''pipeline'', JStr p), (''run_id'', JPos rid)]))
                         | Inl e \<Rightarrow> reply_json E 500 (status_error e)))))"

definition route_hook :: "('y, 's) api_env \<Rightarrow> request \<Rightarrow> ('s, reply) handler" where
  "route_hook E r = h_bind (with_read (\<lambda>w. h_ret (triggered fn_webhook_triggers (rq_path r) w))) (\<lambda>f.
     case f of
       Some name \<Rightarrow> call_function E name (\<lambda>result. j_obj
           [(''status'', JStr ''ok''), (''webhook'', JStr (rq_path r)), (''function'', JStr name), (''result'', JStr result)])
     | None \<Rightarrow> reply_json E 404 (j_obj [(''error'', JStr (''no function registered for webhook '' @ rq_path r))]))"

subsection \<open>Exec and describe\<close>

text \<open>What follows a key in the URL: \<open>split("key=").nth(1)\<close>, up to the next ampersand.\<close>

definition after_key :: "string \<Rightarrow> string \<Rightarrow> string option" where
  "after_key url key = (let ps = str_split_on key url in if 1 < length ps then Some (ps ! 1) else None)"

definition up_to_amp :: "string \<Rightarrow> string" where
  "up_to_amp s = hd (str_split (CHR ''&'') s)"

definition j_i64 :: "int \<Rightarrow> json" where
  "j_i64 n = (if n < 0 then JNeg n else JPos (of_int n))"

definition route_exec :: "('y, 's) api_env \<Rightarrow> request \<Rightarrow> ('s, reply) handler" where
  "route_exec E r =
     (let pod_name = part_before_last (rq_path r);
          cmd = str_split (CHR ''+'') (up_to_amp (unwrap_or (after_key (rq_url r) ''command='') ''sh''))
      in h_bind (containers E True) (\<lambda>cs. case cs of
           Inl e \<Rightarrow> reply_fail E 500 (''docker: '' @ e)
         | Inr cs \<Rightarrow>
             (case find (named pod_name) cs of
                None \<Rightarrow> reply_fail E 404 (''pod '' @ pod_name @ '' not found'')
              | Some c \<Rightarrow> h_bind (h_rust (short_id c)) (\<lambda>i.
                  h_bind (h_engine (exec_in_container (ae_exch E) (ae_json E) i cmd)) (\<lambda>x.
                    case x of
                      Inl e \<Rightarrow> reply_fail E 500 (''exec error: '' @ e)
                    | Inr (code, output) \<Rightarrow> reply_json E 200 (j_obj
                        [(''kind'', JStr ''ExecResult''), (''pod'', JStr pod_name), (''exitCode'', j_i64 code), (''output'', JStr output)]))))))"

definition describe_target :: "string \<Rightarrow> string \<times> string" where
  "describe_target path =
     (case rev (str_split (CHR ''/'') (trim_start_matches ''/'' path)) of
        n # t # d # _ \<Rightarrow> if d = ''describe'' then (t, n) else ([], [])
      | _ \<Rightarrow> ([], []))"

definition event_line :: "cluster_event \<Rightarrow> string" where
  "event_line e =
     ''  '' @ e_event_type e @ '' '' @ e_reason e @ '' '' @ em_dash @ '' '' @ e_message e @ '' ('' @ [CHR 0xC3, CHR 0x97] @ show_word (e_count e) @ '')''"

definition limits_desc :: "resource_limits option \<Rightarrow> string" where
  "limits_desc rl =
     (case rl of
        None \<Rightarrow> ''none''
      | Some l \<Rightarrow> ''CPU: '' @ fmt_fixed 1 (unwrap_or (rl_cpu_request l) (Zero False)) @ ''-'' @ fmt_fixed 1 (unwrap_or (rl_cpu_limit l) (Zero False))
                 @ '' cores, Mem: '' @ show_word (unwrap_or (rl_mem_request l) 0) @ ''-'' @ show_word (unwrap_or (rl_mem_limit l) 0) @ '' MB'')"

fun strategy_desc :: "deploy_strategy option \<Rightarrow> string" where
  "strategy_desc None = ''RollingUpdate (default)''"
| "strategy_desc (Some (RollingUpdate surge unavailable)) =
     ''RollingUpdate (maxSurge='' @ show_word surge @ '', maxUnavailable='' @ show_word unavailable @ '')''"
| "strategy_desc (Some (Canary weight steps)) = ''Canary (weight='' @ show_word weight @ ''%)''"
| "strategy_desc (Some (BlueGreen active)) = ''BlueGreen (active='' @ active @ '')''"

definition describe_deployment :: "json desired_world \<Rightarrow> stored_deployment \<Rightarrow> string \<Rightarrow> json" where
  "describe_deployment w d target =
     j_obj [(''kind'', JStr ''Describe''), (''resource'', JStr ''Deployment''),
       (''metadata'', j_obj [(''name'', JStr (d_name d)), (''namespace'', JStr (d_namespace d))]),
       (''spec'', j_obj [(''replicas'', j_u32 (d_replicas d)), (''strategy'', JStr (strategy_desc (d_strategy d))),
          (''resourceLimits'', JStr (limits_desc (d_resource_limits d))),
          (''containers'', j_strs (map (\<lambda>c. ''  - '' @ sc_name c @ '': '' @ sc_image c @ '' (env: '' @ show_nat (length (sc_env c)) @ '')'') (d_containers d))),
          (''paused'', JBool (d_paused d))]),
       (''events'', j_strs (map event_line (filter (\<lambda>e. e_object e = target) (events w))))]"

definition describe_node :: "cluster_node \<Rightarrow> json" where
  "describe_node n =
     j_obj [(''kind'', JStr ''Describe''), (''resource'', JStr ''Node''), (''metadata'', j_obj [(''name'', JStr (cn_name n))]),
       (''status'', JStr (node_status_name (cn_status n))),
       (''capacity'', j_obj [(''cpu'', j_f32 (cn_cpu_capacity n)), (''memory'', j_f32 (cn_mem_capacity n))]),
       (''usage'', j_obj [(''cpu'', j_f32 (cn_cpu_used n)), (''memory'', j_f32 (cn_mem_used n)), (''pods'', j_u32 (cn_pod_count n))]),
       (''joinedAt'', JPos (cn_joined_at n))]"

definition describe_pod :: "('y, 's) api_env \<Rightarrow> json desired_world \<Rightarrow> string \<Rightarrow> ('s, reply) handler" where
  "describe_pod E w target =
     h_bind (containers E True) (\<lambda>cs. case cs of
       Inl e \<Rightarrow> reply_fail E 500 e
     | Inr cs \<Rightarrow>
         (case find (named target) cs of
            None \<Rightarrow> reply_fail E 404 (''pod '' @ target @ '' not found'')
          | Some c \<Rightarrow> h_bind (h_rust (short_id c)) (\<lambda>i. reply_json E 200 (j_obj
              [(''kind'', JStr ''Describe''), (''resource'', JStr ''Pod''),
               (''metadata'', j_obj [(''name'', JStr (unwrap_or (head_opt (dc_names c)) ''?'')), (''namespace'', JStr ''default'')]),
               (''spec'', j_obj [(''image'', JStr (dc_image c)), (''state'', JStr (dc_state c)), (''id'', JStr i)]),
               (''events'', j_strs (map event_line (filter (\<lambda>e. str_contains (e_object e) target) (events w))))]))))"

definition route_describe :: "('y, 's) api_env \<Rightarrow> request \<Rightarrow> ('s, reply) handler" where
  "route_describe E r =
     (let (resource, target) = describe_target (rq_path r)
      in with_read (\<lambda>w.
           if resource = ''deployment'' \<or> resource = ''deployments'' then
             (case hm_get (deployments w) target of
                Some d \<Rightarrow> reply_json E 200 (describe_deployment w d target)
              | None \<Rightarrow> reply_fail E 404 (''deployment '' @ target @ '' not found''))
           else if resource = ''pod'' \<or> resource = ''pods'' then describe_pod E w target
           else if resource = ''node'' \<or> resource = ''nodes'' then
             (case hm_get (nodes w) target of
                Some n \<Rightarrow> reply_json E 200 (describe_node n)
              | None \<Rightarrow> reply_fail E 404 (''node '' @ target @ '' not found''))
           else reply_fail E 400 (''describe not supported for: '' @ resource)))"

subsection \<open>Rollouts, usage, metrics, logs\<close>

definition route_rollout :: "('y, 's) api_env \<Rightarrow> request \<Rightarrow> ('s, reply) handler" where
  "route_rollout E r =
     (let dep = unwrap_or (strip_prefix (rq_path r) ''/royak/v1/rollout/'') []
      in with_read (\<lambda>w.
           case hm_get (pending_rollouts w) dep of
             Some ro \<Rightarrow>
               h_bind (containers E True) (\<lambda>cs.
                 let new_norm = normalize_image_for_api (ro_new_image ro); total = ro_total_replicas ro;
                     new_running = of_nat (length (filter (\<lambda>c. named (''rk-'' @ dep @ ''-'') c \<and> dc_state c = ''running''
                                        \<and> normalize_image_for_api (dc_image c) = new_norm) (ok_or_nil cs))) :: u32;
                     progress = (if 0 < total then (new_running * 100) div total else 0)
                 in reply_json E 200 (j_obj
                      [(''kind'', JStr ''RolloutStatus''), (''deployment'', JStr dep),
                       (''status'', JStr (if total \<le> new_running then ''complete'' else ''in-progress'')),
                       (''oldImage'', JStr (ro_old_image ro)), (''newImage'', JStr (ro_new_image ro)),
                       (''progress'', JStr (show_word new_running @ ''/'' @ show_word total @ '' ('' @ show_word progress @ ''%)'')),
                       (''ready'', j_u32 new_running), (''desired'', j_u32 total)]))
           | None \<Rightarrow>
               if hm_contains (deployments w) dep then reply_json E 200 (j_obj
                 [(''kind'', JStr ''RolloutStatus''), (''deployment'', JStr dep), (''status'', JStr ''complete''), (''message'', JStr ''no rollout in progress'')])
               else reply_fail E 404 (''deployment '' @ dep @ '' not found'')))"

definition stats_of :: "('y, 's) api_env \<Rightarrow> string \<Rightarrow> ('s, (f32 \<times> f32) result) handler" where
  "stats_of E i s =
     (let (res, c) = container_stats (ae_sample E) (ae_millis E) (ae_millis E) i (api_stats s) in (Ret res, s\<lparr>api_stats := c\<rparr>))"

definition top_pod :: "('y, 's) api_env \<Rightarrow> docker_container \<Rightarrow> ('s, json) handler" where
  "top_pod E c =
     h_bind (h_rust (short_id c)) (\<lambda>i.
     h_bind (stats_of E i) (\<lambda>st.
       let (cpu, mem) = (case st of Inr v \<Rightarrow> v | Inl _ \<Rightarrow> (Zero False, Zero False))
       in h_ret (j_obj
            [(''name'', JStr (shown_name c)), (''namespace'', JStr ''default''), (''cpu'', JStr (fmt_fixed 1 cpu @ ''%'')),
             (''memory'', JStr (fmt_fixed 0 mem @ ''Mi'')), (''cpu_raw'', j_f32 cpu), (''memory_raw_mb'', j_f32 mem)])))"

definition route_top_pods :: "('y, 's) api_env \<Rightarrow> ('s, reply) handler" where
  "route_top_pods E =
     h_bind (containers E True) (\<lambda>cs. case cs of
       Inl e \<Rightarrow> reply_fail E 500 e
     | Inr cs \<Rightarrow> h_bind (h_map (top_pod E) (filter (\<lambda>c. named ''rk-'' c \<and> dc_state c = ''running'') cs)) (\<lambda>items.
         reply_json E 200 (j_obj [(''kind'', JStr ''TopPods''), (''items'', JArr items)])))"

definition metric :: "string \<Rightarrow> string \<Rightarrow> string \<Rightarrow> string \<Rightarrow> string list" where
  "metric name help ty val = [''# HELP '' @ name @ '' '' @ help, ''# TYPE '' @ name @ '' '' @ ty, name @ '' '' @ val]"

definition world_metrics :: "json desired_world \<Rightarrow> string list" where
  "world_metrics w =
     metric ''royak_pods_total'' ''Total desired pod count'' ''gauge'' (show_word (total_replicas w))
     @ metric ''royak_deployments_total'' ''Total deployments'' ''gauge'' (show_nat (length (deployments w)))
     @ metric ''royak_services_total'' ''Total services'' ''gauge'' (show_nat (length (services w)))
     @ metric ''royak_namespaces_total'' ''Total namespaces'' ''gauge'' (show_nat (length (namespaces w)))
     @ metric ''royak_events_total'' ''Total cluster events'' ''counter'' (show_nat (length (events w)))
     @ metric ''royak_network_audit_total'' ''Network audit events'' ''counter'' (show_nat (length (network_audit w)))
     @ metric ''royak_certs_issued_total'' ''Certificates issued by CA'' ''counter''
         (show_word (unwrap_or (map_option ca_issued_count (cluster_ca w)) 0))"

definition labelled :: "string \<Rightarrow> string \<Rightarrow> string \<Rightarrow> string \<Rightarrow> string" where
  "labelled name label val x = name @ ''{'' @ label @ ''='' @ quoted val @ ''} '' @ x"

definition deployment_metrics :: "('y, 's) api_env \<Rightarrow> stored_deployment \<Rightarrow> ('s, string list) handler" where
  "deployment_metrics E d =
     h_bind (containers E False) (\<lambda>cs.
       let running = length (filter (named (''rk-'' @ d_name d @ ''-'')) (ok_or_nil cs))
       in h_ret [labelled ''royak_deployment_replicas_desired'' ''deployment'' (d_name d) (show_word (d_replicas d)),
                 labelled ''royak_deployment_replicas_ready'' ''deployment'' (d_name d) (show_nat running)])"

definition pod_metrics :: "('y, 's) api_env \<Rightarrow> docker_container \<Rightarrow> ('s, string list) handler" where
  "pod_metrics E c =
     h_bind (h_rust (short_id c)) (\<lambda>i.
     h_bind (stats_of E i) (\<lambda>st. h_ret (case st of
         Inr (cpu, mem) \<Rightarrow> [labelled ''royak_pod_cpu_percent'' ''pod'' (shown_name c) (fmt_fixed 2 cpu),
                           labelled ''royak_pod_memory_mb'' ''pod'' (shown_name c) (fmt_fixed 1 mem)]
       | Inl _ \<Rightarrow> [])))"

definition route_metrics :: "('y, 's) api_env \<Rightarrow> ('s, reply) handler" where
  "route_metrics E = with_read (\<lambda>w.
     h_bind (h_map (deployment_metrics E) (hm_values (deployments w))) (\<lambda>per_dep.
     h_bind (containers E False) (\<lambda>cs.
     h_bind (h_map (pod_metrics E) (filter (named ''rk-'') (ok_or_nil cs))) (\<lambda>per_pod.
       h_ret (200, join [CHR 0x0A] (world_metrics w @ concat per_dep @ concat per_pod) @ [CHR 0x0A])))))"

definition pod_log_lines :: "('y, 's) api_env \<Rightarrow> string \<Rightarrow> u32 \<Rightarrow> docker_container \<Rightarrow> ('s, json list) handler" where
  "pod_log_lines E search tail c =
     h_bind (h_rust (short_id c)) (\<lambda>i.
     h_bind (h_engine (get_logs (ae_exch E) i tail)) (\<lambda>l. h_ret (case l of
         Inl _ \<Rightarrow> []
       | Inr logs \<Rightarrow> map (\<lambda>line. j_obj [(''pod'', JStr (shown_name c)), (''line'', JStr line)])
                      (filter (\<lambda>line. search = [] \<or> str_contains (ae_lower E line) (ae_lower E search)) (lines logs)))))"

definition route_logs :: "('y, 's) api_env \<Rightarrow> request \<Rightarrow> ('s, reply) handler" where
  "route_logs E r =
     (let search = unwrap_or (map_option up_to_amp (after_key (rq_url r) ''search='')) [];
          tail = unwrap_or (Option.bind (map_option up_to_amp (after_key (rq_url r) ''tail='')) parse_u32) 50
      in h_bind (containers E False) (\<lambda>cs.
         h_bind (h_map (pod_log_lines E search tail) (filter (named ''rk-'') (ok_or_nil cs))) (\<lambda>ls.
           reply_json E 200 (j_obj [(''kind'', JStr ''AggregatedLogs''), (''search'', JStr search), (''count'', j_nat (length (concat ls))),
                                  (''logs'', JArr (concat ls))]))))"

definition percent :: "f32 \<Rightarrow> f32 \<Rightarrow> f32" where
  "percent used cap = (if f_gt cap (Zero False) then f_mul (f_div used cap) (f32_of_nat 100) else Zero False)"

definition top_node :: "cluster_node \<Rightarrow> json" where
  "top_node n =
     (let cpu_pct = percent (cn_cpu_used n) (cn_cpu_capacity n); mem_pct = percent (cn_mem_used n) (cn_mem_capacity n)
      in j_obj [(''name'', JStr (cn_name n)),
           (''cpu'', JStr (fmt_fixed 0 (cn_cpu_used n) @ ''/'' @ fmt_fixed 0 (cn_cpu_capacity n) @ '' ('' @ fmt_fixed 0 cpu_pct @ ''%)'')),
           (''memory'', JStr (fmt_fixed 0 (cn_mem_used n) @ ''/'' @ fmt_fixed 0 (cn_mem_capacity n) @ ''Mi ('' @ fmt_fixed 0 mem_pct @ ''%)'')),
           (''pods'', j_u32 (cn_pod_count n))])"

definition route_top_nodes :: "('y, 's) api_env \<Rightarrow> ('s, reply) handler" where
  "route_top_nodes E = with_read (\<lambda>w.
     let answer = (\<lambda>items. reply_json E 200 (j_obj [(''kind'', JStr ''TopNodes''), (''items'', JArr items)]))
     in if nodes w = [] then
          h_bind (containers E True) (\<lambda>cs. answer [j_obj
            [(''name'', JStr (this_host E)), (''cpu'', JStr ''n/a''), (''memory'', JStr ''n/a''),
             (''pods'', j_nat (length (filter (\<lambda>c. named ''rk-'' c \<and> dc_state c = ''running'') (ok_or_nil cs))))]])
        else answer (map top_node (hm_values (nodes w))))"

subsection \<open>Patching resources in place\<close>

definition patch_deployment :: "json \<Rightarrow> string \<Rightarrow> stored_deployment \<Rightarrow> json desired_world \<Rightarrow> json desired_world" where
  "patch_deployment patch name d w =
     (let d1 = (case Option.bind (jptr patch [''spec'', ''replicas'']) ju64 of Some n \<Rightarrow> d\<lparr>d_replicas := ucast n\<rparr> | None \<Rightarrow> d)
      in case Option.bind (jptr patch [''spec'', ''template'', ''spec'', ''containers'', ''0'', ''image'']) jstr of
           None \<Rightarrow> w\<lparr>deployments := hm_modify name (\<lambda>_. d1) (deployments w)\<rparr>
         | Some img \<Rightarrow>
             let d2 = d1\<lparr>d_image := img, d_containers := (case d_containers d1 of [] \<Rightarrow> [] | c # cs \<Rightarrow> c\<lparr>sc_image := img\<rparr> # cs)\<rparr>;
                 w1 = w\<lparr>deployments := hm_modify name (\<lambda>_. d2) (deployments w)\<rparr>
             in if d_image d1 = img then w1
                else w1\<lparr>pending_rollouts := hm_insert name
                       \<lparr>ro_old_image = d_image d1, ro_new_image = img, ro_total_replicas = d_replicas d1, ro_old_pods = [], ro_new_pods_created = 0\<rparr>
                       (pending_rollouts w1)\<rparr>)"

definition patch_configmap :: "json \<Rightarrow> stored_configmap \<Rightarrow> stored_configmap" where
  "patch_configmap patch c =
     c\<lparr>cm_data := hm_extend (cm_data c) (filter_map (\<lambda>(k, v). map_option (Pair k) (jstr v)) (unwrap_or (Option.bind (jget patch ''data'') jobj) []))\<rparr>"

definition patched :: "string \<Rightarrow> json" where
  "patched msg = j_obj [(''kind'', JStr ''Status''), (''status'', JStr ''Success''), (''message'', JStr (msg @ '' patched''))]"

definition route_patch :: "('y, 's) api_env \<Rightarrow> request \<Rightarrow> ('s, reply) handler" where
  "route_patch E r =
     (let (ns, resource, name) = parse_resource_path (rq_path r)
      in case name of
           None \<Rightarrow> h_ret (400, dq ''{`kind`:`Status`,`status`:`Failure`,`message`:`resource name required for PATCH`,`code`:400}'')
         | Some n \<Rightarrow>
             (case jt_parse (ae_json E) (rq_body r) of
                Inl e \<Rightarrow> reply_fail E 400 (''JSON parse: '' @ e)
              | Inr patch \<Rightarrow> with_write (\<lambda>w.
                  if resource = ''deployments'' then
                    (case hm_get (deployments w) n of
                       Some d \<Rightarrow> h_bind (set_world (patch_deployment patch n d w)) (\<lambda>_.
                                 h_bind next_rv (\<lambda>_. reply_json E 200 (patched (''deployment/'' @ n))))
                     | None \<Rightarrow> reply_fail E 404 (''deployment '' @ n @ '' not found''))
                  else if resource = ''configmaps'' then
                    (if hm_contains (configmaps w) n
                     then h_bind (set_world (w\<lparr>configmaps := hm_modify n (patch_configmap patch) (configmaps w)\<rparr>)) (\<lambda>_.
                          h_bind next_rv (\<lambda>_. reply_json E 200 (patched (''configmap/'' @ n))))
                     else reply_fail E 404 (''configmap '' @ n @ '' not found''))
                  else reply_fail E 400 (''PATCH not supported for '' @ resource))))"

subsection \<open>The match\<close>

definition k8s_path :: "string \<Rightarrow> bool" where
  "k8s_path p = (starts_with p ''/api/v1/'' \<or> starts_with p ''/apis/apps/v1/'')"

definition apply_path :: "string \<Rightarrow> bool" where
  "apply_path p =
     (str_contains p ''/namespaces/'' \<or> ends_with p ''/pods'' \<or> ends_with p ''/deployments'' \<or> ends_with p ''/configmaps'' \<or> ends_with p ''/secrets'')"

definition scale_path :: "string \<Rightarrow> bool" where
  "scale_path p = (ends_with p ''/scale'' \<and> str_contains p ''/deployments/'')"

definition writes :: "string \<Rightarrow> bool" where
  "writes m = (m = ''POST'' \<or> m = ''PUT'' \<or> m = ''PATCH'')"

text \<open>The arms after the function triggers, whose guard looks at the world.\<close>

definition route_last :: "('y, 's) api_env \<Rightarrow> request \<Rightarrow> ('s, reply) handler" where
  "route_last E r =
     (let m = rq_method r; p = rq_path r
      in if m = ''POST'' \<and> starts_with p ''/hooks/repo/'' then route_repo_hook E r
         else if starts_with p ''/hooks/'' then route_hook E r
         else if m = ''POST'' \<and> str_contains p ''/pods/'' \<and> str_contains p ''/exec'' then route_exec E r
         else if m = ''GET'' \<and> str_contains p ''/describe/'' then route_describe E r
         else if m = ''GET'' \<and> starts_with p ''/royak/v1/rollout/'' then route_rollout E r
         else if m = ''GET'' \<and> p = ''/royak/v1/top/pods'' then route_top_pods E
         else if m = ''GET'' \<and> p = ''/metrics'' then route_metrics E
         else if m = ''GET'' \<and> p = ''/royak/v1/logs'' then route_logs E r
         else if m = ''GET'' \<and> p = ''/royak/v1/top/nodes'' then route_top_nodes E
         else if m = ''PATCH'' \<and> k8s_path p then route_patch E r
         else reply_json E 404 (failure_v1 (''the server could not find the requested resource: '' @ p) 404))"

definition is_triggered :: "json desired_world \<Rightarrow> string \<Rightarrow> bool" where
  "is_triggered w p = list_ex (\<lambda>f. p \<in> set (fn_http_triggers f)) (hm_values (w_functions w))"

definition route_triggers :: "('y, 's) api_env \<Rightarrow> request \<Rightarrow> ('s, reply) handler" where
  "route_triggers E r =
     (if rq_method r = ''GET'' \<or> rq_method r = ''POST'' then
        h_bind (with_read (\<lambda>w. h_ret (is_triggered w (rq_path r)))) (\<lambda>hit. if hit then route_function E r else route_last E r)
      else route_last E r)"

definition route_nodes :: "('y, 's) api_env \<Rightarrow> request \<Rightarrow> ('s, reply) handler" where
  "route_nodes E r =
     (let m = rq_method r; p = rq_path r
      in if m = ''GET'' \<and> p = ''/royak/v1/flows'' then route_flows E
         else if m = ''GET'' \<and> p = ''/royak/v1/pipelines'' then route_pipelines E
         else if m = ''GET'' \<and> p = ''/royak/v1/brain'' then route_brain E
         else if m = ''GET'' \<and> p = ''/royak/v1/state'' then route_get_state E r
         else if m = ''POST'' \<and> p = ''/royak/v1/state'' then route_post_state E r
         else if m = ''POST'' \<and> p = ''/royak/v1/heartbeat'' then route_heartbeat E r
         else if m = ''POST'' \<and> p = ''/royak/v1/create-pod'' then route_create_pod E r
         else if m = ''GET'' \<and> p = ''/royak/v1/pods'' then route_pods E
         else if m = ''PATCH'' \<and> str_contains p ''/deployments/'' \<and> \<not> ends_with p ''/scale'' \<and> partial_patch E (rq_body r)
         then route_patch_manifest E r
         else if writes m \<and> apply_path p then route_apply E r
         else if m = ''DELETE'' \<and> k8s_path p then route_delete E r
         else route_triggers E r)"

definition route_request :: "('y, 's) api_env \<Rightarrow> request \<Rightarrow> ('s, reply) handler" where
  "route_request E r =
     (let m = rq_method r; p = rq_path r; doc = (\<lambda>v. reply_json E 200 v)
      in if m = ''GET'' \<and> (p = ''/healthz'' \<or> p = ''/readyz'' \<or> p = ''/livez'') then h_ret (200, ''ok'')
         else if m = ''GET'' \<and> p = ''/version'' then doc (version_doc (ae_os E) (ae_arch E))
         else if m = ''GET'' \<and> p = ''/api'' then doc api_versions_doc
         else if m = ''GET'' \<and> p = ''/api/v1'' then doc api_v1_resources_doc
         else if m = ''GET'' \<and> p = ''/apis'' then doc api_groups_doc
         else if m = ''GET'' \<and> p = ''/apis/apps/v1'' then doc apps_v1_resources_doc
         else if m = ''GET'' \<and> p = ''/openapi/v2''
         then h_ret (404, dq ''{`status`:`Failure`,`message`:`v2 not served; v3 at /openapi/v3`,`code`:404}'')
         else if m = ''GET'' \<and> p = ''/openapi/v3'' then doc openapi_v3_root_doc
         else if m = ''GET'' \<and> starts_with p ''/openapi/v3/'' then doc (openapi_v3_group_doc p)
         else if m = ''GET'' \<and> scale_path p then route_get_scale E r
         else if (m = ''PATCH'' \<or> m = ''PUT'') \<and> scale_path p then route_set_scale E r
         else if m = ''GET'' \<and> p = ''/demo/state'' then route_demo_state
         else if m = ''GET'' \<and> p = ''/demo/info'' then route_demo_info E r
         else if m = ''POST'' \<and> p = ''/demo/scale'' then route_demo_scale E r
         else if m = ''POST'' \<and> p = ''/demo/kill'' then route_demo_kill E r
         else if m = ''GET'' \<and> k8s_path p \<and> \<not> ends_with p ''/log'' \<and> \<not> ends_with p ''/scale'' \<and> \<not> str_contains p ''/events''
         then route_get E r
         else if m = ''GET'' \<and> str_contains p ''/events'' then route_events E
         else if m = ''GET'' \<and> str_contains p ''/pods/'' \<and> ends_with p ''/log'' then route_pod_log E r
         else route_nodes E r)"

end
