(* ===== verification/Api_Handler.thy ===== *)
theory Api_Handler
  imports Api_Routes Raft_Store
begin

text \<open>
  \<open>handle_request\<close>, \<^verbatim>\<open>src/src/api.rs\<close>: what stands before the routes (the bearer token, the dashboard, upgrades and streams,
  the Raft endpoints, the leader gate, the admission webhooks) and what a panic in a route turns into.
\<close>

text \<open>
  What the server does with a connection: a plain reply, the dashboard page, one of the streams, or a call of
  the Raft node whose reply is passed on.
\<close>

datatype answer =
    Plain reply
  | Dashboard
  | Exec_socket string
  | Forward_socket string
  | Log_stream string u32
  | Watch_stream string
  | Raft_status
  | Raft_propose command
  | Raft_rpc string string

subsection \<open>Admission webhooks\<close>

definition split_url :: "string \<Rightarrow> string \<times> string" where
  "split_url url =
     (let addr = unwrap_or (strip_prefix url ''http://'') url
      in case split_once (CHR ''/'') addr of Some (hp, p) \<Rightarrow> (hp, ''/'' @ p) | None \<Rightarrow> (addr, ''/''))"

definition review_answer :: "('y, 's) api_env \<Rightarrow> string \<Rightarrow> string option result" where
  "review_answer E raw =
     (case jt_parse (ae_json E) (unwrap_or (after_head raw) raw) of
        Inl e \<Rightarrow> Inl (''bad review: '' @ e)
      | Inr v \<Rightarrow> if jbool (jat (jat v ''response'') ''allowed'') = Some True then Inr None
                else Inr (Some (unwrap_or (jstr (jat (jat (jat v ''response'') ''status'') ''message'')) ''denied'')))"

definition post_admission :: "('y, 's) api_env \<Rightarrow> string \<Rightarrow> json \<Rightarrow> string option result" where
  "post_admission E url review =
     (let (host_port, path) = split_url url; body = to_text E review;
          req = ''POST '' @ path @ '' HTTP/1.1'' @ CRLF @ ''Host: '' @ host_port @ CRLF @ ''Content-Type: application/json'' @ CRLF
                @ ''Content-Length: '' @ show_nat (length body) @ CRLF @ ''Connection: close'' @ CRLF @ CRLF
      in case ae_net E host_port (req @ body) of Inl e \<Rightarrow> Inl e | Inr raw \<Rightarrow> review_answer E raw)"

definition admission_review :: "('y, 's) api_env \<Rightarrow> 'y resource \<Rightarrow> json" where
  "admission_review E r =
     (let kind = r_kind r; name = md_name (r_metadata r); ns = unwrap_or (md_namespace (r_metadata r)) ''default''
      in j_obj [(''apiVersion'', JStr ''admission.k8s.io/v1''), (''kind'', JStr ''AdmissionReview''),
           (''request'', j_obj
              [(''uid'', JStr (resource_uid kind name ns)), (''kind'', j_obj [(''kind'', JStr kind)]), (''name'', JStr name), (''namespace'', JStr ns),
               (''operation'', JStr ''CREATE''), (''object'', unwrap_or (Option.bind (r_spec r) (yv_to_json (ae_yaml E))) JNull)])])"

definition hook_matches :: "('y, 's) api_env \<Rightarrow> admission_webhook \<Rightarrow> string \<Rightarrow> bool" where
  "hook_matches E h kind =
     list_ex (\<lambda>k. k = ''*'' \<or> eq_ignore_ascii_case k (ae_lower E kind @ ''s'') \<or> eq_ignore_ascii_case k kind) (aw_kinds h)"

definition denial :: "string \<Rightarrow> string \<Rightarrow> json" where
  "denial msg reason =
     j_obj [(''kind'', JStr ''Status''), (''apiVersion'', JStr ''v1''), (''status'', JStr ''Failure''), (''message'', JStr msg),
            (''reason'', JStr reason), (''code'', j_nat 403)]"

text \<open>One webhook's verdict on one resource: the denial, or nothing.\<close>

definition hook_verdict :: "('y, 's) api_env \<Rightarrow> 'y resource \<Rightarrow> admission_webhook \<Rightarrow> json option" where
  "hook_verdict E r h =
     (if \<not> hook_matches E h (r_kind r) then None
      else case post_admission E (aw_url h) (admission_review E r) of
             Inr None \<Rightarrow> None
           | Inr (Some reason) \<Rightarrow> Some (denial (''admission webhook '' @ quoted (aw_name h) @ '' denied the request: '' @ reason) ''Forbidden'')
           | Inl e \<Rightarrow> if eq_ignore_ascii_case (aw_failure_policy h) ''Fail''
                     then Some (denial (''admission webhook '' @ quoted (aw_name h) @ '' unreachable ('' @ e @ ''); failurePolicy=Fail'') ''InternalError'')
                     else None)"

fun first_some :: "('a \<Rightarrow> 'b option) \<Rightarrow> 'a list \<Rightarrow> 'b option" where
  "first_some f [] = None"
| "first_some f (x # xs) = (case f x of Some y \<Rightarrow> Some y | None \<Rightarrow> first_some f xs)"

definition reviewed_resources :: "('y, 's) api_env \<Rightarrow> string \<Rightarrow> 'y resource list option" where
  "reviewed_resources E body = (case parse_body E (utf8_lossy body) of Inr rs \<Rightarrow> Some rs | Inl _ \<Rightarrow> None)"

definition admission_gate :: "('y, 's) api_env \<Rightarrow> string \<Rightarrow> ('s, string option) handler" where
  "admission_gate E body = with_read (\<lambda>w.
     h_ret (if admission_webhooks w = [] then None
            else Option.bind (reviewed_resources E body) (\<lambda>rs.
                   map_option (to_text E) (first_some (\<lambda>r. first_some (hook_verdict E r) (hm_values (admission_webhooks w))) rs))))"

subsection \<open>Streams\<close>

definition handle_log_stream :: "('y, 's) api_env \<Rightarrow> string \<Rightarrow> (string, string) hmap \<Rightarrow> ('s, answer) handler" where
  "handle_log_stream E path query =
     (let pod_name = part_before_last path;
          tail = unwrap_or (Option.bind (opt_or (hm_get query ''tailLines'') (hm_get query ''tail'')) parse_u32) 100
      in h_bind (containers E True) (\<lambda>cs.
           case find (named pod_name) (ok_or_nil cs) of
             None \<Rightarrow> h_ret (Plain (404, to_text E (failure (''pod '' @ pod_name @ '' not found'') 404)))
           | Some c \<Rightarrow> h_bind (h_rust (short_id c)) (\<lambda>cid. h_ret (Log_stream cid tail))))"

subsection \<open>The leader gate\<close>

definition not_leader_response :: "('y, 's) api_env \<Rightarrow> reply" where
  "not_leader_response E =
     (let leader = (case ae_raft_leader E of Some l \<Rightarrow> show_word l | None \<Rightarrow> ''unknown'')
      in (421, to_text E (j_obj
           [(''kind'', JStr ''Status''), (''apiVersion'', JStr ''v1''), (''status'', JStr ''Failure''), (''reason'', JStr ''NotLeader''),
            (''message'', JStr (''this node is a Raft follower; writes must be sent to the leader (node '' @ leader @ '')'')),
            (''leader'', j_opt_u64 (ae_raft_leader E)), (''code'', j_nat 421)])))"

text \<open>\<open>spawn_blocking(..).await.unwrap_or_else(..)\<close>: a panic of the route becomes a reply.\<close>

definition catch_panic :: "('s, reply) handler \<Rightarrow> ('s, answer) handler" where
  "catch_panic m s =
     (case m s of
        (Ret p, s') \<Rightarrow> (Ret (Plain p), s')
      | (Panic, s') \<Rightarrow> (Ret (Plain (500, dq ''{`kind`:`Status`,`status`:`Failure`,`message`:`handler panicked`,`code`:500}'')), s'))"

subsection \<open>The whole handler\<close>

definition authorized :: "('y, 's) api_env \<Rightarrow> request \<Rightarrow> bool" where
  "authorized E r =
     (case ae_var E ''ROYAK_TOKEN'' of
        Some t \<Rightarrow> t = [] \<or> unwrap_or (rq_headers r ''authorization'') [] = ''Bearer '' @ t
                  \<or> starts_with (rq_path r) ''/healthz'' \<or> starts_with (rq_path r) ''/readyz''
      | None \<Rightarrow> True)"

definition websocket :: "request \<Rightarrow> bool" where
  "websocket r = (case rq_headers r ''upgrade'' of Some v \<Rightarrow> eq_ignore_ascii_case v ''websocket'' | None \<Rightarrow> False)"

definition is_true :: "string option \<Rightarrow> bool" where
  "is_true v = (v = Some ''true'' \<or> v = Some ''1'')"

definition raft_scale_command :: "('y, 's) api_env \<Rightarrow> string \<Rightarrow> command" where
  "raft_scale_command E body =
     (let v = unwrap_or (jt_ok (ae_json E) body) JNull
      in CScale (unwrap_or (jstr (jat v ''name'')) []) (unwrap_or (jstr (jat v ''namespace'')) ''default'')
           (ucast (unwrap_or (ju64 (jat v ''replicas'')) 1)))"

definition reviewed :: "request \<Rightarrow> bool" where
  "reviewed r = (writes (rq_method r) \<and> \<not> starts_with (rq_path r) ''/royak/v1/'' \<and> apply_path (rq_path r))"

text \<open>The buffered requests: the Raft endpoints, the leader gate, admission, the routes.\<close>

definition handle_buffered :: "('y, 's) api_env \<Rightarrow> request \<Rightarrow> ('s, answer) handler" where
  "handle_buffered E r =
     (let m = rq_method r; p = rq_path r
      in if p = ''/royak/v1/raft/status'' \<and> m = ''GET'' then h_ret Raft_status
         else if p = ''/royak/v1/raft/scale'' \<and> m = ''POST'' then h_ret (Raft_propose (raft_scale_command E (rq_body r)))
         else case strip_prefix p ''/royak/v1/raft/'' of
                Some which \<Rightarrow> h_ret (Raft_rpc which (rq_body r))
              | None \<Rightarrow>
                  if is_gated_write m p \<and> \<not> should_accept_write (ae_leader_or_off E) then h_ret (Plain (not_leader_response E))
                  else h_bind (if reviewed r then admission_gate E (rq_body r) else h_ret None) (\<lambda>deny.
                         case deny of
                           Some d \<Rightarrow> h_ret (Plain (403, d))
                         | None \<Rightarrow> catch_panic (route_request E r)))"

definition handle_request :: "('y, 's) api_env \<Rightarrow> request \<Rightarrow> ('s, answer) handler" where
  "handle_request E r =
     (let m = rq_method r; p = rq_path r; query = parse_query (rq_query r)
      in if \<not> authorized E r
         then h_ret (Plain (401, dq ''{`kind`:`Status`,`status`:`Failure`,`message`:`Unauthorized: set Authorization: Bearer <token>`,`code`:401}''))
         else if (p = ''/'' \<or> p = ''/dashboard'') \<and> m = ''GET'' then h_ret Dashboard
         else if str_contains p ''/pods/'' \<and> ends_with p ''/exec'' \<and> websocket r then h_ret (Exec_socket p)
         else if str_contains p ''/pods/'' \<and> ends_with p ''/portforward''
                 \<and> (case rq_headers r ''sec-websocket-protocol'' of Some v \<Rightarrow> str_contains v ''channel.k8s.io'' | None \<Rightarrow> False) \<and> websocket r
         then h_ret (Forward_socket p)
         else if str_contains p ''/pods/'' \<and> ends_with p ''/log'' \<and> is_true (hm_get query ''follow'') then handle_log_stream E p query
         else if is_true (hm_get query ''watch'') then h_ret (Watch_stream (fst (snd (parse_resource_path p))))
         else handle_buffered E (if writes m then r else r\<lparr>rq_body := []\<rparr>))"

end
