(* ===== verification/Api_Laws.thy ===== *)
theory Api_Laws
  imports Api_Handler
begin

text \<open>
  How the handlers of the API act on the state of the process. \<open>keeps I m\<close>: the handler \<open>m\<close> keeps the predicate \<open>I\<close> on
  states, whether it returns or panics. The locale \<open>observer\<close> collects the arms that only look at the world: they keep every
  predicate that does not see the engine, the statistics cache and the demo's rate limit.
\<close>

named_theorems keeps_intros \<open>composition rules for invariants of handlers\<close>

definition keeps :: "('s api_state \<Rightarrow> bool) \<Rightarrow> ('s, 'a) handler \<Rightarrow> bool" where
  "keeps I m = (\<forall>s. I s \<longrightarrow> I (snd (m s)))"

lemma keepsD: "keeps I m \<Longrightarrow> I s \<Longrightarrow> I (snd (m s))"
  by (simp add: keeps_def)

lemma keeps_basic [keeps_intros]: "keeps I (h_ret x)" "keeps I (h_get f)" "keeps I (h_rust r)" "keeps I current_rv"
  by (simp_all add: keeps_def handler_defs)

lemma keeps_bind [keeps_intros]: "keeps I m \<Longrightarrow> (\<And>x. keeps I (f x)) \<Longrightarrow> keeps I (h_bind m f)"
  by (auto simp: keeps_def h_bind_def split: prod.splits rust.splits)

lemma keeps_map [keeps_intros]: "(\<And>x. keeps I (f x)) \<Longrightarrow> keeps I (h_map f xs)"
  by (induction xs) (auto intro!: keeps_intros)

lemma keeps_each [keeps_intros]: "(\<And>x. keeps I (f x)) \<Longrightarrow> keeps I (h_each f xs)"
  by (induction xs) (auto intro!: keeps_intros)

lemma keeps_read [keeps_intros]: "(\<And>w. keeps I (f w)) \<Longrightarrow> keeps I (with_read f)"
  by (auto simp: keeps_def with_read_def)

lemma keeps_if [keeps_intros]: "(b \<Longrightarrow> keeps I m) \<Longrightarrow> (\<not> b \<Longrightarrow> keeps I m') \<Longrightarrow> keeps I (if b then m else m')"
  by simp

lemma keeps_catch [keeps_intros]: "keeps I m \<Longrightarrow> keeps I (catch_panic m)"
  by (auto simp: keeps_def catch_panic_def split: prod.splits rust.splits)

subsection \<open>Arms that only look\<close>

locale observer =
  fixes I :: "'s api_state \<Rightarrow> bool"
  assumes engine: "I s \<Longrightarrow> I (s\<lparr>api_engine := e\<rparr>)"
    and stats: "I s \<Longrightarrow> I (s\<lparr>api_stats := c\<rparr>)"
    and demo: "I s \<Longrightarrow> I (s\<lparr>api_demo_last := t\<rparr>)"
begin

lemma keeps_engine: "keeps I (h_engine m)"
  by (auto simp: keeps_def h_engine_def engine split: prod.splits)

lemma keeps_ignore: "keeps I (h_ignore m)"
  unfolding h_ignore_def by (intro keeps_intros keeps_engine)

lemma keeps_containers: "keeps I (containers E b)"
  unfolding containers_def by (rule keeps_engine)

lemma keeps_stats: "keeps I (stats_of E i)"
  by (auto simp: keeps_def stats_of_def stats split: prod.splits)

lemma keeps_rate: "keeps I (demo_rate_ok E)"
proof -
  have "keeps I (h_put (\<lambda>s. s\<lparr>api_demo_last := t\<rparr>))" for t
    by (auto simp: keeps_def h_put_def demo)
  then show ?thesis unfolding demo_rate_ok_def by (intro keeps_intros)
qed

lemmas obs = keeps_intros keeps_engine keeps_ignore keeps_containers keeps_stats keeps_rate

lemma views:
  "keeps I (pod_json E n ns img ph b)" "keeps I (get_docker_pods E f)" "keeps I (list_object E k v items)"
  "keeps I (list_pods E nso)" "keeps I (get_pod E n ns)" "keeps I (namespace_json E n)" "keeps I (list_namespaces E w)"
  "keeps I (get_namespace E w n)" "keeps I (deployment_json E d)" "keeps I (list_deployments E w nso)"
  "keeps I (get_deployment E w n ns)"
proof -
  show p: "keeps I (pod_json E n ns img ph b)" for n ns img ph b
    unfolding pod_json_def by (intro obs)
  show d: "keeps I (get_docker_pods E f)" for f
    unfolding get_docker_pods_def split_def by (intro obs p)
  show l: "keeps I (list_object E k v items)" for k v items
    unfolding list_object_def by (intro obs)
  show "keeps I (list_pods E nso)" "keeps I (get_pod E n ns)"
    unfolding list_pods_def get_pod_def by (intro obs d l)+
  show n: "keeps I (namespace_json E n)" for n
    unfolding namespace_json_def by (intro obs)
  show "keeps I (list_namespaces E w)" "keeps I (get_namespace E w n)"
    unfolding list_namespaces_def get_namespace_def by (intro obs n l)+
  show dj: "keeps I (deployment_json E d)" for d
    unfolding deployment_json_def Let_def by (intro obs)
  show "keeps I (list_deployments E w nso)" unfolding list_deployments_def by (intro obs dj l)
  show "keeps I (get_deployment E w n ns)"
    unfolding get_deployment_def by (auto intro!: obs dj split: option.splits)
qed

end

context observer
begin

lemma more_views:
  "keeps I (configmap_json cm)" "keeps I (secret_json se)" "keeps I (list_configmaps E w nso)" "keeps I (get_configmap E w n ns)"
  "keeps I (list_secrets E w nso)" "keeps I (get_secret E w n ns)" "keeps I (stored_node_json E cn)" "keeps I (list_nodes E w)"
  "keeps I (get_node E w n)" "keeps I (list_services E w)" "keeps I (list_events E w)" "keeps I (scale_object E n ns k)"
proof -
  show c: "keeps I (configmap_json cm)" "keeps I (secret_json se)" for cm se
    unfolding configmap_json_def secret_json_def by (intro obs)+
  show "keeps I (list_configmaps E w nso)" "keeps I (list_secrets E w nso)"
    unfolding list_configmaps_def list_secrets_def by (intro obs c views)+
  show "keeps I (get_configmap E w n ns)" "keeps I (get_secret E w n ns)"
    unfolding get_configmap_def get_secret_def by (auto intro!: obs c split: option.splits)
  have j: "keeps I (node_json E a b x1 x2 x3 x4 x5)" for a b x1 x2 x3 x4 x5
    unfolding node_json_def by (intro obs)
  show n: "keeps I (stored_node_json E cn)" for cn
    unfolding stored_node_json_def by (rule j)
  show "keeps I (list_nodes E w)" unfolding list_nodes_def by (intro obs n j views)
  show "keeps I (get_node E w n)" unfolding get_node_def by (auto intro!: obs n split: option.splits)
  show "keeps I (list_services E w)" "keeps I (list_events E w)"
    unfolding list_services_def list_events_def by (rule views)+
  show "keeps I (scale_object E n ns k)" unfolding scale_object_def by (intro obs)
qed

lemma looking_arms:
  "keeps I (route_get_scale E r)" "keeps I route_demo_state" "keeps I (route_demo_info E r)" "keeps I (route_demo_kill E r)"
  "keeps I (route_get E r)" "keeps I (route_events E)" "keeps I (route_pod_log E r)" "keeps I (route_flows E)"
  "keeps I (route_pipelines E)" "keeps I (route_brain E)" "keeps I (route_get_state E r)" "keeps I (route_create_pod E r)"
  "keeps I (route_pods E)"
proof -
  show "keeps I (route_get_scale E r)"
    unfolding route_get_scale_def split_def Let_def by (auto intro!: obs more_views split: option.splits)
  show "keeps I route_demo_state" "keeps I (route_demo_info E r)"
    unfolding route_demo_state_def route_demo_info_def by (intro obs)+
  show "keeps I (route_demo_kill E r)"
    unfolding route_demo_kill_def demo_guard_def by (auto intro!: obs split: option.splits)
  show "keeps I (route_get E r)"
    unfolding route_get_def split_def Let_def by (auto intro!: obs views more_views split: option.splits)
  show "keeps I (route_events E)" "keeps I (route_flows E)" "keeps I (route_pipelines E)" "keeps I (route_brain E)"
    unfolding route_events_def route_flows_def route_pipelines_def route_brain_def by (intro obs more_views)+
  show "keeps I (route_pod_log E r)"
    unfolding route_pod_log_def Let_def by (auto intro!: obs split: sum.splits option.splits)
  show "keeps I (route_get_state E r)" "keeps I (route_pods E)"
    unfolding route_get_state_def route_pods_def by (intro obs)+
  have "keeps I (start_pod_here E a b c)" for a b c
    unfolding start_pod_here_def by (auto intro!: obs split: sum.splits)
  then show "keeps I (route_create_pod E r)"
    unfolding route_create_pod_def Let_def by (auto intro!: obs split: sum.splits)
qed

lemma looking_arms2:
  "keeps I (route_exec E r)" "keeps I (route_describe E r)" "keeps I (route_rollout E r)" "keeps I (route_top_pods E)"
  "keeps I (route_metrics E)" "keeps I (route_logs E r)" "keeps I (route_top_nodes E)"
proof -
  show "keeps I (route_exec E r)"
    unfolding route_exec_def Let_def by (auto intro!: obs split: sum.splits option.splits)
  have "keeps I (describe_pod E w n)" for w n
    unfolding describe_pod_def by (auto intro!: obs split: sum.splits option.splits)
  then show "keeps I (route_describe E r)"
    unfolding route_describe_def split_def Let_def by (auto intro!: obs split: option.splits)
  show "keeps I (route_rollout E r)"
    unfolding route_rollout_def Let_def by (auto intro!: obs split: option.splits)
  have "keeps I (top_pod E c)" "keeps I (pod_metrics E c)" "keeps I (deployment_metrics E d)" "keeps I (pod_log_lines E se ta c)" for c d se ta
    unfolding top_pod_def pod_metrics_def deployment_metrics_def pod_log_lines_def split_def Let_def by (intro obs)+
  then show "keeps I (route_top_pods E)" "keeps I (route_metrics E)" "keeps I (route_logs E r)"
    unfolding route_top_pods_def route_metrics_def route_logs_def Let_def by (auto intro!: obs split: sum.splits)
  show "keeps I (route_top_nodes E)"
    unfolding route_top_nodes_def Let_def by (intro obs)
qed

lemma admission: "keeps I (admission_gate E b)" "keeps I (handle_log_stream E p q)"
  unfolding admission_gate_def handle_log_stream_def Let_def by (auto intro!: obs split: option.splits)

end

subsection \<open>Which requests can write\<close>

text \<open>The methods and paths of the arms that change the world.\<close>

definition may_write :: "string \<Rightarrow> string \<Rightarrow> bool" where
  "may_write m p =
     ((m = ''PATCH'' \<or> m = ''PUT'') \<and> scale_path p \<or> m = ''POST'' \<and> p \<in> {''/demo/scale'', ''/royak/v1/state'', ''/royak/v1/heartbeat''}
      \<or> m = ''PATCH'' \<and> str_contains p ''/deployments/'' \<or> writes m \<and> apply_path p \<or> m = ''DELETE'' \<and> k8s_path p
      \<or> starts_with p ''/hooks/'' \<or> m = ''PATCH'' \<and> k8s_path p)"

lemma starts_with_shorter: "starts_with s (p @ q) \<Longrightarrow> starts_with s p"
proof -
  assume "starts_with s (p @ q)"
  then have "take (length p) (take (length (p @ q)) s) = p" by (simp add: starts_with_def)
  then show ?thesis by (simp add: starts_with_def)
qed

lemma hooks_repo: "starts_with p ''/hooks/repo/'' \<Longrightarrow> starts_with p ''/hooks/''"
  using starts_with_shorter[of p "''/hooks/''" "''repo/''"] by simp

text \<open>The same at one state, for the arms whose guard looks at the world.\<close>

definition keeps_at :: "'s api_state \<Rightarrow> ('s api_state \<Rightarrow> bool) \<Rightarrow> ('s, 'a) handler \<Rightarrow> bool" where
  "keeps_at s I m = (I s \<longrightarrow> I (snd (m s)))"

lemma keeps_at: "keeps I m \<Longrightarrow> keeps_at s I m"
  by (simp add: keeps_def keeps_at_def)

lemma keeps_at_if: "(b \<Longrightarrow> keeps_at s I m) \<Longrightarrow> (\<not> b \<Longrightarrow> keeps_at s I m') \<Longrightarrow> keeps_at s I (if b then m else m')"
  by simp

lemma keeps_at_triggers:
  assumes "\<not> is_triggered (api_world s) (rq_path r)" and "keeps I (route_last E r)"
  shows "keeps_at s I (route_triggers E r)"
  using keepsD[OF assms(2)] assms(1)
  by (auto simp: keeps_at_def route_triggers_def h_bind_def with_read_def h_ret_def)

context observer
begin

lemma route_last_looks: "\<not> may_write (rq_method r) (rq_path r) \<Longrightarrow> keeps I (route_last E r)"
  unfolding route_last_def Let_def
  by (intro keeps_if keeps_basic looking_arms2) (simp_all add: may_write_def hooks_repo)

lemma route_request_looks:
  assumes "\<not> may_write (rq_method r) (rq_path r)" and "\<not> is_triggered (api_world s) (rq_path r)"
  shows "keeps_at s I (route_request E r)"
proof -
  have "keeps_at s I (route_nodes E r)"
    unfolding route_nodes_def Let_def
    by (intro keeps_at_if keeps_at_triggers[OF assms(2) route_last_looks[OF assms(1)]] looking_arms[THEN keeps_at])
      (use assms(1) in \<open>simp_all add: may_write_def\<close>)
  then show ?thesis
    unfolding route_request_def Let_def
    by (intro keeps_at_if looking_arms[THEN keeps_at] keeps_basic[THEN keeps_at])
      (use assms(1) in \<open>simp_all add: may_write_def\<close>)
qed

end

context observer
begin

lemma handle_request_looks:
  assumes "\<not> may_write (rq_method r) (rq_path r)" and "\<not> is_triggered (api_world s) (rq_path r)"
  shows "keeps_at s I (handle_request E r)"
proof -
  have b: "keeps_at s I (handle_buffered E r')" if r': "rq_method r' = rq_method r" "rq_path r' = rq_path r" for r'
  proof -
    have "\<not> reviewed r'" using assms(1) r' by (auto simp: reviewed_def may_write_def)
    moreover have "keeps_at s I (catch_panic (route_request E r'))"
      using route_request_looks[of r' s E] assms r'
      by (auto simp: keeps_at_def catch_panic_def split: prod.splits rust.splits)
    ultimately show ?thesis
      unfolding handle_buffered_def Let_def
      by (auto simp: keeps_at_def h_bind_def h_ret_def split: option.splits)
  qed
  show ?thesis
    unfolding handle_request_def Let_def
    by (intro keeps_at_if b keeps_basic(1)[THEN keeps_at] admission(2)[THEN keeps_at]) simp_all
qed

end

text \<open>The parts of the state that a client or a restart can see.\<close>

definition cluster_state :: "'s api_state \<Rightarrow> json desired_world \<times> bool \<times> u64 \<times> state_files \<times> effect list" where
  "cluster_state s = (api_world s, api_poisoned s, api_rv s, api_files s, api_effects s)"

interpretation frozen: observer "\<lambda>s. cluster_state s = c" for c
  by unfold_locales (simp_all add: cluster_state_def)

lemma gate_covers_writes:
  assumes "may_write m p" and "\<not> is_gated_write m p"
  shows "starts_with p ''/royak/v1/'' \<or> starts_with p ''/demo/'' \<or> starts_with p ''/hooks/''"
proof -
  have "starts_with ''/demo/scale'' ''/demo/''" "starts_with ''/royak/v1/state'' ''/royak/v1/''" "starts_with ''/royak/v1/heartbeat'' ''/royak/v1/''"
    by code_simp+
  with assms show ?thesis
    unfolding may_write_def is_gated_write_def writes_def apply_path_def scale_path_def k8s_path_def Let_def
    by (auto split: if_splits)
qed

lemma follower_refuses:
  assumes "is_gated_write (rq_method r) (rq_path r)" and "\<not> ae_leader_or_off E"
  shows "snd (handle_buffered E r s) = s"
  using assms by (simp add: handle_buffered_def should_accept_write_def h_ret_def Let_def split: option.splits)

subsection \<open>Well-formed worlds\<close>

abbreviation wok :: "'s api_state \<Rightarrow> bool" where
  "wok s \<equiv> world_ok (api_world s)"

interpretation wok: observer wok
  by unfold_locales simp_all

lemma wok_steps [keeps_intros]: "keeps wok next_rv" "keeps wok (save_world E w)" "keeps wok (do_effects es)"
  by (auto simp: keeps_def next_rv_def save_world_eq do_effects_def h_put_def split: rust.splits)

lemma wok_set [keeps_intros]: "world_ok w \<Longrightarrow> keeps wok (set_world w)"
  by (simp add: keeps_def set_world_def h_put_def)

lemma wok_write: "(\<And>w. world_ok w \<Longrightarrow> keeps wok (f w)) \<Longrightarrow> keeps wok (with_write f)"
  by (auto simp: keeps_def with_write_def split: prod.splits rust.splits) (metis snd_conv)+

lemma wok_world: "(\<And>w. world_ok w \<Longrightarrow> keeps wok (f w)) \<Longrightarrow> keeps wok (h_bind (h_get api_world) f)"
  by (auto simp: keeps_def h_bind_def h_get_def)

lemma keeps_rust: "(\<And>x. m = Ret x \<Longrightarrow> keeps I (f x)) \<Longrightarrow> keeps I (h_bind (h_rust m) f)"
  by (cases m) (auto simp: keeps_def h_bind_def h_rust_def)

context observer
begin

lemma keeps_yields:
  assumes "yields P m" and "\<And>e. keeps I (f (Inl e))" and "\<And>x. P x \<Longrightarrow> keeps I (f (Inr x))"
  shows "keeps I (h_bind (h_engine m) f)"
  unfolding keeps_def
proof (intro allI impI)
  fix s assume s: "I s"
  obtain r e where m: "m (api_engine s) = (r, e)" by fastforce
  have s': "I (s\<lparr>api_engine := e\<rparr>)" by (rule engine[OF s])
  show "I (snd (h_bind (h_engine m) f s))"
  proof (cases r)
    case Panic
    with m s' show ?thesis by (simp add: h_bind_def h_engine_def)
  next
    case (Ret x)
    then have "keeps I (f x)" using assms m by (cases x) (auto simp: yields_def)
    with m s' Ret show ?thesis by (simp add: h_bind_def h_engine_def keepsD)
  qed
qed

end

subsection \<open>Arms that change the world\<close>

lemma keyed_modify_to: "keyed f m \<Longrightarrow> f v = k \<Longrightarrow> keyed f (hm_modify k (\<lambda>_. v) m)"
  by (rule keyedI) (auto dest: keyed_get split: if_splits)

lemma world_ok_changes:
  assumes "world_ok w"
  shows "world_ok (set_replicas n k w)" "world_ok (w\<lparr>nodes := hm_modify n (beat_node now hb) (nodes w)\<rparr>)"
    "world_ok (w\<lparr>configmaps := hm_remove n (configmaps w)\<rparr>)" "world_ok (w\<lparr>secrets := hm_remove n (secrets w)\<rparr>)"
    "world_ok (w\<lparr>namespaces := filter P (namespaces w)\<rparr>)" "world_ok (w\<lparr>configmaps := hm_modify n (patch_configmap v) (configmaps w)\<rparr>)"
    "world_ok (w\<lparr>manifests := hm_insert key m (manifests w)\<rparr>)"
proof -
  note k = world_ok_keyed[OF assms]
  show "world_ok (set_replicas n k w)" "world_ok (w\<lparr>nodes := hm_modify n (beat_node now hb) (nodes w)\<rparr>)"
    "world_ok (w\<lparr>configmaps := hm_modify n (patch_configmap v) (configmaps w)\<rparr>)"
    by (simp_all add: assms set_replicas_def beat_node_def patch_configmap_def keyed_modify k)
  show "world_ok (w\<lparr>configmaps := hm_remove n (configmaps w)\<rparr>)" "world_ok (w\<lparr>secrets := hm_remove n (secrets w)\<rparr>)"
    by (simp_all add: assms k)
  show "world_ok (w\<lparr>namespaces := filter P (namespaces w)\<rparr>)" "world_ok (w\<lparr>manifests := hm_insert key m (manifests w)\<rparr>)"
    using assms by (simp_all add: world_ok_def)
qed

lemma world_ok_patch_deployment:
  assumes "world_ok w" and "hm_get (deployments w) n = Some d"
  shows "world_ok (patch_deployment v n d w)"
proof -
  have "keyed d_name (hm_modify n (\<lambda>_. d') (deployments w))" if "d_name d' = d_name d" for d'
    using keyed_modify_to[OF world_ok_keyed(1)[OF assms(1)], of d' n] keyed_get[OF world_ok_keyed(1)[OF assms(1)] assms(2)] that by simp
  then show ?thesis
    using assms(1) by (simp add: patch_deployment_def Let_def world_ok_keyed split: option.splits)
qed

lemma world_ok_remember: "world_ok w \<Longrightarrow> world_ok (fold remember_manifest ds w)"
  by (induction ds arbitrary: w) (auto simp: remember_manifest_def world_ok_changes split: option.splits)

lemma wok_apply_all: "keeps wok (apply_all E i rs)"
proof (induction rs arbitrary: i)
  case (Cons x xs)
  show ?case
    unfolding apply_all.simps
  proof (intro wok_world keeps_rust)
    fix w y assume w: "world_ok w" and y: "apply_resource (ae_yaml E) serde_value (ae_machine E i) x w = Ret y"
    then have "world_ok (fst (snd y))"
      using arm_okD[OF apply_resource_arm w, of "ae_yaml E" serde_value "ae_machine E i" x "fst y" "fst (snd y)" "snd (snd y)"] by simp
    then show "keeps wok (case y of (res, w', es) \<Rightarrow> h_bind (set_world w') (\<lambda>_. h_bind (do_effects es) (\<lambda>_.
        case res of Inl e \<Rightarrow> h_ret (Some e) | Inr _ \<Rightarrow> apply_all E (Suc i) xs)))"
      unfolding split_def by (intro keeps_intros) (auto intro!: keeps_intros Cons split: sum.splits)
  qed
qed (simp add: keeps_intros)

lemma wok_scale: "keeps wok (route_set_scale E r)" "keeps wok (route_demo_scale E r)"
  unfolding route_set_scale_def route_demo_scale_def demo_guard_def split_def Let_def
  by (auto intro!: wok_write keeps_intros wok.more_views wok.keeps_rate world_ok_changes split: option.splits)

lemma wok_heartbeat: "keeps wok (route_heartbeat E r)"
  unfolding route_heartbeat_def
  by (auto intro!: wok_write keeps_intros world_ok_changes split: option.splits)

lemma wok_apply: "keeps wok (route_apply E r)"
proof -
  have "keeps wok (apply_under_lock E b rs)" for b rs
    unfolding apply_under_lock_def Let_def
    by (auto intro!: wok_write wok_world keeps_intros wok_apply_all world_ok_remember split: option.splits)
  then show ?thesis
    unfolding route_apply_def Let_def by (auto intro!: keeps_intros split: sum.splits)
qed

lemma wok_patch_manifest: "keeps wok (route_patch_manifest E r)"
  unfolding route_patch_manifest_def Let_def
  by (auto intro!: wok_write wok_world keeps_intros wok_apply_all world_ok_changes split: option.splits sum.splits)

lemma keeps_option: "keeps I m \<Longrightarrow> (\<And>x. keeps I (f x)) \<Longrightarrow> keeps I (case v of None \<Rightarrow> m | Some x \<Rightarrow> f x)"
  by (cases v) simp_all

lemma wok_delete: "keeps wok (route_delete E r)"
proof -
  have s: "keeps wok (delete_stored ty n w)" if "world_ok w" for ty n w
    using delete_resource_ok[OF that, of ty n] unfolding delete_stored_def
    by (auto intro!: keeps_intros split: prod.splits)
  have "keeps wok (stop_and_remove E c)" for c
    unfolding stop_and_remove_def by (intro wok.obs)
  then have "keeps wok (delete_under_lock E ty n w)" if "world_ok w" for ty n w
    unfolding delete_under_lock_def by (intro keeps_if keeps_option wok.obs wok_set s world_ok_changes that)
  then show ?thesis
    unfolding route_delete_def split_def Let_def by (auto intro!: wok_write keeps_intros split: option.splits)
qed

lemma wok_call_function: "keeps wok (call_function E n answer)"
  unfolding call_function_def
proof (rule wok_write)
  fix w :: "json desired_world" assume w: "world_ok w"
  show "keeps wok (h_bind (h_engine (invoke_function E n w)) (\<lambda>r. case r of
      Inl e \<Rightarrow> reply_json E 500 (j_obj [(''status'', JStr ''error''), (''function'', JStr n), (''error'', JStr e)])
    | Inr (res, w') \<Rightarrow> h_bind (set_world w') (\<lambda>_. case res of
          Inr result \<Rightarrow> reply_json E 200 (answer result)
        | Inl e \<Rightarrow> reply_json E 500 (j_obj [(''status'', JStr ''error''), (''function'', JStr n), (''error'', JStr e)]))))"
  proof (rule wok.keeps_yields[OF invoke_function_counted])
    fix x assume "counted E n w x"
    then have "world_ok (snd x)" using w count_call_ok by (auto simp: counted_def)
    then show "keeps wok (case Inr x of Inl e \<Rightarrow> reply_json E 500 (j_obj [(''status'', JStr ''error''), (''function'', JStr n), (''error'', JStr e)])
      | Inr (res, w') \<Rightarrow> h_bind (set_world w') (\<lambda>_. case res of Inr result \<Rightarrow> reply_json E 200 (answer result)
          | Inl e \<Rightarrow> reply_json E 500 (j_obj [(''status'', JStr ''error''), (''function'', JStr n), (''error'', JStr e)])))"
      by (auto intro!: keeps_intros split: prod.splits sum.splits)
  qed (simp add: keeps_intros)
qed

lemma wok_hooks: "keeps wok (route_function E r)" "keeps wok (route_hook E r)" "keeps wok (route_repo_hook E r)"
proof -
  show "keeps wok (route_function E r)" "keeps wok (route_hook E r)"
    unfolding route_function_def route_hook_def by (auto intro!: keeps_intros wok_call_function split: option.splits)
  show "keeps wok (route_repo_hook E r)"
    unfolding route_repo_hook_def Let_def split_def
    using world_ok_start_pipeline by (auto intro!: wok_write keeps_intros split: option.splits sum.splits)
qed

lemma wok_patch: "keeps wok (route_patch E r)"
  unfolding route_patch_def split_def Let_def
  by (auto intro!: wok_write keeps_intros world_ok_changes world_ok_patch_deployment split: option.splits sum.splits)

lemma wok_triggers: "keeps wok (route_triggers E r)"
proof -
  have "keeps wok (route_last E r)"
    unfolding route_last_def Let_def by (intro keeps_if wok_hooks wok_patch wok.looking_arms2 keeps_basic)
  then show ?thesis
    unfolding route_triggers_def by (intro keeps_intros wok_hooks)
qed

lemma wok_route:
  assumes "\<not> (rq_method r = ''POST'' \<and> rq_path r = ''/royak/v1/state'')"
  shows "keeps wok (route_request E r)"
proof -
  have "keeps wok (route_nodes E r)"
    unfolding route_nodes_def Let_def
    by (intro keeps_if wok.looking_arms wok_heartbeat wok_patch_manifest wok_apply wok_delete wok_triggers) (use assms in simp)
  then show ?thesis
    unfolding route_request_def Let_def
    by (intro keeps_if wok.looking_arms wok_scale keeps_basic)
qed

lemma wok_handle:
  assumes "\<not> (rq_method r = ''POST'' \<and> rq_path r = ''/royak/v1/state'')"
  shows "keeps wok (handle_request E r)"
proof -
  have "keeps wok (handle_buffered E r')" if "rq_method r' = rq_method r" "rq_path r' = rq_path r" for r'
    unfolding handle_buffered_def Let_def using assms that
    by (auto intro!: keeps_intros wok.admission wok_route split: option.splits)
  then show ?thesis
    unfolding handle_request_def Let_def by (intro keeps_if keeps_basic wok.admission) simp_all
qed

subsection \<open>Statuses\<close>

text \<open>\<open>returns P m\<close>: whatever \<open>m\<close> returns satisfies \<open>P\<close>.\<close>

named_theorems returns_intros \<open>composition rules for the replies of handlers\<close>

definition returns :: "('a \<Rightarrow> bool) \<Rightarrow> ('s, 'a) handler \<Rightarrow> bool" where
  "returns P m = (\<forall>s s' x. m s = (Ret x, s') \<longrightarrow> P x)"

lemma returns_ret [returns_intros]: "P x \<Longrightarrow> returns P (h_ret x)"
  by (simp add: returns_def h_ret_def)

lemma returns_bind [returns_intros]: "(\<And>x. returns P (f x)) \<Longrightarrow> returns P (h_bind m f)"
  by (auto simp: returns_def h_bind_def split: prod.splits rust.splits)

lemma returns_locked [returns_intros]:
  "(\<And>w. returns P (f w)) \<Longrightarrow> returns P (with_read f)" "(\<And>w. returns P (f w)) \<Longrightarrow> returns P (with_write f)"
  by (auto simp: returns_def with_read_def with_write_def split: if_splits prod.splits rust.splits)

lemma returns_cases [returns_intros]:
  "returns P m \<Longrightarrow> returns P m' \<Longrightarrow> returns P (if b then m else m')"
  "returns P m \<Longrightarrow> (\<And>x. returns P (f x)) \<Longrightarrow> returns P (case v of None \<Rightarrow> m | Some x \<Rightarrow> f x)"
  "(\<And>x. returns P (g x)) \<Longrightarrow> (\<And>x. returns P (h x)) \<Longrightarrow> returns P (case t of Inl x \<Rightarrow> g x | Inr x \<Rightarrow> h x)"
  "(\<And>x y. returns P (k x y)) \<Longrightarrow> returns P (case u of (x, y) \<Rightarrow> k x y)"
  by (simp_all split: option.splits sum.splits prod.splits)

definition CODES :: "u16 set" where
  "CODES = {200, 400, 403, 404, 413, 429, 500, 503}"

abbreviation plain_status :: "reply \<Rightarrow> bool" where
  "plain_status p \<equiv> fst p \<in> CODES"

lemma CODES [simp]:
  "200 \<in> CODES" "400 \<in> CODES" "403 \<in> CODES" "404 \<in> CODES" "413 \<in> CODES" "429 \<in> CODES" "500 \<in> CODES" "503 \<in> CODES" "201 \<notin> CODES"
  by (simp_all add: CODES_def)

lemma looks_status:
  "returns plain_status (route_get_scale E r)" "returns plain_status (route_set_scale E r)" "returns plain_status route_demo_state"
  "returns plain_status (route_demo_info E r)" "returns plain_status (route_demo_scale E r)" "returns plain_status (route_demo_kill E r)"
  "returns plain_status (route_events E)" "returns plain_status (route_pod_log E r)"
  "returns plain_status (route_flows E)" "returns plain_status (route_pipelines E)" "returns plain_status (route_brain E)"
  "returns plain_status (route_get_state E r)" "returns plain_status (route_post_state E r)" "returns plain_status (route_heartbeat E r)"
  "returns plain_status (route_pods E)"
  unfolding route_get_scale_def route_set_scale_def route_demo_state_def route_demo_info_def route_demo_scale_def route_demo_kill_def
    demo_guard_def route_events_def route_pod_log_def route_flows_def route_pipelines_def route_brain_def route_get_state_def
    route_post_state_def route_heartbeat_def route_pods_def Let_def
  by (intro returns_intros; simp split: sum.splits)+

lemma get_status: "returns plain_status (route_get E r)"
proof -
  have v: "returns plain_status (get_pod E n ns)" "returns plain_status (get_deployment E w n ns)" "returns plain_status (get_namespace E w n)"
    "returns plain_status (get_configmap E w n ns)" "returns plain_status (get_secret E w n ns)" "returns plain_status (get_node E w n)" for n ns w
    unfolding get_pod_def get_deployment_def get_namespace_def get_configmap_def get_secret_def get_node_def
    by (intro returns_intros; simp split: option.splits)+
  show ?thesis unfolding route_get_def Let_def by (intro returns_intros v; simp)
qed

lemma pods_status: "returns plain_status (route_create_pod E r)" "returns plain_status (route_exec E r)" "returns plain_status (route_describe E r)"
proof -
  have "returns plain_status (start_pod_here E a b c)" "returns plain_status (describe_pod E w n)" for a b c w n
    unfolding start_pod_here_def describe_pod_def by (intro returns_intros; simp)+
  then show "returns plain_status (route_create_pod E r)" "returns plain_status (route_exec E r)" "returns plain_status (route_describe E r)"
    unfolding route_create_pod_def route_exec_def route_describe_def Let_def by (intro returns_intros; simp)+
qed

lemma change_status:
  "returns plain_status (route_patch_manifest E r)" "returns plain_status (route_delete E r)" "returns plain_status (call_function E n a)"
  "returns plain_status (route_repo_hook E r)" "returns plain_status (route_patch E r)"
  unfolding route_patch_manifest_def route_delete_def call_function_def route_repo_hook_def route_patch_def Let_def
  by (intro returns_intros; simp)+

lemma usage_status:
  "returns plain_status (route_rollout E r)" "returns plain_status (route_top_pods E)" "returns plain_status (route_metrics E)"
  "returns plain_status (route_logs E r)" "returns plain_status (route_top_nodes E)"
  unfolding route_rollout_def route_top_pods_def route_metrics_def route_logs_def route_top_nodes_def Let_def
  by (intro returns_intros; simp)+

lemma triggers_status: "returns plain_status (route_triggers E r)"
proof -
  have h: "returns plain_status (route_function E r)" "returns plain_status (route_hook E r)"
    unfolding route_function_def route_hook_def by (intro returns_intros change_status; simp)+
  have "returns plain_status (route_last E r)"
    unfolding route_last_def Let_def by (intro returns_intros change_status h pods_status usage_status; simp)
  then show ?thesis unfolding route_triggers_def by (intro returns_intros h)
qed

text \<open>A request gets one of these statuses, or it was taken by the apply arm.\<close>

definition by_apply :: "('y, 's) api_env \<Rightarrow> request \<Rightarrow> 's api_state \<Rightarrow> ('s, reply) handler \<Rightarrow> bool" where
  "by_apply E r s m = (\<forall>p s'. m s = (Ret p, s') \<longrightarrow> plain_status p \<or> route_apply E r s = (Ret p, s'))"

lemma by_apply_plain: "returns plain_status m \<Longrightarrow> by_apply E r s m"
  by (auto simp: by_apply_def returns_def)

lemma by_apply_if: "by_apply E r s m \<Longrightarrow> by_apply E r s m' \<Longrightarrow> by_apply E r s (if b then m else m')"
  by simp

lemma by_apply_itself: "by_apply E r s (route_apply E r)"
  by (simp add: by_apply_def)

lemma route_request_status: "by_apply E r s (route_request E r)"
proof -
  have n: "by_apply E r s (route_nodes E r)"
    unfolding route_nodes_def Let_def
    by (intro by_apply_if by_apply_itself by_apply_plain looks_status pods_status change_status triggers_status)
  show ?thesis
    unfolding route_request_def Let_def
    by (intro by_apply_if n looks_status[THEN by_apply_plain] get_status[THEN by_apply_plain] by_apply_plain[OF returns_ret]) simp_all
qed

subsection \<open>The apply arm\<close>

text \<open>A reply 201 comes after the world has been saved.\<close>

lemma route_apply_created:
  assumes "route_apply E r s = (Ret (201, b), s')"
  obtains f where "save_state (ae_text E) (ae_emb E) (ae_aes E) (ae_key E) (ae_nonce E) (ae_disk E) (api_world s') f = Ret (api_files s')"
proof -
  obtain rs where "apply_under_lock E (utf8_lossy (rq_body r)) rs s = (Ret (201, b), s')"
    using assms
    by (auto simp: route_apply_def h_bind_def with_read_def h_ret_def Let_def split: if_splits sum.splits prod.splits rust.splits)
  then show thesis
    using that
    by (auto simp: apply_under_lock_def with_write_def h_bind_def h_get_def h_put_def set_world_def save_world_eq next_rv_def current_rv_def h_ret_def Let_def
        split: if_splits option.splits prod.splits rust.splits)
qed

end
