(* ===== verification/Api_Props.thy ===== *)
theory Api_Props
  imports Api_Laws State_Props
begin

text \<open>
  Properties of the API server: what a request can change on a follower, what a read changes, that the world stays well
  formed under any sequence of requests, that an acknowledged write survives a restart, and how far the demo
  controls, the role check and a poisoned lock reach.
\<close>

subsection \<open>The leader gate\<close>

lemma handle_request_follower:
  assumes "\<not> ae_leader_or_off E" and "is_gated_write (rq_method r) (rq_path r)"
  shows "keeps_at s (\<lambda>t. cluster_state t = c) (handle_request E r)"
proof -
  have b: "keeps_at s (\<lambda>t. cluster_state t = c) (handle_buffered E r')"
    if "rq_method r' = rq_method r" "rq_path r' = rq_path r" for r'
    using follower_refuses[of r' E s] assms that by (simp add: keeps_at_def)
  show ?thesis
    unfolding handle_request_def Let_def
    by (intro keeps_at_if b keeps_basic(1)[THEN keeps_at] frozen.admission(2)[THEN keeps_at]) simp_all
qed

text \<open>
  C6: A follower does not diverge: while this node is a clustered follower, no request outside the node-to-node, demo, hook and
  function paths changes the world, the saved state, the resource version, the lock or the disk. The gate covers every arm that writes.
\<close>
theorem follower_never_diverges:
  assumes "\<not> ae_leader_or_off E" and "\<not> starts_with (rq_path r) ''/royak/v1/''" and "\<not> starts_with (rq_path r) ''/demo/''"
    and "\<not> starts_with (rq_path r) ''/hooks/''" and "\<not> is_triggered (api_world s) (rq_path r)"
  shows "cluster_state (snd (handle_request E r s)) = cluster_state s"
proof (cases "is_gated_write (rq_method r) (rq_path r)")
  case True
  then show ?thesis using handle_request_follower[OF assms(1), of r s "cluster_state s"] by (simp add: keeps_at_def)
next
  case False
  then have "\<not> may_write (rq_method r) (rq_path r)" using gate_covers_writes assms(2-4) by blast
  from frozen.handle_request_looks[OF this assms(5), of "cluster_state s"] show ?thesis by (simp add: keeps_at_def)
qed

text \<open>
  Reading does not write: a GET outside the hooks and the function triggers leaves the world, the saved state, the
  resource version, the lock and the disk as they are, whatever it answers and even when it panics.
\<close>
theorem reads_change_nothing:
  assumes "rq_method r = ''GET''" and "\<not> starts_with (rq_path r) ''/hooks/''" and "\<not> is_triggered (api_world s) (rq_path r)"
  shows "cluster_state (snd (handle_request E r s)) = cluster_state s"
proof -
  have "\<not> may_write (rq_method r) (rq_path r)" using assms(1,2) by (simp add: may_write_def writes_def)
  from frozen.handle_request_looks[OF this assms(3), of "cluster_state s"] show ?thesis by (simp add: keeps_at_def)
qed

text \<open>
  The gate has a hole: a POST to a path that starts with \<^verbatim>\<open>/royak/v1/namespaces/\<close> is applied like any other manifest, but neither the
  leader gate nor the admission webhooks see it. On a follower it goes straight to the apply arm.
\<close>
theorem gate_and_admission_bypass:
  assumes "rq_method r = ''POST''" and "rq_path r = ''/royak/v1/namespaces/'' @ rest"
  shows "handle_buffered E r = catch_panic (route_apply E r)"
proof -
  have p: "apply_path (rq_path r)" "starts_with (rq_path r) ''/royak/v1/''" "strip_prefix (rq_path r) ''/royak/v1/raft/'' = None"
    "\<not> k8s_path (rq_path r)"
    using assms(2) by (simp_all add: apply_path_def starts_with_def strip_prefix_def k8s_path_def)
  have "rq_path r \<noteq> q" if "q \<in> {''/demo/scale'', ''/demo/kill'', ''/royak/v1/state'', ''/royak/v1/heartbeat'', ''/royak/v1/create-pod'', ''/royak/v1/raft/scale''}" for q
    using that assms(2) by auto
  then have q: "rq_path r \<noteq> ''/demo/scale''" "rq_path r \<noteq> ''/demo/kill''" "rq_path r \<noteq> ''/royak/v1/state''" "rq_path r \<noteq> ''/royak/v1/heartbeat''"
    "rq_path r \<noteq> ''/royak/v1/create-pod''" "rq_path r \<noteq> ''/royak/v1/raft/scale''"
    by blast+
  have "route_request E r = route_apply E r"
    using assms(1) p q by (simp add: route_request_def route_nodes_def writes_def Let_def)
  then show ?thesis
    using assms(1) p q by (intro ext) (simp add: handle_buffered_def is_gated_write_def reviewed_def h_bind_def h_ret_def Let_def)
qed

subsection \<open>Sequences of requests\<close>

fun serve :: "(('y, 's) api_env \<times> request) list \<Rightarrow> 's api_state \<Rightarrow> 's api_state" where
  "serve [] s = s"
| "serve ((E, r) # rs) s = serve rs (snd (handle_request E r s))"

definition state_sync :: "request \<Rightarrow> bool" where
  "state_sync r = (rq_method r = ''POST'' \<and> rq_path r = ''/royak/v1/state'')"

text \<open>
  The server keeps the world well formed: after any sequence of requests other than state synchronisation, with any answers of the
  engine, the clock and the libraries, every resource is stored under its own name in maps without duplicates and the
  event log is bounded.
\<close>
theorem server_keeps_world_ok:
  assumes "world_ok (api_world s)" and "list_all (\<lambda>(E, r). \<not> state_sync r) rs"
  shows "world_ok (api_world (serve rs s))"
  using assms
proof (induction rs s rule: serve.induct)
  case (2 E r rs s)
  then show ?case using keepsD[OF wok_handle[of r E]] by (simp add: state_sync_def)
qed simp

subsection \<open>Acknowledged writes\<close>

definition from_route :: "('y, 's) api_env \<Rightarrow> string \<Rightarrow> ('s, answer) handler \<Rightarrow> bool" where
  "from_route E b m = (\<forall>s s'. m s = (Ret (Plain (201, b)), s') \<longrightarrow> (\<exists>r s1. route_request E r s1 = (Ret (201, b), s')))"

lemma from_route_rules:
  "x \<noteq> Plain (201, b) \<Longrightarrow> from_route E b (h_ret x)"
  "(\<And>y. from_route E b (f y)) \<Longrightarrow> from_route E b (h_bind n f)"
  "from_route E b m \<Longrightarrow> from_route E b m' \<Longrightarrow> from_route E b (if c then m else m')"
  "from_route E b m \<Longrightarrow> (\<And>y. from_route E b (f y)) \<Longrightarrow> from_route E b (case v of None \<Rightarrow> m | Some y \<Rightarrow> f y)"
  "from_route E b (catch_panic (route_request E r))"
  by (auto simp: from_route_def h_ret_def h_bind_def catch_panic_def split: prod.splits rust.splits option.splits)

lemma handle_request_201: "from_route E b (handle_request E r)"
proof -
  have "from_route E b (handle_buffered E r')" for r'
    unfolding handle_buffered_def Let_def by (intro from_route_rules) (simp_all add: not_leader_response_def Let_def)
  moreover have "from_route E b (handle_log_stream E p q)" for p q
    unfolding handle_log_stream_def Let_def by (intro from_route_rules) simp_all
  ultimately show ?thesis
    unfolding handle_request_def Let_def by (intro from_route_rules) simp_all
qed


subsection \<open>Sandboxes and roles\<close>

interpretation sandbox: observer "\<lambda>t. api_world t \<in> W" for W
  by unfold_locales simp_all

definition demo_worlds :: "('y, 's) api_env \<Rightarrow> json desired_world \<Rightarrow> json desired_world set" where
  "demo_worlds E w = insert w {set_replicas (demo_app E) n w | n. demo_enabled E \<and> 1 \<le> n \<and> n \<le> 5}"

lemma demo_replicas_bounds: "1 \<le> demo_replicas url" "demo_replicas url \<le> 5"
  by (auto simp: demo_replicas_def max_def min_def)

lemma route_demo_scale_sandboxed: "keeps_at s (\<lambda>t. api_world t \<in> demo_worlds E (api_world s)) (route_demo_scale E r)"
proof -
  have "api_world (snd (route_demo_scale E r s)) = api_world s
    \<or> demo_enabled E \<and> api_world (snd (route_demo_scale E r s)) = set_replicas (demo_app E) (demo_replicas (rq_url r)) (api_world s)"
    by (auto simp: route_demo_scale_def demo_guard_def demo_rate_ok_def with_write_def h_bind_def h_get_def h_put_def h_ret_def
        set_world_def save_world_eq next_rv_def Let_def split: prod.splits rust.splits option.splits)
  then show ?thesis using demo_replicas_bounds[of "rq_url r"] by (auto simp: keeps_at_def demo_worlds_def)
qed

lemma demo_scale_request:
  assumes "rq_method r = ''POST''" and "rq_path r = ''/demo/scale''"
  shows "keeps_at s (\<lambda>t. api_world t \<in> demo_worlds E (api_world s)) (handle_request E r)"
proof -
  have r: "route_request E r = route_demo_scale E r"
    using assms by (simp add: route_request_def scale_path_def Let_def)
  have "handle_buffered E r = catch_panic (route_request E r)"
    using assms by (intro ext) (simp add: handle_buffered_def strip_prefix_def starts_with_def is_gated_write_def reviewed_def apply_path_def
        ends_with_def h_bind_def h_ret_def Let_def)
  then have "keeps_at s (\<lambda>t. api_world t \<in> demo_worlds E (api_world s)) (handle_buffered E r)"
    using route_demo_scale_sandboxed[of s E r] r by (auto simp: keeps_at_def catch_panic_def split: prod.splits rust.splits)
  then show ?thesis
    unfolding handle_request_def Let_def using assms
    by (intro keeps_at_if keeps_basic(1)[THEN keeps_at] sandbox.admission(2)[THEN keeps_at]) (simp_all add: writes_def)
qed

lemma demo_paths:
  "list_all (\<lambda>p. \<not> apply_path p \<and> \<not> scale_path p \<and> \<not> k8s_path p \<and> \<not> str_contains p ''/deployments/'' \<and> \<not> starts_with p ''/hooks/'')
     [''/demo/state'', ''/demo/info'', ''/demo/scale'', ''/demo/kill'']"
  by code_simp


text \<open>
  C27: A role that may not, does not: when the role of a request lacks the permission in the namespace of the path, an apply and a delete answer
  403 and leave everything as it was.
\<close>
theorem denied_role_changes_nothing:
  assumes "\<not> api_poisoned s"
    and "\<not> check_rbac (api_world s) (get_rbac_role (rq_headers r)) (fst (snd (parse_resource_path (rq_path r)))) verb
           (unwrap_or (fst (parse_resource_path (rq_path r))) ''default'')"
  shows "(verb = rbac_verb_from_method (rq_method r) \<longrightarrow> (\<exists>b. route_apply E r s = (Ret (403, b), s)))
    \<and> (verb = ''delete'' \<longrightarrow> (\<exists>b. route_delete E r s = (Ret (403, b), s)))"
  using assms
  by (auto simp: route_apply_def route_delete_def rbac_resource_from_path_def h_bind_def with_read_def h_ret_def Let_def split: prod.splits)

subsection \<open>A panic under the lock\<close>

lemma poisoned_arms:
  assumes "api_poisoned s"
  shows "route_get_scale E r s = (Panic, s)" "route_get E r s = (Panic, s)" "route_events E s = (Panic, s)" "route_delete E r s = (Panic, s)"
    "route_apply E r s = (Panic, s)"
  using assms
  by (simp_all add: route_get_scale_def route_get_def route_events_def route_delete_def route_apply_def with_read_def h_bind_def Let_def split: prod.splits)

lemma starts_withE: "starts_with s p \<Longrightarrow> (\<And>t. s = p @ t \<Longrightarrow> thesis) \<Longrightarrow> thesis"
  unfolding starts_with_def by (metis append_take_drop_id)

lemma poisoned_get:
  assumes "api_poisoned s" and "rq_method r = ''GET''" and "k8s_path (rq_path r)" and "\<not> ends_with (rq_path r) ''/log''"
  shows "route_request E r s = (Panic, s)"
proof -
  obtain t where "rq_path r = ''/api/v1/'' @ t \<or> rq_path r = ''/apis/apps/v1/'' @ t"
    using assms(3) unfolding k8s_path_def by (auto elim!: starts_withE)
  then have p: "rq_path r \<noteq> q" if "q \<in> {''/healthz'', ''/readyz'', ''/livez'', ''/version'', ''/api'', ''/api/v1'', ''/apis'', ''/apis/apps/v1'',
      ''/openapi/v2'', ''/openapi/v3'', ''/demo/state'', ''/demo/info'', ''/royak/v1/flows'', ''/royak/v1/pipelines'', ''/royak/v1/brain'',
      ''/royak/v1/state'', ''/royak/v1/pods''}" for q
    using that by auto
  have q: "\<not> starts_with (rq_path r) ''/openapi/v3/''"
    using \<open>rq_path r = _ \<or> _\<close> by (auto simp: starts_with_def)
  have "route_triggers E r s = (Panic, s)"
    using assms(1,2) by (simp add: route_triggers_def with_read_def h_bind_def)
  then have "route_nodes E r s = (Panic, s)"
    using assms(2) p by (simp add: route_nodes_def writes_def Let_def)
  then show ?thesis
    using assms(2-4) p q poisoned_arms(1,2)[OF assms(1), of E r] poisoned_arms(3)[OF assms(1), of E] by (simp add: route_request_def Let_def)
qed

definition panic_reply :: answer where
  "panic_reply = Plain (500, dq ''{`kind`:`Status`,`status`:`Failure`,`message`:`handler panicked`,`code`:500}'')"

text \<open>
  C26: One bad manifest takes the API down: when applying the first resource of an accepted body panics (a DaemonSet without containers does), the
  lock is poisoned, and from then on every read of a resource is answered with 500 and leaves the server in that state.
\<close>
theorem panic_under_lock_is_permanent:
  assumes "\<not> api_poisoned s" and "rq_method r = ''POST''" and "length (rq_body r) \<le> MAX_BODY_SIZE"
    and "check_rbac (api_world s) (get_rbac_role (rq_headers r)) (rbac_resource_from_path (rq_path r)) ''create''
           (unwrap_or (fst (parse_resource_path (rq_path r))) ''default'')"
    and "parse_body E (utf8_lossy (rq_body r)) = Inr (x # xs)"
    and "apply_resource (ae_yaml E) serde_value (ae_machine E 0) x (api_world s) = Panic"
    and "rq_method r' = ''GET''" and "k8s_path (rq_path r')" and "\<not> ends_with (rq_path r') ''/log''"
  shows "\<exists>s'. catch_panic (route_apply E r) s = (Ret panic_reply, s') \<and> api_poisoned s'
    \<and> catch_panic (route_request E' r') s' = (Ret panic_reply, s')"
proof -
  let ?s = "s\<lparr>api_poisoned := True\<rparr>"
  have "route_apply E r s = (Panic, ?s)"
    using assms(1-6) by (simp add: route_apply_def apply_under_lock_def with_read_def with_write_def h_bind_def h_ret_def h_get_def h_rust_def
        rbac_verb_from_method_def Let_def)
  moreover have "route_request E' r' ?s = (Panic, ?s)"
    by (rule poisoned_get[OF _ assms(7-9)]) simp
  ultimately show ?thesis by (intro exI[of _ ?s]) (simp add: catch_panic_def panic_reply_def)
qed

subsection \<open>Watching\<close>

lemma build_watch_namespaces:
  "\<not> api_poisoned s \<Longrightarrow>
     build_watch_events E ''namespaces'' ty s = (Ret (map (\<lambda>n. to_text E (watch_event ty (watched_namespace n))) (namespaces (api_world s))), s)"
  by (simp add: build_watch_events_def watched_objects_def with_read_def h_bind_def h_ret_def)

lemma watch_event_retyped: "jset (watch_event ty v) ''type'' (JStr ty') = Ret (watch_event ty' v)"
  by (simp add: watch_event_def j_obj_def bt_collect_def)

lemma watch_event_type: "watch_event ty v = watch_event ty' v' \<longleftrightarrow> ty = ty' \<and> v = v'"
  by (auto simp: watch_event_def j_obj_def bt_collect_def)

lemma h_map_pure: "(\<And>x. x \<in> set xs \<Longrightarrow> f x s = (Ret (g x), s)) \<Longrightarrow> h_map f xs s = (Ret (map g xs), s)"
  by (induction xs) (simp_all add: h_ret_def h_bind_def)

text \<open>
  A watch reports objects as deleted that are still there: the first snapshot is compared as text with event type ADDED, the next one with type
  MODIFIED, so after the first change of the resource version a watch on namespaces sends a DELETED event for every namespace although
  none of them has gone.
\<close>
theorem watch_reports_live_deleted:
  assumes "\<not> api_poisoned s" and "\<not> api_poisoned s'" and "namespaces (api_world s') = namespaces (api_world s)" and "api_rv s < api_rv s'"
    and "\<And>ty n. jt_ok (ae_json E) (to_text E (watch_event ty (watched_namespace n))) = Some (watch_event ty (watched_namespace n))"
    and "n \<in> set (namespaces (api_world s))"
  shows "\<exists>ls k ls' k'. watch_start E ''namespaces'' s = (Ret (ls, k), s) \<and> watch_tick E ''namespaces'' k s' = (Ret (ls', k'), s')
    \<and> line_of (to_text E (watch_event ''DELETED'' (watched_namespace n))) \<in> set ls'"
proof -
  let ?t = "\<lambda>ty n. to_text E (watch_event ty (watched_namespace n))" and ?ns = "namespaces (api_world s)"
  let ?old = "map (?t ''ADDED'') ?ns" and ?new = "map (?t ''MODIFIED'') ?ns"
  have ne: "?t ''ADDED'' a \<noteq> ?t ''MODIFIED'' b" for a b
  proof
    assume "?t ''ADDED'' a = ?t ''MODIFIED'' b"
    then have "Some (watch_event ''ADDED'' (watched_namespace a)) = Some (watch_event ''MODIFIED'' (watched_namespace b))"
      by (metis assms(5))
    then show False by (simp add: watch_event_type)
  qed
  have start: "watch_start E ''namespaces'' s = (Ret (map line_of ?old, (api_rv s, ?old)), s)"
    using assms(1) by (simp add: watch_start_def h_bind_def h_get_def h_ret_def build_watch_namespaces)
  have "filter (\<lambda>old. old \<notin> set ?new) ?old = ?old" using ne by (auto simp: filter_id_conv)
  then have "deleted_lines E ?old ?new s' = (Ret (concat (map (\<lambda>l. case jt_ok (ae_json E) l of None \<Rightarrow> []
      | Some v \<Rightarrow> (case jset v ''type'' (JStr ''DELETED'') of Ret v' \<Rightarrow> [line_of (to_text E v')] | Panic \<Rightarrow> [])) ?old)), s')"
    unfolding deleted_lines_def
    by (subst h_bind_def, subst h_map_pure[where g = "\<lambda>l. case jt_ok (ae_json E) l of None \<Rightarrow> []
      | Some v \<Rightarrow> (case jset v ''type'' (JStr ''DELETED'') of Ret v' \<Rightarrow> [line_of (to_text E v')] | Panic \<Rightarrow> [])"])
      (auto simp: h_bind_def h_ret_def h_rust_def assms(5) watch_event_retyped)
  then have del: "deleted_lines E ?old ?new s' = (Ret (map (\<lambda>n. line_of (?t ''DELETED'' n)) ?ns), s')"
    by (simp add: comp_def assms(5) watch_event_retyped)
  have "?new \<noteq> ?old" using ne[symmetric] assms(6) by (cases ?ns) simp_all
  then have "watch_tick E ''namespaces'' (api_rv s, ?old) s' =
      (Ret (map line_of (filter (\<lambda>e. e \<notin> set ?old) ?new) @ map (\<lambda>n. line_of (?t ''DELETED'' n)) ?ns, (api_rv s', ?new)), s')"
    using assms(2-4) del
    by (simp only: watch_tick_def h_bind_def h_get_def h_ret_def build_watch_namespaces fst_conv snd_conv prod.case rust.case not_less[symmetric]
        not_not if_True if_False simp_thms)
  then show ?thesis using start assms(6) by (intro exI conjI) (assumption, assumption, simp)
qed

end
