(* ===== verification/Api_Samples.thy ===== *)
theory Api_Samples
  imports Api_Props
begin

text \<open>
  A small instance of the API server's surroundings, on which the properties of the handlers are evaluated.
\<close>

subsection \<open>A small server\<close>

text \<open>
  YAML documents recognised by name, a JSON library that knows one document, a fixed clock and a cipher without secrecy: enough to run the handlers.
\<close>

definition small_yaml :: "(doc, json) yaml_ops" where
  "small_yaml = \<lparr>yv_get = doc_get, yv_as_str = doc_str, yv_as_u64 = \<lambda>v. Option.bind (doc_str v) parse_u64,
     yv_as_f64 = \<lambda>v. None, yv_as_bool = \<lambda>v. None, yv_as_sequence = doc_seq, yv_as_mapping = doc_map,
     yv_to_string = doc_str, yv_to_json = \<lambda>v. None,
     yv_from_str = \<lambda>s. if s = ''ns'' then Some (doc_resource ''Namespace'' ''prod'' (DMap []))
                         else if s = ''ds'' then Some (doc_resource ''DaemonSet'' ''agent'' (DMap [(''template'', DMap [(''spec'', DMap [])])])) else None,
     yv_deployment = \<lambda>v. Inr (doc_deployment v), yv_deployment_err = \<lambda>v. [], yv_pod = \<lambda>v. Inr (doc_pod v),
     yv_service = \<lambda>v. Inl ''no'', yv_config = \<lambda>v. Inl ''no'', yv_function = \<lambda>v. Inl ''no'',
     yv_repository = \<lambda>v. Inl ''no'', yv_pipeline = \<lambda>v. Inl ''no''\<rparr>"

definition small_env :: "(doc, unit) api_env" where
  "small_env =
     \<lparr>ae_exch = \<lambda>e q. (Connect_error ''no engine'', e), ae_containers = \<lambda>q. Inr [], ae_json = \<lparr>jt_parse = \<lambda>s. Inr sample_doc, jt_print = \<lambda>v. ''{}''\<rparr>, ae_pretty = \<lambda>v. ''{}'',
      ae_yaml = small_yaml, ae_yaml_value = \<lambda>s. None, ae_yaml_text = \<lambda>v. Inr ''ns'', ae_lower = \<lambda>s. s,
      ae_machine = \<lambda>i. \<lparr>mc_containers = \<lambda>n. None, mc_neuropod = \<lambda>n i d m. Inl ''no neuropod''\<rparr>, ae_emb = sample_emb, ae_aes = sample_aes, ae_key = ''key'', ae_nonce = sample_nonce, ae_disk = good_disk,
      ae_clock = 100, ae_millis = 100000, ae_var = \<lambda>v. None, ae_os = ''linux'', ae_arch = ''x86_64'', ae_neuropods = [], ae_pod_meta = \<lambda>p. False,
      ae_sample = \<lambda>p. Inl ''no'', ae_lag = \<lambda>n. n, ae_took = Zero False, ae_leader_or_off = True, ae_raft_leader = None,
      ae_net = \<lambda>h q. Inl ''unreachable''\<rparr>"

definition small_state :: "unit api_state" where
  "small_state = \<lparr>api_world = saved_world, api_poisoned = False, api_rv = 1, api_files = no_files, api_demo_last = None, api_demo_snap = ''{}'',
     api_flows = [], api_stats = [], api_effects = [], api_engine = ()\<rparr>"

definition small_request :: "string \<Rightarrow> string \<Rightarrow> string \<Rightarrow> request" where
  "small_request m p b = \<lparr>rq_method = m, rq_path = p, rq_url = p, rq_query = None, rq_headers = \<lambda>h. None, rq_body = b\<rparr>"

lemma small_fields [simp]:
  "api_world small_state = saved_world" "api_poisoned small_state = False" "api_files small_state = no_files" "api_rv small_state = 1"
  "rq_method (small_request m p b) = m" "rq_path (small_request m p b) = p" "rq_body (small_request m p b) = b"
  "rq_headers (small_request m p b) = (\<lambda>h. None)" "rq_query (small_request m p b) = None" "rq_url (small_request m p b) = p"
  by (simp_all add: small_state_def small_request_def)

lemma small_env_fields [simp]:
  "ae_var small_env = (\<lambda>v. None)" "ae_leader_or_off small_env" "ae_disk small_env = good_disk" "ae_emb small_env = sample_emb"
  "ae_aes small_env = sample_aes" "ae_key small_env = ''key''" "ae_nonce small_env = sample_nonce"
  by (simp_all add: small_env_def)

lemma small_triggers: "\<not> is_triggered saved_world p"
  by (simp add: is_triggered_def saved_world_def world_new_def hm_values_def)

theorem follower_never_diverges_witness:
  "cluster_state (snd (handle_request (small_env\<lparr>ae_leader_or_off := False\<rparr>) (small_request ''POST'' ''/api/v1/namespaces/prod'' ''ns'') small_state))
     = cluster_state small_state"
  by (rule follower_never_diverges) (simp_all add: small_triggers starts_with_def)


text \<open>A world with one role, which a request without a role header does not have.\<close>

definition role_world :: "json desired_world" where
  "role_world = saved_world\<lparr>rbac_roles := [(''admin'', \<lparr>role_name = ''admin'', role_rules = []\<rparr>)]\<rparr>"

theorem denied_role_changes_nothing_witness:
  "\<exists>b. route_delete small_env (small_request ''DELETE'' ''/api/v1/namespaces/prod/secrets/db'' []) (small_state\<lparr>api_world := role_world\<rparr>)
     = (Ret (403, b), small_state\<lparr>api_world := role_world\<rparr>)"
proof -
  have "\<not> check_rbac role_world (get_rbac_role (\<lambda>h. None)) x v n" for x v n
    by (simp add: check_rbac_def role_world_def get_rbac_role_def hm_contains_def hm_get_Cons)
  then show ?thesis
    using denied_role_changes_nothing[of "small_state\<lparr>api_world := role_world\<rparr>" "small_request ''DELETE'' ''/api/v1/namespaces/prod/secrets/db'' []" "''delete''" small_env]
    by simp
qed

lemma small_strings:
  "starts_with (trim_start ''ns'') ''{'' = False" "starts_with (trim_start ''ds'') ''{'' = False"
  "str_split_on (CHR 0x0A # ''---'') ''ns'' = [''ns'']" "str_split_on (CHR 0x0A # ''---'') ''ds'' = [''ds'']"
  "trim ''ns'' = ''ns''" "trim ''ds'' = ''ds''" "has_content ''ns'' = True" "has_content ''ds'' = True"
  "utf8_lossy ''ns'' = ''ns''" "utf8_lossy ''ds'' = ''ds''"
  by code_simp+

lemma small_bodies:
  "parse_body small_env ''ns'' = Inr [doc_resource ''Namespace'' ''prod'' (DMap [])]"
  "parse_body small_env ''ds'' = Inr [doc_resource ''DaemonSet'' ''agent'' (DMap [(''template'', DMap [(''spec'', DMap [])])])]"
  "body_docs_as_json small_env ''ns'' = []"
  by (simp_all add: parse_body_def parse_yaml_def parse_yaml_doc_def body_docs_as_json_def small_strings small_env_def small_yaml_def Let_def)

lemma small_text: "ae_text small_env = sample_text"
  by (simp add: small_env_def sample_text_def jt_ok_def fun_eq_iff)

lemma small_apply:
  "apply_resource Y J M (doc_resource ''Namespace'' ''prod'' (DMap [])) saved_world = Ret (Inr ''namespace/prod created'', saved_world, [])"
  by (simp add: apply_resource_def apply_arms_def doc_resource_def apply_namespace_def done_ok_def res_name_def) (simp add: saved_world_def)

lemma small_panic:
  "apply_resource (ae_yaml small_env) J M (doc_resource ''DaemonSet'' ''agent'' (DMap [(''template'', DMap [(''spec'', DMap [])])])) w = Panic"
  by (simp add: apply_resource_def apply_arms_def doc_resource_def apply_daemonset_def as_deployment_def small_env_def small_yaml_def
      doc_deployment_def doc_pod_def pod_as_deployment_def first_container_def workload_kinds_def)

theorem panic_under_lock_is_permanent_witness:
  "\<exists>s'. catch_panic (route_apply small_env (small_request ''POST'' ''/apis/apps/v1/daemonsets'' ''ds'')) small_state = (Ret panic_reply, s')
     \<and> catch_panic (route_request small_env (small_request ''GET'' ''/api/v1/namespaces'' [])) s' = (Ret panic_reply, s')"
proof -
  have "k8s_path ''/api/v1/namespaces''" "\<not> ends_with ''/api/v1/namespaces'' ''/log''" by code_simp+
  moreover have "check_rbac saved_world role res verb ns" for role res verb ns
    by (simp add: check_rbac_def saved_world_def world_new_def)
  ultimately show ?thesis
    using panic_under_lock_is_permanent[of small_state "small_request ''POST'' ''/apis/apps/v1/daemonsets'' ''ds''" small_env,
        OF _ _ _ _ _ small_panic, of "[]" "small_request ''GET'' ''/api/v1/namespaces'' []" small_env]
    by (auto simp: small_bodies small_strings MAX_BODY_SIZE_def)
qed

lemma small_created:
  assumes "save_state sample_text sample_emb sample_aes ''key'' sample_nonce good_disk saved_world no_files = Ret f"
  shows "\<exists>b s'. handle_request small_env (small_request ''POST'' ''/api/v1/namespaces/prod'' ''ns'') small_state = (Ret (Plain (201, b)), s')
    \<and> api_world s' = saved_world"
proof -
  let ?r = "small_request ''POST'' ''/api/v1/namespaces/prod'' ''ns''"
  have rbac: "check_rbac saved_world role res verb ns" for role res verb ns
    by (simp add: check_rbac_def saved_world_def world_new_def)
  obtain b s' where a: "route_apply small_env ?r small_state = (Ret (201, b), s')" "api_world s' = saved_world"
    using assms small_text
    by (simp add: route_apply_def apply_under_lock_def with_read_def with_write_def rbac MAX_BODY_SIZE_def small_strings small_bodies small_apply
        save_world_eq handler_defs Let_def)
  have nh: "admission_webhooks saved_world = []" by (simp add: saved_world_def world_new_def)
  have p: "apply_path ''/api/v1/namespaces/prod''" "\<not> scale_path ''/api/v1/namespaces/prod''" "k8s_path ''/api/v1/namespaces/prod''"
    "strip_prefix ''/api/v1/namespaces/prod'' ''/royak/v1/raft/'' = None" "\<not> str_contains ''/api/v1/namespaces/prod'' ''/pods/''"
    by code_simp+
  have "route_request small_env ?r = route_apply small_env ?r"
    using p by (simp add: route_request_def route_nodes_def writes_def Let_def)
  then have "handle_request small_env ?r small_state = (Ret (Plain (201, b)), s')"
    using p a by (simp add: handle_request_def handle_buffered_def authorized_def reviewed_def writes_def is_gated_write_def should_accept_write_def
        admission_gate_def with_read_def h_bind_def h_ret_def catch_panic_def nh is_true_def parse_query_def Let_def)
  with a(2) show ?thesis by blast
qed


text \<open>A JSON library that writes an event as its type and name, the length of the type first.\<close>

definition event_text :: json_text where
  "event_text = \<lparr>
     jt_parse = \<lambda>s. let k = length (takeWhile (\<lambda>c. c = CHR ''1'') s); t = drop (Suc k) s
                    in Inr (watch_event (take k t) (watched_namespace (drop k t))),
     jt_print = \<lambda>v. let ty = unwrap_or (jstr (jat v ''type'')) []; n = unwrap_or (jstr (jat (jat (jat v ''object'') ''metadata'') ''name'')) []
                    in replicate (length ty) (CHR ''1'') @ CHR ''0'' # ty @ n\<rparr>"

lemma event_text_back:
  "jt_ok event_text (jt_print event_text (watch_event ty (watched_namespace n))) = Some (watch_event ty (watched_namespace n))"
proof -
  have f: "jat (watch_event ty v) ''type'' = JStr ty" "jat (watch_event ty v) ''object'' = v" for v
    by (simp_all add: watch_event_def jat_obj)
  have g: "jat (jat (watched_namespace n) ''metadata'') ''name'' = JStr n" by (simp add: watched_namespace_def jat_obj)
  have "takeWhile (\<lambda>c. c = CHR ''1'') (replicate k (CHR ''1'') @ CHR ''0'' # xs) = replicate k (CHR ''1'')" for k xs
    by (induction k) simp_all
  then show ?thesis by (simp add: jt_ok_def event_text_def f g Let_def)
qed

end
