(* ===== verification/Float_Bits.thy ===== *)
theory Float_Bits
  imports Float32
begin

text \<open>
  The bit patterns of single-precision numbers (\<open>to_bits\<close>, \<open>from_bits\<close>, and with them \<open>to_le_bytes\<close> and
  \<open>from_le_bytes\<close>), and the float operations of the standard library the neural network uses. Every representable
  number survives its bit pattern; all NaNs are one value here.
\<close>

definition f32_bits :: "f32 \<Rightarrow> nat" where
  "f32_bits x =
     (case x of
        NaN \<Rightarrow> 0x7FC00000
      | Inf s \<Rightarrow> (if s then 2 ^ 31 else 0) + 0x7F800000
      | Zero s \<Rightarrow> (if s then 2 ^ 31 else 0)
      | Num q \<Rightarrow> (let a = \<bar>q\<bar>; e = max (ilog2 a) (-126)
                  in (if q < 0 then 2 ^ 31 else 0) + nat ((e + 126) * 2 ^ 23 + \<lfloor>a / 2 powi (e - 23)\<rfloor>)))"

definition f32_of_bits :: "nat \<Rightarrow> f32" where
  "f32_of_bits n =
     (let s = odd (n div 2 ^ 31); ex = n div 2 ^ 23 mod 256; fr = n mod 2 ^ 23; sg = (if s then -1 else 1 :: rat)
      in if ex = 255 then (if fr = 0 then Inf s else NaN)
         else if ex = 0 then (if fr = 0 then Zero s else Num (sg * (of_nat fr * 2 powi (- 149))))
         else Num (sg * (of_nat (2 ^ 23 + fr) * 2 powi (int ex - 150))))"

text \<open>The numbers a variable of type \<open>f32\<close> can hold.\<close>

definition f32_ok :: "f32 \<Rightarrow> bool" where
  "f32_ok x = (case x of Num q \<Rightarrow> q \<noteq> 0 \<and> \<bar>q\<bar> < 2 ^ 128 \<and> \<bar>q\<bar> / ulp32 \<bar>q\<bar> \<in> \<int> | _ \<Rightarrow> True)"

lemma mantissa_cases:
  assumes "0 < a" and "a < 2 ^ 128" and "a / ulp32 a \<in> \<int>"
  obtains m :: nat and e :: int where "e = max (ilog2 a) (-126)" and "a = of_nat m * 2 powi (e - 23)" and "0 < m" and "m < 2 ^ 24"
    and "-126 < e \<longrightarrow> 2 ^ 23 \<le> m" and "-126 \<le> e" and "e \<le> 127"
proof -
  define l e where "l = ilog2 a" and "e = max l (-126)"
  define u :: rat where "u = 2 powi (e - 23)"
  have u: "0 < u" "ulp32 a = u" by (simp_all add: u_def ulp32_def e_def l_def)
  obtain z :: int where z: "a / u = of_int z" using assms(3) unfolding u(2) by (rule Ints_cases)
  have a: "a = of_int z * u" using z u(1) by (simp add: field_simps)
  have z0: "0 < z" using assms(1) u(1) unfolding a by (simp add: zero_less_mult_iff)
  have lb: "2 powi l \<le> a" and ub: "a < 2 powi (l + 1)"
    using ilog2_bounds[OF assms(1)] by (simp_all add: l_def)
  have p: "u * 2 powi 24 = 2 powi (e + 1)" "u * 2 powi 23 = 2 powi e"
    using power_int_add[of "2 :: rat" "e - 23" 24] power_int_add[of "2 :: rat" "e - 23" 23]
    by (simp_all add: u_def add.commute)
  have "a < 2 powi (e + 1)"
    using ub powi_2_le[of "l + 1" "e + 1"] by (simp add: e_def)
  then have "of_int z * u < 2 powi 24 * u" unfolding p(1)[symmetric] a by (simp add: mult.commute)
  then have "of_int z < (2 powi 24 :: rat)" using u(1) by (simp only: mult_less_cancel_right_pos)
  then have z24: "z < 2 ^ 24" by simp
  have z23: "2 ^ 23 \<le> z" if "-126 < e"
  proof -
    from that have "e = l" by (simp add: e_def)
    with lb have "2 powi 23 * u \<le> of_int z * u" unfolding a by (metis p(2) mult.commute)
    then have "(2 powi 23 :: rat) \<le> of_int z" using u(1) by (simp only: mult_le_cancel_right_pos)
    then show ?thesis by simp
  qed
  have "2 powi l < (2::rat) powi 128" using lb assms(2) by simp
  then have e127: "e \<le> 127" using powi_2_less[of l 128] by (simp add: e_def)
  have ae: "a = of_nat (nat z) * 2 powi (e - 23)" using a z0 by (simp add: u_def)
  show thesis
    by (rule that[OF _ ae]) (use z0 z24 z23 e127 in \<open>auto simp: e_def l_def nat_less_iff le_nat_iff\<close>)
qed

lemma f32_bits_value:
  assumes "f32_ok (Num q)"
  obtains m e where "f32_bits (Num q) = (if q < 0 then 2 ^ 31 else 0) + (nat (e + 126) * 2 ^ 23 + m)"
    and "\<bar>q\<bar> = of_nat m * 2 powi (e - 23)" and "0 < m" and "m < 2 ^ 24" and "-126 < e \<longrightarrow> 2 ^ 23 \<le> m" and "-126 \<le> e" and "e \<le> 127"
proof -
  have q: "0 < \<bar>q\<bar>" "\<bar>q\<bar> < 2 ^ 128" "\<bar>q\<bar> / ulp32 \<bar>q\<bar> \<in> \<int>" using assms by (simp_all add: f32_ok_def)
  obtain m e where m: "e = max (ilog2 \<bar>q\<bar>) (-126)" "\<bar>q\<bar> = of_nat m * 2 powi (e - 23)" "0 < m" "m < 2 ^ 24"
    "-126 < e \<longrightarrow> 2 ^ 23 \<le> m" "-126 \<le> e" "e \<le> 127"
    by (rule mantissa_cases[OF q])
  have "\<bar>q\<bar> / 2 powi (e - 23) = of_nat m" unfolding m(2) by simp
  then have "\<lfloor>\<bar>q\<bar> / 2 powi (e - 23)\<rfloor> = int m" by simp
  then have "f32_bits (Num q) = (if q < 0 then 2 ^ 31 else 0) + nat ((e + 126) * 2 ^ 23 + int m)"
    unfolding f32_bits_def Let_def flt.case m(1)[symmetric] by simp
  moreover have "nat ((e + 126) * 2 ^ 23 + int m) = nat (e + 126) * 2 ^ 23 + m"
    using m(6) by (simp add: nat_add_distrib nat_mult_distrib)
  ultimately show thesis using that[OF _ m(2-7)] by presburger
qed

lemma f32_bits_less: "f32_ok x \<Longrightarrow> f32_bits x < 2 ^ 32"
proof (cases x)
  case (Num q)
  assume "f32_ok x"
  with Num obtain m e where "f32_bits (Num q) = (if q < 0 then 2 ^ 31 else 0) + (nat (e + 126) * 2 ^ 23 + m)" "m < 2 ^ 24" "e \<le> 127"
    by (metis f32_bits_value)
  moreover from this(3) have "nat (e + 126) * 2 ^ 23 \<le> 253 * 2 ^ 23" by simp
  ultimately show ?thesis using Num by auto
qed (auto simp: f32_bits_def)

lemma f32_of_bits_bits: "f32_ok x \<Longrightarrow> f32_of_bits (f32_bits x) = x"
proof (cases x)
  case (Num q)
  assume "f32_ok x"
  with Num obtain m e where b: "f32_bits (Num q) = (if q < 0 then 2 ^ 31 else 0) + (nat (e + 126) * 2 ^ 23 + m)"
    and q: "\<bar>q\<bar> = of_nat m * 2 powi (e - 23)" and m: "0 < m" "m < 2 ^ 24" "-126 < e \<longrightarrow> 2 ^ 23 \<le> m" "-126 \<le> e" "e \<le> 127"
    by (metis f32_bits_value)
  define k where "k = nat (e + 126)"
  have k: "e = int k - 126" "k \<le> 253" using m(4,5) by (simp_all add: k_def)
  define n where "n = k * 2 ^ 23 + m"
  have n: "n < 2 ^ 31" using m(2) k(2) by (simp add: n_def)
  have nd: "n div 8388608 < 256" "n div 2147483648 = 0" using n by auto
  have h: "2147483648 + n = n + 256 * 8388608" by simp
  have bits: "(2147483648 + n) div 2147483648 = 1" "(2147483648 + n) div 8388608 mod 256 = n div 8388608"
    "(2147483648 + n) mod 8388608 = n mod 8388608" "n div 8388608 mod 256 = n div 8388608"
    using nd unfolding h by (simp_all only: div_mult_self1 mod_mult_self1 mod_add_self2) simp_all
  have sq: "(if q < 0 then - 1 else 1) * \<bar>q\<bar> = q" by simp
  have top: "odd (f32_bits (Num q) div 2 ^ 31) = (q < 0)" "f32_bits (Num q) div 2 ^ 23 mod 256 = n div 2 ^ 23"
    "f32_bits (Num q) mod 2 ^ 23 = n mod 2 ^ 23"
    using n unfolding b k_def[symmetric] n_def[symmetric] by (simp_all add: bits)
  show ?thesis
  proof (cases "m < 2 ^ 23")
    case True
    with m(3,4) k have k0: "k = 0" by auto
    have "e - 23 = - 149" using k k0 by simp
    with q have qq: "\<bar>q\<bar> = of_nat m * 2 powi (- 149)" by simp
    have d: "n div 2 ^ 23 = 0" "n mod 2 ^ 23 = m" using True k0 by (simp_all add: n_def)
    have "f32_of_bits (f32_bits (Num q)) = Num ((if q < 0 then -1 else 1) * (of_nat m * 2 powi (- 149)))"
      using m(1) by (simp only: f32_of_bits_def Let_def top d) simp
    then show ?thesis unfolding Num qq[symmetric] sq .
  next
    case False
    then obtain r where r: "m = 2 ^ 23 + r" by (metis le_add_diff_inverse not_less)
    then have "r < 2 ^ 23" "n = r + Suc k * 2 ^ 23" using m(2) by (simp_all add: n_def)
    then have d: "n div 2 ^ 23 = Suc k" "n mod 2 ^ 23 = r" by (simp_all only: div_mult_self1 mod_mult_self1) simp_all
    have "e - 23 = int (Suc k) - 150" using k by simp
    with q have qq: "\<bar>q\<bar> = of_nat m * 2 powi (int (Suc k) - 150)" by simp
    have "f32_of_bits (f32_bits (Num q)) = Num ((if q < 0 then -1 else 1) * (of_nat (2 ^ 23 + r) * 2 powi (int (Suc k) - 150)))"
      using k(2) by (simp only: f32_of_bits_def Let_def top d) simp
    then show ?thesis unfolding Num r[symmetric] qq[symmetric] sq .
  qed
qed (auto simp: f32_of_bits_def f32_bits_def)

end
