(* ===== verification/Brain.thy ===== *)
theory Brain
  imports Float_Bits Bytes State_Save Cluster Base64
begin

text \<open>
  The brain, \<^verbatim>\<open>src/src/brain.rs\<close>: a three-layer network whose weights the reconcile loop trains, the decisions of one tick,
  metric histories kept as text in a key-value map with anomaly detection and load prediction on them, identity tokens and
  keys derived from the weights, and the weights file. \<open>ndarray\<close>'s inner product and sum (their summation order is the
  library's), the square root and the sine are the parameter \<open>nn_ops\<close>; everything else is single-precision arithmetic of
  \<open>Float32\<close>.
\<close>

record nn_ops =
  nn_inner :: "f32 list \<Rightarrow> f32 list \<Rightarrow> f32"
  nn_sum :: "f32 list \<Rightarrow> f32"
  nn_sqrt :: "f32 \<Rightarrow> f32"
  nn_sin :: "f32 \<Rightarrow> f32"

subsection \<open>Floats and arrays\<close>

text \<open>\<open>max\<close>, \<open>min\<close> and \<open>abs\<close> of floats: a NaN gives way to the other operand.\<close>

definition f_max :: "f32 \<Rightarrow> f32 \<Rightarrow> f32" where
  "f_max a b = (if a = NaN then b else if b = NaN then a else if f_lt a b then b else a)"

definition f_min :: "f32 \<Rightarrow> f32 \<Rightarrow> f32" where
  "f_min a b = (if a = NaN then b else if b = NaN then a else if f_lt b a then b else a)"

fun f_abs :: "f32 \<Rightarrow> f32" where
  "f_abs (Num q) = Num \<bar>q\<bar>"
| "f_abs (Inf s) = Inf False"
| "f_abs (Zero s) = Zero False"
| "f_abs NaN = NaN"

abbreviation f_nat :: "nat \<Rightarrow> f32" where "f_nat \<equiv> f32_of_nat"
abbreviation f_zero :: f32 where "f_zero \<equiv> Zero False"
abbreviation relu :: "f32 \<Rightarrow> f32" where "relu x \<equiv> f_max x f_zero"

definition f_sum :: "f32 list \<Rightarrow> f32" where
  "f_sum xs = foldl f_add f_zero xs"

definition f_sq :: "f32 \<Rightarrow> f32" where
  "f_sq x = f_mul x x"

text \<open>\<open>Array2\<close>: its shape and its elements, row by row.\<close>

record matrix =
  mx_rows :: nat
  mx_cols :: nat
  mx_data :: "f32 list"

definition mx_row :: "matrix \<Rightarrow> nat \<Rightarrow> f32 list" where
  "mx_row m i = take (mx_cols m) (drop (i * mx_cols m) (mx_data m))"

definition mx_col :: "matrix \<Rightarrow> nat \<Rightarrow> f32 list" where
  "mx_col m j = map (\<lambda>i. mx_data m ! (i * mx_cols m + j)) [0..<mx_rows m]"

definition nn_dot :: "nn_ops \<Rightarrow> matrix \<Rightarrow> f32 list \<Rightarrow> f32 list rust" where
  "nn_dot N m v = (if length v = mx_cols m then Ret (map (\<lambda>i. nn_inner N (mx_row m i) v) [0..<mx_rows m]) else Panic)"

definition nn_dot_t :: "nn_ops \<Rightarrow> matrix \<Rightarrow> f32 list \<Rightarrow> f32 list rust" where
  "nn_dot_t N m v = (if length v = mx_rows m then Ret (map (\<lambda>j. nn_inner N (mx_col m j) v) [0..<mx_cols m]) else Panic)"

definition nd_zip :: "(f32 \<Rightarrow> f32 \<Rightarrow> f32) \<Rightarrow> f32 list \<Rightarrow> f32 list \<Rightarrow> f32 list rust" where
  "nd_zip f xs ys = (if length xs = length ys then Ret (map2 f xs ys) else Panic)"

definition outer :: "f32 list \<Rightarrow> f32 list \<Rightarrow> matrix" where
  "outer a b = \<lparr>mx_rows = length a, mx_cols = length b, mx_data = concat (map (\<lambda>x. map (f_mul x) b) a)\<rparr>"

subsection \<open>State\<close>

datatype pod_status = PRunning | PPending | PFailed | PSucceeded | PUnknown

record pod_state =
  ps_id :: string
  ps_name :: string
  ps_node :: string
  ps_status :: pod_status
  ps_cpu_pct :: f32
  ps_mem_mb :: f32
  ps_restarts :: u32
  ps_age_secs :: u64
  ps_image :: string

record node_state =
  nst_id :: string
  nst_cpu_avail :: f32
  nst_mem_avail :: f32
  nst_pod_count :: u32
  nst_healthy :: bool

record desired_state =
  des_name :: string
  des_replicas :: u32
  des_image :: string
  des_cpu_limit :: f32
  des_mem_limit :: f32

record cluster_snapshot =
  cl_pods :: "pod_state list"
  cl_nodes :: "node_state list"
  cl_desired :: "desired_state list"

datatype action =
    ASchedule string string
  | AScale string u32 u32
  | ARestart string string
  | AMigrate string string string
  | AAlert string string
  | ANoop

record decision =
  dc_tick :: u64
  dc_actions :: "action list"
  dc_confidence :: f32

record brain =
  bn_wp :: matrix
  bn_bp :: "f32 list"
  bn_wd :: matrix
  bn_bd :: "f32 list"
  bn_wa :: matrix
  bn_ba :: "f32 list"
  bn_kv :: "(string, string) hmap"
  bn_history :: "decision list"
  bn_ticks :: u64
  bn_actions :: u64
  bn_train_steps :: u32
  bn_last_loss :: f32

text \<open>\<open>OrinBrain::new\<close>; \<open>rnd layer i\<close> is the random number drawn for element \<open>i\<close> of a layer.\<close>

definition xavier :: "nn_ops \<Rightarrow> (nat \<Rightarrow> f32) \<Rightarrow> nat \<Rightarrow> nat \<Rightarrow> matrix" where
  "xavier N rnd rows cols =
     (let scale = nn_sqrt N (f_div (f_nat 2) (f_nat (rows + cols)))
      in \<lparr>mx_rows = rows, mx_cols = cols, mx_data = map (\<lambda>i. f_mul (f_sub (rnd i) (f32_lit (1 / 2))) scale) [0..<rows * cols]\<rparr>)"

definition brain_new :: "nn_ops \<Rightarrow> (nat \<Rightarrow> nat \<Rightarrow> f32) \<Rightarrow> nat \<Rightarrow> nat \<Rightarrow> brain" where
  "brain_new N rnd max_pods max_nodes =
     (let input_dim = max_pods * 6 + max_nodes * 4 + max_pods * 4; action_dim = max_pods * 4
      in \<lparr>bn_wp = xavier N (rnd 0) 64 input_dim, bn_bp = replicate 64 f_zero, bn_wd = xavier N (rnd 1) 32 64, bn_bd = replicate 32 f_zero,
          bn_wa = xavier N (rnd 2) action_dim 32, bn_ba = replicate action_dim f_zero, bn_kv = [], bn_history = [],
          bn_ticks = 0, bn_actions = 0, bn_train_steps = 0, bn_last_loss = f_nat 1\<rparr>)"

subsection \<open>Encoding the cluster\<close>

definition status_code :: "pod_status \<Rightarrow> f32" where
  "status_code s = (case s of PRunning \<Rightarrow> f_nat 1 | PPending \<Rightarrow> f32_lit (1 / 2) | PFailed \<Rightarrow> f_zero | _ \<Rightarrow> f32_lit (3 / 10))"

definition put_all :: "nat \<Rightarrow> f32 list \<Rightarrow> f32 list \<Rightarrow> f32 list" where
  "put_all i vs xs = take i xs @ vs @ drop (i + length vs) xs"

fun encode_pods :: "nat \<Rightarrow> pod_state list \<Rightarrow> nat \<times> f32 list \<Rightarrow> nat \<times> f32 list" where
  "encode_pods width [] s = s"
| "encode_pods width (p # ps) (i, xs) =
     (if width \<le> i + 5 then (i, xs)
      else encode_pods width ps (i + 6, put_all i
        [status_code (ps_status p), f_div (ps_cpu_pct p) (f_nat 100), f_div (ps_mem_mb p) (f_nat 4096),
         f_div (f_nat (unat (ps_restarts p))) (f_nat 10), f_min (f_div (f_nat (unat (ps_age_secs p))) (f_nat 86400)) (f_nat 1)] xs))"

fun encode_nodes :: "nat \<Rightarrow> node_state list \<Rightarrow> nat \<times> f32 list \<Rightarrow> nat \<times> f32 list" where
  "encode_nodes width [] s = s"
| "encode_nodes width (n # ns) (i, xs) =
     (if width \<le> i + 3 then (i, xs)
      else encode_nodes width ns (i + 4, put_all i
        [f_div (nst_cpu_avail n) (f_nat 100), f_div (nst_mem_avail n) (f_nat 32768), f_div (f_nat (unat (nst_pod_count n))) (f_nat 100),
         if nst_healthy n then f_nat 1 else f_zero] xs))"

definition encode_state :: "brain \<Rightarrow> cluster_snapshot \<Rightarrow> f32 list" where
  "encode_state b c =
     (let width = mx_cols (bn_wp b)
      in snd (encode_nodes width (cl_nodes c) (encode_pods width (cl_pods c) (0, replicate width f_zero))))"

subsection \<open>One tick\<close>

fun f_max_by :: "('a \<Rightarrow> f32) \<Rightarrow> 'a \<Rightarrow> 'a list \<Rightarrow> 'a" where
  "f_max_by f b [] = b"
| "f_max_by f b (x # xs) = f_max_by f (if f_gt (f b) (f x) then b else x) xs"

definition brain_node_score :: "node_state \<Rightarrow> f32" where
  "brain_node_score n =
     f_sub (f_add (f_mul (nst_cpu_avail n) (f32_lit (1 / 2))) (f_mul (nst_mem_avail n) (f32_lit (1 / 1000))))
           (f_mul (f_nat (unat (nst_pod_count n))) (f_nat 5))"

definition find_best_node :: "cluster_snapshot \<Rightarrow> node_state option" where
  "find_best_node c =
     (case filter (\<lambda>n. nst_healthy n \<and> f_gt (nst_cpu_avail n) (f_nat 10) \<and> f_gt (nst_mem_avail n) (f_nat 256)) (cl_nodes c) of
        [] \<Rightarrow> None | n # ns \<Rightarrow> Some (f_max_by brain_node_score n ns))"

definition find_least_loaded_node :: "cluster_snapshot \<Rightarrow> string \<Rightarrow> node_state option" where
  "find_least_loaded_node c exclude =
     (case filter (\<lambda>n. nst_healthy n \<and> nst_id n \<noteq> exclude) (cl_nodes c) of
        [] \<Rightarrow> None | n # ns \<Rightarrow> Some (f_max_by nst_cpu_avail n ns))"

definition should_migrate :: "pod_state \<Rightarrow> f32 \<Rightarrow> bool" where
  "should_migrate p migrate_score =
     ((f_gt (ps_cpu_pct p) (f_nat 90) \<or> f_gt (ps_mem_mb p) (f_nat 1000)) \<and> f_gt migrate_score f_zero)"

text \<open>The decision on one pod; \<open>migrate_score\<close> is the fourth logit of the pod.\<close>

definition pod_action :: "cluster_snapshot \<Rightarrow> f32 \<Rightarrow> pod_state \<Rightarrow> action list" where
  "pod_action c migrate_score p =
     (case ps_status p of
        PPending \<Rightarrow> (case find_best_node c of Some n \<Rightarrow> [ASchedule (ps_id p) (nst_id n)] | None \<Rightarrow> [])
      | PFailed \<Rightarrow>
          if ps_restarts p < 5 then [ARestart (ps_id p) ''pod failed'']
          else [AAlert ''critical'' (''Pod '' @ ps_name p @ '' failed '' @ show_word (ps_restarts p) @ '' times'')]
      | PRunning \<Rightarrow>
          if should_migrate p migrate_score
          then (case find_least_loaded_node c (ps_node p) of Some t \<Rightarrow> [AMigrate (ps_id p) (ps_node p) (nst_id t)] | None \<Rightarrow> [])
          else []
      | _ \<Rightarrow> [])"

fun pod_actions :: "cluster_snapshot \<Rightarrow> f32 list \<Rightarrow> nat \<Rightarrow> pod_state list \<Rightarrow> action list" where
  "pod_actions c logits i [] = []"
| "pod_actions c logits i (p # ps) =
     (if length logits \<le> i * 4 + 3 then [] else pod_action c (logits ! (i * 4 + 3)) p @ pod_actions c logits (Suc i) ps)"

definition scale_action :: "cluster_snapshot \<Rightarrow> desired_state \<Rightarrow> action list" where
  "scale_action c d =
     (let actual = of_nat (length (filter (\<lambda>p. starts_with (ps_name p) (des_name d) \<and> ps_status p = PRunning) (cl_pods c)))
      in if actual \<noteq> des_replicas d then [AScale (des_name d) actual (des_replicas d)] else [])"

definition forward :: "nn_ops \<Rightarrow> brain \<Rightarrow> f32 list \<Rightarrow> f32 list rust" where
  "forward N b input =
     rust_bind (nn_dot N (bn_wp b) input) (\<lambda>z1. rust_bind (nd_zip f_add (map relu z1) (bn_bp b)) (\<lambda>perceived.
     rust_bind (nn_dot N (bn_wd b) perceived) (\<lambda>z2. nd_zip f_add (map relu z2) (bn_bd b))))"

definition tick_actions :: "cluster_snapshot \<Rightarrow> f32 list \<Rightarrow> action list" where
  "tick_actions c logits =
     (let as = pod_actions c logits 0 (cl_pods c) @ concat (map (scale_action c) (cl_desired c)) in if as = [] then [ANoop] else as)"

definition tick :: "nn_ops \<Rightarrow> cluster_snapshot \<Rightarrow> brain \<Rightarrow> (decision \<times> brain) rust" where
  "tick N c b0 =
     (let b = b0\<lparr>bn_ticks := bn_ticks b0 + 1\<rparr>
      in rust_bind (forward N b (encode_state b c)) (\<lambda>decided.
         rust_bind (nn_dot N (bn_wa b) decided) (\<lambda>z3. rust_bind (nd_zip f_add z3 (bn_ba b)) (\<lambda>logits.
           let actions = tick_actions c logits;
               d = \<lparr>dc_tick = bn_ticks b, dc_actions = actions, dc_confidence = if actions = [] then f_nat 1 else f32_lit (95 / 100)\<rparr>;
               h = bn_history b @ [d];
               kv = hm_insert ''total_nodes'' (show_nat (length (cl_nodes c))) (hm_insert ''total_pods'' (show_nat (length (cl_pods c)))
                      (hm_insert ''last_tick'' (show_word (bn_ticks b)) (bn_kv b)))
           in Ret (d, b\<lparr>bn_actions := bn_actions b + of_nat (length (filter (\<lambda>a. a \<noteq> ANoop) actions)), bn_kv := kv,
                        bn_history := if 1000 < length h then drop 500 h else h\<rparr>)))))"

text \<open>The key-value map behind \<open>get\<close>, \<open>set\<close> and \<open>list\<close>.\<close>

definition brain_get :: "brain \<Rightarrow> string \<Rightarrow> string option" where
  "brain_get b key = hm_get (bn_kv b) key"

definition brain_set :: "string \<Rightarrow> string \<Rightarrow> brain \<Rightarrow> brain" where
  "brain_set key v b = b\<lparr>bn_kv := hm_insert key v (bn_kv b)\<rparr>"

definition brain_list :: "brain \<Rightarrow> string \<Rightarrow> (string \<times> string) list" where
  "brain_list b prefix = filter (\<lambda>(k, v). starts_with k prefix) (bn_kv b)"

subsection \<open>Histories kept as text\<close>

text \<open>Appending a record to a list of records separated by semicolons; when there are more than \<open>keep\<close> separators the first record goes.\<close>

definition semicolons :: "string \<Rightarrow> nat" where
  "semicolons s = length (filter (\<lambda>c. c = CHR '';'') s)"

definition append_record :: "nat \<Rightarrow> string \<Rightarrow> string \<Rightarrow> string" where
  "append_record keep rec entry =
     (let e = (if entry = [] then [] else entry @ '';'') @ rec
      in if keep < semicolons e then drop 1 (dropWhile (\<lambda>c. c \<noteq> CHR '';'') e) else e)"

definition kv_append :: "nat \<Rightarrow> string \<Rightarrow> string \<Rightarrow> brain \<Rightarrow> brain" where
  "kv_append keep key rec b =
     b\<lparr>bn_kv := hm_insert key (append_record keep rec (unwrap_or (hm_get (bn_kv b) key) [])) (bn_kv b)\<rparr>"

definition observation :: "f32 \<Rightarrow> f32 \<Rightarrow> u32 \<Rightarrow> string" where
  "observation cpu mem restarts = fmt_fixed 1 cpu @ '','' @ fmt_fixed 0 mem @ '','' @ show_word restarts"

definition brain_observe :: "string \<Rightarrow> f32 \<Rightarrow> f32 \<Rightarrow> u32 \<Rightarrow> brain \<Rightarrow> brain" where
  "brain_observe pod cpu mem restarts b = kv_append 100 (''metrics.'' @ pod) (observation cpu mem restarts) b"

definition record_load :: "string \<Rightarrow> f32 \<Rightarrow> u32 \<Rightarrow> brain \<Rightarrow> brain" where
  "record_load deployment cpu replicas b =
     kv_append 200 (''load.'' @ deployment) (show_word (bn_ticks b) @ '','' @ fmt_fixed 1 cpu @ '','' @ show_word replicas) b"

definition f32_or_zero :: "string \<Rightarrow> f32" where
  "f32_or_zero s = unwrap_or (parse_f32 s) f_zero"

definition parse_observation :: "string \<Rightarrow> (f32 \<times> f32 \<times> f32) option" where
  "parse_observation obs =
     (case str_split (CHR '','') obs of
        [c, m, r] \<Rightarrow> Some (f32_or_zero c, f32_or_zero m, f32_or_zero r)
      | _ \<Rightarrow> None)"

text \<open>Mean, and the standard deviation but at least one.\<close>

definition f_mean :: "f32 list \<Rightarrow> f32" where
  "f_mean xs = f_div (f_sum xs) (f_nat (length xs))"

definition f_std :: "nn_ops \<Rightarrow> f32 list \<Rightarrow> f32" where
  "f_std N xs = f_max (nn_sqrt N (f_div (f_sum (map (\<lambda>x. f_sq (f_sub x (f_mean xs))) xs)) (f_nat (length xs)))) (f_nat 1)"

definition deviates :: "nn_ops \<Rightarrow> f32 list \<Rightarrow> f32 \<Rightarrow> bool" where
  "deviates N xs x = f_gt (f_div (f_abs (f_sub x (f_mean xs))) (f_std N xs)) (f32_lit (5 / 2))"

definition threshold :: "nn_ops \<Rightarrow> f32 list \<Rightarrow> f32" where
  "threshold N xs = f_add (f_mean xs) (f_mul (f32_lit (5 / 2)) (f_std N xs))"

definition pod_anomalies :: "nn_ops \<Rightarrow> string \<Rightarrow> string \<Rightarrow> (string \<times> string \<times> f32 \<times> f32) list" where
  "pod_anomalies N pod data =
     (let obs = filter_map parse_observation (str_split (CHR '';'') data); cpus = map fst obs; mems = map (fst \<circ> snd) obs
      in if length obs < 5 then []
         else let (cpu, mem, restarts) = last obs; prev = snd (snd (obs ! (length obs - 2)))
              in (if deviates N cpus cpu then [(pod, ''CPU'', cpu, threshold N cpus)] else [])
                 @ (if deviates N mems mem then [(pod, ''MEM'', mem, threshold N mems)] else [])
                 @ (if f_gt restarts prev then [(pod, ''RESTART'', restarts, prev)] else []))"

definition detect_anomalies :: "nn_ops \<Rightarrow> brain \<Rightarrow> (string \<times> string \<times> f32 \<times> f32) list" where
  "detect_anomalies N b =
     concat (map (\<lambda>(key, data). if starts_with key ''metrics.'' then pod_anomalies N (drop 8 key) data else []) (bn_kv b))"

definition load_point :: "string \<Rightarrow> (f32 \<times> f32) option" where
  "load_point entry =
     (case str_split (CHR '','') entry of x # y # _ \<Rightarrow> Some (f32_or_zero x, f32_or_zero y) | _ \<Rightarrow> None)"

text \<open>Least squares through the recorded loads: intercept and slope, unless the times are all alike.\<close>

definition fit_line :: "(f32 \<times> f32) list \<Rightarrow> (f32 \<times> f32) option" where
  "fit_line ps =
     (let n = f_nat (length ps); sx = f_sum (map fst ps); sy = f_sum (map snd ps);
          sxy = f_sum (map (\<lambda>p. f_mul (fst p) (snd p)) ps); sxx = f_sum (map (\<lambda>p. f_mul (fst p) (fst p)) ps);
          denom = f_sub (f_mul n sxx) (f_mul sx sx)
      in if f_lt (f_abs denom) (f32_lit (1 / 1000)) then None
         else let slope = f_div (f_sub (f_mul n sxy) (f_mul sx sy)) denom
              in Some (f_div (f_sub sy (f_mul slope sx)) n, slope))"

definition fit_confidence :: "(f32 \<times> f32) list \<Rightarrow> f32 \<Rightarrow> f32 \<Rightarrow> f32" where
  "fit_confidence ps a slope =
     (let mean_y = f_div (f_sum (map snd ps)) (f_nat (length ps));
          tot = f_sum (map (\<lambda>p. f_sq (f_sub (snd p) mean_y)) ps);
          res = f_sum (map (\<lambda>p. f_sq (f_sub (snd p) (f_add a (f_mul slope (fst p))))) ps)
      in f_max (if f_gt tot f_zero then f_sub (f_nat 1) (f_div res tot) else f_zero) f_zero)"

definition suggest_replicas :: "f32 \<Rightarrow> f32 \<Rightarrow> u32 \<Rightarrow> u32 \<Rightarrow> u32" where
  "suggest_replicas predicted target current max_replicas =
     (if f_gt predicted target then min (f_to_u32 (f_ceil (f_mul (f_nat (unat current)) (f_div predicted target)))) max_replicas
      else if f_lt predicted (f_mul target (f32_lit (3 / 10))) \<and> 1 < current then max (current - 1) 1
      else current)"

definition predict_load :: "string \<Rightarrow> f32 \<Rightarrow> u32 \<Rightarrow> brain \<Rightarrow> (f32 \<times> f32 \<times> u32) option" where
  "predict_load deployment target max_replicas b =
     (case hm_get (bn_kv b) (''load.'' @ deployment) of
        None \<Rightarrow> None
      | Some data \<Rightarrow>
          let entries = str_split (CHR '';'') data; ps = filter_map load_point entries
          in if length ps < 10 then None
             else case fit_line ps of
                    None \<Rightarrow> None
                  | Some (a, slope) \<Rightarrow>
                      let ahead = f_add (f_nat (unat (bn_ticks b))) (f_nat 5);
                          predicted = f_min (f_max (f_add a (f_mul slope ahead)) f_zero) (f_nat 100);
                          current = unwrap_or (Option.bind (head_opt (drop 2 (str_split (CHR '','') (last entries)))) parse_u32) 1
                      in Some (predicted, fit_confidence ps a slope, suggest_replicas predicted target current max_replicas))"

definition rising :: string where "rising = ''rising '' @ [CHR 0xE2, CHR 0x86, CHR 0x91]"
definition falling :: string where "falling = ''falling '' @ [CHR 0xE2, CHR 0x86, CHR 0x93]"
definition stable :: string where "stable = ''stable '' @ [CHR 0xE2, CHR 0x86, CHR 0x92]"

definition trend :: "string \<Rightarrow> brain \<Rightarrow> string" where
  "trend deployment b =
     (case hm_get (bn_kv b) (''load.'' @ deployment) of
        None \<Rightarrow> ''no data''
      | Some data \<Rightarrow>
          let cpus = filter_map (\<lambda>e. Option.bind (head_opt (drop 1 (str_split (CHR '','') e))) parse_f32) (str_split (CHR '';'') data)
          in if length cpus < 5 then ''learning''
             else let recent = f_div (f_sum (drop (length cpus - 3) cpus)) (f_nat 3); older = f_div (f_sum (take 3 cpus)) (f_nat 3);
                      diff = f_sub recent older
                  in if f_gt diff (f_nat 5) then rising else if f_lt diff (f_neg (f_nat 5)) then falling else stable)"

definition baseline :: "nn_ops \<Rightarrow> string \<Rightarrow> brain \<Rightarrow> (f32 \<times> f32) option" where
  "baseline N pod b =
     Option.bind (hm_get (bn_kv b) (''metrics.'' @ pod)) (\<lambda>data.
       let xs = filter_map (\<lambda>o'. Option.bind (head_opt (str_split (CHR '','') o')) parse_f32) (str_split (CHR '';'') data)
       in if xs = [] then None
          else Some (f_mean xs, nn_sqrt N (f_div (f_sum (map (\<lambda>x. f_sq (f_sub x (f_mean xs))) xs)) (f_nat (length xs)))))"

subsection \<open>Identity tokens and keys\<close>

definition add_at :: "nat \<Rightarrow> f32 \<Rightarrow> f32 list \<Rightarrow> f32 list" where
  "add_at i x xs = xs[i := f_add (xs ! i) x]"

fun encode_id :: "nn_ops \<Rightarrow> nat \<Rightarrow> nat \<Rightarrow> string \<Rightarrow> f32 list \<Rightarrow> f32 list rust" where
  "encode_id N width i [] xs = Ret xs"
| "encode_id N width i (c # cs) xs =
     (if width = 0 then Panic
      else let byte = of_char c; idx = (byte * 7 + i * 13) mod width; idx2 = (idx + 17) mod width
           in encode_id N width (Suc i) cs
                (add_at idx2 (f_mul (f_div (f_nat byte) (f_nat 510)) (nn_sin N (f_add (f_nat i) (f_nat 1))))
                  (add_at idx (f_div (f_nat byte) (f_nat 255)) xs)))"

definition encode_node_id :: "nn_ops \<Rightarrow> brain \<Rightarrow> string \<Rightarrow> f32 list rust" where
  "encode_node_id N b node_id = encode_id N (mx_cols (bn_wp b)) 0 node_id (replicate (mx_cols (bn_wp b)) f_zero)"

definition neural_identity :: "nn_ops \<Rightarrow> brain \<Rightarrow> string \<Rightarrow> f32 list rust" where
  "neural_identity N b node_id = rust_bind (encode_node_id N b node_id) (forward N b)"

definition verify_identity :: "nn_ops \<Rightarrow> brain \<Rightarrow> string \<Rightarrow> f32 list \<Rightarrow> bool rust" where
  "verify_identity N b node_id claimed =
     rust_bind (neural_identity N b node_id) (\<lambda>expected.
       Ret (length expected = length claimed
            \<and> f_lt (nn_sqrt N (f_sum (map2 (\<lambda>x y. f_sq (f_sub x y)) expected claimed))) (f32_lit (1 / 1000))))"

text \<open>\<open>key[i] ^= ..\<close> over the outputs, two bytes of the bit pattern each.\<close>

fun mix_key :: "nat \<Rightarrow> f32 list \<Rightarrow> u8 list \<Rightarrow> u8 list" where
  "mix_key i [] key = key"
| "mix_key i (v # vs) key =
     (let bits = f32_bits v; k = i mod 32; k' = (k + 1) mod 32; key1 = key[k := xor (key ! k) (of_nat (bits mod 256))]
      in mix_key (Suc i) vs (key1[k' := xor (key1 ! k') (of_nat (bits div 256 mod 256))]))"

definition derive_key :: "nn_ops \<Rightarrow> brain \<Rightarrow> string \<Rightarrow> string \<Rightarrow> string rust" where
  "derive_key N b node_a node_b =
     rust_bind (encode_node_id N b node_a) (\<lambda>ia. rust_bind (encode_node_id N b node_b) (\<lambda>ib.
     rust_bind (nd_zip f_add ia ib) (\<lambda>combined.
     rust_bind (nn_dot N (bn_wp b) combined) (\<lambda>z1. rust_bind (nd_zip f_add (map relu z1) (bn_bp b)) (\<lambda>perceived.
     rust_bind (nn_dot N (bn_wd b) perceived) (\<lambda>z2.
     rust_bind (nd_zip f_add (map (\<lambda>x. nn_sin N (f_mul x (f_nat 1000))) z2) (bn_bd b)) (\<lambda>decided.
       Ret (map (\<lambda>w. char_of (unat w)) (mix_key 0 decided (replicate 32 0))))))))))"

definition neural_encrypt :: "nn_ops \<Rightarrow> aes_gcm \<Rightarrow> brain \<Rightarrow> string \<Rightarrow> string \<Rightarrow> string \<Rightarrow> string \<Rightarrow> string rust" where
  "neural_encrypt N A b nonce data node_a node_b =
     rust_bind (derive_key N b node_a node_b) (\<lambda>key.
       case aes_encrypt A key nonce data of Some c \<Rightarrow> Ret (nonce @ c) | None \<Rightarrow> Panic)"

definition neural_decrypt :: "nn_ops \<Rightarrow> aes_gcm \<Rightarrow> brain \<Rightarrow> string \<Rightarrow> string \<Rightarrow> string \<Rightarrow> string result rust" where
  "neural_decrypt N A b data node_a node_b =
     (if length data < 12 then Ret (Inl ''data too short'')
      else rust_bind (derive_key N b node_a node_b) (\<lambda>key.
        Ret (case aes_decrypt A key (take 12 data) (drop 12 data) of
               Some p \<Rightarrow> Inr p | None \<Rightarrow> Inl ''decrypt failed: data tampered or wrong key'')))"

text \<open>A token of an HTTP header, and the line of statistics with the first bytes of a sample key.\<close>

definition verify_identity_base64 :: "nn_ops \<Rightarrow> brain \<Rightarrow> string \<Rightarrow> string \<Rightarrow> bool rust" where
  "verify_identity_base64 N b node_id b64 = verify_identity N b node_id (map (\<lambda>w. f32_of_bits (unat w)) (identity_decode b64))"

definition hex_byte :: "char \<Rightarrow> string" where
  "hex_byte c = [hex_char (of_char c div 16), hex_char (of_char c mod 16)]"

definition brain_stats :: "nn_ops \<Rightarrow> brain \<Rightarrow> string rust" where
  "brain_stats N b =
     (let params = length (mx_data (bn_wp b)) + length (mx_data (bn_wd b)) + length (mx_data (bn_wa b))
                   + length (bn_bp b) + length (bn_bd b) + length (bn_ba b)
      in rust_bind (derive_key N b ''node-0'' ''node-1'') (\<lambda>key.
           Ret (''OrinBrain: '' @ show_nat params @ '' params, '' @ show_word (bn_ticks b) @ '' ticks, '' @ show_word (bn_actions b)
                @ '' actions, '' @ show_nat (length (bn_kv b)) @ '' kv entries, loss: '' @ fmt_fixed 4 (bn_last_loss b)
                @ '', FP-TLS key[0..4]: '' @ concat (map hex_byte (take 4 key)))))"

subsection \<open>Training\<close>

record forward_cache =
  fc_input :: "f32 list"
  fc_z1 :: "f32 list"
  fc_a1 :: "f32 list"
  fc_z2 :: "f32 list"
  fc_a2 :: "f32 list"
  fc_output :: "f32 list"

definition forward_cached :: "nn_ops \<Rightarrow> brain \<Rightarrow> f32 list \<Rightarrow> forward_cache rust" where
  "forward_cached N b input =
     rust_bind (nn_dot N (bn_wp b) input) (\<lambda>d1. rust_bind (nd_zip f_add d1 (bn_bp b)) (\<lambda>z1.
     rust_bind (nn_dot N (bn_wd b) (map relu z1)) (\<lambda>d2. rust_bind (nd_zip f_add d2 (bn_bd b)) (\<lambda>z2.
     rust_bind (nn_dot N (bn_wa b) (map relu z2)) (\<lambda>d3. rust_bind (nd_zip f_add d3 (bn_ba b)) (\<lambda>z3.
       Ret \<lparr>fc_input = input, fc_z1 = z1, fc_a1 = map relu z1, fc_z2 = z2, fc_a2 = map relu z2, fc_output = z3\<rparr>))))))"

abbreviation relu_step :: "f32 \<Rightarrow> f32" where
  "relu_step x \<equiv> if f_gt x f_zero then f_nat 1 else f_zero"

definition mx_descend :: "f32 \<Rightarrow> matrix \<Rightarrow> matrix \<Rightarrow> matrix rust" where
  "mx_descend lr m g =
     (if mx_rows m = mx_rows g \<and> mx_cols m = mx_cols g
      then rust_bind (nd_zip (\<lambda>x y. f_sub x (f_mul y lr)) (mx_data m) (mx_data g)) (\<lambda>d. Ret (m\<lparr>mx_data := d\<rparr>))
      else Panic)"

definition nd_descend :: "f32 \<Rightarrow> f32 list \<Rightarrow> f32 list \<Rightarrow> f32 list rust" where
  "nd_descend lr = nd_zip (\<lambda>x y. f_sub x (f_mul y lr))"

definition train_step :: "nn_ops \<Rightarrow> cluster_snapshot \<Rightarrow> f32 list \<Rightarrow> f32 \<Rightarrow> brain \<Rightarrow> (f32 \<times> brain) rust" where
  "train_step N c target lr b =
     rust_bind (forward_cached N b (encode_state b c)) (\<lambda>fc.
     rust_bind (nd_zip f_sub (fc_output fc) target) (\<lambda>diff.
       let n = f_nat (length diff); loss = f_div (nn_sum N (map (\<lambda>x. f_mul x x) diff)) n; dz3 = map (\<lambda>x. f_mul x (f_div (f_nat 2) n)) diff
       in rust_bind (nn_dot_t N (bn_wa b) dz3) (\<lambda>da2. rust_bind (nd_zip f_mul da2 (map relu_step (fc_z2 fc))) (\<lambda>dz2.
          rust_bind (nn_dot_t N (bn_wd b) dz2) (\<lambda>da1. rust_bind (nd_zip f_mul da1 (map relu_step (fc_z1 fc))) (\<lambda>dz1.
          rust_bind (mx_descend lr (bn_wa b) (outer dz3 (fc_a2 fc))) (\<lambda>wa. rust_bind (nd_descend lr (bn_ba b) dz3) (\<lambda>ba.
          rust_bind (mx_descend lr (bn_wd b) (outer dz2 (fc_a1 fc))) (\<lambda>wd. rust_bind (nd_descend lr (bn_bd b) dz2) (\<lambda>bd.
          rust_bind (mx_descend lr (bn_wp b) (outer dz1 (fc_input fc))) (\<lambda>wp. rust_bind (nd_descend lr (bn_bp b) dz1) (\<lambda>bp.
            Ret (loss, b\<lparr>bn_wp := wp, bn_bp := bp, bn_wd := wd, bn_bd := bd, bn_wa := wa, bn_ba := ba,
                         bn_train_steps := bn_train_steps b + 1, bn_last_loss := loss\<rparr>)))))))))))))"

definition index_of :: "('a \<Rightarrow> bool) \<Rightarrow> 'a list \<Rightarrow> nat option" where
  "index_of P xs = (if list_ex P xs then Some (length (takeWhile (\<lambda>x. \<not> P x) xs)) else None)"

definition set_slot :: "nat \<Rightarrow> nat option \<Rightarrow> f32 \<Rightarrow> f32 list \<Rightarrow> f32 list" where
  "set_slot off i x t = (case i of Some i \<Rightarrow> t[i * 4 + off := x] | None \<Rightarrow> t)"

definition target_of :: "cluster_snapshot \<Rightarrow> action \<Rightarrow> f32 list \<Rightarrow> f32 list" where
  "target_of c a t =
     (let pod = (\<lambda>i. index_of (\<lambda>p. ps_id p = i) (cl_pods c))
      in case a of
           ASchedule p n \<Rightarrow> set_slot 0 (pod p) (f_nat 1) t
         | AScale n from to \<Rightarrow> set_slot 1 (index_of (\<lambda>d. des_name d = n) (cl_desired c)) (f_div (f_nat (unat to)) (f_nat 10)) t
         | ARestart p r \<Rightarrow> set_slot 2 (pod p) (f_nat 1) t
         | AMigrate p f to \<Rightarrow> set_slot 3 (pod p) (f_nat 1) t
         | _ \<Rightarrow> t)"

definition decisions_to_target :: "brain \<Rightarrow> cluster_snapshot \<Rightarrow> action list \<Rightarrow> f32 list" where
  "decisions_to_target b c as = fold (target_of c) as (replicate (mx_rows (bn_wa b)) f_zero)"

subsection \<open>The weights file\<close>

definition f32_le :: "f32 \<Rightarrow> string" where
  "f32_le x = le_bytes 4 (f32_bits x)"

definition weights_file :: "brain \<Rightarrow> string" where
  "weights_file b =
     ''NRBN'' @ concat (map (le_bytes 4)
       [mx_rows (bn_wp b), mx_cols (bn_wp b), mx_rows (bn_wd b), mx_cols (bn_wd b), mx_rows (bn_wa b), mx_cols (bn_wa b),
        unat (bn_train_steps b), unat (bn_ticks b)])
     @ f32_le (bn_last_loss b)
     @ concat (map f32_le (mx_data (bn_wp b) @ mx_data (bn_wd b) @ mx_data (bn_wa b) @ bn_bp b @ bn_bd b @ bn_ba b))"

definition take4 :: "string \<Rightarrow> (nat \<times> string) rust" where
  "take4 s = (if length s < 4 then Panic else Ret (le_val (take 4 s), drop 4 s))"

fun take4s :: "nat \<Rightarrow> string \<Rightarrow> (nat list \<times> string) rust" where
  "take4s 0 s = Ret ([], s)"
| "take4s (Suc n) s = rust_bind (take4 s) (\<lambda>(v, s'). rust_bind (take4s n s') (\<lambda>(vs, s''). Ret (v # vs, s'')))"

definition read_f32s :: "nat \<Rightarrow> string \<Rightarrow> (f32 list \<times> string) rust" where
  "read_f32s n s = rust_bind (take4s n s) (\<lambda>(vs, s'). Ret (map f32_of_bits vs, s'))"

definition read_mat :: "nat \<Rightarrow> nat \<Rightarrow> string \<Rightarrow> (matrix \<times> string) rust" where
  "read_mat rows cols s = rust_bind (read_f32s (rows * cols) s) (\<lambda>(d, s'). Ret (\<lparr>mx_rows = rows, mx_cols = cols, mx_data = d\<rparr>, s'))"

text \<open>The steps of \<open>load_weights\<close> after the header: the six arrays in file order. \<open>load_weights\<close> sets the step count and the loss before it compares the shape.\<close>

definition read_arrays :: "nat \<Rightarrow> nat \<Rightarrow> nat \<Rightarrow> nat \<Rightarrow> nat \<Rightarrow> nat \<Rightarrow> string \<Rightarrow> brain \<Rightarrow> brain rust" where
  "read_arrays pr pc dr dc ar ac s b =
     rust_bind (read_mat pr pc s) (\<lambda>(wp, s). rust_bind (read_mat dr dc s) (\<lambda>(wd, s). rust_bind (read_mat ar ac s) (\<lambda>(wa, s).
     rust_bind (read_f32s pr s) (\<lambda>(bp, s). rust_bind (read_f32s dr s) (\<lambda>(bd, s). rust_bind (read_f32s ar s) (\<lambda>(ba, s).
       Ret (b\<lparr>bn_wp := wp, bn_wd := wd, bn_wa := wa, bn_bp := bp, bn_bd := bd, bn_ba := ba\<rparr>)))))))"

definition load_weights :: "string result \<Rightarrow> brain \<Rightarrow> (unit result \<times> brain) rust" where
  "load_weights file b =
     (case file of
        Inl e \<Rightarrow> Ret (Inl (''read: '' @ e), b)
      | Inr data \<Rightarrow>
          if length data < 40 \<or> take 4 data \<noteq> ''NRBN'' then Ret (Inl ''not a brain file'', b)
          else rust_bind (take4s 9 (drop 4 data)) (\<lambda>(h, s).
            let b1 = b\<lparr>bn_train_steps := of_nat (h ! 6), bn_last_loss := f32_of_bits (h ! 8)\<rparr>
            in if h ! 0 \<noteq> mx_rows (bn_wp b) \<or> h ! 1 \<noteq> mx_cols (bn_wp b) then
                 Ret (Inl (''perceive dim mismatch: file ('' @ show_nat (h ! 0) @ '','' @ show_nat (h ! 1) @ '') vs brain (''
                           @ show_nat (mx_rows (bn_wp b)) @ '','' @ show_nat (mx_cols (bn_wp b)) @ '')''), b1)
               else rust_bind (read_arrays (h ! 0) (h ! 1) (h ! 2) (h ! 3) (h ! 4) (h ! 5) s b1) (\<lambda>b2. Ret (Inr (), b2))))"

subsection \<open>Pre-training\<close>

definition train_pod :: "string \<Rightarrow> string \<Rightarrow> string \<Rightarrow> pod_status \<Rightarrow> f32 \<Rightarrow> nat \<Rightarrow> u32 \<Rightarrow> u64 \<Rightarrow> pod_state" where
  "train_pod i name node st cpu mem restarts age =
     \<lparr>ps_id = i, ps_name = name, ps_node = node, ps_status = st, ps_cpu_pct = cpu, ps_mem_mb = f_nat mem, ps_restarts = restarts,
      ps_age_secs = age, ps_image = name\<rparr>"

definition healthy_nodes :: "node_state list" where
  "healthy_nodes =
     [\<lparr>nst_id = ''node-0'', nst_cpu_avail = f_nat 70, nst_mem_avail = f_nat 8192, nst_pod_count = 3, nst_healthy = True\<rparr>,
      \<lparr>nst_id = ''node-1'', nst_cpu_avail = f_nat 85, nst_mem_avail = f_nat 4096, nst_pod_count = 1, nst_healthy = True\<rparr>]"

definition scenario :: "pod_state list \<Rightarrow> string \<Rightarrow> u32 \<Rightarrow> string \<Rightarrow> nat \<Rightarrow> nat \<Rightarrow> (nat \<times> f32) list \<Rightarrow> cluster_snapshot \<times> f32 list" where
  "scenario pods name replicas img cpu mem slots =
     (\<lparr>cl_pods = pods, cl_nodes = healthy_nodes,
       cl_desired = [\<lparr>des_name = name, des_replicas = replicas, des_image = img, des_cpu_limit = f_nat cpu, des_mem_limit = f_nat mem\<rparr>]\<rparr>,
      fold (\<lambda>(i, x) t. t[i := x]) slots (replicate 128 f_zero))"

definition web_pod :: "string \<Rightarrow> f32 \<Rightarrow> nat \<Rightarrow> u64 \<Rightarrow> pod_state" where
  "web_pod i cpu mem age = (train_pod i ''web'' ''node-0'' PRunning cpu mem 0 age)\<lparr>ps_image := ''nginx''\<rparr>"

definition generate_training_scenarios :: "(cluster_snapshot \<times> f32 list) list" where
  "generate_training_scenarios =
     map (\<lambda>n. scenario (map (\<lambda>i. web_pod (''web-'' @ show_nat i) (f_add (f_nat 30) (f_mul (f_nat i) (f_nat 5))) 128 3600) [0..<n])
                ''web'' (of_nat n) ''nginx'' 80 512 []) [1, 2, 3, 5]
     @ map (\<lambda>i. scenario [train_pod (''pending-'' @ show_nat i) ''app'' [] PPending f_zero 0 0 0] ''app'' 1 ''app'' 50 256 [(0, f_nat 1)]) [0..<3]
     @ map (\<lambda>r. scenario [train_pod ''crashed-0'' ''api'' ''node-0'' PFailed f_zero 0 r 120] ''api'' 1 ''api'' 80 512 [(2, f_nat 1)]) [0, 1, 2, 3]
     @ [scenario [train_pod ''crashloop-0'' ''broken'' ''node-0'' PFailed f_zero 0 6 600] ''broken'' 1 ''broken'' 50 256 []]
     @ map (\<lambda>cpu. scenario [train_pod ''hot-0'' ''compute'' ''node-0'' PRunning (f_nat cpu) 400 0 7200] ''compute'' 1 ''compute'' 80 512
                    (if 90 < cpu then [(3, f_nat 1)] else [])) [85, 90, 95, 99]
     @ [scenario [web_pod ''web-0'' (f_nat 70) 256 3600] ''web'' 3 ''nginx'' 80 512 [(1, f_div (f_nat 3) (f_nat 10))],
        scenario (map (\<lambda>i. web_pod (''idle-'' @ show_nat i) (f_nat 5) 64 7200) [0..<5]) ''web'' 2 ''nginx'' 80 512 [(1, f_div (f_nat 2) (f_nat 10))],
        scenario [train_pod ''mix-0'' ''api'' ''node-0'' PRunning (f_nat 45) 200 0 3600, train_pod ''mix-1'' ''api'' ''node-1'' PFailed f_zero 0 1 300]
          ''api'' 3 ''api'' 70 512 [(6, f_nat 1), (1, f_div (f_nat 3) (f_nat 10))]]"

fun train_all :: "nn_ops \<Rightarrow> f32 \<Rightarrow> (cluster_snapshot \<times> f32 list) list \<Rightarrow> f32 \<times> brain \<Rightarrow> (f32 \<times> brain) rust" where
  "train_all N lr [] s = Ret s"
| "train_all N lr ((c, t) # cs) (acc, b) =
     rust_bind (train_step N c t lr b) (\<lambda>(loss, b'). train_all N lr cs (f_add acc loss, b'))"

fun pretrain_from :: "nn_ops \<Rightarrow> nat \<Rightarrow> nat list \<Rightarrow> brain \<Rightarrow> ((nat \<times> f32) list \<times> brain) rust" where
  "pretrain_from N epochs [] b = Ret ([], b)"
| "pretrain_from N epochs (e # es) b =
     rust_bind (train_all N (f32_lit (5 / 1000)) generate_training_scenarios (f_zero, b)) (\<lambda>(total, b').
     rust_bind (pretrain_from N epochs es b') (\<lambda>(ls, b'').
       Ret ((if e mod 50 = 0 \<or> e = epochs - 1 then [(e, f_div total (f_nat (length generate_training_scenarios)))] else []) @ ls, b'')))"

definition pretrain :: "nn_ops \<Rightarrow> u32 \<Rightarrow> brain \<Rightarrow> ((nat \<times> f32) list \<times> brain) rust" where
  "pretrain N epochs b = pretrain_from N (unat epochs) [0..<unat epochs] b"

end
