(* ===== verification/Brain_Props.thy ===== *)
theory Brain_Props
  imports Brain State_Props
begin

text \<open>
  Properties of the brain: what a tick decides, how far the metric histories reach, that both ends of a channel derive one key,
  and that trained weights survive their file.
\<close>

subsection \<open>Histories\<close>

lemma str_split_app: "str_split c (a @ c # b) = str_split c a @ str_split c b"
proof (induction a)
  case (Cons x a)
  then show ?case by (cases "str_split c a") simp_all
qed simp

lemma length_str_split: "length (str_split c s) = Suc (length (filter (\<lambda>x. x = c) s))"
  by (induction s) (auto split: list.splits)

lemma str_split_tail: "c \<in> set s \<Longrightarrow> str_split c (drop 1 (dropWhile (\<lambda>x. x \<noteq> c) s)) = tl (str_split c s)"
proof (induction s)
  case (Cons x s)
  then show ?case by (cases "str_split c s") auto
qed simp

lemma append_record_split:
  assumes "CHR '';'' \<notin> set rec"
  shows "str_split (CHR '';'') (append_record keep rec e) =
    (let xs = (if e = [] then [] else str_split (CHR '';'') e) @ [rec] in if keep < length xs - 1 then tl xs else xs)"
proof -
  define e' where "e' = (if e = [] then [] else e @ '';'') @ rec"
  have s: "str_split (CHR '';'') e' = (if e = [] then [] else str_split (CHR '';'') e) @ [rec]"
    using assms str_split_app[of "CHR '';''" e rec] by (simp add: e'_def str_split_no_sep)
  have n: "semicolons e' = length (str_split (CHR '';'') e') - 1" by (simp add: semicolons_def length_str_split)
  have "CHR '';'' \<in> set e'" if "keep < semicolons e'"
  proof (rule ccontr)
    assume "CHR '';'' \<notin> set e'"
    then have "filter (\<lambda>c. c = CHR '';'') e' = []" by (auto simp: filter_empty_conv)
    with that show False by (simp add: semicolons_def)
  qed
  then show ?thesis
    using str_split_tail[of "CHR '';''" e'] by (simp add: append_record_def e'_def[symmetric] n s[symmetric] Let_def)
qed

lemma append_record_not_Nil: "rec \<noteq> [] \<Longrightarrow> CHR '';'' \<notin> set rec \<Longrightarrow> append_record keep rec e \<noteq> []"
  using append_record_split[of rec keep e] by (auto simp: Let_def split: if_splits)

lemma show_nat_no: "c \<in> set (show_nat n) \<Longrightarrow> c \<noteq> CHR '';''"
  using show_nat_digits[of c n] by (auto simp: digit_val_def)

lemma fmt_fixed_no: "CHR '';'' \<notin> set (fmt_fixed k x)"
proof -
  have "CHR '';'' \<notin> set (show_nat n)" for n using show_nat_no by blast
  then have "CHR '';'' \<notin> set (show_scaled k n)" for k n
    by (auto simp: show_scaled_def pad_left_def Let_def dest: in_set_takeD in_set_dropD)
  then show ?thesis by (cases x) auto
qed

lemma observation_text: "CHR '';'' \<notin> set (observation c m r)" "observation c m r \<noteq> []"
  using fmt_fixed_no show_nat_no by (auto simp: observation_def)

definition observe_all :: "string \<Rightarrow> (f32 \<times> f32 \<times> u32) list \<Rightarrow> brain \<Rightarrow> brain" where
  "observe_all pod obs b = fold (\<lambda>(c, m, r). brain_observe pod c m r) obs b"

lemma observe_all_window:
  assumes "hm_get (bn_kv b) (''metrics.'' @ pod) = None"
  shows "(case hm_get (bn_kv (observe_all pod obs b)) (''metrics.'' @ pod) of
            None \<Rightarrow> obs = []
          | Some d \<Rightarrow> d \<noteq> [] \<and> str_split (CHR '';'') d = map (\<lambda>(c, m, r). observation c m r) (drop (length obs - 101) obs))"
proof (induction obs rule: rev_induct)
  case Nil
  then show ?case using assms by (simp add: observe_all_def)
next
  case (snoc o' obs)
  obtain c m r where o': "o' = (c, m, r)" by (cases o') auto
  let ?b = "observe_all pod obs b" and ?w = "map (\<lambda>(c, m, r). observation c m r)"
  define e where "e = unwrap_or (hm_get (bn_kv ?b) (''metrics.'' @ pod)) []"
  have e: "(if e = [] then [] else str_split (CHR '';'') e) = ?w (drop (length obs - 101) obs)"
    using snoc by (auto simp: e_def split: option.splits)
  have new: "hm_get (bn_kv (observe_all pod (obs @ [o']) b)) (''metrics.'' @ pod) = Some (append_record 100 (observation c m r) e)"
    by (simp add: observe_all_def o' brain_observe_def kv_append_def e_def)
  have "str_split (CHR '';'') (append_record 100 (observation c m r) e) = ?w (drop (length (obs @ [o']) - 101) (obs @ [o']))"
  proof (cases "101 \<le> length obs")
    case True
    then have d: "length obs - 100 = Suc (length obs - 101)" by simp
    have "drop (length obs - 100) obs = tl (drop (length obs - 101) obs)" unfolding d by (simp add: drop_Suc tl_drop)
    moreover have "drop (length obs - 101) obs \<noteq> []" using True by auto
    ultimately show ?thesis
      unfolding append_record_split[OF observation_text(1)] e Let_def using True by (simp add: o' map_tl)
  next
    case False
    then show ?thesis unfolding append_record_split[OF observation_text(1)] e Let_def by (simp add: o')
  qed
  then show ?case unfolding new option.case using append_record_not_Nil[OF observation_text(2,1)] by blast
qed


subsection \<open>Keys\<close>

lemma f_add_commute: "f_add a b = f_add b a"
  by (cases a; cases b) (simp_all add: add.commute conj_ac)

lemma nd_zip_commute: "nd_zip f_add xs ys = nd_zip f_add ys xs"
proof -
  have "map2 f_add xs ys = map2 f_add ys xs" by (rule nth_equalityI) (auto simp: f_add_commute)
  then show ?thesis by (simp add: nd_zip_def)
qed

lemma derive_key_commute: "derive_key N b x y = derive_key N b y x"
  by (cases "encode_node_id N b x"; cases "encode_node_id N b y") (simp_all add: derive_key_def nd_zip_commute)


subsection \<open>Decisions\<close>

lemma pod_actions_members:
  "a \<in> set (pod_actions c logits i ps) \<Longrightarrow> \<exists>p s. p \<in> set ps \<and> a \<in> set (pod_action c s p)"
  by (induction c logits i ps rule: pod_actions.induct) (auto split: if_splits)

lemma pod_actions_complete:
  "j < length ps \<Longrightarrow> (i + j) * 4 + 3 < length logits \<Longrightarrow>
     set (pod_action c (logits ! ((i + j) * 4 + 3)) (ps ! j)) \<subseteq> set (pod_actions c logits i ps)"
proof (induction c logits i ps arbitrary: j rule: pod_actions.induct)
  case (2 c logits i p ps)
  then show ?case
  proof (cases j)
    case (Suc k)
    with 2 show ?thesis by fastforce
  qed auto
qed simp

text \<open>What the actions of a pod can be.\<close>

lemma pod_action_cases:
  assumes "a \<in> set (pod_action c s p)"
  obtains (schedule) m where "a = ASchedule (ps_id p) (nst_id m)" "ps_status p = PPending" "find_best_node c = Some m"
    | (restart) "a = ARestart (ps_id p) ''pod failed''" "ps_status p = PFailed" "ps_restarts p < 5"
    | (alert) m where "a = AAlert ''critical'' m" "ps_status p = PFailed" "\<not> ps_restarts p < 5"
    | (migrate) m where "a = AMigrate (ps_id p) (ps_node p) m" "ps_status p = PRunning" "should_migrate p s"
proof (cases "ps_status p")
  case PRunning
  show ?thesis
  proof (cases "should_migrate p s")
    case True
    with PRunning assms migrate show ?thesis
      by (cases "find_least_loaded_node c (ps_node p)") (simp_all add: pod_action_def)
  qed (use PRunning assms in \<open>simp add: pod_action_def\<close>)
next
  case PPending
  then show ?thesis using assms schedule by (cases "find_best_node c") (simp_all add: pod_action_def)
next
  case PFailed
  then show ?thesis using assms restart alert by (cases "ps_restarts p < 5") (simp_all add: pod_action_def)
qed (use assms in \<open>simp_all add: pod_action_def\<close>)

lemma tick_Ret:
  assumes "tick N c b = Ret (d, b')"
  obtains logits where "dc_actions d = tick_actions c logits" and "length logits = length (bn_ba b)" and "dc_tick d = bn_ticks b + 1"
    and "bn_ticks b' = bn_ticks b + 1" and "bn_history b' = (let h = bn_history b @ [d] in if 1000 < length h then drop 500 h else h)"
    and "bn_wp b' = bn_wp b" "bn_wd b' = bn_wd b" "bn_wa b' = bn_wa b"
proof -
  from assms obtain x z3 logits where "nd_zip f_add z3 (bn_ba b) = Ret logits"
    and r: "d = \<lparr>dc_tick = bn_ticks b + 1, dc_actions = tick_actions c logits,
                  dc_confidence = if tick_actions c logits = [] then f_nat 1 else f32_lit (95 / 100)\<rparr>"
      "bn_ticks b' = bn_ticks b + 1" "bn_history b' = (let h = bn_history b @ [d] in if 1000 < length h then drop 500 h else h)"
      "bn_wp b' = bn_wp b" "bn_wd b' = bn_wd b" "bn_wa b' = bn_wa b"
    unfolding tick_def Let_def by (auto simp: rust_bind_eq_Ret)
  then have ll: "length logits = length (bn_ba b)" by (auto simp: nd_zip_def split: if_splits)
  show thesis by (rule that[of logits]) (simp_all add: r ll)
qed


subsection \<open>The weights file\<close>

definition matrix_ok :: "matrix \<Rightarrow> bool" where
  "matrix_ok m = (length (mx_data m) = mx_rows m * mx_cols m \<and> mx_rows m < 2 ^ 32 \<and> mx_cols m < 2 ^ 32 \<and> list_all f32_ok (mx_data m))"

text \<open>A brain whose arrays have their shapes and hold single-precision numbers, and that has ticked fewer than \<open>2 ^ 32\<close> times.\<close>

definition brain_ok :: "brain \<Rightarrow> bool" where
  "brain_ok b = (matrix_ok (bn_wp b) \<and> matrix_ok (bn_wd b) \<and> matrix_ok (bn_wa b)
     \<and> length (bn_bp b) = mx_rows (bn_wp b) \<and> length (bn_bd b) = mx_rows (bn_wd b) \<and> length (bn_ba b) = mx_rows (bn_wa b)
     \<and> list_all f32_ok (bn_bp b @ bn_bd b @ bn_ba b) \<and> f32_ok (bn_last_loss b))"

lemma le_bytes_mod: "le_bytes n (v mod 256 ^ n) = le_bytes n v"
proof (induction n arbitrary: v)
  case (Suc n)
  have "v mod (256 * 256 ^ n) div 256 = v div 256 mod 256 ^ n" "v mod (256 * 256 ^ n) mod 256 = v mod 256"
    by (simp_all add: mod_mult2_eq)
  with Suc show ?case by simp
qed simp

lemma take4s_bytes:
  "list_all (\<lambda>v. v < 2 ^ 32) vs \<Longrightarrow> take4s (length vs) (concat (map (le_bytes 4) vs) @ s) = Ret (vs, s)"
proof (induction vs)
  case (Cons v vs)
  then have "le_val (le_bytes 4 v) = v" by (intro le_val_exact) simp
  with Cons show ?case by (simp add: take4_def del: le_bytes.simps)
qed simp

lemma read_f32s_bytes:
  assumes "list_all f32_ok xs"
  shows "read_f32s (length xs) (concat (map f32_le xs) @ s) = Ret (xs, s)"
proof -
  have "list_all (\<lambda>v. v < 2 ^ 32) (map f32_bits xs)" using assms f32_bits_less by (auto simp: list_all_iff)
  from take4s_bytes[OF this, of s] have "take4s (length xs) (concat (map f32_le xs) @ s) = Ret (map f32_bits xs, s)"
    by (simp add: f32_le_def[abs_def] comp_def)
  moreover have "map (f32_of_bits \<circ> f32_bits) xs = xs" using assms by (intro map_idI) (auto simp: list_all_iff f32_of_bits_bits)
  ultimately show ?thesis by (simp add: read_f32s_def)
qed

lemma read_mat_bytes:
  "matrix_ok m \<Longrightarrow> read_mat (mx_rows m) (mx_cols m) (concat (map f32_le (mx_data m)) @ s) = Ret (m, s)"
  using read_f32s_bytes[of "mx_data m" s] by (simp add: read_mat_def matrix_ok_def)

lemma read_arrays_bytes:
  assumes "brain_ok b"
  shows "read_arrays (mx_rows (bn_wp b)) (mx_cols (bn_wp b)) (mx_rows (bn_wd b)) (mx_cols (bn_wd b)) (mx_rows (bn_wa b)) (mx_cols (bn_wa b))
      (concat (map f32_le (mx_data (bn_wp b) @ mx_data (bn_wd b) @ mx_data (bn_wa b) @ bn_bp b @ bn_bd b @ bn_ba b))) b'
    = Ret (b'\<lparr>bn_wp := bn_wp b, bn_wd := bn_wd b, bn_wa := bn_wa b, bn_bp := bn_bp b, bn_bd := bn_bd b, bn_ba := bn_ba b\<rparr>)"
proof -
  have ok: "matrix_ok (bn_wp b)" "matrix_ok (bn_wd b)" "matrix_ok (bn_wa b)" "list_all f32_ok (bn_bp b)" "list_all f32_ok (bn_bd b)"
    "list_all f32_ok (bn_ba b)" "length (bn_bp b) = mx_rows (bn_wp b)" "length (bn_bd b) = mx_rows (bn_wd b)" "length (bn_ba b) = mx_rows (bn_wa b)"
    using assms by (simp_all add: brain_ok_def)
  show ?thesis
    using read_f32s_bytes[OF ok(4)] read_f32s_bytes[OF ok(5)] read_f32s_bytes[OF ok(6), of "[]"]
    by (simp add: read_arrays_def read_mat_bytes ok)
qed

text \<open>
  C14: Trained weights survive a restart: loading the file of a brain into a brain of the same input shape succeeds and gives it the weights,
  biases, step count and loss of the saved one.
\<close>
theorem weights_file_roundtrip:
  assumes "brain_ok b" and "mx_rows (bn_wp b') = mx_rows (bn_wp b)" and "mx_cols (bn_wp b') = mx_cols (bn_wp b)"
  shows "load_weights (Inr (weights_file b)) b' =
    Ret (Inr (), b'\<lparr>bn_wp := bn_wp b, bn_bp := bn_bp b, bn_wd := bn_wd b, bn_bd := bn_bd b, bn_wa := bn_wa b, bn_ba := bn_ba b,
                    bn_train_steps := bn_train_steps b, bn_last_loss := bn_last_loss b\<rparr>)"
proof -
  define hs where "hs = [mx_rows (bn_wp b), mx_cols (bn_wp b), mx_rows (bn_wd b), mx_cols (bn_wd b), mx_rows (bn_wa b), mx_cols (bn_wa b),
        unat (bn_train_steps b), unat (bn_ticks b) mod 2 ^ 32, f32_bits (bn_last_loss b)]"
  define arrays where "arrays = concat (map f32_le (mx_data (bn_wp b) @ mx_data (bn_wd b) @ mx_data (bn_wa b) @ bn_bp b @ bn_bd b @ bn_ba b))"
  have trunc: "le_bytes 4 v = le_bytes 4 (v mod 2 ^ 32)" for v
    using le_bytes_mod[of 4 v] by simp
  have wf: "weights_file b = ''NRBN'' @ concat (map (le_bytes 4) hs) @ arrays"
    unfolding weights_file_def arrays_def f32_le_def hs_def using trunc[of "unat (bn_ticks b)"] by simp
  have "unat (bn_train_steps b) < 2 ^ 32" by (rule order_less_le_trans[OF unsigned_less]) simp
  then have "list_all (\<lambda>v. v < 2 ^ 32) hs"
    using assms(1) f32_bits_less by (simp add: brain_ok_def matrix_ok_def hs_def)
  moreover have "length hs = 9" by (simp add: hs_def)
  ultimately have h: "take4s 9 (concat (map (le_bytes 4) hs) @ arrays) = Ret (hs, arrays)" using take4s_bytes[of hs arrays] by simp
  have f: "f32_of_bits (f32_bits (bn_last_loss b)) = bn_last_loss b" using assms(1) by (simp add: brain_ok_def f32_of_bits_bits)
  have "length (concat (map (le_bytes 4) hs)) = 36" by (simp add: hs_def)
  then have d: "\<not> length (weights_file b) < 40" "take 4 (weights_file b) = ''NRBN''" "drop 4 (weights_file b) = concat (map (le_bytes 4) hs) @ arrays"
    unfolding wf by simp_all
  have n: "hs ! 0 = mx_rows (bn_wp b)" "hs ! 1 = mx_cols (bn_wp b)" "hs ! 2 = mx_rows (bn_wd b)" "hs ! 3 = mx_cols (bn_wd b)"
    "hs ! 4 = mx_rows (bn_wa b)" "hs ! 5 = mx_cols (bn_wa b)" "hs ! 6 = unat (bn_train_steps b)" "hs ! 8 = f32_bits (bn_last_loss b)"
    by (simp_all add: hs_def)
  show ?thesis
    unfolding load_weights_def sum.case d h rust_bind.simps prod.case Let_def n f assms(2,3)
    using read_arrays_bytes[OF assms(1), folded arrays_def] d(1) by simp
qed

subsection \<open>A small brain\<close>

text \<open>Two inputs, one unit per layer, four outputs; inner products summed from the left.\<close>

definition small_nn :: nn_ops where
  "small_nn = \<lparr>nn_inner = \<lambda>xs ys. f_sum (map2 f_mul xs ys), nn_sum = f_sum, nn_sqrt = \<lambda>x. x, nn_sin = \<lambda>x. x\<rparr>"

definition small_brain :: brain where
  "small_brain = \<lparr>bn_wp = \<lparr>mx_rows = 1, mx_cols = 2, mx_data = [f_zero, f_zero]\<rparr>, bn_bp = [f_zero],
     bn_wd = \<lparr>mx_rows = 1, mx_cols = 1, mx_data = [f_zero]\<rparr>, bn_bd = [f_zero],
     bn_wa = \<lparr>mx_rows = 4, mx_cols = 1, mx_data = [f_zero, f_zero, f_zero, f_zero]\<rparr>, bn_ba = [f_zero, f_zero, f_zero, Inf False],
     bn_kv = [], bn_history = [], bn_ticks = 7, bn_actions = 0, bn_train_steps = 3, bn_last_loss = f_zero\<rparr>"

definition failed_pod :: pod_state where
  "failed_pod = train_pod ''p'' ''rk-web-1'' ''n'' PFailed f_zero 0 2 0"

definition failed_cluster :: cluster_snapshot where
  "failed_cluster = \<lparr>cl_pods = [failed_pod], cl_nodes = [], cl_desired = []\<rparr>"


lemma small_tick: "\<exists>d b'. tick small_nn failed_cluster small_brain = Ret (d, b')"
  by (simp add: tick_def forward_def nn_dot_def nd_zip_def small_brain_def failed_cluster_def encode_state_def put_all_def Let_def)


lemma small_key: "\<exists>key. derive_key small_nn small_brain ''a'' ''b'' = Ret key"
  by (simp add: derive_key_def encode_node_id_def add_at_def nn_dot_def nd_zip_def small_brain_def Let_def)


theorem weights_file_roundtrip_witness:
  "\<exists>b. load_weights (Inr (weights_file small_brain)) (small_brain\<lparr>bn_train_steps := 0, bn_ba := []\<rparr>) = Ret (Inr (), b) \<and> bn_train_steps b = 3 \<and> bn_ba b = bn_ba small_brain"
proof -
  have "brain_ok small_brain" by (simp add: brain_ok_def matrix_ok_def small_brain_def f32_ok_def)
  from weights_file_roundtrip[OF this, of "small_brain\<lparr>bn_train_steps := 0, bn_ba := []\<rparr>"] show ?thesis
    by (simp add: small_brain_def)
qed

end
