(* ===== verification/Recon_Base.thy ===== *)
theory Recon_Base
  imports Functions Brain Operators Scaling Docker_Props
begin

text \<open>
  The ground of the reconcile loop, \<^verbatim>\<open>src/src/reconcile.rs\<close>: the state one tick works on (the world, the log, the events put
  off to the end of the tick, the brain, the build table, the engine), the machine it runs on, and steps on that state. A step may
  panic. The machine is one record of parameters; its clock stands still during a tick.
\<close>

subsection \<open>State and steps\<close>

text \<open>What a tick does outside the engine: files it writes (and whether only the owner may read them), pods it asks a peer to create.\<close>

datatype act = Host effect | Wrote string string bool | Posted string string

type_synonym pending_event = "string \<times> string \<times> string \<times> string \<times> string"

record 's loop =
  lp_world :: "json desired_world"
  lp_log :: "string list"
  lp_events :: "pending_event list"
  lp_brain :: brain
  lp_builds :: build_state
  lp_acts :: "act list"
  lp_engine :: 's

text \<open>A run of \<open>git\<close>: it cannot be started, or it ends with a status, its output and its error text.\<close>

type_synonym git_answer = "(bool \<times> string \<times> string) result"

record ('y, 's) loop_env =
  le_api :: "('y, 's) api_env"
  le_nn :: nn_ops
  le_rcgen :: "(string, string, string) rcgen_ops"
  le_hmac :: "string \<Rightarrow> string \<Rightarrow> string"
  le_stats :: stats_cache
  le_upper :: "string \<Rightarrow> string"
  le_run :: "string \<Rightarrow> string list \<Rightarrow> string result"
  le_read :: "string \<Rightarrow> string result"
  le_exists :: "string \<Rightarrow> bool"
  le_git :: "string option \<Rightarrow> string list \<Rightarrow> git_answer"
  le_hostname :: "string option"
  le_weights_saved :: bool

type_synonym ('s, 'a) recon = "'s loop \<Rightarrow> 'a rust \<times> 's loop"

definition l_ret :: "'a \<Rightarrow> ('s, 'a) recon" where
  "l_ret x s = (Ret x, s)"

definition l_bind :: "('s, 'a) recon \<Rightarrow> ('a \<Rightarrow> ('s, 'b) recon) \<Rightarrow> ('s, 'b) recon" where
  "l_bind m f s = (case m s of (Ret x, s') \<Rightarrow> f x s' | (Panic, s') \<Rightarrow> (Panic, s'))"

definition l_get :: "('s loop \<Rightarrow> 'a) \<Rightarrow> ('s, 'a) recon" where
  "l_get f s = (Ret (f s), s)"

definition l_put :: "('s loop \<Rightarrow> 's loop) \<Rightarrow> ('s, unit) recon" where
  "l_put f s = (Ret (), f s)"

definition l_rust :: "'a rust \<Rightarrow> ('s, 'a) recon" where
  "l_rust r s = (r, s)"

text \<open>Steps one after the other, a step for each element, and what the steps for the elements give.\<close>

fun l_do :: "('s, unit) recon list \<Rightarrow> ('s, unit) recon" where
  "l_do [] = l_ret ()"
| "l_do (m # ms) = l_bind m (\<lambda>_. l_do ms)"

fun l_for :: "('a \<Rightarrow> ('s, unit) recon) \<Rightarrow> 'a list \<Rightarrow> ('s, unit) recon" where
  "l_for f [] = l_ret ()"
| "l_for f (x # xs) = l_bind (f x) (\<lambda>_. l_for f xs)"

fun l_fold :: "('a \<Rightarrow> 'b \<Rightarrow> ('s, 'b) recon) \<Rightarrow> 'a list \<Rightarrow> 'b \<Rightarrow> ('s, 'b) recon" where
  "l_fold f [] b = l_ret b"
| "l_fold f (x # xs) b = l_bind (f x b) (l_fold f xs)"

definition l_if :: "bool \<Rightarrow> ('s, unit) recon \<Rightarrow> ('s, unit) recon" where
  "l_if c m = (if c then m else l_ret ())"

definition l_log :: "string \<Rightarrow> ('s, unit) recon" where
  "l_log line = l_put (\<lambda>s. s\<lparr>lp_log := lp_log s @ [line]\<rparr>)"

definition l_event :: "string \<Rightarrow> string \<Rightarrow> string \<Rightarrow> string \<Rightarrow> string \<Rightarrow> ('s, unit) recon" where
  "l_event kind ob reason msg ty = l_put (\<lambda>s. s\<lparr>lp_events := lp_events s @ [(kind, ob, reason, msg, ty)]\<rparr>)"

definition l_act :: "act \<Rightarrow> ('s, unit) recon" where
  "l_act a = l_put (\<lambda>s. s\<lparr>lp_acts := lp_acts s @ [a]\<rparr>)"

definition l_brain :: "(brain \<Rightarrow> brain) \<Rightarrow> ('s, unit) recon" where
  "l_brain f = l_put (\<lambda>s. s\<lparr>lp_brain := f (lp_brain s)\<rparr>)"

definition l_builds :: "(build_state \<Rightarrow> build_state) \<Rightarrow> ('s, unit) recon" where
  "l_builds f = l_put (\<lambda>s. s\<lparr>lp_builds := f (lp_builds s)\<rparr>)"

definition l_world :: "(json desired_world \<Rightarrow> json desired_world) \<Rightarrow> ('s, unit) recon" where
  "l_world f = l_put (\<lambda>s. s\<lparr>lp_world := f (lp_world s)\<rparr>)"

definition with_world :: "(json desired_world \<Rightarrow> ('s, 'a) recon) \<Rightarrow> ('s, 'a) recon" where
  "with_world f s = f (lp_world s) s"

text \<open>A call on the engine: its result, and the call with its result thrown away (\<open>.ok()\<close>).\<close>

definition l_call :: "('s, 'a) call \<Rightarrow> ('s, 'a result) recon" where
  "l_call m s = (case m (lp_engine s) of (r, e) \<Rightarrow> (r, s\<lparr>lp_engine := e\<rparr>))"

definition l_try :: "('s, 'a) call \<Rightarrow> ('s, unit) recon" where
  "l_try m = l_bind (l_call m) (\<lambda>_. l_ret ())"

definition l_record :: "('y, 's) loop_env \<Rightarrow> string \<Rightarrow> string \<Rightarrow> string \<Rightarrow> string \<Rightarrow> string \<Rightarrow> ('s, unit) recon" where
  "l_record E kind ob reason msg ty = l_world (record_event (ae_clock (le_api E)) kind ob reason msg ty)"

abbreviation le_exch :: "('y, 's) loop_env \<Rightarrow> 's exchange" where "le_exch E \<equiv> ae_exch (le_api E)"
abbreviation le_json :: "('y, 's) loop_env \<Rightarrow> json_text" where "le_json E \<equiv> ae_json (le_api E)"
abbreviation le_now :: "('y, 's) loop_env \<Rightarrow> u64" where "le_now E \<equiv> ae_clock (le_api E)"

definition le_me :: "('y, 's) loop_env \<Rightarrow> string" where
  "le_me E = local_node_name (ae_var (le_api E) ''HOSTNAME'') (ae_var (le_api E) ''HOST'') (le_hostname E)"

subsection \<open>Names of containers\<close>

definition squoted :: "string \<Rightarrow> string" where
  "squoted s = [CHR 0x27] @ s @ [CHR 0x27]"

definition trim_slash :: "string \<Rightarrow> string" where
  "trim_slash s = dropWhile (\<lambda>c. c = CHR ''/'') s"

definition first_name :: "docker_container \<Rightarrow> string" where
  "first_name c = unwrap_or (head_opt (dc_names c)) ''?''"

definition pod_of :: "docker_container \<Rightarrow> string" where
  "pod_of c = unwrap_or (map_option trim_slash (head_opt (dc_names c))) ''?''"

definition pod_or_empty :: "docker_container \<Rightarrow> string" where
  "pod_or_empty c = unwrap_or (map_option trim_slash (head_opt (dc_names c))) []"

definition running :: "docker_container \<Rightarrow> bool" where
  "running c = (dc_state c = ''running'')"

definition managed_of :: "docker_container list \<Rightarrow> docker_container list" where
  "managed_of cs = filter (\<lambda>c. list_ex (\<lambda>n. str_contains n ''rk-'') (dc_names c)) cs"

definition named_from :: "string \<Rightarrow> docker_container \<Rightarrow> bool" where
  "named_from prefix c = list_ex (\<lambda>n. starts_with n prefix) (dc_names c)"

definition has_name :: "string \<Rightarrow> docker_container \<Rightarrow> bool" where
  "has_name name c = list_ex (\<lambda>n. trim_slash n = name) (dc_names c)"

definition pod_prefix :: "string \<Rightarrow> string" where
  "pod_prefix name = ''/rk-'' @ name @ ''-''"

definition running_pods :: "string \<Rightarrow> docker_container list \<Rightarrow> docker_container list" where
  "running_pods name M = filter (\<lambda>c. named_from (pod_prefix name) c \<and> running c) M"

definition running_images :: "string \<Rightarrow> string \<Rightarrow> docker_container list \<Rightarrow> docker_container list" where
  "running_images name img M =
     filter (\<lambda>c. named_from (pod_prefix name) c \<and> running c \<and> normalize_image (dc_image c) = normalize_image img) M"

definition count32 :: "'a list \<Rightarrow> u32" where
  "count32 xs = of_nat (length xs)"

definition rk_pod :: "string \<Rightarrow> u32 \<Rightarrow> string" where
  "rk_pod name idx = ''rk-'' @ name @ ''-'' @ show_word idx"

definition all_names :: "docker_container list \<Rightarrow> string list" where
  "all_names M = concat (map (\<lambda>c. map trim_slash (dc_names c)) M)"

text \<open>The last part of a name after a dash, as a number.\<close>

definition name_ordinal :: "string \<Rightarrow> u32 option" where
  "name_ordinal n = parse_u32 (last (str_split (CHR ''-'') n))"

text \<open>A command only when it has words.\<close>

definition non_empty_cmd :: "string list option \<Rightarrow> string list option" where
  "non_empty_cmd c = (case c of None \<Rightarrow> None | Some [] \<Rightarrow> None | Some xs \<Rightarrow> Some xs)"

text \<open>Statistics of a container, by the short form of its id.\<close>

definition peek_stats :: "('y, 's) loop_env \<Rightarrow> docker_container \<Rightarrow> (f32 \<times> f32) result rust" where
  "peek_stats E c = rust_bind (head12 (dc_id c)) (\<lambda>short. Ret (container_stats_peek (ae_millis (le_api E)) short (le_stats E)))"

definition royak_data_dir :: "('y, 's) loop_env \<Rightarrow> string" where
  "royak_data_dir E =
     unwrap_or (ae_var (le_api E) ''ROYAK_DATA_DIR'') (unwrap_or (ae_var (le_api E) ''HOME'') ''/tmp'' @ ''/.royak'')"

definition parse_file :: "('y, 's) loop_env \<Rightarrow> string \<Rightarrow> 'y resource list result" where
  "parse_file E path =
     (case le_read E path of Inl e \<Rightarrow> Inl (''Cannot read '' @ path @ '': '' @ e) | Inr content \<Rightarrow> parse_yaml (ae_yaml (le_api E)) content)"

definition ca_generate :: "('p, 'k, 'c) rcgen_ops \<Rightarrow> cluster_ca result" where
  "ca_generate R =
     and_then (map_err ''CA params: '' (rc_params_new R [''Royak Cluster CA''])) (\<lambda>params.
     and_then (map_err ''CA keygen: '' (rc_key_generate R)) (\<lambda>key_pair.
     and_then (map_err ''CA sign: '' (rc_self_signed R (rc_ca_config R params) key_pair)) (\<lambda>cert.
       Inr \<lparr>ca_cert_pem = rc_cert_pem R cert, ca_key_pem = rc_key_pem R key_pair, ca_fingerprint = fingerprint_pem (rc_cert_pem R cert),
            ca_issued_count = 0\<rparr>)))"

subsection \<open>Probes\<close>

definition check_probe :: "('y, 's) loop_env \<Rightarrow> string \<Rightarrow> stored_probe \<Rightarrow> ('s, bool) recon" where
  "check_probe E cid probe =
     (case pb_http_get probe of
        Some (path, port) \<Rightarrow>
          l_bind (l_call (http_check_container (le_exch E) (le_json E) cid path port)) (\<lambda>r. l_ret (case r of Inr b \<Rightarrow> b | Inl _ \<Rightarrow> False))
      | None \<Rightarrow>
          (case pb_exec probe of
             Some cmd \<Rightarrow>
               l_bind (l_call (exec_in_container (le_exch E) (le_json E) cid cmd)) (\<lambda>r.
                 l_ret (case r of Inr (code, _) \<Rightarrow> code = 0 | Inl _ \<Rightarrow> False))
           | None \<Rightarrow> l_ret True))"

end
