(* ===== verification/Recon_Pods.thy ===== *)
theory Recon_Pods
  imports Recon_Base
begin

text \<open>
  Pods of deployments in one tick, \<^verbatim>\<open>src/src/reconcile.rs\<close>: scaling up and down, cleaning up, rolling updates, strategies and probes.
\<close>

subsection \<open>The name of a new pod\<close>

text \<open>
  The loop that counts on while the name is taken. It ends because the candidates are different names: among one more candidate than
  there are names one is free, so that many rounds are enough.
\<close>

fun free_index_in :: "nat \<Rightarrow> string list \<Rightarrow> string \<Rightarrow> u32 \<Rightarrow> u32" where
  "free_index_in 0 names name idx = idx"
| "free_index_in (Suc k) names name idx = (if rk_pod name idx \<in> set names then free_index_in k names name (idx + 1) else idx)"

definition free_index :: "string list \<Rightarrow> string \<Rightarrow> u32 \<Rightarrow> u32" where
  "free_index names name idx = free_index_in (Suc (length names)) names name idx"

text \<open>The rolling update's loop gives up after a hundred names.\<close>

definition rollout_index :: "string list \<Rightarrow> string \<Rightarrow> u32" where
  "rollout_index names name = unwrap_or (find (\<lambda>i. rk_pod name i \<notin> set names) (map of_nat [1..<101])) 101"

subsection \<open>StatefulSets: which ordinal may start\<close>

fun sts_scan :: "('y, 's) loop_env \<Rightarrow> string \<Rightarrow> stored_deployment \<Rightarrow> docker_container list \<Rightarrow> u32 list \<times> u32 list \<Rightarrow> ('s, u32 list \<times> u32 list) recon" where
  "sts_scan E name dep [] s = l_ret s"
| "sts_scan E name dep (c # cs) (existing, ready) =
     (case find (\<lambda>n. starts_with n (''rk-'' @ name @ ''-'')) (map trim_slash (dc_names c)) of
        None \<Rightarrow> sts_scan E name dep cs (existing, ready)
      | Some cname \<Rightarrow>
          (case name_ordinal cname of
             None \<Rightarrow> sts_scan E name dep cs (existing, ready)
           | Some ord \<Rightarrow>
               let existing' = List.insert ord existing
               in if \<not> running c then sts_scan E name dep cs (existing', ready)
                  else with_world (\<lambda>w.
                    let main = head_opt (d_containers dep);
                        started = (Option.bind main sc_startup_probe = None \<or> cname \<in> set (startup_ok w))
                    in l_bind (case Option.bind main sc_readiness_probe of
                                 None \<Rightarrow> l_ret started
                               | Some probe \<Rightarrow> if started then l_bind (l_rust (head12 (dc_id c))) (\<lambda>short. check_probe E short probe) else l_ret False)
                         (\<lambda>is_ready. sts_scan E name dep cs (existing', if is_ready then List.insert ord ready else ready)))))"

definition sts_ordinal :: "('y, 's) loop_env \<Rightarrow> docker_container list \<Rightarrow> string \<Rightarrow> stored_deployment \<Rightarrow> ('s, u32 option) recon" where
  "sts_ordinal E M name dep =
     l_bind (sts_scan E name dep M ([], [])) (\<lambda>(existing, ready).
       let decision = next_statefulset_ordinal existing ready (d_replicas dep)
       in l_bind (l_if (decision = None \<and> count32 existing < d_replicas dep)
                    (l_log (''  [statefulset] '' @ name @ '': holding '' @ em_dash @ '' previous ordinal not Ready yet'')))
            (\<lambda>_. l_ret decision))"

subsection \<open>Init containers\<close>

text \<open>Waiting for an init container: at the \<open>i\<close>-th look at least \<open>500 i\<close> ms have passed.\<close>

definition init_done :: "string \<Rightarrow> docker_container list result \<Rightarrow> bool" where
  "init_done name r =
     (case r of Inr cs \<Rightarrow> (case find (has_name name) cs of Some c \<Rightarrow> dc_state c = ''exited'' | None \<Rightarrow> False) | Inl _ \<Rightarrow> False)"

function wait_init :: "('y, 's) loop_env \<Rightarrow> string \<Rightarrow> nat \<Rightarrow> ('s, bool) recon" where
  "wait_init E name i =
     (if 60000 < 500 * i + ae_lag (le_api E) i then l_ret False
      else l_bind (l_call (list_containers (le_exch E) (ae_containers (le_api E)) True)) (\<lambda>r.
             if init_done name r then l_ret True else wait_init E name (Suc i)))"
  by auto
termination
  by (relation "measure (\<lambda>(_, _, i). 60001 - 500 * i)") auto

declare wait_init.simps [simp del]

definition run_init :: "('y, 's) loop_env \<Rightarrow> string \<Rightarrow> stored_container \<Rightarrow> ('s, bool) recon" where
  "run_init E pod init =
     (let init_name = pod @ ''-init-'' @ sc_name init; line = (\<lambda>t. l_log (''    [init] '' @ init_name @ t))
      in l_bind (l_do [line '' starting...'', l_try (pull_image (le_exch E) (sc_image init))]) (\<lambda>_.
         l_bind (l_call (create_container (le_exch E) (le_json E) init_name (sc_image init) (non_empty_cmd (sc_command init)) (sc_env init)
                   [(''royak.managed'', ''true''), (''royak.init'', ''true''), (''royak.pod'', pod)])) (\<lambda>r.
           case r of
             Inl e \<Rightarrow> l_bind (line ('' failed: '' @ e)) (\<lambda>_. l_ret False)
           | Inr cid \<Rightarrow>
               l_bind (l_try (start_container (le_exch E) cid)) (\<lambda>_.
               l_bind (wait_init E init_name 0) (\<lambda>completed.
                 if completed
                 then l_bind (l_do [line ('' completed '' @ tick_mark), l_try (remove_container (le_exch E) cid True)]) (\<lambda>_. l_ret True)
                 else l_bind (line '' TIMEOUT'') (\<lambda>_. l_ret False))))))"

fun run_inits :: "('y, 's) loop_env \<Rightarrow> string \<Rightarrow> stored_container list \<Rightarrow> ('s, bool) recon" where
  "run_inits E pod [] = l_ret True"
| "run_inits E pod (i # is) = l_bind (run_init E pod i) (\<lambda>ok. if ok then run_inits E pod is else l_ret False)"

subsection \<open>Environment, identity and volumes of a container\<close>

definition from_maps :: "json desired_world \<Rightarrow> stored_container \<Rightarrow> string list" where
  "from_maps w c =
     (let pairs = map (\<lambda>(k, v). k @ ''='' @ v)
      in concat (map (\<lambda>n. case hm_get (configmaps w) n of Some cm \<Rightarrow> pairs (cm_data cm) | None \<Rightarrow> []) (sc_env_from_configmaps c))
         @ concat (map (\<lambda>n. case hm_get (secrets w) n of Some se \<Rightarrow> pairs (se_data se) | None \<Rightarrow> []) (sc_env_from_secrets c)))"

definition pod_env :: "json desired_world \<Rightarrow> string \<Rightarrow> stored_deployment \<Rightarrow> string \<Rightarrow> stored_container \<Rightarrow> string list" where
  "pod_env w name dep pod c =
     sc_env c @ from_maps w c
     @ [''ROYAK_POD_NAME='' @ pod, ''ROYAK_CONTAINER='' @ sc_name c, ''ROYAK_NAMESPACE='' @ d_namespace dep, ''ROYAK_DEPLOYMENT='' @ name]"

definition token_env :: "('y, 's) loop_env \<Rightarrow> string \<Rightarrow> string \<Rightarrow> string" where
  "token_env E pod ns = ''ROYAK_POD_TOKEN='' @ generate_pod_token (le_hmac E) (le_now E) pod ns ''cluster''"

definition cert_status :: "('y, 's) loop_env \<Rightarrow> string \<Rightarrow> string \<Rightarrow> cluster_ca \<Rightarrow> pod_cert_status" where
  "cert_status E pod ns ca =
     \<lparr>pcs_pod_name = pod, pcs_namespace = ns, pcs_issued_at = le_now E, pcs_expires_at = le_now E + 90 * 86400,
      pcs_fingerprint = show_hex (unat (ca_issued_count ca)), pcs_revoked = False\<rparr>"

definition identity_env :: "('y, 's) loop_env \<Rightarrow> string \<Rightarrow> string \<Rightarrow> ('s, string list) recon" where
  "identity_env E pod ns =
     with_world (\<lambda>w.
       case cluster_ca w of
         None \<Rightarrow> l_ret [token_env E pod ns]
       | Some ca \<Rightarrow>
           (case issue_pod_cert (le_rcgen E) (le_hmac E) (le_now E) pod ns ca of
              (Inr identity, ca') \<Rightarrow>
                l_bind (l_do [l_world (\<lambda>w. w\<lparr>cluster_ca := Some ca', pod_certs := hm_insert pod (cert_status E pod ns ca') (pod_certs w)\<rparr>),
                              l_log (''    [mtls] '' @ pod @ '' cert issued (CA: '' @ ca_fingerprint ca' @ '', expires: 90d)'')])
                  (\<lambda>_. l_ret (env_vars identity))
            | (Inl e, ca') \<Rightarrow>
                l_bind (l_do [l_world (\<lambda>w. w\<lparr>cluster_ca := Some ca'\<rparr>), l_log (''    [warn] mtls cert failed: '' @ e @ '', token-only'')])
                  (\<lambda>_. l_ret [token_env E pod ns])))"

definition swap_volume :: "string \<Rightarrow> string \<times> string \<Rightarrow> (string \<times> string) list \<Rightarrow> (string \<times> string) list" where
  "swap_volume src v vs = filter (\<lambda>p. fst p \<noteq> src) vs @ [v]"

text \<open>A ConfigMap or Secret written out as files of a directory that is mounted.\<close>

definition project_volume ::
  "('y, 's) loop_env \<Rightarrow> stored_deployment \<Rightarrow> string \<times> string \<Rightarrow> string \<Rightarrow> bool \<Rightarrow> (string \<times> string) list \<Rightarrow> ('s, (string \<times> string) list) recon" where
  "project_volume E dep v obj is_secret vols =
     with_world (\<lambda>w.
       let kind = if is_secret then ''secret'' else ''configmap'';
           dir = royak_data_dir E @ ''/volumes/'' @ d_namespace dep @ ''/'' @ kind @ ''-'' @ obj;
           data = if is_secret then map_option se_data (hm_get (secrets w) obj) else map_option cm_data (hm_get (configmaps w) obj)
       in l_bind (l_act (Host (CreateDirAll dir))) (\<lambda>_.
          case data of
            None \<Rightarrow> l_bind (l_log (''    [warn] volume references missing '' @ kind @ ''/'' @ obj)) (\<lambda>_. l_ret vols)
          | Some entries \<Rightarrow>
              l_bind (l_do [l_for (\<lambda>(k, x). l_act (Wrote (dir @ ''/'' @ k) x is_secret)) entries,
                            l_log (''    [volume] '' @ kind @ ''/'' @ obj @ '' projected '' @ arrow_mark @ '' '' @ snd v)])
                (\<lambda>_. l_ret (swap_volume (fst v) (dir, snd v) vols))))"

definition resolve_volume ::
  "('y, 's) loop_env \<Rightarrow> string \<Rightarrow> stored_deployment \<Rightarrow> u32 \<Rightarrow> string \<times> string \<Rightarrow> (string \<times> string) list \<Rightarrow> ('s, (string \<times> string) list) recon" where
  "resolve_volume E name dep idx v vols =
     (case opt_or (map_option (\<lambda>n. (n, False)) (strip_prefix (fst v) ''cmv:'')) (map_option (\<lambda>n. (n, True)) (strip_prefix (fst v) ''sev:'')) of
        Some (obj, is_secret) \<Rightarrow> project_volume E dep v obj is_secret vols
      | None \<Rightarrow>
          (case strip_prefix (fst v) ''vct:'' of
             Some tpl \<Rightarrow>
               (let dir = royak_data_dir E @ ''/pvc/'' @ d_namespace dep @ ''/'' @ name @ ''-'' @ tpl @ ''-'' @ show_word idx
                in l_bind (l_do [l_act (Host (CreateDirAll dir)),
                                 l_log (''    [volume] '' @ tpl @ '' (ordinal '' @ show_word idx @ '') '' @ arrow_mark @ '' '' @ dir)])
                     (\<lambda>_. l_ret (swap_volume (fst v) (dir, snd v) vols)))
           | None \<Rightarrow>
               (case strip_prefix (fst v) ''pvc:'' of
                  None \<Rightarrow> l_ret vols
                | Some pvc \<Rightarrow> with_world (\<lambda>w.
                    case Option.bind (Option.bind (hm_get (pvcs w) pvc) pvc_bound_pv) (hm_get (pvs w)) of
                      None \<Rightarrow> l_ret vols
                    | Some pv \<Rightarrow> l_bind (l_log (''    [volume] '' @ pvc @ '' '' @ arrow_mark @ '' '' @ pv_host_path pv))
                                   (\<lambda>_. l_ret (swap_volume (fst v) (pv_host_path pv, snd v) vols))))))"

subsection \<open>Creating a pod\<close>

definition service_aliases :: "json desired_world \<Rightarrow> string \<Rightarrow> string \<Rightarrow> string list" where
  "service_aliases w name ns =
     map svc_name (filter (\<lambda>s. svc_namespace s = ns \<and> hm_get (svc_selector s) ''app'' = Some name) (hm_values (services w)))"

definition join_networks :: "('y, 's) loop_env \<Rightarrow> string \<Rightarrow> stored_deployment \<Rightarrow> string \<Rightarrow> string \<Rightarrow> ('s, unit) recon" where
  "join_networks E name dep pod cid =
     with_world (\<lambda>w.
       let svcs = service_aliases w name (d_namespace dep); aliases = [pod, name] @ svcs; ns_net = ''rk-'' @ d_namespace dep
       in l_bind (l_call (connect_to_network (le_exch E) (le_json E) cid ns_net aliases)) (\<lambda>r.
          l_do [case r of
                  Inr _ \<Rightarrow> l_log (''    [net] '' @ pod @ '' '' @ arrow_mark @ '' '' @ ns_net @ '' ('' @ name @ '')'')
                | Inl _ \<Rightarrow> l_do [l_try (connect_network (le_exch E) (le_json E) cid aliases),
                                  l_log (''    [net] '' @ pod @ '' '' @ arrow_mark @ '' royak (fallback)'')],
                l_for (\<lambda>s. l_log (''    [svc] '' @ pod @ '' '' @ arrow_mark @ '' dns:'' @ s)) svcs]))"

definition start_created :: "('y, 's) loop_env \<Rightarrow> string \<Rightarrow> stored_deployment \<Rightarrow> string \<Rightarrow> bool \<Rightarrow> stored_container \<Rightarrow> string \<Rightarrow> string \<Rightarrow> ('s, unit) recon" where
  "start_created E name dep pod is_main c cname cid =
     l_bind (l_call (start_container (le_exch E) cid)) (\<lambda>r.
       case r of
         Inl e \<Rightarrow> l_do [l_log (''    [error] start '' @ cname @ '': '' @ e), l_event ''Pod'' cname ''StartFailed'' e ''Warning'']
       | Inr _ \<Rightarrow>
           l_do [l_log (''    [start] '' @ cname @ '' '' @ tick_mark),
                 l_event ''Pod'' cname ''Created'' (''Container started: '' @ sc_image c) ''Normal'',
                 if is_main then join_networks E name dep pod cid
                 else l_do [l_try (connect_to_network (le_exch E) (le_json E) cid (''rk-'' @ d_namespace dep) [cname]),
                            l_log (''    [sidecar] '' @ cname @ '' joined rk-'' @ d_namespace dep)]])"

definition start_pod_container :: "('y, 's) loop_env \<Rightarrow> string \<Rightarrow> stored_deployment \<Rightarrow> string \<Rightarrow> u32 \<Rightarrow> nat \<times> stored_container \<Rightarrow> ('s, unit) recon" where
  "start_pod_container E name dep pod idx ic =
     (let (ci, c) = ic; is_main = (ci = 0); cname = if is_main then pod else pod @ ''-'' @ sc_name c;
          labels = [(''royak.managed'', ''true''), (''royak.deployment'', name), (''royak.namespace'', d_namespace dep), (''royak.pod'', pod),
                    (''royak.role'', if is_main then ''main'' else ''sidecar'')]
      in with_world (\<lambda>w.
         l_bind (identity_env E pod (d_namespace dep)) (\<lambda>ident.
         l_bind (l_fold (resolve_volume E name dep idx) (sc_volumes c) (sc_volumes c)) (\<lambda>vols.
         l_bind (l_call (create_container_full (le_exch E) (le_json E) cname (sc_image c) (non_empty_cmd (sc_command c))
                   (pod_env w name dep pod c @ ident) labels vols
                   (Option.bind (d_resource_limits dep) rl_cpu_limit) (Option.bind (d_resource_limits dep) rl_mem_limit)
                   (if is_main then nodeport_publish_ports w name else []))) (\<lambda>r.
           case r of
             Inl e \<Rightarrow> l_do [l_log (''    [error] create '' @ cname @ '': '' @ e), l_event ''Pod'' cname ''CreateFailed'' e ''Warning'']
           | Inr cid \<Rightarrow>
               l_bind (l_rust (head12 cid)) (\<lambda>short.
                 l_do [l_log (''    [create] '' @ cname @ '' ('' @ (if is_main then ''main'' else ''sidecar'') @ '') '' @ arrow_mark @ '' '' @ short),
                       start_created E name dep pod is_main c cname cid]))))))"

text \<open>\<open>{:?}\<close> of an optional name (of one without characters to escape).\<close>

definition debug_name :: "string option \<Rightarrow> string" where
  "debug_name n = (case n of None \<Rightarrow> ''None'' | Some s \<Rightarrow> ''Some('' @ [CHR 0x22] @ s @ [CHR 0x22] @ '')'')"

definition remote_node :: "json desired_world \<Rightarrow> string option \<Rightarrow> (string \<times> cluster_node) option" where
  "remote_node w target =
     Option.bind target (\<lambda>n. Option.bind (hm_get (nodes w) n) (\<lambda>node.
       if starts_with (cn_address node) ''127.0.0.1'' \<or> starts_with (cn_address node) ''localhost'' \<or> cn_address node = [] then None
       else Some (n, node)))"

definition send_pod :: "('y, 's) loop_env \<Rightarrow> string \<Rightarrow> stored_deployment \<Rightarrow> string \<Rightarrow> string \<times> cluster_node \<Rightarrow> ('s, unit) recon" where
  "send_pod E name dep pod target =
     (let url = ''http://'' @ cn_address (snd target) @ ''/royak/v1/create-pod'';
          body = j_obj [(''pod'', JStr pod), (''deployment'', JStr name),
                        (''image'', JStr (unwrap_or (map_option sc_image (head_opt (d_containers dep))) [])), (''replicas'', JPos 1)]
      in l_do [l_log (''    [multi-node] routing '' @ pod @ '' '' @ arrow_mark @ '' '' @ fst target @ '' ('' @ url @ '')''),
               l_act (Posted url (jt_print (le_json E) body)),
               l_world (\<lambda>w. w\<lparr>nodes := hm_modify (fst target) (\<lambda>n. n\<lparr>cn_pod_count := cn_pod_count n + 1\<rparr>) (nodes w)\<rparr>)])"

definition new_pod :: "('y, 's) loop_env \<Rightarrow> docker_container list \<Rightarrow> string \<Rightarrow> stored_deployment \<Rightarrow> u32 \<Rightarrow> ('s, unit) recon" where
  "new_pod E M name dep start =
     (let idx = free_index (all_names M) name start; pod = rk_pod name idx
      in with_world (\<lambda>w.
         let target = if nodes w = [] then None else pick_node w
         in l_bind (l_log (''    [multi-node] '' @ show_nat (length (nodes w)) @ '' node(s) known, pick_node('' @ pod @ '') '' @ arrow_mark @ '' ''
                           @ debug_name target)) (\<lambda>_.
            case remote_node w target of
              Some t \<Rightarrow> send_pod E name dep pod t
            | None \<Rightarrow>
                l_bind (run_inits E pod (d_init_containers dep)) (\<lambda>init_ok.
                  if init_ok then l_for (start_pod_container E name dep pod idx) (List.enumerate 0 (d_containers dep))
                  else l_log (''    [error] '' @ pod @ '': init container failed, skipping pod'')))))"

subsection \<open>Scaling\<close>

definition pull_once :: "('y, 's) loop_env \<Rightarrow> stored_deployment \<Rightarrow> ('s, unit) recon" where
  "pull_once E dep =
     l_for (\<lambda>img. l_bind (l_call (pull_image (le_exch E) img)) (\<lambda>r.
       case r of Inl e \<Rightarrow> l_log (''    [warn] pull '' @ img @ '': '' @ e) | Inr _ \<Rightarrow> l_ret ()))
       (rev (remdups (rev (map sc_image (d_containers dep)))))"

text \<open>Where the numbering of the \<open>i\<close>-th new pod starts; a StatefulSet starts the one ordinal its gate lets through, or none.\<close>

definition start_index :: "stored_deployment \<Rightarrow> u32 \<Rightarrow> u32 option \<Rightarrow> nat \<Rightarrow> u32 option" where
  "start_index dep current sts_next i = (if d_stateful dep then sts_next else Some (current + of_nat i + 1))"

definition scale_text :: "u32 \<Rightarrow> u32 \<Rightarrow> string \<Rightarrow> u32 \<Rightarrow> string" where
  "scale_text current want sign n = show_word current @ '' '' @ arrow_mark @ '' '' @ show_word want @ '' ('' @ sign @ show_word n @ '')''"

definition scale_up :: "('y, 's) loop_env \<Rightarrow> docker_container list \<Rightarrow> string \<Rightarrow> stored_deployment \<Rightarrow> u32 \<Rightarrow> ('s, unit) recon" where
  "scale_up E M name dep current =
     (let want = d_replicas dep; needed = want - current; text = scale_text current want ''+'' needed
      in l_bind (l_do [l_log (''  [scale] '' @ name @ '': '' @ text), l_event ''Deployment'' name ''ScalingUp'' text ''Normal'', pull_once E dep]) (\<lambda>_.
         l_bind (if d_stateful dep then sts_ordinal E M name dep else l_ret None) (\<lambda>sts_next.
           l_for (\<lambda>i. case start_index dep current sts_next i of None \<Rightarrow> l_ret () | Some start \<Rightarrow> new_pod E M name dep start)
             [0..<unat (if d_stateful dep then min needed 1 else needed)])))"

definition ordinal_of :: "docker_container \<Rightarrow> u32" where
  "ordinal_of c = unwrap_or (Option.bind (head_opt (dc_names c)) name_ordinal) 0"

definition victims :: "stored_deployment \<Rightarrow> nat \<Rightarrow> docker_container list \<Rightarrow> docker_container list" where
  "victims dep excess pods =
     (if d_stateful dep then take excess (sort_key (\<lambda>c. - int (unat (ordinal_of c))) pods) else take excess (rev pods))"

definition scale_down :: "('y, 's) loop_env \<Rightarrow> docker_container list \<Rightarrow> string \<Rightarrow> stored_deployment \<Rightarrow> u32 \<Rightarrow> ('s, unit) recon" where
  "scale_down E pods name dep current =
     (let want = d_replicas dep; excess = current - want; text = scale_text current want ''-'' excess
      in l_do [l_log (''  [scale] '' @ name @ '': '' @ text), l_event ''Deployment'' name ''ScalingDown'' text ''Normal'',
               l_for (\<lambda>c.
                 l_bind (l_call (stop_container (le_exch E) (dc_id c))) (\<lambda>r. l_bind (case r of
                     Inl e \<Rightarrow> l_log (''    [warn] stop '' @ first_name c @ '': '' @ e) | Inr _ \<Rightarrow> l_ret ()) (\<lambda>_.
                 l_bind (l_call (remove_container (le_exch E) (dc_id c) True)) (\<lambda>r. case r of
                     Inl e \<Rightarrow> l_log (''    [warn] rm '' @ first_name c @ '': '' @ e)
                   | Inr _ \<Rightarrow> l_log (''    [remove] '' @ first_name c @ '' '' @ tick_mark)))))
                 (victims dep (unat excess) pods)])"

text \<open>A stopped container is removed and counted, whatever its count.\<close>

definition clean_up :: "('y, 's) loop_env \<Rightarrow> docker_container \<Rightarrow> ('s, unit) recon" where
  "clean_up E c =
     (let cname = pod_of c
      in l_if (dc_state c = ''exited'' \<or> dc_state c = ''dead'') (with_world (\<lambda>w.
           let count = unwrap_or (hm_get (restart_count w) cname) 0 + 1
           in l_do [l_world (\<lambda>w. w\<lparr>restart_count := hm_insert cname count (restart_count w)\<rparr>),
                    if 5 \<le> count then
                      l_do [l_log (''  [CrashLoopBackOff] '' @ cname @ '': restarted '' @ show_word count @ '' times '' @ em_dash @ '' stopping''),
                            l_event ''Pod'' cname ''CrashLoopBackOff'' (''Container has restarted '' @ show_word count @ '' times'') ''Warning'',
                            l_try (remove_container (le_exch E) (dc_id c) True)]
                    else
                      l_do [l_try (remove_container (le_exch E) (dc_id c) True),
                            l_log (''  [cleanup] removed '' @ cname @ '' ('' @ dc_state c @ ''), restart #'' @ show_word count)]])))"

definition scale_deployment :: "('y, 's) loop_env \<Rightarrow> docker_container list \<Rightarrow> string \<times> stored_deployment \<Rightarrow> ('s, unit) recon" where
  "scale_deployment E M nd =
     (let (name, dep) = nd; pods = running_pods name M;
          stopped = filter (\<lambda>c. named_from (pod_prefix name) c \<and> \<not> running c) M; current = count32 pods; want = d_replicas dep
      in with_world (\<lambda>w.
         if hm_contains (pending_rollouts w) name then l_ret ()
         else if current < want then
           (case check_quota w (d_namespace dep) (want - current) of
              Inl reason \<Rightarrow>
                l_do [l_log (''  [quota] '' @ name @ '': BLOCKED '' @ em_dash @ '' '' @ reason),
                      l_event ''Deployment'' name ''QuotaExceeded'' reason ''Warning'']
            | Inr _ \<Rightarrow> l_do [scale_up E M name dep current, l_for (clean_up E) stopped])
         else if want < current then l_do [scale_down E pods name dep current, l_for (clean_up E) stopped]
         else l_do [l_world (\<lambda>w. w\<lparr>restart_count := filter (\<lambda>kv. \<not> starts_with (fst kv) (''rk-'' @ name @ ''-'')) (restart_count w)\<rparr>),
                    l_log (''  [ok] '' @ name @ '': '' @ show_word current @ ''/'' @ show_word want @ '' running''),
                    l_for (clean_up E) stopped]))"

end
