(* ===== verification/Recon_Rollout.thy ===== *)
theory Recon_Rollout
  imports Recon_Pods
begin

text \<open>
  Rolling updates, deployment strategies and health checks of one tick, \<^verbatim>\<open>src/src/reconcile.rs\<close>. The waits between the readiness checks of a
  new pod take time only.
\<close>

subsection \<open>Rolling updates\<close>

definition stop_and_forget :: "('y, 's) loop_env \<Rightarrow> docker_container \<Rightarrow> ('s, unit) recon" where
  "stop_and_forget E c = l_do [l_try (stop_container (le_exch E) (dc_id c)), l_try (remove_container (le_exch E) (dc_id c) True)]"

fun probe_tries :: "('y, 's) loop_env \<Rightarrow> nat \<Rightarrow> string \<Rightarrow> stored_probe \<Rightarrow> ('s, bool) recon" where
  "probe_tries E 0 cid probe = l_ret False"
| "probe_tries E (Suc k) cid probe =
     l_bind (l_rust (head12 cid)) (\<lambda>short. l_bind (check_probe E short probe) (\<lambda>ok. if ok then l_ret True else probe_tries E k cid probe))"

definition rollout_ready :: "('y, 's) loop_env \<Rightarrow> string \<Rightarrow> stored_container \<Rightarrow> ('s, bool) recon" where
  "rollout_ready E cid c = (case sc_readiness_probe c of Some probe \<Rightarrow> probe_tries E 3 cid probe | None \<Rightarrow> l_ret True)"

definition drop_old_pod :: "('y, 's) loop_env \<Rightarrow> docker_container list \<Rightarrow> string \<Rightarrow> bool \<Rightarrow> ('s, unit) recon" where
  "drop_old_pod E old_pods pod ready =
     (if ready then
        (case old_pods of
           [] \<Rightarrow> l_ret ()
         | old # _ \<Rightarrow> l_do [stop_and_forget E old,
             l_log (''    [rollout] replaced '' @ first_name old @ '' '' @ arrow_mark @ '' '' @ pod @ '' '' @ tick_mark)])
      else l_log (''    [rollout] '' @ pod @ '' not ready yet, will retry next tick''))"

definition replace_pod :: "('y, 's) loop_env \<Rightarrow> docker_container list \<Rightarrow> string \<Rightarrow> stored_deployment \<Rightarrow> string \<Rightarrow> stored_container \<Rightarrow> string \<Rightarrow> ('s, unit) recon" where
  "replace_pod E old_pods name dep pod c cid =
     l_bind (l_call (start_container (le_exch E) cid)) (\<lambda>r.
       case r of
         Inl _ \<Rightarrow> l_ret ()
       | Inr _ \<Rightarrow>
           l_bind (l_call (connect_to_network (le_exch E) (le_json E) cid (''rk-'' @ d_namespace dep) [pod, name])) (\<lambda>r.
           l_bind (case r of Inr _ \<Rightarrow> l_ret () | Inl _ \<Rightarrow> l_try (connect_network (le_exch E) (le_json E) cid [pod, name])) (\<lambda>_.
           l_bind (l_log (''    [rollout] '' @ pod @ '' started '' @ tick_mark)) (\<lambda>_.
           l_bind (rollout_ready E cid c) (drop_old_pod E old_pods pod)))))"

definition rollout_create :: "('y, 's) loop_env \<Rightarrow> docker_container list \<Rightarrow> docker_container list \<Rightarrow> string \<Rightarrow> stored_deployment \<Rightarrow> rollout_state \<Rightarrow> ('s, unit) recon" where
  "rollout_create E M old_pods name dep ro =
     (let pod = rk_pod name (rollout_index (all_names M) name)
      in case d_containers dep of
           [] \<Rightarrow> l_rust Panic
         | c # _ \<Rightarrow> with_world (\<lambda>w.
             l_bind (l_log (''    [rollout] creating '' @ pod @ '' ('' @ ro_new_image ro @ '')...'')) (\<lambda>_.
             l_bind (l_call (pull_image (le_exch E) (ro_new_image ro))) (\<lambda>p.
             l_bind (case p of Inl e \<Rightarrow> l_log (''    [rollout] pull failed: '' @ e) | Inr _ \<Rightarrow> l_ret ()) (\<lambda>_.
             l_bind (l_call (create_container_full (le_exch E) (le_json E) pod (sc_image c) (non_empty_cmd (sc_command c))
                       (sc_env c @ [''ROYAK_POD_NAME='' @ pod, ''ROYAK_DEPLOYMENT='' @ name])
                       [(''royak.managed'', ''true''), (''royak.deployment'', name), (''royak.pod'', pod), (''royak.role'', ''main'')]
                       (sc_volumes c) (Option.bind (d_resource_limits dep) rl_cpu_limit) (Option.bind (d_resource_limits dep) rl_mem_limit)
                       (nodeport_publish_ports w name))) (\<lambda>r.
               case r of
                 Inl e \<Rightarrow> l_log (''    [rollout] error creating '' @ pod @ '': '' @ e)
               | Inr cid \<Rightarrow> replace_pod E old_pods name dep pod c cid))))))"

definition finish_rollout :: "('y, 's) loop_env \<Rightarrow> docker_container list \<Rightarrow> string \<Rightarrow> rollout_state \<Rightarrow> ('s, unit) recon" where
  "finish_rollout E old_pods name ro =
     l_do [l_for (\<lambda>old. l_do [stop_and_forget E old, l_log (''    [rollout] removed old '' @ first_name old @ '' '' @ tick_mark)]) old_pods,
           l_log (''  [rollout] '' @ name @ '': COMPLETE '' @ tick_mark @ '' ('' @ show_word (ro_total_replicas ro) @ '' pods on '' @ ro_new_image ro @ '')''),
           l_record E ''Deployment'' name ''RolloutComplete''
             (ro_old_image ro @ '' '' @ arrow_mark @ '' '' @ ro_new_image ro @ '' ('' @ show_word (ro_total_replicas ro) @ '' pods)'') ''Normal'']"

definition rollout_step :: "('y, 's) loop_env \<Rightarrow> docker_container list \<Rightarrow> string \<Rightarrow> ('s, unit) recon" where
  "rollout_step E M name =
     with_world (\<lambda>w.
       case (hm_get (pending_rollouts w) name, hm_get (deployments w) name) of
         (Some ro, Some dep) \<Rightarrow>
           (let old_pods = running_images name (ro_old_image ro) M; new_running = count32 (running_images name (ro_new_image ro) M)
            in l_bind (l_log (''  [rollout] '' @ name @ '': '' @ ro_old_image ro @ '' '' @ arrow_mark @ '' '' @ ro_new_image ro @ '' (''
                              @ show_word (ro_new_pods_created ro) @ ''/'' @ show_word (ro_total_replicas ro) @ '' done)'')) (\<lambda>_.
               if ro_total_replicas ro \<le> new_running then finish_rollout E old_pods name ro
               else if count32 old_pods + ro_total_replicas ro < new_running + 1
               then l_log (''  [rollout] '' @ name @ '': waiting for new pods to become ready...'')
               else rollout_create E M old_pods name dep ro))
       | _ \<Rightarrow> l_ret ())"

definition rollout_open :: "docker_container list \<Rightarrow> string \<times> rollout_state \<Rightarrow> bool" where
  "rollout_open M nr = (count32 (running_images (fst nr) (ro_new_image (snd nr)) M) < ro_total_replicas (snd nr))"

definition roll_out :: "('y, 's) loop_env \<Rightarrow> docker_container list \<Rightarrow> ('s, unit) recon" where
  "roll_out E M =
     with_world (\<lambda>w. l_do [l_for (rollout_step E M) (hm_keys (pending_rollouts w)),
       l_world (\<lambda>w. w\<lparr>pending_rollouts := filter (rollout_open M) (pending_rollouts w)\<rparr>)])"

subsection \<open>Canary and blue-green\<close>

definition any_named_with :: "string \<Rightarrow> docker_container \<Rightarrow> bool" where
  "any_named_with name c = list_ex (\<lambda>n. str_contains n (''rk-'' @ name @ ''-'')) (dc_names c)"

definition canary_weight :: "docker_container list \<Rightarrow> string \<Rightarrow> rollout_state \<Rightarrow> u32 \<Rightarrow> canary_step list \<Rightarrow> u32" where
  "canary_weight M name ro weight steps =
     (if steps = [] then weight
      else let n = count32 (filter (\<lambda>c. any_named_with name c \<and> running c \<and> normalize_image (dc_image c) = normalize_image (ro_new_image ro)) M);
               total = ro_total_replicas ro; pct = if 0 < total then n * 100 div total else 0
           in unwrap_or (map_option cst_weight (find (\<lambda>s. pct < cst_weight s) steps)) 100)"

definition canary_line :: "docker_container list \<Rightarrow> string \<Rightarrow> rollout_state \<Rightarrow> u32 \<Rightarrow> canary_step list \<Rightarrow> string" where
  "canary_line M name ro weight steps =
     (let total = ro_total_replicas ro; cw = canary_weight M name ro weight steps
      in ''  [canary] '' @ name @ '': '' @ show_word cw @ ''% traffic '' @ arrow_mark @ '' '' @ show_word (max (total * cw div 100) 1) @ ''/''
         @ show_word total @ '' pods with new image'')"

definition blue_green :: "('y, 's) loop_env \<Rightarrow> docker_container list \<Rightarrow> string \<Rightarrow> rollout_state \<Rightarrow> string \<Rightarrow> ('s, unit) recon" where
  "blue_green E M name ro active =
     (let has = (\<lambda>img c. any_named_with name c \<and> normalize_image (dc_image c) = normalize_image img);
          new_ready = filter (\<lambda>c. running c \<and> has (ro_new_image ro) c) M; pre = ''  [blue-green] '' @ name @ '': ''
      in if ro_total_replicas ro \<le> count32 new_ready then
           (if active = ''green'' \<or> active = ''new'' then
              l_do [l_for (\<lambda>old. l_do [stop_and_forget E old, l_log (''    [blue-green] removed old '' @ first_name old)]) (filter (has (ro_old_image ro)) M),
                    l_log (pre @ ''switched to green '' @ tick_mark @ '' ('' @ show_word (ro_total_replicas ro) @ '' pods)'')]
            else l_log (pre @ ''green ready ('' @ show_nat (length new_ready) @ '' pods), waiting for switch command''))
         else l_log (pre @ ''green '' @ show_nat (length new_ready) @ ''/'' @ show_word (ro_total_replicas ro) @ '' ready, blue still active''))"

definition strategy_step :: "('y, 's) loop_env \<Rightarrow> docker_container list \<Rightarrow> string \<Rightarrow> ('s, unit) recon" where
  "strategy_step E M name =
     with_world (\<lambda>w.
       case (Option.bind (hm_get (deployments w) name) d_strategy, hm_get (pending_rollouts w) name) of
         (Some (Canary weight steps), Some ro) \<Rightarrow> l_log (canary_line M name ro weight steps)
       | (Some (BlueGreen active), Some ro) \<Rightarrow> blue_green E M name ro active
       | _ \<Rightarrow> l_ret ())"

definition strategies :: "('y, 's) loop_env \<Rightarrow> docker_container list \<Rightarrow> ('s, unit) recon" where
  "strategies E M = with_world (\<lambda>w. l_for (strategy_step E M) (hm_keys (deployments w)))"

subsection \<open>Startup, liveness and readiness\<close>

text \<open>The pods whose startup probe passed, and the keys of those for which it failed.\<close>

type_synonym startups = "string list \<times> string list"

definition restart_in_place :: "('y, 's) loop_env \<Rightarrow> docker_container \<Rightarrow> ('s, unit) recon" where
  "restart_in_place E c = l_do [l_try (stop_container (le_exch E) (dc_id c)), l_try (start_container (le_exch E) (dc_id c))]"

definition startup_check :: "('y, 's) loop_env \<Rightarrow> docker_container \<Rightarrow> string \<Rightarrow> string \<Rightarrow> stored_probe \<Rightarrow> startups \<Rightarrow> ('s, startups) recon" where
  "startup_check E c pod short probe st =
     l_bind (check_probe E short probe) (\<lambda>ok.
       if ok then l_bind (l_log (''  [startup] '' @ pod @ '': started '' @ tick_mark)) (\<lambda>_. l_ret (fst st @ [pod], snd st))
       else with_world (\<lambda>w.
         let key = ''startup:'' @ pod; count = unwrap_or (hm_get (restart_count w) key) 0 + 1
         in l_bind (if pb_failure_threshold probe \<le> count then
                      l_do [l_log (''  [startup] '' @ pod @ '': FAILED '' @ show_word count @ ''x '' @ em_dash @ '' restarting''),
                            l_event ''Pod'' pod ''Unhealthy'' (''Startup probe failed '' @ em_dash @ '' restarting'') ''Warning'', restart_in_place E c]
                    else l_log (''  [startup] '' @ pod @ '': not started yet ('' @ show_word count @ ''/'' @ show_word (pb_failure_threshold probe) @ '')''))
              (\<lambda>_. l_ret (fst st, snd st @ [key]))))"

definition liveness_check :: "('y, 's) loop_env \<Rightarrow> docker_container \<Rightarrow> string \<Rightarrow> string \<Rightarrow> stored_probe \<Rightarrow> ('s, unit) recon" where
  "liveness_check E c pod short probe =
     l_bind (check_probe E short probe) (\<lambda>healthy.
       if healthy then l_log (''  [health] '' @ pod @ '': liveness ok '' @ tick_mark)
       else l_do [l_log (''  [health] '' @ pod @ '': liveness FAILED '' @ em_dash @ '' restarting''),
                  l_event ''Pod'' pod ''Unhealthy'' (''Liveness probe failed '' @ em_dash @ '' restarting'') ''Warning'', restart_in_place E c])"

definition readiness_check :: "('y, 's) loop_env \<Rightarrow> string \<Rightarrow> string \<Rightarrow> stored_probe \<Rightarrow> ('s, unit) recon" where
  "readiness_check E pod short probe =
     l_bind (check_probe E short probe) (\<lambda>ready. l_log (''  [ready] '' @ pod @ '': '' @ (if ready then ''ready '' @ tick_mark else ''NOT ready'')))"

definition check_pod :: "('y, 's) loop_env \<Rightarrow> stored_container \<Rightarrow> docker_container \<Rightarrow> startups \<Rightarrow> ('s, startups) recon" where
  "check_pod E main c st =
     l_bind (l_rust (head12 (dc_id c))) (\<lambda>short. with_world (\<lambda>w.
       let pod = pod_or_empty c
       in case (sc_startup_probe main, pod \<in> set (startup_ok w)) of
            (Some probe, False) \<Rightarrow> startup_check E c pod short probe st
          | _ \<Rightarrow>
              l_bind (case sc_liveness_probe main of Some p \<Rightarrow> liveness_check E c pod short p | None \<Rightarrow> l_ret ()) (\<lambda>_.
              l_bind (case sc_readiness_probe main of Some p \<Rightarrow> readiness_check E pod short p | None \<Rightarrow> l_ret ()) (\<lambda>_. l_ret st))))"

definition check_deployment :: "('y, 's) loop_env \<Rightarrow> docker_container list \<Rightarrow> string \<times> stored_deployment \<Rightarrow> startups \<Rightarrow> ('s, startups) recon" where
  "check_deployment E M nd st =
     (case head_opt (d_containers (snd nd)) of
        None \<Rightarrow> l_ret st
      | Some main \<Rightarrow>
          if sc_liveness_probe main = None \<and> sc_readiness_probe main = None \<and> sc_startup_probe main = None then l_ret st
          else l_fold (check_pod E main) (running_pods (fst nd) M) st)"

definition count_startup :: "string \<Rightarrow> json desired_world \<Rightarrow> json desired_world" where
  "count_startup key w = w\<lparr>restart_count := hm_insert key (unwrap_or (hm_get (restart_count w) key) 0 + 1) (restart_count w)\<rparr>"

definition pass_startup :: "string \<Rightarrow> json desired_world \<Rightarrow> json desired_world" where
  "pass_startup pod w = w\<lparr>restart_count := hm_remove (''startup:'' @ pod) (restart_count w), startup_ok := List.insert pod (startup_ok w)\<rparr>"

definition health_checks :: "('y, 's) loop_env \<Rightarrow> docker_container list \<Rightarrow> ('s, unit) recon" where
  "health_checks E M =
     with_world (\<lambda>w. l_bind (l_fold (check_deployment E M) (deployments w) ([], [])) (\<lambda>(passed, failed).
       l_world (\<lambda>w. fold count_startup failed (fold pass_startup passed w))))"

end
