(* ===== verification/Recon_Work.thy ===== *)
theory Recon_Work
  imports Recon_Rollout
begin

text \<open>
  The middle of one tick, \<^verbatim>\<open>src/src/reconcile.rs\<close>: refreshing the own node, anomalies and guards, hibernation of idle deployments, DaemonSets,
  Jobs, autoscaling, CronJobs and repositories.
\<close>

subsection \<open>The own node\<close>

definition own_node :: "string \<Rightarrow> json desired_world \<Rightarrow> string option" where
  "own_node me w =
     opt_or (map_option (\<lambda>_. me) (hm_get (nodes w) me))
    (opt_or (map_option fst (find (\<lambda>kn. str_contains (cn_address (snd kn)) ''127.0.0.1'') (nodes w)))
            (head_opt (hm_keys (nodes w))))"

definition refresh_own_node :: "string \<Rightarrow> u64 \<Rightarrow> u32 \<Rightarrow> json desired_world \<Rightarrow> json desired_world" where
  "refresh_own_node me now pods w =
     (case own_node me w of
        None \<Rightarrow> w
      | Some n \<Rightarrow> w\<lparr>nodes := hm_modify n (\<lambda>x. x\<lparr>cn_last_heartbeat := now, cn_pod_count := pods, cn_status := NodeReady\<rparr>) (nodes w)\<rparr>)"

definition node_checks :: "('y, 's) loop_env \<Rightarrow> docker_container list \<Rightarrow> ('s, unit) recon" where
  "node_checks E M =
     with_world (\<lambda>w. let (w1, lg) = check_node_health (le_me E) (le_now E) w
       in l_do [l_world (\<lambda>_. w1), l_for l_log lg, l_world (refresh_own_node (le_me E) (le_now E) (count32 (filter running M)))])"

subsection \<open>Anomalies and guards\<close>

definition observe_pod :: "('y, 's) loop_env \<Rightarrow> docker_container \<Rightarrow> ('s, unit) recon" where
  "observe_pod E c =
     l_bind (l_rust (peek_stats E c)) (\<lambda>r.
       case r of Inr (cpu, mem) \<Rightarrow> l_brain (brain_observe (pod_or_empty c) cpu mem 0) | Inl _ \<Rightarrow> l_ret ())"

definition anomaly_text :: "string \<times> string \<times> f32 \<times> f32 \<Rightarrow> string" where
  "anomaly_text a =
     (case a of (pod, ty, val, limit) \<Rightarrow>
        if ty = ''CPU'' then warn_sign @ '' '' @ pod @ '': CPU '' @ fmt_fixed 1 val @ ''% exceeds baseline ('' @ fmt_fixed 1 limit @ ''%)''
        else if ty = ''MEM'' then warn_sign @ '' '' @ pod @ '': MEM '' @ fmt_fixed 0 val @ ''MB exceeds baseline ('' @ fmt_fixed 0 limit @ ''MB)''
        else if ty = ''RESTART''
        then warn_sign @ '' '' @ pod @ '': unexpected restart (was '' @ fmt_fixed 0 limit @ '', now '' @ fmt_fixed 0 val @ '')''
        else warn_sign @ '' '' @ pod @ '': '' @ ty @ '' ('' @ fmt_fixed 1 val @ '' vs '' @ fmt_fixed 1 limit @ '')'')"

definition alert_functions :: "json desired_world \<Rightarrow> string list" where
  "alert_functions w =
     map fn_name (filter (\<lambda>f. list_ex (\<lambda>t. str_contains t ''alert'' \<or> str_contains t ''notify'') (fn_webhook_triggers f)) (hm_values (w_functions w)))"

definition alert_by :: "('y, 's) loop_env \<Rightarrow> string \<Rightarrow> ('s, unit) recon" where
  "alert_by E fname =
     (let failed = (\<lambda>e. l_log (''    [alert] '' @ arrow_mark @ '' '' @ fname @ '' failed: '' @ e))
      in with_world (\<lambda>w. l_bind (l_call (invoke_function (le_api E) fname w)) (\<lambda>r.
           case r of
             Inl e \<Rightarrow> failed e
           | Inr (res, w') \<Rightarrow> l_do [l_world (\<lambda>_. w'),
               case res of Inr out \<Rightarrow> l_log (''    [alert] '' @ arrow_mark @ '' '' @ fname @ '': '' @ out) | Inl e \<Rightarrow> failed e])))"

definition rule_matches :: "string \<Rightarrow> guard_rule \<Rightarrow> bool" where
  "rule_matches ty r =
     (if gr_when r = ''anomaly'' \<or> gr_when r = ''high_cpu'' then ty = ''CPU''
      else if gr_when r = ''high_memory'' then ty = ''MEM''
      else if gr_when r = ''pod_crash'' then ty = ''RESTART''
      else gr_when r = ty)"

definition matching_guards :: "json desired_world \<Rightarrow> string \<Rightarrow> (string \<times> string) list" where
  "matching_guards w ty = concat (map (\<lambda>g. map (\<lambda>r. (gd_name g, gr_action r)) (filter (rule_matches ty) (gd_rules g))) (hm_values (guards w)))"

text \<open>The deployment a guard scales: the first two parts of the pod's name, less the prefix.\<close>

definition guarded_deployment :: "string \<Rightarrow> string" where
  "guarded_deployment pod = trim_start_matches ''rk-'' (join ''-'' (take 2 (str_split (CHR ''-'') pod)))"

definition scale_guarded :: "string \<Rightarrow> string \<Rightarrow> ('s, unit) recon" where
  "scale_guarded op n =
     with_world (\<lambda>w. case hm_get (deployments w) n of
       None \<Rightarrow> l_ret ()
     | Some dep \<Rightarrow>
         l_do [l_world (\<lambda>w. w\<lparr>deployments := hm_modify n (\<lambda>d. d\<lparr>d_replicas := d_replicas d + 1\<rparr>) (deployments w)\<rparr>),
               l_log (''    [operator/'' @ op @ ''] scaled '' @ n @ '' to '' @ show_word (d_replicas dep + 1) @ '' '' @ tick_mark)])"

definition run_guard :: "('y, 's) loop_env \<Rightarrow> docker_container list \<Rightarrow> string \<Rightarrow> string \<times> string \<Rightarrow> ('s, unit) recon" where
  "run_guard E M pod ga =
     (let (op, action) = ga
      in l_do [l_log (''    [operator/'' @ op @ ''] '' @ arrow_mark @ '' '' @ action @ '' on '' @ pod),
           if action = ''restart'' then
             (case find (\<lambda>c. list_ex (\<lambda>n. str_contains n pod) (dc_names c)) M of
                None \<Rightarrow> l_ret ()
              | Some c \<Rightarrow> l_do [restart_in_place E c, l_log (''    [operator/'' @ op @ ''] restarted '' @ pod @ '' '' @ tick_mark)])
           else if action = ''scale_up'' then scale_guarded op (guarded_deployment pod)
           else with_world (\<lambda>w.
             case Option.bind (hm_get (guards w) op) (\<lambda>g. hm_get (gd_hooks g) action) of
               None \<Rightarrow> l_ret ()
             | Some hook \<Rightarrow> (let (out, es) = safe_exec_hook (le_run E) hook
                 in l_do [l_for (\<lambda>e. l_act (Host e)) es, l_log (''    [guard/'' @ op @ ''] hook: '' @ out)]))])"

definition handle_anomaly :: "('y, 's) loop_env \<Rightarrow> docker_container list \<Rightarrow> string \<times> string \<times> f32 \<times> f32 \<Rightarrow> ('s, unit) recon" where
  "handle_anomaly E M a =
     l_do [l_log (''  [ANOMALY] '' @ anomaly_text a),
           with_world (\<lambda>w. l_for (alert_by E) (alert_functions w)),
           with_world (\<lambda>w. l_for (run_guard E M (fst a)) (matching_guards w (fst (snd a))))]"

definition anomalies :: "('y, 's) loop_env \<Rightarrow> docker_container list \<Rightarrow> ('s, unit) recon" where
  "anomalies E M =
     l_do [l_for (observe_pod E) (filter running M),
           l_bind (l_get lp_brain) (\<lambda>b. l_for (handle_anomaly E M) (detect_anomalies (le_nn E) b))]"

definition run_operators :: "('y, 's) loop_env \<Rightarrow> ('s, unit) recon" where
  "run_operators E =
     with_world (\<lambda>w. l_bind (l_rust (reconcile_operators serde_value (le_upper E) (le_run E) (w, [], []))) (\<lambda>(w', lg, es).
       l_do [l_world (\<lambda>_. w'), l_for l_log lg, l_for (\<lambda>e. l_act (Host e)) es]))"

subsection \<open>Hibernation\<close>

fun all_idle :: "('y, 's) loop_env \<Rightarrow> docker_container list \<Rightarrow> bool rust" where
  "all_idle E [] = Ret True"
| "all_idle E (c # cs) =
     rust_bind (peek_stats E c) (\<lambda>r. if (case r of Inr (cpu, _) \<Rightarrow> f_lt cpu (f_nat 1) | Inl _ \<Rightarrow> False) then all_idle E cs else Ret False)"

definition mark_idle :: "string \<Rightarrow> u64 \<Rightarrow> json desired_world \<Rightarrow> json desired_world" where
  "mark_idle n ticks w =
     w\<lparr>deployments := hm_modify n (\<lambda>d. if d_idle_since d = None then d\<lparr>d_idle_since := Some ticks\<rparr> else d) (deployments w)\<rparr>"

definition hibernate :: "('y, 's) loop_env \<Rightarrow> docker_container list \<Rightarrow> string \<Rightarrow> u64 \<Rightarrow> ('s, unit) recon" where
  "hibernate E pods n secs =
     l_do [l_log (''  [pause] '' @ n @ '': idle for '' @ show_word secs @ ''s '' @ em_dash @ '' HIBERNATING''),
           l_for (\<lambda>c. l_do [l_try (stop_container (le_exch E) (dc_id c)),
                            l_log (''    [pause] stopped '' @ first_name c @ '' '' @ [CHR 0xF0, CHR 0x9F, CHR 0x92, CHR 0xA4])]) pods,
           l_world (\<lambda>w. w\<lparr>deployments := hm_modify n (\<lambda>d. d\<lparr>d_paused := True\<rparr>) (deployments w)\<rparr>)]"

definition pause_step :: "('y, 's) loop_env \<Rightarrow> docker_container list \<Rightarrow> string \<Rightarrow> ('s, unit) recon" where
  "pause_step E M n =
     with_world (\<lambda>w. case hm_get (deployments w) n of
       None \<Rightarrow> l_ret ()
     | Some dep \<Rightarrow>
         (case d_pause_after_idle dep of
            None \<Rightarrow> l_ret ()
          | Some limit \<Rightarrow>
              let pods = running_pods n M
              in if limit = 0 then l_ret ()
                 else if d_paused dep then
                   l_log (''  [pause] '' @ n @ '': hibernated '' @ [CHR 0xF0, CHR 0x9F, CHR 0x92, CHR 0xA4] @ '' ('' @ show_word (d_replicas dep) @ '' pods stopped)'')
                 else l_bind (l_rust (if pods = [] then Ret False else all_idle E pods)) (\<lambda>idle.
                   if \<not> idle then l_world (\<lambda>w. w\<lparr>deployments := hm_modify n (\<lambda>d. d\<lparr>d_idle_since := None\<rparr>) (deployments w)\<rparr>)
                   else l_bind (l_get (\<lambda>s. bn_ticks (lp_brain s))) (\<lambda>ticks.
                     let secs = (ticks - unwrap_or (d_idle_since dep) ticks) * 5
                     in l_do [l_world (mark_idle n ticks),
                              if limit \<le> secs then hibernate E pods n secs
                              else l_log (''  [pause] '' @ n @ '': idle ('' @ show_word (limit - secs) @ ''s until hibernate)'')]))))"

definition pauses :: "('y, 's) loop_env \<Rightarrow> docker_container list \<Rightarrow> ('s, unit) recon" where
  "pauses E M = with_world (\<lambda>w. l_for (pause_step E M) (hm_keys (deployments w)))"

subsection \<open>DaemonSets and Jobs\<close>

definition create_labelled :: "('y, 's) loop_env \<Rightarrow> string \<Rightarrow> stored_container \<Rightarrow> string \<Rightarrow> string \<Rightarrow> ('s, string) call" where
  "create_labelled E pod c label name =
     create_container (le_exch E) (le_json E) pod (sc_image c) (non_empty_cmd (sc_command c)) (sc_env c) [(''royak.managed'', ''true''), (label, name)]"

definition daemonset_step :: "('y, 's) loop_env \<Rightarrow> docker_container list \<Rightarrow> string \<times> stored_daemonset \<Rightarrow> ('s, unit) recon" where
  "daemonset_step E M nd =
     (let (name, ds) = nd; pod = ''rk-ds-'' @ name; aliases = [pod, name]
      in if list_ex (\<lambda>c. named_from (''/rk-ds-'' @ name) c \<and> running c) M then l_log (''  [ok] daemonset/'' @ name @ '': running'')
         else l_bind (l_do [l_log (''  [daemonset] '' @ name @ '': deploying to node''), l_try (pull_image (le_exch E) (sc_image (dst_container ds)))]) (\<lambda>_.
           l_bind (l_call (create_labelled E pod (dst_container ds) ''royak.daemonset'' name)) (\<lambda>r.
             case r of
               Inl _ \<Rightarrow> l_ret ()
             | Inr cid \<Rightarrow>
                 l_bind (l_try (start_container (le_exch E) cid)) (\<lambda>_.
                 l_bind (l_call (connect_to_network (le_exch E) (le_json E) cid (''rk-'' @ dst_namespace ds) aliases)) (\<lambda>r.
                   l_do [case r of Inr _ \<Rightarrow> l_ret () | Inl _ \<Rightarrow> l_try (connect_network (le_exch E) (le_json E) cid aliases),
                         l_log (''    [start] '' @ pod @ '' '' @ tick_mark)])))))"

definition run_labelled :: "('y, 's) loop_env \<Rightarrow> string \<Rightarrow> stored_container \<Rightarrow> string \<Rightarrow> string \<Rightarrow> ('s, unit) recon" where
  "run_labelled E pod c label name =
     l_bind (l_try (pull_image (le_exch E) (sc_image c))) (\<lambda>_.
     l_bind (l_call (create_labelled E pod c label name)) (\<lambda>r.
       case r of Inl _ \<Rightarrow> l_ret () | Inr cid \<Rightarrow> l_do [l_try (start_container (le_exch E) cid), l_log (''    [start] '' @ pod @ '' '' @ tick_mark)]))"

definition job_step :: "('y, 's) loop_env \<Rightarrow> docker_container list \<Rightarrow> string \<times> stored_job \<Rightarrow> ('s, unit) recon" where
  "job_step E M nj =
     (let (name, job) = nj; mine = filter (named_from (''/rk-job-'' @ name)) M
      in if mine = [] then
           l_do [l_log (''  [job] '' @ name @ '': starting''), run_labelled E (''rk-job-'' @ name) (job_container job) ''royak.job'' name]
         else if list_ex (\<lambda>c. dc_state c = ''exited'') mine then l_log (''  [ok] job/'' @ name @ '': completed'')
         else l_log (''  [ok] job/'' @ name @ '': running''))"

definition daemonsets_and_jobs :: "('y, 's) loop_env \<Rightarrow> docker_container list \<Rightarrow> ('s, unit) recon" where
  "daemonsets_and_jobs E M = with_world (\<lambda>w. l_do [l_for (daemonset_step E M) (daemonsets w), l_for (job_step E M) (jobs w)])"

subsection \<open>Autoscaling\<close>

fun cpu_samples :: "('y, 's) loop_env \<Rightarrow> docker_container list \<Rightarrow> f32 list rust" where
  "cpu_samples E [] = Ret []"
| "cpu_samples E (c # cs) =
     rust_bind (peek_stats E c) (\<lambda>r. rust_bind (cpu_samples E cs) (\<lambda>xs. Ret (case r of Inr (cpu, _) \<Rightarrow> cpu # xs | Inl _ \<Rightarrow> xs)))"

definition average_cpu :: "('y, 's) loop_env \<Rightarrow> docker_container list \<Rightarrow> f32 rust" where
  "average_cpu E pods =
     (if 0 < count32 pods then rust_bind (cpu_samples E pods) (\<lambda>xs. Ret (f_div (f_sum xs) (f_nat (unat (count32 pods))))) else Ret f_zero)"

definition hpa_text :: "stored_hpa \<Rightarrow> f32 \<Rightarrow> string" where
  "hpa_text h cpu = ''  [hpa] '' @ hpa_deployment h @ '': CPU '' @ fmt_fixed 0 cpu @ ''%''"

definition hold_text :: "stored_hpa \<Rightarrow> u32 \<Rightarrow> f32 \<Rightarrow> u64 \<Rightarrow> string \<Rightarrow> string" where
  "hold_text h current cpu secs tr =
     (let would_change = (f_gt cpu (hpa_target_cpu h) \<and> current < hpa_max_replicas h
                          \<or> f_lt cpu (f_mul (hpa_target_cpu h) (f32_lit (1 / 2))) \<and> hpa_min_replicas h < current)
      in hpa_text h cpu @ '' '' @ em_dash @ '' ''
         @ (if would_change \<and> secs < HPA_STABILIZATION_SECS
            then ''holding '' @ show_word current @ '' replicas ('' @ show_word secs @ ''s into '' @ show_word HPA_STABILIZATION_SECS @ ''s stabilization window)''
            else show_word current @ '' replicas ok (trend: '' @ tr @ '')''))"

definition decision_text :: "stored_hpa \<Rightarrow> u32 \<Rightarrow> f32 \<Rightarrow> u32 \<Rightarrow> string \<Rightarrow> string" where
  "decision_text h current cpu target tr =
     (let change = show_word current @ '' '' @ arrow_mark @ '' '' @ show_word target @ '' (trend: '' @ tr @ '')''
      in hpa_text h cpu
         @ (if current < target then '' > '' @ fmt_fixed 0 (hpa_target_cpu h) @ ''% target '' @ arrow_mark @ '' scale '' @ change
            else '' < '' @ fmt_fixed 0 (f_mul (hpa_target_cpu h) (f32_lit (1 / 2))) @ ''% '' @ arrow_mark @ '' scale down '' @ change))"

definition predict_text :: "stored_hpa \<Rightarrow> u32 \<Rightarrow> string \<Rightarrow> f32 \<times> f32 \<times> u32 \<Rightarrow> string list" where
  "predict_text h current tr p =
     (case p of (cpu, conf, suggested) \<Rightarrow>
        if f_gt conf (f32_lit (3 / 10)) \<and> suggested \<noteq> current
        then [''  [PREDICT] '' @ hpa_deployment h @ '': trend '' @ tr @ '', predicted CPU '' @ fmt_fixed 0 cpu @ ''% (conf: '' @ fmt_fixed 0 conf
              @ ''%), suggest '' @ show_word current @ '' '' @ arrow_mark @ '' '' @ show_word suggested]
        else [])"

type_synonym scalings = "(string \<times> string \<times> u32) list"

definition hpa_step :: "('y, 's) loop_env \<Rightarrow> docker_container list \<Rightarrow> string \<times> stored_hpa \<Rightarrow> scalings \<Rightarrow> ('s, scalings) recon" where
  "hpa_step E M kh acc =
     (let (key, h) = kh
      in with_world (\<lambda>w. case hm_get (deployments w) (hpa_deployment h) of
           None \<Rightarrow> l_ret acc
         | Some dep \<Rightarrow>
             l_bind (l_rust (average_cpu E (running_pods (hpa_deployment h) M))) (\<lambda>cpu.
             l_bind (l_brain (record_load (hpa_deployment h) cpu (d_replicas dep))) (\<lambda>_.
             l_bind (l_get lp_brain) (\<lambda>b.
               let current = d_replicas dep; tr = trend (hpa_deployment h) b;
                   secs = unwrap_or (map_option (saturating_sub (le_now E)) (hpa_last_scaled h)) (- 1)
               in l_bind (l_for l_log (case predict_load (hpa_deployment h) (hpa_target_cpu h) (hpa_max_replicas h) b of
                                         None \<Rightarrow> [] | Some p \<Rightarrow> predict_text h current tr p)) (\<lambda>_.
                  case hpa_decision current cpu (hpa_target_cpu h) (hpa_min_replicas h) (hpa_max_replicas h) secs HPA_STABILIZATION_SECS of
                    Some target \<Rightarrow> l_bind (l_log (decision_text h current cpu target tr)) (\<lambda>_. l_ret (acc @ [(key, hpa_deployment h, target)]))
                  | None \<Rightarrow> l_bind (l_log (hold_text h current cpu secs tr)) (\<lambda>_. l_ret acc)))))))"

definition apply_scaling :: "string \<times> string \<times> u32 \<Rightarrow> json desired_world \<Rightarrow> json desired_world" where
  "apply_scaling s w = w\<lparr>deployments := hm_modify (fst (snd s)) (\<lambda>d. d\<lparr>d_replicas := snd (snd s)\<rparr>) (deployments w)\<rparr>"

definition stamp_scaling :: "u64 \<Rightarrow> string \<times> string \<times> u32 \<Rightarrow> json desired_world \<Rightarrow> json desired_world" where
  "stamp_scaling now s w = w\<lparr>hpas := hm_modify (fst s) (\<lambda>h. h\<lparr>hpa_last_scaled := Some now\<rparr>) (hpas w)\<rparr>"

definition autoscale :: "('y, 's) loop_env \<Rightarrow> docker_container list \<Rightarrow> ('s, unit) recon" where
  "autoscale E M =
     with_world (\<lambda>w. l_bind (l_fold (hpa_step E M) (hpas w) []) (\<lambda>acc.
       l_world (\<lambda>w. fold (stamp_scaling (le_now E)) acc (fold apply_scaling acc w))))"

subsection \<open>CronJobs\<close>

definition cron_interval :: "string \<Rightarrow> u64" where
  "cron_interval schedule =
     unwrap_or (Option.bind (head_opt (split_ws [] schedule)) (\<lambda>s. parse_u64 (trim_start_matches ''*/'' s))) 5"

definition cron_due :: "u64 \<Rightarrow> stored_cronjob \<Rightarrow> bool" where
  "cron_due now cj = (case cj_last_run cj of None \<Rightarrow> True | Some l \<Rightarrow> cron_interval (cj_schedule cj) * 60 < now - l)"

definition cron_step :: "('y, 's) loop_env \<Rightarrow> string \<times> stored_cronjob \<Rightarrow> string list \<Rightarrow> ('s, string list) recon" where
  "cron_step E nc acc =
     (let (name, cj) = nc
      in if cron_due (le_now E) cj then
           l_bind (l_do [l_log (''  [cronjob] '' @ name @ '': triggering ('' @ cj_schedule cj @ '') ''),
                         run_labelled E (''rk-cron-'' @ name @ ''-'' @ show_word (le_now E mod 10000)) (cj_container cj) ''royak.cronjob'' name])
             (\<lambda>_. l_ret (acc @ [name]))
         else l_ret acc)"

definition stamp_run :: "u64 \<Rightarrow> string \<Rightarrow> json desired_world \<Rightarrow> json desired_world" where
  "stamp_run now n w = w\<lparr>cronjobs := hm_modify n (\<lambda>c. c\<lparr>cj_last_run := Some now\<rparr>) (cronjobs w)\<rparr>"

definition run_cronjobs :: "('y, 's) loop_env \<Rightarrow> ('s, unit) recon" where
  "run_cronjobs E = with_world (\<lambda>w. l_bind (l_fold (cron_step E) (cronjobs w) []) (\<lambda>ns. l_world (fold (stamp_run (le_now E)) ns)))"

subsection \<open>Repositories\<close>

text \<open>The commit a repository is at: \<open>git\<close> in its directory, or the first word of the answer of its remote.\<close>

definition git_text :: "git_answer \<Rightarrow> string option" where
  "git_text r = (case r of Inr (_, out, _) \<Rightarrow> if utf8_valid out then Some out else None | Inl _ \<Rightarrow> None)"

definition repo_head :: "('y, 's) loop_env \<Rightarrow> stored_repository \<Rightarrow> (string \<times> string) option" where
  "repo_head E repo =
     (case repo_path repo of
        Some path \<Rightarrow> map_option (\<lambda>s. (''new'', trim s)) (git_text (le_git E (Some path) [''rev-parse'', ''HEAD'']))
      | None \<Rightarrow>
          (case repo_url repo of
             Some url \<Rightarrow> map_option (\<lambda>h. (''remote'', h))
               (Option.bind (git_text (le_git E None [''ls-remote'', url, ''refs/heads/'' @ repo_branch repo])) (\<lambda>s. head_opt (split_ws [] s)))
           | None \<Rightarrow> None))"

definition trigger_pipeline :: "('y, 's) loop_env \<Rightarrow> string \<Rightarrow> ('s, unit) recon" where
  "trigger_pipeline E p =
     with_world (\<lambda>w. l_if (hm_contains (pipelines w) p)
       (let (r, w') = start_pipeline (le_now E) (ae_millis (le_api E)) p w
        in l_do [l_world (\<lambda>_. w'),
                 case r of
                   Inr rid \<Rightarrow> l_log (''  [repo] triggered pipeline/'' @ p @ '' (run #'' @ show_word rid @ '')'')
                 | Inl e \<Rightarrow> l_log (''  [repo] trigger failed: '' @ e)]))"

definition repo_step :: "('y, 's) loop_env \<Rightarrow> string \<times> string \<Rightarrow> ('s, unit) recon" where
  "repo_step E np =
     with_world (\<lambda>w. case Option.bind (hm_get (repositories w) (fst np)) (\<lambda>repo. map_option (Pair repo) (repo_head E repo)) of
       None \<Rightarrow> l_ret ()
     | Some (repo, kind, commit) \<Rightarrow>
         l_if (repo_last_commit repo \<noteq> Some commit)
           (l_bind (l_rust (str_slice commit 0 (min 8 (length commit)))) (\<lambda>short.
            l_do [l_log (''  [repo] '' @ fst np @ '': '' @ kind @ '' commit '' @ short),
                  l_world (\<lambda>w. w\<lparr>repositories := hm_modify (fst np) (\<lambda>r. r\<lparr>repo_last_commit := Some commit\<rparr>) (repositories w)\<rparr>),
                  trigger_pipeline E (snd np)])))"

definition watch_repos :: "('y, 's) loop_env \<Rightarrow> ('s, unit) recon" where
  "watch_repos E =
     with_world (\<lambda>w. l_for (repo_step E) (filter_map (\<lambda>(n, r). map_option (Pair n) (repo_pipeline r)) (repositories w)))"

end
