(* ===== verification/Recon_Pipeline.thy ===== *)
theory Recon_Pipeline
  imports Recon_Work
begin

text \<open>
  Pipeline runs in one tick, \<^verbatim>\<open>src/src/reconcile.rs\<close>: builds under way are polled, then every run advances by a stage. The loop over the runs may look at
  a run again, so it is given fuel; the answer \<open>False\<close> says that it has not ended yet.
\<close>

subsection \<open>Stages of a run\<close>

definition set_stage :: "nat \<Rightarrow> string \<Rightarrow> stage_status \<Rightarrow> json desired_world \<Rightarrow> json desired_world" where
  "set_stage i n st w =
     w\<lparr>pipeline_runs := (pipeline_runs w)[i := (pipeline_runs w ! i)\<lparr>run_stage_status :=
         map (\<lambda>(m, s). (m, if m = n then st else s)) (run_stage_status (pipeline_runs w ! i))\<rparr>]\<rparr>"

definition has_stage :: "pipeline_run \<Rightarrow> string \<Rightarrow> stage_status \<Rightarrow> bool" where
  "has_stage run n st = list_ex (\<lambda>(m, s). m = n \<and> s = st) (run_stage_status run)"

definition run_tag :: "pipeline_run \<Rightarrow> string" where
  "run_tag run = ''  [pipeline] '' @ run_pipeline run @ ''#'' @ show_word (run_id run) @ '': ''"

definition stage_line :: "pipeline_run \<Rightarrow> string \<Rightarrow> string \<Rightarrow> ('s, unit) recon" where
  "stage_line run n t = l_log (run_tag run @ ''stage '' @ squoted n @ '' '' @ t)"

definition pipe_job :: "pipeline_run \<Rightarrow> string \<Rightarrow> string" where
  "pipe_job run n = ''rk-pipe-'' @ run_pipeline run @ ''-'' @ show_word (run_id run) @ ''-'' @ n"

definition build_job :: "pipeline_run \<Rightarrow> string \<Rightarrow> string" where
  "build_job run n = ''rk-build-'' @ run_pipeline run @ ''-'' @ show_word (run_id run) @ ''-'' @ n"

definition build_tag :: "pipeline_run \<Rightarrow> stored_stage \<Rightarrow> string" where
  "build_tag run sd = unwrap_or (sg_tag sd) (''royak-'' @ run_pipeline run @ '':'' @ show_word (run_id run))"

text \<open>The last line of an error that is not blank, 200 characters of it.\<close>

fun take_chars :: "nat \<Rightarrow> string \<Rightarrow> string" where
  "take_chars n [] = []"
| "take_chars n (c # cs) = (if cont_byte c then c # take_chars n cs else case n of 0 \<Rightarrow> [] | Suc m \<Rightarrow> c # take_chars m cs)"

definition short_error :: "string \<Rightarrow> string" where
  "short_error e = take_chars 200 (unwrap_or (find (\<lambda>l. trim l \<noteq> []) (rev (lines e))) e)"

subsection \<open>Builds under way\<close>

type_synonym stage_updates = "(nat \<times> pipeline_run \<times> string \<times> stage_status \<times> string) list"

definition poll_stage :: "nat \<times> pipeline_run \<Rightarrow> stored_stage \<Rightarrow> stage_updates \<Rightarrow> ('s, stage_updates) recon" where
  "poll_stage ir sd acc =
     (let (i, run) = ir; n = sg_name sd; job = build_job run n; note = (\<lambda>st t. acc @ [(i, run, n, st, t)])
      in if \<not> has_stage run n StageRunning then l_ret acc
         else l_bind (l_get (\<lambda>s. poll_build job (lp_builds s))) (\<lambda>p.
           case p of
             Done (Inr _) \<Rightarrow> l_bind (l_builds (clear_build job)) (\<lambda>_. l_ret (note StageSucceeded (''built '' @ build_tag run sd @ '' '' @ tick_mark)))
           | Done (Inl e) \<Rightarrow> l_bind (l_builds (clear_build job)) (\<lambda>_. l_ret (note StageFailed (cross_mark @ '' build failed: '' @ short_error e)))
           | Not_started \<Rightarrow> l_ret (note StagePending (''build lost (restart) '' @ arrow_mark @ '' retrying''))
           | Running \<Rightarrow> l_ret acc))"

definition poll_run :: "nat \<times> pipeline_run \<Rightarrow> stage_updates \<Rightarrow> ('s, stage_updates) recon" where
  "poll_run ir acc =
     with_world (\<lambda>w. case hm_get (pipelines w) (run_pipeline (snd ir)) of
       None \<Rightarrow> l_ret acc
     | Some pl \<Rightarrow> l_fold (poll_stage ir) (filter (\<lambda>s. sg_action s = Some ''build'') (pl_stages pl)) acc)"

definition poll_builds :: "('s, unit) recon" where
  "poll_builds =
     with_world (\<lambda>w. l_bind (l_fold poll_run (List.enumerate 0 (pipeline_runs w)) []) (\<lambda>updates.
       l_for (\<lambda>(i, run, n, st, t). l_do [l_world (set_stage i n st), stage_line run n t]) updates))"

subsection \<open>One stage\<close>

definition dirs_or_home :: "('y, 's) loop_env \<Rightarrow> string" where
  "dirs_or_home E = unwrap_or (ae_var (le_api E) ''HOME'') ''/tmp''"

text \<open>\<open>Path::join\<close>: an absolute second path replaces the first.\<close>

definition path_join :: "string \<Rightarrow> string \<Rightarrow> string" where
  "path_join a b = (if starts_with b ''/'' \<or> a = [] then b else if ends_with a ''/'' then a @ b else a @ ''/'' @ b)"

text \<open>
  The directory a build reads: a registered repository's path, its checkout brought up to date or cloned, or a path as it is.
\<close>

definition git_ok :: "string \<Rightarrow> git_answer \<Rightarrow> unit result" where
  "git_ok what r =
     (case r of
        Inl e \<Rightarrow> Inl (what @ '' failed: '' @ e)
      | Inr (success, _, err) \<Rightarrow> if success then Inr () else Inl (what @ '' failed: '' @ utf8_lossy err))"

definition checkout :: "('y, 's) loop_env \<Rightarrow> string \<Rightarrow> string \<Rightarrow> string \<Rightarrow> string result \<times> act list" where
  "checkout E ctx url br =
     (let base = path_join (path_join (dirs_or_home E) ''.royak'') ''repos''; dest = path_join base ctx;
          fetched = (\<lambda>what args es. (case git_ok what (le_git E None args) of Inl e \<Rightarrow> Inl e | Inr _ \<Rightarrow> Inr dest, es @ [Host (RunCommand ''git'' args)]))
      in if le_exists E (path_join dest ''.git'')
         then fetched ''git reset'' [''-C'', dest, ''reset'', ''--hard'', ''origin/'' @ br]
                [Host (RunCommand ''git'' [''-C'', dest, ''fetch'', ''--depth'', ''1'', ''origin'', br])]
         else fetched ''git clone'' [''clone'', ''--depth'', ''1'', ''-b'', br, url, dest] [Host (CreateDirAll base)])"

definition resolve_build_context :: "('y, 's) loop_env \<Rightarrow> json desired_world \<Rightarrow> string \<Rightarrow> string \<Rightarrow> string result \<times> act list" where
  "resolve_build_context E w ctx branch =
     (case hm_get (repositories w) ctx of
        Some repo \<Rightarrow>
          (case repo_path repo of
             Some p \<Rightarrow> (if le_exists E p then Inr p else Inl (''repo '' @ squoted ctx @ '' path '' @ squoted p @ '' does not exist''), [])
           | None \<Rightarrow>
               (case repo_url repo of
                  Some url \<Rightarrow> checkout E ctx url (if repo_branch repo = [] then branch else repo_branch repo)
                | None \<Rightarrow> (Inl (''repo '' @ squoted ctx @ '' has neither path nor url''), [])))
      | None \<Rightarrow>
          (if le_exists E ctx then Inr ctx else Inl (''build context '' @ squoted ctx @ '' not found (no such repository or path)''), []))"

fun apply_resources :: "('y, 's) loop_env \<Rightarrow> nat \<Rightarrow> 'y resource list \<Rightarrow> ('s, unit) recon" where
  "apply_resources E k [] = l_ret ()"
| "apply_resources E k (r # rs) =
     with_world (\<lambda>w. l_bind (l_rust (apply_resource (ae_yaml (le_api E)) serde_value (ae_machine (le_api E) k) r w)) (\<lambda>(res, w', es).
       l_bind (l_do [l_world (\<lambda>_. w'), l_for (\<lambda>e. l_act (Host e)) es,
                     case res of Inr msg \<Rightarrow> l_log (''    '' @ tick_mark @ '' '' @ msg) | Inl e \<Rightarrow> l_log (''    '' @ cross_mark @ '' '' @ e)])
         (\<lambda>_. apply_resources E (Suc k) rs)))"

definition apply_stage :: "('y, 's) loop_env \<Rightarrow> nat \<Rightarrow> pipeline_run \<Rightarrow> string \<Rightarrow> string \<Rightarrow> ('s, unit) recon" where
  "apply_stage E i run n path =
     l_do [stage_line run n (arrow_mark @ '' apply '' @ path),
           case parse_file E path of
             Inr rs \<Rightarrow> l_do [apply_resources E 0 rs, l_world (set_stage i n StageSucceeded)]
           | Inl e \<Rightarrow> l_do [l_log (''    '' @ cross_mark @ '' apply failed: '' @ e), l_world (set_stage i n StageFailed)]]"

definition begin_build :: "('y, 's) loop_env \<Rightarrow> nat \<Rightarrow> pipeline_run \<Rightarrow> stored_stage \<Rightarrow> string \<Rightarrow> ('s, unit) recon" where
  "begin_build E i run sd n =
     with_world (\<lambda>w.
       let branch = unwrap_or (map_option repo_branch (head_opt (hm_values (repositories w)))) ''main'';
           dockerfile = unwrap_or (sg_dockerfile sd) ''Dockerfile'';
           failed = (\<lambda>t. l_do [stage_line run n (cross_mark @ '' '' @ t), l_world (set_stage i n StageFailed)])
       in case opt_or (sg_context sd) (head_opt (hm_keys (repositories w))) of
            None \<Rightarrow> failed ''build: no context (set stage.context or register a repo)''
          | Some ctx \<Rightarrow>
              (let (r, es) = resolve_build_context E w ctx branch
               in l_do [l_for l_act es,
                        case r of
                          Inl e \<Rightarrow> failed (''build context: '' @ e)
                        | Inr dir \<Rightarrow>
                            l_do [stage_line run n (arrow_mark @ '' build '' @ build_tag run sd @ '' from '' @ dir @ '' ('' @ dockerfile @ '')''),
                                  l_builds (start_build (build_job run n) \<lparr>bi_context = dir, bi_dockerfile = dockerfile, bi_tag = build_tag run sd,
                                    bi_args = sg_build_args sd\<rparr>),
                                  l_world (set_stage i n StageRunning)]]))"

definition build_stage :: "('y, 's) loop_env \<Rightarrow> nat \<Rightarrow> pipeline_run \<Rightarrow> stored_stage \<Rightarrow> string \<Rightarrow> ('s, unit) recon" where
  "build_stage E i run sd n =
     (let job = build_job run n
      in l_bind (l_get (\<lambda>s. poll_build job (lp_builds s))) (\<lambda>p.
           case p of
             Not_started \<Rightarrow> begin_build E i run sd n
           | Running \<Rightarrow> l_log (run_tag run @ ''building '' @ squoted n @ ''...'')
           | Done (Inr _) \<Rightarrow> l_do [l_builds (clear_build job), stage_line run n (''built '' @ build_tag run sd @ '' '' @ tick_mark), l_world (set_stage i n StageSucceeded)]
           | Done (Inl e) \<Rightarrow> l_do [l_builds (clear_build job), stage_line run n (cross_mark @ '' build failed: '' @ short_error e), l_world (set_stage i n StageFailed)]))"

definition job_env :: "json desired_world \<Rightarrow> pipeline_run \<Rightarrow> stored_stage \<Rightarrow> string \<Rightarrow> string list" where
  "job_env w run sd n =
     sg_env sd @ concat (map (\<lambda>se. map (\<lambda>(k, v). k @ ''='' @ v) (se_data se)) (hm_values (secrets w)))
     @ [''ROYAK_PIPELINE='' @ run_pipeline run, ''ROYAK_STAGE='' @ n, ''ROYAK_RUN_ID='' @ show_word (run_id run)]"

definition start_job :: "('y, 's) loop_env \<Rightarrow> nat \<Rightarrow> pipeline_run \<Rightarrow> stored_stage \<Rightarrow> string \<Rightarrow> string \<Rightarrow> string \<Rightarrow> ('s, unit) recon" where
  "start_job E i run sd n job img =
     with_world (\<lambda>w.
     l_bind (l_do [stage_line run n (arrow_mark @ '' '' @ img), l_try (pull_image (le_exch E) img)]) (\<lambda>_.
     l_bind (l_call (create_container (le_exch E) (le_json E) job img (non_empty_cmd (sg_command sd)) (job_env w run sd n)
               [(''royak.managed'', ''true''), (''royak.pipeline'', run_pipeline run), (''royak.stage'', n)])) (\<lambda>r.
       case r of
         Inr cid \<Rightarrow> l_do [l_try (start_container (le_exch E) cid), l_world (set_stage i n StageRunning), l_log (''    [start] '' @ job @ '' '' @ tick_mark)]
       | Inl e \<Rightarrow> l_do [l_log (''    [error] '' @ job @ '': '' @ e), l_world (set_stage i n StageFailed)])))"

definition matrix_job ::
  "('y, 's) loop_env \<Rightarrow> docker_container list \<Rightarrow> nat \<Rightarrow> pipeline_run \<Rightarrow> stored_stage \<Rightarrow> string \<Rightarrow> bool \<Rightarrow> nat \<times> string \<Rightarrow> bool \<Rightarrow> ('s, bool) recon" where
  "matrix_job E M i run sd n is_matrix mi all_done =
     (let job = if is_matrix then pipe_job run n @ ''-m'' @ show_nat (fst mi) else pipe_job run n; mine = filter (has_name job) M
      in if mine = [] then l_bind (start_job E i run sd n job (snd mi)) (\<lambda>_. l_ret all_done)
         else if list_ex (\<lambda>c. dc_state c = ''exited'') mine
         then l_bind (l_log (''    [matrix] '' @ job @ '' completed '' @ tick_mark)) (\<lambda>_. l_ret all_done)
         else l_ret False)"

definition container_stage :: "('y, 's) loop_env \<Rightarrow> docker_container list \<Rightarrow> nat \<Rightarrow> pipeline_run \<Rightarrow> stored_stage \<Rightarrow> string \<Rightarrow> ('s, unit) recon" where
  "container_stage E M i run sd n =
     (let images = if sg_matrix_images sd \<noteq> [] then sg_matrix_images sd else [unwrap_or (sg_image sd) []]; is_matrix = (1 < length images)
      in l_bind (l_fold (matrix_job E M i run sd n is_matrix) (List.enumerate 0 images) True) (\<lambda>all_done.
           l_if (is_matrix \<and> all_done)
             (l_do [l_world (set_stage i n StageSucceeded), stage_line run n (''ALL matrix jobs completed '' @ tick_mark)])))"

definition execute_stage :: "('y, 's) loop_env \<Rightarrow> docker_container list \<Rightarrow> nat \<Rightarrow> pipeline_run \<Rightarrow> stored_stage \<Rightarrow> string \<Rightarrow> ('s, unit) recon" where
  "execute_stage E M i run sd n =
     (case sg_action sd of
        Some action \<Rightarrow>
          if action = ''apply'' then (case sg_file sd of Some path \<Rightarrow> apply_stage E i run n path | None \<Rightarrow> l_ret ())
          else if action = ''build'' then build_stage E i run sd n else l_ret ()
      | None \<Rightarrow> if sg_image sd \<noteq> None \<or> sg_matrix_images sd \<noteq> [] then container_stage E M i run sd n else l_ret ())"

subsection \<open>One round of a run\<close>

definition stage_skipped :: "json desired_world \<Rightarrow> pipeline_run \<Rightarrow> string \<Rightarrow> bool" where
  "stage_skipped w run cond =
     (if cond = ''always'' then False
      else if cond = ''failure'' then \<not> list_ex (\<lambda>(_, s). s = StageFailed) (run_stage_status run)
      else if starts_with cond ''branch'' then
        (case str_split_on ''=='' cond of _ # t # _ \<Rightarrow> trim t | _ \<Rightarrow> ''main'')
        \<noteq> unwrap_or (map_option repo_branch (head_opt (hm_values (repositories w)))) ''main''
      else False)"

text \<open>Waiting for the stage a stage depends on; whether to look at the run again.\<close>

definition await_stage :: "docker_container list \<Rightarrow> nat \<Rightarrow> pipeline_run \<Rightarrow> string \<Rightarrow> ('s, bool) recon" where
  "await_stage M i run d =
     (let mine = filter (has_name (pipe_job run d)) M
      in if list_ex (\<lambda>c. dc_state c = ''exited'') mine
         then l_bind (l_do [l_world (set_stage i d StageSucceeded), stage_line run d (''completed '' @ tick_mark)]) (\<lambda>_. l_ret True)
         else l_bind (l_if (list_ex running mine) (l_log (run_tag run @ ''waiting for '' @ squoted d @ ''...''))) (\<lambda>_. l_ret False))"

definition skip_stage :: "nat \<Rightarrow> pipeline_run \<Rightarrow> string \<Rightarrow> string \<Rightarrow> ('s, bool) recon" where
  "skip_stage i run n why =
     l_bind (l_do [l_world (set_stage i n StageSkipped), stage_line run n (''SKIPPED ('' @ why @ '')'')]) (\<lambda>_. l_ret True)"

definition run_stage :: "('y, 's) loop_env \<Rightarrow> docker_container list \<Rightarrow> nat \<Rightarrow> pipeline_run \<Rightarrow> stored_pipeline \<Rightarrow> string \<Rightarrow> ('s, bool) recon" where
  "run_stage E M i run pl n =
     with_world (\<lambda>w.
       case find (\<lambda>s. sg_name s = n) (pl_stages pl) of
         None \<Rightarrow> l_ret False
       | Some sd \<Rightarrow>
           let proceed = (case sg_if_condition sd of
                 Some cond \<Rightarrow> if stage_skipped w run cond then skip_stage i run n (''condition: '' @ cond)
                              else l_bind (execute_stage E M i run sd n) (\<lambda>_. l_ret False)
               | None \<Rightarrow> l_bind (execute_stage E M i run sd n) (\<lambda>_. l_ret False))
           in case sg_depends_on sd of
                None \<Rightarrow> proceed
              | Some d \<Rightarrow>
                  if has_stage run d StageFailed then skip_stage i run n ''dependency failed''
                  else if has_stage run d StageSucceeded then proceed
                  else await_stage M i run d)"

definition run_round :: "('y, 's) loop_env \<Rightarrow> docker_container list \<Rightarrow> nat \<Rightarrow> ('s, bool) recon" where
  "run_round E M i =
     with_world (\<lambda>w.
       let run = pipeline_runs w ! i
       in case hm_get (pipelines w) (run_pipeline run) of
            None \<Rightarrow> l_ret False
          | Some pl \<Rightarrow>
              if is_complete run then
                l_bind (l_log (run_tag run @ (if list_all (\<lambda>(_, s). s = StageSucceeded \<or> s = StageSkipped) (run_stage_status run)
                                              then ''SUCCEEDED'' else ''FAILED'') @ '' '' @ tick_mark)) (\<lambda>_. l_ret False)
              else (case next_runnable run of None \<Rightarrow> l_ret False | Some n \<Rightarrow> run_stage E M i run pl n))"

fun run_from :: "('y, 's) loop_env \<Rightarrow> docker_container list \<Rightarrow> nat \<Rightarrow> nat \<Rightarrow> ('s, bool) recon" where
  "run_from E M 0 i = l_ret False"
| "run_from E M (Suc k) i =
     with_world (\<lambda>w. if i < length (pipeline_runs w)
       then l_bind (run_round E M i) (\<lambda>again. run_from E M k (if again then i else Suc i)) else l_ret True)"

definition run_pipelines :: "('y, 's) loop_env \<Rightarrow> nat \<Rightarrow> docker_container list \<Rightarrow> ('s, bool) recon" where
  "run_pipelines E fuel M =
     l_bind poll_builds (\<lambda>_. l_bind (run_from E M fuel 0) (\<lambda>ended.
       if ended then l_bind (l_world (\<lambda>w. w\<lparr>pipeline_runs := filter (\<lambda>r. \<not> is_complete r) (pipeline_runs w)\<rparr>)) (\<lambda>_. l_ret True)
       else l_ret False))"

end
