(* ===== verification/Recon_Tick.thy ===== *)
theory Recon_Tick
  imports Recon_Pipeline
begin

text \<open>
  The start and the end of one tick of the reconcile loop with the Docker engine, \<^verbatim>\<open>src/src/reconcile.rs\<close>: the cluster's certificate authority, networks
  and expired certificates; the events put off, network policies, training of the brain; and the whole tick.
\<close>

subsection \<open>Certificates and networks\<close>

definition ensure_ca :: "('y, 's) loop_env \<Rightarrow> ('s, unit) recon" where
  "ensure_ca E =
     with_world (\<lambda>w. l_if (cluster_ca w = None)
       (case ca_generate (le_rcgen E) of
          Inr ca \<Rightarrow> l_do [l_log (''  [security] Cluster CA generated (fp: '' @ ca_fingerprint ca @ '')''), l_world (\<lambda>w. w\<lparr>cluster_ca := Some ca\<rparr>)]
        | Inl e \<Rightarrow> l_log (''  [warn] CA generation failed: '' @ e)))"

definition ensure_networks :: "('y, 's) loop_env \<Rightarrow> ('s, unit) recon" where
  "ensure_networks E =
     with_world (\<lambda>w. l_bind (l_call (ensure_network (le_exch E) (le_json E))) (\<lambda>r.
       l_do [case r of Inl e \<Rightarrow> l_log (''  [warn] network: '' @ e) | Inr _ \<Rightarrow> l_ret (),
             l_for (\<lambda>ns. l_bind (l_call (ensure_namespace_network (le_exch E) (le_json E) ns)) (\<lambda>r.
               case r of Inl e \<Rightarrow> l_log (''  [warn] network rk-'' @ ns @ '': '' @ e) | Inr _ \<Rightarrow> l_ret ())) (namespaces w),
             l_try (ensure_namespace_network (le_exch E) (le_json E) ''default'')]))"

definition cert_expired :: "u64 \<Rightarrow> string \<times> pod_cert_status \<Rightarrow> bool" where
  "cert_expired now pc = (\<not> pcs_revoked (snd pc) \<and> pcs_expires_at (snd pc) < now)"

definition expire_certs :: "('y, 's) loop_env \<Rightarrow> ('s, unit) recon" where
  "expire_certs E =
     with_world (\<lambda>w. l_for (\<lambda>pc. l_do
       [l_log (''  [mtls] '' @ warn_sign @ '' cert expired: '' @ fst pc @ '' '' @ em_dash @ '' will re-issue on next reconcile''),
        l_world (\<lambda>w. w\<lparr>pod_certs := hm_modify (fst pc) (\<lambda>c. c\<lparr>pcs_revoked := True\<rparr>) (pod_certs w)\<rparr>),
        l_record E ''Pod'' (fst pc) ''CertExpired'' ''mTLS certificate expired, marked for rotation'' ''Warning''])
       (filter (cert_expired (le_now E)) (pod_certs w)))"

subsection \<open>Network policies\<close>

definition policy_covers :: "stored_network_policy \<Rightarrow> docker_container \<Rightarrow> bool" where
  "policy_covers p c =
     ((hm_get (dc_labels c) ''royak.namespace'' = Some (np_namespace p)
       \<or> np_namespace p = ''default'' \<and> \<not> hm_contains (dc_labels c) ''royak.namespace'')
      \<and> (np_pod_selector p = ''*'' \<or> list_ex (\<lambda>n. str_contains n (np_pod_selector p)) (dc_names c)
         \<or> hm_get (dc_labels c) ''royak.deployment'' = Some (np_pod_selector p)))"

definition l_audit :: "network_audit_entry \<Rightarrow> ('s, unit) recon" where
  "l_audit a = l_world (\<lambda>w. w\<lparr>network_audit := network_audit w @ [a]\<rparr>)"

definition show_ports :: "u16 list \<Rightarrow> string" where
  "show_ports ps = ''['' @ join '', '' (map (\<lambda>p. show_word p) ps) @ '']''"

definition announce_policy :: "('y, 's) loop_env \<Rightarrow> stored_network_policy \<Rightarrow> nat \<Rightarrow> ('s, unit) recon" where
  "announce_policy E p n =
     (let line = (\<lambda>t. l_log (''  [netpol] '' @ np_name p @ '': '' @ t)); pods = show_nat n @ '' pods''
      in l_do [l_if (np_internal p) (l_do [line (''INTERNAL mode '' @ em_dash @ '' no external traffic for '' @ pods),
                 l_audit (audit_new (le_now E) ''enforce'' (np_namespace p) ''external'' (np_name p) ''blocked_egress'')]),
               l_if (np_mtls_required p) (line (''mTLS REQUIRED for '' @ pods)),
               l_if (np_ingress_ports p \<noteq> []) (line (''ingress ports '' @ show_ports (np_ingress_ports p))),
               l_if (np_egress_ports p \<noteq> []) (line (''egress ports '' @ show_ports (np_egress_ports p)))])"

definition allow_pod :: "('y, 's) loop_env \<Rightarrow> stored_network_policy \<Rightarrow> (string \<Rightarrow> string) \<Rightarrow> string \<Rightarrow> docker_container \<Rightarrow> ('s, unit) recon" where
  "allow_pod E p text net c =
     l_bind (l_rust (head12 (dc_id c))) (\<lambda>short. l_bind (l_call (connect_to_network (le_exch E) (le_json E) short net [])) (\<lambda>r.
       case r of
         Inl _ \<Rightarrow> l_ret ()
       | Inr _ \<Rightarrow> l_do [l_log (''  [netpol] '' @ np_name p @ '': allow '' @ text (pod_of c)),
                         l_audit (policy_allow (le_now E) (pod_of c) net (np_name p)),
                         l_world (\<lambda>w. w\<lparr>net_tracker := observe_conn (pod_of c) net (net_tracker w)\<rparr>)]))"

definition allow_peer ::
  "('y, 's) loop_env \<Rightarrow> stored_network_policy \<Rightarrow> docker_container list \<Rightarrow> (string \<Rightarrow> string \<Rightarrow> string) \<Rightarrow> string \<Rightarrow> ('s, unit) recon" where
  "allow_peer E p pods text peer =
     (let ns = unwrap_or (strip_prefix peer ''ns:'') peer
      in l_if (peer \<noteq> ''*'') (l_do [l_try (ensure_namespace_network (le_exch E) (le_json E) ns),
                                    l_for (allow_pod E p (text ns) (''rk-'' @ ns)) pods]))"

abbreviation sh :: "string \<Rightarrow> string list" where
  "sh rule \<equiv> split_ws [] rule"

definition l4_rules :: "stored_network_policy \<Rightarrow> string list list" where
  "l4_rules p =
     [sh ''-F OUTPUT'', sh ''-A OUTPUT -o lo -j ACCEPT'', sh ''-A OUTPUT -m state --state ESTABLISHED,RELATED -j ACCEPT'',
      sh ''-A OUTPUT -p udp --dport 53 -j ACCEPT'', sh ''-A OUTPUT -p tcp --dport 53 -j ACCEPT'']
     @ (if np_egress_ports p \<noteq> []
        then map (\<lambda>q. sh (''-A OUTPUT -p tcp --dport '' @ show_word q @ '' -j ACCEPT'')) (np_egress_ports p) @ [sh ''-A OUTPUT -j DROP'']
        else if np_deny_all p \<or> np_internal p then [sh ''-A OUTPUT -j DROP''] else [])"

definition needs_l4 :: "stored_network_policy \<Rightarrow> bool" where
  "needs_l4 p = (np_deny_all p \<or> np_internal p \<or> np_egress_ports p \<noteq> [])"

definition enforce_l4 :: "('y, 's) loop_env \<Rightarrow> stored_network_policy \<Rightarrow> docker_container \<Rightarrow> ('s, unit) recon" where
  "enforce_l4 E p c =
     l_bind (l_rust (head12 (dc_id c))) (\<lambda>short. with_world (\<lambda>w.
       let marker = ''netpol:'' @ np_name p @ '':'' @ short
       in if marker \<in> set (netpol_applied w) then l_ret ()
          else l_bind (l_call (apply_netns_iptables (le_exch E) (le_json E) short (l4_rules p))) (\<lambda>r.
            case r of
              Inr _ \<Rightarrow> l_do [l_world (\<lambda>w. w\<lparr>netpol_applied := List.insert marker (netpol_applied w)\<rparr>),
                              l_log (''  [netpol] '' @ np_name p @ '': L4 iptables enforced in '' @ pod_of c @ '' netns'')]
            | Inl e \<Rightarrow> l_log (''  [netpol] '' @ np_name p @ '': L4 enforce failed for '' @ pod_of c @ '': '' @ e))))"

definition enforce_policy :: "('y, 's) loop_env \<Rightarrow> docker_container list \<Rightarrow> stored_network_policy \<Rightarrow> ('s, unit) recon" where
  "enforce_policy E M p =
     (let pods = filter (policy_covers p) M
      in l_if (pods \<noteq> []) (l_do
           [announce_policy E p (length pods),
            l_for (allow_peer E p pods (\<lambda>ns pod. ''ingress '' @ ns @ '' '' @ arrow_mark @ '' '' @ pod)) (np_ingress_allow p),
            l_for (allow_peer E p pods (\<lambda>ns pod. ''egress '' @ pod @ '' '' @ arrow_mark @ '' '' @ ns)) (np_egress_allow p),
            l_if (needs_l4 p) (l_for (enforce_l4 E p) pods),
            l_log (''  [netpol] '' @ np_name p @ '': enforced on '' @ show_nat (length pods) @ '' pods (ns='' @ np_namespace p @ '', selector=''
                   @ np_pod_selector p @ (if np_internal p then '', internal'' else []) @ (if np_mtls_required p then '', mTLS'' else [])
                   @ (if np_deny_all p then '', deny-all'' else []) @ '')'')]))"

definition report_threat :: "('y, 's) loop_env \<Rightarrow> string \<times> string \<times> f32 \<Rightarrow> ('s, unit) recon" where
  "report_threat E a =
     (case a of (pod, desc, severity) \<Rightarrow>
        l_do [l_log (''  [threat] '' @ warn_sign @ '' '' @ pod @ '': '' @ desc @ '' (severity: '' @ fmt_fixed 1 severity @ '')''),
              l_audit (audit_anomaly (le_now E) pod desc), l_record E ''Pod'' pod ''NetworkAnomaly'' desc ''Warning''])"

definition enforce_network_policies :: "('y, 's) loop_env \<Rightarrow> docker_container list \<Rightarrow> ('s, unit) recon" where
  "enforce_network_policies E M =
     l_do [with_world (\<lambda>w. l_for (enforce_policy E M) (hm_values (network_policies w))),
           with_world (\<lambda>w. l_for (report_threat E) (tracker_anomalies (net_tracker w))),
           l_world (\<lambda>w. w\<lparr>network_audit := drop (length (network_audit w) - 1000) (network_audit w)\<rparr>)]"

subsection \<open>Events and training\<close>

definition flush_events :: "('y, 's) loop_env \<Rightarrow> ('s, unit) recon" where
  "flush_events E = l_bind (l_get lp_events) (\<lambda>evs. l_for (\<lambda>(kind, ob, reason, msg, ty). l_record E kind ob reason msg ty) evs)"

fun pod_states :: "('y, 's) loop_env \<Rightarrow> docker_container list \<Rightarrow> pod_state list rust" where
  "pod_states E [] = Ret []"
| "pod_states E (c # cs) =
     rust_bind (head12 (dc_id c)) (\<lambda>short. rust_bind (peek_stats E c) (\<lambda>r. rust_bind (pod_states E cs) (\<lambda>ps.
       let (cpu, mem) = (case r of Inr x \<Rightarrow> x | Inl _ \<Rightarrow> (f_zero, f_zero))
       in Ret (\<lparr>ps_id = short, ps_name = pod_of c, ps_node = ''local'', ps_status = PRunning, ps_cpu_pct = cpu, ps_mem_mb = mem, ps_restarts = 0,
                ps_age_secs = 0, ps_image = dc_image c\<rparr> # ps))))"

definition desired_of :: "stored_deployment \<Rightarrow> desired_state" where
  "desired_of d =
     \<lparr>des_name = d_name d, des_replicas = d_replicas d, des_image = d_image d,
      des_cpu_limit = unwrap_or (Option.bind (d_resource_limits d) rl_cpu_limit) (f_nat 1),
      des_mem_limit = f_nat (unat (unwrap_or (Option.bind (d_resource_limits d) rl_mem_limit) 512))\<rparr>"

definition train_brain :: "('y, 's) loop_env \<Rightarrow> docker_container list \<Rightarrow> ('s, unit) recon" where
  "train_brain E M =
     l_bind (l_rust (pod_states E (filter running M))) (\<lambda>pods. l_if (pods \<noteq> []) (with_world (\<lambda>w.
       let c = \<lparr>cl_pods = pods, cl_nodes = [], cl_desired = map desired_of (hm_values (deployments w))\<rparr>
       in l_bind (l_get lp_brain) (\<lambda>b. l_bind (l_rust (tick (le_nn E) c b)) (\<lambda>(d, b1).
          l_bind (l_rust (train_step (le_nn E) c (decisions_to_target b1 c (dc_actions d)) (f32_lit (1 / 1000)) b1)) (\<lambda>(loss, b2).
            l_do [l_brain (\<lambda>_. b2),
                  l_if (bn_train_steps b2 mod 10 = 0)
                    (l_log (''  [brain] trained: step='' @ show_word (bn_train_steps b2) @ '', loss='' @ fmt_fixed 4 loss))]))))))"

definition save_brain :: "('y, 's) loop_env \<Rightarrow> ('s, unit) recon" where
  "save_brain E =
     l_bind (l_get lp_brain) (\<lambda>b. l_if (0 < bn_train_steps b \<and> bn_train_steps b mod 50 = 0 \<and> le_weights_saved E)
       (l_do [l_act (Wrote ''.royak-brain.bin'' (weights_file b) False),
              l_log (''  [brain] weights saved (step='' @ show_word (bn_train_steps b) @ '', loss='' @ fmt_fixed 4 (bn_last_loss b) @ '')'')]))"

subsection \<open>The tick\<close>

definition reconcile_managed :: "('y, 's) loop_env \<Rightarrow> nat \<Rightarrow> docker_container list \<Rightarrow> ('s, bool) recon" where
  "reconcile_managed E fuel M =
     l_bind (l_do [with_world (\<lambda>w. l_for (scale_deployment E M) (deployments w)), roll_out E M, strategies E M, health_checks E M,
                   node_checks E M, anomalies E M, run_operators E, pauses E M, daemonsets_and_jobs E M, autoscale E M, run_cronjobs E,
                   watch_repos E]) (\<lambda>_.
     l_bind (run_pipelines E fuel M) (\<lambda>ended.
       if \<not> ended then l_ret False
       else l_bind (l_do [flush_events E,
                          with_world (\<lambda>w. l_if (network_policies w \<noteq> []) (enforce_network_policies E M)),
                          train_brain E M, save_brain E]) (\<lambda>_. l_ret True)))"

definition reconcile_docker :: "('y, 's) loop_env \<Rightarrow> nat \<Rightarrow> ('s, bool) recon" where
  "reconcile_docker E fuel =
     l_bind (l_do [ensure_ca E, ensure_networks E, expire_certs E]) (\<lambda>_.
     l_bind (l_call (list_containers (le_exch E) (ae_containers (le_api E)) True)) (\<lambda>r.
       case r of
         Inl e \<Rightarrow> l_bind (l_log (''  [error] Docker: '' @ e)) (\<lambda>_. l_ret True)
       | Inr cs \<Rightarrow> reconcile_managed E fuel (managed_of cs)))"

end
