(* ===== verification/Recon_Props.thy ===== *)
theory Recon_Props
  imports Recon_Tick
begin

text \<open>
  Properties of one tick of the reconcile loop.
\<close>

subsection \<open>Names of new pods\<close>

lemma rk_pod_inj: "rk_pod name i = rk_pod name j \<longleftrightarrow> i = j"
  by (simp add: rk_pod_def show_nat_inject word_unat_eq_iff)

lemma free_index_in_spec:
  "\<exists>j. free_index_in k names name idx = idx + of_nat j \<and> j \<le> k
     \<and> (\<forall>i<j. rk_pod name (idx + of_nat i) \<in> set names)
     \<and> (j < k \<longrightarrow> rk_pod name (idx + of_nat j) \<notin> set names)"
proof (induction k names name idx rule: free_index_in.induct)
  case (2 k names name idx)
  show ?case
  proof (cases "rk_pod name idx \<in> set names")
    case True
    from 2[OF this] obtain j where j: "free_index_in k names name (idx + 1) = idx + 1 + of_nat j" "j \<le> k"
      "\<forall>i<j. rk_pod name (idx + 1 + of_nat i) \<in> set names" "j < k \<longrightarrow> rk_pod name (idx + 1 + of_nat j) \<notin> set names" by blast
    have "rk_pod name (idx + of_nat i) \<in> set names" if "i < Suc j" for i
      using that True j(3) by (cases i) (auto simp: add_ac)
    with True j show ?thesis by (intro exI[of _ "Suc j"]) (auto simp: add_ac)
  qed (auto intro: exI[of _ 0])
qed (auto intro: exI[of _ 0])

lemma free_index_spec:
  assumes "length names < 2 ^ 32"
  shows "\<exists>j \<le> length names. free_index names name idx = idx + of_nat j
    \<and> (\<forall>i<j. rk_pod name (idx + of_nat i) \<in> set names) \<and> rk_pod name (idx + of_nat j) \<notin> set names"
proof -
  obtain j where j: "free_index names name idx = idx + of_nat j" "j \<le> Suc (length names)"
    "\<forall>i<j. rk_pod name (idx + of_nat i) \<in> set names"
    "j < Suc (length names) \<longrightarrow> rk_pod name (idx + of_nat j) \<notin> set names"
    using free_index_in_spec[of "Suc (length names)" names name idx] unfolding free_index_def by blast
  have "j \<noteq> Suc (length names)"
  proof
    assume full: "j = Suc (length names)"
    let ?f = "\<lambda>i. rk_pod name (idx + of_nat i)"
    have "inj_on ?f {..<j}"
    proof (rule inj_onI)
      fix a b assume ab: "a \<in> {..<j}" "b \<in> {..<j}" "?f a = ?f b"
      then have "(of_nat a :: u32) = of_nat b" by (simp add: rk_pod_inj)
      moreover have "a < 2 ^ 32" "b < 2 ^ 32" using ab assms full by auto
      ultimately show "a = b" by (simp add: word_of_nat_eq_iff take_bit_nat_eq_self)
    qed
    then have "card (?f ` {..<j}) = j" by (simp add: card_image)
    moreover have "?f ` {..<j} \<subseteq> set names" using j(3) by auto
    ultimately have "j \<le> card (set names)" by (metis card_mono List.finite_set)
    then show False using full card_length[of names] by linarith
  qed
  with j show ?thesis by (intro exI[of _ j]) auto
qed


definition container_named :: "string \<Rightarrow> docker_container" where
  "container_named n = \<lparr>dc_id = n, dc_names = [n], dc_image = ''nginx'', dc_state = ''running'', dc_status = [], dc_labels = []\<rparr>"


text \<open>
  The names already given out in the same tick are not looked at: with one pod running as number two and three wanted, both new pods get number three.
\<close>

lemma pod_names_collide:
  "let M = [container_named ''/rk-web-2''] in
   map (\<lambda>i. free_index (all_names M) ''web'' (1 + of_nat i + 1)) [0..<2] = [3, 3]"
  by code_simp

subsection \<open>Which pods a scale-down removes\<close>

lemma mset_split: "mset (take n xs) + mset (drop n xs) = mset xs"
  by (metis append_take_drop_id mset_append)

lemma victims_spec:
  assumes "n \<le> length pods"
  shows "length (victims dep n pods) = n
    \<and> (\<exists>rest. mset pods = mset (victims dep n pods) + mset rest
         \<and> (d_stateful dep \<longrightarrow> (\<forall>v \<in> set (victims dep n pods). \<forall>c \<in> set rest. ordinal_of c \<le> ordinal_of v)))"
proof (cases "d_stateful dep")
  case True
  let ?s = "sort_key (\<lambda>c. - int (unat (ordinal_of c))) pods"
  have "ordinal_of c \<le> ordinal_of v" if "v \<in> set (take n ?s)" "c \<in> set (drop n ?s)" for v c
  proof -
    have "sorted (map (\<lambda>c. - int (unat (ordinal_of c))) (take n ?s @ drop n ?s))" by simp
    then have "- int (unat (ordinal_of v)) \<le> - int (unat (ordinal_of c))"
      using that unfolding map_append sorted_append by auto
    then show ?thesis by (simp add: word_le_def)
  qed
  moreover have "mset pods = mset (take n ?s) + mset (drop n ?s)" by (simp only: mset_split mset_sort)
  ultimately show ?thesis using True assms by (auto simp: victims_def intro!: exI[of _ "drop n ?s"])
next
  case False
  have "mset pods = mset (take n (rev pods)) + mset (drop n (rev pods))" by (simp only: mset_split mset_rev)
  then show ?thesis using False assms by (auto simp: victims_def)
qed

text \<open>An engine that also keeps the requests it was sent.\<close>

definition logged :: "'s exchange \<Rightarrow> (string list \<times> 's) exchange" where
  "logged ex st req = (case ex (snd st) req of (r, t) \<Rightarrow> (r, fst st @ [req], t))"

abbreviation sent :: "(string list \<times> 's) loop \<Rightarrow> string list" where
  "sent s \<equiv> fst (lp_engine s)"

definition stop_request :: "string \<Rightarrow> string" where
  "stop_request i = http_request ''POST'' (''/containers/'' @ i @ ''/stop?t=10'') None"

definition remove_request :: "string \<Rightarrow> string" where
  "remove_request i = http_request ''DELETE'' (''/containers/'' @ i @ ''?force=true'') None"

text \<open>The requests of a call, and of a step that returns.\<close>

definition call_sends :: "string list \<Rightarrow> (string list \<times> 's, 'a) call \<Rightarrow> bool" where
  "call_sends rs m = (\<forall>st r st'. m st = (r, st') \<longrightarrow> fst st' = fst st @ rs)"

definition l_sends :: "string list \<Rightarrow> (string list \<times> 's, 'a) recon \<Rightarrow> bool" where
  "l_sends rs m = (\<forall>s x s'. m s = (Ret x, s') \<longrightarrow> sent s' = sent s @ rs)"

lemma call_sendsI: "(\<And>st r st'. m st = (r, st') \<Longrightarrow> fst st' = fst st @ rs) \<Longrightarrow> call_sends rs m"
  unfolding call_sends_def by blast

lemma call_sendsD: "call_sends rs m \<Longrightarrow> m st = (r, st') \<Longrightarrow> fst st' = fst st @ rs"
  unfolding call_sends_def by blast

lemma docker_request_sends: "call_sends [http_request m p b] (docker_request (logged ex) m p b)"
  by (auto simp: call_sends_def docker_request_def logged_def call_fail_def lift_rust_def split: prod.splits sock.splits read_end.splits)

lemma call_sends_try_ret: "call_sends rs m \<Longrightarrow> call_sends rs (try_call m (\<lambda>_. call_ret x))"
  by (rule call_sendsI)
    (auto simp: try_call_def on_result_def call_ret_def call_fail_def split: prod.splits rust.splits sum.splits dest: call_sendsD)

lemma stop_container_sends: "call_sends [stop_request i] (stop_container (logged ex) i)"
  unfolding stop_container_def stop_request_def by (intro call_sends_try_ret docker_request_sends)

lemma remove_container_sends: "call_sends [remove_request i] (remove_container (logged ex) i True)"
  unfolding remove_container_def remove_request_def by (simp add: call_sends_try_ret docker_request_sends)

lemma l_sends_bind: "l_sends a m \<Longrightarrow> (\<And>x. l_sends b (f x)) \<Longrightarrow> l_sends (a @ b) (l_bind m f)"
  by (fastforce simp: l_sends_def l_bind_def split: prod.splits rust.splits)

lemma l_sends_ret [simp]: "l_sends [] (l_ret x)" "l_sends [] (l_get g)" "l_sends [] (l_log t)" "l_sends [] (l_world h)" "l_sends [] (l_event k ob r m t)"
  by (auto simp: l_sends_def l_ret_def l_get_def l_log_def l_world_def l_put_def l_event_def)

lemma l_sends_call: "call_sends rs m \<Longrightarrow> l_sends rs (l_call m)"
  by (auto simp: l_sends_def l_call_def split: prod.splits dest: call_sendsD)

lemma l_sends_do: "list_all2 l_sends rss ms \<Longrightarrow> l_sends (concat rss) (l_do ms)"
proof (induction rss ms rule: list_all2_induct)
  case (Cons r rs m ms)
  then show ?case by (auto intro: l_sends_bind)
qed simp

lemma l_sends_for: "(\<And>x. l_sends (g x) (f x)) \<Longrightarrow> l_sends (concat (map g xs)) (l_for f xs)"
  by (induction xs) (auto intro: l_sends_bind)

definition removals :: "docker_container list \<Rightarrow> string list" where
  "removals cs = concat (map (\<lambda>c. [stop_request (dc_id c), remove_request (dc_id c)]) cs)"

lemma l_sends_stop_remove:
  assumes "\<And>r. l_sends [] (a r)" and "\<And>r. l_sends [] (b r)"
  shows "l_sends [stop_request i, remove_request i]
    (l_bind (l_call (stop_container (logged ex) i)) (\<lambda>r. l_bind (a r) (\<lambda>_. l_bind (l_call (remove_container (logged ex) i True)) b)))"
proof -
  note remove = l_sends_bind[OF l_sends_call[OF remove_container_sends[of i ex]], of "[]" b, OF assms(2)]
  note stop = l_sends_bind[OF l_sends_call[OF stop_container_sends[of i ex]], OF l_sends_bind[OF assms(1) remove]]
  show ?thesis using stop by simp
qed

lemma scale_down_sends:
  assumes "le_exch E = logged ex"
  shows "l_sends (removals (victims dep (unat (current - d_replicas dep)) pods)) (scale_down E pods name dep current)"
proof -
  define f where "f = (\<lambda>c. l_bind (l_call (stop_container (logged ex) (dc_id c))) (\<lambda>r. l_bind (case r of
                     Inl e \<Rightarrow> l_log (''    [warn] stop '' @ first_name c @ '': '' @ e) | Inr _ \<Rightarrow> l_ret ()) (\<lambda>_.
                 l_bind (l_call (remove_container (logged ex) (dc_id c) True)) (\<lambda>r. case r of
                     Inl e \<Rightarrow> l_log (''    [warn] rm '' @ first_name c @ '': '' @ e)
                   | Inr _ \<Rightarrow> l_log (''    [remove] '' @ first_name c @ '' '' @ tick_mark)))))"
  have f: "l_sends [stop_request (dc_id c), remove_request (dc_id c)] (f c)" for c
    unfolding f_def by (rule l_sends_stop_remove) (simp_all split: sum.splits)
  let ?v = "victims dep (unat (current - d_replicas dep)) pods"
  have "l_sends (concat [[], [], removals ?v]) (scale_down E pods name dep current)"
    unfolding scale_down_def Let_def assms f_def[symmetric] removals_def
    by (rule l_sends_do) (simp add: l_sends_for[OF f])
  then show ?thesis by simp
qed

text \<open>
  C8: Scaling down removes exactly the excess: the engine is asked to stop and remove as many of the running pods as there are too many, and of a
  StatefulSet those with the highest ordinals.
\<close>
theorem scale_down_exact:
  assumes "le_exch E = logged ex" and "d_replicas dep < count32 pods" and "length pods < 2 ^ 32"
    and "scale_down E pods name dep (count32 pods) s = (Ret (), s')"
  shows "\<exists>vs rest. mset pods = mset vs + mset rest \<and> length rest = unat (d_replicas dep)
    \<and> (d_stateful dep \<longrightarrow> (\<forall>v \<in> set vs. \<forall>c \<in> set rest. ordinal_of c \<le> ordinal_of v))
    \<and> sent s' = sent s @ removals vs"
proof -
  have n: "unat (count32 pods) = length pods" using assms(3) by (simp add: count32_def unat_of_nat take_bit_nat_eq_self)
  have d: "unat (count32 pods - d_replicas dep) = length pods - unat (d_replicas dep)"
    using assms(2) by (simp add: unat_sub_if' n word_less_nat_alt)
  let ?v = "victims dep (length pods - unat (d_replicas dep)) pods"
  have le: "unat (d_replicas dep) < length pods" using assms(2) by (simp add: word_less_nat_alt n)
  obtain rest where rest: "mset pods = mset ?v + mset rest" "length ?v = length pods - unat (d_replicas dep)"
    "d_stateful dep \<longrightarrow> (\<forall>v \<in> set ?v. \<forall>c \<in> set rest. ordinal_of c \<le> ordinal_of v)"
    using victims_spec[of "length pods - unat (d_replicas dep)" pods dep] by auto
  have "length pods = length ?v + length rest" using rest(1) by (metis size_mset size_union)
  moreover have "sent s' = sent s @ removals ?v"
    using scale_down_sends[OF assms(1), of dep "count32 pods" pods name] assms(4) unfolding l_sends_def d by blast
  ultimately show ?thesis using rest le by (intro exI[of _ ?v] exI[of _ rest]) simp
qed

subsection \<open>Rolling updates\<close>

lemma l_bind_cong: "(\<And>x s'. m s = (Ret x, s') \<Longrightarrow> f x s' = g x s') \<Longrightarrow> l_bind m f s = l_bind m g s"
  by (auto simp: l_bind_def split: prod.splits rust.splits)

lemma with_world_cong: "f (lp_world s) s = g (lp_world s) s \<Longrightarrow> with_world f s = with_world g s"
  by (simp add: with_world_def)

lemma replace_pod_unready:
  assumes "\<And>s. fst (rollout_ready E cid c s) \<noteq> Ret True"
  shows "replace_pod E old name dep pod c cid s = replace_pod E [] name dep pod c cid s"
proof -
  have "drop_old_pod E old pod ready s' = drop_old_pod E [] pod ready s'" if "rollout_ready E cid c s0 = (Ret ready, s')" for ready s0 s'
    using that assms[of s0] by (cases ready) (auto simp: drop_old_pod_def)
  then show ?thesis unfolding replace_pod_def by (auto intro!: l_bind_cong split: sum.splits)
qed

lemma rollout_create_unready:
  assumes "\<And>cid c s. c \<in> set (take 1 (d_containers dep)) \<Longrightarrow> fst (rollout_ready E cid c s) \<noteq> Ret True"
  shows "rollout_create E M old name dep ro s = rollout_create E M [] name dep ro s"
proof (cases "d_containers dep")
  case (Cons c cs)
  then have "replace_pod E old name dep pod c cid s' = replace_pod E [] name dep pod c cid s'" for pod cid s'
    using assms by (intro replace_pod_unready) auto
  then show ?thesis
    unfolding rollout_create_def Let_def Cons by (auto intro!: with_world_cong l_bind_cong split: sum.splits)
qed (simp add: rollout_create_def)

lemma surge_guard_dead:
  assumes "count32 new < ro_total_replicas ro" and "length old + unat (ro_total_replicas ro) < 2 ^ 32"
  shows "\<not> count32 old + ro_total_replicas ro < count32 new + 1"
proof -
  have "unat (count32 old + ro_total_replicas ro) = length old + unat (ro_total_replicas ro)"
    using assms(2) by (simp add: count32_def unat_word_ariths unat_of_nat take_bit_nat_eq_self)
  moreover have "unat (count32 new + 1) \<le> unat (ro_total_replicas ro)"
    using assms(1) by (simp add: word_le_nat_alt[symmetric] inc_le)
  ultimately show ?thesis by (simp add: word_less_nat_alt)
qed

text \<open>
  C10: While a new pod's readiness probe never passes, an unfinished rolling update leaves the old pods alone: the step goes as if there were none.
\<close>
theorem unready_rollout_keeps_old:
  assumes "hm_get (pending_rollouts (lp_world s)) name = Some ro" and "hm_get (deployments (lp_world s)) name = Some dep"
    and "count32 (running_images name (ro_new_image ro) M) < ro_total_replicas ro"
    and "length M + unat (ro_total_replicas ro) < 2 ^ 32"
    and "\<And>cid c s. c \<in> set (take 1 (d_containers dep)) \<Longrightarrow> fst (rollout_ready E cid c s) \<noteq> Ret True"
  shows "rollout_step E M name s =
    l_bind (l_log (''  [rollout] '' @ name @ '': '' @ ro_old_image ro @ '' '' @ arrow_mark @ '' '' @ ro_new_image ro @ '' (''
      @ show_word (ro_new_pods_created ro) @ ''/'' @ show_word (ro_total_replicas ro) @ '' done)'')) (\<lambda>_. rollout_create E M [] name dep ro) s"
proof -
  let ?old = "running_images name (ro_old_image ro) M" and ?new = "running_images name (ro_new_image ro) M"
  have "length ?old \<le> length M" by (simp add: running_images_def)
  then have "\<not> count32 ?old + ro_total_replicas ro < count32 ?new + 1"
    using assms(3,4) by (intro surge_guard_dead) auto
  moreover have "\<not> ro_total_replicas ro \<le> count32 ?new" using assms(3) by simp
  ultimately show ?thesis
    using assms(1,2) rollout_create_unready[of dep E M ?old name ro] assms(5)
    by (auto simp: rollout_step_def with_world_def Let_def intro!: l_bind_cong)
qed

lemma stop_and_forget_sends:
  assumes "le_exch E = logged ex"
  shows "l_sends [stop_request (dc_id c), remove_request (dc_id c)] (stop_and_forget E c)"
proof -
  have "l_sends ([stop_request (dc_id c)] @ []) (l_try (stop_container (logged ex) (dc_id c)))"
    "l_sends ([remove_request (dc_id c)] @ []) (l_try (remove_container (logged ex) (dc_id c) True))"
    unfolding l_try_def by (intro l_sends_bind l_sends_call stop_container_sends remove_container_sends l_sends_ret)+
  then have "l_sends (concat [[stop_request (dc_id c)], [remove_request (dc_id c)]]) (stop_and_forget E c)"
    unfolding stop_and_forget_def assms by (intro l_sends_do) simp
  then show ?thesis by simp
qed

lemma finish_rollout_sends:
  assumes "le_exch E = logged ex"
  shows "l_sends (removals old) (finish_rollout E old name ro)"
proof -
  define f where "f = (\<lambda>old. l_do [stop_and_forget E old, l_log (''    [rollout] removed old '' @ first_name old @ '' '' @ tick_mark)])"
  have "l_sends (concat [[stop_request (dc_id c), remove_request (dc_id c)], []]) (f c)" for c
    unfolding f_def by (rule l_sends_do) (simp add: stop_and_forget_sends[OF assms])
  then have f: "l_sends [stop_request (dc_id c), remove_request (dc_id c)] (f c)" for c by simp
  have "l_sends (concat [removals old, [], []]) (finish_rollout E old name ro)"
    unfolding finish_rollout_def f_def[symmetric] removals_def l_record_def by (rule l_sends_do) (simp add: l_sends_for[OF f])
  then show ?thesis by simp
qed


subsection \<open>Packet filters\<close>

text \<open>
  What the rules mean: a packet that leaves a pod, the filter chain the commands build, and the verdict of the first rule that fits.
\<close>

record packet =
  pk_iface :: string
  pk_state :: string
  pk_proto :: string
  pk_dport :: u16

fun fits :: "packet \<Rightarrow> string list \<Rightarrow> bool" where
  "fits pk (opt # val # rest) =
     ((if opt = ''-o'' then pk_iface pk = val
       else if opt = ''-m'' then True
       else if opt = ''--state'' then pk_state pk \<in> set (str_split (CHR '','') val)
       else if opt = ''-p'' then pk_proto pk = val
       else opt = ''--dport'' \<and> parse_u16 val = Some (pk_dport pk)) \<and> fits pk rest)"
| "fits pk _ = True"

fun filter_chain :: "(string list \<times> string) list \<Rightarrow> string list list \<Rightarrow> (string list \<times> string) list" where
  "filter_chain ch [] = ch"
| "filter_chain ch (cmd # cmds) =
     filter_chain (if cmd = [''-F'', ''OUTPUT''] then []
                   else if take 2 cmd = [''-A'', ''OUTPUT''] then ch @ [(butlast (butlast (drop 2 cmd)), last cmd)] else ch) cmds"

fun verdict :: "packet \<Rightarrow> (string list \<times> string) list \<Rightarrow> string" where
  "verdict pk [] = ''ACCEPT''"
| "verdict pk ((conds, target) # ch) = (if fits pk conds then target else verdict pk ch)"

definition visible :: "char \<Rightarrow> bool" where
  "visible c = (let n = of_char c :: nat in 33 \<le> n \<and> n \<le> 126)"

lemma white_space_heads: "list_all (\<lambda>p. case p of [] \<Rightarrow> False | c # _ \<Rightarrow> \<not> visible c) white_spaces"
  by code_simp

lemma strip_any_visible: "visible c \<Longrightarrow> strip_any white_spaces (c # cs) = None"
proof -
  assume c: "visible c"
  have "\<not> starts_with (c # cs) p" if "p \<in> set white_spaces" for p
  proof -
    have "case p of [] \<Rightarrow> False | d # _ \<Rightarrow> \<not> visible d" using that white_space_heads by (simp add: list_all_iff del: set_ConsD)
    then show ?thesis using c by (cases p) (auto simp: starts_with_def)
  qed
  then show ?thesis by (auto simp: strip_any_def find_None_iff)
qed

lemma split_ws_visible: "list_all visible w \<Longrightarrow> split_ws acc (w @ s) = split_ws (acc @ w) s"
  by (induction w arbitrary: acc) (auto simp: strip_any_visible)

lemma split_ws_space: "split_ws acc (CHR '' '' # s) = (if acc = [] then [] else [acc]) @ split_ws [] s"
proof -
  have "strip_any white_spaces (CHR '' '' # s) = Some s"
    by (simp add: strip_any_def white_spaces_def starts_with_def)
  then show ?thesis by simp
qed

lemma split_ws_join: "list_all (\<lambda>w. w \<noteq> [] \<and> list_all visible w) ws \<Longrightarrow> split_ws [] (join '' '' ws) = ws"
proof (induction ws rule: induct_list012)
  case (2 w)
  then show ?case using split_ws_visible[of w "[]" "[]"] by simp
next
  case (3 v w ws)
  then show ?case by (simp add: split_ws_visible split_ws_space del: split_ws.simps)
qed simp

lemma visible_digits: "list_all visible (show_nat n)"
proof -
  have "visible c" if "c \<in> set (show_nat n)" for c
    using show_nat_digits[OF that] by (auto simp: visible_def digit_val_def Let_def split: if_splits)
  then show ?thesis by (simp add: list_all_iff)
qed

lemma port_rule:
  "sh (''-A OUTPUT -p tcp --dport '' @ show_word q @ '' -j ACCEPT'')
     = [''-A'', ''OUTPUT'', ''-p'', ''tcp'', ''--dport'', show_word q, ''-j'', ''ACCEPT'']"
  using split_ws_join[of "[''-A'', ''OUTPUT'', ''-p'', ''tcp'', ''--dport'', show_word q, ''-j'', ''ACCEPT'']"] visible_digits[of "unat q"]
  by (simp add: visible_def del: split_ws.simps)

lemma fixed_rules:
  "sh ''-F OUTPUT'' = [''-F'', ''OUTPUT'']" "sh ''-A OUTPUT -o lo -j ACCEPT'' = [''-A'', ''OUTPUT'', ''-o'', ''lo'', ''-j'', ''ACCEPT'']"
  "sh ''-A OUTPUT -m state --state ESTABLISHED,RELATED -j ACCEPT''
     = [''-A'', ''OUTPUT'', ''-m'', ''state'', ''--state'', ''ESTABLISHED,RELATED'', ''-j'', ''ACCEPT'']"
  "sh ''-A OUTPUT -p udp --dport 53 -j ACCEPT'' = [''-A'', ''OUTPUT'', ''-p'', ''udp'', ''--dport'', ''53'', ''-j'', ''ACCEPT'']"
  "sh ''-A OUTPUT -p tcp --dport 53 -j ACCEPT'' = [''-A'', ''OUTPUT'', ''-p'', ''tcp'', ''--dport'', ''53'', ''-j'', ''ACCEPT'']"
  "sh ''-A OUTPUT -j DROP'' = [''-A'', ''OUTPUT'', ''-j'', ''DROP'']"
  using split_ws_join[of "[''-F'', ''OUTPUT'']"] split_ws_join[of "[''-A'', ''OUTPUT'', ''-o'', ''lo'', ''-j'', ''ACCEPT'']"]
    split_ws_join[of "[''-A'', ''OUTPUT'', ''-m'', ''state'', ''--state'', ''ESTABLISHED,RELATED'', ''-j'', ''ACCEPT'']"]
    split_ws_join[of "[''-A'', ''OUTPUT'', ''-p'', ''udp'', ''--dport'', ''53'', ''-j'', ''ACCEPT'']"]
    split_ws_join[of "[''-A'', ''OUTPUT'', ''-p'', ''tcp'', ''--dport'', ''53'', ''-j'', ''ACCEPT'']"]
    split_ws_join[of "[''-A'', ''OUTPUT'', ''-j'', ''DROP'']"]
  by (simp_all add: visible_def del: split_ws.simps)

lemma filter_chain_append: "filter_chain ch (a @ b) = filter_chain (filter_chain ch a) b"
  by (induction ch a rule: filter_chain.induct) auto

lemma filter_chain_ports:
  "filter_chain ch (map (\<lambda>q. [''-A'', ''OUTPUT'', ''-p'', ''tcp'', ''--dport'', show_word q, ''-j'', ''ACCEPT'']) qs)
     = ch @ map (\<lambda>q. ([''-p'', ''tcp'', ''--dport'', show_word q], ''ACCEPT'')) qs"
  by (induction qs arbitrary: ch) simp_all

lemma verdict_append: "verdict pk (a @ b) = (if list_ex (\<lambda>(c, t). fits pk c) a then verdict pk a else verdict pk b)"
  by (induction a) auto

lemma verdict_ports:
  "list_ex (\<lambda>(c, t). fits pk c) (map (\<lambda>q. ([''-p'', ''tcp'', ''--dport'', show_word q], ''ACCEPT'')) qs)
     \<longleftrightarrow> pk_proto pk = ''tcp'' \<and> pk_dport pk \<in> set qs"
  "verdict pk (map (\<lambda>q. ([''-p'', ''tcp'', ''--dport'', show_word q], ''ACCEPT'')) qs) = ''ACCEPT''"
  by (induction qs) auto

text \<open>
  C12: The packet filter of a restricting policy does what the policy says, whatever rules were there before: out of the pod go loopback traffic, replies, DNS
  and TCP to the listed ports, and nothing else.
\<close>
theorem l4_rules_enforce:
  assumes "needs_l4 p"
  shows "verdict pk (filter_chain before (l4_rules p)) =
    (if pk_iface pk = ''lo'' \<or> pk_state pk \<in> {''ESTABLISHED'', ''RELATED''}
        \<or> pk_proto pk \<in> {''udp'', ''tcp''} \<and> pk_dport pk = 53 \<or> pk_proto pk = ''tcp'' \<and> pk_dport pk \<in> set (np_egress_ports p)
     then ''ACCEPT'' else ''DROP'')"
proof -
  let ?ports = "map (\<lambda>q. ([''-p'', ''tcp'', ''--dport'', show_word q], ''ACCEPT'')) (np_egress_ports p)"
  let ?open = "[([''-o'', ''lo''], ''ACCEPT''), ([''-m'', ''state'', ''--state'', ''ESTABLISHED,RELATED''], ''ACCEPT''),
    ([''-p'', ''udp'', ''--dport'', ''53''], ''ACCEPT''), ([''-p'', ''tcp'', ''--dport'', ''53''], ''ACCEPT'')]"
  have chain: "filter_chain before (l4_rules p) = ?open @ ?ports @ [([], ''DROP'')]"
  proof (cases "np_egress_ports p = []")
    case True
    then have "np_deny_all p \<or> np_internal p" using assms by (simp add: needs_l4_def)
    then show ?thesis using True unfolding l4_rules_def fixed_rules by simp
  next
    case False
    then show ?thesis unfolding l4_rules_def fixed_rules port_rule
      by (simp add: filter_chain_append filter_chain_ports)
  qed
  have "show_nat 53 = ''53''" by code_simp
  then have "show_word (53 :: u16) = ''53''" by simp
  with parse_u16_show[of 53] have "parse_u16 ''53'' = Some 53" by simp
  moreover have "str_split (CHR '','') ''ESTABLISHED,RELATED'' = [''ESTABLISHED'', ''RELATED'']" by simp
  ultimately have fit: "list_ex (\<lambda>(c, t). fits pk c) ?open \<longleftrightarrow> pk_iface pk = ''lo'' \<or> pk_state pk \<in> {''ESTABLISHED'', ''RELATED''}
      \<or> pk_proto pk \<in> {''udp'', ''tcp''} \<and> pk_dport pk = 53"
    by auto
  have acc: "verdict pk ?open = ''ACCEPT''" by simp
  show ?thesis unfolding chain verdict_append[of pk ?open] verdict_append[of pk ?ports] verdict_ports fit acc by auto
qed

end
