(* ===== verification/Recon_Laws.thy ===== *)
theory Recon_Laws
  imports Recon_Tick Apply_Props
begin

text \<open>
  What a tick keeps of the world. The locale \<open>tick_invariant\<close> states what a property of the world has to bear (the updates a tick makes,
  and the operations of other components it calls); then every step of the tick keeps it, and so does the whole tick, whether it
  returns or panics. Well-formedness of the world is such a property.
\<close>

definition l_keeps :: "(json desired_world \<Rightarrow> bool) \<Rightarrow> ('s, 'a) recon \<Rightarrow> bool" where
  "l_keeps P m = (\<forall>s r s'. P (lp_world s) \<longrightarrow> m s = (r, s') \<longrightarrow> P (lp_world s'))"

named_theorems keeps_steps \<open>steps that keep a property of the world\<close>

lemma l_keeps_basic [keeps_steps]:
  "l_keeps P (l_ret x)" "l_keeps P (l_get g)" "l_keeps P (l_rust r)" "l_keeps P (l_log t)" "l_keeps P (l_event k ob re msg ty)"
  "l_keeps P (l_act a)" "l_keeps P (l_brain f)" "l_keeps P (l_builds h)"
  by (auto simp: l_keeps_def l_ret_def l_get_def l_rust_def l_log_def l_event_def l_act_def l_brain_def l_builds_def l_put_def)

lemma l_keeps_call [keeps_steps]: "l_keeps P (l_call m)"
  by (auto simp: l_keeps_def l_call_def split: prod.splits)

lemma l_keeps_bind [keeps_steps]: "l_keeps P m \<Longrightarrow> (\<And>x. l_keeps P (f x)) \<Longrightarrow> l_keeps P (l_bind m f)"
proof (unfold l_keeps_def, intro allI impI)
  fix s r s'
  assume k: "\<forall>s r s'. P (lp_world s) \<longrightarrow> m s = (r, s') \<longrightarrow> P (lp_world s')"
    and f: "\<And>x. \<forall>s r s'. P (lp_world s) \<longrightarrow> f x s = (r, s') \<longrightarrow> P (lp_world s')"
    and s: "P (lp_world s)" "l_bind m f s = (r, s')"
  obtain y t where y: "m s = (y, t)" by force
  then have "P (lp_world t)" using k s(1) by blast
  then show "P (lp_world s')" using s(2) y f by (cases y) (auto simp: l_bind_def)
qed

lemma l_keeps_try [keeps_steps]: "l_keeps P (l_try m)"
  unfolding l_try_def by (intro keeps_steps)

lemma l_keeps_if [keeps_steps]: "(c \<Longrightarrow> l_keeps P m) \<Longrightarrow> l_keeps P (l_if c m)"
  by (simp add: l_if_def keeps_steps)

lemma l_keeps_do_Nil [keeps_steps]: "l_keeps P (l_do [])"
  by (simp add: keeps_steps)

lemma l_keeps_do_Cons [keeps_steps]: "l_keeps P m \<Longrightarrow> l_keeps P (l_do ms) \<Longrightarrow> l_keeps P (l_do (m # ms))"
  by (simp add: l_keeps_bind)

lemma l_keeps_for [keeps_steps]: "(\<And>x. l_keeps P (f x)) \<Longrightarrow> l_keeps P (l_for f xs)"
  by (induction xs) (auto intro: keeps_steps)

lemma l_keeps_fold [keeps_steps]: "(\<And>x b. l_keeps P (f x b)) \<Longrightarrow> l_keeps P (l_fold f xs b)"
  by (induction xs arbitrary: b) (auto intro: keeps_steps)

lemma l_keeps_world [keeps_steps]: "(\<And>w. P w \<Longrightarrow> P (f w)) \<Longrightarrow> l_keeps P (l_world f)"
  by (auto simp: l_keeps_def l_world_def l_put_def)

lemma l_keeps_with [keeps_steps]: "(\<And>w. P w \<Longrightarrow> l_keeps P (f w)) \<Longrightarrow> l_keeps P (with_world f)"
  by (auto simp: l_keeps_def with_world_def)

lemma l_keeps_cases [keeps_steps]:
  "(\<And>x. l_keeps P (f x)) \<Longrightarrow> l_keeps P g \<Longrightarrow> l_keeps P (case o' of Some x \<Rightarrow> f x | None \<Rightarrow> g)"
  "(\<And>e. l_keeps P (f1 e)) \<Longrightarrow> (\<And>x. l_keeps P (f2 x)) \<Longrightarrow> l_keeps P (case r of Inl e \<Rightarrow> f1 e | Inr x \<Rightarrow> f2 x)"
  "(c \<Longrightarrow> l_keeps P a) \<Longrightarrow> (\<not> c \<Longrightarrow> l_keeps P b) \<Longrightarrow> l_keeps P (if c then a else b)"
  "(\<And>x y. l_keeps P (h x y)) \<Longrightarrow> l_keeps P (case pr of (x, y) \<Rightarrow> h x y)"
  by (simp_all split: option.splits sum.splits prod.splits)

text \<open>A call that carries the world along, when the property holds of every world it hands back.\<close>

lemma l_keeps_yield:
  assumes "\<And>w. P w \<Longrightarrow> yields (\<lambda>p. P (snd p)) (m w)" and "\<And>e. l_keeps P (f e)" and "\<And>res. l_keeps P (g res)"
  shows "l_keeps P (with_world (\<lambda>w. l_bind (l_call (m w)) (\<lambda>r. case r of Inl e \<Rightarrow> f e | Inr (res, w') \<Rightarrow> l_do [l_world (\<lambda>_. w'), g res])))"
  unfolding l_keeps_def
proof (intro allI impI)
  fix s r s'
  assume P: "P (lp_world s)"
    and e: "with_world (\<lambda>w. l_bind (l_call (m w)) (\<lambda>r. case r of Inl e \<Rightarrow> f e | Inr (res, w') \<Rightarrow> l_do [l_world (\<lambda>_. w'), g res])) s = (r, s')"
  obtain y t where y: "m (lp_world s) (lp_engine s) = (y, t)" by force
  have Pt: "P (lp_world (s\<lparr>lp_engine := t\<rparr>))" using P by simp
  show "P (lp_world s')"
  proof (cases y)
    case Panic
    then show ?thesis using e y P by (auto simp: with_world_def l_bind_def l_call_def)
  next
    case (Ret z)
    show ?thesis
    proof (cases z)
      case (Inl er)
      then have "f er (s\<lparr>lp_engine := t\<rparr>) = (r, s')" using e y Ret by (simp add: with_world_def l_bind_def l_call_def)
      then show ?thesis using assms(2)[of er] Pt unfolding l_keeps_def by blast
    next
      case (Inr p)
      have "P (snd p)" using assms(1)[OF P] y Ret Inr unfolding yields_def by (metis prod.collapse)
      then have "l_keeps P (l_do [l_world (\<lambda>_. snd p), g (fst p)])" by (intro keeps_steps assms(3))
      moreover have "l_do [l_world (\<lambda>_. snd p), g (fst p)] (s\<lparr>lp_engine := t\<rparr>) = (r, s')"
        using e y Ret Inr by (simp add: with_world_def l_bind_def l_call_def split_def)
      ultimately show ?thesis using Pt unfolding l_keeps_def by blast
    qed
  qed
qed

lemma fold_keeps: "P w \<Longrightarrow> (\<And>x w. P w \<Longrightarrow> P (f x w)) \<Longrightarrow> P (fold f xs w)"
  by (induction xs arbitrary: w) auto

lemma yields_mono: "yields Q m \<Longrightarrow> (\<And>x. Q x \<Longrightarrow> R x) \<Longrightarrow> yields R m"
  unfolding yields_def by blast

subsection \<open>The contract\<close>

locale tick_invariant =
  fixes P :: "json desired_world \<Rightarrow> bool" and E :: "('y, 's) loop_env"
  assumes recorded: "P w \<Longrightarrow> P (record_event now k ob re msg ty w)"
    and counters: "P w \<Longrightarrow> P (w\<lparr>restart_count := rc\<rparr>)"
    and startups: "P w \<Longrightarrow> P (w\<lparr>startup_ok := su\<rparr>)"
    and markers: "P w \<Longrightarrow> P (w\<lparr>netpol_applied := ms\<rparr>)"
    and authority: "P w \<Longrightarrow> P (w\<lparr>cluster_ca := ca\<rparr>)"
    and certs: "P w \<Longrightarrow> P (w\<lparr>pod_certs := pcs\<rparr>)"
    and audit: "P w \<Longrightarrow> P (w\<lparr>network_audit := au\<rparr>)"
    and tracker: "P w \<Longrightarrow> P (w\<lparr>net_tracker := tr\<rparr>)"
    and runs: "P w \<Longrightarrow> P (w\<lparr>pipeline_runs := rs\<rparr>)"
    and rollouts: "P w \<Longrightarrow> P (w\<lparr>pending_rollouts := filter q (pending_rollouts w)\<rparr>)"
    and deployment: "P w \<Longrightarrow> (\<And>d. d_name (f d) = d_name d) \<Longrightarrow> P (w\<lparr>deployments := hm_modify n f (deployments w)\<rparr>)"
    and node: "P w \<Longrightarrow> (\<And>d. cn_name (fn d) = cn_name d) \<Longrightarrow> P (w\<lparr>nodes := hm_modify n fn (nodes w)\<rparr>)"
    and hpa: "P w \<Longrightarrow> (\<And>d. hpa_name (fh d) = hpa_name d) \<Longrightarrow> P (w\<lparr>hpas := hm_modify n fh (hpas w)\<rparr>)"
    and cronjob: "P w \<Longrightarrow> (\<And>d. cj_name (fc d) = cj_name d) \<Longrightarrow> P (w\<lparr>cronjobs := hm_modify n fc (cronjobs w)\<rparr>)"
    and repository: "P w \<Longrightarrow> (\<And>d. repo_name (fr d) = repo_name d) \<Longrightarrow> P (w\<lparr>repositories := hm_modify n fr (repositories w)\<rparr>)"
    and health: "P w \<Longrightarrow> P (fst (check_node_health me now w))"
    and operated: "P w \<Longrightarrow> reconcile_operators serde_value up run (w, lg, es) = Ret (w', lg', es') \<Longrightarrow> P w'"
    and invoked: "P w \<Longrightarrow> P (count_call now n w)"
    and triggered: "P w \<Longrightarrow> P (snd (start_pipeline now i n w))"
    and applied: "P w \<Longrightarrow> apply_resource (ae_yaml (le_api E)) serde_value M r w = Ret (res, w', es) \<Longrightarrow> P w'"
begin

lemmas upd = recorded counters startups markers authority certs audit tracker runs rollouts deployment node hpa cronjob repository

lemma record_step: "l_keeps P (l_record E k ob re msg ty)"
  unfolding l_record_def by (intro keeps_steps upd)

lemma probe_step: "l_keeps P (check_probe E cid probe)"
  unfolding check_probe_def by (intro keeps_steps)

lemma sts_step: "l_keeps P (sts_scan E name dep cs st)"
proof (induction cs arbitrary: st)
  case (Cons c cs)
  then show ?case by (cases st) (auto simp: Let_def intro!: keeps_steps probe_step split: option.splits)
qed (simp add: keeps_steps)

lemma ordinal_step: "l_keeps P (sts_ordinal E M name dep)"
  unfolding sts_ordinal_def Let_def by (intro keeps_steps sts_step)

lemma wait_step: "l_keeps P (wait_init E name i)"
proof (induction E name i rule: wait_init.induct)
  case (1 E name i)
  then show ?case by (subst wait_init.simps) (auto intro!: keeps_steps)
qed

lemma init_step: "l_keeps P (run_init E pod init)"
  unfolding run_init_def Let_def by (intro keeps_steps wait_step)

lemma inits_step: "l_keeps P (run_inits E pod is)"
  by (induction "is") (auto intro!: keeps_steps init_step)

lemma identity_step: "l_keeps P (identity_env E pod ns)"
  unfolding identity_env_def by (auto intro!: keeps_steps upd split: sum.splits)

lemma volume_step: "l_keeps P (resolve_volume E name dep idx v vols)"
  unfolding resolve_volume_def project_volume_def Let_def by (intro keeps_steps)

lemma networks_step: "l_keeps P (join_networks E name dep pod cid)"
  unfolding join_networks_def Let_def by (intro keeps_steps)

lemma started_step: "l_keeps P (start_created E name dep pod b c cname cid)"
  unfolding start_created_def by (intro keeps_steps networks_step)

lemma container_step: "l_keeps P (start_pod_container E name dep pod idx ic)"
  unfolding start_pod_container_def Let_def by (intro keeps_steps identity_step volume_step started_step)

lemma send_step: "l_keeps P (send_pod E name dep pod t)"
  unfolding send_pod_def Let_def by (auto intro!: keeps_steps upd)

lemma new_pod_step: "l_keeps P (new_pod E M name dep start)"
  unfolding new_pod_def Let_def by (intro keeps_steps send_step inits_step container_step)

lemma scale_step: "l_keeps P (scale_deployment E M nd)"
proof -
  have "l_keeps P (scale_up E M name dep cur)" for name dep cur
    unfolding scale_up_def pull_once_def Let_def by (intro keeps_steps ordinal_step new_pod_step)
  moreover have "l_keeps P (scale_down E pods name dep cur)" for pods name dep cur
    unfolding scale_down_def Let_def by (intro keeps_steps)
  moreover have "l_keeps P (clean_up E c)" for c
    unfolding clean_up_def Let_def by (intro keeps_steps upd)
  ultimately show ?thesis unfolding scale_deployment_def Let_def by (intro keeps_steps upd)
qed

lemma rollout_steps: "l_keeps P (roll_out E M)"
proof -
  have f: "l_keeps P (stop_and_forget E c)" for c unfolding stop_and_forget_def by (intro keeps_steps)
  have t: "l_keeps P (probe_tries E k cid probe)" for k cid probe by (induction k) (auto intro!: keeps_steps probe_step)
  have "l_keeps P (drop_old_pod E old pod b)" for old pod b
    unfolding drop_old_pod_def by (auto intro!: keeps_steps f split: list.splits)
  then have "l_keeps P (replace_pod E old name dep pod c cid)" for old name dep pod c cid
    unfolding replace_pod_def rollout_ready_def by (intro keeps_steps t)
  then have "l_keeps P (rollout_create E M old name dep ro)" for old name dep ro
    unfolding rollout_create_def Let_def by (auto intro!: keeps_steps split: list.splits sum.splits)
  moreover have "l_keeps P (finish_rollout E old name ro)" for old name ro
    unfolding finish_rollout_def by (intro keeps_steps f record_step)
  ultimately have "l_keeps P (rollout_step E M name)" for name
    unfolding rollout_step_def Let_def by (intro keeps_steps)
  then show ?thesis unfolding roll_out_def by (intro keeps_steps upd)
qed

end

context tick_invariant
begin

lemma strategies_step: "l_keeps P (strategies E M)"
proof -
  have "l_keeps P (blue_green E M name ro active)" for name ro active
    unfolding blue_green_def stop_and_forget_def Let_def by (intro keeps_steps)
  then have "l_keeps P (strategy_step E M name)" for name
    unfolding strategy_step_def by (auto intro!: keeps_steps split: option.splits deploy_strategy.splits)
  then show ?thesis unfolding strategies_def by (intro keeps_steps)
qed

lemma restart_step: "l_keeps P (restart_in_place E c)"
  unfolding restart_in_place_def by (intro keeps_steps)

lemma check_step: "l_keeps P (check_pod E main c st)"
proof -
  have "l_keeps P (startup_check E c pod short probe st)" for pod short probe
    unfolding startup_check_def Let_def by (intro keeps_steps probe_step restart_step)
  moreover have "l_keeps P (liveness_check E c pod short probe)" "l_keeps P (readiness_check E pod short probe)" for pod short probe
    unfolding liveness_check_def readiness_check_def by (intro keeps_steps probe_step restart_step)+
  ultimately show ?thesis unfolding check_pod_def Let_def by (auto intro!: keeps_steps split: option.splits bool.splits)
qed

lemma startup_books: "P w \<Longrightarrow> P (fold count_startup failed (fold pass_startup passed w))"
  by (intro fold_keeps[of P]) (auto simp: pass_startup_def count_startup_def intro!: upd)

lemma health_step: "l_keeps P (health_checks E M)"
proof -
  have "l_keeps P (check_deployment E M nd st)" for nd st
    unfolding check_deployment_def by (auto intro!: keeps_steps check_step split: option.splits)
  then show ?thesis unfolding health_checks_def by (intro keeps_steps startup_books)
qed

lemma nodes_step: "l_keeps P (node_checks E M)"
proof -
  have r: "P w \<Longrightarrow> P (refresh_own_node me now n w)" for me now n w
    by (auto simp: refresh_own_node_def intro!: upd split: option.splits)
  show ?thesis
    unfolding node_checks_def
  proof (rule l_keeps_with)
    fix w assume "P w"
    then have h: "P (fst (check_node_health (le_me E) (le_now E) w))" by (rule health)
    show "l_keeps P (let (w1, lg) = check_node_health (le_me E) (le_now E) w
       in l_do [l_world (\<lambda>_. w1), l_for l_log lg, l_world (refresh_own_node (le_me E) (le_now E) (count32 (filter running M)))])"
      unfolding Let_def split_def by (intro keeps_steps r h)
  qed
qed

lemma alert_step: "l_keeps P (alert_by E fname)"
proof -
  have y: "yields (\<lambda>p. P (snd p)) (invoke_function (le_api E) fname w)" if "P w" for w
    using invoke_function_counted[of "le_api E" fname w] by (rule yields_mono) (auto simp: counted_def invoked that)
  show ?thesis
    unfolding alert_by_def Let_def by (rule l_keeps_yield[OF y]) (auto intro!: keeps_steps split: sum.splits)
qed

lemma anomalies_step: "l_keeps P (anomalies E M)"
proof -
  have o': "l_keeps P (observe_pod E c)" for c
    unfolding observe_pod_def by (auto intro!: keeps_steps split: sum.splits)
  have "l_keeps P (scale_guarded op n)" for op n
    unfolding scale_guarded_def by (auto intro!: keeps_steps upd split: option.splits)
  then have "l_keeps P (run_guard E M pod ga)" for pod ga
    unfolding run_guard_def Let_def split_def by (intro keeps_steps restart_step)
  then have "l_keeps P (handle_anomaly E M a)" for a
    unfolding handle_anomaly_def by (intro keeps_steps alert_step)
  then show ?thesis unfolding anomalies_def by (intro keeps_steps o')
qed

lemma operators_step: "l_keeps P (run_operators E)"
  unfolding run_operators_def
proof (rule l_keeps_with)
  fix w assume w: "P w"
  show "l_keeps P (l_bind (l_rust (reconcile_operators serde_value (le_upper E) (le_run E) (w, [], []))) (\<lambda>(w', lg, es).
       l_do [l_world (\<lambda>_. w'), l_for l_log lg, l_for (\<lambda>e. l_act (Host e)) es]))"
  proof (cases "reconcile_operators serde_value (le_upper E) (le_run E) (w, [], [])")
    case (Ret x)
    then have "P (fst x)" using operated[OF w] by (metis prod.collapse)
    then have "l_keeps P (l_do [l_world (\<lambda>_. fst x), l_for l_log (fst (snd x)), l_for (\<lambda>e. l_act (Host e)) (snd (snd x))])"
      by (intro keeps_steps)
    then show ?thesis by (simp add: Ret l_keeps_def l_bind_def l_rust_def split_def)
  qed (simp add: l_keeps_def l_bind_def l_rust_def)
qed

lemma pauses_step: "l_keeps P (pauses E M)"
proof -
  have h: "l_keeps P (hibernate E pods n secs)" for pods n secs
    unfolding hibernate_def by (auto intro!: keeps_steps upd)
  have i: "P w \<Longrightarrow> P (mark_idle n ticks w)" for n ticks w
    by (auto simp: mark_idle_def intro!: upd)
  have "l_keeps P (pause_step E M n)" for n
    unfolding pause_step_def Let_def by (auto intro!: keeps_steps upd h i split: option.splits)
  then show ?thesis unfolding pauses_def by (intro keeps_steps)
qed

lemma labelled_step: "l_keeps P (run_labelled E pod c label name)"
  unfolding run_labelled_def by (intro keeps_steps)

lemma workloads_step: "l_keeps P (daemonsets_and_jobs E M)"
proof -
  have "l_keeps P (daemonset_step E M nd)" for nd
    unfolding daemonset_step_def Let_def split_def by (intro keeps_steps)
  moreover have "l_keeps P (job_step E M nj)" for nj
    unfolding job_step_def Let_def split_def by (intro keeps_steps labelled_step)
  ultimately show ?thesis unfolding daemonsets_and_jobs_def by (intro keeps_steps)
qed

lemma autoscale_step: "l_keeps P (autoscale E M)"
proof -
  have "l_keeps P (hpa_step E M kh acc)" for kh acc
    unfolding hpa_step_def Let_def split_def by (auto intro!: keeps_steps split: option.splits)
  moreover have "P w \<Longrightarrow> P (fold apply_scaling acc w)" for acc w
    by (rule fold_keeps) (auto simp: apply_scaling_def intro!: upd)
  moreover have "P w \<Longrightarrow> P (fold (stamp_scaling now) acc w)" for now acc w
    by (rule fold_keeps) (auto simp: stamp_scaling_def intro!: upd)
  ultimately show ?thesis unfolding autoscale_def by (intro keeps_steps) blast+
qed

lemma cron_step: "l_keeps P (run_cronjobs E)"
proof -
  have "l_keeps P (cron_step E nc acc)" for nc acc
    unfolding cron_step_def Let_def split_def by (intro keeps_steps labelled_step)
  moreover have "P w \<Longrightarrow> P (fold (stamp_run now) ns w)" for now ns w
    by (rule fold_keeps) (auto simp: stamp_run_def intro!: upd)
  ultimately show ?thesis unfolding run_cronjobs_def by (intro keeps_steps)
qed

lemma repos_step: "l_keeps P (watch_repos E)"
proof -
  have "l_keeps P (trigger_pipeline E p)" for p
    unfolding trigger_pipeline_def
  proof (intro keeps_steps)
    fix w assume "P w"
    then have "P (snd (start_pipeline (le_now E) (ae_millis (le_api E)) p w))" by (rule triggered)
    then show "l_keeps P (let (r, w') = start_pipeline (le_now E) (ae_millis (le_api E)) p w
        in l_do [l_world (\<lambda>_. w'), case r of Inr rid \<Rightarrow> l_log (''  [repo] triggered pipeline/'' @ p @ '' (run #'' @ show_word rid @ '')'')
                 | Inl e \<Rightarrow> l_log (''  [repo] trigger failed: '' @ e)])"
      unfolding Let_def split_def by (intro keeps_steps)
  qed
  then have "l_keeps P (repo_step E np)" for np
    unfolding repo_step_def by (auto intro!: keeps_steps upd split: option.splits)
  then show ?thesis unfolding watch_repos_def by (intro keeps_steps)
qed

end

context tick_invariant
begin

lemma set_stage_keeps: "P w \<Longrightarrow> P (set_stage i n st w)"
  unfolding set_stage_def by (rule runs)

lemma line_step: "l_keeps P (stage_line run n t)"
  unfolding stage_line_def by (intro keeps_steps)

lemma polls_step: "l_keeps P poll_builds"
proof -
  have "l_keeps P (poll_stage ir sd acc)" for ir sd acc
    unfolding poll_stage_def Let_def split_def by (auto intro!: keeps_steps split: build_poll.splits sum.splits)
  then have "l_keeps P (poll_run ir acc)" for ir acc
    unfolding poll_run_def by (intro keeps_steps)
  then show ?thesis unfolding poll_builds_def by (intro keeps_steps set_stage_keeps line_step)
qed

lemma apply_step: "l_keeps P (apply_resources E k rs)"
proof (induction rs arbitrary: k)
  case (Cons r rs)
  show ?case unfolding apply_resources.simps
  proof (rule l_keeps_with)
    fix w assume w: "P w"
    let ?a = "apply_resource (ae_yaml (le_api E)) serde_value (ae_machine (le_api E) k) r w"
    let ?f = "\<lambda>(res, w', es). l_bind (l_do [l_world (\<lambda>_. w'), l_for (\<lambda>e. l_act (Host e)) es,
        case res of Inr msg \<Rightarrow> l_log (''    '' @ tick_mark @ '' '' @ msg) | Inl e \<Rightarrow> l_log (''    '' @ cross_mark @ '' '' @ e)])
      (\<lambda>_. apply_resources E (Suc k) rs)"
    show "l_keeps P (l_bind (l_rust ?a) ?f)"
    proof (cases ?a)
      case (Ret x)
      then have "P (fst (snd x))" using applied[OF w] by (metis prod.collapse)
      then have "l_keeps P (?f x)" unfolding split_def by (intro keeps_steps Cons.IH)
      then show ?thesis by (simp add: Ret l_keeps_def l_bind_def l_rust_def)
    qed (simp add: l_keeps_def l_bind_def l_rust_def)
  qed
qed (simp add: keeps_steps)

lemma execute_step: "l_keeps P (execute_stage E M i run sd n)"
proof -
  have "l_keeps P (apply_stage E i run n path)" for path
    unfolding apply_stage_def by (intro keeps_steps line_step apply_step set_stage_keeps)
  moreover have "l_keeps P (begin_build E i run sd n)"
    unfolding begin_build_def Let_def split_def by (intro keeps_steps line_step set_stage_keeps)
  then have "l_keeps P (build_stage E i run sd n)"
    unfolding build_stage_def Let_def by (auto intro!: keeps_steps line_step set_stage_keeps split: build_poll.splits sum.splits)
  moreover have "l_keeps P (start_job E i run sd n job img)" for job img
    unfolding start_job_def by (intro keeps_steps line_step set_stage_keeps)
  then have "l_keeps P (matrix_job E M i run sd n b mi d)" for b mi d
    unfolding matrix_job_def Let_def by (intro keeps_steps)
  then have "l_keeps P (container_stage E M i run sd n)"
    unfolding container_stage_def Let_def by (intro keeps_steps line_step set_stage_keeps)
  ultimately show ?thesis unfolding execute_stage_def by (intro keeps_steps)
qed

lemma round_step: "l_keeps P (run_round E M i)"
proof -
  have s: "l_keeps P (skip_stage i run n why)" "l_keeps P (await_stage M i run n)" for run n why
    unfolding skip_stage_def await_stage_def Let_def by (auto simp del: l_do.simps intro!: keeps_steps line_step set_stage_keeps)
  have "l_keeps P (run_stage E M i run pl n)" for run pl n
    unfolding run_stage_def Let_def by (intro keeps_steps execute_step s)
  then show ?thesis unfolding run_round_def Let_def by (intro keeps_steps)
qed

lemma pipelines_step: "l_keeps P (run_pipelines E fuel M)"
proof -
  have "l_keeps P (run_from E M k i)" for k i
    by (induction k arbitrary: i) (auto intro!: keeps_steps round_step)
  then show ?thesis unfolding run_pipelines_def by (intro keeps_steps polls_step upd)
qed

lemma policies_step: "l_keeps P (enforce_network_policies E M)"
proof -
  have a: "l_keeps P (l_audit e)" for e unfolding l_audit_def by (intro keeps_steps upd)
  have "l_keeps P (announce_policy E p n)" for p n
    unfolding announce_policy_def Let_def by (intro keeps_steps a)
  moreover have "l_keeps P (allow_pod E p tx net c)" for p tx net c
    unfolding allow_pod_def by (intro keeps_steps a upd)
  then have "l_keeps P (allow_peer E p pods tx peer)" for p pods tx peer
    unfolding allow_peer_def Let_def by (intro keeps_steps)
  moreover have "l_keeps P (enforce_l4 E p c)" for p c
    unfolding enforce_l4_def Let_def by (intro keeps_steps upd)
  ultimately have "l_keeps P (enforce_policy E M p)" for p
    unfolding enforce_policy_def Let_def by (intro keeps_steps)
  moreover have "l_keeps P (report_threat E t)" for t
    unfolding report_threat_def by (intro keeps_steps a record_step)
  ultimately show ?thesis unfolding enforce_network_policies_def by (intro keeps_steps upd)
qed

lemma brain_steps: "l_keeps P (train_brain E M)" "l_keeps P (save_brain E)"
  unfolding train_brain_def save_brain_def Let_def by (intro keeps_steps)+

lemma flush_step: "l_keeps P (flush_events E)"
  unfolding flush_events_def by (intro keeps_steps record_step)

lemma start_steps: "l_keeps P (ensure_ca E)" "l_keeps P (ensure_networks E)" "l_keeps P (expire_certs E)"
  unfolding ensure_ca_def ensure_networks_def expire_certs_def
  by (auto simp del: l_do.simps intro!: keeps_steps record_step upd split: sum.splits)

theorem tick_keeps: "l_keeps P (reconcile_docker E fuel)"
proof -
  have "l_keeps P (reconcile_managed E fuel M)" for M
    unfolding reconcile_managed_def
    by (intro keeps_steps scale_step rollout_steps strategies_step health_step nodes_step anomalies_step operators_step pauses_step
        workloads_step autoscale_step cron_step repos_step pipelines_step flush_step policies_step brain_steps)
  then show ?thesis unfolding reconcile_docker_def by (intro keeps_steps start_steps)
qed

end

subsection \<open>Well-formedness\<close>

lemma check_node_health_ok: "world_ok w \<Longrightarrow> world_ok (fst (check_node_health me now w))"
proof -
  assume w: "world_ok w"
  have "keyed cn_name (nodes (fst (check_node_health me now w)))"
  proof (rule keyedI)
    show "hm_ok (nodes (fst (check_node_health me now w)))"
      using world_ok_keyed(17)[OF w] by (auto simp: check_node_health_def hm_ok_def keyed_def comp_def if_distrib cong: if_cong)
    show "cn_name v = k" if "hm_get (nodes (fst (check_node_health me now w))) k = Some v" for k v
      using that world_ok_keyed(17)[OF w]
      by (auto simp: check_node_health_get[OF keyed_ok[OF world_ok_keyed(17)[OF w]]] dest: keyed_get split: if_splits)
  qed
  with w show ?thesis by (simp add: check_node_health_def)
qed

lemma world_ok_tick_fields:
  "world_ok w \<Longrightarrow> world_ok (w\<lparr>restart_count := rc\<rparr>)" "world_ok w \<Longrightarrow> world_ok (w\<lparr>startup_ok := su\<rparr>)"
  "world_ok w \<Longrightarrow> world_ok (w\<lparr>netpol_applied := ms\<rparr>)" "world_ok w \<Longrightarrow> world_ok (w\<lparr>cluster_ca := ca\<rparr>)"
  "world_ok w \<Longrightarrow> world_ok (w\<lparr>pod_certs := pcs\<rparr>)" "world_ok w \<Longrightarrow> world_ok (w\<lparr>network_audit := au\<rparr>)"
  "world_ok w \<Longrightarrow> world_ok (w\<lparr>net_tracker := tr\<rparr>)" "world_ok w \<Longrightarrow> world_ok (w\<lparr>pipeline_runs := rs\<rparr>)"
  "world_ok w \<Longrightarrow> world_ok (w\<lparr>pending_rollouts := filter q (pending_rollouts w)\<rparr>)"
  by (auto simp: world_ok_def hm_ok_def intro: distinct_map_filter)

interpretation ok: tick_invariant world_ok E for E :: "('y, 's) loop_env"
proof (unfold_locales, goal_cases)
  case (10 w q)
  then show ?case by (rule world_ok_tick_fields)
next
  case (17 w up run lg es w' lg' es')
  then show ?case using reconcile_crs_ok[of "(w, lg, es)"] unfolding reconcile_operators_def by fastforce
next
  case (20 w M r res w' es)
  then show ?case using arm_okD[OF apply_resource_arm] by blast
qed (simp_all add: world_ok_record_event world_ok_tick_fields world_ok_keyed keyed_modify check_node_health_ok count_call_ok world_ok_start_pipeline)

text \<open>
  One tick of the reconcile loop leaves the world well formed, whatever the engine, the peers, the clock and the probes answer, and also when the tick panics
  halfway.
\<close>

lemma tick_world_ok:
  assumes "world_ok (lp_world s)"
  shows "world_ok (lp_world (snd (reconcile_docker E fuel s)))"
  using ok.tick_keeps[of E fuel] assms unfolding l_keeps_def by (metis prod.collapse)

end
