(* ===== verification/Recon_Samples.thy ===== *)
theory Recon_Samples
  imports Recon_Props Recon_Laws Api_Samples Brain_Props
begin

text \<open>
  A small instance of the machine a tick runs on, with an engine that cannot be reached and keeps the requests it was sent; the properties of the tick are
  evaluated on it.
\<close>

definition no_engine :: "unit exchange" where
  "no_engine = (\<lambda>e q. (Connect_error ''no engine'', e))"

definition small_loop_api :: "(doc, string list \<times> unit) api_env" where
  "small_loop_api =
     \<lparr>ae_exch = logged no_engine, ae_containers = \<lambda>q. Inr [], ae_json = \<lparr>jt_parse = \<lambda>s. Inr sample_doc, jt_print = \<lambda>v. ''{}''\<rparr>, ae_pretty = \<lambda>v. ''{}'',
      ae_yaml = small_yaml, ae_yaml_value = \<lambda>s. None, ae_yaml_text = \<lambda>v. Inr ''ns'', ae_lower = \<lambda>s. s,
      ae_machine = \<lambda>i. \<lparr>mc_containers = \<lambda>n. None, mc_neuropod = \<lambda>n i d m. Inl ''no neuropod''\<rparr>, ae_emb = sample_emb, ae_aes = sample_aes,
      ae_key = ''key'', ae_nonce = sample_nonce, ae_disk = good_disk,
      ae_clock = 100, ae_millis = 100000, ae_var = \<lambda>v. None, ae_os = ''linux'', ae_arch = ''x86_64'', ae_neuropods = [], ae_pod_meta = \<lambda>p. False,
      ae_sample = \<lambda>p. Inl ''no'', ae_lag = \<lambda>n. n, ae_took = Zero False, ae_leader_or_off = True, ae_raft_leader = None,
      ae_net = \<lambda>h q. Inl ''unreachable''\<rparr>"

definition small_rcgen :: "(string, string, string) rcgen_ops" where
  "small_rcgen = \<lparr>rc_params_new = \<lambda>names. Inr (concat names), rc_pod_config = \<lambda>a b p. p, rc_ca_config = \<lambda>p. p, rc_key_generate = Inr ''key'',
     rc_key_from_pem = \<lambda>s. Inr s, rc_key_pem = \<lambda>k. k, rc_self_signed = \<lambda>p k. Inr p, rc_signed_by = \<lambda>p k c ck. Inr p, rc_cert_pem = \<lambda>c. c\<rparr>"

definition small_loop_env :: "(doc, string list \<times> unit) loop_env" where
  "small_loop_env =
     \<lparr>le_api = small_loop_api, le_nn = small_nn, le_rcgen = small_rcgen, le_hmac = \<lambda>k m. m, le_stats = [], le_upper = \<lambda>s. s,
      le_run = \<lambda>c args. Inl ''no program'', le_read = \<lambda>p. Inl ''no file'', le_exists = \<lambda>p. False, le_git = \<lambda>d args. Inl ''no git'',
      le_hostname = None, le_weights_saved = False\<rparr>"

definition small_loop :: "json desired_world \<Rightarrow> (string list \<times> unit) loop" where
  "small_loop w = \<lparr>lp_world = w, lp_log = [], lp_events = [], lp_brain = small_brain,
     lp_builds = \<lparr>build_jobs = [], build_slots = [], build_threads = []\<rparr>, lp_acts = [], lp_engine = ([], ())\<rparr>"

lemma small_loop_fields [simp]: "le_exch small_loop_env = logged no_engine" "lp_world (small_loop w) = w" "lp_engine (small_loop w) = ([], ())"
  by (simp_all add: small_loop_env_def small_loop_api_def small_loop_def)

lemma no_engine_request: "docker_request (logged no_engine) m p b st = call_fail ''Cannot connect to Docker: no engine. Is Docker running?'' (fst st @ [http_request m p b], snd st)"
  by (simp add: docker_request_def logged_def no_engine_def)

lemma no_engine_stop_remove:
  "l_call (stop_container (logged no_engine) i) s =
     (Ret (Inl ''Cannot connect to Docker: no engine. Is Docker running?''), s\<lparr>lp_engine := (fst (lp_engine s) @ [stop_request i], snd (lp_engine s))\<rparr>)"
  "l_call (remove_container (logged no_engine) i True) s =
     (Ret (Inl ''Cannot connect to Docker: no engine. Is Docker running?''), s\<lparr>lp_engine := (fst (lp_engine s) @ [remove_request i], snd (lp_engine s))\<rparr>)"
  by (simp_all add: l_call_def stop_container_def remove_container_def try_call_def on_result_def no_engine_request call_fail_def stop_request_def remove_request_def)

lemmas step_simps = l_bind_def l_ret_def l_log_def l_event_def l_put_def l_world_def l_record_def l_try_def no_engine_stop_remove

definition web_pods :: "docker_container list" where
  "web_pods = [container_named ''/rk-web-1'', container_named ''/rk-web-2'', container_named ''/rk-web-3'']"

lemma small_scale_down_returns:
  "\<exists>s'. scale_down small_loop_env web_pods ''web'' (sample_deployment ''web'' None) (count32 web_pods) s = (Ret (), s')"
  by (simp add: scale_down_def victims_def web_pods_def count32_def sample_deployment_def Let_def step_simps)

theorem scale_down_exact_witness:
  "\<exists>vs s'. scale_down small_loop_env web_pods ''web'' (sample_deployment ''web'' None) (count32 web_pods) (small_loop world_new) = (Ret (), s')
     \<and> length vs = 1 \<and> sent s' = removals vs"
proof -
  let ?s = "small_loop world_new"
  obtain s' where s': "scale_down small_loop_env web_pods ''web'' (sample_deployment ''web'' None) (count32 web_pods) ?s = (Ret (), s')"
    using small_scale_down_returns by blast
  have "d_replicas (sample_deployment ''web'' None) < count32 web_pods" "length web_pods < 2 ^ 32"
    by (simp_all add: sample_deployment_def count32_def web_pods_def)
  from scale_down_exact[OF small_loop_fields(1) this s'] obtain vs rest where
    v: "mset web_pods = mset vs + mset rest" "length rest = 2" "sent s' = sent ?s @ removals vs"
    by (auto simp: sample_deployment_def)
  have "length web_pods = length vs + length rest" using v(1) by (metis size_mset size_union)
  then show ?thesis using s' v by (auto simp: web_pods_def)
qed

subsection \<open>A rolling update\<close>

definition web_rollout :: rollout_state where
  "web_rollout = \<lparr>ro_old_image = ''nginx'', ro_new_image = ''nginx:2'', ro_total_replicas = 2, ro_old_pods = [], ro_new_pods_created = 0\<rparr>"

definition probed_deployment :: stored_deployment where
  "probed_deployment = (sample_deployment ''web'' None)\<lparr>d_containers := [sample_container\<lparr>sc_readiness_probe :=
     Some \<lparr>pb_http_get = None, pb_exec = Some [''true''], pb_initial_delay_seconds = 0, pb_period_seconds = 1, pb_failure_threshold = 3\<rparr>\<rparr>]\<rparr>"

definition rollout_world :: "json desired_world" where
  "rollout_world = world_new\<lparr>deployments := [(''web'', probed_deployment)], pending_rollouts := [(''web'', web_rollout)]\<rparr>"

lemma rollout_world_gets: "hm_get (pending_rollouts rollout_world) ''web'' = Some web_rollout" "hm_get (deployments rollout_world) ''web'' = Some probed_deployment"
  by (simp_all add: rollout_world_def hm_get_def)

lemma web_images:
  "normalize_image ''nginx'' = ''nginx:latest''" "normalize_image ''nginx:2'' = ''nginx:2''"
  by code_simp+

lemma unreachable_never_ready:
  assumes "c \<in> set (take 1 (d_containers probed_deployment))"
  shows "fst (rollout_ready small_loop_env cid c s) \<noteq> Ret True"
proof -
  let ?p = "\<lparr>pb_http_get = None, pb_exec = Some [''true''], pb_initial_delay_seconds = 0, pb_period_seconds = 1, pb_failure_threshold = 3\<rparr> :: stored_probe"
  have "\<exists>s'. check_probe small_loop_env i ?p t = (Ret False, s')" for i t
    by (simp add: check_probe_def exec_in_container_def create_exec_def try_call_def on_result_def no_engine_request call_fail_def l_call_def l_bind_def l_ret_def)
  then have "\<exists>r s'. probe_tries small_loop_env k cid ?p t = (r, s') \<and> r \<noteq> Ret True" for k t
  proof (induction k arbitrary: t)
    case (Suc k)
    show ?case
    proof (cases "head12 cid")
      case (Ret short)
      obtain s' where "check_probe small_loop_env short ?p t = (Ret False, s')" using Suc.prems by blast
      then show ?thesis using Suc.IH[OF Suc.prems, of s'] by (simp add: l_bind_def l_rust_def Ret)
    qed (simp add: l_bind_def l_rust_def)
  qed (simp add: l_ret_def)
  then have "fst (probe_tries small_loop_env k cid ?p t) \<noteq> Ret True" for k t by (metis fst_conv)
  moreover have "sc_readiness_probe c = Some ?p" using assms by (simp add: probed_deployment_def)
  ultimately show ?thesis by (simp add: rollout_ready_def)
qed

theorem unready_rollout_keeps_old_witness:
  "\<exists>line. rollout_step small_loop_env web_pods ''web'' (small_loop rollout_world) =
     l_bind (l_log line) (\<lambda>_. rollout_create small_loop_env web_pods [] ''web'' probed_deployment web_rollout) (small_loop rollout_world)"
proof -
  have "count32 (running_images ''web'' (ro_new_image web_rollout) web_pods) < ro_total_replicas web_rollout"
    "length web_pods + unat (ro_total_replicas web_rollout) < 2 ^ 32"
    by (simp_all add: web_rollout_def web_pods_def running_images_def container_named_def web_images count32_def)
  note unready_rollout_keeps_old[where s = "small_loop rollout_world" and E = small_loop_env, OF _ _ this, of probed_deployment]
  then show ?thesis using unreachable_never_ready rollout_world_gets by (intro exI) simp
qed

definition new_web_pods :: "docker_container list" where
  "new_web_pods = container_named ''/rk-web-1'' # map (\<lambda>c. c\<lparr>dc_image := ''nginx:2''\<rparr>) [container_named ''/rk-web-2'', container_named ''/rk-web-3'']"


subsection \<open>A network policy\<close>

definition web_policy :: stored_network_policy where
  "web_policy = \<lparr>np_name = ''web'', np_namespace = ''default'', np_pod_selector = ''web'', np_ingress_allow = [], np_egress_allow = [], np_ingress_ports = [],
     np_egress_ports = [443], np_internal = False, np_mtls_required = False, np_deny_all = False\<rparr>"

theorem l4_rules_enforce_witness:
  "verdict \<lparr>pk_iface = ''eth0'', pk_state = ''NEW'', pk_proto = ''tcp'', pk_dport = 443\<rparr> (filter_chain [] (l4_rules web_policy)) = ''ACCEPT''
   \<and> verdict \<lparr>pk_iface = ''eth0'', pk_state = ''NEW'', pk_proto = ''tcp'', pk_dport = 80\<rparr> (filter_chain [] (l4_rules web_policy)) = ''DROP''"
  using l4_rules_enforce[of web_policy _ "[]"] by (simp add: needs_l4_def web_policy_def)

end
