(* ===== verification/Spec2Isabelle.thy ===== *)
theory Spec2Isabelle
  imports Apply_Props World_Props Operators Scaling Cluster Neural_State Mesh Traffic Raft_Store
    Docker_Props State_Props Sync_Props Openapi Api_Samples Brain_Props Recon_Samples
begin

text \<open>
  \<^bold>\<open>royak: a container orchestrator in one binary.\<close>

  This development models the decision logic of royak as executable HOL functions and proves what makes it
  correct. File and function names below are those of the repository under \<^verbatim>\<open>src/src/\<close>.

  \<^bold>\<open>The program.\<close> A node keeps the cluster's desired state in one value, \<^verbatim>\<open>DesiredWorld\<close>
  (\<^verbatim>\<open>reconcile.rs\<close>). Manifests (\<^verbatim>\<open>spec.rs\<close>) are applied to it by the HTTP API (\<^verbatim>\<open>api.rs\<close>), by the
  command line, or by replicated commands (\<^verbatim>\<open>raft_node.rs\<close>, \<^verbatim>\<open>consensus.rs\<close>). A reconcile loop compares it
  with the containers of the engine (\<^verbatim>\<open>docker.rs\<close>, \<^verbatim>\<open>runtime.rs\<close>, \<^verbatim>\<open>microvm.rs\<close>), and operators, autoscalers and
  scheduling act on it. \<^verbatim>\<open>main.rs\<close> saves and restores it, through \<^verbatim>\<open>neural_state.rs\<close>, a key-value store over
  embeddings. Traffic goes through \<^verbatim>\<open>servicelb.rs\<close> and \<^verbatim>\<open>cluster_mesh.rs\<close> (encrypted by \<^verbatim>\<open>mesh_crypto.rs\<close>, recorded by
  \<^verbatim>\<open>flows.rs\<close>), and \<^verbatim>\<open>net_security.rs\<close> issues pod identities.

  \<^bold>\<open>Conventions.\<close> Strings are byte lists holding UTF-8. A value of type \<open>'a rust\<close> is \<open>Ret x\<close> or
  \<open>Panic\<close>; a Rust \<^verbatim>\<open>Result\<close> is a sum with the error on the left. Integers keep their width as words.
  A \<^verbatim>\<open>HashMap\<close> is an association list without duplicate keys (\<open>hmap\<close>): its order stands for the unspecified
  iteration order, and statements hold for every order. A \<^verbatim>\<open>BTreeMap\<close> and a JSON object are sorted lists.
  Single-precision numbers are bit patterns with exact rational rounding (\<open>Float32\<close>). Code outside the
  repository (the YAML and JSON libraries, HMAC, AES-GCM, certificate generation, clocks, files, the engine's answers)
  is a parameter; the theorems that need it state what they rely on.

  \<^bold>\<open>The theories.\<close>
  \<^item> \<open>Royak_Prelude\<close>, \<open>Rust_Str\<close>, \<open>Bytes\<close>, \<open>Float32\<close>: maps, results, strings, byte codecs with the
    locale \<open>frame_stream\<close> for length-prefixed streams, and floating point.
  \<^item> \<open>Spec_Types\<close> (\<^verbatim>\<open>spec.rs\<close>), \<open>World\<close> and \<open>World_Ops\<close> (\<^verbatim>\<open>reconcile.rs\<close>): manifests, stored resources, the
    world, deletion, quota, RBAC, events, pipelines. \<open>World_Props\<close>: deletion cascades and releases exactly what it should;
    quota admission is exact.
  \<^item> \<open>Apply_Workload\<close>, \<open>Apply_Config\<close>, \<open>Apply_Storage\<close>, \<open>Apply_Policy\<close>, \<open>Apply\<close>: one definition per arm of
    \<^verbatim>\<open>apply\<close>. \<open>Apply_Props\<close>: applying is atomic, panics exactly on an empty container list of three kinds, binds
    volumes exclusively, grants roles exactly, mounts only safe sources, and rolls out exactly on an image change.
  \<^item> \<open>Operators\<close>, \<open>Scaling\<close>, \<open>Cluster\<close>: operators converge, autoscaling is bounded, StatefulSets start in order,
    leases are apart, scheduling is optimal, merging a peer keeps local resources.
  \<^item> \<open>Net_Security\<close>, \<open>Base64\<close>: pod tokens are accepted exactly when they carry their own signature; codecs.
  \<^item> \<open>Neural_State\<close>: the store refines a finite map and its file round-trips.
  \<^item> \<open>State_Save\<close>, \<open>State_Load\<close> (\<^verbatim>\<open>main.rs\<close>) with \<open>Json\<close>: the saved document, section by section, and its reader.
    \<open>State_Props\<close>: a restart restores exactly \<open>persisted\<close> of the saved world, and is stable from then on; a failed
    neural write makes a restart go back in time.
  \<^item> \<open>Mesh\<close>, \<open>Traffic\<close>: encrypted framing survives every cut of the stream, routing prefers local pods and does not
    loop, handed-over requests reach their pod, the flow ring holds the latest flows.
  \<^item> \<open>Raft_Store\<close>: the log laws, agreement of replicas, and the no-op of a replicated delete by kind.
  \<^item> \<open>Api_Text\<close>, \<open>Calendar\<close>, \<open>Ws_Channel\<close> (\<^verbatim>\<open>api.rs\<close>): path, role and token helpers, the leader gate, dates
    against the Gregorian calendar, SHA-1, WebSocket frames and the exec and port-forward channels. \<open>Json\<close> also has the
    strategic merge of patches.
  \<^item> \<open>Docker_Client\<close>, \<open>Docker_Props\<close> (\<^verbatim>\<open>docker.rs\<close>): every request as a function on an abstract engine state, the reply
    decoders, exec, logs, builds and the statistics cache.
  \<^item> \<open>Openapi\<close>, \<open>Api_State\<close>, \<open>Api_Views\<close>, \<open>Functions\<close>, \<open>Api_Routes\<close>, \<open>Api_Handler\<close> (\<^verbatim>\<open>api.rs\<close>, \<^verbatim>\<open>invoke_function\<close> of
    \<^verbatim>\<open>reconcile.rs\<close>): the discovery and OpenAPI documents, the state the handlers share (the world behind a lock that a panic
    poisons, the resource version, the saved files, the engine), the documents of every resource, the watch task, every arm
    of \<^verbatim>\<open>route_request\<close> in its order, and \<^verbatim>\<open>handle_request\<close> with authentication, the leader gate, admission and the panic boundary.
    \<open>Api_Laws\<close> lifts invariants through the handlers (locale \<open>observer\<close>); \<open>Api_Props\<close>: followers do not diverge, reads do not write,
    the world stays well formed, an acknowledged write survives a restart, the demo stays in its sandbox, and where the gate, the lock and the watch fail;
    \<open>Api_Samples\<close> runs them on a small server.
  \<^item> \<open>State_Sync\<close>, \<open>Sync_Props\<close>: \<^verbatim>\<open>export_state\<close> and what a peer gets of it.
  \<^item> \<open>Float_Bits\<close>, \<open>Brain\<close>, \<open>Brain_Props\<close> (\<^verbatim>\<open>brain.rs\<close>): the network, one tick with its decisions, metric histories with anomaly
    detection and load prediction, identities and keys, training and the weights file; the numeric library's inner product, sum, square root and
    sine are parameters. A tick decides by its rules, histories are sliding windows, both ends of a channel derive one key, and the
    weights survive their file.
  \<^item> \<open>Recon_Base\<close>, \<open>Recon_Pods\<close>, \<open>Recon_Rollout\<close>, \<open>Recon_Work\<close>, \<open>Recon_Pipeline\<close>, \<open>Recon_Tick\<close> (\<^verbatim>\<open>reconcile_with_runtime\<close> and
    \<^verbatim>\<open>enforce_network_policies\<close> of \<^verbatim>\<open>reconcile.rs\<close>): one tick of the reconcile loop with the Docker engine, as steps on a state that
    has the world, the log, the events put off, the brain, the build table and the engine; scaling, rolling updates, probes, anomalies and guards,
    hibernation, jobs, autoscaling, repositories, pipelines, network policies, training. \<open>Recon_Laws\<close> lifts invariants of the world through the tick (locale
    \<open>tick_invariant\<close>); \<open>Recon_Props\<close>: new pods get free names, scaling down removes exactly the excess, an unready rolling update keeps the old
    pods, packet filters do what the policy says; \<open>Recon_Samples\<close> runs them on a small machine.
  \<^item> \<open>Sample_Values\<close>: concrete instances of the parameters for the witnesses.

  \<^bold>\<open>Interfaces.\<close> \<open>frame_stream\<close> (a prefix-decodable frame format) is interpreted on the mesh frames and on the
  engine's log frames; \<open>observer\<close> (a predicate on the server state that engine calls, caches and the flow log do not touch) on the
  cluster state, on world well-formedness and on membership of the world in a set; \<open>tick_invariant\<close> (a predicate on the world that each kind of
  update of a tick keeps) on well-formedness; \<open>state_op\<close> (operations keep an invariant) on the build table and the other components with a state
  invariant; the keyed-map and ordered-map locales on the maps of the world.

  \<^bold>\<open>Loops and fuel.\<close> All loops are total functions with a measure, except \<open>wait_stopped\<close> and \<open>chunks\<close>, whose
  fuel is the number of polls and of blocks in the source, and \<open>run_from\<close>, the loop over the pipeline runs, which gets fuel and says whether it ended. Requests of the API run one after the other: interleavings inside one handler
  are not modelled.

  \<^bold>\<open>Not modelled.\<close> The socket tasks of the API, the mesh and the balancer (asynchronous I/O), the
  HTTP transport and openraft itself, process and virtual machine management (\<^verbatim>\<open>runtime.rs\<close>, \<^verbatim>\<open>microvm.rs\<close>), the double-precision statistics readers of \<^verbatim>\<open>docker.rs\<close>, the ingress proxy of
  \<^verbatim>\<open>api.rs\<close>, the reconcile loop around the tick, and the command line's printing.
\<close>

subsection \<open>Reachable worlds\<close>

text \<open>
  The worlds a node can get to from an empty one: manifests are applied and resources deleted, events are
  recorded, pipelines started, peers answer heartbeats, the local node registers, replicated commands are applied, the API answers
  requests and the reconcile loop ticks. The surroundings (\<open>As\<close> of the server, \<open>Ls\<close> of the loop) may differ in every step.
\<close>

inductive reachable :: "('y, 's) api_env set \<Rightarrow> ('y, 's) loop_env set \<Rightarrow> json desired_world \<Rightarrow> bool" for As Ls where
  start: "reachable As Ls world_new"
| applied: "reachable As Ls w \<Longrightarrow> A \<in> As \<Longrightarrow> apply_resource (ae_yaml A) serde_value M r w = Ret (res, w', es) \<Longrightarrow> reachable As Ls w'"
| deleted: "reachable As Ls w \<Longrightarrow> delete_resource ty n w = (b, w', es) \<Longrightarrow> reachable As Ls w'"
| noted: "reachable As Ls w \<Longrightarrow> reachable As Ls (record_event now k ob re msg ty w)"
| triggered: "reachable As Ls w \<Longrightarrow> start_pipeline now i n w = (res, w') \<Longrightarrow> reachable As Ls w'"
| beat: "reachable As Ls w \<Longrightarrow> reachable As Ls (send_heartbeats me now post_ok w)"
| registered: "reachable As Ls w \<Longrightarrow> reachable As Ls (register_local_node me addr mem token now w)"
| replicated: "reachable As Ls w \<Longrightarrow> A \<in> As \<Longrightarrow> apply_command (ae_yaml A) serde_value M ay cmd w = Ret (msg, w', es) \<Longrightarrow> reachable As Ls w'"
| served: "reachable As Ls (api_world s) \<Longrightarrow> A \<in> As \<Longrightarrow> \<not> state_sync rq \<Longrightarrow> reachable As Ls (api_world (snd (handle_request A rq s)))"
| ticked: "reachable As Ls (lp_world l) \<Longrightarrow> E \<in> Ls \<Longrightarrow> reachable As Ls (lp_world (snd (reconcile_docker E fuel l)))"

inductive_cases reachableE: "reachable As Ls w"

lemma send_heartbeats_ok: "world_ok w \<Longrightarrow> world_ok (send_heartbeats me now post_ok w)"
proof -
  have "world_ok (fold (\<lambda>(name, addr) w. if post_ok name addr
             then w\<lparr>nodes := hm_modify name (\<lambda>n. n\<lparr>cn_last_heartbeat := now, cn_status := NodeReady\<rparr>) (nodes w)\<rparr>
             else w) ps w)" if "world_ok w" for ps and w :: "'a desired_world"
    using that
  proof (induction ps arbitrary: w)
    case (Cons p ps)
    have "world_ok (w\<lparr>nodes := hm_modify (fst p) (\<lambda>n. n\<lparr>cn_last_heartbeat := now, cn_status := NodeReady\<rparr>) (nodes w)\<rparr>)"
      using Cons.prems by (simp add: world_ok_keyed keyed_modify)
    with Cons show ?case by (simp add: split_def)
  qed simp
  then show "world_ok w \<Longrightarrow> ?thesis" by (simp add: send_heartbeats_def)
qed

lemma apply_command_ok:
  "world_ok w \<Longrightarrow> apply_command Y J M ay cmd w = Ret (msg, w', es) \<Longrightarrow> world_ok w'"
  by (auto simp: apply_command_def rust_bind_eq_Ret dest: run_command_ok)

lemma reachable_world_ok: "reachable As Ls w \<Longrightarrow> world_ok w"
proof (induction rule: reachable.induct)
  case (applied w A M r res w' es)
  then show ?case using arm_okD[OF apply_resource_arm] by blast
next
  case (deleted w ty n b w' es)
  then show ?case using delete_resource_ok[of w ty n] by simp
next
  case (triggered w now i n res w')
  then show ?case using world_ok_start_pipeline[of w now i n] by simp
next
  case (replicated w A M ay cmd msg w' es)
  then show ?case using apply_command_ok by blast
next
  case (served s A rq)
  then show ?case using keepsD[OF wok_handle[of rq A], of s] by (simp add: state_sync_def)
next
  case (ticked l E fuel)
  then show ?case by (intro tick_world_ok)
qed (auto simp: world_ok_new world_ok_record_event send_heartbeats_ok register_local_node_def world_ok_keyed)

subsection \<open>Properties across components\<close>

text \<open>
  C1: Every world a node can get to is well formed, in whatever order manifests, deletions, API requests, reconcile ticks, replicated
  commands, heartbeats and events come and whatever the engine, the peers and the clock answer: each resource is stored under its own name in
  maps without duplicate keys, namespaces and ingress classes are without duplicates, and the event log is bounded and has one entry per object
  and reason.
\<close>

theorem reachable_well_formed:
  assumes "reachable As Ls w"
  shows "world_ok w"
  by (rule reachable_world_ok[OF assms])

theorem reachable_well_formed_witness:
  "world_ok (lp_world (snd (reconcile_docker small_loop_env 3 (small_loop (record_event 9 ''Pod'' ''web'' ''Started'' ''up'' ''Normal'' world_new)))))"
proof -
  let ?w = "record_event 9 ''Pod'' ''web'' ''Started'' ''up'' ''Normal'' world_new"
  have "reachable {} {small_loop_env} (lp_world (small_loop ?w))" by (simp add: reachable.noted reachable.start)
  from reachable_well_formed[OF reachable.ticked[OF this, of small_loop_env 3]] show ?thesis by simp
qed

text \<open>
  In every reachable world, deleting a custom resource leaves no orphan: afterwards no deployment is
  owned by it, and every deployment it did not own is still there unchanged.\<close>

theorem reachable_delete_leaves_no_orphans:
  assumes "reachable As Ls w" and "hm_contains (custom_resources w) cr"
    and "delete_resource ''customresources'' cr w = (b, w', es)"
  shows "(\<forall>k d. hm_get (deployments w') k = Some d \<longrightarrow> d_owner_ref d \<noteq> Some cr)
    \<and> (\<forall>k d. hm_get (deployments w) k = Some d \<and> d_owner_ref d \<noteq> Some cr \<longrightarrow> hm_get (deployments w') k = Some d)"
proof -
  have "delete_custom_resource cr w = (b, w', es)"
    using assms(3) by (simp add: delete_resource_def delete_arms_def)
  note d = delete_custom_resource_deployments[OF world_ok_keyed(1)[OF reachable_world_ok[OF assms(1)]] assms(2) this]
  show ?thesis by (auto simp: d split: option.splits if_splits)
qed

text \<open>
  The load balancer and the container publisher agree: the target port of every balancer
  specification with a backend deployment is among the ports published for that deployment.\<close>

theorem lb_targets_are_published:
  assumes "spec \<in> set (lb_specs w)" and "lb_deployment spec \<noteq> []"
  shows "lb_target_port spec \<in> set (nodeport_publish_ports w (lb_deployment spec))"
proof -
  from assms(1) obtain s where s: "s \<in> set (hm_values (services w))"
    "svc_service_type s \<in> {''NodePort'', ''LoadBalancer''}" and sp: "spec \<in> set (lb_specs_of s)"
    by (auto simp: lb_specs_def)
  from sp obtain p where p: "p \<in> set (svc_ports s)" "lb_target_port spec = sp_target_port p"
    "lb_deployment spec = unwrap_or (hm_get (svc_selector s) ''app'') []"
    by (auto simp: lb_specs_of_def set_filter_map split: if_splits)
  from p(3) assms(2) have "hm_get (svc_selector s) ''app'' = Some (lb_deployment spec)"
    by (cases "hm_get (svc_selector s) ''app''") auto
  with s p(1,2) show ?thesis unfolding nodeport_publish_ports_set by (intro bexI[of _ s]) auto
qed

end
